(* ===== verification/Go_Prelude.thy ===== *)
theory Go_Prelude
  imports Complex_Main "HOL-Library.Word" "HOL-Library.Char_ord" "HOL-Library.List_Lexorder"
begin

text \<open>
  Shared ground of the development: the Go types and the functions of Go's
  standard library that the SDK's own code calls (packages strings, strconv,
  encoding/hex, net/http header keys), with the generic lemmas the component
  theories use.

  A Go string or []byte is a HOL string, one char per byte.  int64 and the
  types built on it (time.Duration, atomefin.Amount) are 64-bit words compared
  through sint; a Go int that the code never drives near its limits is an int.
  A Go map is an association list with distinct keys, so that the arbitrary
  iteration order of a map is the order of the list.
\<close>

named_theorems result_simps \<open>how the result and validation combinators fail or succeed\<close>
named_theorems string_simps \<open>evaluation rules for the string functions of Go\<close>

section \<open>Types\<close>

type_synonym bytes = string
type_synonym int64 = "64 word"
type_synonym duration = "64 word"
type_synonym header = "(string \<times> string list) list"
type_synonym url_values = "(string \<times> string list) list"

text \<open>A value of Go's \<open>any\<close>, as far as json.Unmarshal can produce it.\<close>

datatype json =
    JNull
  | JBool bool
  | JNumber string
  | JString string
  | JArray "json list"
  | JObject "(string \<times> json) list"

abbreviation max_int64 :: int where
  "max_int64 \<equiv> 2 ^ 63 - 1"

abbreviation nanosecond :: int64 where "nanosecond \<equiv> 1"
abbreviation millisecond :: int64 where "millisecond \<equiv> 1000000"
abbreviation second :: int64 where "second \<equiv> 1000000000"

section \<open>Results\<close>

text \<open>A Go function that returns (value, error): \<open>Inl e\<close> when the error is not nil.\<close>

fun rbind :: "'e + 'a \<Rightarrow> ('a \<Rightarrow> 'e + 'b) \<Rightarrow> 'e + 'b" where
  "rbind (Inl e) f = Inl e"
| "rbind (Inr x) f = f x"

fun of_check :: "'e option \<Rightarrow> 'a \<Rightarrow> 'e + 'a" where
  "of_check (Some e) x = Inl e"
| "of_check None x = Inr x"

text \<open>A sequence of guards: the first one that fails is returned.\<close>

fun first_error :: "'e option list \<Rightarrow> 'e option" where
  "first_error [] = None"
| "first_error (Some e # es) = Some e"
| "first_error (None # es) = first_error es"

definition fail_if :: "bool \<Rightarrow> 'e \<Rightarrow> 'e option" where
  "fail_if b e = (if b then Some e else None)"

lemma rbind_Inr_iff [result_simps]: "rbind m f = Inr y \<longleftrightarrow> (\<exists>x. m = Inr x \<and> f x = Inr y)"
  by (cases m) auto

lemma rbind_Inl_iff [result_simps]:
  "rbind m f = Inl e \<longleftrightarrow> m = Inl e \<or> (\<exists>x. m = Inr x \<and> f x = Inl e)"
  by (cases m) auto

lemma of_check_Inr_iff [result_simps]: "of_check c x = Inr y \<longleftrightarrow> c = None \<and> x = y"
  by (cases c) auto

lemma of_check_Inl_iff [result_simps]: "of_check c x = Inl e \<longleftrightarrow> c = Some e"
  by (cases c) auto

lemma fail_if_None_iff [result_simps]: "fail_if b e = None \<longleftrightarrow> \<not> b"
  by (simp add: fail_if_def)

lemma fail_if_Some_iff [result_simps]: "fail_if b e = Some e' \<longleftrightarrow> b \<and> e = e'"
  by (simp add: fail_if_def)

lemma first_error_Cons [result_simps]:
  "first_error (c # cs) = (case c of Some e \<Rightarrow> Some e | None \<Rightarrow> first_error cs)"
  by (cases c) auto

lemma first_error_None_iff: "first_error cs = None \<longleftrightarrow> (\<forall>c \<in> set cs. c = None)"
proof (induction cs)
  case (Cons c cs)
  then show ?case by (cases c) auto
qed simp

lemma first_error_append:
  "first_error (as @ bs) = (case first_error as of Some e \<Rightarrow> Some e | None \<Rightarrow> first_error bs)"
proof (induction as)
  case (Cons a as)
  then show ?case by (cases a) auto
qed simp

lemma first_error_Some_mem: "first_error cs = Some e \<Longrightarrow> Some e \<in> set cs"
proof (induction cs)
  case (Cons c cs)
  then show ?case by (cases c) auto
qed simp

section \<open>Bytes and characters\<close>

abbreviation code :: "char \<Rightarrow> nat" where
  "code c \<equiv> of_char c"

lemma char_of_inject_iff: "m < 256 \<Longrightarrow> n < 256 \<Longrightarrow> (char_of m :: char) = char_of n \<longleftrightarrow> m = (n :: nat)"
  by (metis of_char_of mod_less)

lemma char_eq_code_iff: "c = d \<longleftrightarrow> code c = code d"
  by (metis char_of_char)

section \<open>64-bit integers\<close>

lemma sint64_range: "- (2 ^ 63) \<le> sint (w :: int64)" "sint (w :: int64) < 2 ^ 63"
  using sint_ge [of w] sint_lt [of w] by simp_all

lemma sint64_of_int: "- (2 ^ 63) \<le> x \<Longrightarrow> x < 2 ^ 63 \<Longrightarrow> sint (word_of_int x :: int64) = x"
  by (simp add: sint_sbintrunc' signed_take_bit_int_eq_self)

lemma sint64_add:
  "- (2 ^ 63) \<le> sint a + sint b \<Longrightarrow> sint a + sint b < 2 ^ 63 \<Longrightarrow> sint (a + b :: int64) = sint a + sint b"
  using sint64_of_int [of "sint a + sint b"] by (simp add: wi_hom_syms)

lemma sint64_shift:
  assumes "- (2 ^ 63) \<le> sint a * 2 ^ n" "sint a * 2 ^ n < 2 ^ 63"
  shows "sint (push_bit n a :: int64) = sint a * 2 ^ n"
proof -
  have "push_bit n a = word_of_int (sint a * 2 ^ n)"
    by (simp add: push_bit_eq_mult)
  then show ?thesis using sint64_of_int [OF assms] by simp
qed

lemma sint64_inject: "sint (a :: int64) = sint b \<longleftrightarrow> a = b"
  by (rule word_eq_iff_signed [symmetric])

end
