(* ===== verification/Go_Strings.thy ===== *)
theory Go_Strings
  imports Go_Prelude "HOL-Library.AList"
begin

text \<open>
  The functions of Go's standard library on strings that the SDK calls:
  strings.Join, Split, Cut, TrimRight and TrimSpace, strconv.Itoa, the header-key
  canonicalisation of net/http, encoding/hex, encoding/base64 (padded and raw)
  and the query unescaping of net/url.  Each codec comes with its round trip.
\<close>

section \<open>Searching, cutting and joining\<close>

fun join_with :: "string \<Rightarrow> string list \<Rightarrow> string" where
  "join_with sep [] = []"
| "join_with sep [x] = x"
| "join_with sep (x # y # ys) = x @ sep @ join_with sep (y # ys)"

fun split_on :: "char \<Rightarrow> string \<Rightarrow> string list" where
  "split_on c [] = [[]]"
| "split_on c (x # xs) =
     (if x = c then [] # split_on c xs
      else (case split_on c xs of [] \<Rightarrow> [[x]] | y # ys \<Rightarrow> (x # y) # ys))"

text \<open>strings.Cut at the first occurrence of a byte: (before, after, found).\<close>

fun cut_at :: "char \<Rightarrow> string \<Rightarrow> string \<times> string \<times> bool" where
  "cut_at c [] = ([], [], False)"
| "cut_at c (x # xs) =
     (if x = c then ([], xs, True)
      else (case cut_at c xs of (b, a, f) \<Rightarrow> (x # b, a, f)))"

definition trim_right :: "char \<Rightarrow> string \<Rightarrow> string" where
  "trim_right c s = rev (dropWhile (\<lambda>x. x = c) (rev s))"

lemma split_on_not_Nil [simp]: "split_on c s \<noteq> []"
  by (induction s) (auto split: list.splits)

lemma split_on_notin: "c \<notin> set s \<Longrightarrow> split_on c s = [s]"
  by (induction s) auto

lemma split_on_append: "c \<notin> set p \<Longrightarrow> split_on c (p @ c # s) = p # split_on c s"
  by (induction p) auto

lemma split_on_join:
  assumes "ps \<noteq> []" "\<forall>p \<in> set ps. c \<notin> set p"
  shows "split_on c (join_with [c] ps) = ps"
  using assms
proof (induction "[c]" ps rule: join_with.induct)
  case (3 x y ys)
  then have "split_on c (x @ c # join_with [c] (y # ys)) = x # split_on c (join_with [c] (y # ys))"
    by (intro split_on_append) simp
  with 3 show ?case by simp
qed (auto simp: split_on_notin)

lemma cut_at_notin: "c \<notin> set s \<Longrightarrow> cut_at c s = (s, [], False)"
  by (induction s) auto

lemma cut_at_append: "c \<notin> set p \<Longrightarrow> cut_at c (p @ c # s) = (p, s, True)"
  by (induction p) auto

lemma join_with_append_single:
  "join_with sep (xs @ [x]) = (if xs = [] then x else join_with sep xs @ sep @ x)"
proof (induction xs)
  case (Cons a xs)
  then show ?case by (cases xs) auto
qed simp

lemma set_join_with: "set (join_with sep ps) \<subseteq> set sep \<union> (\<Union>p \<in> set ps. set p)"
  by (induction sep ps rule: join_with.induct) auto

lemma trim_right_no_suffix: "trim_right c s = [] \<or> last (trim_right c s) \<noteq> c"
  using hd_dropWhile [of "\<lambda>x. x = c" "rev s"] by (auto simp: trim_right_def last_rev)

lemma trim_right_idem [simp]: "trim_right c (trim_right c s) = trim_right c s"
  by (simp add: trim_right_def)

section \<open>Decimal numbers\<close>

definition digit_char :: "nat \<Rightarrow> char" where
  "digit_char n = char_of (48 + n mod 10)"

fun utoa :: "nat \<Rightarrow> string" where
  "utoa n = (if n < 10 then [digit_char n] else utoa (n div 10) @ [digit_char n])"

declare utoa.simps [simp del]

definition itoa :: "int \<Rightarrow> string" where
  "itoa i = (if i < 0 then CHR ''-'' # utoa (nat (- i)) else utoa (nat i))"

definition is_digit :: "char \<Rightarrow> bool" where
  "is_digit c \<longleftrightarrow> 48 \<le> code c \<and> code c \<le> 57"

fun read_digits :: "nat \<Rightarrow> string \<Rightarrow> nat option" where
  "read_digits acc [] = Some acc"
| "read_digits acc (c # cs) =
     (if is_digit c then read_digits (10 * acc + (code c - 48)) cs else None)"

text \<open>strconv.ParseInt(s, 10, 64): an optional sign, at least one digit, the value in range.\<close>

definition parse_unsigned :: "string \<Rightarrow> nat option" where
  "parse_unsigned s = (if s = [] then None else read_digits 0 s)"

definition parse_int64 :: "string \<Rightarrow> int option" where
  "parse_int64 s =
     (case s of
        [] \<Rightarrow> None
      | c # cs \<Rightarrow>
          (if c = CHR ''-'' then
             (case parse_unsigned cs of
                None \<Rightarrow> None
              | Some n \<Rightarrow> if int n \<le> 2 ^ 63 then Some (- int n) else None)
           else
             (case parse_unsigned (if c = CHR ''+'' then cs else s) of
                None \<Rightarrow> None
              | Some n \<Rightarrow> if int n < 2 ^ 63 then Some (int n) else None)))"

lemma code_digit_char [simp]: "code (digit_char n) = 48 + n mod 10"
  by (simp add: digit_char_def)

lemma is_digit_digit_char [simp]: "is_digit (digit_char n)"
  by (simp add: is_digit_def less_Suc_eq_le [symmetric])

lemma utoa_not_Nil [simp]: "utoa n \<noteq> []"
  by (subst utoa.simps) simp

lemma utoa_digits: "c \<in> set (utoa n) \<Longrightarrow> is_digit c"
proof (induction n rule: utoa.induct)
  case (1 n)
  then show ?case by (subst (asm) (2) utoa.simps) (auto split: if_splits)
qed

lemma read_digits_append:
  "read_digits acc (xs @ ys) =
     (case read_digits acc xs of None \<Rightarrow> None | Some a \<Rightarrow> read_digits a ys)"
  by (induction acc xs rule: read_digits.induct) auto

lemma read_digits_utoa: "read_digits 0 (utoa n) = Some n"
proof (induction n rule: utoa.induct)
  case (1 n)
  show ?case
  proof (cases "n < 10")
    case True
    then show ?thesis by (subst utoa.simps) simp
  next
    case False
    with 1 have "read_digits 0 (utoa (n div 10)) = Some (n div 10)" by blast
    with False show ?thesis by (subst utoa.simps) (simp add: read_digits_append)
  qed
qed

lemma parse_int64_itoa:
  assumes "- (2 ^ 63) \<le> i" "i < 2 ^ 63"
  shows "parse_int64 (itoa i) = Some i"
proof (cases "i < 0")
  case True
  then show ?thesis using assms
    by (simp add: itoa_def parse_int64_def parse_unsigned_def read_digits_utoa)
next
  case False
  obtain c cs where u: "utoa (nat i) = c # cs" by (cases "utoa (nat i)") auto
  then have "is_digit c" using utoa_digits[of c "nat i"] by simp
  then have "c \<noteq> CHR ''-''" "c \<noteq> CHR ''+''" by (auto simp: is_digit_def)
  then show ?thesis using False assms read_digits_utoa[of "nat i"] u
    by (simp add: itoa_def parse_int64_def parse_unsigned_def)
qed

section \<open>Hexadecimal\<close>

definition lowerhex :: string where "lowerhex = ''0123456789abcdef''"
definition upperhex :: string where "upperhex = ''0123456789ABCDEF''"

fun hex_encode :: "bytes \<Rightarrow> string" where
  "hex_encode [] = []"
| "hex_encode (c # cs) = lowerhex ! (code c div 16) # lowerhex ! (code c mod 16) # hex_encode cs"

definition unhex :: "char \<Rightarrow> nat option" where
  "unhex c = (let n = code c in
     if 48 \<le> n \<and> n \<le> 57 then Some (n - 48)
     else if 97 \<le> n \<and> n \<le> 102 then Some (n - 97 + 10)
     else if 65 \<le> n \<and> n \<le> 70 then Some (n - 65 + 10)
     else None)"

fun hex_decode :: "string \<Rightarrow> bytes option" where
  "hex_decode [] = Some []"
| "hex_decode [c] = None"
| "hex_decode (a # b # cs) =
     (case (unhex a, unhex b, hex_decode cs) of
        (Some x, Some y, Some r) \<Rightarrow> Some (char_of (x * 16 + y) # r)
      | _ \<Rightarrow> None)"

lemma less_16_cases:
  fixes n :: nat
  assumes "n < 16"
  shows "n \<in> {0,1,2,3,4,5,6,7,8,9,10,11,12,13,14,15}"
  unfolding insert_iff empty_iff using assms by presburger

lemma unhex_lowerhex: "n < 16 \<Longrightarrow> unhex (lowerhex ! n) = Some n"
  by (drule less_16_cases) (auto simp: lowerhex_def unhex_def Let_def)

lemma unhex_upperhex: "n < 16 \<Longrightarrow> unhex (upperhex ! n) = Some n"
  by (drule less_16_cases) (auto simp: upperhex_def unhex_def Let_def)

lemma code_div_16_less [simp]: "code c div 16 < 16"
  by (simp add: div_less_iff_less_mult)

lemma hex_decode_encode: "hex_decode (hex_encode bs) = Some bs"
  by (induction bs) (simp_all add: unhex_lowerhex)

lemma hex_encode_inj: "hex_encode a = hex_encode b \<longleftrightarrow> a = b"
  by (metis hex_decode_encode option.inject)

lemma length_hex_encode [simp]: "length (hex_encode bs) = 2 * length bs"
  by (induction bs) auto

lemma hex_encode_append: "hex_encode (a @ b) = hex_encode a @ hex_encode b"
  by (induction a) auto

lemma hex_encode_chars: "set (hex_encode bs) \<subseteq> set lowerhex"
proof (induction bs)
  case (Cons c cs)
  have "length lowerhex = 16" by (simp add: lowerhex_def)
  then have "lowerhex ! (code c div 16) \<in> set lowerhex" "lowerhex ! (code c mod 16) \<in> set lowerhex"
    by (auto intro!: nth_mem)
  with Cons show ?case by simp
qed simp

section \<open>White space\<close>

text \<open>
  strings.TrimSpace removes the Unicode white space of both ends.  The UTF-8
  sequences below are those of unicode.IsSpace: the six ASCII ones, U+0085, U+00A0,
  U+1680, U+2000 to U+200A, U+2028, U+2029, U+202F, U+205F and U+3000.
\<close>

definition white_seqs :: "string list" where
  "white_seqs =
     map (\<lambda>n. [char_of n]) [9, 10, 11, 12, 13, 32 :: nat] @
     [[CHR 0xC2, CHR 0x85], [CHR 0xC2, CHR 0xA0], [CHR 0xE1, CHR 0x9A, CHR 0x80]] @
     map (\<lambda>n. [CHR 0xE2, CHR 0x80, char_of n]) ([128 ..< 139] @ [168, 169, 175 :: nat]) @
     [[CHR 0xE2, CHR 0x81, CHR 0x9F], [CHR 0xE3, CHR 0x80, CHR 0x80]]"

definition white_prefix :: "string list \<Rightarrow> string \<Rightarrow> nat" where
  "white_prefix ws s =
     (case find (\<lambda>w. take (length w) s = w) ws of None \<Rightarrow> 0 | Some w \<Rightarrow> length w)"

function trim_left_ws :: "string list \<Rightarrow> string \<Rightarrow> string" where
  "trim_left_ws ws s =
     (if s = [] \<or> white_prefix ws s = 0 then s else trim_left_ws ws (drop (white_prefix ws s) s))"
  by auto
termination by (relation "measure (\<lambda>(ws, s). length s)") auto

declare trim_left_ws.simps [simp del]

definition trim_space :: "string \<Rightarrow> string" where
  "trim_space s =
     rev (trim_left_ws (map rev white_seqs) (rev (trim_left_ws white_seqs s)))"

lemma white_prefix_head:
  assumes "\<forall>w \<in> set ws. w \<noteq> [] \<and> hd w \<noteq> c"
  shows "white_prefix ws (c # s) = 0"
proof -
  have "find (\<lambda>w. take (length w) (c # s) = w) ws = None"
    unfolding find_None_iff
  proof
    assume "\<exists>w. w \<in> set ws \<and> take (length w) (c # s) = w"
    then obtain w where w: "w \<in> set ws" "take (length w) (c # s) = w" by blast
    with assms have "w \<noteq> []" "hd w \<noteq> c" by auto
    with w(2) show False by (cases w) auto
  qed
  then show ?thesis by (simp add: white_prefix_def)
qed

lemma trim_left_ws_head:
  "\<forall>w \<in> set ws. w \<noteq> [] \<and> hd w \<noteq> c \<Longrightarrow> trim_left_ws ws (c # s) = c # s"
  by (simp add: trim_left_ws.simps white_prefix_head)

text \<open>A visible ASCII character at both ends protects a string from trimming.\<close>

definition visible :: "char \<Rightarrow> bool" where
  "visible c \<longleftrightarrow> 32 < code c \<and> code c < 127"

lemma white_seqs_hd: "\<forall>w \<in> set white_seqs. w \<noteq> [] \<and> \<not> visible (hd w)"
  by code_simp

lemma white_seqs_last: "\<forall>w \<in> set (map rev white_seqs). w \<noteq> [] \<and> \<not> visible (hd w)"
  by code_simp

lemma trim_space_visible:
  assumes "s \<noteq> []" "visible (hd s)" "visible (last s)"
  shows "trim_space s = s"
proof -
  obtain c t where s: "s = c # t" using assms(1) by (auto simp: neq_Nil_conv)
  obtain d u where r: "rev s = d # u" using assms(1) by (metis neq_Nil_conv rev_is_Nil_conv)
  then have d: "visible d" using assms(3) by (metis hd_rev list.sel(1))
  have c: "visible c" using assms(2) s by simp
  have "trim_left_ws white_seqs (c # t) = c # t"
    by (rule trim_left_ws_head) (metis white_seqs_hd c)
  moreover have "trim_left_ws (map rev white_seqs) (d # u) = d # u"
    by (rule trim_left_ws_head) (metis white_seqs_last d)
  ultimately have "trim_left_ws white_seqs s = s" "trim_left_ws (map rev white_seqs) (rev s) = rev s"
    unfolding s [symmetric] r [symmetric] .
  then show ?thesis by (simp only: trim_space_def rev_rev_ident)
qed

lemma trim_space_Nil [simp]: "trim_space [] = []"
  by (simp add: trim_space_def trim_left_ws.simps)

section \<open>Header keys\<close>

definition is_upper :: "char \<Rightarrow> bool" where "is_upper c \<longleftrightarrow> 65 \<le> code c \<and> code c \<le> 90"
definition is_lower :: "char \<Rightarrow> bool" where "is_lower c \<longleftrightarrow> 97 \<le> code c \<and> code c \<le> 122"
definition to_upper :: "char \<Rightarrow> char" where
  "to_upper c = (if is_lower c then char_of (code c - 32) else c)"
definition to_lower :: "char \<Rightarrow> char" where
  "to_lower c = (if is_upper c then char_of (code c + 32) else c)"

definition valid_header_byte :: "char \<Rightarrow> bool" where
  "valid_header_byte c \<longleftrightarrow> is_upper c \<or> is_lower c \<or> is_digit c \<or> c \<in> set ''!#$%&*+-.^_`|~'' \<or> code c = 39"

fun canon_loop :: "bool \<Rightarrow> string \<Rightarrow> string" where
  "canon_loop up [] = []"
| "canon_loop up (c # cs) = (if up then to_upper c else to_lower c) # canon_loop (c = CHR ''-'') cs"

definition CanonicalHeaderKey :: "string \<Rightarrow> string" where
  "CanonicalHeaderKey s = (if \<forall>c \<in> set s. valid_header_byte c then canon_loop True s else s)"

definition header_set :: "string \<Rightarrow> string \<Rightarrow> header \<Rightarrow> header" where
  "header_set k v h = AList.update (CanonicalHeaderKey k) [v] h"

definition header_get :: "string \<Rightarrow> header \<Rightarrow> string" where
  "header_get k h =
     (case map_of h (CanonicalHeaderKey k) of Some (v # vs) \<Rightarrow> v | _ \<Rightarrow> [])"

lemma to_upper_lower_simps:
  "to_upper (to_upper c) = to_upper c" "to_lower (to_lower c) = to_lower c"
  by (auto simp: to_upper_def to_lower_def is_lower_def is_upper_def)

lemma to_upper_hyphen: "to_upper c = CHR ''-'' \<longleftrightarrow> c = CHR ''-''"
  by (auto simp: to_upper_def is_lower_def char_eq_code_iff)

lemma to_lower_hyphen: "to_lower c = CHR ''-'' \<longleftrightarrow> c = CHR ''-''"
  by (auto simp: to_lower_def is_upper_def char_eq_code_iff)

lemma canon_loop_idem: "canon_loop up (canon_loop up s) = canon_loop up s"
  by (induction up s rule: canon_loop.induct)
     (auto simp: to_upper_lower_simps to_upper_hyphen to_lower_hyphen)

lemma valid_header_byte_case:
  "valid_header_byte c \<Longrightarrow> valid_header_byte (to_upper c) \<and> valid_header_byte (to_lower c)"
  by (auto simp: valid_header_byte_def to_upper_def to_lower_def is_upper_def is_lower_def)

lemma canon_loop_valid: "\<forall>c \<in> set s. valid_header_byte c \<Longrightarrow> \<forall>c \<in> set (canon_loop up s). valid_header_byte c"
  by (induction up s rule: canon_loop.induct) (auto simp: valid_header_byte_case)

lemma CanonicalHeaderKey_idem [simp]:
  "CanonicalHeaderKey (CanonicalHeaderKey s) = CanonicalHeaderKey s"
  using canon_loop_valid [of s True] by (auto simp: CanonicalHeaderKey_def canon_loop_idem)

lemma map_of_header_set: "map_of (header_set k v h) = (map_of h)(CanonicalHeaderKey k \<mapsto> [v])"
  by (simp add: header_set_def update_conv')

lemma header_get_set: "header_get k (header_set k' v h) =
    (if CanonicalHeaderKey k = CanonicalHeaderKey k' then v else header_get k h)"
  by (auto simp: header_get_def map_of_header_set)

lemma distinct_header_set: "distinct (map fst h) \<Longrightarrow> distinct (map fst (header_set k v h))"
  by (simp add: header_set_def distinct_update)

section \<open>Base64\<close>

definition b64_alphabet :: string where
  "b64_alphabet = ''ABCDEFGHIJKLMNOPQRSTUVWXYZabcdefghijklmnopqrstuvwxyz0123456789+/''"

definition b64_char :: "nat \<Rightarrow> char" where
  "b64_char n = b64_alphabet ! n"

definition b64_value :: "char \<Rightarrow> nat option" where
  "b64_value c =
     (if is_upper c then Some (code c - 65)
      else if is_lower c then Some (code c - 97 + 26)
      else if is_digit c then Some (code c - 48 + 52)
      else if c = CHR ''+'' then Some 62
      else if c = CHR ''/'' then Some 63
      else None)"

text \<open>Encoding: \<open>pad\<close> is the padding written after an incomplete last group.\<close>

fun b64_encode :: "bool \<Rightarrow> bytes \<Rightarrow> string" where
  "b64_encode pad [] = []"
| "b64_encode pad [a] =
     [b64_char (code a div 4), b64_char (code a mod 4 * 16)] @ (if pad then ''=='' else [])"
| "b64_encode pad [a, b] =
     [b64_char (code a div 4), b64_char (code a mod 4 * 16 + code b div 16),
      b64_char (code b mod 16 * 4)] @ (if pad then ''='' else [])"
| "b64_encode pad (a # b # c # cs) =
     b64_char (code a div 4) # b64_char (code a mod 4 * 16 + code b div 16) #
     b64_char (code b mod 16 * 4 + code c div 64) # b64_char (code c mod 64) # b64_encode pad cs"

definition b64_bytes :: "nat \<Rightarrow> nat \<Rightarrow> nat \<Rightarrow> nat \<Rightarrow> bytes" where
  "b64_bytes v w x y =
     [char_of (v * 4 + w div 16), char_of (w mod 16 * 16 + x div 4), char_of (x mod 4 * 64 + y)]"

text \<open>
  Decoding, non-strict as StdEncoding and RawStdEncoding are: the unused low bits
  of the last group are ignored.  Padding is accepted only where the group ends
  the input.
\<close>

fun b64_quanta :: "bool \<Rightarrow> string \<Rightarrow> bytes option" where
  "b64_quanta pad [] = Some []"
| "b64_quanta pad [a] = None"
| "b64_quanta pad [a, b] =
     (if pad then None
      else case (b64_value a, b64_value b) of
        (Some v, Some w) \<Rightarrow> Some (take 1 (b64_bytes v w 0 0)) | _ \<Rightarrow> None)"
| "b64_quanta pad [a, b, c] =
     (if pad then None
      else case (b64_value a, b64_value b, b64_value c) of
        (Some v, Some w, Some x) \<Rightarrow> Some (take 2 (b64_bytes v w x 0)) | _ \<Rightarrow> None)"
| "b64_quanta pad (a # b # c # d # rest) =
     (case (b64_value a, b64_value b) of
        (Some v, Some w) \<Rightarrow>
          (if pad \<and> c = CHR ''='' then
             (if d = CHR ''='' \<and> rest = [] then Some (take 1 (b64_bytes v w 0 0)) else None)
           else case b64_value c of
              None \<Rightarrow> None
            | Some x \<Rightarrow>
                (if pad \<and> d = CHR ''='' then
                   (if rest = [] then Some (take 2 (b64_bytes v w x 0)) else None)
                 else case (b64_value d, b64_quanta pad rest) of
                    (Some y, Some r) \<Rightarrow> Some (b64_bytes v w x y @ r) | _ \<Rightarrow> None))
      | _ \<Rightarrow> None)"

text \<open>Line feeds and carriage returns are skipped wherever they stand.\<close>

definition b64_decode :: "bool \<Rightarrow> string \<Rightarrow> bytes option" where
  "b64_decode pad s = b64_quanta pad (filter (\<lambda>c. code c \<noteq> 10 \<and> code c \<noteq> 13) s)"

lemma length_b64_alphabet [simp]: "length b64_alphabet = 64"
  by (simp add: b64_alphabet_def)

lemma b64_alphabet_values: "map b64_value b64_alphabet = map Some [0 ..< 64]"
  by (simp add: b64_alphabet_def b64_value_def is_upper_def is_lower_def is_digit_def
      upt_conv_Cons)

lemma b64_alphabet_codes:
  "\<forall>c \<in> set b64_alphabet. 43 \<le> code c \<and> code c \<noteq> 61 \<and> code c < 127"
  by (simp add: b64_alphabet_def)

lemma b64_value_b64_char: "n < 64 \<Longrightarrow> b64_value (b64_char n) = Some n"
  using arg_cong [OF b64_alphabet_values, of "\<lambda>xs. xs ! n"] by (simp add: b64_char_def)

lemma b64_char_code: "n < 64 \<Longrightarrow> 43 \<le> code (b64_char n) \<and> code (b64_char n) \<noteq> 61 \<and> code (b64_char n) < 127"
  using b64_alphabet_codes by (simp add: b64_char_def)

lemma b64_char_not_pad: "n < 64 \<Longrightarrow> b64_char n \<noteq> CHR ''=''"
  using b64_char_code [of n] by (auto simp: char_eq_code_iff)

text \<open>The six-bit splits of three bytes stay below 64 and recombine.\<close>

lemma code_split_bounds:
  "code a div 4 < 64" "code a mod 4 < 4" "code a div 16 < 16" "code a mod 16 < 16"
  "code a div 64 < 4" "code a mod 64 < 64"
  by (simp_all add: div_less_iff_less_mult)

lemma b64_bounds:
  fixes a b c :: char
  shows "code a div 4 < 64" "code a mod 4 * 16 < 64" "code a mod 4 * 16 + code b div 16 < 64"
  "code b mod 16 * 4 < 64" "code b mod 16 * 4 + code c div 64 < 64" "code c mod 64 < 64"
  using code_split_bounds [of a] code_split_bounds [of b] code_split_bounds [of c] by linarith+

lemma split_high: "y < d \<Longrightarrow> (x * d + y) div d = x" for x y d :: nat
  by simp

lemma split_low: "y < d \<Longrightarrow> (x * d + y) mod d = y" for x y d :: nat
  by simp

lemma b64_bytes_encode:
  "b64_bytes (code a div 4) (code a mod 4 * 16 + code b div 16)
     (code b mod 16 * 4 + code c div 64) (code c mod 64) = [a, b, c]"
  unfolding b64_bytes_def
  by (simp only: split_high split_low code_split_bounds div_mult_mod_eq char_of_char)

lemma b64_bytes_encode_2:
  "take 2 (b64_bytes (code a div 4) (code a mod 4 * 16 + code b div 16) (code b mod 16 * 4) 0) = [a, b]"
  unfolding b64_bytes_def
  using split_high [of 0 4 "code b mod 16"]
  by (simp only: split_high split_low code_split_bounds div_mult_mod_eq char_of_char add_0_right
      take_Cons_numeral) (simp add: div_mult_mod_eq)

lemma b64_bytes_encode_1:
  "take 1 (b64_bytes (code a div 4) (code a mod 4 * 16) 0 0) = [a]"
  unfolding b64_bytes_def by simp

lemma b64_quanta_encode: "b64_quanta pad (b64_encode pad bs) = Some bs"
proof (induction pad bs rule: b64_encode.induct)
  case (2 pad a)
  show ?case
    using b64_bytes_encode_1 [of a] by (simp add: b64_value_b64_char b64_bounds)
next
  case (3 pad a b)
  show ?case
    by (simp add: b64_value_b64_char b64_bounds b64_bytes_encode_2 b64_char_not_pad del: take_Cons_numeral)
next
  case (4 pad a b c cs)
  then show ?case
    by (simp add: b64_value_b64_char b64_bounds b64_bytes_encode b64_char_not_pad)
qed simp

lemma b64_char_visible: "n < 64 \<Longrightarrow> visible (b64_char n)"
  using b64_char_code [of n] by (simp add: visible_def)

lemma b64_encode_visible: "\<forall>c \<in> set (b64_encode pad bs). visible c"
proof (induction pad bs rule: b64_encode.induct)
  case (4 pad a b c cs)
  then show ?case by (simp add: b64_char_visible b64_bounds)
next
  case (3 pad a b)
  show ?case by (auto simp: b64_char_visible b64_bounds) (simp add: visible_def)
next
  case (2 pad a)
  show ?case by (auto simp: b64_char_visible b64_bounds) (simp add: visible_def)
qed simp

lemma b64_decode_encode: "b64_decode pad (b64_encode pad bs) = Some bs"
proof -
  have "filter (\<lambda>c. code c \<noteq> 10 \<and> code c \<noteq> 13) (b64_encode pad bs) = b64_encode pad bs"
    using b64_encode_visible [of pad bs] by (auto simp: filter_id_conv visible_def)
  then show ?thesis by (simp add: b64_decode_def b64_quanta_encode)
qed

lemma b64_encode_inj: "b64_encode pad a = b64_encode pad b \<longleftrightarrow> a = b"
  by (metis b64_decode_encode option.inject)

end
