(* ===== verification/Errors.thy ===== *)
theory Errors
  imports Go_Strings
begin

text \<open>
  atomefin/errors.go and atomefin/codes.go: the error values of the SDK with their
  texts, their Temporary classification and the Unwrap chain that errors.Is and
  errors.As walk, the classifier IsRetryableTransport, the decoding of a non-2xx
  reply into an APIError, and the shared enumerations.
\<close>

section \<open>Enumerations of codes.go\<close>

text \<open>Status, Code, FailureCode and AccountStatus are Go string types.\<close>

type_synonym status = string

definition StatusProcessing :: status where "StatusProcessing = ''PROCESSING''"
definition StatusSuccess :: status where "StatusSuccess = ''SUCCESS''"
definition StatusFailed :: status where "StatusFailed = ''FAILED''"

definition Status_IsTerminal :: "status \<Rightarrow> bool" where
  "Status_IsTerminal s \<longleftrightarrow> s = StatusSuccess \<or> s = StatusFailed"

definition CodeSuccess :: string where "CodeSuccess = ''SUCCESS''"
definition CodeInvalidSignature :: string where "CodeInvalidSignature = ''INVALID_SIGNATURE''"
definition CodeServerError :: string where "CodeServerError = ''SERVER_ERROR''"

definition Code_IsSuccess :: "string \<Rightarrow> bool" where
  "Code_IsSuccess c \<longleftrightarrow> c = CodeSuccess"

section \<open>Error values\<close>

record api_error =
  HTTPStatus :: int
  Code :: string
  Message :: string
  RequestID :: string
  Endpoint :: string
  Raw :: bytes

text \<open>
  A Go error value.  \<open>ErrorString\<close> is a value of errors.New, of fmt.Errorf without
  %w, or of a string-based error type; \<open>WrapError pre e post\<close> is fmt.Errorf with
  one %w between two texts, \<open>WrapErrors e mid e' post\<close> with two, the first of
  them in front; \<open>NetError t e\<close> is an error of the network stack that
  implements net.Error (url.Error, net.OpError) with Timeout() = t around e.  The
  other constructors are the SDK's own types.  A package-level error variable is
  the \<open>ErrorString\<close> with its text, and all of the SDK's have different texts.
  \<open>GoPanic\<close> is no error value: it marks a branch in which the goroutine panics.
  Where a message embeds a %q-quoted value or the text of a library error, the
  modelled message leaves that part out.
\<close>

datatype go_error =
    ErrorString string
  | WrapError string go_error string
  | WrapErrors go_error string go_error string
  | ContextCanceled
  | ContextDeadlineExceeded
  | NetError bool go_error
  | MultiValueQueryError string int
  | APIError api_error
  | TransportError string string "go_error option" bool
  | SignatureError string "go_error option"
  | ValidationError string string
  | BusinessRejectionError string string
  | GoPanic string

text \<open>errors.Unwrap, and errors.Is on comparable targets.\<close>

fun errors_unwrap :: "go_error \<Rightarrow> go_error option" where
  "errors_unwrap (WrapError pre e post) = Some e"
| "errors_unwrap (NetError t e) = Some e"
| "errors_unwrap (TransportError op url e r) = e"
| "errors_unwrap (SignatureError reason e) = e"
| "errors_unwrap _ = None"

fun errors_is :: "go_error \<Rightarrow> go_error \<Rightarrow> bool" where
  "errors_is (WrapError pre e post) t \<longleftrightarrow> WrapError pre e post = t \<or> errors_is e t"
| "errors_is (WrapErrors e mid e' post) t \<longleftrightarrow>
     WrapErrors e mid e' post = t \<or> errors_is e t \<or> errors_is e' t"
| "errors_is (NetError b e) t \<longleftrightarrow> NetError b e = t \<or> errors_is e t"
| "errors_is (TransportError op url (Some e) r) t \<longleftrightarrow>
     TransportError op url (Some e) r = t \<or> errors_is e t"
| "errors_is (SignatureError reason (Some e)) t \<longleftrightarrow>
     SignatureError reason (Some e) = t \<or> errors_is e t"
| "errors_is e t \<longleftrightarrow> e = t"

text \<open>errors.As on a net.Error target: the Timeout() of the first match in the chain.\<close>

fun as_net_error :: "go_error \<Rightarrow> bool option" where
  "as_net_error (NetError t e) = Some t"
| "as_net_error ContextDeadlineExceeded = Some True"
| "as_net_error (WrapError pre e post) = as_net_error e"
| "as_net_error (WrapErrors e mid e' post) =
     (case as_net_error e of Some t \<Rightarrow> Some t | None \<Rightarrow> as_net_error e')"
| "as_net_error (TransportError op url (Some e) r) = as_net_error e"
| "as_net_error (SignatureError reason (Some e)) = as_net_error e"
| "as_net_error _ = None"

lemma errors_is_refl [simp]: "errors_is e e"
  by (cases "(e, e)" rule: errors_is.cases) auto

lemma errors_is_unwrap: "errors_unwrap e = Some u \<Longrightarrow> errors_is e t \<longleftrightarrow> e = t \<or> errors_is u t"
  by (cases "(e, t)" rule: errors_is.cases) auto

lemma errors_is_trans: "errors_is a b \<Longrightarrow> errors_is b c \<Longrightarrow> errors_is a c"
  by (induction a b rule: errors_is.induct) auto

section \<open>Error texts\<close>

definition APIError_Error :: "api_error \<Rightarrow> string" where
  "APIError_Error e =
     (if Code e \<noteq> [] \<and> Message e \<noteq> [] then
        ''atomefin: '' @ Endpoint e @ '' '' @ itoa (HTTPStatus e) @ '' '' @ Code e @ '': '' @ Message e
      else if Code e \<noteq> [] then
        ''atomefin: '' @ Endpoint e @ '' '' @ itoa (HTTPStatus e) @ '' '' @ Code e
      else ''atomefin: '' @ Endpoint e @ '' HTTP '' @ itoa (HTTPStatus e))"

definition ValidationError_Error :: "string \<Rightarrow> string \<Rightarrow> string" where
  "ValidationError_Error field message =
     (if field \<noteq> [] then ''atomefin: validation: '' @ field @ '': '' @ message
      else ''atomefin: validation: '' @ message)"

definition BusinessRejectionError_Error :: "string \<Rightarrow> string \<Rightarrow> string" where
  "BusinessRejectionError_Error c message =
     (if message = [] then ''atomefin: business rejected with code '' @ c
      else ''atomefin: business rejected with code '' @ c @ '': '' @ message)"

definition MultiValueQueryError_Error :: "(string \<Rightarrow> string) \<Rightarrow> string \<Rightarrow> int \<Rightarrow> string" where
  "MultiValueQueryError_Error quote k n =
     ''sign: query key '' @ quote k @ '' has '' @ itoa n @
     '' values; the canonical signing form requires single-value (pre-flatten before calling)''"

text \<open>Error() of any value; \<open>quote\<close> is strconv.Quote, which %q applies to a key.\<close>

fun error_text :: "(string \<Rightarrow> string) \<Rightarrow> go_error \<Rightarrow> string" where
  "error_text q (ErrorString s) = s"
| "error_text q (WrapError pre e post) = pre @ error_text q e @ post"
| "error_text q (WrapErrors e mid e' post) = error_text q e @ mid @ error_text q e' @ post"
| "error_text q ContextCanceled = ''context canceled''"
| "error_text q ContextDeadlineExceeded = ''context deadline exceeded''"
| "error_text q (NetError t e) = error_text q e"
| "error_text q (MultiValueQueryError k n) = MultiValueQueryError_Error q k n"
| "error_text q (APIError e) = APIError_Error e"
| "error_text q (TransportError op url None r) = ''atomefin: transport error''"
| "error_text q (TransportError op url (Some e) r) =
     (if url \<noteq> [] then ''atomefin: transport '' @ op @ '' '' @ url @ '': '' @ error_text q e
      else ''atomefin: transport '' @ op @ '': '' @ error_text q e)"
| "error_text q (SignatureError reason None) = ''atomefin: signature '' @ reason"
| "error_text q (SignatureError reason (Some e)) =
     ''atomefin: signature '' @ reason @ '': '' @ error_text q e"
| "error_text q (ValidationError f m) = ValidationError_Error f m"
| "error_text q (BusinessRejectionError c m) = BusinessRejectionError_Error c m"
| "error_text q (GoPanic s) = s"

section \<open>Classification\<close>

definition retry_statuses :: "int list" where
  "retry_statuses = [500, 502, 503, 504]"

definition APIError_Temporary :: "api_error \<Rightarrow> bool" where
  "APIError_Temporary e \<longleftrightarrow> Code e = CodeServerError \<or> HTTPStatus e \<in> set retry_statuses"

definition APIError_IsSignature :: "api_error \<Rightarrow> bool" where
  "APIError_IsSignature e \<longleftrightarrow> HTTPStatus e = 401 \<and> Code e = CodeInvalidSignature"

text \<open>Temporary() of the SDK's types; None for a value that is not one of them.\<close>

fun Temporary :: "go_error \<Rightarrow> bool option" where
  "Temporary (APIError e) = Some (APIError_Temporary e)"
| "Temporary (TransportError op url e r) = Some r"
| "Temporary (SignatureError reason e) = Some False"
| "Temporary (ValidationError f m) = Some False"
| "Temporary (BusinessRejectionError c m) = Some False"
| "Temporary _ = None"

definition isProbablyTransient :: "go_error \<Rightarrow> bool" where
  "isProbablyTransient e = True"

definition IsRetryableTransport :: "go_error option \<Rightarrow> bool" where
  "IsRetryableTransport err =
     (case err of
        None \<Rightarrow> False
      | Some e \<Rightarrow>
          (if errors_is e ContextCanceled then False
           else if errors_is e ContextDeadlineExceeded then True
           else case as_net_error e of
              Some timeout \<Rightarrow> timeout \<or> isProbablyTransient e
            | None \<Rightarrow> True))"

section \<open>Decoding a non-2xx reply\<close>

record error_envelope =
  env_Code :: string
  env_Message :: string
  env_RequestID :: string

text \<open>\<open>unmarshal\<close> is json.Unmarshal into an errorEnvelope; None when it returns an error.\<close>

definition decodeAPIError ::
  "(bytes \<Rightarrow> error_envelope option) \<Rightarrow> int \<Rightarrow> string \<Rightarrow> bytes \<Rightarrow> api_error" where
  "decodeAPIError unmarshal status endpoint body =
     (let e = \<lparr>HTTPStatus = status, Code = [], Message = [], RequestID = [],
               Endpoint = endpoint, Raw = body\<rparr>
      in if length body = 0 then e
         else case unmarshal body of
           None \<Rightarrow> e
         | Some env \<Rightarrow> e\<lparr>Code := env_Code env, Message := env_Message env,
                         RequestID := env_RequestID env\<rparr>)"

lemma decodeAPIError_fields [simp]:
  "HTTPStatus (decodeAPIError u st ep body) = st"
  "Endpoint (decodeAPIError u st ep body) = ep"
  "Raw (decodeAPIError u st ep body) = body"
  by (simp_all add: decodeAPIError_def Let_def split: option.splits)

lemma IsRetryableTransport_iff:
  "IsRetryableTransport (Some e) \<longleftrightarrow> \<not> errors_is e ContextCanceled"
  by (auto simp: IsRetryableTransport_def isProbablyTransient_def split: option.splits)

end
