(* ===== verification/Sign_Canonical.thy ===== *)
theory Sign_Canonical
  imports Errors "HOL-Library.Multiset"
begin

text \<open>
  atomefin/sign/canonical.go: the strings a GET request is signed over and sent
  with.  The three builders walk the sorted keys with a string builder and a
  first-pair flag, as the code does; the lemmas below bring them to a join of
  pairs, from which the properties follow.
\<close>

section \<open>Percent encoding\<close>

definition isUnreserved :: "char \<Rightarrow> bool" where
  "isUnreserved c \<longleftrightarrow>
     (code (CHR ''A'') \<le> code c \<and> code c \<le> code (CHR ''Z'')) \<or>
     (code (CHR ''a'') \<le> code c \<and> code c \<le> code (CHR ''z'')) \<or>
     (code (CHR ''0'') \<le> code c \<and> code c \<le> code (CHR ''9'')) \<or>
     c = CHR ''-'' \<or> c = CHR ''.'' \<or> c = CHR ''_'' \<or> c = CHR ''~''"

fun escape_loop :: "string \<Rightarrow> string \<Rightarrow> string" where
  "escape_loop b [] = b"
| "escape_loop b (c # cs) =
     (if isUnreserved c then escape_loop (b @ [c]) cs
      else escape_loop (b @ [CHR ''%'', upperhex ! (code c div 16), upperhex ! (code c mod 16)]) cs)"

definition rfc3986Escape :: "string \<Rightarrow> string" where
  "rfc3986Escape s =
     (let needs = list_ex (\<lambda>c. \<not> isUnreserved c) s
      in if \<not> needs then s else escape_loop [] s)"

section \<open>The three query builders\<close>

definition lookup_values :: "url_values \<Rightarrow> string \<Rightarrow> string list" where
  "lookup_values values k = (case map_of values k of None \<Rightarrow> [] | Some vs \<Rightarrow> vs)"

text \<open>\<open>b.WriteByte('&')\<close> unless this is the first pair, then key, '=' and value.\<close>

definition write_pair :: "string \<Rightarrow> bool \<Rightarrow> string \<Rightarrow> string \<Rightarrow> string" where
  "write_pair b first ek v = b @ (if first then [] else ''&'') @ ek @ ''='' @ rfc3986Escape v"

fun canonical_loop :: "url_values \<Rightarrow> string \<Rightarrow> bool \<Rightarrow> string list \<Rightarrow> go_error + string" where
  "canonical_loop values b first [] = Inr b"
| "canonical_loop values b first (k # ks) =
     (let vs = lookup_values values k in
      if length vs = 0 then canonical_loop values b first ks
      else if length vs > 1 then Inl (MultiValueQueryError k (int (length vs)))
      else canonical_loop values (write_pair b first (rfc3986Escape k) (vs ! 0)) False ks)"

definition CanonicalQuery :: "url_values \<Rightarrow> go_error + string" where
  "CanonicalQuery values =
     (if length values = 0 then Inr []
      else canonical_loop values [] True (sort (map fst values)))"

fun first_value_loop :: "url_values \<Rightarrow> string \<Rightarrow> bool \<Rightarrow> string list \<Rightarrow> string" where
  "first_value_loop values b first [] = b"
| "first_value_loop values b first (k # ks) =
     (let vs = lookup_values values k in
      if length vs = 0 then first_value_loop values b first ks
      else first_value_loop values (write_pair b first (rfc3986Escape k) (vs ! 0)) False ks)"

definition CanonicalQueryFirstValue :: "url_values \<Rightarrow> string" where
  "CanonicalQueryFirstValue values =
     (if length values = 0 then []
      else first_value_loop values [] True (sort (map fst values)))"

fun wire_values_loop :: "string \<Rightarrow> bool \<Rightarrow> string \<Rightarrow> string list \<Rightarrow> string \<times> bool" where
  "wire_values_loop b first ek [] = (b, first)"
| "wire_values_loop b first ek (v # vs) = wire_values_loop (write_pair b first ek v) False ek vs"

fun wire_loop :: "url_values \<Rightarrow> string \<Rightarrow> bool \<Rightarrow> string list \<Rightarrow> string" where
  "wire_loop values b first [] = b"
| "wire_loop values b first (k # ks) =
     (let vs = lookup_values values k in
      if length vs = 0 then wire_loop values b first ks
      else (case wire_values_loop b first (rfc3986Escape k) vs of
              (b', first') \<Rightarrow> wire_loop values b' first' ks))"

definition EncodeWireQueryRFC3986 :: "url_values \<Rightarrow> string" where
  "EncodeWireQueryRFC3986 values =
     (if length values = 0 then []
      else wire_loop values [] True (sort (map fst values)))"

section \<open>What a gateway reads back\<close>

text \<open>url.QueryUnescape and url.ParseQuery of Go's net/url, the reading side of a query.\<close>

fun query_unescape :: "string \<Rightarrow> string option" where
  "query_unescape [] = Some []"
| "query_unescape (c # cs) =
     (if c = CHR ''%'' then
        (case cs of
           a # b # r \<Rightarrow>
             (case (unhex a, unhex b, query_unescape r) of
                (Some x, Some y, Some t) \<Rightarrow> Some (char_of (x * 16 + y) # t)
              | _ \<Rightarrow> None)
         | _ \<Rightarrow> None)
      else map_option (\<lambda>t. (if c = CHR ''+'' then CHR '' '' else c) # t) (query_unescape cs))"

definition parse_pair :: "string \<Rightarrow> (string \<times> string) option" where
  "parse_pair p =
     (if p = [] \<or> CHR '';'' \<in> set p then None
      else case cut_at (CHR ''='') p of
        (k, v, f) \<Rightarrow>
          (case (query_unescape k, query_unescape v) of
             (Some k', Some v') \<Rightarrow> Some (k', v') | _ \<Rightarrow> None))"

definition parse_query :: "string \<Rightarrow> (string \<times> string) list" where
  "parse_query q = List.map_filter parse_pair (split_on (CHR ''&'') q)"

definition parsed_values :: "(string \<times> string) list \<Rightarrow> string \<Rightarrow> string list" where
  "parsed_values ps k = map snd (filter (\<lambda>p. fst p = k) ps)"

section \<open>The builders as joins of pairs\<close>

definition query_pairs :: "url_values \<Rightarrow> (string \<times> string) list" where
  "query_pairs values =
     concat (map (\<lambda>k. map (Pair k) (lookup_values values k)) (sort (map fst values)))"

definition first_pairs :: "url_values \<Rightarrow> (string \<times> string) list" where
  "first_pairs values =
     concat (map (\<lambda>k. map (Pair k) (take 1 (lookup_values values k))) (sort (map fst values)))"

definition enc_pair :: "string \<times> string \<Rightarrow> string" where
  "enc_pair p = rfc3986Escape (fst p) @ ''='' @ rfc3986Escape (snd p)"

definition append_pairs :: "string \<Rightarrow> bool \<Rightarrow> (string \<times> string) list \<Rightarrow> string" where
  "append_pairs b first ps =
     b @ (if first \<or> ps = [] then [] else ''&'') @ join_with ''&'' (map enc_pair ps)"

definition esc1 :: "char \<Rightarrow> string" where
  "esc1 c = (if isUnreserved c then [c]
             else [CHR ''%'', upperhex ! (code c div 16), upperhex ! (code c mod 16)])"

lemma escape_loop_concat: "escape_loop b s = b @ concat (map esc1 s)"
  by (induction b s rule: escape_loop.induct) (auto simp: esc1_def)

lemma rfc3986Escape_concat: "rfc3986Escape s = concat (map esc1 s)"
proof (cases "list_ex (\<lambda>c. \<not> isUnreserved c) s")
  case False
  then have "\<forall>c \<in> set s. isUnreserved c" by (simp add: list_ex_iff)
  then have "concat (map esc1 s) = s" by (induction s) (auto simp: esc1_def)
  then show ?thesis using False by (simp add: rfc3986Escape_def)
qed (simp add: rfc3986Escape_def escape_loop_concat)

lemma isUnreserved_plain: "isUnreserved c \<Longrightarrow> c \<notin> set ''%+&=;''"
  by (auto simp: isUnreserved_def)

lemma upperhex_unreserved: "n < 16 \<Longrightarrow> isUnreserved (upperhex ! n)"
  by (drule less_16_cases) (auto simp: upperhex_def isUnreserved_def)

lemma esc1_chars: "x \<in> set (esc1 c) \<Longrightarrow> isUnreserved x \<or> x = CHR ''%''"
  by (auto simp: esc1_def upperhex_unreserved split: if_splits)

lemma escape_chars: "x \<in> set (rfc3986Escape s) \<Longrightarrow> isUnreserved x \<or> x = CHR ''%''"
  by (auto simp: rfc3986Escape_concat dest: esc1_chars)

lemma escape_no_delim: "c \<in> set ''+&=;'' \<Longrightarrow> c \<notin> set (rfc3986Escape s)"
  using isUnreserved_plain [of c] escape_chars [of c s] by auto

lemma query_unescape_escape: "query_unescape (rfc3986Escape s) = Some s"
  unfolding rfc3986Escape_concat
proof (induction s)
  case (Cons c s)
  show ?case
  proof (cases "isUnreserved c")
    case True
    then have "c \<noteq> CHR ''%''" "c \<noteq> CHR ''+''" using isUnreserved_plain by auto
    with True Cons show ?thesis by (simp add: esc1_def)
  next
    case False
    with Cons show ?thesis by (simp add: esc1_def unhex_upperhex)
  qed
qed simp

lemma append_pairs_Nil [simp]: "append_pairs b first [] = b"
  by (simp add: append_pairs_def)

lemma append_pairs_Cons:
  "append_pairs b first ((k, v) # ps) = append_pairs (write_pair b first (rfc3986Escape k) v) False ps"
  by (cases ps) (simp_all add: append_pairs_def write_pair_def enc_pair_def)

lemma wire_values_loop_pairs:
  "wire_values_loop b first (rfc3986Escape k) vs =
     (append_pairs b first (map (Pair k) vs), first \<and> vs = [])"
  by (induction vs arbitrary: b first) (auto simp: append_pairs_Cons)

lemma append_pairs_append:
  "append_pairs b first (ps @ qs) = append_pairs (append_pairs b first ps) (first \<and> ps = []) qs"
proof (induction ps arbitrary: b first)
  case (Cons p ps)
  then show ?case by (cases p) (simp add: append_pairs_Cons)
qed simp

lemma wire_loop_pairs:
  "wire_loop values b first ks =
     append_pairs b first (concat (map (\<lambda>k. map (Pair k) (lookup_values values k)) ks))"
  by (induction ks arbitrary: b first)
     (auto simp: Let_def wire_values_loop_pairs append_pairs_append)

lemma first_value_loop_pairs:
  "first_value_loop values b first ks =
     append_pairs b first (concat (map (\<lambda>k. map (Pair k) (take 1 (lookup_values values k))) ks))"
proof (induction ks arbitrary: b first)
  case (Cons k ks)
  then show ?case
    by (cases "lookup_values values k") (simp_all add: append_pairs_Cons)
qed simp

lemma EncodeWireQueryRFC3986_join:
  "EncodeWireQueryRFC3986 values = join_with ''&'' (map enc_pair (query_pairs values))"
  by (auto simp: EncodeWireQueryRFC3986_def wire_loop_pairs append_pairs_def query_pairs_def)

lemma CanonicalQueryFirstValue_join:
  "CanonicalQueryFirstValue values = join_with ''&'' (map enc_pair (first_pairs values))"
  by (auto simp: CanonicalQueryFirstValue_def first_value_loop_pairs append_pairs_def first_pairs_def)

lemma canonical_loop_find:
  "canonical_loop values b first ks =
     (case find (\<lambda>k. length (lookup_values values k) > 1) ks of
        None \<Rightarrow> Inr (first_value_loop values b first ks)
      | Some k \<Rightarrow> Inl (MultiValueQueryError k (int (length (lookup_values values k)))))"
  by (induction ks arbitrary: b first) (auto simp: Let_def split: option.splits)

lemma CanonicalQuery_find:
  "CanonicalQuery values =
     (case find (\<lambda>k. length (lookup_values values k) > 1) (sort (map fst values)) of
        None \<Rightarrow> Inr (CanonicalQueryFirstValue values)
      | Some k \<Rightarrow> Inl (MultiValueQueryError k (int (length (lookup_values values k)))))"
  by (auto simp: CanonicalQuery_def CanonicalQueryFirstValue_def canonical_loop_find
      split: option.splits)

section \<open>Reading a built query\<close>

lemma enc_pair_chars: "c \<in> set ''&;'' \<Longrightarrow> c \<notin> set (enc_pair p)"
  using escape_no_delim [of c] by (auto simp: enc_pair_def)

lemma parse_pair_enc: "parse_pair (enc_pair p) = Some p"
proof -
  have "CHR ''='' \<notin> set (rfc3986Escape (fst p))" by (rule escape_no_delim) simp
  then have "cut_at (CHR ''='') (enc_pair p) = (rfc3986Escape (fst p), rfc3986Escape (snd p), True)"
    by (simp add: enc_pair_def cut_at_append)
  moreover have "CHR '';'' \<notin> set (enc_pair p)" by (rule enc_pair_chars) simp
  moreover have "enc_pair p \<noteq> []" by (simp add: enc_pair_def)
  ultimately show ?thesis by (simp add: parse_pair_def query_unescape_escape)
qed

lemma parse_query_join: "parse_query (join_with ''&'' (map enc_pair ps)) = ps"
proof (cases "ps = []")
  case True
  then show ?thesis by (simp add: parse_query_def parse_pair_def map_filter_simps)
next
  case False
  then have "split_on (CHR ''&'') (join_with ''&'' (map enc_pair ps)) = map enc_pair ps"
    using enc_pair_chars by (intro split_on_join) auto
  moreover have "List.map_filter parse_pair (map enc_pair ps) = ps"
    by (induction ps) (simp_all add: parse_pair_enc map_filter_simps)
  ultimately show ?thesis by (simp add: parse_query_def)
qed

lemma parsed_values_concat:
  "distinct ks \<Longrightarrow> parsed_values (concat (map (\<lambda>k. map (Pair k) (f k)) ks)) k =
     (if k \<in> set ks then f k else [])"
proof (induction ks)
  case (Cons a ks)
  have "map snd (filter (\<lambda>p. fst p = k) (map (Pair a) (f a))) = (if a = k then f a else [])"
    by (auto simp: filter_map o_def)
  with Cons show ?case by (auto simp: parsed_values_def)
qed (simp add: parsed_values_def)

lemma lookup_values_notin: "k \<notin> fst ` set values \<Longrightarrow> lookup_values values k = []"
  by (simp add: lookup_values_def map_of_eq_None_iff [THEN iffD2])

lemma lookup_values_perm:
  assumes "distinct (map fst values)" "mset values = mset values'"
  shows "lookup_values values = lookup_values values'"
proof -
  have "mset (map fst values) = mset (map fst values')" using assms(2) by simp
  then have "distinct (map fst values')" using assms(1) mset_eq_imp_distinct_iff by blast
  moreover have "set values = set values'" using assms(2) by (rule mset_eq_setD)
  ultimately have "map_of values = map_of values'"
    using map_of_inject_set [OF assms(1)] by blast
  then show ?thesis by (simp add: lookup_values_def fun_eq_iff)
qed

lemma sort_keys_perm: "mset values = mset values' \<Longrightarrow> sort (map fst values) = sort (map fst values')"
  by (metis mset_map mset_sort properties_for_sort sorted_sort)

section \<open>Properties\<close>

text \<open>Decoding a percent-encoded string, as net/url does it, gives the string back,
  whatever its bytes: rfc3986Escape loses nothing and its fast path agrees with its loop.\<close>
theorem rfc3986Escape_roundtrip: "query_unescape (rfc3986Escape s) = Some s"
  by (rule query_unescape_escape)

text \<open>C10. The query sent on the wire is read back by url.ParseQuery as exactly the values
  the caller passed, every value of every key in order: the wire encoder loses no data.
  The keys of a url.Values, being those of a Go map, are distinct.\<close>
theorem EncodeWireQueryRFC3986_lossless:
  assumes "distinct (map fst values)"
  shows "parsed_values (parse_query (EncodeWireQueryRFC3986 values)) k = lookup_values values k"
proof -
  have "parsed_values (query_pairs values) k =
      (if k \<in> set (sort (map fst values)) then lookup_values values k else [])"
    unfolding query_pairs_def using assms by (intro parsed_values_concat) simp
  then show ?thesis
    by (simp add: EncodeWireQueryRFC3986_join parse_query_join lookup_values_notin)
qed

theorem EncodeWireQueryRFC3986_lossless_witness:
  "parsed_values (parse_query (EncodeWireQueryRFC3986
     [(''tag'', [''x y'', ''a&b'']), (''id'', [''7''])])) ''tag'' = [''x y'', ''a&b'']"
  using EncodeWireQueryRFC3986_lossless
    [of "[(''tag'', [''x y'', ''a&b'']), (''id'', [''7''])]" "''tag''"]
  by (simp add: lookup_values_def)

text \<open>The bytes sent equal the bytes signed exactly when no key has more than one value:
  single-value queries keep the wire-equals-canonical invariant, multi-value ones never do.\<close>
theorem wire_equals_canonical_iff:
  assumes "distinct (map fst values)"
  shows "EncodeWireQueryRFC3986 values = CanonicalQueryFirstValue values \<longleftrightarrow>
    (\<forall>k. length (lookup_values values k) \<le> 1)"
proof
  assume "EncodeWireQueryRFC3986 values = CanonicalQueryFirstValue values"
  then have eq: "query_pairs values = first_pairs values"
    by (metis EncodeWireQueryRFC3986_join CanonicalQueryFirstValue_join parse_query_join)
  have d: "distinct (sort (map fst values))" using assms by simp
  show "\<forall>k. length (lookup_values values k) \<le> 1"
  proof
    fix k
    have "lookup_values values k = take 1 (lookup_values values k)" if "k \<in> set (sort (map fst values))"
      using arg_cong [OF eq, of "\<lambda>ps. parsed_values ps k"] that
        parsed_values_concat [OF d, of "lookup_values values" k]
        parsed_values_concat [OF d, of "\<lambda>k. take 1 (lookup_values values k)" k]
      by (simp add: query_pairs_def first_pairs_def)
    moreover have "lookup_values values k = []" if "k \<notin> set (sort (map fst values))"
      using that by (intro lookup_values_notin) simp
    ultimately show "length (lookup_values values k) \<le> 1"
      by (metis length_take list.size(3) min.cobounded2 zero_le)
  qed
next
  assume "\<forall>k. length (lookup_values values k) \<le> 1"
  then have "query_pairs values = first_pairs values"
    by (simp add: query_pairs_def first_pairs_def)
  then show "EncodeWireQueryRFC3986 values = CanonicalQueryFirstValue values"
    by (simp add: EncodeWireQueryRFC3986_join CanonicalQueryFirstValue_join)
qed

theorem wire_equals_canonical_iff_witness:
  "EncodeWireQueryRFC3986 [(''b'', [''2'', ''3'']), (''a'', [''1''])] \<noteq>
   CanonicalQueryFirstValue [(''b'', [''2'', ''3'']), (''a'', [''1''])]"
proof -
  let ?q = "[(''b'', [''2'', ''3'']), (''a'', [''1''])]"
  have "length (lookup_values ?q ''b'') = 2" by (simp add: lookup_values_def)
  then have "\<not> (\<forall>k. length (lookup_values ?q k) \<le> 1)" by (metis numeral_le_one_iff semiring_norm(69))
  moreover have "distinct (map fst ?q)" by simp
  ultimately show ?thesis using wire_equals_canonical_iff [of ?q] by blast
qed

text \<open>The strict builder reports the first key in sorted order that has several values,
  with their number, and otherwise returns the same bytes as the first-value builder.\<close>
theorem CanonicalQuery_strict:
  "CanonicalQuery values =
     (case find (\<lambda>k. length (lookup_values values k) > 1) (sort (map fst values)) of
        None \<Rightarrow> Inr (CanonicalQueryFirstValue values)
      | Some k \<Rightarrow> Inl (MultiValueQueryError k (int (length (lookup_values values k)))))"
  by (rule CanonicalQuery_find)

text \<open>Go iterates a map in an arbitrary order; none of the three builders depends on it:
  two listings of the same map give the same signed and the same sent bytes.\<close>
theorem query_builders_order_independent:
  assumes "distinct (map fst values)" "mset values = mset values'"
  shows "CanonicalQuery values = CanonicalQuery values' \<and>
    CanonicalQueryFirstValue values = CanonicalQueryFirstValue values' \<and>
    EncodeWireQueryRFC3986 values = EncodeWireQueryRFC3986 values'"
proof -
  note lk = lookup_values_perm [OF assms]
  note sk = sort_keys_perm [OF assms(2)]
  have "query_pairs values = query_pairs values'" "first_pairs values = first_pairs values'"
    by (simp_all add: query_pairs_def first_pairs_def lk sk)
  then show ?thesis
    by (simp add: EncodeWireQueryRFC3986_join CanonicalQueryFirstValue_join CanonicalQuery_find lk sk
        split: option.split)
qed

theorem query_builders_order_independent_witness:
  "EncodeWireQueryRFC3986 [(''b'', [''2'']), (''a'', [''1''])] =
   EncodeWireQueryRFC3986 [(''a'', [''1'']), (''b'', [''2''])]"
  using query_builders_order_independent
    [of "[(''b'', [''2'']), (''a'', [''1''])]" "[(''a'', [''1'']), (''b'', [''2''])]"]
  by (simp add: add_mset_commute)

end
