(* ===== verification/Sign_Schemes.thy ===== *)
theory Sign_Schemes
  imports Sign_Canonical
begin

text \<open>
  atomefin/sign: signer.go, verifier.go, hmac.go and pem.go.  The cryptographic
  primitives of Go's library are arguments: \<open>sha256\<close>, \<open>hmac\<close> (the MAC of a key and a
  message), \<open>rsa_sign\<close> (SignPKCS1v15 of a key and a digest, None when it fails) and
  \<open>rsa_verify\<close>.  A signer and a verifier are records of their methods, as Go
  interface values are; the context is the value of ctx.Err().
\<close>

section \<open>Keys\<close>

text \<open>
  An RSA key: the bit length of its modulus, None for a nil modulus, and an
  identity for the key material.
\<close>

record rsa_key =
  N_BitLen :: "nat option"
  key_material :: nat

definition MinKeyBits :: nat where "MinKeyBits = 2048"

definition ErrInvalidKey :: go_error where "ErrInvalidKey = ErrorString ''sign: invalid RSA key''"
definition ErrSignature :: go_error where
  "ErrSignature = ErrorString ''sign: signature verification failed''"
definition ErrHMACKey :: go_error where
  "ErrHMACKey = ErrorString ''sign: OVO.HMAC requires a non-empty client secret''"
definition ErrPEM :: go_error where "ErrPEM = ErrorString ''sign: invalid PEM''"

definition key_too_small :: "rsa_key \<Rightarrow> bool" where
  "key_too_small k \<longleftrightarrow> (case N_BitLen k of None \<Rightarrow> True | Some b \<Rightarrow> b < MinKeyBits)"

definition invalid_key_error :: "rsa_key \<Rightarrow> go_error" where
  "invalid_key_error k =
     (let bits = (case N_BitLen k of None \<Rightarrow> 0 | Some b \<Rightarrow> b)
      in WrapError [] ErrInvalidKey
           ('': modulus '' @ itoa (int bits) @ '' bits, need >= '' @ itoa (int MinKeyBits)))"

section \<open>Signer and verifier interfaces\<close>

record signer =
  Sign :: "go_error option \<Rightarrow> bytes \<Rightarrow> go_error + string"
  KeyID :: string

record verifier =
  Verify :: "go_error option \<Rightarrow> bytes \<Rightarrow> string \<Rightarrow> go_error option"

section \<open>RSA2\<close>

record rsa2Signer =
  priv :: rsa_key
  rsa_keyID :: string

type_synonym signer_option = "rsa2Signer \<Rightarrow> go_error + rsa2Signer"

definition WithKeyID :: "string \<Rightarrow> signer_option" where
  "WithKeyID i s = Inr (s\<lparr>rsa_keyID := i\<rparr>)"

fun apply_options :: "('c \<Rightarrow> go_error + 'c) list \<Rightarrow> 'c \<Rightarrow> go_error + 'c" where
  "apply_options [] c = Inr c"
| "apply_options (f # fs) c = rbind (f c) (apply_options fs)"

definition rsa2_Sign ::
  "(bytes \<Rightarrow> bytes) \<Rightarrow> (rsa_key \<Rightarrow> bytes \<Rightarrow> go_error + bytes) \<Rightarrow> rsa2Signer \<Rightarrow>
   go_error option \<Rightarrow> bytes \<Rightarrow> go_error + string" where
  "rsa2_Sign sha256 rsa_sign s ctx canonical =
     (case ctx of
        Some err \<Rightarrow> Inl err
      | None \<Rightarrow>
          (case rsa_sign (priv s) (sha256 canonical) of
             Inl err \<Rightarrow> Inl (WrapError ''sign: rsa sign: '' err [])
           | Inr sig \<Rightarrow> Inr (b64_encode True sig)))"

definition NewRSA2Signer ::
  "(bytes \<Rightarrow> bytes) \<Rightarrow> (rsa_key \<Rightarrow> bytes \<Rightarrow> go_error + bytes) \<Rightarrow> rsa_key option \<Rightarrow>
   signer_option list \<Rightarrow> go_error + signer" where
  "NewRSA2Signer sha256 rsa_sign pk opts =
     (case pk of
        None \<Rightarrow> Inl (WrapError [] ErrInvalidKey '': nil private key'')
      | Some k \<Rightarrow>
          if key_too_small k then Inl (invalid_key_error k)
          else rbind (apply_options opts \<lparr>priv = k, rsa_keyID = []\<rparr>)
                 (\<lambda>s. Inr \<lparr>Sign = rsa2_Sign sha256 rsa_sign s, KeyID = rsa_keyID s\<rparr>))"

definition rsa2_Verify ::
  "(bytes \<Rightarrow> bytes) \<Rightarrow> (rsa_key \<Rightarrow> bytes \<Rightarrow> bytes \<Rightarrow> bool) \<Rightarrow> rsa_key \<Rightarrow>
   go_error option \<Rightarrow> bytes \<Rightarrow> string \<Rightarrow> go_error option" where
  "rsa2_Verify sha256 rsa_verify pub ctx canonical signature =
     (case ctx of
        Some err \<Rightarrow> Some err
      | None \<Rightarrow>
          if signature = [] then Some (WrapError [] ErrSignature '': empty signature'')
          else (case b64_decode True signature of
             None \<Rightarrow> Some (WrapError [] ErrSignature '': base64 decode'')
           | Some sig \<Rightarrow>
               if rsa_verify pub (sha256 canonical) sig then None
               else Some (WrapError [] ErrSignature '': crypto/rsa: verification error'')))"

definition NewRSA2Verifier ::
  "(bytes \<Rightarrow> bytes) \<Rightarrow> (rsa_key \<Rightarrow> bytes \<Rightarrow> bytes \<Rightarrow> bool) \<Rightarrow> rsa_key option \<Rightarrow>
   (rsa_key \<Rightarrow> go_error + rsa_key) list \<Rightarrow> go_error + verifier" where
  "NewRSA2Verifier sha256 rsa_verify pk opts =
     (case pk of
        None \<Rightarrow> Inl (WrapError [] ErrInvalidKey '': nil public key'')
      | Some k \<Rightarrow>
          if key_too_small k then Inl (invalid_key_error k)
          else rbind (apply_options opts k)
                 (\<lambda>v. Inr \<lparr>Verify = rsa2_Verify sha256 rsa_verify v\<rparr>))"

section \<open>OVO.HMAC\<close>

definition OVOHMACKey :: "(bytes \<Rightarrow> bytes) \<Rightarrow> string \<Rightarrow> bytes" where
  "OVOHMACKey sha256 clientSecret = hex_encode (sha256 clientSecret)"

definition OVOHMACCanonical :: "string \<Rightarrow> string \<Rightarrow> string \<Rightarrow> string \<Rightarrow> bytes \<Rightarrow> bytes" where
  "OVOHMACCanonical clientID timeMillis method pathWithQuery body =
     clientID @ timeMillis @ method @ '' '' @ pathWithQuery @ b64_encode False body"

definition ovoHMAC :: "(bytes \<Rightarrow> bytes \<Rightarrow> bytes) \<Rightarrow> bytes \<Rightarrow> bytes \<Rightarrow> string" where
  "ovoHMAC hmac key canonical = hex_encode (hmac key canonical)"

definition ovoHMAC_Verify ::
  "(bytes \<Rightarrow> bytes \<Rightarrow> bytes) \<Rightarrow> bytes \<Rightarrow> go_error option \<Rightarrow> bytes \<Rightarrow> string \<Rightarrow> go_error option" where
  "ovoHMAC_Verify hmac key ctx canonical signature =
     (case ctx of
        Some err \<Rightarrow> Some err
      | None \<Rightarrow>
          if signature = [] then Some (WrapError [] ErrSignature '': empty signature'')
          else let want = ovoHMAC hmac key canonical in
            if want \<noteq> signature then Some (WrapError [] ErrSignature '': OVO.HMAC mismatch'')
            else None)"

definition NewOVOHMACVerifier ::
  "(bytes \<Rightarrow> bytes) \<Rightarrow> (bytes \<Rightarrow> bytes \<Rightarrow> bytes) \<Rightarrow> string \<Rightarrow> go_error + verifier" where
  "NewOVOHMACVerifier sha256 hmac clientSecret =
     (if clientSecret = [] then Inl ErrHMACKey
      else Inr \<lparr>Verify = ovoHMAC_Verify hmac (OVOHMACKey sha256 clientSecret)\<rparr>)"

definition ovoHMAC_Sign ::
  "(bytes \<Rightarrow> bytes \<Rightarrow> bytes) \<Rightarrow> bytes \<Rightarrow> go_error option \<Rightarrow> bytes \<Rightarrow> go_error + string" where
  "ovoHMAC_Sign hmac key ctx canonical =
     (case ctx of Some err \<Rightarrow> Inl err | None \<Rightarrow> Inr (ovoHMAC hmac key canonical))"

definition NewOVOHMACSigner ::
  "(bytes \<Rightarrow> bytes) \<Rightarrow> (bytes \<Rightarrow> bytes \<Rightarrow> bytes) \<Rightarrow> string \<Rightarrow> go_error + signer" where
  "NewOVOHMACSigner sha256 hmac clientSecret =
     (if clientSecret = [] then Inl ErrHMACKey
      else Inr \<lparr>Sign = ovoHMAC_Sign hmac (OVOHMACKey sha256 clientSecret), KeyID = []\<rparr>)"

section \<open>PEM loading\<close>

record pem_block =
  Type :: string
  Headers :: "(string \<times> string) list"
  Bytes :: bytes

text \<open>A parsed key of crypto/x509: an RSA key or one of another algorithm.\<close>

datatype any_key = RSAKey rsa_key | OtherKey string

record x509_parsers =
  pem_Decode :: "bytes \<Rightarrow> pem_block option"
  ParsePKCS1PrivateKey :: "bytes \<Rightarrow> rsa_key option"
  ParsePKCS8PrivateKey :: "bytes \<Rightarrow> any_key option"
  ParseCertificate :: "bytes \<Rightarrow> any_key option"
  ParsePKIXPublicKey :: "bytes \<Rightarrow> any_key option"
  ParsePKCS1PublicKey :: "bytes \<Rightarrow> rsa_key option"

definition pem_error :: "string \<Rightarrow> go_error" where
  "pem_error msg = WrapError [] ErrPEM ('': '' @ msg)"

definition expect_rsa :: "string \<Rightarrow> string \<Rightarrow> any_key option \<Rightarrow> go_error + rsa_key" where
  "expect_rsa parse_msg kind_msg r =
     (case r of
        None \<Rightarrow> Inl (pem_error parse_msg)
      | Some (OtherKey t) \<Rightarrow> Inl (pem_error (kind_msg @ '' is not RSA (got '' @ t @ '')''))
      | Some (RSAKey k) \<Rightarrow> Inr k)"

definition check_bits :: "rsa_key \<Rightarrow> go_error + rsa_key" where
  "check_bits k = (if key_too_small k then Inl (invalid_key_error k) else Inr k)"

definition LoadPrivateKeyPEM :: "x509_parsers \<Rightarrow> bytes \<Rightarrow> bytes list \<Rightarrow> go_error + rsa_key" where
  "LoadPrivateKeyPEM X data password =
     (if list_ex (\<lambda>p. length p > 0) password then Inl (pem_error ''encrypted PEM not yet supported'')
      else case pem_Decode X data of
        None \<Rightarrow> Inl (pem_error ''no PEM block found'')
      | Some block \<Rightarrow>
          if map_of (Headers block) ''DEK-Info'' \<noteq> None
          then Inl (pem_error ''encrypted PKCS#1 not supported'')
          else rbind
            (if Type block = ''RSA PRIVATE KEY'' then
               expect_rsa ''PKCS#1'' [] (map_option RSAKey (ParsePKCS1PrivateKey X (Bytes block)))
             else if Type block = ''PRIVATE KEY'' then
               expect_rsa ''PKCS#8'' ''PKCS#8 key'' (ParsePKCS8PrivateKey X (Bytes block))
             else if Type block = ''ENCRYPTED PRIVATE KEY'' then
               Inl (pem_error ''encrypted PKCS#8 not supported'')
             else Inl (pem_error (''unsupported block type '' @ Type block)))
            check_bits)"

definition LoadPublicCertPEM :: "x509_parsers \<Rightarrow> bytes \<Rightarrow> go_error + rsa_key" where
  "LoadPublicCertPEM X data =
     (case pem_Decode X data of
        None \<Rightarrow> Inl (pem_error ''no PEM block found'')
      | Some block \<Rightarrow>
          rbind
            (if Type block = ''CERTIFICATE'' then
               expect_rsa ''certificate'' ''certificate public key'' (ParseCertificate X (Bytes block))
             else if Type block = ''PUBLIC KEY'' then
               expect_rsa ''PKIX'' ''PKIX public key'' (ParsePKIXPublicKey X (Bytes block))
             else if Type block = ''RSA PUBLIC KEY'' then
               expect_rsa ''PKCS#1'' [] (map_option RSAKey (ParsePKCS1PublicKey X (Bytes block)))
             else Inl (pem_error (''unsupported block type '' @ Type block)))
            check_bits)"

section \<open>Contracts of the interfaces\<close>

text \<open>What every Verifier of the package promises to the callback handlers.\<close>

locale verifier_contract =
  fixes vf :: verifier
  assumes ctx_first: "Verify vf (Some e) m s = Some e"
    and empty_rejected: "Verify vf None m [] \<noteq> None"
begin

lemma accepted_live: "Verify vf ctx m s = None \<Longrightarrow> ctx = None"
  using ctx_first by (cases ctx) auto

lemma accepted_nonempty: "Verify vf ctx m s = None \<Longrightarrow> s \<noteq> []"
  using accepted_live empty_rejected by blast

end

text \<open>A Signer and a Verifier that belong together.\<close>

locale signature_scheme = verifier_contract vf for vf :: verifier +
  fixes sg :: signer
  assumes sign_ctx: "Sign sg (Some e) m = Inl e"
    and sign_verifies: "Sign sg None m = Inr s \<Longrightarrow> s \<noteq> [] \<Longrightarrow> Verify vf None m s = None"
begin

lemma signed_live: "Sign sg ctx m = Inr s \<Longrightarrow> ctx = None"
  using sign_ctx by (cases ctx) auto

lemma signed_verifies: "Sign sg ctx m = Inr s \<Longrightarrow> s \<noteq> [] \<Longrightarrow> Verify vf None m s = None"
  using signed_live sign_verifies by blast

end

interpretation rsa2: verifier_contract "\<lparr>Verify = rsa2_Verify sha256 rsa_verify pub\<rparr>"
  for sha256 rsa_verify pub
  by unfold_locales (simp_all add: rsa2_Verify_def)

interpretation ovo: signature_scheme "\<lparr>Verify = ovoHMAC_Verify hmac key\<rparr>"
  "\<lparr>Sign = ovoHMAC_Sign hmac key, KeyID = []\<rparr>" for hmac key
  by unfold_locales (auto simp: ovoHMAC_Verify_def ovoHMAC_Sign_def Let_def)

section \<open>Construction lemmas\<close>

lemma apply_WithKeyID:
  "apply_options (map WithKeyID ids) s = Inr (if ids = [] then s else s\<lparr>rsa_keyID := last ids\<rparr>)"
  by (induction ids arbitrary: s) (auto simp: WithKeyID_def)

lemma NewRSA2Signer_Inr:
  "NewRSA2Signer h sg pk (map WithKeyID ids) = Inr s \<longleftrightarrow>
     (\<exists>k. pk = Some k \<and> \<not> key_too_small k \<and>
        s = \<lparr>Sign = rsa2_Sign h sg \<lparr>priv = k, rsa_keyID = (if ids = [] then [] else last ids)\<rparr>,
             KeyID = (if ids = [] then [] else last ids)\<rparr>)"
  by (auto simp: NewRSA2Signer_def apply_WithKeyID split: option.splits)

lemma NewRSA2Verifier_Inr:
  "NewRSA2Verifier h vf pk [] = Inr v \<longleftrightarrow>
     (\<exists>k. pk = Some k \<and> \<not> key_too_small k \<and> v = \<lparr>Verify = rsa2_Verify h vf k\<rparr>)"
  by (auto simp: NewRSA2Verifier_def split: option.splits)

lemma key_ok_iff: "\<not> key_too_small k \<longleftrightarrow> (\<exists>b. N_BitLen k = Some b \<and> 2048 \<le> b)"
  by (auto simp: key_too_small_def MinKeyBits_def split: option.splits)

lemma b64_encode_Nil_iff: "b64_encode pad bs = [] \<longleftrightarrow> bs = []"
  by (cases "(pad, bs)" rule: b64_encode.cases) auto

lemma check_bits_Inr: "check_bits k = Inr k' \<longleftrightarrow> k = k' \<and> \<not> key_too_small k"
  by (auto simp: check_bits_def)

section \<open>Properties\<close>

text \<open>An OVO.HMAC verifier accepts a signature over the bytes m exactly when it is the
  lowercase hex of their MAC under the derived key, which is what the signer of the same
  secret produces: no other text is accepted, and every produced one is.  A MAC is never empty.\<close>
theorem ovoHMAC_accepts_exactly:
  assumes "NewOVOHMACSigner sha256 hmac secret = Inr sg"
    and "NewOVOHMACVerifier sha256 hmac secret = Inr vf"
    and "\<And>k m. hmac k m \<noteq> []"
  shows "Verify vf ctx m s = None \<longleftrightarrow> ctx = None \<and> Sign sg None m = Inr s"
proof -
  have sg: "sg = \<lparr>Sign = ovoHMAC_Sign hmac (OVOHMACKey sha256 secret), KeyID = []\<rparr>"
    and vf: "vf = \<lparr>Verify = ovoHMAC_Verify hmac (OVOHMACKey sha256 secret)\<rparr>"
    using assms(1,2) by (auto simp: NewOVOHMACSigner_def NewOVOHMACVerifier_def split: if_splits)
  have ne: "ovoHMAC hmac k m \<noteq> []" for k m
    using assms(3) [of k m] by (metis ovoHMAC_def hex_encode_inj hex_encode.simps(1))
  show ?thesis
  proof
    assume v: "Verify vf ctx m s = None"
    then have "ctx = None" unfolding vf by (rule ovo.accepted_live)
    with v show "ctx = None \<and> Sign sg None m = Inr s"
      by (auto simp: sg vf ovoHMAC_Verify_def ovoHMAC_Sign_def Let_def split: if_splits)
  next
    assume c: "ctx = None \<and> Sign sg None m = Inr s"
    then have "s \<noteq> []" using ne by (auto simp: sg ovoHMAC_Sign_def)
    with c show "Verify vf ctx m s = None"
      using ovo.sign_verifies [of hmac "OVOHMACKey sha256 secret" m s] by (simp add: vf sg)
  qed
qed

theorem ovoHMAC_accepts_exactly_witness:
  "\<exists>sg vf. NewOVOHMACSigner (\<lambda>b. b) (\<lambda>k m. CHR ''!'' # k @ m) ''s'' = Inr sg \<and>
     NewOVOHMACVerifier (\<lambda>b. b) (\<lambda>k m. CHR ''!'' # k @ m) ''s'' = Inr vf \<and>
     Sign sg None ''m'' = Inr ''2137336d'' \<and> Verify vf None ''m'' ''2137336d'' = None"
proof -
  obtain sg where sg: "NewOVOHMACSigner (\<lambda>b. b) (\<lambda>k m. CHR ''!'' # k @ m) ''s'' = Inr sg"
    by (simp add: NewOVOHMACSigner_def)
  obtain vf where vf: "NewOVOHMACVerifier (\<lambda>b. b) (\<lambda>k m. CHR ''!'' # k @ m) ''s'' = Inr vf"
    by (simp add: NewOVOHMACVerifier_def)
  have "Sign sg None ''m'' = Inr ''2137336d''"
    using sg by (auto simp: NewOVOHMACSigner_def ovoHMAC_Sign_def ovoHMAC_def OVOHMACKey_def lowerhex_def)
  then show ?thesis using sg vf ovoHMAC_accepts_exactly [OF sg vf, of None "''m''" "''2137336d''"] by simp
qed

text \<open>A signature made by an RSA2 signer verifies under an RSA2 verifier of the matching
  public key: the base64 layer and the digest are the same on both sides.  The hypothesis on the
  primitives is the documented one of crypto/rsa: what SignPKCS1v15 returns is not empty and
  VerifyPKCS1v15 accepts it.\<close>
theorem rsa2_sign_verifies:
  assumes "NewRSA2Signer sha256 rsa_sign (Some k) (map WithKeyID ids) = Inr sg"
    and "NewRSA2Verifier sha256 rsa_verify (Some p) [] = Inr vf"
    and "\<And>d sig. rsa_sign k d = Inr sig \<Longrightarrow> sig \<noteq> [] \<and> rsa_verify p d sig"
    and "Sign sg ctx m = Inr s"
  shows "Verify vf None m s = None \<and> KeyID sg = (if ids = [] then [] else last ids)"
proof -
  have "sg = \<lparr>Sign = rsa2_Sign sha256 rsa_sign \<lparr>priv = k, rsa_keyID = (if ids = [] then [] else last ids)\<rparr>,
      KeyID = (if ids = [] then [] else last ids)\<rparr>" "vf = \<lparr>Verify = rsa2_Verify sha256 rsa_verify p\<rparr>"
    using assms(1,2) by (auto simp: NewRSA2Signer_Inr NewRSA2Verifier_Inr)
  moreover from this obtain sig where "rsa_sign k (sha256 m) = Inr sig" "s = b64_encode True sig"
    using assms(4) by (auto simp: rsa2_Sign_def split: option.splits sum.splits)
  ultimately show ?thesis
    using assms(3) [of "sha256 m" sig] by (simp add: rsa2_Verify_def b64_encode_Nil_iff b64_decode_encode)
qed

theorem rsa2_sign_verifies_witness:
  "\<exists>sg vf. NewRSA2Signer (\<lambda>b. b) (\<lambda>k d. Inr (CHR ''#'' # d))
       (Some \<lparr>N_BitLen = Some 2048, key_material = 1\<rparr>) (map WithKeyID [''k1'']) = Inr sg \<and>
     NewRSA2Verifier (\<lambda>b. b) (\<lambda>p d sig. sig = CHR ''#'' # d)
       (Some \<lparr>N_BitLen = Some 2048, key_material = 2\<rparr>) [] = Inr vf \<and>
     Verify vf None ''m'' ''I20='' = None \<and> KeyID sg = ''k1''"
proof -
  let ?k = "\<lparr>N_BitLen = Some 2048, key_material = 1\<rparr>"
  let ?p = "\<lparr>N_BitLen = Some 2048, key_material = 2\<rparr>"
  obtain sg where sg: "NewRSA2Signer (\<lambda>b. b) (\<lambda>k d. Inr (CHR ''#'' # d)) (Some ?k) (map WithKeyID [''k1'']) = Inr sg"
    by (simp add: NewRSA2Signer_def key_too_small_def MinKeyBits_def WithKeyID_def)
  obtain vf where vf: "NewRSA2Verifier (\<lambda>b. b) (\<lambda>p d sig. sig = CHR ''#'' # d) (Some ?p) [] = Inr vf"
    by (simp add: NewRSA2Verifier_def key_too_small_def MinKeyBits_def)
  have s: "Sign sg None ''m'' = Inr ''I20=''"
    using sg by (auto simp only: NewRSA2Signer_Inr) (simp add: rsa2_Sign_def b64_char_def b64_alphabet_def)
  show ?thesis using sg vf rsa2_sign_verifies [OF sg vf _ s] by simp
qed

text \<open>Whatever PEM text is given, a key that a loader returns has at least 2048 bits; a
  private key is only returned when no password was given and the block is not encrypted.\<close>
theorem loaded_keys_are_strong:
  "(LoadPrivateKeyPEM X data password = Inr k \<longrightarrow>
      (\<exists>b block. N_BitLen k = Some b \<and> 2048 \<le> b \<and> pem_Decode X data = Some block \<and>
         map_of (Headers block) ''DEK-Info'' = None \<and> (\<forall>p \<in> set password. p = []) \<and>
         Type block \<in> {''RSA PRIVATE KEY'', ''PRIVATE KEY''})) \<and>
   (LoadPublicCertPEM X data = Inr k \<longrightarrow> (\<exists>b. N_BitLen k = Some b \<and> 2048 \<le> b))"
proof
  show "LoadPublicCertPEM X data = Inr k \<longrightarrow> (\<exists>b. N_BitLen k = Some b \<and> 2048 \<le> b)"
    by (auto simp: LoadPublicCertPEM_def result_simps check_bits_Inr key_ok_iff split: option.splits)
  show "LoadPrivateKeyPEM X data password = Inr k \<longrightarrow>
      (\<exists>b block. N_BitLen k = Some b \<and> 2048 \<le> b \<and> pem_Decode X data = Some block \<and>
         map_of (Headers block) ''DEK-Info'' = None \<and> (\<forall>p \<in> set password. p = []) \<and>
         Type block \<in> {''RSA PRIVATE KEY'', ''PRIVATE KEY''})"
    by (auto simp: LoadPrivateKeyPEM_def result_simps check_bits_Inr key_ok_iff list_ex_iff
        split: option.splits if_splits)
qed

definition sample_parsers :: x509_parsers where
  "sample_parsers = \<lparr>pem_Decode = (\<lambda>d. Some \<lparr>Type = ''PRIVATE KEY'', Headers = [], Bytes = d\<rparr>),
     ParsePKCS1PrivateKey = (\<lambda>d. None),
     ParsePKCS8PrivateKey = (\<lambda>d. Some (RSAKey \<lparr>N_BitLen = Some 3072, key_material = 5\<rparr>)),
     ParseCertificate = (\<lambda>d. None), ParsePKIXPublicKey = (\<lambda>d. None),
     ParsePKCS1PublicKey = (\<lambda>d. None)\<rparr>"

theorem loaded_keys_are_strong_witness:
  "LoadPrivateKeyPEM sample_parsers ''x'' [[]] = Inr \<lparr>N_BitLen = Some 3072, key_material = 5\<rparr> \<and>
   (\<exists>b. N_BitLen \<lparr>N_BitLen = Some 3072, key_material = 5\<rparr> = Some b \<and> 2048 \<le> b)"
proof -
  have "LoadPrivateKeyPEM sample_parsers ''x'' [[]] = Inr \<lparr>N_BitLen = Some 3072, key_material = 5\<rparr>"
    by (simp add: LoadPrivateKeyPEM_def sample_parsers_def expect_rsa_def check_bits_def
        key_too_small_def MinKeyBits_def)
  then show ?thesis using loaded_keys_are_strong by blast
qed

end
