(* ===== verification/Encrypt.thy ===== *)
theory Encrypt
  imports Sign_Schemes
begin

text \<open>
  atomefin/encrypt: the envelope of the credit endpoints.  A fresh AES-256 key of
  32 letters encrypts the body block by block (ECB with PKCS#5 padding), the key
  is wrapped with RSA and travels in the Encrypt header.  The block cipher and RSA
  are arguments; padding, chunking, base64, the header grammar and the drawing of
  the key are modelled in full.
\<close>

section \<open>Keys: key.go\<close>

definition aesKeyBytes :: nat where "aesKeyBytes = 32"
definition AESKeyAlphabetSize :: nat where "AESKeyAlphabetSize = 26"
definition aesKeyAlphabetCutoff :: nat where "aesKeyAlphabetCutoff = AESKeyAlphabetSize * 9"

definition key_letter :: "char \<Rightarrow> char" where
  "key_letter one = char_of (code (CHR ''A'') + code one mod AESKeyAlphabetSize)"

text \<open>
  One draw of crypto/rand per element of the list; None when the draws given end
  before the loop does.  The first argument is the number of bytes still missing.
\<close>

fun draw_key :: "nat \<Rightarrow> string \<Rightarrow> (go_error + char) list \<Rightarrow> (go_error + string) option" where
  "draw_key 0 out ds = Some (Inr out)"
| "draw_key (Suc n) out [] = None"
| "draw_key (Suc n) out (Inl err # ds) = Some (Inl (WrapError ''encrypt: rand.Read: '' err []))"
| "draw_key (Suc n) out (Inr one # ds) =
     (if code one < aesKeyAlphabetCutoff then draw_key n (out @ [key_letter one]) ds
      else draw_key (Suc n) out ds)"

definition RandomAESKey :: "(go_error + char) list \<Rightarrow> (go_error + string) option" where
  "RandomAESKey ds = draw_key aesKeyBytes [] ds"

fun validate_from :: "nat \<Rightarrow> string \<Rightarrow> go_error option" where
  "validate_from i [] = None"
| "validate_from i (c # cs) =
     (if code c < code (CHR ''A'') \<or> code c > code (CHR ''Z'') then
        Some (ErrorString (''encrypt: AES key must be uppercase A '' @ [CHR 0xE2, CHR 0x80, CHR 0x94] @
          '' Z; invalid byte at index '' @ itoa (int i)))
      else validate_from (Suc i) cs)"

definition ValidateAESKey :: "string \<Rightarrow> go_error option" where
  "ValidateAESKey key =
     (if length key \<noteq> aesKeyBytes then
        Some (ErrorString (''encrypt: AES key must be exactly 32 chars, got '' @ itoa (int (length key))))
      else validate_from 0 key)"

section \<open>Body encryption: aes.go\<close>

definition pkcs5Pad :: "bytes \<Rightarrow> nat \<Rightarrow> bytes" where
  "pkcs5Pad input blockSize =
     (let padLen = blockSize - length input mod blockSize
      in input @ replicate padLen (char_of padLen))"

definition pkcs5Unpad :: "bytes \<Rightarrow> nat \<Rightarrow> go_error + bytes" where
  "pkcs5Unpad input blockSize =
     (if length input = 0 \<or> length input mod blockSize \<noteq> 0 then
        Inl (ErrorString (''encrypt: padded input length '' @ itoa (int (length input)) @ '' invalid''))
      else let padLen = code (input ! (length input - 1)) in
        if padLen = 0 \<or> padLen > blockSize then
          Inl (ErrorString (''encrypt: padding length '' @ itoa (int padLen) @ '' out of range [1, '' @
            itoa (int blockSize) @ '']''))
        else let tail = drop (length input - padLen) input in
          if tail \<noteq> replicate padLen (char_of padLen) then
            Inl (ErrorString ''encrypt: padding bytes do not match declared length'')
          else Inr (take (length input - padLen) input))"

text \<open>The loop over whole blocks: \<open>i := 0; i < len; i += bs\<close>.\<close>

function map_blocks :: "(bytes \<Rightarrow> bytes) \<Rightarrow> nat \<Rightarrow> bytes \<Rightarrow> bytes" where
  "map_blocks f bs s =
     (if s = [] \<or> bs = 0 then [] else f (take bs s) @ map_blocks f bs (drop bs s))"
  by auto
termination by (relation "measure (\<lambda>(f, bs, s). length s)") auto

declare map_blocks.simps [simp del]

text \<open>The cipher of crypto/aes: encryption and decryption of one block, and the block size.\<close>

record block_cipher =
  block_Encrypt :: "bytes \<Rightarrow> bytes \<Rightarrow> bytes"
  block_Decrypt :: "bytes \<Rightarrow> bytes \<Rightarrow> bytes"

definition aes_BlockSize :: nat where "aes_BlockSize = 16"

definition key_length_error :: "bytes \<Rightarrow> go_error" where
  "key_length_error key =
     ErrorString (''encrypt: AES key length must be 32 bytes, got '' @ itoa (int (length key)))"

text \<open>aes.NewCipher accepts every key of 32 bytes, so its error branch is not reached.\<close>

definition EncryptBody :: "block_cipher \<Rightarrow> bytes \<Rightarrow> bytes \<Rightarrow> go_error + string" where
  "EncryptBody B plain key =
     (if length key \<noteq> aesKeyBytes then Inl (key_length_error key)
      else let padded = pkcs5Pad plain aes_BlockSize
        in Inr (b64_encode True (map_blocks (block_Encrypt B key) aes_BlockSize padded)))"

definition DecryptBody :: "block_cipher \<Rightarrow> string \<Rightarrow> bytes \<Rightarrow> go_error + bytes" where
  "DecryptBody B b64 key =
     (if length key \<noteq> aesKeyBytes then Inl (key_length_error key)
      else case b64_decode True b64 of
        None \<Rightarrow> Inl (ErrorString ''encrypt: base64-decode body: '')
      | Some cipherBytes \<Rightarrow>
          if length cipherBytes = 0 then Inl (ErrorString ''encrypt: ciphertext empty'')
          else if length cipherBytes mod aes_BlockSize \<noteq> 0 then
            Inl (ErrorString (''encrypt: ciphertext length '' @ itoa (int (length cipherBytes)) @
              '' is not a multiple of block size '' @ itoa (int aes_BlockSize)))
          else pkcs5Unpad (map_blocks (block_Decrypt B key) aes_BlockSize cipherBytes) aes_BlockSize)"

section \<open>The Encrypt header: header.go\<close>

definition EncryptHeaderName :: string where "EncryptHeaderName = ''Encrypt''"
definition SymmetricKeyField :: string where "SymmetricKeyField = ''symmetricKey''"

text \<open>url.QueryEscape: as rfc3986Escape, with the space written as a plus sign.\<close>

definition query_escape :: "string \<Rightarrow> string" where
  "query_escape s = concat (map (\<lambda>c. if c = CHR '' '' then ''+'' else esc1 c) s)"

definition BuildEncryptHeader :: "string \<Rightarrow> string" where
  "BuildEncryptHeader wrappedKeyB64 = SymmetricKeyField @ ''='' @ query_escape wrappedKeyB64"

type_synonym kv = "(string \<times> string) list"

fun parse_parts :: "kv \<Rightarrow> string list \<Rightarrow> go_error + kv" where
  "parse_parts m [] = Inr m"
| "parse_parts m (p # ps) =
     (let part = trim_space p in
      if part = [] then parse_parts m ps
      else case cut_at (CHR ''='') part of
        (k0, v0, ok) \<Rightarrow>
          if \<not> ok then Inl (ErrorString (''encrypt: header part  missing '' @ [CHR 0x27, CHR ''='', CHR 0x27] @ '' separator''))
          else let k = trim_space k0; v = trim_space v0 in
            if k = [] then Inl (ErrorString ''encrypt: header part  has empty key'')
            else case query_unescape v of
              None \<Rightarrow> Inl (ErrorString ''encrypt: header part : unescape value: '')
            | Some unescaped \<Rightarrow> parse_parts (AList.update k unescaped m) ps)"

definition ParseEncryptHeader :: "string \<Rightarrow> go_error + kv" where
  "ParseEncryptHeader headerValue =
     (if trim_space headerValue = [] then Inl (ErrorString ''encrypt: header value is empty'')
      else rbind (parse_parts [] (split_on (CHR '','') headerValue))
        (\<lambda>m. if length m = 0 then Inl (ErrorString ''encrypt: header value contained no k=v pairs'')
             else Inr m))"

definition SymmetricKeyFrom :: "kv \<Rightarrow> go_error + string" where
  "SymmetricKeyFrom m =
     (case map_of m SymmetricKeyField of
        None \<Rightarrow> Inl (ErrorString ''encrypt: header missing required field '')
      | Some v \<Rightarrow> if v = [] then Inl (ErrorString ''encrypt: header missing required field '') else Inr v)"

section \<open>Wrapping the key: rsa.go\<close>

definition encrypt_key_check :: "rsa_key option \<Rightarrow> string \<Rightarrow> go_error + rsa_key" where
  "encrypt_key_check pk kind =
     (case pk of
        None \<Rightarrow> Inl (ErrorString (''encrypt: nil RSA '' @ kind @ '' key''))
      | Some k \<Rightarrow>
          (case N_BitLen k of
             None \<Rightarrow> Inl (GoPanic ''nil pointer dereference'')
           | Some b \<Rightarrow>
               if b < MinKeyBits then
                 Inl (ErrorString (''encrypt: RSA modulus '' @ itoa (int b) @ '' < min 2048 bits''))
               else Inr k))"

definition WrapAESKey ::
  "(rsa_key \<Rightarrow> bytes \<Rightarrow> go_error + bytes) \<Rightarrow> bytes \<Rightarrow> rsa_key option \<Rightarrow> go_error + string" where
  "WrapAESKey rsa_encrypt aesKey atomePub =
     rbind (encrypt_key_check atomePub ''public'') (\<lambda>k.
       case rsa_encrypt k aesKey of
         Inl err \<Rightarrow> Inl (WrapError ''encrypt: RSA wrap: '' err [])
       | Inr enc \<Rightarrow> Inr (b64_encode True enc))"

definition UnwrapAESKey ::
  "(rsa_key \<Rightarrow> bytes \<Rightarrow> go_error + bytes) \<Rightarrow> string \<Rightarrow> rsa_key option \<Rightarrow> go_error + bytes" where
  "UnwrapAESKey rsa_decrypt wrappedB64 partnerPriv =
     rbind (encrypt_key_check partnerPriv ''private'') (\<lambda>k.
       case b64_decode True wrappedB64 of
         None \<Rightarrow> Inl (ErrorString ''encrypt: base64-decode wrapped key: '')
       | Some cipherBytes \<Rightarrow>
           (case rsa_decrypt k cipherBytes of
              Inl err \<Rightarrow> Inl (WrapError ''encrypt: RSA unwrap: '' err [])
            | Inr plain \<Rightarrow> Inr plain))"

section \<open>The envelope: envelope.go\<close>

definition Marshal ::
  "block_cipher \<Rightarrow> (rsa_key \<Rightarrow> bytes \<Rightarrow> go_error + bytes) \<Rightarrow> (go_error + char) list \<Rightarrow>
   bytes \<Rightarrow> rsa_key option \<Rightarrow> (go_error + (string \<times> string)) option" where
  "Marshal B rsa_encrypt draws plain atomePub =
     (if atomePub = None then Some (Inl (ErrorString ''encrypt: nil RSA public key''))
      else map_option (\<lambda>drawn.
        rbind drawn (\<lambda>aesKey.
        rbind (EncryptBody B plain aesKey) (\<lambda>bodyB64.
        rbind (WrapAESKey rsa_encrypt aesKey atomePub) (\<lambda>wrappedB64.
          Inr (BuildEncryptHeader wrappedB64, bodyB64))))) (RandomAESKey draws))"

definition Unmarshal ::
  "block_cipher \<Rightarrow> (rsa_key \<Rightarrow> bytes \<Rightarrow> go_error + bytes) \<Rightarrow> string \<Rightarrow> string \<Rightarrow>
   rsa_key option \<Rightarrow> go_error + bytes" where
  "Unmarshal B rsa_decrypt hdr bodyB64 partnerPriv =
     (if partnerPriv = None then Inl (ErrorString ''encrypt: nil RSA private key'')
      else rbind (ParseEncryptHeader hdr) (\<lambda>m.
        rbind (SymmetricKeyFrom m) (\<lambda>wrappedB64.
        rbind (UnwrapAESKey rsa_decrypt wrappedB64 partnerPriv) (\<lambda>aesKey.
        rbind (of_check (ValidateAESKey aesKey) ()) (\<lambda>_.
          DecryptBody B bodyB64 aesKey)))))"

section \<open>Lemmas\<close>

text \<open>A draw is accepted below the cutoff; the letters then come from the accepted draws.\<close>

definition accepted :: "char \<Rightarrow> bool" where
  "accepted c \<longleftrightarrow> code c < aesKeyAlphabetCutoff"

lemma draw_key_spec:
  "draw_key n out (map Inr cs) =
     (if n \<le> length (filter accepted cs)
      then Some (Inr (out @ map key_letter (take n (filter accepted cs)))) else None)"
proof (induction n out "map Inr cs :: (go_error + char) list" arbitrary: cs rule: draw_key.induct)
  case (4 n out one ds)
  then obtain cs' where cs: "cs = one # cs'" "ds = map Inr cs'" by (cases cs) auto
  show ?case
  proof (cases "code one < aesKeyAlphabetCutoff")
    case True
    with 4(1) [OF True cs(2)] show ?thesis by (simp add: cs accepted_def)
  next
    case False
    with 4(2) [OF False cs(2)] show ?thesis by (simp add: cs accepted_def)
  qed
qed auto

lemma key_letter_range: "65 \<le> code (key_letter c) \<and> code (key_letter c) \<le> 90"
proof -
  have "code c mod 26 < 26" by simp
  then show ?thesis by (simp add: key_letter_def AESKeyAlphabetSize_def)
qed

lemma validate_from_None: "validate_from i s = None \<longleftrightarrow> (\<forall>c \<in> set s. 65 \<le> code c \<and> code c \<le> 90)"
  by (induction i s rule: validate_from.induct) auto

lemma ValidateAESKey_None:
  "ValidateAESKey key = None \<longleftrightarrow> length key = 32 \<and> (\<forall>c \<in> set key. 65 \<le> code c \<and> code c \<le> 90)"
  by (auto simp: ValidateAESKey_def aesKeyBytes_def validate_from_None)

lemma pkcs5Pad_length:
  "0 < bs \<Longrightarrow> length (pkcs5Pad s bs) mod bs = 0 \<and> length s < length (pkcs5Pad s bs)"
proof -
  assume bs: "0 < bs"
  have "length s mod bs < bs" using bs by simp
  moreover have "(length s + (bs - length s mod bs)) mod bs = 0"
    using bs by (metis add_diff_inverse_nat less_imp_not_less mod_add_left_eq mod_less_divisor mod_self)
  ultimately show ?thesis by (simp add: pkcs5Pad_def Let_def)
qed

lemma pkcs5Unpad_Pad:
  assumes "0 < bs" "bs < 256"
  shows "pkcs5Unpad (pkcs5Pad s bs) bs = Inr s"
proof -
  define n where "n = bs - length s mod bs"
  have n: "0 < n" "n \<le> bs" "n < 256" using assms by (auto simp: n_def)
  have p: "pkcs5Pad s bs = s @ replicate n (char_of n)" by (simp add: pkcs5Pad_def n_def Let_def)
  have "length (pkcs5Pad s bs) mod bs = 0" "length (pkcs5Pad s bs) \<noteq> 0"
    using pkcs5Pad_length [OF assms(1), of s] by auto
  moreover have "code (pkcs5Pad s bs ! (length (pkcs5Pad s bs) - 1)) = n"
    using n nth_append_length_plus [of s "replicate n (char_of n)" "n - 1"] by (simp add: p)
  ultimately show ?thesis using n by (simp add: pkcs5Unpad_def Let_def) (simp add: p)
qed

lemma map_blocks_Nil [simp]: "map_blocks f bs [] = []"
  by (simp add: map_blocks.simps)

lemma map_blocks_append:
  "length b = bs \<Longrightarrow> 0 < bs \<Longrightarrow> map_blocks f bs (b @ s) = f b @ map_blocks f bs s"
  by (subst map_blocks.simps) auto

lemma map_blocks_inverse:
  assumes "0 < bs" "\<And>b. length b = bs \<Longrightarrow> length (f b) = bs \<and> g (f b) = b"
    and "length s mod bs = 0"
  shows "map_blocks g bs (map_blocks f bs s) = s \<and> length (map_blocks f bs s) = length s"
  using assms(3)
proof (induction "length s" arbitrary: s rule: less_induct)
  case less
  show ?case
  proof (cases "s = []")
    case False
    define b where "b = take bs s"
    have "bs \<le> length s" using False less.prems mod_less [of "length s" bs] by (cases "length s < bs") auto
    then have b: "length b = bs" "s = b @ drop bs s" by (simp_all add: b_def)
    have "length (drop bs s) mod bs = 0" using less.prems \<open>bs \<le> length s\<close> by (simp add: le_mod_geq)
    then have IH: "map_blocks g bs (map_blocks f bs (drop bs s)) = drop bs s"
      "length (map_blocks f bs (drop bs s)) = length (drop bs s)"
      using less.hyps [of "drop bs s"] \<open>bs \<le> length s\<close> assms(1) by simp_all
    have "map_blocks f bs s = f b @ map_blocks f bs (drop bs s)"
      by (subst b(2)) (rule map_blocks_append [OF b(1) assms(1)])
    then show ?thesis using IH assms(2) [OF b(1)] b \<open>bs \<le> length s\<close>
      by (simp add: map_blocks_append [OF _ assms(1)])
  qed simp
qed

lemma query_escape_chars: "x \<in> set (query_escape s) \<Longrightarrow> isUnreserved x \<or> x = CHR ''%'' \<or> x = CHR ''+''"
  by (auto simp: query_escape_def dest: esc1_chars split: if_splits)

lemma isUnreserved_visible: "isUnreserved c \<Longrightarrow> visible c"
  by (auto simp: isUnreserved_def visible_def)

lemma query_escape_visible: "x \<in> set (query_escape s) \<Longrightarrow> visible x \<and> x \<noteq> CHR '','' \<and> x \<noteq> CHR ''=''"
proof -
  assume "x \<in> set (query_escape s)"
  then consider "isUnreserved x" | "x = CHR ''%''" | "x = CHR ''+''" using query_escape_chars by blast
  then show ?thesis
  proof cases
    case 1
    moreover have "x \<noteq> CHR '',''" using 1 by (auto simp: isUnreserved_def)
    ultimately show ?thesis using isUnreserved_plain [of x] isUnreserved_visible by auto
  qed (simp_all add: visible_def)
qed

lemma query_unescape_query_escape: "query_unescape (query_escape s) = Some s"
proof (induction s)
  case (Cons c s)
  consider "c = CHR '' ''" | "c \<noteq> CHR '' ''" "isUnreserved c" | "c \<noteq> CHR '' ''" "\<not> isUnreserved c" by blast
  then show ?case
  proof cases
    case 2
    then have "c \<noteq> CHR ''%''" "c \<noteq> CHR ''+''" using isUnreserved_plain by auto
    with 2 Cons show ?thesis by (simp add: query_escape_def esc1_def)
  next
    case 3
    with Cons show ?thesis by (simp add: query_escape_def esc1_def unhex_upperhex)
  qed (use Cons in \<open>simp add: query_escape_def\<close>)
qed (simp add: query_escape_def)

lemma trim_space_query_escape: "trim_space (query_escape s) = query_escape s"
proof (cases "query_escape s = []")
  case False
  then have "visible (hd (query_escape s))" "visible (last (query_escape s))"
    using query_escape_visible hd_in_set last_in_set by blast+
  with False show ?thesis by (rule trim_space_visible)
qed simp

lemma ParseEncryptHeader_Build: "ParseEncryptHeader (BuildEncryptHeader w) = Inr [(SymmetricKeyField, w)]"
proof -
  let ?h = "BuildEncryptHeader w"
  let ?e = "query_escape w"
  have h: "?h = SymmetricKeyField @ CHR ''='' # ?e" by (simp add: BuildEncryptHeader_def)
  have field: "visible (hd SymmetricKeyField)" "trim_space SymmetricKeyField = SymmetricKeyField"
    by (auto simp: SymmetricKeyField_def visible_def intro!: trim_space_visible)
  have "visible (last ?h)"
    using query_escape_visible last_in_set by (cases "?e = []") (auto simp: h visible_def)
  then have trim: "trim_space ?h = ?h"
    using field(1) by (intro trim_space_visible) (auto simp: h SymmetricKeyField_def)
  have "CHR '','' \<notin> set ?h" using query_escape_visible by (auto simp: h SymmetricKeyField_def)
  then have split: "split_on (CHR '','') ?h = [?h]" by (rule split_on_notin)
  have "CHR ''='' \<notin> set SymmetricKeyField" by (simp add: SymmetricKeyField_def)
  then have "cut_at (CHR ''='') ?h = (SymmetricKeyField, ?e, True)" by (simp add: h cut_at_append)
  moreover have "?h \<noteq> []" "SymmetricKeyField \<noteq> []" by (simp_all add: h SymmetricKeyField_def)
  ultimately show ?thesis
    by (simp add: ParseEncryptHeader_def trim split field(2) trim_space_query_escape
        query_unescape_query_escape)
qed

lemma encrypt_key_check_Inr:
  "encrypt_key_check pk kind = Inr k \<longleftrightarrow> pk = Some k \<and> \<not> key_too_small k"
  by (auto simp: encrypt_key_check_def key_too_small_def split: option.splits)

lemma WrapAESKey_Inr:
  "WrapAESKey rsa_encrypt key (Some pub) = Inr w \<Longrightarrow>
     \<exists>c. rsa_encrypt pub key = Inr c \<and> w = b64_encode True c"
  by (auto simp: WrapAESKey_def encrypt_key_check_Inr result_simps split: sum.splits)

text \<open>What crypto/aes documents of a 32-byte key: blocks keep their size and decrypt back.\<close>

definition lawful_cipher :: "block_cipher \<Rightarrow> bool" where
  "lawful_cipher B \<longleftrightarrow> (\<forall>key b. length key = 32 \<and> length b = 16 \<longrightarrow>
     length (block_Encrypt B key b) = 16 \<and> block_Decrypt B key (block_Encrypt B key b) = b)"

lemma DecryptBody_EncryptBody:
  assumes "lawful_cipher B" "EncryptBody B plain key = Inr c"
  shows "DecryptBody B c key = Inr plain"
proof -
  have k: "length key = 32" using assms(2) by (auto simp: EncryptBody_def aesKeyBytes_def split: if_splits)
  let ?p = "pkcs5Pad plain 16"
  have p: "length ?p mod 16 = 0" "length ?p \<noteq> 0" using pkcs5Pad_length [of 16 plain] by auto
  have inv: "map_blocks (block_Decrypt B key) 16 (map_blocks (block_Encrypt B key) 16 ?p) = ?p"
    "length (map_blocks (block_Encrypt B key) 16 ?p) = length ?p"
    using map_blocks_inverse [of 16 "block_Encrypt B key" "block_Decrypt B key" ?p] assms(1) k p(1)
    by (auto simp: lawful_cipher_def)
  have "c = b64_encode True (map_blocks (block_Encrypt B key) 16 ?p)"
    using assms(2) k by (simp add: EncryptBody_def aesKeyBytes_def aes_BlockSize_def)
  then show ?thesis
    using k p inv pkcs5Unpad_Pad [of 16 plain]
    by (simp add: DecryptBody_def aesKeyBytes_def aes_BlockSize_def b64_decode_encode)
qed

lemma draw_key_Inr:
  "draw_key n out ds = Some (Inr key) \<Longrightarrow> \<exists>cs. length cs = n \<and> key = out @ map key_letter cs"
proof (induction n out ds rule: draw_key.induct)
  case (4 n out one ds)
  show ?case
  proof (cases "code one < aesKeyAlphabetCutoff")
    case True
    with 4 obtain cs where "length cs = n" "key = (out @ [key_letter one]) @ map key_letter cs" by auto
    then show ?thesis by (intro exI [of _ "one # cs"]) simp
  qed (use 4 in auto)
qed auto

lemma RandomAESKey_valid: "RandomAESKey ds = Some (Inr key) \<Longrightarrow> ValidateAESKey key = None"
  using key_letter_range by (auto simp: RandomAESKey_def aesKeyBytes_def ValidateAESKey_None dest!: draw_key_Inr)

lemma Unmarshal_Marshal:
  assumes "lawful_cipher B"
    and "\<And>m c. rsa_encrypt pub m = Inr c \<Longrightarrow> c \<noteq> [] \<and> rsa_decrypt sk c = Inr m"
    and "encrypt_key_check (Some sk) ''private'' = Inr sk"
    and "Marshal B rsa_encrypt draws plain (Some pub) = Some (Inr (hdr, body))"
  shows "Unmarshal B rsa_decrypt hdr body (Some sk) = Inr plain"
proof -
  obtain key b w where key: "RandomAESKey draws = Some (Inr key)"
    and b: "EncryptBody B plain key = Inr b"
    and w: "WrapAESKey rsa_encrypt key (Some pub) = Inr w"
    and out: "hdr = BuildEncryptHeader w" "body = b"
    using assms(4) by (auto simp: Marshal_def result_simps)
  obtain c where c: "rsa_encrypt pub key = Inr c" "w = b64_encode True c"
    using WrapAESKey_Inr [OF w] by blast
  have "w \<noteq> []" using assms(2) c by (simp add: b64_encode_Nil_iff)
  moreover have "UnwrapAESKey rsa_decrypt w (Some sk) = Inr key"
    using assms(2,3) c by (simp add: UnwrapAESKey_def b64_decode_encode)
  ultimately show ?thesis
    using RandomAESKey_valid [OF key] DecryptBody_EncryptBody [OF assms(1) b]
    by (simp add: Unmarshal_def out ParseEncryptHeader_Build SymmetricKeyFrom_def)
qed

section \<open>Properties\<close>

text \<open>With error-free draws the key is the first 32 accepted bytes mapped to letters, and it is
  returned as soon as 32 of them were drawn; such a key passes ValidateAESKey.\<close>
theorem RandomAESKey_functional:
  "RandomAESKey (map Inr cs) =
     (if 32 \<le> length (filter accepted cs)
      then Some (Inr (map key_letter (take 32 (filter accepted cs)))) else None) \<and>
   (32 \<le> length (filter accepted cs) \<longrightarrow>
      ValidateAESKey (map key_letter (take 32 (filter accepted cs))) = None)"
  using key_letter_range by (auto simp: RandomAESKey_def aesKeyBytes_def draw_key_spec ValidateAESKey_None)

theorem RandomAESKey_functional_witness:
  "RandomAESKey (map Inr (CHR 0xFF # replicate 32 (CHR 0x1B))) = Some (Inr (replicate 32 (CHR ''B'')))"
proof -
  have "accepted (CHR 0x1B)" "\<not> accepted (CHR 0xFF)"
    by (simp_all add: accepted_def aesKeyAlphabetCutoff_def AESKeyAlphabetSize_def)
  moreover have "key_letter (CHR 0x1B) = CHR ''B''"
    by (simp add: char_eq_code_iff key_letter_def AESKeyAlphabetSize_def)
  ultimately show ?thesis
    using RandomAESKey_functional [of "CHR 0xFF # replicate 32 (CHR 0x1B)"] by simp
qed

text \<open>The drawing is unbiased: exactly nine byte values are accepted for each letter.\<close>
theorem key_letter_uniform:
  assumes "65 \<le> l" "l \<le> 90"
  shows "card {c. accepted c \<and> key_letter c = char_of (l :: nat)} = 9"
proof -
  have "{c. accepted c \<and> key_letter c = char_of l} = (\<lambda>i. char_of (l - 65 + 26 * i)) ` {..< 9}"
  proof (intro equalityI subsetI)
    fix c assume "c \<in> {c. accepted c \<and> key_letter c = char_of l}"
    then have c: "code c < 234" "65 + code c mod 26 = l"
      using assms by (auto simp: accepted_def aesKeyAlphabetCutoff_def AESKeyAlphabetSize_def
          key_letter_def char_of_inject_iff)
    have "code c = l - 65 + 26 * (code c div 26)" using c(2) mod_mult_div_eq [of "code c" 26] by linarith
    then have "c = char_of (l - 65 + 26 * (code c div 26))" by (metis char_of_char)
    moreover have "code c div 26 < 9" using c(1) by (simp add: div_less_iff_less_mult)
    ultimately show "c \<in> (\<lambda>i. char_of (l - 65 + 26 * i)) ` {..< 9}"
      by (intro image_eqI [where x = "code c div 26"]) simp_all
  next
    fix c assume "c \<in> (\<lambda>i. char_of (l - 65 + 26 * i)) ` {..< 9 :: nat}"
    then obtain i where i: "i < 9" "c = char_of (l - 65 + 26 * i)" by auto
    have code: "code c = l - 65 + 26 * i" "code c < 234" using i assms by simp_all
    have "code c mod 26 = (l - 65) mod 26" unfolding code(1) by (rule mod_mult_self2)
    then have "code c mod 26 = l - 65" using assms by simp
    with code(2) assms show "c \<in> {c. accepted c \<and> key_letter c = char_of l}"
      by (simp add: accepted_def aesKeyAlphabetCutoff_def AESKeyAlphabetSize_def key_letter_def)
  qed
  moreover have "inj_on (\<lambda>i. char_of (l - 65 + 26 * i) :: char) {..< 9 :: nat}"
    using assms by (auto simp: inj_on_def char_of_inject_iff)
  ultimately show ?thesis by (simp add: card_image)
qed

theorem key_letter_uniform_witness: "card {c. accepted c \<and> key_letter c = char_of (90 :: nat)} = 9"
  by (rule key_letter_uniform) simp_all

text \<open>C8. The whole envelope round-trips: what Marshal builds for a public key, Unmarshal with
  the matching private key turns back into the plain body, whatever its length and bytes.  The
  hypotheses are the documented laws of AES and of RSA decryption after encryption.\<close>
theorem envelope_roundtrip:
  assumes "lawful_cipher B"
    and "\<And>m c. rsa_encrypt pub m = Inr c \<Longrightarrow> c \<noteq> [] \<and> rsa_decrypt sk c = Inr m"
    and "encrypt_key_check (Some sk) ''private'' = Inr sk"
    and "Marshal B rsa_encrypt draws plain (Some pub) = Some (Inr (hdr, body))"
  shows "Unmarshal B rsa_decrypt hdr body (Some sk) = Inr plain"
  using assms by (rule Unmarshal_Marshal)

theorem envelope_roundtrip_witness:
  "\<exists>hdr body. Unmarshal \<lparr>block_Encrypt = (\<lambda>k b. rev b), block_Decrypt = (\<lambda>k b. rev b)\<rparr>
     (\<lambda>k c. Inr (tl c)) hdr body (Some \<lparr>N_BitLen = Some 2048, key_material = 0\<rparr>) = Inr ''hello''"
proof -
  let ?B = "\<lparr>block_Encrypt = (\<lambda>k b. rev b), block_Decrypt = (\<lambda>k b. rev b)\<rparr>"
  let ?k = "\<lparr>N_BitLen = Some 2048, key_material = 0\<rparr>"
  let ?d = "replicate 32 (CHR 0x1B)"
  have "accepted (CHR 0x1B)"
    by (simp add: accepted_def aesKeyAlphabetCutoff_def AESKeyAlphabetSize_def)
  then have "RandomAESKey (map Inr ?d) = Some (Inr (replicate 32 (key_letter (CHR 0x1B))))"
    unfolding RandomAESKey_def aesKeyBytes_def draw_key_spec by simp
  then obtain hdr body where "Marshal ?B (\<lambda>k m. Inr (CHR ''#'' # m)) (map Inr ?d) ''hello'' (Some ?k) =
      Some (Inr (hdr, body))"
    by (simp add: Marshal_def aesKeyBytes_def EncryptBody_def WrapAESKey_def encrypt_key_check_def
        MinKeyBits_def Let_def)
  then have "Unmarshal ?B (\<lambda>k c. Inr (tl c)) hdr body (Some ?k) = Inr ''hello''"
    by (rule envelope_roundtrip [rotated 3])
       (auto simp: lawful_cipher_def encrypt_key_check_def MinKeyBits_def)
  then show ?thesis by blast
qed

end
