(* ===== verification/Retry_Policy.thy ===== *)
theory Retry_Policy
  imports Errors
begin

text \<open>
  atomefin/transport/retry.go: the retry policy, its validation, the backoff before
  a retry and the sleep.  Durations are 64-bit words, so the shift of the base wraps
  as Go's does.  The floating-point jitter is a value of the IEEE comparisons only;
  the product with the drawn factor is an argument of Backoff.
\<close>

section \<open>Floating-point values as far as the code compares them\<close>

datatype float64 = NaN | PosInf | NegInf | Finite rat

fun float_less :: "float64 \<Rightarrow> float64 \<Rightarrow> bool" where
  "float_less NaN y = False"
| "float_less x NaN = False"
| "float_less NegInf y = (y \<noteq> NegInf)"
| "float_less x NegInf = False"
| "float_less PosInf y = False"
| "float_less x PosInf = True"
| "float_less (Finite a) (Finite b) = (a < b)"

section \<open>The policy\<close>

record retry_policy =
  MaxAttempts :: int
  Base :: duration
  Cap :: duration
  Jitter :: float64
  RetryOnStatus :: "(int \<Rightarrow> bool) option"
  RetryOnTransportError :: "(go_error option \<Rightarrow> bool) option"

definition DefaultRetryOnStatus :: "int \<Rightarrow> bool" where
  "DefaultRetryOnStatus status \<longleftrightarrow> status \<in> set [500, 502, 503, 504]"

definition DefaultRetryOnTransportError :: "go_error option \<Rightarrow> bool" where
  "DefaultRetryOnTransportError err \<longleftrightarrow> err \<noteq> None"

text \<open>The float64 nearest to 0.20.\<close>

definition default_jitter :: float64 where
  "default_jitter = Finite (3602879701896397 / 18014398509481984)"

definition DefaultRetryPolicy :: retry_policy where
  "DefaultRetryPolicy =
     \<lparr>MaxAttempts = 3, Base = 250 * millisecond, Cap = 4 * second, Jitter = default_jitter,
      RetryOnStatus = Some DefaultRetryOnStatus,
      RetryOnTransportError = Some DefaultRetryOnTransportError\<rparr>"

definition retryError :: "string \<Rightarrow> go_error" where
  "retryError e = ErrorString (''atomefin/transport: retry policy: '' @ e)"

definition RetryPolicy_Validate :: "retry_policy \<Rightarrow> go_error option" where
  "RetryPolicy_Validate p = first_error
     [fail_if (MaxAttempts p < 1) (retryError ''MaxAttempts must be >= 1''),
      fail_if (sint (Base p) < 0) (retryError ''Base must be >= 0''),
      fail_if (sint (Cap p) < 0) (retryError ''Cap must be >= 0''),
      fail_if (sint (Cap p) > 0 \<and> sint (Base p) > sint (Cap p)) (retryError ''Base must be <= Cap''),
      fail_if (float_less (Jitter p) (Finite 0) \<or> float_less (Finite 1) (Jitter p))
        (retryError ''Jitter must be in [0,1]'')]"

section \<open>Backoff and sleep\<close>

text \<open>
  \<open>draw\<close> is the outcome of rand.Read: None when it fails, otherwise the function that
  computes time.Duration(float64(d) * (1 + Jitter*r)) for the drawn r.
\<close>

definition backoff_shift :: "int \<Rightarrow> nat" where
  "backoff_shift attempt0 =
     (let attempt = (if attempt0 < 1 then 1 else attempt0);
          shift = attempt - 1
      in nat (if shift > 30 then 30 else shift))"

definition Backoff :: "retry_policy \<Rightarrow> (float64 \<Rightarrow> duration \<Rightarrow> duration) option \<Rightarrow> int \<Rightarrow> duration" where
  "Backoff p draw attempt0 =
     (let d0 = push_bit (backoff_shift attempt0) (Base p);
          d = (if sint (Cap p) > 0 \<and> sint d0 > sint (Cap p) then Cap p else d0)
      in if float_less (Finite 0) (Jitter p) \<and> sint d > 0 then
           (case draw of
              None \<Rightarrow> d
            | Some f \<Rightarrow> (let d' = f (Jitter p) d in if sint d' < 0 then 0 else d'))
         else d)"

text \<open>
  \<open>ctx_now\<close> is ctx.Err() when the context is already done, \<open>wait d\<close> the error with
  which a context that is done before a timer of d fires ends the select.
\<close>

definition Sleep ::
  "retry_policy \<Rightarrow> (float64 \<Rightarrow> duration \<Rightarrow> duration) option \<Rightarrow> go_error option \<Rightarrow>
   (duration \<Rightarrow> go_error option) \<Rightarrow> int \<Rightarrow> go_error option" where
  "Sleep p draw ctx_now wait attempt =
     (let d = Backoff p draw attempt in if sint d \<le> 0 then ctx_now else wait d)"

section \<open>Lemmas\<close>

lemma RetryPolicy_Validate_None:
  "RetryPolicy_Validate p = None \<longleftrightarrow>
     1 \<le> MaxAttempts p \<and> 0 \<le> sint (Base p) \<and> 0 \<le> sint (Cap p) \<and>
     (sint (Cap p) = 0 \<or> sint (Base p) \<le> sint (Cap p)) \<and>
     \<not> float_less (Jitter p) (Finite 0) \<and> \<not> float_less (Finite 1) (Jitter p)"
  unfolding RetryPolicy_Validate_def first_error_None_iff
  by (auto simp: fail_if_None_iff)

lemma Validate_Default: "RetryPolicy_Validate DefaultRetryPolicy = None"
  by (simp add: RetryPolicy_Validate_None DefaultRetryPolicy_def default_jitter_def)

lemma shift_bound: "0 \<le> sint b \<Longrightarrow> sint b * 2 ^ 30 < 2 ^ 63 \<Longrightarrow> n \<le> 30 \<Longrightarrow>
    sint (push_bit n b :: int64) = sint b * 2 ^ n"
proof (rule sint64_shift)
  assume a: "0 \<le> sint b" "sint b * 2 ^ 30 < 2 ^ 63" "n \<le> 30"
  have "(2 :: int) ^ n \<le> 2 ^ 30" using a(3) by (intro power_increasing) simp_all
  then have "sint b * 2 ^ n \<le> sint b * 2 ^ 30" using a(1) by (rule mult_left_mono)
  with a show "sint b * 2 ^ n < 2 ^ 63" by linarith
  have "0 \<le> sint b * 2 ^ n" using a(1) by simp
  then show "- (2 ^ 63) \<le> sint b * 2 ^ n" by (rule order_trans [rotated]) simp
qed

section \<open>Properties\<close>

text \<open>A validated policy whose base times 2^30 fits an int64 backs off exponentially: before
  jitter the wait after attempt n is Base * 2^(n-1) with the exponent held at 30, capped at Cap
  when a cap is set, and it is never negative.\<close>
theorem Backoff_exponential:
  assumes "RetryPolicy_Validate p = None" "sint (Base p) * 2 ^ 30 < 2 ^ 63" "1 \<le> attempt"
    and "Jitter p = Finite 0"
  shows "sint (Backoff p draw attempt) =
    (let d = sint (Base p) * 2 ^ nat (min (attempt - 1) 30)
     in if 0 < sint (Cap p) then min d (sint (Cap p)) else d)"
proof -
  have n: "backoff_shift attempt = nat (min (attempt - 1) 30)" "backoff_shift attempt \<le> 30"
    using assms(3) by (auto simp: backoff_shift_def Let_def min_def)
  have "sint (push_bit (backoff_shift attempt) (Base p)) = sint (Base p) * 2 ^ backoff_shift attempt"
    using assms(1,2) n(2) by (intro shift_bound) (simp_all add: RetryPolicy_Validate_None)
  then show ?thesis using assms(4) unfolding Backoff_def Let_def n(1) [symmetric] by (simp add: min_def)
qed

definition plain_policy :: retry_policy where
  "plain_policy = DefaultRetryPolicy\<lparr>Jitter := Finite 0\<rparr>"

theorem Backoff_exponential_witness:
  "sint (Backoff plain_policy None 3) = 1000000000 \<and> sint (Backoff plain_policy None 99) = 4000000000"
proof -
  have v: "RetryPolicy_Validate plain_policy = None"
    by (simp add: RetryPolicy_Validate_None plain_policy_def DefaultRetryPolicy_def)
  have p: "sint (Base plain_policy) = 250000000" "sint (Cap plain_policy) = 4000000000"
    "Jitter plain_policy = Finite 0"
    by (simp_all add: plain_policy_def DefaultRetryPolicy_def)
  show ?thesis
    using Backoff_exponential [OF v, of 3 None] Backoff_exponential [OF v, of 99 None] p by simp
qed

text \<open>Whatever factor is drawn, a jittered wait is never negative, and with the cap set and no
  jitter drawn the wait never exceeds it, overflow included: a shift that wraps negative stays
  negative and Sleep then returns at once.\<close>
theorem Backoff_bounds:
  "(float_less (Finite 0) (Jitter p) \<and> draw \<noteq> None \<and> 0 < sint (Backoff p None attempt) \<longrightarrow>
      0 \<le> sint (Backoff p draw attempt)) \<and>
   (0 < sint (Cap p) \<longrightarrow> sint (Backoff p None attempt) \<le> sint (Cap p)) \<and>
   (sint (Backoff p draw attempt) \<le> 0 \<longrightarrow> Sleep p draw ctx wait attempt = ctx)"
proof (intro conjI)
  show "float_less (Finite 0) (Jitter p) \<and> draw \<noteq> None \<and> 0 < sint (Backoff p None attempt) \<longrightarrow>
      0 \<le> sint (Backoff p draw attempt)"
    by (auto simp: Backoff_def Let_def)
  show "0 < sint (Cap p) \<longrightarrow> sint (Backoff p None attempt) \<le> sint (Cap p)"
    by (simp add: Backoff_def Let_def)
  show "sint (Backoff p draw attempt) \<le> 0 \<longrightarrow> Sleep p draw ctx wait attempt = ctx"
    by (simp add: Sleep_def)
qed

theorem Backoff_bounds_witness:
  "0 \<le> sint (Backoff DefaultRetryPolicy (Some (\<lambda>j d. - d)) 1) \<and>
   sint (Backoff DefaultRetryPolicy None 1) \<le> 4000000000"
proof -
  have p: "sint (Backoff DefaultRetryPolicy None 1) = 250000000" "sint (Cap DefaultRetryPolicy) = 4000000000"
    "float_less (Finite 0) (Jitter DefaultRetryPolicy)"
    by (simp_all add: Backoff_def backoff_shift_def DefaultRetryPolicy_def default_jitter_def)
  show ?thesis
    using Backoff_bounds [of DefaultRetryPolicy "Some (\<lambda>j d. - d)" 1 None "\<lambda>d. None"] p by simp
qed

definition overflow_policy :: retry_policy where
  "overflow_policy = DefaultRetryPolicy\<lparr>MaxAttempts := 40, Base := 10 * second, Cap := 60 * second\<rparr>"

text \<open>The shift on the integers: a product modulo 2^64, read as a signed number.\<close>

definition signed64 :: "int \<Rightarrow> int" where
  "signed64 n = (n + 2 ^ 63) mod 2 ^ 64 - 2 ^ 63"

lemma sint_push_bit: "sint (push_bit n b :: int64) = signed64 (sint b * 2 ^ n)"
proof -
  have "push_bit n b = (word_of_int (sint b * 2 ^ n) :: int64)"
    by (simp add: push_bit_eq_mult)
  then show ?thesis
    by (simp only: signed64_def sint_sbintrunc' signed_take_bit_eq_take_bit_shift take_bit_eq_mod) simp
qed

lemma signed64_small: "- (2 ^ 63) \<le> n \<Longrightarrow> n < 2 ^ 63 \<Longrightarrow> signed64 n = n"
  by (simp add: signed64_def)

lemma signed64_negative: "signed64 n < 0 \<longleftrightarrow> 2 ^ 63 \<le> n mod 2 ^ 64"
proof -
  define m where "m = n mod 2 ^ 64"
  have m: "0 \<le> m" "m < 2 ^ 64" by (simp_all add: m_def)
  have "(n + 2 ^ 63) mod 2 ^ 64 = (m + 2 ^ 63) mod 2 ^ 64" by (simp add: m_def mod_add_left_eq)
  also have "\<dots> = (if m < 2 ^ 63 then m + 2 ^ 63 else m - 2 ^ 63)"
    using m mod_add_self2 [of "m - 2 ^ 63" "2 ^ 64 :: int"] by (auto simp: mod_pos_pos_trivial add.commute)
  finally have e: "(n + 2 ^ 63) mod 2 ^ 64 = (if m < 2 ^ 63 then m + 2 ^ 63 else m - 2 ^ 63)" .
  have "signed64 n < 0 \<longleftrightarrow> 2 ^ 63 \<le> m" unfolding signed64_def e using m by simp
  then show ?thesis by (simp only: m_def)
qed

text \<open>C39. The shift is not saturating.  For every policy and attempt, whatever jitter is drawn, the
  wait before the next attempt is negative exactly when Base * 2^k, with k the attempt less one held
  between 0 and 30, leaves a remainder of 2^63 or more modulo 2^64; no cap corrects it and Sleep then
  returns at once, with what the context says.  Without jitter the wait is the capped product as a
  64-bit word, which for a validated policy is the capped product itself while that is below 2^63.\<close>
theorem Backoff_overflow:
  assumes "RetryPolicy_Validate p = None" "product = sint (Base p) * 2 ^ nat (max 0 (min (attempt - 1) 30))"
  shows "(sint (Backoff p draw attempt) < 0 \<longleftrightarrow> 2 ^ 63 \<le> product mod 2 ^ 64) \<and>
    (2 ^ 63 \<le> product mod 2 ^ 64 \<longrightarrow> Sleep p draw ctx wait attempt = ctx) \<and>
    (Jitter p = Finite 0 \<longrightarrow> sint (Backoff p draw attempt) =
       (if 0 < sint (Cap p) then min (signed64 product) (sint (Cap p)) else signed64 product)) \<and>
    (product < 2 ^ 63 \<longrightarrow> signed64 product = product)"
proof -
  have "backoff_shift attempt = nat (max 0 (min (attempt - 1) 30))"
    by (auto simp: backoff_shift_def Let_def min_def max_def)
  then have d: "sint (push_bit (backoff_shift attempt) (Base p)) = signed64 product"
    by (simp add: sint_push_bit assms(2))
  have neg: "sint (Backoff p draw attempt) < 0 \<longleftrightarrow> signed64 product < 0"
    by (auto simp: Backoff_def Let_def d split: option.split)
  show ?thesis
  proof (intro conjI impI)
    show "sint (Backoff p draw attempt) < 0 \<longleftrightarrow> 2 ^ 63 \<le> product mod 2 ^ 64"
      using neg by (simp only: signed64_negative)
    show "Sleep p draw ctx wait attempt = ctx" if "2 ^ 63 \<le> product mod 2 ^ 64"
      using neg that by (simp only: signed64_negative Sleep_def Let_def order_less_imp_le if_True)
    show "sint (Backoff p draw attempt) =
        (if 0 < sint (Cap p) then min (signed64 product) (sint (Cap p)) else signed64 product)" if "Jitter p = Finite 0"
      using that by (simp add: Backoff_def Let_def d min_def)
    have "0 \<le> product" using assms by (simp add: RetryPolicy_Validate_None)
    then show "signed64 product = product" if "product < 2 ^ 63"
      using that by (intro signed64_small) simp_all
  qed
qed

theorem Backoff_overflow_witness:
  "RetryPolicy_Validate overflow_policy = None \<and> sint (Backoff overflow_policy None 31) < 0 \<and>
   Sleep overflow_policy None None (\<lambda>d. Some ContextCanceled) 31 = None \<and> \<not> sint (Backoff overflow_policy None 3) < 0"
proof -
  have v: "RetryPolicy_Validate overflow_policy = None"
    by (simp add: RetryPolicy_Validate_None overflow_policy_def DefaultRetryPolicy_def default_jitter_def)
  have b: "sint (Base overflow_policy) = 10000000000" by (simp add: overflow_policy_def)
  show ?thesis
    using v Backoff_overflow [OF v refl, where attempt = 31 and ctx = None and draw = None] Backoff_overflow [OF v refl, where attempt = 3 and draw = None]
    by (simp add: b)
qed

end
