(* ===== verification/Client_Config.thy ===== *)
theory Client_Config
  imports Encrypt Retry_Policy
begin

text \<open>
  atomefin/client.go, options.go, environment.go, version.go and
  transport/useragent.go: the options, the configuration they build, its
  finalisation and the Client that New returns.  What the options take from Go's
  runtime and libraries (x509 parsing, SHA-256, RSA, url.Parse, the runtime's
  version strings) is one record of functions.
\<close>

section \<open>Library functions\<close>

record go_lib =
  lib_x509 :: x509_parsers
  lib_sha256 :: "bytes \<Rightarrow> bytes"
  lib_rsa_sign :: "rsa_key \<Rightarrow> bytes \<Rightarrow> go_error + bytes"
  lib_rsa_verify :: "rsa_key \<Rightarrow> bytes \<Rightarrow> bytes \<Rightarrow> bool"
  lib_url_parse :: "string \<Rightarrow> go_error + (string \<times> string)"
  lib_version :: string
  lib_goos :: string
  lib_goarch :: string

section \<open>Environment and user agent\<close>

type_synonym environment = string

definition EnvPre :: environment where "EnvPre = ''pre''"
definition EnvProd :: environment where "EnvProd = ''prod''"

definition baseURLs :: "(environment \<times> string) list" where
  "baseURLs = [(EnvPre, ''https://id-api-pre.apaylater.net/grabpaylater''),
               (EnvProd, ''https://api.atome.id/grabpaylater'')]"

definition BaseURL :: "environment \<Rightarrow> go_error + string" where
  "BaseURL env =
     (case map_of baseURLs env of
        None \<Rightarrow> Inl (ErrorString ''atomefin: unknown environment  (want one of pre/prod)'')
      | Some u \<Rightarrow> Inr u)"

definition SDKVersion :: string where "SDKVersion = ''0.9.3''"
definition DefaultProductName :: string where "DefaultProductName = ''atome-fin-go-sdk''"

definition BuildUserAgent :: "go_lib \<Rightarrow> string \<Rightarrow> string \<Rightarrow> string" where
  "BuildUserAgent L version suffix0 =
     (let b = DefaultProductName @ (if version \<noteq> [] then ''/'' @ version else []) @
            '' (go'' @ drop 2 (lib_version L) @ ''; '' @ lib_goos L @ ''/'' @ lib_goarch L @ '')'';
          suffix = trim_space suffix0
      in if suffix \<noteq> [] then b @ '' '' @ suffix else b)"

section \<open>Configuration\<close>

type_synonym authorization_scheme = "string \<Rightarrow> string \<Rightarrow> string"

definition SchemeRawBase64 :: authorization_scheme where
  "SchemeRawBase64 signature keyID = signature"

definition SchemeAtomeKeyed :: authorization_scheme where
  "SchemeAtomeKeyed signature keyID =
     (if keyID = [] then ''Algorithm=RSA2,Sign='' @ signature
      else ''Algorithm=RSA2,KeyVersion='' @ keyID @ '',Sign='' @ signature)"

text \<open>The calls the client makes to a partner's Observer.\<close>

datatype obs_call = OnRequest string int | OnResponse string int int | OnRetry string int go_error

text \<open>
  An Observer is the function from a call to the value it panics with, None when it
  returns.  The HTTP client and the logger are opaque values; the clock and the
  request-id generator are the sequences of their results.
\<close>

type_synonym observer = "obs_call \<Rightarrow> string option"

record config =
  cfg_httpClient :: string
  cfg_baseURL :: string
  cfg_environment :: environment
  cfg_timeout :: duration
  cfg_logger :: string
  cfg_observer :: observer
  cfg_signer :: "signer option"
  cfg_verifier :: "verifier option"
  cfg_keyID :: string
  cfg_keyIDSet :: bool
  cfg_authScheme :: authorization_scheme
  cfg_partnerID :: string
  cfg_merchantID :: string
  cfg_retry :: retry_policy
  cfg_userAgent :: string
  cfg_clock :: "nat \<Rightarrow> int"
  cfg_requestIDGen :: "nat \<Rightarrow> string"
  cfg_maxRespBytes :: int64
  cfg_debugBodyLog :: bool
  cfg_encryptAtomePub :: "rsa_key option"
  cfg_encryptPriv :: "rsa_key option"

text \<open>\<open>now\<close> and \<open>ids\<close> are time.Now and DefaultRequestID at the calls made.\<close>

definition defaultConfig :: "(nat \<Rightarrow> int) \<Rightarrow> (nat \<Rightarrow> string) \<Rightarrow> config" where
  "defaultConfig now ids =
     \<lparr>cfg_httpClient = ''default'', cfg_baseURL = [], cfg_environment = EnvProd,
      cfg_timeout = 30 * second, cfg_logger = ''NopLogger'', cfg_observer = (\<lambda>_. None),
      cfg_signer = None, cfg_verifier = None, cfg_keyID = [], cfg_keyIDSet = False,
      cfg_authScheme = SchemeRawBase64, cfg_partnerID = [], cfg_merchantID = [],
      cfg_retry = DefaultRetryPolicy, cfg_userAgent = [], cfg_clock = now,
      cfg_requestIDGen = ids, cfg_maxRespBytes = push_bit 20 1, cfg_debugBodyLog = False,
      cfg_encryptAtomePub = None, cfg_encryptPriv = None\<rparr>"

section \<open>Options\<close>

type_synonym client_option = "config \<Rightarrow> go_error + config"

definition WithHTTPClient :: "string option \<Rightarrow> client_option" where
  "WithHTTPClient h c =
     (case h of None \<Rightarrow> Inl (ErrorString ''atomefin: WithHTTPClient: nil *http.Client'')
      | Some x \<Rightarrow> Inr (c\<lparr>cfg_httpClient := x\<rparr>))"

definition WithBaseURL :: "go_lib \<Rightarrow> string \<Rightarrow> client_option" where
  "WithBaseURL L u0 c =
     (let u = trim_space u0 in
      if u = [] then Inl (ErrorString ''atomefin: WithBaseURL: empty URL'')
      else case lib_url_parse L u of
        Inl err \<Rightarrow> Inl (WrapError ''atomefin: WithBaseURL: parse : '' err [])
      | Inr (scheme, host) \<Rightarrow>
          if scheme \<noteq> ''http'' \<and> scheme \<noteq> ''https'' then
            Inl (ErrorString ''atomefin: WithBaseURL: scheme must be http or https, got '')
          else if host = [] then Inl (ErrorString ''atomefin: WithBaseURL: missing host in '')
          else Inr (c\<lparr>cfg_baseURL := trim_right (CHR ''/'') u\<rparr>))"

definition WithEnvironment :: "environment \<Rightarrow> client_option" where
  "WithEnvironment env c = rbind (BaseURL env) (\<lambda>_. Inr (c\<lparr>cfg_environment := env\<rparr>))"

definition WithTimeout :: "duration \<Rightarrow> client_option" where
  "WithTimeout d c =
     (if sint d \<le> 0 then Inl (ErrorString ''atomefin: WithTimeout: duration must be > 0'')
      else Inr (c\<lparr>cfg_timeout := d\<rparr>))"

definition WithRetry :: "retry_policy \<Rightarrow> client_option" where
  "WithRetry p c = of_check (RetryPolicy_Validate p) (c\<lparr>cfg_retry := p\<rparr>)"

definition WithUserAgent :: "string \<Rightarrow> client_option" where
  "WithUserAgent ua c = Inr (c\<lparr>cfg_userAgent := ua\<rparr>)"

definition WithSigner :: "signer option \<Rightarrow> client_option" where
  "WithSigner s c =
     (if s = None then Inl (ErrorString ''atomefin: WithSigner: nil Signer'')
      else if cfg_signer c \<noteq> None then
        Inl (ErrorString ''atomefin: WithSigner: signer already configured (use WithSigner OR WithPrivateKeyPEM)'')
      else Inr (c\<lparr>cfg_signer := s\<rparr>))"

text \<open>\<open>wrap_as\<close> is fmt.Errorf("atomefin: <option>: %w", err).\<close>

fun wrap_as :: "string \<Rightarrow> go_error + 'a \<Rightarrow> go_error + 'a" where
  "wrap_as name (Inl err) = Inl (WrapError (''atomefin: '' @ name @ '': '') err [])"
| "wrap_as name (Inr x) = Inr x"

definition WithPrivateKeyPEM :: "go_lib \<Rightarrow> bytes \<Rightarrow> bytes list \<Rightarrow> client_option" where
  "WithPrivateKeyPEM L pem password c =
     (if cfg_signer c \<noteq> None then Inl (ErrorString ''atomefin: WithPrivateKeyPEM: signer already configured'')
      else rbind (wrap_as ''WithPrivateKeyPEM'' (LoadPrivateKeyPEM (lib_x509 L) pem password)) (\<lambda>key.
        rbind (wrap_as ''WithPrivateKeyPEM'' (NewRSA2Signer (lib_sha256 L) (lib_rsa_sign L) (Some key) []))
          (\<lambda>s. Inr (c\<lparr>cfg_signer := Some s\<rparr>))))"

definition WithAtomePublicKey :: "go_lib \<Rightarrow> rsa_key option \<Rightarrow> client_option" where
  "WithAtomePublicKey L pub c =
     (if pub = None then Inl (ErrorString ''atomefin: WithAtomePublicKey: nil *rsa.PublicKey'')
      else rbind (wrap_as ''WithAtomePublicKey'' (NewRSA2Verifier (lib_sha256 L) (lib_rsa_verify L) pub []))
        (\<lambda>v. Inr (c\<lparr>cfg_verifier := Some v\<rparr>)))"

definition WithAtomePublicCertPEM :: "go_lib \<Rightarrow> bytes \<Rightarrow> client_option" where
  "WithAtomePublicCertPEM L pem c =
     rbind (wrap_as ''WithAtomePublicCertPEM'' (LoadPublicCertPEM (lib_x509 L) pem)) (\<lambda>key.
       rbind (wrap_as ''WithAtomePublicCertPEM'' (NewRSA2Verifier (lib_sha256 L) (lib_rsa_verify L) (Some key) []))
         (\<lambda>v. Inr (c\<lparr>cfg_verifier := Some v\<rparr>)))"

text \<open>The loaders return keys with a modulus, so key.N.BitLen() does not panic here.\<close>

definition check_modulus :: "string \<Rightarrow> rsa_key \<Rightarrow> go_error + rsa_key" where
  "check_modulus name k =
     (case N_BitLen k of
        None \<Rightarrow> Inl (GoPanic ''nil pointer dereference'')
      | Some b \<Rightarrow>
          if b < 2048 then
            Inl (ErrorString (''atomefin: '' @ name @ '': RSA modulus '' @ itoa (int b) @ '' < min 2048 bits''))
          else Inr k)"

definition WithEncryptAtomePublicCertPEM :: "go_lib \<Rightarrow> bytes \<Rightarrow> client_option" where
  "WithEncryptAtomePublicCertPEM L pem c =
     (if cfg_encryptAtomePub c \<noteq> None then
        Inl (ErrorString ''atomefin: WithEncryptAtomePublicCertPEM: encrypt public key already configured'')
      else rbind (wrap_as ''WithEncryptAtomePublicCertPEM'' (LoadPublicCertPEM (lib_x509 L) pem)) (\<lambda>key.
        rbind (check_modulus ''WithEncryptAtomePublicCertPEM'' key) (\<lambda>k.
          Inr (c\<lparr>cfg_encryptAtomePub := Some k\<rparr>))))"

definition WithEncryptPrivateKeyPEM :: "go_lib \<Rightarrow> bytes \<Rightarrow> bytes list \<Rightarrow> client_option" where
  "WithEncryptPrivateKeyPEM L pem password c =
     (if cfg_encryptPriv c \<noteq> None then
        Inl (ErrorString ''atomefin: WithEncryptPrivateKeyPEM: encrypt private key already configured'')
      else rbind (wrap_as ''WithEncryptPrivateKeyPEM'' (LoadPrivateKeyPEM (lib_x509 L) pem password)) (\<lambda>key.
        rbind (check_modulus ''WithEncryptPrivateKeyPEM'' key) (\<lambda>k.
          Inr (c\<lparr>cfg_encryptPriv := Some k\<rparr>))))"

record atome_cert_source =
  PartnerPriv :: "bytes option"
  AtomePub :: "bytes option"

fun when_some :: "'a option \<Rightarrow> ('a \<Rightarrow> 'c \<Rightarrow> go_error + 'c) \<Rightarrow> 'c \<Rightarrow> go_error + 'c" where
  "when_some None f c = Inr c"
| "when_some (Some x) f c = f x c"

definition WithAtomeCerts :: "go_lib \<Rightarrow> atome_cert_source \<Rightarrow> atome_cert_source \<Rightarrow> client_option" where
  "WithAtomeCerts L signing encrypting c =
     apply_options
       [when_some (PartnerPriv signing) (\<lambda>pem. WithPrivateKeyPEM L pem []),
        when_some (AtomePub signing) (WithAtomePublicCertPEM L),
        when_some (PartnerPriv encrypting) (\<lambda>pem. WithEncryptPrivateKeyPEM L pem []),
        when_some (AtomePub encrypting) (WithEncryptAtomePublicCertPEM L)] c"

definition WithClientKeyID :: "string \<Rightarrow> client_option" where
  "WithClientKeyID i c = Inr (c\<lparr>cfg_keyID := i, cfg_keyIDSet := True\<rparr>)"

definition WithAuthorizationScheme :: "authorization_scheme option \<Rightarrow> client_option" where
  "WithAuthorizationScheme scheme c =
     (case scheme of None \<Rightarrow> Inl (ErrorString ''atomefin: WithAuthorizationScheme: nil scheme'')
      | Some f \<Rightarrow> Inr (c\<lparr>cfg_authScheme := f\<rparr>))"

definition WithPartnerID :: "string \<Rightarrow> client_option" where
  "WithPartnerID i0 c =
     (let i = trim_space i0 in
      if i = [] then Inl (ErrorString ''atomefin: WithPartnerID: empty id'')
      else Inr (c\<lparr>cfg_partnerID := i\<rparr>))"

definition WithMerchantID :: "string \<Rightarrow> client_option" where
  "WithMerchantID i c = Inr (c\<lparr>cfg_merchantID := trim_space i\<rparr>)"

definition WithLogger :: "string option \<Rightarrow> client_option" where
  "WithLogger l c =
     (case l of None \<Rightarrow> Inl (ErrorString ''atomefin: WithLogger: nil Logger'')
      | Some x \<Rightarrow> Inr (c\<lparr>cfg_logger := x\<rparr>))"

definition WithObserver :: "observer option \<Rightarrow> client_option" where
  "WithObserver ob c =
     (case ob of None \<Rightarrow> Inl (ErrorString ''atomefin: WithObserver: nil Observer'')
      | Some x \<Rightarrow> Inr (c\<lparr>cfg_observer := x\<rparr>))"

definition WithDebugBodyLogging :: "bool \<Rightarrow> client_option" where
  "WithDebugBodyLogging enable c = Inr (c\<lparr>cfg_debugBodyLog := enable\<rparr>)"

definition WithClock :: "(nat \<Rightarrow> int) option \<Rightarrow> client_option" where
  "WithClock now c =
     (case now of None \<Rightarrow> Inl (ErrorString ''atomefin: WithClock: nil clock'')
      | Some f \<Rightarrow> Inr (c\<lparr>cfg_clock := f\<rparr>))"

definition WithRequestIDGenerator :: "(nat \<Rightarrow> string) option \<Rightarrow> client_option" where
  "WithRequestIDGenerator fn c =
     (case fn of None \<Rightarrow> Inl (ErrorString ''atomefin: WithRequestIDGenerator: nil generator'')
      | Some f \<Rightarrow> Inr (c\<lparr>cfg_requestIDGen := f\<rparr>))"

definition WithMaxResponseBytes :: "int64 \<Rightarrow> client_option" where
  "WithMaxResponseBytes n c =
     (if sint n \<le> 0 then Inl (ErrorString ''atomefin: WithMaxResponseBytes: must be > 0'')
      else Inr (c\<lparr>cfg_maxRespBytes := n\<rparr>))"

section \<open>Construction\<close>

definition signerWithKeyID :: "signer \<Rightarrow> string \<Rightarrow> signer" where
  "signerWithKeyID s keyID = s\<lparr>KeyID := keyID\<rparr>"

definition finalize_retry :: "retry_policy \<Rightarrow> retry_policy" where
  "finalize_retry r0 =
     (let r = (if MaxAttempts r0 = 0 then DefaultRetryPolicy else r0);
          r1 = (if RetryOnStatus r = None then r\<lparr>RetryOnStatus := Some DefaultRetryOnStatus\<rparr> else r)
      in if RetryOnTransportError r1 = None
         then r1\<lparr>RetryOnTransportError := Some DefaultRetryOnTransportError\<rparr> else r1)"

definition finalizeConfig :: "go_lib \<Rightarrow> config \<Rightarrow> go_error + config" where
  "finalizeConfig L cfg0 =
     (case cfg_signer cfg0 of
        None \<Rightarrow> Inl (ErrorString ''atomefin: New: a Signer is required (use WithSigner or WithPrivateKeyPEM)'')
      | Some sg \<Rightarrow>
          let cfg = (if cfg_keyIDSet cfg0
                     then cfg0\<lparr>cfg_signer := Some (signerWithKeyID sg (cfg_keyID cfg0))\<rparr> else cfg0) in
          rbind (if cfg_baseURL cfg = []
                 then rbind (BaseURL (cfg_environment cfg)) (\<lambda>u. Inr (cfg\<lparr>cfg_baseURL := u\<rparr>))
                 else Inr cfg) (\<lambda>cfg1.
          let cfg2 = cfg1\<lparr>cfg_userAgent :=
                (if cfg_userAgent cfg1 = [] then BuildUserAgent L SDKVersion []
                 else BuildUserAgent L SDKVersion (cfg_userAgent cfg1))\<rparr>;
              cfg3 = cfg2\<lparr>cfg_retry := finalize_retry (cfg_retry cfg2)\<rparr>
          in of_check (RetryPolicy_Validate (cfg_retry cfg3)) cfg3))"

record client =
  httpClient :: string
  baseURL :: string
  c_environment :: environment
  timeout :: duration
  signer :: signer
  verifier :: "verifier option"
  authScheme :: authorization_scheme
  keyID :: string
  partnerID :: string
  merchantID :: string
  retry :: retry_policy
  logger :: string
  c_observer :: observer
  clock :: "nat \<Rightarrow> int"
  requestIDGen :: "nat \<Rightarrow> string"
  userAgent :: string
  maxRespBytes :: int64
  debugBodyLog :: bool
  encryptAtomePub :: "rsa_key option"
  encryptPriv :: "rsa_key option"

definition optionIndexLabel :: "nat \<Rightarrow> string" where
  "optionIndexLabel i = (if i = 0 then ''option 0'' else if i = 1 then ''option 1'' else ''option N'')"

fun run_options :: "nat \<Rightarrow> client_option option list \<Rightarrow> config \<Rightarrow> go_error + config" where
  "run_options i [] cfg = Inr cfg"
| "run_options i (None # opts) cfg =
     Inl (ValidationError ''options'' (optionIndexLabel i @ '' is nil''))"
| "run_options i (Some opt # opts) cfg = rbind (opt cfg) (run_options (Suc i) opts)"

definition client_of :: "signer \<Rightarrow> config \<Rightarrow> client" where
  "client_of sg cfg =
     \<lparr>httpClient = cfg_httpClient cfg, baseURL = cfg_baseURL cfg, c_environment = cfg_environment cfg,
      timeout = cfg_timeout cfg, signer = sg, verifier = cfg_verifier cfg,
      authScheme = cfg_authScheme cfg, keyID = cfg_keyID cfg, partnerID = cfg_partnerID cfg,
      merchantID = cfg_merchantID cfg, retry = cfg_retry cfg, logger = cfg_logger cfg,
      c_observer = cfg_observer cfg, clock = cfg_clock cfg, requestIDGen = cfg_requestIDGen cfg,
      userAgent = cfg_userAgent cfg, maxRespBytes = cfg_maxRespBytes cfg,
      debugBodyLog = cfg_debugBodyLog cfg, encryptAtomePub = cfg_encryptAtomePub cfg,
      encryptPriv = cfg_encryptPriv cfg\<rparr>"

definition New ::
  "go_lib \<Rightarrow> (nat \<Rightarrow> int) \<Rightarrow> (nat \<Rightarrow> string) \<Rightarrow> client_option option list \<Rightarrow> go_error + client" where
  "New L now ids opts =
     rbind (run_options 0 opts (defaultConfig now ids)) (\<lambda>cfg.
     rbind (finalizeConfig L cfg) (\<lambda>cfg'.
       case cfg_signer cfg' of
         Some sg \<Rightarrow> Inr (client_of sg cfg')
       | None \<Rightarrow> Inl (GoPanic ''no signer'')))"

section \<open>Invariant\<close>

text \<open>
  The options a caller can pass: config is not exported, so an Option is one of the
  SDK's constructors applied to some arguments.
\<close>

inductive sdk_option :: "go_lib \<Rightarrow> client_option \<Rightarrow> bool" for L where
  "sdk_option L (WithHTTPClient h)"
| "sdk_option L (WithBaseURL L u)"
| "sdk_option L (WithEnvironment env)"
| "sdk_option L (WithTimeout d)"
| "sdk_option L (WithRetry p)"
| "sdk_option L (WithUserAgent ua)"
| "sdk_option L (WithSigner s)"
| "sdk_option L (WithPrivateKeyPEM L pem pw)"
| "sdk_option L (WithAtomePublicKey L pub)"
| "sdk_option L (WithAtomePublicCertPEM L pem)"
| "sdk_option L (WithEncryptAtomePublicCertPEM L pem)"
| "sdk_option L (WithEncryptPrivateKeyPEM L pem pw)"
| "sdk_option L (WithAtomeCerts L sc ec)"
| "sdk_option L (WithClientKeyID i)"
| "sdk_option L (WithAuthorizationScheme sch)"
| "sdk_option L (WithPartnerID i)"
| "sdk_option L (WithMerchantID i)"
| "sdk_option L (WithLogger l)"
| "sdk_option L (WithObserver ob)"
| "sdk_option L (WithDebugBodyLogging b)"
| "sdk_option L (WithClock now)"
| "sdk_option L (WithRequestIDGenerator fn)"
| "sdk_option L (WithMaxResponseBytes n)"

definition no_slash_end :: "string \<Rightarrow> bool" where
  "no_slash_end u \<longleftrightarrow> u = [] \<or> last u \<noteq> CHR ''/''"

definition key_ok :: "rsa_key option \<Rightarrow> bool" where
  "key_ok k \<longleftrightarrow> (case k of None \<Rightarrow> True | Some x \<Rightarrow> \<not> key_too_small x)"

definition config_ok :: "config \<Rightarrow> bool" where
  "config_ok c \<longleftrightarrow>
     cfg_environment c \<in> {EnvPre, EnvProd} \<and> no_slash_end (cfg_baseURL c) \<and>
     0 < sint (cfg_timeout c) \<and> 0 < sint (cfg_maxRespBytes c) \<and>
     RetryPolicy_Validate (cfg_retry c) = None \<and>
     key_ok (cfg_encryptAtomePub c) \<and> key_ok (cfg_encryptPriv c)"

definition client_ok :: "client \<Rightarrow> bool" where
  "client_ok c \<longleftrightarrow>
     baseURL c \<noteq> [] \<and> no_slash_end (baseURL c) \<and> 0 < sint (timeout c) \<and>
     0 < sint (maxRespBytes c) \<and> RetryPolicy_Validate (retry c) = None \<and>
     RetryOnStatus (retry c) \<noteq> None \<and> RetryOnTransportError (retry c) \<noteq> None \<and>
     userAgent c \<noteq> [] \<and> key_ok (encryptAtomePub c) \<and> key_ok (encryptPriv c)"

lemma BaseURL_Inr: "BaseURL env = Inr u \<Longrightarrow> env \<in> {EnvPre, EnvProd} \<and> u \<noteq> [] \<and> no_slash_end u"
  by (auto simp: BaseURL_def baseURLs_def EnvPre_def EnvProd_def no_slash_end_def split: if_splits)

lemma wrap_as_Inr: "wrap_as n r = Inr x \<longleftrightarrow> r = Inr x"
  by (cases r) auto

lemma check_modulus_Inr: "check_modulus n k = Inr k' \<longleftrightarrow> k = k' \<and> \<not> key_too_small k"
  by (auto simp: check_modulus_def key_too_small_def MinKeyBits_def split: option.splits)

definition keeps :: "client_option \<Rightarrow> bool" where
  "keeps f \<longleftrightarrow> (\<forall>c c'. config_ok c \<longrightarrow> f c = Inr c' \<longrightarrow> config_ok c')"

lemmas option_defs =
  WithHTTPClient_def WithTimeout_def WithUserAgent_def WithSigner_def WithClientKeyID_def
  WithAuthorizationScheme_def WithPartnerID_def WithMerchantID_def WithLogger_def WithObserver_def
  WithDebugBodyLogging_def WithClock_def WithRequestIDGenerator_def WithMaxResponseBytes_def

lemma config_ok_default: "config_ok (defaultConfig now ids)"
  by (simp add: config_ok_def defaultConfig_def EnvProd_def no_slash_end_def key_ok_def Validate_Default
      push_bit_eq_mult)

lemma keeps_simple:
  "keeps (WithHTTPClient h)"
  "keeps (WithTimeout d)"
  "keeps (WithUserAgent ua)"
  "keeps (WithSigner s)"
  "keeps (WithClientKeyID i)"
  "keeps (WithAuthorizationScheme sch)"
  "keeps (WithPartnerID i)"
  "keeps (WithMerchantID i)"
  "keeps (WithLogger l)"
  "keeps (WithObserver ob)"
  "keeps (WithDebugBodyLogging b)"
  "keeps (WithClock now)"
  "keeps (WithRequestIDGenerator fn)"
  "keeps (WithMaxResponseBytes n)"
  by (auto simp: keeps_def option_defs Let_def config_ok_def split: option.splits if_splits)

lemma keeps_WithEnvironment: "keeps (WithEnvironment env)"
  by (auto simp: keeps_def WithEnvironment_def result_simps config_ok_def dest: BaseURL_Inr)

lemma keeps_WithRetry: "keeps (WithRetry p)"
  by (auto simp: keeps_def WithRetry_def result_simps config_ok_def)

lemma keeps_WithBaseURL: "keeps (WithBaseURL L u)"
  using trim_right_no_suffix [of "CHR ''/''" "trim_space u"]
  by (auto simp: keeps_def WithBaseURL_def Let_def config_ok_def no_slash_end_def
      split: if_splits sum.splits)

lemma keeps_signing_keys:
  "keeps (WithPrivateKeyPEM L pem pw)" "keeps (WithAtomePublicCertPEM L pem)" "keeps (WithAtomePublicKey L pub)"
  by (auto simp: keeps_def WithPrivateKeyPEM_def WithAtomePublicCertPEM_def WithAtomePublicKey_def
      result_simps config_ok_def split: if_splits)

lemma keeps_encrypt_keys:
  "keeps (WithEncryptAtomePublicCertPEM L pem)" "keeps (WithEncryptPrivateKeyPEM L pem pw)"
  by (auto simp: keeps_def WithEncryptAtomePublicCertPEM_def WithEncryptPrivateKeyPEM_def
      result_simps check_modulus_Inr config_ok_def key_ok_def split: if_splits)

lemma keeps_apply_options: "(\<And>f. f \<in> set fs \<Longrightarrow> keeps f) \<Longrightarrow> keeps (apply_options fs)"
proof (induction fs)
  case (Cons f fs)
  then have k: "keeps f" "keeps (apply_options fs)" by simp_all
  show ?case unfolding keeps_def
  proof (intro allI impI)
    fix c c' assume "config_ok c" "apply_options (f # fs) c = Inr c'"
    moreover from this(2) obtain d where "f c = Inr d" "apply_options fs d = Inr c'"
      by (auto simp: rbind_Inr_iff)
    ultimately show "config_ok c'" using k unfolding keeps_def by blast
  qed
qed (simp add: keeps_def)

lemma keeps_when_some: "(\<And>x. keeps (f x)) \<Longrightarrow> keeps (when_some v f)"
  by (cases v) (simp_all add: keeps_def)

lemma keeps_WithAtomeCerts: "keeps (WithAtomeCerts L sc ec)"
proof -
  have "WithAtomeCerts L sc ec = apply_options
       [when_some (PartnerPriv sc) (\<lambda>pem. WithPrivateKeyPEM L pem []),
        when_some (AtomePub sc) (WithAtomePublicCertPEM L),
        when_some (PartnerPriv ec) (\<lambda>pem. WithEncryptPrivateKeyPEM L pem []),
        when_some (AtomePub ec) (WithEncryptAtomePublicCertPEM L)]"
    by (rule ext) (simp only: WithAtomeCerts_def)
  then show ?thesis
    by (simp only:) (rule keeps_apply_options,
        auto intro!: keeps_when_some keeps_signing_keys keeps_encrypt_keys)
qed

lemma keeps_sdk_option: "sdk_option L f \<Longrightarrow> keeps f"
  by (erule sdk_option.cases)
     (simp_all only: keeps_simple keeps_WithEnvironment keeps_WithRetry keeps_WithBaseURL
       keeps_signing_keys keeps_encrypt_keys keeps_WithAtomeCerts)

lemma config_ok_run_options:
  "config_ok c \<Longrightarrow> run_options i opts c = Inr c' \<Longrightarrow> \<forall>f. Some f \<in> set opts \<longrightarrow> sdk_option L f \<Longrightarrow> config_ok c'"
proof (induction i opts c rule: run_options.induct)
  case (3 i opt opts c)
  then obtain d where "opt c = Inr d" "run_options (Suc i) opts d = Inr c'" by (auto simp: result_simps)
  moreover from this have "config_ok d" using 3(2,4) keeps_sdk_option [of L opt] by (auto simp: keeps_def)
  ultimately show ?case using 3 by auto
qed auto

lemma finalize_retry_Some:
  "RetryOnStatus (finalize_retry r) \<noteq> None" "RetryOnTransportError (finalize_retry r) \<noteq> None"
  by (auto simp: finalize_retry_def Let_def)

lemma BuildUserAgent_nonempty: "BuildUserAgent L v sfx \<noteq> []"
  by (simp add: BuildUserAgent_def DefaultProductName_def Let_def)

lemma finalizeConfig_Inr:
  assumes "finalizeConfig L c = Inr c'"
  obtains sg where "cfg_signer c = Some sg"
    "cfg_signer c' = Some (if cfg_keyIDSet c then signerWithKeyID sg (cfg_keyID c) else sg)"
    "(cfg_baseURL c' = cfg_baseURL c \<and> cfg_baseURL c \<noteq> []) \<or> BaseURL (cfg_environment c) = Inr (cfg_baseURL c')"
    "cfg_retry c' = finalize_retry (cfg_retry c)" "RetryPolicy_Validate (cfg_retry c') = None"
    "cfg_timeout c' = cfg_timeout c" "cfg_maxRespBytes c' = cfg_maxRespBytes c"
    "cfg_userAgent c' = BuildUserAgent L SDKVersion (cfg_userAgent c)"
    "cfg_encryptAtomePub c' = cfg_encryptAtomePub c" "cfg_encryptPriv c' = cfg_encryptPriv c"
  using assms
  by (auto simp: finalizeConfig_def Let_def result_simps split: option.splits if_splits)

section \<open>Properties\<close>

text \<open>C30. A Client that New returns, from any of the SDK's options in any order, is well formed:
  it has a base URL without trailing slash, positive timeout and response limit, a validated
  retry policy with both callbacks set, a user agent, and encryption keys of at least 2048 bits.\<close>
theorem New_client_ok:
  assumes "New L now ids opts = Inr c" "\<forall>f. Some f \<in> set opts \<longrightarrow> sdk_option L f"
  shows "client_ok c"
proof -
  obtain cfg cfg' sg where cfg: "run_options 0 opts (defaultConfig now ids) = Inr cfg"
    and fin: "finalizeConfig L cfg = Inr cfg'" and c: "c = client_of sg cfg'"
    using assms(1) by (auto simp: New_def result_simps split: option.splits)
  have ok: "config_ok cfg" using config_ok_run_options [OF config_ok_default cfg assms(2)] .
  from fin show ?thesis
  proof (rule finalizeConfig_Inr)
  qed (use ok BaseURL_Inr in \<open>auto simp: c client_ok_def client_of_def config_ok_def finalize_retry_Some
      BuildUserAgent_nonempty\<close>)
qed

definition sample_lib :: go_lib where
  "sample_lib = \<lparr>lib_x509 = sample_parsers, lib_sha256 = (\<lambda>b. b), lib_rsa_sign = (\<lambda>k d. Inr d),
     lib_rsa_verify = (\<lambda>k d s. d = s), lib_url_parse = (\<lambda>u. Inr (''https'', ''h'')),
     lib_version = ''go1.22'', lib_goos = ''linux'', lib_goarch = ''amd64''\<rparr>"

definition sample_signer :: signer where
  "sample_signer = \<lparr>Sign = (\<lambda>ctx m. case ctx of Some e \<Rightarrow> Inl e | None \<Rightarrow> Inr (''sig:'' @ m)), KeyID = []\<rparr>"

lemma sample_New:
  "New sample_lib (\<lambda>n. 0) (\<lambda>n. ''id'')
     [Some (WithSigner (Some sample_signer)), Some (WithEnvironment EnvPre), Some (WithClientKeyID ''k2'')] =
   Inr (client_of (signerWithKeyID sample_signer ''k2'')
     ((defaultConfig (\<lambda>n. 0) (\<lambda>n. ''id''))\<lparr>cfg_signer := Some (signerWithKeyID sample_signer ''k2''),
        cfg_environment := EnvPre, cfg_keyID := ''k2'', cfg_keyIDSet := True,
        cfg_baseURL := ''https://id-api-pre.apaylater.net/grabpaylater'',
        cfg_userAgent := BuildUserAgent sample_lib SDKVersion [],
        cfg_retry := DefaultRetryPolicy\<rparr>))"
proof -
  have "finalize_retry DefaultRetryPolicy = DefaultRetryPolicy"
    by (simp add: finalize_retry_def DefaultRetryPolicy_def)
  then show ?thesis
    by (simp add: New_def WithSigner_def WithEnvironment_def WithClientKeyID_def BaseURL_def baseURLs_def
        EnvPre_def EnvProd_def finalizeConfig_def defaultConfig_def Let_def Validate_Default)
qed

theorem New_client_ok_witness:
  "\<exists>c. New sample_lib (\<lambda>n. 0) (\<lambda>n. ''id'')
     [Some (WithSigner (Some sample_signer)), Some (WithEnvironment EnvPre), Some (WithClientKeyID ''k2'')] = Inr c \<and>
     client_ok c"
proof -
  have "\<forall>f. Some f \<in> set [Some (WithSigner (Some sample_signer)), Some (WithEnvironment EnvPre),
      Some (WithClientKeyID ''k2'')] \<longrightarrow> sdk_option sample_lib f"
    by (auto intro: sdk_option.intros)
  then show ?thesis using sample_New New_client_ok [OF sample_New] by blast
qed

end
