(* ===== verification/Client_Dispatch.thy ===== *)
theory Client_Dispatch
  imports Client_Config
begin

text \<open>
  atomefin/doer.go and heartbeat.go: signing and sending a request with retries.
  The outside world of one call is a record of outcomes per attempt (building the
  request, http.Client.Do, the parent context, the backoff wait), and the result
  comes with the trace of what the client did: observer calls, requests sent and
  log lines.  A nil retry callback would panic; New never leaves one nil, which is
  part of \<open>client_ok\<close>.
\<close>

section \<open>Requests, responses and the trace\<close>

record http_request =
  rq_method :: string
  rq_url :: string
  rq_query :: string
  rq_header :: header
  rq_body :: bytes

text \<open>A response body is the bytes it delivers and the read error after them, None for EOF.\<close>

record http_response =
  rsp_StatusCode :: int
  rsp_Header :: header
  rsp_Body :: "bytes \<times> go_error option"

record raw_response =
  StatusCode :: int
  Header :: header
  Body :: bytes

datatype log_level = Debug | Info | Warn | Error

datatype event = Observed obs_call | Sent http_request | Logged log_level string

record world =
  w_ctx_sign :: "go_error option"
  w_new_request :: "int \<Rightarrow> go_error option"
  w_do :: "int \<Rightarrow> http_request \<Rightarrow> go_error + http_response"
  w_dur :: "int \<Rightarrow> int"
  w_ctx :: "int \<Rightarrow> go_error option"
  w_draw :: "int \<Rightarrow> (float64 \<Rightarrow> duration \<Rightarrow> duration) option"
  w_sleep_ctx :: "int \<Rightarrow> go_error option"
  w_sleep_wait :: "int \<Rightarrow> duration \<Rightarrow> go_error option"
  w_unmarshal :: "bytes \<Rightarrow> error_envelope option"

section \<open>Per-call options\<close>

datatype do_signed_option = ExtraHeader string string

definition WithRequestHeader :: "string \<Rightarrow> string \<Rightarrow> do_signed_option" where
  "WithRequestHeader k v = ExtraHeader k v"

fun applyDoSigned :: "do_signed_option \<Rightarrow> header \<Rightarrow> header" where
  "applyDoSigned (ExtraHeader k v) h = header_set k v h"

fun extra_headers :: "do_signed_option option list \<Rightarrow> header \<Rightarrow> header" where
  "extra_headers [] h = h"
| "extra_headers (None # os) h = extra_headers os h"
| "extra_headers (Some x # os) h = extra_headers os (applyDoSigned x h)"

section \<open>Headers\<close>

definition isReservedHeader :: "string \<Rightarrow> bool" where
  "isReservedHeader name \<longleftrightarrow>
     CanonicalHeaderKey name \<in> set [''Authorization'', ''Content-Type'', ''User-Agent'', ''Accept'']"

definition populateHeaders :: "client \<Rightarrow> header \<Rightarrow> string \<Rightarrow> header" where
  "populateHeaders c h authValue =
     header_set ''User-Agent'' (userAgent c)
       (header_set ''Accept'' ''application/json''
         (header_set ''Content-Type'' ''application/json''
           (header_set ''Authorization'' authValue h)))"

fun add_extra :: "header \<Rightarrow> header \<Rightarrow> header" where
  "add_extra [] h = h"
| "add_extra ((k, vs) # es) h =
     (if isReservedHeader k then add_extra es h
      else add_extra es (AList.update (CanonicalHeaderKey k) vs h))"

section \<open>Reading a body\<close>

definition errResponseTooLarge :: go_error where
  "errResponseTooLarge = ErrorString ''response body exceeds max size; consider WithMaxResponseBytes''"

text \<open>io.ReadAll of io.LimitReader(r, n): no more than n bytes, none at all when n \<le> 0.\<close>

definition read_all_limited :: "bytes \<times> go_error option \<Rightarrow> int64 \<Rightarrow> go_error + bytes" where
  "read_all_limited r n =
     (if sint n \<le> 0 then Inr []
      else if sint n \<le> int (length (fst r)) then Inr (take (nat (sint n)) (fst r))
      else case snd r of Some err \<Rightarrow> Inl err | None \<Rightarrow> Inr (fst r))"

definition readAndClose :: "bytes \<times> go_error option \<Rightarrow> int64 \<Rightarrow> bytes \<times> go_error option" where
  "readAndClose r max0 =
     (let max = (if sint max0 \<le> 0 then push_bit 20 4 else max0) in
      case read_all_limited r (max + 1) of
        Inl err \<Rightarrow> ([], Some err)
      | Inr buf \<Rightarrow>
          if int (length buf) > sint max then (take (nat (sint max)) buf, Some errResponseTooLarge)
          else (buf, None))"

section \<open>Observers\<close>

definition safe_obs :: "client \<Rightarrow> string \<Rightarrow> obs_call \<Rightarrow> event list" where
  "safe_obs c hook call =
     Observed call #
     (case c_observer c call of
        None \<Rightarrow> []
      | Some p \<Rightarrow> [Logged Error (''atomefin: observer.'' @ hook @ '' panicked'')])"

definition safeObsRequest :: "client \<Rightarrow> string \<Rightarrow> int \<Rightarrow> event list" where
  "safeObsRequest c op attempt = safe_obs c ''OnRequest'' (OnRequest op attempt)"

definition safeObsResponse :: "client \<Rightarrow> string \<Rightarrow> int \<Rightarrow> int \<Rightarrow> event list" where
  "safeObsResponse c op status dur = safe_obs c ''OnResponse'' (OnResponse op status dur)"

definition safeObsRetry :: "client \<Rightarrow> string \<Rightarrow> int \<Rightarrow> go_error \<Rightarrow> event list" where
  "safeObsRetry c op attempt err = safe_obs c ''OnRetry'' (OnRetry op attempt err)"

section \<open>One attempt\<close>

definition callback :: "('a \<Rightarrow> bool) option \<Rightarrow> 'a \<Rightarrow> bool" where
  "callback f x = (case f of Some g \<Rightarrow> g x | None \<Rightarrow> False)"

definition cloneHeader :: "header \<Rightarrow> header" where
  "cloneHeader h = map (\<lambda>(k, v). (k, v)) h"

definition finish_request :: "client \<Rightarrow> string \<Rightarrow> header \<Rightarrow> http_request \<Rightarrow> http_request" where
  "finish_request c authValue extra req =
     req\<lparr>rq_header := add_extra extra (populateHeaders c (rq_header req) authValue)\<rparr>"

text \<open>The outcome is the response, or the error with the flag that it may be retried.\<close>

definition handle_response ::
  "client \<Rightarrow> world \<Rightarrow> string \<Rightarrow> string \<Rightarrow> int \<Rightarrow> http_response \<Rightarrow>
   event list \<times> ((bool \<times> go_error) + raw_response)" where
  "handle_response c w op urlStr attempt resp =
     (let st = rsp_StatusCode resp; obs = safeObsResponse c op st (w_dur w attempt) in
      case readAndClose (rsp_Body resp) (maxRespBytes c) of
        (respBody, Some readErr) \<Rightarrow>
          let retryable = w_ctx w attempt = None \<and> \<not> errors_is readErr errResponseTooLarge \<and>
                (st < 400 \<or> callback (RetryOnStatus (retry c)) st) \<and>
                callback (RetryOnTransportError (retry c)) (Some readErr) \<and> IsRetryableTransport (Some readErr);
              te = TransportError ''read'' urlStr (Some readErr) retryable
          in (obs @ [Logged Error ''atomefin: response body read failed''] @
                (if retryable \<and> attempt < MaxAttempts (retry c) then safeObsRetry c op attempt te else []),
              Inl (retryable, te))
      | (respBody, None) \<Rightarrow>
          let dbg = (if debugBodyLog c then [Logged Debug ''atomefin: response''] else []);
              apiErr = APIError (decodeAPIError (w_unmarshal w) st op respBody)
          in if callback (RetryOnStatus (retry c)) st \<and> attempt < MaxAttempts (retry c) then
               (obs @ dbg @ safeObsRetry c op attempt apiErr @
                  [Logged Warn ''atomefin: retrying after non-2xx''], Inl (True, apiErr))
             else if st \<ge> 400 then (obs @ dbg, Inl (False, apiErr))
             else (obs @ dbg, Inr \<lparr>StatusCode = st, Header = cloneHeader (rsp_Header resp), Body = respBody\<rparr>))"

definition dispatchAttempt ::
  "client \<Rightarrow> world \<Rightarrow> string \<Rightarrow> string \<Rightarrow> string \<Rightarrow> int \<Rightarrow> header \<Rightarrow> (int \<Rightarrow> go_error + http_request) \<Rightarrow>
   event list \<times> ((bool \<times> go_error) + raw_response)" where
  "dispatchAttempt c w op urlStr authValue attempt extra buildReq =
     (let obs = safeObsRequest c op attempt in
      case buildReq attempt of
        Inl err \<Rightarrow> (obs, Inl (False, TransportError ''build'' urlStr (Some err) False))
      | Inr req0 \<Rightarrow>
          let req = finish_request c authValue extra req0 in
          case w_do w attempt req of
            Inl err \<Rightarrow>
              let retryable = w_ctx w attempt = None \<and>
                    callback (RetryOnTransportError (retry c)) (Some err) \<and> IsRetryableTransport (Some err);
                  te = TransportError ''do'' urlStr (Some err) retryable
              in (obs @ [Sent req] @ safeObsRetry c op attempt te @
                    [Logged Warn ''atomefin: request failed''], Inl (retryable, te))
          | Inr resp \<Rightarrow>
              let (evs, r) = handle_response c w op urlStr attempt resp
              in (obs @ [Sent req] @ evs, r))"

section \<open>The retry loop\<close>

function dispatch_loop ::
  "client \<Rightarrow> world \<Rightarrow> string \<Rightarrow> string \<Rightarrow> string \<Rightarrow> header \<Rightarrow> (int \<Rightarrow> go_error + http_request) \<Rightarrow>
   int \<Rightarrow> go_error option \<Rightarrow> event list \<times> (go_error + raw_response)" where
  "dispatch_loop c w op urlStr authValue extra buildReq attempt lastErr =
     (if attempt > MaxAttempts (retry c) then
        ([], Inl (case lastErr of
            Some e \<Rightarrow> e
          | None \<Rightarrow> TransportError ''do'' urlStr
              (Some (ErrorString ''retry loop exhausted with no error captured'')) False))
      else case dispatchAttempt c w op urlStr authValue attempt extra buildReq of
        (evs, Inr resp) \<Rightarrow> (evs, Inr resp)
      | (evs, Inl (retryable, attemptErr)) \<Rightarrow>
          if \<not> retryable \<or> attempt = MaxAttempts (retry c) then (evs, Inl attemptErr)
          else case Sleep (retry c) (w_draw w attempt) (w_sleep_ctx w attempt) (w_sleep_wait w attempt) attempt of
            Some sleepErr \<Rightarrow> (evs, Inl (TransportError ''sleep'' urlStr (Some sleepErr) False))
          | None \<Rightarrow>
              (case dispatch_loop c w op urlStr authValue extra buildReq (attempt + 1) (Some attemptErr) of
                 (evs', r) \<Rightarrow> (evs @ evs', r)))"
  by pat_completeness auto
termination
  by (relation "measure (\<lambda>(c, w, op, u, a, x, b, attempt, l). nat (MaxAttempts (retry c) - attempt + 1))") auto

declare dispatch_loop.simps [simp del]

definition signAndDispatch ::
  "client \<Rightarrow> world \<Rightarrow> string \<Rightarrow> string \<Rightarrow> bytes \<Rightarrow> header \<Rightarrow> (int \<Rightarrow> go_error + http_request) \<Rightarrow>
   event list \<times> (go_error + raw_response)" where
  "signAndDispatch c w op urlStr canonical extra buildReq =
     (case Sign (signer c) (w_ctx_sign w) canonical of
        Inl err \<Rightarrow>
          ([], Inl (if errors_is err ContextCanceled \<or> errors_is err ContextDeadlineExceeded
                    then TransportError ''sign'' urlStr (Some err) False
                    else SignatureError ''sign'' (Some err)))
      | Inr sig \<Rightarrow>
          dispatch_loop c w op urlStr (authScheme c sig (KeyID (signer c))) extra buildReq 1 None)"

section \<open>Entry points\<close>

definition bad_path :: "string \<Rightarrow> bool" where
  "bad_path path \<longleftrightarrow> path = [] \<or> path ! 0 \<noteq> CHR ''/''"

definition path_error :: go_error where
  "path_error = ValidationError ''path'' (''path must be absolute (start with '' @
     [CHR 0x27, CHR ''/'', CHR 0x27] @ '')'')"

definition post_request :: "world \<Rightarrow> string \<Rightarrow> string \<Rightarrow> bytes \<Rightarrow> int \<Rightarrow> go_error + http_request" where
  "post_request w method urlStr body attempt =
     (case w_new_request w attempt of
        Some err \<Rightarrow> Inl err
      | None \<Rightarrow> Inr \<lparr>rq_method = method, rq_url = urlStr, rq_query = [], rq_header = [], rq_body = body\<rparr>)"

definition get_request :: "world \<Rightarrow> string \<Rightarrow> string \<Rightarrow> int \<Rightarrow> go_error + http_request" where
  "get_request w urlStr wireQuery attempt =
     (case w_new_request w attempt of
        Some err \<Rightarrow> Inl err
      | None \<Rightarrow> Inr \<lparr>rq_method = ''GET'', rq_url = urlStr, rq_query = wireQuery, rq_header = [], rq_body = []\<rparr>)"

definition DoSigned ::
  "client option \<Rightarrow> world \<Rightarrow> string \<Rightarrow> string \<Rightarrow> bytes \<Rightarrow> do_signed_option option list \<Rightarrow>
   event list \<times> (go_error + raw_response)" where
  "DoSigned co w method path body opts =
     (case co of
        None \<Rightarrow> ([], Inl (ErrorString ''atomefin: DoSigned called on nil *Client''))
      | Some c \<Rightarrow>
          let extra = extra_headers opts [] in
          if method \<noteq> ''POST'' then
            ([], Inl (ValidationError ''method'' ''DoSigned is POST-only; use DoSignedGET for GET requests''))
          else if bad_path path then ([], Inl path_error)
          else let urlStr = baseURL c @ path in
            signAndDispatch c w path urlStr body extra (post_request w method urlStr body))"

definition DoSignedGET ::
  "client option \<Rightarrow> world \<Rightarrow> string \<Rightarrow> url_values \<Rightarrow> do_signed_option option list \<Rightarrow>
   event list \<times> (go_error + raw_response)" where
  "DoSignedGET co w path query opts =
     (case co of
        None \<Rightarrow> ([], Inl (ErrorString ''atomefin: DoSignedGET called on nil *Client''))
      | Some c \<Rightarrow>
          let extra = extra_headers opts [] in
          if bad_path path then ([], Inl path_error)
          else let canonical = CanonicalQueryFirstValue query;
                   wireQuery = EncodeWireQueryRFC3986 query;
                   urlStr = baseURL c @ path in
            signAndDispatch c w path urlStr canonical extra (get_request w urlStr wireQuery))"

text \<open>None while the draws given for the AES key do not complete it.\<close>

definition DoEncryptedSigned ::
  "block_cipher \<Rightarrow> (rsa_key \<Rightarrow> bytes \<Rightarrow> go_error + bytes) \<Rightarrow> (go_error + char) list \<Rightarrow>
   client option \<Rightarrow> world \<Rightarrow> string \<Rightarrow> string \<Rightarrow> bytes \<Rightarrow> do_signed_option option list \<Rightarrow>
   (event list \<times> (go_error + raw_response)) option" where
  "DoEncryptedSigned B rsa_encrypt draws co w method path plainBody opts =
     (case co of
        None \<Rightarrow> Some ([], Inl (ErrorString ''atomefin: DoEncryptedSigned called on nil *Client''))
      | Some c \<Rightarrow>
          if encryptAtomePub c = None then
            Some ([], Inl (ValidationError ''encryptAtomePublicCert''
              ''WithEncryptAtomePublicCertPEM is required for endpoints with the Encrypt: header (today /query-user-tag, /credit-information, and /credit-application)''))
          else if method \<noteq> ''POST'' then
            Some ([], Inl (ValidationError ''method'' ''DoEncryptedSigned is POST-only''))
          else if bad_path path then Some ([], Inl path_error)
          else map_option (\<lambda>m. case m of
              Inl err \<Rightarrow> ([], Inl (TransportError ''encrypt'' path
                (Some (WrapError ''hybrid-encrypt request body: '' err [])) False))
            | Inr (hdr, bodyB64) \<Rightarrow>
                let extra = extra_headers (opts @ [Some (WithRequestHeader EncryptHeaderName hdr)]) [];
                    urlStr = baseURL c @ path in
                signAndDispatch c w path urlStr bodyB64 extra (post_request w method urlStr bodyB64))
            (Marshal B rsa_encrypt draws plainBody (encryptAtomePub c)))"

definition JoinPath :: "string \<Rightarrow> string \<Rightarrow> string" where
  "JoinPath base0 path =
     (let base = trim_right (CHR ''/'') base0 in
      if path = [] then base
      else if path ! 0 \<noteq> CHR ''/'' then base @ ''/'' @ path
      else base @ path)"

section \<open>Heartbeat\<close>

definition HeartBeat :: "client option \<Rightarrow> world \<Rightarrow> event list \<times> go_error option" where
  "HeartBeat co w =
     (case co of
        None \<Rightarrow> ([], Some (ErrorString ''atomefin: HeartBeat called on nil *Client''))
      | Some c \<Rightarrow>
          (case DoSignedGET co w ''/heart-beat'' [] [] of
             (evs, Inl err) \<Rightarrow> (evs, Some err)
           | (evs, Inr raw) \<Rightarrow> (evs, None)))"

text \<open>\<open>decode\<close> is a json.Decoder on the body: the first value with the flag that only white space
  follows it, or the error.\<close>

definition HeartBeatStatus ::
  "(bytes \<Rightarrow> go_error + ('r \<times> bool)) \<Rightarrow> client option \<Rightarrow> world \<Rightarrow> event list \<times> (go_error + 'r)" where
  "HeartBeatStatus decode co w =
     (case co of
        None \<Rightarrow> ([], Inl (ErrorString ''atomefin: HeartBeatStatus called on nil *Client''))
      | Some c \<Rightarrow>
          (case DoSignedGET co w ''/heart-beat'' [] [] of
             (evs, Inl err) \<Rightarrow> (evs, Inl err)
           | (evs, Inr raw) \<Rightarrow>
               (case decode (Body raw) of
                  Inl uerr \<Rightarrow> (evs, Inl (TransportError ''decode'' ''/heart-beat''
                    (Some (WrapError ''decode /heart-beat response: '' uerr [])) False))
                | Inr (out, at_end) \<Rightarrow>
                    if \<not> at_end then (evs, Inl (TransportError ''decode'' ''/heart-beat''
                      (Some (ErrorString ''decode /heart-beat response: trailing data after JSON value'')) False))
                    else (evs, Inr out))))"

section \<open>What a trace sends\<close>

fun sent_requests :: "event list \<Rightarrow> http_request list" where
  "sent_requests [] = []"
| "sent_requests (Sent r # es) = r # sent_requests es"
| "sent_requests (_ # es) = sent_requests es"

lemma sent_append [simp]: "sent_requests (a @ b) = sent_requests a @ sent_requests b"
  by (induction a rule: sent_requests.induct) auto

lemma sent_safe_obs [simp]: "sent_requests (safe_obs c h k) = []"
  by (simp add: safe_obs_def split: option.split)

lemma sent_obs [simp]:
  "sent_requests (safeObsRequest c op n) = []" "sent_requests (safeObsResponse c op st d) = []"
  "sent_requests (safeObsRetry c op n e) = []"
  by (simp_all add: safeObsRequest_def safeObsResponse_def safeObsRetry_def)

lemma sent_handle_response [simp]: "sent_requests (fst (handle_response c w op u n resp)) = []"
  by (auto simp: handle_response_def Let_def split: prod.split option.split)

lemma sent_dispatchAttempt:
  "sent_requests (fst (dispatchAttempt c w op u a n x b)) =
     (case b n of Inl _ \<Rightarrow> [] | Inr req \<Rightarrow> [finish_request c a x req])"
  by (auto simp: dispatchAttempt_def Let_def split: sum.split prod.split)
     (metis fst_conv sent_handle_response)

text \<open>Every attempt of the loop that is followed by another one ended with a retryable outcome.\<close>

definition retryable_outcome ::
  "client \<Rightarrow> world \<Rightarrow> string \<Rightarrow> string \<Rightarrow> string \<Rightarrow> header \<Rightarrow> (int \<Rightarrow> go_error + http_request) \<Rightarrow> int \<Rightarrow> bool" where
  "retryable_outcome c w op u a x b n \<longleftrightarrow> (\<exists>e. snd (dispatchAttempt c w op u a n x b) = Inl (True, e))"

lemma retryable_outcome_built: "retryable_outcome c w op u a x b n \<Longrightarrow> \<exists>r. b n = Inr r"
  by (auto simp: retryable_outcome_def dispatchAttempt_def Let_def split: sum.splits)

lemma dispatch_loop_Inr:
  "n \<le> MaxAttempts (retry c) \<Longrightarrow> dispatchAttempt c w op u a n x b = (evs, Inr resp) \<Longrightarrow>
     dispatch_loop c w op u a x b n l = (evs, Inr resp)"
  by (subst dispatch_loop.simps) simp

lemma dispatch_loop_stop:
  "n \<le> MaxAttempts (retry c) \<Longrightarrow> dispatchAttempt c w op u a n x b = (evs, Inl (r, e)) \<Longrightarrow>
     \<not> r \<or> n = MaxAttempts (retry c) \<Longrightarrow> dispatch_loop c w op u a x b n l = (evs, Inl e)"
  by (subst dispatch_loop.simps) simp

lemma dispatch_loop_sleep:
  "n < MaxAttempts (retry c) \<Longrightarrow> dispatchAttempt c w op u a n x b = (evs, Inl (True, e)) \<Longrightarrow>
     Sleep (retry c) (w_draw w n) (w_sleep_ctx w n) (w_sleep_wait w n) n = Some s \<Longrightarrow>
     dispatch_loop c w op u a x b n l = (evs, Inl (TransportError ''sleep'' u (Some s) False))"
  by (subst dispatch_loop.simps) simp

lemma dispatch_loop_next:
  "n < MaxAttempts (retry c) \<Longrightarrow> dispatchAttempt c w op u a n x b = (evs, Inl (True, e)) \<Longrightarrow>
     Sleep (retry c) (w_draw w n) (w_sleep_ctx w n) (w_sleep_wait w n) n = None \<Longrightarrow>
     dispatch_loop c w op u a x b n l =
       (let (evs', r) = dispatch_loop c w op u a x b (n + 1) (Some e) in (evs @ evs', r))"
  by (subst dispatch_loop.simps) simp

text \<open>The ways in which an iteration of the loop continues.\<close>

lemma dispatch_loop_cases:
  assumes "n \<le> MaxAttempts (retry c)"
  obtains (success) evs resp where "dispatchAttempt c w op u a n x b = (evs, Inr resp)"
      "dispatch_loop c w op u a x b n l = (evs, Inr resp)"
  | (stop) evs r e where "dispatchAttempt c w op u a n x b = (evs, Inl (r, e))"
      "\<not> r \<or> n = MaxAttempts (retry c)" "dispatch_loop c w op u a x b n l = (evs, Inl e)"
  | (sleep) evs e s where "dispatchAttempt c w op u a n x b = (evs, Inl (True, e))"
      "n < MaxAttempts (retry c)"
      "Sleep (retry c) (w_draw w n) (w_sleep_ctx w n) (w_sleep_wait w n) n = Some s"
      "dispatch_loop c w op u a x b n l = (evs, Inl (TransportError ''sleep'' u (Some s) False))"
  | (again) evs e where "dispatchAttempt c w op u a n x b = (evs, Inl (True, e))"
      "n < MaxAttempts (retry c)"
      "Sleep (retry c) (w_draw w n) (w_sleep_ctx w n) (w_sleep_wait w n) n = None"
      "dispatch_loop c w op u a x b n l =
        (let (evs', r) = dispatch_loop c w op u a x b (n + 1) (Some e) in (evs @ evs', r))"
proof -
  obtain evs r where d: "dispatchAttempt c w op u a n x b = (evs, r)" by fastforce
  show thesis
  proof (cases r)
    case (Inr resp)
    then show thesis using d assms dispatch_loop_Inr that(1) by blast
  next
    case (Inl re)
    obtain t e where re: "re = (t, e)" by fastforce
    show thesis
    proof (cases "\<not> t \<or> n = MaxAttempts (retry c)")
      case True
      then show thesis using d Inl re assms dispatch_loop_stop that(2) by blast
    next
      case False
      then have n: "n < MaxAttempts (retry c)" and t: "dispatchAttempt c w op u a n x b = (evs, Inl (True, e))"
        using assms d Inl re by auto
      show thesis
        using dispatch_loop_sleep [OF n t] dispatch_loop_next [OF n t] that(3,4) [OF t] n
        by (cases "Sleep (retry c) (w_draw w n) (w_sleep_ctx w n) (w_sleep_wait w n) n") blast+
    qed
  qed
qed

definition attempt_sends ::
  "client \<Rightarrow> string \<Rightarrow> header \<Rightarrow> (int \<Rightarrow> go_error + http_request) \<Rightarrow> int \<Rightarrow> http_request list" where
  "attempt_sends c a x b n = (case b n of Inl _ \<Rightarrow> [] | Inr req \<Rightarrow> [finish_request c a x req])"

definition attempt_result ::
  "client \<Rightarrow> world \<Rightarrow> string \<Rightarrow> string \<Rightarrow> string \<Rightarrow> header \<Rightarrow> (int \<Rightarrow> go_error + http_request) \<Rightarrow> int \<Rightarrow>
   go_error + raw_response" where
  "attempt_result c w op u a x b n =
     (case snd (dispatchAttempt c w op u a n x b) of Inr resp \<Rightarrow> Inr resp | Inl (r, e) \<Rightarrow> Inl e)"

text \<open>
  A run of the loop from attempt n: the attempts n to m are made, all but the last
  are retryable, and the result is that of the last one or a cancelled sleep.
\<close>

lemma dispatch_loop_run:
  assumes "n \<le> MaxAttempts (retry c)"
  shows "\<exists>m. n \<le> m \<and> m \<le> MaxAttempts (retry c) \<and>
    (\<forall>i. n \<le> i \<and> i < m \<longrightarrow> retryable_outcome c w op u a x b i) \<and>
    sent_requests (fst (dispatch_loop c w op u a x b n l)) = concat (map (attempt_sends c a x b) [n..m]) \<and>
    (snd (dispatch_loop c w op u a x b n l) = attempt_result c w op u a x b m \<and>
       (retryable_outcome c w op u a x b m \<longrightarrow> m = MaxAttempts (retry c)) \<or>
     (\<exists>s. snd (dispatch_loop c w op u a x b n l) = Inl (TransportError ''sleep'' u (Some s) False) \<and>
        retryable_outcome c w op u a x b m))"
  using assms
proof (induction "nat (MaxAttempts (retry c) - n)" arbitrary: n l rule: less_induct)
  case less
  have sends: "sent_requests evs = attempt_sends c a x b n" if "dispatchAttempt c w op u a n x b = (evs, r)" for evs r
    using sent_dispatchAttempt [of c w op u a n x b] that by (simp add: attempt_sends_def)
  from less.prems show ?case
  proof (cases rule: dispatch_loop_cases [where w = w and op = op and u = u and a = a and x = x and b = b and l = l])
    case (success evs resp)
    then show ?thesis using less.prems sends [OF success(1)] by (intro exI [of _ n]) (auto simp: attempt_result_def retryable_outcome_def)
  next
    case (stop evs r e)
    then show ?thesis using less.prems sends [OF stop(1)] by (intro exI [of _ n]) (auto simp: attempt_result_def retryable_outcome_def)
  next
    case (sleep evs e s)
    then show ?thesis using less.prems sends [OF sleep(1)]
      by (intro exI [of _ n]) (auto simp: attempt_result_def retryable_outcome_def)
  next
    case (again evs e)
    let ?L = "dispatch_loop c w op u a x b (n + 1) (Some e)"
    from less.hyps [of "n + 1" "Some e"] again(2) obtain m where m: "n + 1 \<le> m" "m \<le> MaxAttempts (retry c)"
      "\<forall>i. n + 1 \<le> i \<and> i < m \<longrightarrow> retryable_outcome c w op u a x b i"
      "sent_requests (fst ?L) = concat (map (attempt_sends c a x b) [n + 1..m])"
      "snd ?L = attempt_result c w op u a x b m \<and>
         (retryable_outcome c w op u a x b m \<longrightarrow> m = MaxAttempts (retry c)) \<or>
        (\<exists>s. snd ?L = Inl (TransportError ''sleep'' u (Some s) False) \<and> retryable_outcome c w op u a x b m)"
      by auto
    have "retryable_outcome c w op u a x b n" using again(1) by (simp add: retryable_outcome_def)
    then have "\<forall>i. n \<le> i \<and> i < m \<longrightarrow> retryable_outcome c w op u a x b i"
      using m(3) by (metis add1_zle_eq order_le_less)
    moreover have "[n..m] = n # [n + 1..m]" using m(1) by (simp add: upto_rec1)
    ultimately show ?thesis using m sends [OF again(1)] again(4)
      by (intro exI [of _ m]) (simp add: case_prod_beta)
  qed
qed

section \<open>Headers of a finished request\<close>

definition canonical_keys :: "header \<Rightarrow> bool" where
  "canonical_keys h \<longleftrightarrow> distinct (map fst h) \<and> (\<forall>k \<in> fst ` set h. CanonicalHeaderKey k = k)"

lemma canonical_keys_set: "canonical_keys h \<Longrightarrow> canonical_keys (header_set k v h)"
  unfolding canonical_keys_def header_set_def dom_update by (auto simp: distinct_update)

lemma canonical_keys_extra: "canonical_keys h \<Longrightarrow> canonical_keys (extra_headers opts h)"
proof (induction opts h rule: extra_headers.induct)
  case (3 x os h)
  then show ?case by (cases x) (simp add: canonical_keys_set)
qed simp_all

lemma map_of_add_extra:
  assumes "canonical_keys es"
  shows "map_of (add_extra es h) k =
    (if isReservedHeader k then map_of h k else case map_of es k of Some vs \<Rightarrow> Some vs | None \<Rightarrow> map_of h k)"
  using assms
proof (induction es h rule: add_extra.induct)
  case (2 j vs es h)
  have j: "CanonicalHeaderKey j = j" "j \<notin> fst ` set es" "canonical_keys es"
    using 2(3) by (auto simp: canonical_keys_def)
  then have "map_of es j = None" by (simp add: map_of_eq_None_iff)
  with 2 j show ?case by (auto simp: update_conv' split: option.splits)
qed simp

lemma reserved_keys [simp]:
  "CanonicalHeaderKey ''Authorization'' = ''Authorization''"
  "CanonicalHeaderKey ''Content-Type'' = ''Content-Type''"
  "CanonicalHeaderKey ''User-Agent'' = ''User-Agent''"
  "CanonicalHeaderKey ''Accept'' = ''Accept''"
  "CanonicalHeaderKey ''Encrypt'' = ''Encrypt''"
  "CanonicalHeaderKey ''sessionid'' = ''Sessionid''" "CanonicalHeaderKey ''Sessionid'' = ''Sessionid''"
  by (simp_all add: CanonicalHeaderKey_def valid_header_byte_def is_upper_def is_lower_def is_digit_def
      to_upper_def to_lower_def char_eq_code_iff)

lemma header_get_finish:
  assumes "canonical_keys x"
  shows "header_get ''Authorization'' (rq_header (finish_request c a x req)) = a"
    "header_get ''Content-Type'' (rq_header (finish_request c a x req)) = ''application/json''"
    "header_get ''Accept'' (rq_header (finish_request c a x req)) = ''application/json''"
    "header_get ''User-Agent'' (rq_header (finish_request c a x req)) = userAgent c"
  by (simp_all add: header_get_def finish_request_def map_of_add_extra [OF assms] isReservedHeader_def
      populateHeaders_def map_of_header_set)

section \<open>Bodies within the limit\<close>

lemma sint_max_plus_1: "sint (n :: int64) < 2 ^ 63 - 1 \<Longrightarrow> sint (n + 1) = sint n + 1"
  using sint64_add [of n 1] sint64_range [of n] by simp

lemma readAndClose_exact:
  assumes "0 < sint mx" "sint mx < 2 ^ 63 - 1"
  shows "readAndClose (data, err) mx =
    (if sint mx < int (length data) then (take (nat (sint mx)) data, Some errResponseTooLarge)
     else case err of Some e \<Rightarrow> ([], Some e) | None \<Rightarrow> (data, None))"
  using assms sint_max_plus_1 [OF assms(2)]
  by (auto simp: readAndClose_def read_all_limited_def Let_def min_def split: option.splits)

text \<open>With the largest limit, math.MaxInt64, the sum with one wraps and every body reads as empty,
  with no error.\<close>
theorem readAndClose_max_limit: "readAndClose (data, err) (word_of_int (2 ^ 63 - 1)) = ([], None)"
  by (simp add: readAndClose_def read_all_limited_def)

section \<open>The run of an entry point\<close>

lemma attempt_sends_post:
  "attempt_sends c a x (post_request w m u body) n =
     (if w_new_request w n = None
      then [finish_request c a x \<lparr>rq_method = m, rq_url = u, rq_query = [], rq_header = [], rq_body = body\<rparr>] else [])"
  by (simp add: attempt_sends_def post_request_def split: option.split)


text \<open>When all attempts build the same request, a run sends it at most MaxAttempts times.\<close>

lemma sends_same:
  assumes "\<And>n. attempt_sends c a x b n = (if P n then [rq] else [])"
  shows "sent_requests (fst (dispatch_loop c w op u a x b 1 l)) = replicate k rq \<Longrightarrow> k \<le> nat (MaxAttempts (retry c))"
    and "\<exists>k. sent_requests (fst (dispatch_loop c w op u a x b 1 l)) = replicate k rq"
proof -
  have rep: "concat (map (attempt_sends c a x b) ns) = replicate (length (filter P ns)) rq" for ns
    by (induction ns) (simp_all add: assms)
  have "\<exists>k. sent_requests (fst (dispatch_loop c w op u a x b 1 l)) = replicate k rq \<and> k \<le> nat (MaxAttempts (retry c))"
  proof (cases "1 \<le> MaxAttempts (retry c)")
    case True
    from dispatch_loop_run [OF True, of w op u a x b l] obtain m where
      m: "m \<le> MaxAttempts (retry c)" "sent_requests (fst (dispatch_loop c w op u a x b 1 l)) =
        concat (map (attempt_sends c a x b) [1..m])" by blast
    have "length (filter P [1..m]) \<le> length [1..m]" by (rule length_filter_le)
    then have "length (filter P [1..m]) \<le> nat (MaxAttempts (retry c))" using m(1) by simp
    then show ?thesis by (intro exI [of _ "length (filter P [1..m])"]) (simp add: m(2) rep)
  next
    case False
    then show ?thesis by (subst dispatch_loop.simps) simp
  qed
  then show "sent_requests (fst (dispatch_loop c w op u a x b 1 l)) = replicate k rq \<Longrightarrow> k \<le> nat (MaxAttempts (retry c))"
    and "\<exists>k. sent_requests (fst (dispatch_loop c w op u a x b 1 l)) = replicate k rq"
    by (metis length_replicate)+
qed

lemma signAndDispatch_sent:
  assumes "signAndDispatch c w op u canonical x b = (evs, r)" "sent_requests evs \<noteq> []"
    and "\<And>a n. attempt_sends c a x b n = (if P n then [rq a] else [])"
  obtains sig k where "Sign (signer c) (w_ctx_sign w) canonical = Inr sig"
    "sent_requests evs = replicate k (rq (authScheme c sig (KeyID (signer c))))"
    "k \<le> nat (MaxAttempts (retry c))"
proof (cases "Sign (signer c) (w_ctx_sign w) canonical")
  case (Inl e)
  then show ?thesis using assms(1,2) by (auto simp: signAndDispatch_def)
next
  case (Inr sig)
  let ?a = "authScheme c sig (KeyID (signer c))"
  have "evs = fst (dispatch_loop c w op u ?a x b 1 None)" using assms(1) Inr by (simp add: signAndDispatch_def)
  moreover from sends_same(2) [OF assms(3)] obtain k where
    k: "sent_requests (fst (dispatch_loop c w op u ?a x b 1 None)) = replicate k (rq ?a)" by blast
  ultimately show ?thesis using that [OF Inr] sends_same(1) [OF assms(3) k] by simp
qed

lemma DoSigned_sends:
  assumes "DoSigned (Some c) w method path body opts = (evs, r)" "sent_requests evs \<noteq> []"
  obtains sig k where "Sign (signer c) (w_ctx_sign w) body = Inr sig" "k \<le> nat (MaxAttempts (retry c))"
    "sent_requests evs = replicate k (finish_request c (authScheme c sig (KeyID (signer c))) (extra_headers opts [])
       \<lparr>rq_method = ''POST'', rq_url = baseURL c @ path, rq_query = [], rq_header = [], rq_body = body\<rparr>)"
proof -
  have s: "method = ''POST'' \<and> signAndDispatch c w path (baseURL c @ path) body (extra_headers opts [])
      (post_request w method (baseURL c @ path) body) = (evs, r)"
    using assms by (auto simp: DoSigned_def Let_def split: if_splits)
  show ?thesis
    using s by (elim conjE signAndDispatch_sent [OF _ assms(2) attempt_sends_post]) (auto intro: that)
qed

lemma canonical_keys_Nil [simp]: "canonical_keys []"
  by (simp add: canonical_keys_def)

section \<open>Properties\<close>

text \<open>C1. Whatever the network does, a signed POST sends at most MaxAttempts requests, all of them
  identical, and each carries exactly the body that was signed, to the client's base URL, with the
  signature of that body in the Authorization header and the SDK's own Content-Type, Accept and
  User-Agent: no per-call header option can replace them.\<close>
theorem DoSigned_sends_what_it_signs:
  assumes "DoSigned (Some c) w method path body opts = (evs, r)" "sent_requests evs \<noteq> []"
  shows "\<exists>sig rq k. Sign (signer c) (w_ctx_sign w) body = Inr sig \<and>
    sent_requests evs = replicate k rq \<and> k \<le> nat (MaxAttempts (retry c)) \<and>
    rq_method rq = ''POST'' \<and> rq_url rq = baseURL c @ path \<and> rq_body rq = body \<and>
    header_get ''Authorization'' (rq_header rq) = authScheme c sig (KeyID (signer c)) \<and>
    header_get ''Content-Type'' (rq_header rq) = ''application/json'' \<and>
    header_get ''Accept'' (rq_header rq) = ''application/json'' \<and>
    header_get ''User-Agent'' (rq_header rq) = userAgent c"
proof -
  have x: "canonical_keys (extra_headers opts [])" by (simp add: canonical_keys_extra)
  show ?thesis
  proof (rule DoSigned_sends [OF assms])
    fix sig k
    let ?rq = "finish_request c (authScheme c sig (KeyID (signer c))) (extra_headers opts [])
       \<lparr>rq_method = ''POST'', rq_url = baseURL c @ path, rq_query = [], rq_header = [], rq_body = body\<rparr>"
    assume "Sign (signer c) (w_ctx_sign w) body = Inr sig" "k \<le> nat (MaxAttempts (retry c))"
      "sent_requests evs = replicate k ?rq"
    moreover have "rq_method ?rq = ''POST''" "rq_url ?rq = baseURL c @ path" "rq_body ?rq = body"
      by (simp_all add: finish_request_def)
    ultimately show ?thesis using header_get_finish [OF x] by blast
  qed
qed

definition sample_client :: client where
  "sample_client = client_of sample_signer
     ((defaultConfig (\<lambda>n. 0) (\<lambda>n. ''id''))\<lparr>cfg_baseURL := ''https://h'', cfg_userAgent := ''ua'',
        cfg_retry := plain_policy\<rparr>)"

text \<open>A gateway that fails the first attempt with 503 and then answers.\<close>

definition sample_world :: world where
  "sample_world = \<lparr>w_ctx_sign = None, w_new_request = (\<lambda>n. None),
     w_do = (\<lambda>n rq. if n = 1 then Inr \<lparr>rsp_StatusCode = 503, rsp_Header = [], rsp_Body = ([], None)\<rparr>
                    else Inr \<lparr>rsp_StatusCode = 200, rsp_Header = [], rsp_Body = (''ok'', None)\<rparr>),
     w_dur = (\<lambda>n. 5), w_ctx = (\<lambda>n. None), w_draw = (\<lambda>n. None), w_sleep_ctx = (\<lambda>n. None),
     w_sleep_wait = (\<lambda>n d. None), w_unmarshal = (\<lambda>b. None)\<rparr>"

lemma sample_client_fields:
  "retry sample_client = plain_policy" "signer sample_client = sample_signer" "baseURL sample_client = ''https://h''"
  "maxRespBytes sample_client = 1048576" "authScheme sample_client = SchemeRawBase64"
  "debugBodyLog sample_client = False"
  by (simp_all add: sample_client_def client_of_def defaultConfig_def push_bit_eq_mult)

lemma plain_policy_fields:
  "MaxAttempts plain_policy = 3" "RetryOnStatus plain_policy = Some DefaultRetryOnStatus"
  "RetryOnTransportError plain_policy = Some DefaultRetryOnTransportError"
  by (simp_all add: plain_policy_def DefaultRetryPolicy_def)

lemma sample_attempt_1:
  "b 1 = Inr rq \<Longrightarrow> \<exists>evs e. dispatchAttempt sample_client sample_world op u a 1 x b = (evs, Inl (True, e))"
  by (simp add: dispatchAttempt_def handle_response_def Let_def sample_world_def sample_client_fields
      readAndClose_exact plain_policy_fields callback_def DefaultRetryOnStatus_def)

lemma sample_attempt_2:
  "b 2 = Inr rq \<Longrightarrow> \<exists>evs. dispatchAttempt sample_client sample_world op u a 2 x b =
     (evs, Inr \<lparr>StatusCode = 200, Header = [], Body = ''ok''\<rparr>)"
  by (simp add: dispatchAttempt_def handle_response_def Let_def sample_world_def sample_client_fields
      readAndClose_exact plain_policy_fields callback_def DefaultRetryOnStatus_def cloneHeader_def)

lemma sample_sleep: "Sleep plain_policy (w_draw sample_world 1) (w_sleep_ctx sample_world 1) (w_sleep_wait sample_world 1) 1 = None"
  by (simp add: Sleep_def Let_def sample_world_def)

lemma sample_run:
  assumes "b 1 = Inr rq" "b 2 = Inr rq'"
  shows "sent_requests (fst (dispatch_loop sample_client sample_world op u a x b 1 l)) =
      [finish_request sample_client a x rq, finish_request sample_client a x rq'] \<and>
    snd (dispatch_loop sample_client sample_world op u a x b 1 l) =
      Inr \<lparr>StatusCode = 200, Header = [], Body = ''ok''\<rparr>"
proof -
  obtain evs e where 1: "dispatchAttempt sample_client sample_world op u a 1 x b = (evs, Inl (True, e))"
    using sample_attempt_1 [where b = b, OF assms(1)] by blast
  obtain evs' where 2: "dispatchAttempt sample_client sample_world op u a 2 x b =
      (evs', Inr \<lparr>StatusCode = 200, Header = [], Body = ''ok''\<rparr>)"
    using sample_attempt_2 [where b = b, OF assms(2)] by blast
  have "dispatch_loop sample_client sample_world op u a x b 1 l =
      (evs @ evs', Inr \<lparr>StatusCode = 200, Header = [], Body = ''ok''\<rparr>)"
    using dispatch_loop_next [of 1 sample_client, OF _ 1] dispatch_loop_Inr [of 2 sample_client, OF _ 2] sample_sleep
    by (simp add: sample_client_fields plain_policy_fields)
  moreover have "sent_requests evs = [finish_request sample_client a x rq]"
    "sent_requests evs' = [finish_request sample_client a x rq']"
    using sent_dispatchAttempt [of sample_client sample_world op u a 1 x b]
      sent_dispatchAttempt [of sample_client sample_world op u a 2 x b] 1 2 assms by simp_all
  ultimately show ?thesis by simp
qed

lemma sample_DoSigned:
  "\<exists>evs rq. DoSigned (Some sample_client) sample_world ''POST'' ''/auth'' ''{}'' [] =
     (evs, Inr \<lparr>StatusCode = 200, Header = [], Body = ''ok''\<rparr>) \<and> sent_requests evs = [rq, rq]"
proof -
  let ?b = "post_request sample_world ''POST'' (''https://h'' @ ''/auth'') ''{}''"
  let ?D = "dispatch_loop sample_client sample_world ''/auth'' (''https://h'' @ ''/auth'') ''sig:{}'' [] ?b 1 None"
  have "DoSigned (Some sample_client) sample_world ''POST'' ''/auth'' ''{}'' [] = ?D"
    by (simp add: DoSigned_def Let_def bad_path_def signAndDispatch_def sample_client_fields sample_signer_def
        sample_world_def SchemeRawBase64_def)
  moreover define rq where "rq = \<lparr>rq_method = ''POST'', rq_url = ''https://h'' @ ''/auth'', rq_query = [],
    rq_header = [], rq_body = ''{}''\<rparr>"
  have "?b 1 = Inr rq" "?b 2 = Inr rq" by (simp_all add: post_request_def sample_world_def rq_def)
  note sample_run [where b = ?b and rq = rq and rq' = rq and op = "''/auth''" and
      u = "''https://h'' @ ''/auth''" and a = "''sig:{}''" and x = "[]" and l = None, OF this]
  ultimately show ?thesis by (intro exI [of _ "fst ?D"] exI [of _ "finish_request sample_client ''sig:{}'' [] rq"])
      (simp add: prod_eq_iff)
qed

theorem DoSigned_sends_what_it_signs_witness:
  "\<exists>evs rq. sent_requests evs = [rq, rq] \<and> rq_body rq = ''{}'' \<and>
     fst (DoSigned (Some sample_client) sample_world ''POST'' ''/auth'' ''{}'' []) = evs \<and>
     header_get ''Authorization'' (rq_header rq) = ''sig:{}''"
proof -
  obtain evs rq where run: "DoSigned (Some sample_client) sample_world ''POST'' ''/auth'' ''{}'' [] =
     (evs, Inr \<lparr>StatusCode = 200, Header = [], Body = ''ok''\<rparr>)" "sent_requests evs = [rq, rq]"
    using sample_DoSigned by blast
  have "sent_requests evs \<noteq> []" using run(2) by simp
  then obtain sig rq' k where
    s: "Sign (signer sample_client) (w_ctx_sign sample_world) ''{}'' = Inr sig" "sent_requests evs = replicate k rq'"
    "rq_body rq' = ''{}''"
    "header_get ''Authorization'' (rq_header rq') = authScheme sample_client sig (KeyID (signer sample_client))"
    using DoSigned_sends_what_it_signs [OF run(1)] by blast
  have "rq' = rq" using s(2) run(2) by (cases k) auto
  moreover have "sig = ''sig:{}''" using s(1) by (simp add: sample_client_fields sample_signer_def sample_world_def)
  ultimately have "header_get ''Authorization'' (rq_header rq) = ''sig:{}''" "rq_body rq = ''{}''"
    using s by (simp_all add: sample_client_fields SchemeRawBase64_def)
  then show ?thesis using run by (intro exI [of _ evs] exI [of _ rq]) simp
qed




section \<open>Retries and results\<close>

text \<open>What the policy allows a further attempt after: a transport failure that is not a
  cancellation, a status the policy names, or a body that could not be read for a reason other
  than its size, and never once the caller's context is done.\<close>

definition allowed_retry :: "client \<Rightarrow> world \<Rightarrow> int \<Rightarrow> http_request \<Rightarrow> bool" where
  "allowed_retry c w i rq \<longleftrightarrow>
     (case w_do w i rq of
        Inl err \<Rightarrow> w_ctx w i = None \<and> callback (RetryOnTransportError (retry c)) (Some err) \<and>
          \<not> errors_is err ContextCanceled
      | Inr resp \<Rightarrow>
          (case snd (readAndClose (rsp_Body resp) (maxRespBytes c)) of
             None \<Rightarrow> callback (RetryOnStatus (retry c)) (rsp_StatusCode resp)
           | Some err \<Rightarrow> w_ctx w i = None \<and> \<not> errors_is err errResponseTooLarge \<and>
               (rsp_StatusCode resp < 400 \<or> callback (RetryOnStatus (retry c)) (rsp_StatusCode resp)) \<and>
               callback (RetryOnTransportError (retry c)) (Some err) \<and> \<not> errors_is err ContextCanceled))"

lemma retryable_outcome_allowed:
  "retryable_outcome c w op u a x b n \<Longrightarrow> b n = Inr req \<Longrightarrow> allowed_retry c w n (finish_request c a x req)"
  by (auto simp: retryable_outcome_def dispatchAttempt_def handle_response_def allowed_retry_def Let_def
      IsRetryableTransport_iff split: sum.splits prod.splits option.splits if_splits)

lemma signAndDispatch_retries:
  assumes "signAndDispatch c w op u canonical x b = (evs, r)" "1 \<le> i" "i < int (length (sent_requests evs))"
  shows "\<exists>sig. retryable_outcome c w op u (authScheme c sig (KeyID (signer c))) x b i \<and>
    Sign (signer c) (w_ctx_sign w) canonical = Inr sig"
proof (cases "Sign (signer c) (w_ctx_sign w) canonical")
  case (Inl e)
  then show ?thesis using assms by (auto simp: signAndDispatch_def)
next
  case (Inr sig)
  let ?a = "authScheme c sig (KeyID (signer c))"
  have evs: "evs = fst (dispatch_loop c w op u ?a x b 1 None)" using assms(1) Inr by (simp add: signAndDispatch_def)
  have M: "1 \<le> MaxAttempts (retry c)"
    using assms(2,3) evs by (cases "1 \<le> MaxAttempts (retry c)") (simp_all add: dispatch_loop.simps)
  from dispatch_loop_run [OF M, of w op u ?a x b None] obtain m where
    m: "\<forall>i. 1 \<le> i \<and> i < m \<longrightarrow> retryable_outcome c w op u ?a x b i" "1 \<le> m"
      "sent_requests evs = concat (map (attempt_sends c ?a x b) [1..m])"
    unfolding evs by blast
  have len: "length (concat (map (attempt_sends c ?a x b) ns)) \<le> length ns" for ns
    by (induction ns) (auto simp: attempt_sends_def split: sum.split)
  have "length (sent_requests evs) \<le> length [1..m]" using len [of "[1..m]"] by (simp only: m(3))
  then have "i < m" using assms(3) m(2) by simp
  then show ?thesis using m(1) assms(2) Inr by blast
qed

text \<open>C2. A further request is only sent when the outcome of the one before allows it: the i-th
  request of a signed POST that sends more than i of them met a retryable transport failure, a
  status the policy retries, or a transient read failure; a 4xx reply under the default policy, a
  cancelled context and an oversized body are final.\<close>
theorem DoSigned_retries_are_justified:
  assumes "DoSigned (Some c) w method path body opts = (evs, r)"
    and "1 \<le> i" "i < int (length (sent_requests evs))"
  shows "allowed_retry c w i (hd (sent_requests evs))"
proof -
  have ne: "sent_requests evs \<noteq> []" using assms(2,3) by auto
  let ?u = "baseURL c @ path" let ?b = "post_request w method (baseURL c @ path) body"
  have s: "method = ''POST''" "signAndDispatch c w path ?u body (extra_headers opts []) ?b = (evs, r)"
    using assms(1) ne by (auto simp: DoSigned_def Let_def split: if_splits)
  obtain sig where sig: "Sign (signer c) (w_ctx_sign w) body = Inr sig"
    "retryable_outcome c w path ?u (authScheme c sig (KeyID (signer c))) (extra_headers opts []) ?b i"
    using signAndDispatch_retries [OF s(2) assms(2,3)] by blast
  let ?rq = "\<lparr>rq_method = ''POST'', rq_url = ?u, rq_query = [], rq_header = [], rq_body = body\<rparr>"
  have "?b i = Inr ?rq" using retryable_outcome_built [OF sig(2)] s(1) by (auto simp: post_request_def split: option.splits)
  then have "allowed_retry c w i (finish_request c (authScheme c sig (KeyID (signer c))) (extra_headers opts []) ?rq)"
    using retryable_outcome_allowed [OF sig(2)] by blast
  moreover obtain k where "sent_requests evs =
      replicate k (finish_request c (authScheme c sig (KeyID (signer c))) (extra_headers opts []) ?rq)"
    using DoSigned_sends [OF assms(1) ne] sig(1) by (metis sum.inject(2))
  ultimately show ?thesis using ne by (cases k) auto
qed

theorem DoSigned_retries_are_justified_witness:
  "allowed_retry sample_client sample_world 1
     (hd (sent_requests (fst (DoSigned (Some sample_client) sample_world ''POST'' ''/auth'' ''{}'' []))))"
proof -
  obtain evs rq where run: "DoSigned (Some sample_client) sample_world ''POST'' ''/auth'' ''{}'' [] =
     (evs, Inr \<lparr>StatusCode = 200, Header = [], Body = ''ok''\<rparr>)" "sent_requests evs = [rq, rq]"
    using sample_DoSigned by blast
  then show ?thesis using DoSigned_retries_are_justified [OF run(1), of 1] by simp
qed

text \<open>The result of an attempt, by what the gateway did.\<close>

lemma handle_response_Inr:
  assumes "snd (handle_response c w op u n resp) = Inr raw" "0 < sint (maxRespBytes c)" "sint (maxRespBytes c) < 2 ^ 63 - 1"
  shows "StatusCode raw = rsp_StatusCode resp \<and> StatusCode raw < 400 \<and> rsp_Body resp = (Body raw, None) \<and>
    int (length (Body raw)) \<le> sint (maxRespBytes c)"
proof -
  obtain d e where b: "rsp_Body resp = (d, e)" by fastforce
  show ?thesis using assms(1) readAndClose_exact [OF assms(2,3), of d e]
    by (auto simp: handle_response_def Let_def b split: prod.splits option.splits if_splits)
qed

lemma handle_response_Inl:
  assumes "snd (handle_response c w op u n resp) = Inl (t, e)" "0 < sint (maxRespBytes c)" "sint (maxRespBytes c) < 2 ^ 63 - 1"
  shows "(\<exists>o' u' e' r'. e = TransportError o' u' e' r') \<or>
    (\<exists>ae. e = APIError ae \<and> HTTPStatus ae = rsp_StatusCode resp \<and> Endpoint ae = op \<and>
       rsp_Body resp = (Raw ae, None) \<and> (\<not> t \<longrightarrow> 400 \<le> HTTPStatus ae) \<and> (t \<longrightarrow> n < MaxAttempts (retry c)))"
proof -
  obtain d er where b: "rsp_Body resp = (d, er)" by fastforce
  show ?thesis using assms(1) readAndClose_exact [OF assms(2,3), of d er]
    by (auto simp: handle_response_def Let_def b split: prod.splits option.splits if_splits)
qed

lemma attempt_result_Inr:
  assumes "attempt_result c w op u a x b n = Inr raw" "0 < sint (maxRespBytes c)" "sint (maxRespBytes c) < 2 ^ 63 - 1"
  obtains req resp where "b n = Inr req" "w_do w n (finish_request c a x req) = Inr resp"
    "StatusCode raw = rsp_StatusCode resp" "StatusCode raw < 400" "rsp_Body resp = (Body raw, None)"
    "int (length (Body raw)) \<le> sint (maxRespBytes c)"
proof -
  from assms(1) have "snd (dispatchAttempt c w op u a n x b) = Inr raw"
    by (auto simp: attempt_result_def split: sum.splits)
  then obtain req resp where r: "b n = Inr req" "w_do w n (finish_request c a x req) = Inr resp"
    "snd (handle_response c w op u n resp) = Inr raw"
    by (auto simp: dispatchAttempt_def Let_def case_prod_beta split: sum.splits)
  then show ?thesis using handle_response_Inr [OF r(3) assms(2,3)] that by blast
qed

lemma attempt_result_APIError:
  assumes "attempt_result c w op u a x b n = Inl e" "0 < sint (maxRespBytes c)" "sint (maxRespBytes c) < 2 ^ 63 - 1"
    and "retryable_outcome c w op u a x b n \<longrightarrow> n = MaxAttempts (retry c)"
  shows "(\<exists>o' u' e' r'. e = TransportError o' u' e' r') \<or>
    (\<exists>ae req resp. e = APIError ae \<and> b n = Inr req \<and> w_do w n (finish_request c a x req) = Inr resp \<and>
       HTTPStatus ae = rsp_StatusCode resp \<and> 400 \<le> HTTPStatus ae \<and> Endpoint ae = op \<and>
       rsp_Body resp = (Raw ae, None))"
proof -
  from assms(1) obtain t where t: "snd (dispatchAttempt c w op u a n x b) = Inl (t, e)"
    by (auto simp: attempt_result_def split: sum.splits prod.splits)
  then consider "\<exists>o' u' e' r'. e = TransportError o' u' e' r'"
    | req resp where "b n = Inr req" "w_do w n (finish_request c a x req) = Inr resp"
        "snd (handle_response c w op u n resp) = Inl (t, e)"
    by (auto simp: dispatchAttempt_def Let_def case_prod_beta split: sum.splits)
  then show ?thesis
  proof cases
    case (2 req resp)
    have "t \<Longrightarrow> n = MaxAttempts (retry c)" using t assms(4) by (auto simp: retryable_outcome_def)
    then show ?thesis using handle_response_Inl [OF 2(3) assms(2,3)] 2(1,2) by blast
  qed blast
qed

lemma attempt_sends_mem:
  "b i = Inr req \<Longrightarrow> 1 \<le> i \<Longrightarrow> i \<le> m \<Longrightarrow>
     finish_request c a x req \<in> set (concat (map (attempt_sends c a x b) [1..m]))"
  by (auto simp: attempt_sends_def intro!: bexI [of _ i])

text \<open>C15. What a signed call returns is what the gateway said.  A success is a reply with a status
  below 400 to one of the requests sent, with its whole body, within the configured limit.  An
  APIError is a reply with a status of at least 400, with its body kept raw.  A signature failure
  means that nothing was sent.  Anything else is a TransportError.\<close>
theorem signAndDispatch_result:
  assumes "signAndDispatch c w op u canonical x b = (evs, r)" "client_ok c"
    and "sint (maxRespBytes c) < 2 ^ 63 - 1"
  shows "case r of
      Inr raw \<Rightarrow> \<exists>i rq resp. rq \<in> set (sent_requests evs) \<and> w_do w i rq = Inr resp \<and>
        StatusCode raw = rsp_StatusCode resp \<and> StatusCode raw < 400 \<and> rsp_Body resp = (Body raw, None) \<and>
        int (length (Body raw)) \<le> sint (maxRespBytes c)
    | Inl e \<Rightarrow>
        (\<exists>o' u' e' r'. e = TransportError o' u' e' r') \<or>
        (\<exists>e'. e = SignatureError ''sign'' (Some e') \<and> sent_requests evs = []) \<or>
        (\<exists>ae i rq resp. e = APIError ae \<and> rq \<in> set (sent_requests evs) \<and> w_do w i rq = Inr resp \<and>
           HTTPStatus ae = rsp_StatusCode resp \<and> 400 \<le> HTTPStatus ae \<and> Endpoint ae = op \<and>
           rsp_Body resp = (Raw ae, None))"
proof (cases "Sign (signer c) (w_ctx_sign w) canonical")
  case (Inl e)
  then show ?thesis using assms(1) by (auto simp: signAndDispatch_def)
next
  case (Inr sig)
  let ?a = "authScheme c sig (KeyID (signer c))"
  let ?L = "dispatch_loop c w op u ?a x b 1 None"
  have L: "evs = fst ?L" "r = snd ?L" using assms(1) Inr by (simp_all add: signAndDispatch_def)
  have M: "1 \<le> MaxAttempts (retry c)" and mx: "0 < sint (maxRespBytes c)"
    using assms(2) by (simp_all add: client_ok_def RetryPolicy_Validate_None)
  from dispatch_loop_run [OF M, of w op u ?a x b None] obtain m where
    m: "1 \<le> m" "m \<le> MaxAttempts (retry c)"
      "sent_requests evs = concat (map (attempt_sends c ?a x b) [1..m])"
      "r = attempt_result c w op u ?a x b m \<and>
         (retryable_outcome c w op u ?a x b m \<longrightarrow> m = MaxAttempts (retry c)) \<or>
       (\<exists>s. r = Inl (TransportError ''sleep'' u (Some s) False))"
    unfolding L by blast
  have mem: "b m = Inr req \<Longrightarrow> finish_request c ?a x req \<in> set (sent_requests evs)" for req
    unfolding m(3) using m(1) by (intro attempt_sends_mem [where i = m]) simp_all
  show ?thesis
  proof (cases r)
    case (Inr raw)
    then have ar: "attempt_result c w op u ?a x b m = Inr raw" using m(4) by auto
    show ?thesis unfolding Inr sum.case
      by (rule attempt_result_Inr [OF ar mx assms(3)]) (use mem in blast)
  next
    case (Inl e)
    then consider s where "e = TransportError ''sleep'' u (Some s) False"
      | "attempt_result c w op u ?a x b m = Inl e"
        "retryable_outcome c w op u ?a x b m \<longrightarrow> m = MaxAttempts (retry c)" using m(4) by auto
    then show ?thesis unfolding Inl sum.case
    proof cases
      case 2
      then show "(\<exists>o' u' e' r'. e = TransportError o' u' e' r') \<or>
        (\<exists>e'. e = SignatureError ''sign'' (Some e') \<and> sent_requests evs = []) \<or>
        (\<exists>ae i rq resp. e = APIError ae \<and> rq \<in> set (sent_requests evs) \<and> w_do w i rq = Inr resp \<and>
           HTTPStatus ae = rsp_StatusCode resp \<and> 400 \<le> HTTPStatus ae \<and> Endpoint ae = op \<and>
           rsp_Body resp = (Raw ae, None))"
        using attempt_result_APIError [OF 2(1) mx assms(3) 2(2)] mem by blast
    qed blast
  qed
qed

lemma sample_client_ok: "client_ok sample_client"
  by (simp add: client_ok_def sample_client_def client_of_def defaultConfig_def no_slash_end_def key_ok_def
      plain_policy_fields push_bit_eq_mult RetryPolicy_Validate_None plain_policy_def DefaultRetryPolicy_def)

theorem signAndDispatch_result_witness:
  "\<exists>evs raw. signAndDispatch sample_client sample_world ''/auth'' ''https://h/auth'' ''{}'' []
       (post_request sample_world ''POST'' ''https://h/auth'' ''{}'') = (evs, Inr raw) \<and>
     (\<exists>i rq resp. rq \<in> set (sent_requests evs) \<and> w_do sample_world i rq = Inr resp \<and>
        StatusCode raw = rsp_StatusCode resp \<and> rsp_Body resp = (Body raw, None))"
proof -
  obtain evs raw where run: "signAndDispatch sample_client sample_world ''/auth'' ''https://h/auth'' ''{}'' []
       (post_request sample_world ''POST'' ''https://h/auth'' ''{}'') = (evs, Inr raw)"
    using sample_DoSigned by (auto simp: DoSigned_def Let_def bad_path_def sample_client_fields)
  show ?thesis using run signAndDispatch_result [OF run sample_client_ok]
    by (auto simp: sample_client_fields)
qed

text \<open>A run through retryable attempts up to one that succeeds.\<close>

lemma dispatch_loop_reaches:
  assumes "n \<le> k" "k \<le> MaxAttempts (retry c)"
    and "\<And>i. n \<le> i \<Longrightarrow> i < k \<Longrightarrow> retryable_outcome c w op u a x b i \<and>
      Sleep (retry c) (w_draw w i) (w_sleep_ctx w i) (w_sleep_wait w i) i = None"
    and "snd (dispatchAttempt c w op u a k x b) = Inr resp"
  shows "snd (dispatch_loop c w op u a x b n l) = Inr resp \<and>
    sent_requests (fst (dispatch_loop c w op u a x b n l)) = concat (map (attempt_sends c a x b) [n..k])"
  using assms(1,3)
proof (induction "nat (k - n)" arbitrary: n l)
  case 0
  then have "n = k" by simp
  moreover obtain evs where d: "dispatchAttempt c w op u a k x b = (evs, Inr resp)" using assms(4) by (metis prod.collapse)
  ultimately show ?case using dispatch_loop_Inr [OF assms(2) d] sent_dispatchAttempt [of c w op u a k x b]
    by (simp add: attempt_sends_def)
next
  case (Suc d)
  then have nk: "n < k" by simp
  obtain evs e where d: "dispatchAttempt c w op u a n x b = (evs, Inl (True, e))"
    using Suc.prems(2) [of n] nk by (auto simp: retryable_outcome_def) (metis prod.collapse)
  have "dispatch_loop c w op u a x b n l =
      (let (evs', r) = dispatch_loop c w op u a x b (n + 1) (Some e) in (evs @ evs', r))"
    using nk assms(2) Suc.prems(2) [of n] by (intro dispatch_loop_next [OF _ d]) simp_all
  moreover have "snd (dispatch_loop c w op u a x b (n + 1) (Some e)) = Inr resp \<and>
    sent_requests (fst (dispatch_loop c w op u a x b (n + 1) (Some e))) = concat (map (attempt_sends c a x b) [n + 1..k])"
    using Suc nk by (intro Suc.hyps(1)) auto
  moreover have "sent_requests evs = attempt_sends c a x b n"
    using sent_dispatchAttempt [of c w op u a n x b] d by (simp add: attempt_sends_def)
  moreover have "[n..k] = n # [n + 1..k]" using nk by (simp add: upto_rec1)
  ultimately show ?case by (simp add: case_prod_beta)
qed

lemma readable_within:
  "0 < sint mx \<Longrightarrow> sint mx < 2 ^ 63 - 1 \<Longrightarrow> int (length d) \<le> sint mx \<Longrightarrow> readAndClose (d, None) mx = (d, None)"
  by (simp add: readAndClose_exact)

text \<open>C16. Retrying pays off: when the first k-1 attempts of a signed POST are answered with a status
  the policy retries, no wait is cancelled, and attempt k, within MaxAttempts, is answered with a
  status below 400 and a body within the limit, the call returns that answer after exactly k
  requests.\<close>
theorem DoSigned_recovers:
  assumes "client_ok c" "sint (maxRespBytes c) < 2 ^ 63 - 1" "\<not> bad_path path"
    and "Sign (signer c) (w_ctx_sign w) body = Inr sig" "\<And>n. w_new_request w n = None"
    and "1 \<le> k" "k \<le> MaxAttempts (retry c)"
    and "\<And>i rq. 1 \<le> i \<Longrightarrow> i < k \<Longrightarrow> \<exists>resp d. w_do w i rq = Inr resp \<and>
      callback (RetryOnStatus (retry c)) (rsp_StatusCode resp) \<and> rsp_Body resp = (d, None) \<and>
      int (length d) \<le> sint (maxRespBytes c)"
    and "\<And>i. 1 \<le> i \<Longrightarrow> i < k \<Longrightarrow>
      Sleep (retry c) (w_draw w i) (w_sleep_ctx w i) (w_sleep_wait w i) i = None"
    and "\<And>rq. w_do w k rq = Inr \<lparr>rsp_StatusCode = st, rsp_Header = h, rsp_Body = (d, None)\<rparr>"
    and "st < 400" "\<not> callback (RetryOnStatus (retry c)) st" "int (length d) \<le> sint (maxRespBytes c)"
  shows "snd (DoSigned (Some c) w ''POST'' path body opts) = Inr \<lparr>StatusCode = st, Header = h, Body = d\<rparr> \<and>
    length (sent_requests (fst (DoSigned (Some c) w ''POST'' path body opts))) = nat k"
proof -
  let ?u = "baseURL c @ path" let ?b = "post_request w ''POST'' (baseURL c @ path) body"
  let ?a = "authScheme c sig (KeyID (signer c))" let ?x = "extra_headers opts []"
  have mx: "0 < sint (maxRespBytes c)" using assms(1) by (simp add: client_ok_def)
  note rd = readable_within [OF mx assms(2)]
  have retry: "retryable_outcome c w path ?u ?a ?x ?b i" if i: "1 \<le> i" "i < k" for i
  proof -
    let ?rq = "finish_request c ?a ?x \<lparr>rq_method = ''POST'', rq_url = ?u, rq_query = [], rq_header = [], rq_body = body\<rparr>"
    obtain resp d' where "w_do w i ?rq = Inr resp" "callback (RetryOnStatus (retry c)) (rsp_StatusCode resp)"
      "rsp_Body resp = (d', None)" "int (length d') \<le> sint (maxRespBytes c)" using assms(8) [OF i, of ?rq] by blast
    then show ?thesis using i assms(5,7) rd
      by (simp add: retryable_outcome_def dispatchAttempt_def handle_response_def post_request_def Let_def)
  qed
  have last: "snd (dispatchAttempt c w path ?u ?a k ?x ?b) = Inr \<lparr>StatusCode = st, Header = h, Body = d\<rparr>"
    using assms(5,10-13) rd
    by (simp add: dispatchAttempt_def handle_response_def post_request_def Let_def cloneHeader_def)
  have "DoSigned (Some c) w ''POST'' path body opts = dispatch_loop c w path ?u ?a ?x ?b 1 None"
    using assms(3,4) by (simp add: DoSigned_def Let_def signAndDispatch_def)
  moreover have "length (concat (map (attempt_sends c ?a ?x ?b) ns)) = length ns" for ns
    using assms(5) by (induction ns) (simp_all add: attempt_sends_post)
  ultimately show ?thesis
    using dispatch_loop_reaches [OF assms(6,7) _ last, of None] retry assms(9) by simp
qed

theorem DoSigned_recovers_witness:
  "snd (DoSigned (Some sample_client) sample_world ''POST'' ''/auth'' ''{}'' []) =
     Inr \<lparr>StatusCode = 200, Header = [], Body = ''ok''\<rparr> \<and>
   length (sent_requests (fst (DoSigned (Some sample_client) sample_world ''POST'' ''/auth'' ''{}'' []))) = 2"
proof -
  have s: "Sign (signer sample_client) (w_ctx_sign sample_world) ''{}'' = Inr ''sig:{}''"
    by (simp add: sample_client_fields sample_signer_def sample_world_def)
  have one: "i = 1" if "1 \<le> i" "i < (2 :: int)" for i using that by simp
  have "\<exists>resp d. w_do sample_world i rq = Inr resp \<and>
      callback (RetryOnStatus (retry sample_client)) (rsp_StatusCode resp) \<and> rsp_Body resp = (d, None) \<and>
      int (length d) \<le> sint (maxRespBytes sample_client)" if "1 \<le> i" "i < 2" for i rq
    using one [OF that]
    by (simp add: sample_world_def sample_client_fields plain_policy_fields callback_def DefaultRetryOnStatus_def)
  moreover have "Sleep (retry sample_client) (w_draw sample_world i) (w_sleep_ctx sample_world i)
      (w_sleep_wait sample_world i) i = None" if "1 \<le> i" "i < 2" for i
    using sample_sleep one [OF that] by (simp add: sample_client_fields)
  moreover have "w_do sample_world 2 rq =
      Inr \<lparr>rsp_StatusCode = 200, rsp_Header = [], rsp_Body = (''ok'', None)\<rparr>" for rq
    by (simp add: sample_world_def)
  moreover have "w_new_request sample_world n = None" for n by (simp add: sample_world_def)
  moreover have "\<not> callback (RetryOnStatus (retry sample_client)) 200"
    by (simp add: sample_client_fields plain_policy_fields callback_def DefaultRetryOnStatus_def)
  ultimately show ?thesis
    using DoSigned_recovers [OF sample_client_ok _ _ s, where k = 2 and path = "''/auth''" and st = 200 and h = "[]"
        and d = "''ok''" and opts = "[]"]
    by (simp add: sample_client_fields plain_policy_fields bad_path_def)
qed

end
