(* ===== verification/Payment_Types.thy ===== *)
theory Payment_Types
  imports Client_Dispatch
begin

text \<open>
  The structs of atomefin/payment (types.go, auth.go, capture.go, reauth.go, void.go,
  plan.go, precheck.go), one record each with the fields of the source, a pointer as an
  option, and the enumerations with their IsValid.  A field name carries a prefix of
  its struct.
\<close>

section \<open>Enumerations\<close>

definition OrderTypeTransport :: string where "OrderTypeTransport = ''TRANSPORT''"
definition OrderTypeGrabFood :: string where "OrderTypeGrabFood = ''GRAB_FOOD''"
definition OrderTypeGrabMart :: string where "OrderTypeGrabMart = ''GRAB_MART''"

definition PaymentOrderType_IsValid :: "string \<Rightarrow> bool" where
  "PaymentOrderType_IsValid t \<longleftrightarrow>
     t = OrderTypeTransport \<or> t = OrderTypeGrabFood \<or> t = OrderTypeGrabMart"

definition Platform_IsValid :: "string \<Rightarrow> bool" where
  "Platform_IsValid p \<longleftrightarrow> p = ''ANDROID'' \<or> p = ''IOS''"

definition PaymentPlanMode_IsValid :: "string \<Rightarrow> bool" where
  "PaymentPlanMode_IsValid m \<longleftrightarrow> m = ''ask'' \<or> m = ''get''"

definition Currency_IsValid :: "string \<Rightarrow> bool" where
  "Currency_IsValid c \<longleftrightarrow> c = ''IDR''"

definition IsValidPreviousStatus :: "string \<Rightarrow> bool" where
  "IsValidPreviousStatus s \<longleftrightarrow>
     s \<in> set [''NORMAL'', ''ACCOUNT_BLOCKED_OVERDUE'', ''ACCOUNT_BLOCKED'']"

definition IsValidCurrentStatus :: "string \<Rightarrow> bool" where
  "IsValidCurrentStatus s \<longleftrightarrow>
     s \<in> set [''NORMAL'', ''ACCOUNT_BLOCKED_OVERDUE'', ''ACCOUNT_BLOCKED'', ''ACCOUNT_CLOSED'']"

section \<open>Structs\<close>

record sub_order =
  so_SubOrderID :: string
  so_MerchantID :: string
  so_MerchantName :: string
  so_MerchantCategory :: string
  so_MerchantJoinedDate :: string
  so_Amount :: int64
  so_PeriodType :: "int option"

record sku_info =
  sku_SkuID :: string
  sku_SkuName :: string
  sku_CategoryID :: string
  sku_CategoryOneName :: string
  sku_CategoryCodes :: "string list"
  sku_Quantity :: int
  sku_Amount :: int64

record main_order_extend_info =
  moei_MerchantID :: string
  moei_MerchantName :: string
  moei_SkuInfos :: "sku_info list"

record geo_point =
  gp_Longitude :: string
  gp_Latitude :: string
  gp_Time :: string

record build_info =
  bi_Board :: string
  bi_Brand :: string
  bi_CPUABI :: string
  bi_Device :: string
  bi_Manufacturer :: string
  bi_Model :: string
  bi_Product :: string

record device_profile =
  dp_DeviceID :: string
  dp_GoogleAdvertisingID :: string
  dp_IDFA :: string
  dp_IDFV :: string
  dp_UTDID :: string
  dp_IsRoot :: "bool option"
  dp_AndroidID :: string
  dp_Build :: "build_info option"

record wifi_ap =
  wa_SSID :: string

record ip_address =
  ipa_EthIP :: string
  ipa_TrueIP :: string

record device_info =
  di_Platform :: string
  di_GPS :: "geo_point option"
  di_Device :: "device_profile option"
  di_WifiList :: "wifi_ap list"
  di_IPAddress :: "ip_address option"

record shipping_address =
  sa_State :: string
  sa_City :: string
  sa_District :: string
  sa_Address1 :: string
  sa_Address2 :: string

record address =
  adr_ShippingAddress :: "shipping_address option"
  adr_ShippingName :: string
  adr_ShippingPhoneNo :: string

record driver_info =
  dri_AverageRating :: "float64 option"
  dri_IsVerified :: "bool option"

record trip_metadata =
  trip_EstimatedDistance :: float64
  trip_PickupLocation :: string

record payment_risk_info =
  pri_DriverInfo :: "driver_info option"
  pri_TripMetadata :: "trip_metadata option"

record request_extend_info =
  rei_OrderType :: string
  rei_CreditProfile :: string
  rei_DeviceInfo :: "device_info option"
  rei_Address :: "address option"
  rei_RiskInfo :: "payment_risk_info option"
  rei_MainOrderExtendInfos :: "main_order_extend_info list"

record account_changes =
  ac_Version :: int64
  ac_ExternalReferenceUID :: string
  ac_PreviousStatus :: string
  ac_CurrentStatus :: string
  ac_TotalCreditChange :: int64
  ac_UsedCreditChange :: int64
  ac_FrozenCreditChange :: int64
  ac_AvailableCreditChange :: int64
  ac_OverpaidAmountChange :: int64
  ac_LateFeeAmountChange :: int64
  ac_InterestAmountChange :: int64

record installment_detail =
  ind_SubOrderID :: string
  ind_TotalTenor :: int
  ind_CurrentTenor :: int
  ind_RepayAmount :: int64
  ind_PrincipalAmount :: int64
  ind_InterestAmount :: int64
  ind_BillID :: string
  ind_BillDate :: string
  ind_DueDate :: string

record installment_plan =
  ip_TotalTenor :: int
  ip_OrderRepayAmount :: int64
  ip_OrderInterestAmount :: int64
  ip_InstallmentDetails :: "installment_detail list"

record sub_order_installment_plans =
  soips_SubOrderID :: string
  soips_MerchantID :: string
  soips_MerchantName :: string
  soips_OrderAmount :: int64
  soips_InstallmentPlans :: "installment_plan list"

record auth_extend_info_resp =
  aeir_ReapplyTime :: "int64 option"

record agreement_ref =
  agr_AgreementURL :: "string option"

record capture_extend_info_resp =
  ceir_ReapplyTime :: "int64 option"
  ceir_Agreement :: "agreement_ref option"

record auth_request =
  ar_RequestID :: string
  ar_ExternalReferenceUID :: string
  ar_TotalAmount :: int64
  ar_PeriodType :: int
  ar_SubOrders :: "sub_order list"
  ar_ExtendInfo :: "request_extend_info option"
  ar_Sessionid :: string

record authorization_data =
  ad_RequestID :: string
  ad_Currency :: string
  ad_AuthOrderID :: string
  ad_TotalAmount :: int64
  ad_Status :: string
  ad_FailureCode :: string
  ad_SubOrderInstallmentPlans :: "sub_order_installment_plans list"
  ad_AccountChanges :: "account_changes option"
  ad_ExtendInfo :: "auth_extend_info_resp option"

record auth_response =
  arsp_Code :: string
  arsp_Message :: string
  arsp_Data :: "authorization_data option"

record capture_request =
  cr_RequestID :: string
  cr_ExternalReferenceUID :: string
  cr_AuthOrderID :: string
  cr_TotalAmount :: int64
  cr_PeriodType :: int
  cr_SubOrders :: "sub_order list"
  cr_ExtendInfo :: "request_extend_info option"

record payment_result =
  pr_RequestID :: string
  pr_OrderID :: string
  pr_Currency :: string
  pr_TotalAmount :: int64
  pr_Status :: string
  pr_FailureCode :: string
  pr_SubOrderInstallmentPlans :: "sub_order_installment_plans list"
  pr_AccountChanges :: "account_changes option"
  pr_ExtendInfo :: "capture_extend_info_resp option"

record capture_result_data =
  crd_PaymentResult :: payment_result
  crd_AuthOrderID :: string

record capture_response =
  crsp_Code :: string
  crsp_Message :: string
  crsp_Data :: "capture_result_data option"

record re_auth_request =
  rar_RequestID :: string
  rar_ExternalReferenceUID :: string
  rar_AuthOrderID :: string
  rar_TotalAmount :: int64
  rar_PeriodType :: int
  rar_SubOrders :: "sub_order list"
  rar_ExtendInfo :: "request_extend_info option"

record re_auth_result_data =
  rard_RequestID :: string
  rard_Currency :: string
  rard_AuthOrderID :: string
  rard_OriginalAuthOrderID :: string
  rard_TotalAmount :: int64
  rard_Status :: string
  rard_FailureCode :: string
  rard_SubOrderInstallmentPlans :: "sub_order_installment_plans list"
  rard_AccountChanges :: "account_changes option"
  rard_ExtendInfo :: "auth_extend_info_resp option"

record re_auth_response =
  rarsp_Code :: string
  rarsp_Message :: string
  rarsp_Data :: "re_auth_result_data option"

record void_auth_request =
  var_RequestID :: string
  var_ExternalReferenceUID :: string
  var_AuthOrderID :: string

record void_result_data =
  vrd_RequestID :: string
  vrd_ExternalReferenceUID :: string
  vrd_AuthOrderID :: string
  vrd_AccountChanges :: "account_changes option"

record void_auth_response =
  varsp_Code :: string
  varsp_Message :: string
  varsp_Data :: "void_result_data option"

record plan_sub_order =
  pso_SubOrderID :: string
  pso_MerchantID :: string
  pso_MerchantName :: string
  pso_MerchantCategory :: string
  pso_MerchantJoinedDate :: string
  pso_Amount :: int64
  pso_PeriodType :: "int option"

record checkout_extend_info =
  cei_OrderType :: string
  cei_MainOrderExtendInfos :: "main_order_extend_info list"

record payment_plan_request =
  ppr_RequestID :: string
  ppr_PeriodType :: int
  ppr_ExternalReferenceUID :: string
  ppr_Mode :: string
  ppr_SessionID :: string
  ppr_TotalAmount :: int64
  ppr_SubOrders :: "plan_sub_order list"
  ppr_ExtendInfo :: "checkout_extend_info option"
  ppr_Sessionid :: string

record commerce_installment_detail =
  cid_SubOrderID :: string
  cid_TotalTenor :: int
  cid_CurrentTenor :: int
  cid_RepayAmount :: int64
  cid_PrincipalAmount :: int64
  cid_InterestAmount :: int64
  cid_DiscountAmount :: int64
  cid_BillID :: string
  cid_BillDate :: string
  cid_DueDate :: string

record commerce_installment_plan =
  cip_TotalTenor :: int
  cip_OrderRepayAmount :: int64
  cip_OrderInterestAmount :: int64
  cip_OrderDiscountAmount :: int64
  cip_InstallmentDetails :: "commerce_installment_detail list"

record commerce_sub_order_installment_plans =
  csoip_SubOrderID :: string
  csoip_MerchantID :: string
  csoip_MerchantName :: string
  csoip_OrderAmount :: int64
  csoip_InstallmentPlans :: "commerce_installment_plan list"

record sum_order_installment_detail =
  sumid_TotalTenor :: int
  sumid_CurrentTenor :: int
  sumid_RepayAmount :: int64
  sumid_PrincipalAmount :: int64
  sumid_InterestAmount :: int64
  sumid_DiscountAmount :: int64
  sumid_BillID :: string
  sumid_BillDate :: string
  sumid_DueDate :: string

record sum_order_installment_plan =
  sumip_TotalTenor :: int
  sumip_SumOrderRepayAmount :: int64
  sumip_SumOrderInterestAmount :: int64
  sumip_SumOrderDiscountAmount :: int64
  sumip_InstallmentDetails :: "sum_order_installment_detail list"

record sum_order_installment_plans =
  sumips_SumOrderAmount :: int64
  sumips_InstallmentPlans :: "sum_order_installment_plan list"

record payment_plan_data_extend_info =
  ppdei_SessionID :: string
  ppdei_RecommendedTenor :: int
  ppdei_SumOrderInstallmentPlans :: "sum_order_installment_plans option"

record payment_plan_data =
  ppd_Currency :: string
  ppd_SubOrderInstallmentPlans :: "commerce_sub_order_installment_plans list"
  ppd_ExtendInfo :: "payment_plan_data_extend_info option"

record payment_plan_response =
  pprsp_Code :: string
  pprsp_Message :: string
  pprsp_Data :: "payment_plan_data option"

record pre_check_extend_info =
  pcei_OrderType :: string

record payment_pre_check_request =
  ppcr_ExternalReferenceUID :: string
  ppcr_TotalAmount :: int64
  ppcr_SubOrders :: "plan_sub_order list"
  ppcr_ExtendInfo :: "pre_check_extend_info option"
  ppcr_RequestID :: string
  ppcr_PeriodType :: int

record payment_pre_check_data_extend_info =
  ppcdei_ReapplyTime :: int64

record payment_pre_check_data =
  ppcd_AvailableCredit :: int64
  ppcd_ExtendInfo :: "payment_pre_check_data_extend_info option"

record payment_pre_check_response =
  ppcrsp_Code :: string
  ppcrsp_Message :: string
  ppcrsp_Data :: "payment_pre_check_data option"

end
