(* ===== verification/Payment_Validate.thy ===== *)
theory Payment_Validate
  imports Payment_Types
begin

text \<open>
  The client-side validation of atomefin/payment: suborder_validate.go and the
  validate functions of auth.go, capture.go, reauth.go, void.go, plan.go, precheck.go
  and query.go.  A validator returns the first failing check; a loop with an early
  return is the first error of the mapped list.  Amounts are int64 and their sums wrap.
\<close>

section \<open>Sub-order rules: suborder\_validate.go\<close>

definition validOrderTypesMsg :: string where
  "validOrderTypesMsg = ''must be one of TRANSPORT | GRAB_FOOD | GRAB_MART''"

definition invalid :: "string \<Rightarrow> string \<Rightarrow> go_error" where
  "invalid field message = ValidationError field message"

definition validateCheckoutAmounts :: "int \<Rightarrow> int64 \<Rightarrow> int64 list \<Rightarrow> go_error option" where
  "validateCheckoutAmounts periodType totalAmount subOrderAmounts =
     (let minimumTotal = (if periodType = 3 then 20000 else 1);
          minimumSubOrder = (if periodType = 3 then 3 else 1);
          msg = (\<lambda>n. ''below IDR '' @ itoa n @ '' minimum for periodType '' @ itoa periodType)
      in if sint totalAmount < minimumTotal then Some (invalid ''totalAmount'' (msg minimumTotal))
         else first_error (map (\<lambda>amount.
           fail_if (sint amount < minimumSubOrder) (invalid ''subOrders[].amount'' (msg minimumSubOrder)))
           subOrderAmounts))"

definition validateCaptureReAuthAmounts :: "int \<Rightarrow> int64 list \<Rightarrow> go_error option" where
  "validateCaptureReAuthAmounts periodType subOrderAmounts =
     (let minimum0 = word_of_int periodType :: int64;
          minimum = (if sint minimum0 < 1 then 1 else minimum0)
      in first_error (map (\<lambda>amount.
           fail_if (sint amount < sint minimum) (invalid ''subOrders[].amount''
             (''below IDR '' @ itoa (sint minimum) @ '' minimum (1 '' @ [CHR 0xC3, CHR 0x97] @
              '' tenor) for periodType '' @ itoa periodType)))
           subOrderAmounts))"

definition amount_positive :: "int64 \<Rightarrow> go_error option" where
  "amount_positive a = fail_if (sint a \<le> 0) (invalid ''subOrders[].amount'' ''must be > 0 (minor units)'')"

definition validatePlanSubOrders :: "string \<Rightarrow> plan_sub_order list \<Rightarrow> go_error option" where
  "validatePlanSubOrders orderType orders =
     (if orderType = OrderTypeGrabFood \<or> orderType = OrderTypeTransport then
        if length orders \<noteq> 1 then
          Some (invalid ''subOrders'' (''must contain exactly one entry for '' @ orderType))
        else amount_positive (pso_Amount (orders ! 0))
      else if orderType = OrderTypeGrabMart then
        if length orders = 0 then Some (invalid ''subOrders'' ''must be non-empty'')
        else first_error (map (\<lambda>so. first_error
          [fail_if (pso_MerchantID so = []) (invalid ''subOrders[].merchantId'' ''required for GRAB_MART''),
           amount_positive (pso_Amount so)]) orders)
      else fail_if (length orders = 0) (invalid ''subOrders'' ''must be non-empty''))"

definition validateFoodMartAuthSubOrder :: "sub_order \<Rightarrow> go_error option" where
  "validateFoodMartAuthSubOrder so = first_error
     [fail_if (so_SubOrderID so = []) (invalid ''subOrders[].subOrderId'' ''required''),
      fail_if (so_MerchantID so = []) (invalid ''subOrders[].merchantId'' ''required''),
      amount_positive (so_Amount so)]"

definition validateAuthCaptureSubOrders :: "string \<Rightarrow> sub_order list \<Rightarrow> go_error option" where
  "validateAuthCaptureSubOrders orderType orders =
     (if orderType = OrderTypeTransport then
        if length orders \<noteq> 1 then
          Some (invalid ''subOrders'' ''must contain exactly one entry for TRANSPORT'')
        else amount_positive (so_Amount (orders ! 0))
      else if orderType = OrderTypeGrabFood then
        if length orders \<noteq> 1 then
          Some (invalid ''subOrders'' ''must contain exactly one entry for GRAB_FOOD'')
        else validateFoodMartAuthSubOrder (orders ! 0)
      else if orderType = OrderTypeGrabMart then
        if length orders = 0 then Some (invalid ''subOrders'' ''must be non-empty'')
        else first_error (map validateFoodMartAuthSubOrder orders)
      else fail_if (length orders = 0) (invalid ''subOrders'' ''must be non-empty''))"

definition validateCaptureSubOrders :: "string \<Rightarrow> sub_order list \<Rightarrow> go_error option" where
  "validateCaptureSubOrders orderType orders =
     (case validateAuthCaptureSubOrders orderType orders of
        Some err \<Rightarrow> Some err
      | None \<Rightarrow>
          if orderType \<noteq> OrderTypeGrabFood \<and> orderType \<noteq> OrderTypeGrabMart then None
          else first_error (map (\<lambda>so.
            fail_if (so_MerchantName so = []) (invalid ''subOrders[].merchantName''
              (''required for '' @ orderType @ '' capture''))) orders))"

definition validate_sku :: "sku_info \<Rightarrow> go_error option" where
  "validate_sku sku = first_error
     [fail_if (sku_SkuID sku = [])
        (invalid ''extendInfo.mainOrderExtendInfos[].skuInfos[].skuId'' ''required''),
      fail_if (sint (sku_Amount sku) \<le> 0)
        (invalid ''extendInfo.mainOrderExtendInfos[].skuInfos[].amount'' ''must be > 0 (minor units)'')]"

definition validateRequiredSKUInfos :: "main_order_extend_info list \<Rightarrow> string \<Rightarrow> go_error option" where
  "validateRequiredSKUInfos infos scenario =
     (if length infos = 0 then
        Some (invalid ''extendInfo.mainOrderExtendInfos'' (''required for '' @ scenario))
      else first_error (map (\<lambda>info. first_error
        ([fail_if (moei_MerchantID info = [])
            (invalid ''extendInfo.mainOrderExtendInfos[].merchantId'' ''required''),
          fail_if (length (moei_SkuInfos info) = 0)
            (invalid ''extendInfo.mainOrderExtendInfos[].skuInfos'' ''required (at least one SKU)'')] @
         map validate_sku (moei_SkuInfos info))) infos))"

definition validatePlanMainOrderExtendInfos :: "string \<Rightarrow> main_order_extend_info list \<Rightarrow> go_error option" where
  "validatePlanMainOrderExtendInfos orderType infos =
     (if orderType = OrderTypeGrabMart then validateRequiredSKUInfos infos ''GRAB_MART'' else None)"

definition validateAuthCaptureMainOrderExtendInfos ::
  "string \<Rightarrow> main_order_extend_info list \<Rightarrow> go_error option" where
  "validateAuthCaptureMainOrderExtendInfos orderType infos =
     (if orderType = OrderTypeGrabMart \<or> orderType = OrderTypeGrabFood
      then validateRequiredSKUInfos infos orderType else None)"

fun sum_loop :: "int64 \<Rightarrow> int64 list \<Rightarrow> int64" where
  "sum_loop s [] = s"
| "sum_loop s (a # as) = sum_loop (s + a) as"

definition sumPlanSubOrderAmount :: "plan_sub_order list \<Rightarrow> int64" where
  "sumPlanSubOrderAmount orders = sum_loop 0 (map pso_Amount orders)"

definition planSubOrderAmounts :: "plan_sub_order list \<Rightarrow> int64 list" where
  "planSubOrderAmounts orders = map pso_Amount orders"

definition setPlanSubOrderAmounts :: "plan_sub_order list \<Rightarrow> int64 list" where
  "setPlanSubOrderAmounts orders = map pso_Amount (filter (\<lambda>so. sint (pso_Amount so) > 0) orders)"

definition allPlanSubOrderAmountsSet :: "plan_sub_order list \<Rightarrow> bool" where
  "allPlanSubOrderAmountsSet orders \<longleftrightarrow> list_all (\<lambda>so. \<not> sint (pso_Amount so) \<le> 0) orders"

definition sumSubOrderAmount :: "sub_order list \<Rightarrow> int64" where
  "sumSubOrderAmount orders = sum_loop 0 (map so_Amount orders)"

definition subOrderAmounts :: "sub_order list \<Rightarrow> int64 list" where
  "subOrderAmounts orders = map so_Amount orders"

section \<open>Request validators\<close>

text \<open>The checks behind a nil check, which dereference the pointer.\<close>

definition with_present :: "'a option \<Rightarrow> go_error \<Rightarrow> ('a \<Rightarrow> go_error option) \<Rightarrow> go_error option" where
  "with_present p err f = (case p of None \<Rightarrow> Some err | Some x \<Rightarrow> f x)"

definition validateAuthRequest :: "auth_request \<Rightarrow> go_error option" where
  "validateAuthRequest req = first_error
     [fail_if (ar_RequestID req = [])
        (invalid ''requestId'' ''must be non-empty (use a partner-stable idempotency key)''),
      fail_if (length (ar_RequestID req) > 64) (invalid ''requestId'' ''exceeds spec maxlength 64''),
      fail_if (ar_ExternalReferenceUID req = []) (invalid ''externalReferenceUid'' ''required''),
      fail_if (sint (ar_TotalAmount req) \<le> 0) (invalid ''totalAmount'' ''must be > 0 (minor units)''),
      validateCheckoutAmounts (ar_PeriodType req) (ar_TotalAmount req) (subOrderAmounts (ar_SubOrders req)),
      with_present (ar_ExtendInfo req) (invalid ''extendInfo'' ''required (carries orderType)'') (\<lambda>info.
        first_error
          [fail_if (\<not> PaymentOrderType_IsValid (rei_OrderType info))
             (invalid ''extendInfo.orderType'' validOrderTypesMsg),
           validateAuthCaptureSubOrders (rei_OrderType info) (ar_SubOrders req),
           fail_if (sumSubOrderAmount (ar_SubOrders req) \<noteq> ar_TotalAmount req)
             (invalid ''totalAmount'' ''must equal sum of subOrders[].amount''),
           validateAuthCaptureMainOrderExtendInfos (rei_OrderType info) (rei_MainOrderExtendInfos info)]),
      fail_if (ar_Sessionid req = []) (invalid ''sessionid''
        (''required for /auth (per DESIGN.md '' @ [CHR 0xC2, CHR 0xA7] @
         ''1.3); travels in the HTTP `sessionid` header'')),
      fail_if (length (ar_Sessionid req) > 64) (invalid ''sessionid'' ''exceeds spec maxlength 64'')]"

definition validateCaptureRequest :: "capture_request \<Rightarrow> go_error option" where
  "validateCaptureRequest req = first_error
     [fail_if (cr_RequestID req = []) (invalid ''requestId'' ''required''),
      fail_if (length (cr_RequestID req) > 64) (invalid ''requestId'' ''exceeds spec maxlength 64''),
      fail_if (cr_ExternalReferenceUID req = []) (invalid ''externalReferenceUid''
        ''required (must mirror the /auth request that produced authOrderId)''),
      fail_if (cr_AuthOrderID req = []) (invalid ''authOrderId'' ''required (from prior /auth response)''),
      fail_if (sint (cr_TotalAmount req) \<le> 0) (invalid ''totalAmount'' ''must be > 0 (minor units)''),
      validateCaptureReAuthAmounts (cr_PeriodType req) (subOrderAmounts (cr_SubOrders req)),
      with_present (cr_ExtendInfo req) (invalid ''extendInfo'' ''required (carries orderType)'') (\<lambda>info.
        first_error
          [fail_if (\<not> PaymentOrderType_IsValid (rei_OrderType info))
             (invalid ''extendInfo.orderType'' validOrderTypesMsg),
           validateCaptureSubOrders (rei_OrderType info) (cr_SubOrders req),
           fail_if (sumSubOrderAmount (cr_SubOrders req) \<noteq> cr_TotalAmount req)
             (invalid ''totalAmount'' ''must equal sum of subOrders[].amount''),
           validateAuthCaptureMainOrderExtendInfos (rei_OrderType info) (rei_MainOrderExtendInfos info)])]"

definition validateReAuthRequest :: "re_auth_request \<Rightarrow> go_error option" where
  "validateReAuthRequest req = first_error
     [fail_if (rar_RequestID req = []) (invalid ''requestId'' ''required''),
      fail_if (length (rar_RequestID req) > 64) (invalid ''requestId'' ''exceeds spec maxlength 64''),
      fail_if (rar_ExternalReferenceUID req = []) (invalid ''externalReferenceUid'' ''required''),
      fail_if (length (rar_ExternalReferenceUID req) > 64)
        (invalid ''externalReferenceUid'' ''exceeds spec maxlength 64''),
      fail_if (rar_AuthOrderID req = [])
        (invalid ''authOrderId'' ''required (the voided original authorization)''),
      fail_if (sint (rar_TotalAmount req) \<le> 0) (invalid ''totalAmount'' ''must be > 0 (minor units)''),
      validateCaptureReAuthAmounts (rar_PeriodType req) (subOrderAmounts (rar_SubOrders req)),
      with_present (rar_ExtendInfo req) (invalid ''extendInfo'' ''required (carries orderType)'') (\<lambda>info.
        first_error
          [fail_if (\<not> PaymentOrderType_IsValid (rei_OrderType info))
             (invalid ''extendInfo.orderType'' validOrderTypesMsg),
           validateAuthCaptureSubOrders (rei_OrderType info) (rar_SubOrders req),
           fail_if (sumSubOrderAmount (rar_SubOrders req) \<noteq> rar_TotalAmount req)
             (invalid ''totalAmount'' ''must equal sum of subOrders[].amount''),
           validateAuthCaptureMainOrderExtendInfos (rei_OrderType info) (rei_MainOrderExtendInfos info)])]"

definition validateVoidAuthRequest :: "void_auth_request \<Rightarrow> go_error option" where
  "validateVoidAuthRequest req = first_error
     [fail_if (var_RequestID req = []) (invalid ''requestId'' ''required''),
      fail_if (length (var_RequestID req) > 64) (invalid ''requestId'' ''exceeds spec maxlength 64''),
      fail_if (var_ExternalReferenceUID req = []) (invalid ''externalReferenceUid'' ''required''),
      fail_if (var_AuthOrderID req = []) (invalid ''authOrderId'' ''required'')]"

definition first_period :: "plan_sub_order list \<Rightarrow> int option" where
  "first_period orders = (if length orders > 0 then pso_PeriodType (orders ! 0) else None)"

definition effective_period :: "int \<Rightarrow> plan_sub_order list \<Rightarrow> int" where
  "effective_period periodType orders =
     (if periodType = 0 then (case first_period orders of Some p \<Rightarrow> p | None \<Rightarrow> periodType) else periodType)"

definition validatePaymentPlanRequest :: "payment_plan_request \<Rightarrow> go_error option" where
  "validatePaymentPlanRequest req =
     (let periodType = effective_period (ppr_PeriodType req) (ppr_SubOrders req) in first_error
     [fail_if (ppr_RequestID req = []) (invalid ''requestId'' ''required''),
      fail_if (length (ppr_RequestID req) > 64) (invalid ''requestId'' ''exceeds spec maxlength 64''),
      fail_if (ppr_ExternalReferenceUID req = []) (invalid ''externalReferenceUid'' ''required''),
      fail_if (\<not> PaymentPlanMode_IsValid (ppr_Mode req)) (invalid ''mode'' ''must be one of ask | get''),
      fail_if (length (ppr_SessionID req) > 64) (invalid ''sessionId'' ''exceeds spec maxlength 64''),
      fail_if (sint (ppr_TotalAmount req) \<le> 0) (invalid ''totalAmount'' ''must be > 0 (minor units)''),
      validateCheckoutAmounts periodType (ppr_TotalAmount req) (planSubOrderAmounts (ppr_SubOrders req)),
      validateCheckoutAmounts (ppr_PeriodType req) (ppr_TotalAmount req) (planSubOrderAmounts (ppr_SubOrders req)),
      with_present (ppr_ExtendInfo req) (invalid ''extendInfo'' ''required (carries orderType)'') (\<lambda>info.
        first_error
          [fail_if (\<not> PaymentOrderType_IsValid (cei_OrderType info))
             (invalid ''extendInfo.orderType'' validOrderTypesMsg),
           validatePlanSubOrders (cei_OrderType info) (ppr_SubOrders req),
           fail_if (sumPlanSubOrderAmount (ppr_SubOrders req) \<noteq> ppr_TotalAmount req)
             (invalid ''totalAmount'' ''must equal sum of subOrders[].amount''),
           validatePlanMainOrderExtendInfos (cei_OrderType info) (cei_MainOrderExtendInfos info)]),
      fail_if (length (ppr_Sessionid req) > 64) (invalid ''sessionid'' ''exceeds spec maxlength 64'')])"

text \<open>
  The precheck validator writes the effective period type into the request before its
  second amount check: it returns the request it leaves.
\<close>

definition validatePaymentPreCheckRequest ::
  "payment_pre_check_request \<Rightarrow> go_error option \<times> payment_pre_check_request" where
  "validatePaymentPreCheckRequest req =
     (case first_error
        [fail_if (ppcr_ExternalReferenceUID req = []) (invalid ''externalReferenceUid'' ''required''),
         fail_if (sint (ppcr_TotalAmount req) \<le> 0) (invalid ''totalAmount'' ''must be > 0 (minor units)''),
         validateCheckoutAmounts (ppcr_PeriodType req) (ppcr_TotalAmount req)
           (setPlanSubOrderAmounts (ppcr_SubOrders req)),
         (case ppcr_ExtendInfo req of None \<Rightarrow> None
          | Some info \<Rightarrow> fail_if (pcei_OrderType info \<noteq> [] \<and> \<not> PaymentOrderType_IsValid (pcei_OrderType info))
              (invalid ''extendInfo.orderType'' validOrderTypesMsg)),
         (case ppcr_ExtendInfo req of None \<Rightarrow> None
          | Some info \<Rightarrow> fail_if ((pcei_OrderType info = OrderTypeGrabFood \<or> pcei_OrderType info = OrderTypeTransport) \<and>
                length (ppcr_SubOrders req) > 1)
              (invalid ''subOrders'' (''must contain at most one entry for '' @ pcei_OrderType info)))] of
        Some err \<Rightarrow> (Some err, req)
      | None \<Rightarrow>
          let req' = req\<lparr>ppcr_PeriodType := effective_period (ppcr_PeriodType req) (ppcr_SubOrders req)\<rparr> in
          (first_error
            [validateCheckoutAmounts (ppcr_PeriodType req') (ppcr_TotalAmount req')
               (setPlanSubOrderAmounts (ppcr_SubOrders req')),
             fail_if (length (ppcr_SubOrders req') > 0 \<and> allPlanSubOrderAmountsSet (ppcr_SubOrders req') \<and>
                sumPlanSubOrderAmount (ppcr_SubOrders req') \<noteq> ppcr_TotalAmount req')
               (invalid ''totalAmount'' ''must equal sum of subOrders[].amount'')], req'))"

definition validateQueryParams :: "string \<Rightarrow> string \<Rightarrow> go_error option" where
  "validateQueryParams requestID externalReferenceUID = first_error
     [fail_if (requestID = []) (invalid ''requestId'' ''required (the requestId from the prior outbound submission)''),
      fail_if (length requestID > 64) (invalid ''requestId'' ''exceeds spec maxlength 64''),
      fail_if (externalReferenceUID = []) (invalid ''externalReferenceUid''
        ''required (the partner-side user/account identifier from the prior outbound submission)''),
      fail_if (length externalReferenceUID > 64) (invalid ''externalReferenceUid'' ''exceeds spec maxlength 64'')]"

section \<open>Sums of amounts\<close>

lemma sum_loop_sum: "sum_loop s as = s + sum_list as"
  by (induction s as rule: sum_loop.induct) (simp_all add: add.assoc)

lemma sum_list_word: "sum_list as = (word_of_int (sum_list (map sint as)) :: int64)"
  by (induction as) simp_all

lemma sint_sum_cong: "(sint (sum_list as :: int64) - sum_list (map sint as)) mod 2 ^ 64 = 0"
proof -
  have "(word_of_int (sint (sum_list as)) :: int64) = word_of_int (sum_list (map sint as))"
    using sum_list_word [of as] by simp
  then have "take_bit 64 (sint (sum_list as)) = take_bit 64 (sum_list (map sint as))"
    by (simp only: word_of_int_eq_iff len_of_numeral_defs) simp
  then show ?thesis by (simp add: take_bit_eq_mod mod_eq_dvd_iff)
qed

lemma sum_list_nonneg_int: "\<forall>a \<in> set as. 0 \<le> (f a :: int) \<Longrightarrow> 0 \<le> sum_list (map f as)"
  by (induction as) auto

lemma sint_sum_exact:
  assumes "\<forall>a \<in> set as. 0 \<le> sint a" "sum_list (map sint as) < 2 ^ 63"
  shows "sint (sum_list as :: int64) = sum_list (map sint as)"
  unfolding sum_list_word using assms sum_list_nonneg_int [OF assms(1)] by (intro sint64_of_int) auto

section \<open>What the checks accept\<close>

lemma first_error_map_None: "first_error (map f xs) = None \<longleftrightarrow> (\<forall>x \<in> set xs. f x = None)"
  by (simp add: first_error_None_iff)

lemma with_present_None: "with_present p e f = None \<longleftrightarrow> (\<exists>x. p = Some x \<and> f x = None)"
  by (simp add: with_present_def split: option.split)

lemmas accept_simps = first_error_None_iff first_error_map_None with_present_None fail_if_None_iff

lemma validateCheckoutAmounts_None:
  "validateCheckoutAmounts p t as = None \<longleftrightarrow>
     (if p = 3 then 20000 \<le> sint t \<and> (\<forall>a \<in> set as. 3 \<le> sint a)
      else 1 \<le> sint t \<and> (\<forall>a \<in> set as. 1 \<le> sint a))"
  by (auto simp: validateCheckoutAmounts_def Let_def accept_simps not_less)

lemma amount_positive_None: "amount_positive a = None \<longleftrightarrow> 0 < sint a"
  by (auto simp: amount_positive_def accept_simps)

lemma validateFoodMart_None:
  "validateFoodMartAuthSubOrder so = None \<longleftrightarrow> so_SubOrderID so \<noteq> [] \<and> so_MerchantID so \<noteq> [] \<and> 0 < sint (so_Amount so)"
  by (auto simp: validateFoodMartAuthSubOrder_def accept_simps amount_positive_None)

text \<open>The sub-orders an order type admits.\<close>

definition sub_orders_ok :: "string \<Rightarrow> sub_order list \<Rightarrow> bool" where
  "sub_orders_ok orderType orders \<longleftrightarrow>
     (\<forall>so \<in> set orders. 0 < sint (so_Amount so)) \<and>
     (orderType = OrderTypeTransport \<and> length orders = 1 \<or>
      orderType = OrderTypeGrabFood \<and> length orders = 1 \<and>
        (\<forall>so \<in> set orders. so_SubOrderID so \<noteq> [] \<and> so_MerchantID so \<noteq> []) \<or>
      orderType = OrderTypeGrabMart \<and> orders \<noteq> [] \<and>
        (\<forall>so \<in> set orders. so_SubOrderID so \<noteq> [] \<and> so_MerchantID so \<noteq> []))"

definition skus_ok :: "string \<Rightarrow> main_order_extend_info list \<Rightarrow> bool" where
  "skus_ok orderType infos \<longleftrightarrow>
     (orderType = OrderTypeTransport \<or>
      infos \<noteq> [] \<and> (\<forall>info \<in> set infos. moei_MerchantID info \<noteq> [] \<and> moei_SkuInfos info \<noteq> [] \<and>
        (\<forall>sku \<in> set (moei_SkuInfos info). sku_SkuID sku \<noteq> [] \<and> 0 < sint (sku_Amount sku))))"

lemma order_types_distinct [simp]:
  "OrderTypeTransport \<noteq> OrderTypeGrabFood" "OrderTypeTransport \<noteq> OrderTypeGrabMart"
  "OrderTypeGrabFood \<noteq> OrderTypeGrabMart" "OrderTypeGrabFood \<noteq> OrderTypeTransport"
  "OrderTypeGrabMart \<noteq> OrderTypeTransport" "OrderTypeGrabMart \<noteq> OrderTypeGrabFood"
  by (simp_all add: OrderTypeTransport_def OrderTypeGrabFood_def OrderTypeGrabMart_def)

lemma validateAuthCaptureSubOrders_None:
  assumes "PaymentOrderType_IsValid t"
  shows "validateAuthCaptureSubOrders t orders = None \<longleftrightarrow> sub_orders_ok t orders"
proof -
  consider "t = OrderTypeTransport" | "t = OrderTypeGrabFood" | "t = OrderTypeGrabMart"
    using assms by (auto simp: PaymentOrderType_IsValid_def)
  then show ?thesis
  proof cases
    case 1
    then show ?thesis
      by (cases "length orders = 1")
         (auto simp: validateAuthCaptureSubOrders_def sub_orders_ok_def amount_positive_None length_Suc_conv)
  next
    case 2
    then show ?thesis
      by (cases "length orders = 1")
         (auto simp: validateAuthCaptureSubOrders_def sub_orders_ok_def validateFoodMart_None length_Suc_conv)
  next
    case 3
    then show ?thesis
      by (auto simp: validateAuthCaptureSubOrders_def sub_orders_ok_def validateFoodMart_None first_error_map_None)
  qed
qed

lemma validate_sku_None: "validate_sku sku = None \<longleftrightarrow> sku_SkuID sku \<noteq> [] \<and> 0 < sint (sku_Amount sku)"
  by (auto simp: validate_sku_def accept_simps)

lemma validateRequiredSKUInfos_None:
  "validateRequiredSKUInfos infos sc = None \<longleftrightarrow>
     infos \<noteq> [] \<and> (\<forall>info \<in> set infos. moei_MerchantID info \<noteq> [] \<and> moei_SkuInfos info \<noteq> [] \<and>
        (\<forall>sku \<in> set (moei_SkuInfos info). sku_SkuID sku \<noteq> [] \<and> 0 < sint (sku_Amount sku)))"
  by (auto simp: validateRequiredSKUInfos_def first_error_map_None first_error_append accept_simps validate_sku_None)

lemma validateAuthCaptureMain_None:
  "PaymentOrderType_IsValid t \<Longrightarrow> validateAuthCaptureMainOrderExtendInfos t infos = None \<longleftrightarrow> skus_ok t infos"
  by (auto simp: validateAuthCaptureMainOrderExtendInfos_def skus_ok_def validateRequiredSKUInfos_None
      PaymentOrderType_IsValid_def)

lemmas auth_accept = validateAuthRequest_def accept_simps validateCheckoutAmounts_None subOrderAmounts_def
  validateAuthCaptureSubOrders_None validateAuthCaptureMain_None sumSubOrderAmount_def sum_loop_sum

section \<open>Properties\<close>

text \<open>C32. validateAuthRequest accepts a request exactly when it has a request id of 1 to 64 bytes, a
  user reference, a session id of 1 to 64 bytes, an extend info with a known order type, sub-orders
  and SKUs as that type requires, amounts at or above the minimum of the period type, and a total
  that is the (64-bit) sum of its sub-orders.\<close>
theorem validateAuthRequest_iff:
  "validateAuthRequest req = None \<longleftrightarrow>
     (ar_RequestID req \<noteq> [] \<and> length (ar_RequestID req) \<le> 64 \<and> ar_ExternalReferenceUID req \<noteq> [] \<and>
      ar_Sessionid req \<noteq> [] \<and> length (ar_Sessionid req) \<le> 64 \<and>
      (if ar_PeriodType req = 3
       then 20000 \<le> sint (ar_TotalAmount req) \<and> (\<forall>so \<in> set (ar_SubOrders req). 3 \<le> sint (so_Amount so))
       else 1 \<le> sint (ar_TotalAmount req) \<and> (\<forall>so \<in> set (ar_SubOrders req). 1 \<le> sint (so_Amount so))) \<and>
      (\<exists>info. ar_ExtendInfo req = Some info \<and> PaymentOrderType_IsValid (rei_OrderType info) \<and>
         sub_orders_ok (rei_OrderType info) (ar_SubOrders req) \<and>
         skus_ok (rei_OrderType info) (rei_MainOrderExtendInfos info) \<and>
         ar_TotalAmount req = sum_list (map so_Amount (ar_SubOrders req))))"
  by (auto simp: auth_accept)

text \<open>An accepted total as integers, shared by the four request kinds.\<close>

lemma total_of_sum:
  assumes "t = sum_list as" "\<forall>a \<in> set as. 0 < sint (a :: int64)"
  shows "(sint t - sum_list (map sint as)) mod 2 ^ 64 = 0 \<and>
    (sum_list (map sint as) < 2 ^ 63 \<longrightarrow> sint t = sum_list (map sint as))"
proof -
  have "\<forall>a \<in> set as. 0 \<le> sint a" using assms(2) by (simp add: order_less_imp_le)
  then show ?thesis using sint_sum_cong [of as] sint_sum_exact [of as] assms(1) by simp
qed

definition total_matches :: "int64 \<Rightarrow> int64 list \<Rightarrow> bool" where
  "total_matches t as \<longleftrightarrow> (\<forall>a \<in> set as. 0 < sint a) \<and> (sint t - sum_list (map sint as)) mod 2 ^ 64 = 0 \<and>
     (sum_list (map sint as) < 2 ^ 63 \<longrightarrow> sint t = sum_list (map sint as))"

lemma total_matchesI: "t = sum_list as \<Longrightarrow> \<forall>a \<in> set as. 0 < sint a \<Longrightarrow> total_matches t as"
  using total_of_sum by (simp add: total_matches_def)

lemma sub_orders_ok_positive: "sub_orders_ok t orders \<Longrightarrow> \<forall>a \<in> set (map so_Amount orders). 0 < sint a"
  by (auto simp: sub_orders_ok_def)

lemma validatePlanSubOrders_positive:
  assumes "validatePlanSubOrders t orders = None" "PaymentOrderType_IsValid t"
  shows "\<forall>a \<in> set (map pso_Amount orders). 0 < sint a"
  using assms
  by (auto simp: validatePlanSubOrders_def PaymentOrderType_IsValid_def amount_positive_None accept_simps
      length_Suc_conv split: if_splits)

text \<open>C6. In every accepted /auth, /capture, /reAuth and /payment-plan request the sub-order amounts
  are positive and the total agrees with their sum modulo 2^64; it is their exact integer sum
  whenever that sum is below 2^63.  A /payment-precheck request may leave out sub-orders or amounts:
  the same holds of an accepted one only when it lists sub-orders and each has a positive amount.\<close>
theorem accepted_totals_match:
  "(validateAuthRequest a = None \<longrightarrow> total_matches (ar_TotalAmount a) (map so_Amount (ar_SubOrders a))) \<and>
   (validateCaptureRequest c = None \<longrightarrow> total_matches (cr_TotalAmount c) (map so_Amount (cr_SubOrders c))) \<and>
   (validateReAuthRequest r = None \<longrightarrow> total_matches (rar_TotalAmount r) (map so_Amount (rar_SubOrders r))) \<and>
   (validatePaymentPlanRequest p = None \<longrightarrow> total_matches (ppr_TotalAmount p) (map pso_Amount (ppr_SubOrders p))) \<and>
   (fst (validatePaymentPreCheckRequest k) = None \<and> ppcr_SubOrders k \<noteq> [] \<and> (\<forall>so \<in> set (ppcr_SubOrders k). 0 < sint (pso_Amount so)) \<longrightarrow>
      total_matches (ppcr_TotalAmount k) (map pso_Amount (ppcr_SubOrders k)))"
proof (intro conjI impI)
  assume "validateAuthRequest a = None"
  then obtain t where "ar_TotalAmount a = sum_list (map so_Amount (ar_SubOrders a))" "sub_orders_ok t (ar_SubOrders a)"
    by (auto simp: validateAuthRequest_def accept_simps validateAuthCaptureSubOrders_None sumSubOrderAmount_def sum_loop_sum)
  then show "total_matches (ar_TotalAmount a) (map so_Amount (ar_SubOrders a))"
    by (intro total_matchesI sub_orders_ok_positive)
next
  assume "validateCaptureRequest c = None"
  then obtain t where "cr_TotalAmount c = sum_list (map so_Amount (cr_SubOrders c))" "sub_orders_ok t (cr_SubOrders c)"
    by (auto simp: validateCaptureRequest_def accept_simps validateCaptureSubOrders_def validateAuthCaptureSubOrders_None
        sumSubOrderAmount_def sum_loop_sum split: option.splits)
  then show "total_matches (cr_TotalAmount c) (map so_Amount (cr_SubOrders c))"
    by (intro total_matchesI sub_orders_ok_positive)
next
  assume "validateReAuthRequest r = None"
  then obtain t where "rar_TotalAmount r = sum_list (map so_Amount (rar_SubOrders r))" "sub_orders_ok t (rar_SubOrders r)"
    by (auto simp: validateReAuthRequest_def accept_simps validateAuthCaptureSubOrders_None sumSubOrderAmount_def sum_loop_sum)
  then show "total_matches (rar_TotalAmount r) (map so_Amount (rar_SubOrders r))"
    by (intro total_matchesI sub_orders_ok_positive)
next
  assume "validatePaymentPlanRequest p = None"
  then obtain t where "ppr_TotalAmount p = sum_list (map pso_Amount (ppr_SubOrders p))"
    "validatePlanSubOrders t (ppr_SubOrders p) = None" "PaymentOrderType_IsValid t"
    by (auto simp: validatePaymentPlanRequest_def Let_def accept_simps sumPlanSubOrderAmount_def sum_loop_sum)
  then show "total_matches (ppr_TotalAmount p) (map pso_Amount (ppr_SubOrders p))"
    by (intro total_matchesI validatePlanSubOrders_positive)
next
  assume k: "fst (validatePaymentPreCheckRequest k) = None \<and> ppcr_SubOrders k \<noteq> [] \<and>
    (\<forall>so \<in> set (ppcr_SubOrders k). 0 < sint (pso_Amount so))"
  then have "allPlanSubOrderAmountsSet (ppcr_SubOrders k)"
    by (simp add: allPlanSubOrderAmountsSet_def list_all_iff not_le)
  with k have "ppcr_TotalAmount k = sum_list (map pso_Amount (ppcr_SubOrders k))"
    by (auto simp: validatePaymentPreCheckRequest_def Let_def accept_simps sumPlanSubOrderAmount_def sum_loop_sum
        split: option.splits)
  with k show "total_matches (ppcr_TotalAmount k) (map pso_Amount (ppcr_SubOrders k))"
    by (intro total_matchesI) simp_all
qed

definition sample_sub_order :: "int64 \<Rightarrow> sub_order" where
  "sample_sub_order a = \<lparr>so_SubOrderID = ''s'', so_MerchantID = ''m'', so_MerchantName = ''n'',
     so_MerchantCategory = [], so_MerchantJoinedDate = [], so_Amount = a, so_PeriodType = None\<rparr>"

definition sample_sku :: sku_info where
  "sample_sku = \<lparr>sku_SkuID = ''k'', sku_SkuName = [], sku_CategoryID = [], sku_CategoryOneName = [],
     sku_CategoryCodes = [], sku_Quantity = 1, sku_Amount = 5\<rparr>"

definition sample_extend :: request_extend_info where
  "sample_extend = \<lparr>rei_OrderType = ''GRAB_MART'', rei_CreditProfile = [], rei_DeviceInfo = None,
     rei_Address = None, rei_RiskInfo = None,
     rei_MainOrderExtendInfos = [\<lparr>moei_MerchantID = ''m'', moei_MerchantName = [], moei_SkuInfos = [sample_sku]\<rparr>]\<rparr>"

definition sample_auth :: "int64 \<Rightarrow> int64 list \<Rightarrow> auth_request" where
  "sample_auth t as = \<lparr>ar_RequestID = ''r1'', ar_ExternalReferenceUID = ''u'', ar_TotalAmount = t, ar_PeriodType = 3,
     ar_SubOrders = map sample_sub_order as, ar_ExtendInfo = Some sample_extend, ar_Sessionid = ''sess''\<rparr>"

lemma sample_auth_accepted:
  assumes "20000 \<le> sint t" "\<forall>a \<in> set as. 3 \<le> sint a" "as \<noteq> []" "t = sum_list as"
  shows "validateAuthRequest (sample_auth t as) = None"
proof -
  have "sub_orders_ok ''GRAB_MART'' (map sample_sub_order as)"
    using assms(2,3) by (fastforce simp: sub_orders_ok_def sample_sub_order_def OrderTypeGrabMart_def)
  moreover have "skus_ok ''GRAB_MART'' (rei_MainOrderExtendInfos sample_extend)"
    by (simp add: skus_ok_def sample_extend_def sample_sku_def)
  moreover have "map (so_Amount \<circ> sample_sub_order) as = as"
    by (simp add: sample_sub_order_def comp_def)
  ultimately show ?thesis using assms
    by (auto simp: auth_accept sample_auth_def sample_extend_def PaymentOrderType_IsValid_def OrderTypeGrabMart_def sample_sub_order_def)
qed

theorem accepted_totals_match_witness:
  "total_matches (ar_TotalAmount (sample_auth 20000 [15000, 5000]))
     (map so_Amount (ar_SubOrders (sample_auth 20000 [15000, 5000])))"
proof -
  have "validateAuthRequest (sample_auth 20000 [15000, 5000]) = None"
    by (rule sample_auth_accepted) simp_all
  then show ?thesis using accepted_totals_match [of "sample_auth 20000 [15000, 5000]"] by blast
qed

theorem validateAuthRequest_iff_witness:
  "sub_orders_ok ''GRAB_MART'' (ar_SubOrders (sample_auth 20000 [15000, 5000]))"
proof -
  have "validateAuthRequest (sample_auth 20000 [15000, 5000]) = None"
    by (rule sample_auth_accepted) simp_all
  then show ?thesis unfolding validateAuthRequest_iff by (auto simp: sample_auth_def sample_extend_def)
qed

text \<open>A sum of positive amounts that the 64-bit addition does not make negative.\<close>

lemma wrapped_sum:
  assumes "t = sum_list as" "0 < sint (t :: int64)" "\<forall>a \<in> set as. 0 < sint a"
  shows "sint t = sum_list (map sint as) \<longleftrightarrow> sum_list (map sint as) < 2 ^ 64"
proof -
  let ?S = "sum_list (map sint as)"
  have S: "0 \<le> ?S" using assms(3) by (intro sum_list_nonneg_int) auto
  have t: "sint t < 2 ^ 63" by (rule sint64_range)
  have "(sint t - ?S) mod 2 ^ 64 = 0" using sint_sum_cong [of as] assms(1) by simp
  then obtain k where k: "sint t - ?S = 2 ^ 64 * k" by (auto simp: mod_eq_0_iff_dvd dvd_def)
  have "k = 0" if "?S < 2 ^ 64"
  proof -
    have "- 1 < k" "k < 1" using that k t S assms(2) by simp_all
    then show ?thesis by simp
  qed
  then show ?thesis using k t by auto
qed

lemma sum_list_le: "\<forall>a \<in> set as. f a \<le> (b :: int) \<Longrightarrow> sum_list (map f as) \<le> b * int (length as)"
  by (induction as) (auto simp: algebra_simps)

lemma sub_orders_ok_append:
  "sub_orders_ok OrderTypeGrabMart xs \<Longrightarrow> sub_orders_ok OrderTypeGrabMart ys \<Longrightarrow> sub_orders_ok OrderTypeGrabMart (xs @ ys)"
  by (auto simp: sub_orders_ok_def)

text \<open>C40. The sum check of /auth wraps, for GRAB_MART orders only.  In an accepted request the total is
  the integer sum of the sub-orders exactly when that sum is below 2^64, which always holds for the
  other order types and for one or two sub-orders.  But an accepted GRAB_MART request stays accepted,
  with its total as it is, when sub-orders are added that have their ids, amounts of 3 or more and an
  integer sum divisible by 2^64.\<close>
theorem auth_sum_wraps:
  assumes "validateAuthRequest req = None" "ar_ExtendInfo req = Some info"
  shows "(sint (ar_TotalAmount req) = sum_list (map (sint \<circ> so_Amount) (ar_SubOrders req)) \<longleftrightarrow>
       sum_list (map (sint \<circ> so_Amount) (ar_SubOrders req)) < 2 ^ 64) \<and>
    (rei_OrderType info \<noteq> OrderTypeGrabMart \<or> length (ar_SubOrders req) \<le> 2 \<longrightarrow>
       sint (ar_TotalAmount req) = sum_list (map (sint \<circ> so_Amount) (ar_SubOrders req))) \<and>
    (rei_OrderType info = OrderTypeGrabMart \<and>
     (\<forall>so \<in> set extra. so_SubOrderID so \<noteq> [] \<and> so_MerchantID so \<noteq> [] \<and> 3 \<le> sint (so_Amount so)) \<and>
     2 ^ 64 dvd sum_list (map (sint \<circ> so_Amount) extra) \<longrightarrow>
       validateAuthRequest (req\<lparr>ar_SubOrders := ar_SubOrders req @ extra\<rparr>) = None)"
proof -
  let ?as = "map so_Amount (ar_SubOrders req)"
  let ?S = "sum_list (map (sint \<circ> so_Amount) (ar_SubOrders req))"
  have r: "ar_TotalAmount req = sum_list ?as" "sub_orders_ok (rei_OrderType info) (ar_SubOrders req)"
    "1 \<le> sint (ar_TotalAmount req)" "PaymentOrderType_IsValid (rei_OrderType info)"
    using assms by (auto simp: auth_accept split: if_splits)
  have pos: "\<forall>a \<in> set ?as. 0 < sint a" using sub_orders_ok_positive [OF r(2)] .
  have exact: "sint (ar_TotalAmount req) = ?S \<longleftrightarrow> ?S < 2 ^ 64"
    using wrapped_sum [OF r(1) _ pos] r(3) by simp
  have "?S < 2 ^ 64" if "rei_OrderType info \<noteq> OrderTypeGrabMart \<or> length (ar_SubOrders req) \<le> 2"
  proof -
    have "length (ar_SubOrders req) \<le> 2" using that r(2,4) by (auto simp: sub_orders_ok_def PaymentOrderType_IsValid_def)
    moreover have "?S \<le> (2 ^ 63 - 1) * int (length (ar_SubOrders req))"
      using sint64_range(2) by (intro sum_list_le) (simp add: zle_diff1_eq [symmetric] del: zle_diff1_eq)
    ultimately show ?thesis by simp
  qed
  moreover have "validateAuthRequest (req\<lparr>ar_SubOrders := ar_SubOrders req @ extra\<rparr>) = None"
    if "rei_OrderType info = OrderTypeGrabMart"
      "\<forall>so \<in> set extra. so_SubOrderID so \<noteq> [] \<and> so_MerchantID so \<noteq> [] \<and> 3 \<le> sint (so_Amount so)"
      "2 ^ 64 dvd sum_list (map (sint \<circ> so_Amount) extra)"
  proof -
    have "sum_list (map so_Amount extra) = (word_of_int (sum_list (map (sint \<circ> so_Amount) extra)) :: int64)"
      using sum_list_word [of "map so_Amount extra"] by simp
    also have "\<dots> = 0" using that(3) by (simp add: word_of_int_eq_0_iff)
    finally have "sum_list (map so_Amount extra) = 0" .
    moreover have "\<forall>so \<in> set extra. 0 < sint (so_Amount so) \<and> 1 \<le> sint (so_Amount so)" using that(2) by force
    ultimately show ?thesis using assms that(1,2)
      by (auto simp: auth_accept sub_orders_ok_def split: if_splits)
  qed
  ultimately show ?thesis using exact by blast
qed

theorem auth_sum_wraps_witness:
  "validateAuthRequest (sample_auth 20000 [20000, 9223372036854775807, 9223372036854775806, 3]) = None \<and>
   sint (ar_TotalAmount (sample_auth 20000 [20000, 9223372036854775807, 9223372036854775806, 3])) \<noteq>
     sum_list (map (sint \<circ> so_Amount) (ar_SubOrders (sample_auth 20000 [20000, 9223372036854775807, 9223372036854775806, 3])))"
proof -
  let ?small = "sample_auth 20000 [20000]"
  let ?large = "sample_auth 20000 [20000, 9223372036854775807, 9223372036854775806, 3]"
  let ?extra = "map sample_sub_order [9223372036854775807, 9223372036854775806, 3]"
  have a: "validateAuthRequest ?small = None" by (rule sample_auth_accepted) simp_all
  have large: "?small\<lparr>ar_SubOrders := ar_SubOrders ?small @ ?extra\<rparr> = ?large" by (simp add: sample_auth_def)
  have "rei_OrderType sample_extend = OrderTypeGrabMart" by (simp add: sample_extend_def OrderTypeGrabMart_def)
  then have l: "validateAuthRequest ?large = None"
    using auth_sum_wraps [OF a, of sample_extend ?extra] unfolding large
    by (simp add: sample_auth_def sample_sub_order_def)
  then show ?thesis
    using auth_sum_wraps [OF l, of sample_extend "[]"] by (simp add: sample_auth_def sample_sub_order_def)
qed

end
