(* ===== verification/Payment_Service.thy ===== *)
theory Payment_Service
  imports Payment_Validate
begin

text \<open>
  The calls of atomefin/payment: the Service and its invoke and invokeGET, and Auth,
  Capture, ReAuth, VoidAuth, PaymentPlan, PaymentPreCheck and the four queries.  JSON
  encoding of a request and decoding of a response are arguments, as is the id that
  NewRequestID would return; a call that writes into the request returns it.
\<close>

section \<open>Service\<close>

text \<open>A *Service: None for nil, Some None for a Service whose client is nil.\<close>

type_synonym service = "client option option"

definition payment_New :: "client option \<Rightarrow> service" where
  "payment_New c = (case c of None \<Rightarrow> None | Some x \<Rightarrow> Some (Some x))"

definition service_Client :: "service \<Rightarrow> client option" where
  "service_Client s = (case s of None \<Rightarrow> None | Some c \<Rightarrow> c)"

definition checkConfigured :: "service \<Rightarrow> go_error option" where
  "checkConfigured s =
     (case s of
        None \<Rightarrow> Some (ValidationError ''service''
          (''nil *payment.Service (likely from payment.New(nil) '' @ [CHR 0xE2, CHR 0x80, CHR 0x94] @
           '' check the *atomefin.Client returned by atomefin.New)''))
      | Some None \<Rightarrow> Some (ValidationError ''service'' ''*payment.Service has nil *atomefin.Client'')
      | Some (Some c) \<Rightarrow> None)"

text \<open>\<open>in_json\<close> is MarshalSigning of the request, \<open>unmarshal\<close> json.Unmarshal into the response.\<close>

definition unmarshal_error :: "string \<Rightarrow> go_error \<Rightarrow> go_error" where
  "unmarshal_error op uerr =
     TransportError ''unmarshal'' op (Some (WrapError (''decode '' @ op @ '' response: '') uerr [])) False"

definition decode_response ::
  "(bytes \<Rightarrow> go_error + 'r) \<Rightarrow> string \<Rightarrow> event list \<times> (go_error + raw_response) \<Rightarrow> event list \<times> (go_error + 'r)" where
  "decode_response unmarshal op res =
     (case res of
        (evs, Inl err) \<Rightarrow> (evs, Inl err)
      | (evs, Inr resp) \<Rightarrow>
          (case unmarshal (Body resp) of
             Inl uerr \<Rightarrow> (evs, Inl (unmarshal_error op uerr))
           | Inr out \<Rightarrow> (evs, Inr out)))"

definition invoke ::
  "service \<Rightarrow> world \<Rightarrow> string \<Rightarrow> go_error + bytes \<Rightarrow> (bytes \<Rightarrow> go_error + 'r) \<Rightarrow> do_signed_option option list \<Rightarrow>
   event list \<times> (go_error + 'r)" where
  "invoke s w op in_json unmarshal opts =
     (if service_Client s = None then ([], Inl (ErrorString ''atomefin/payment: nil Service or Client''))
      else case in_json of
        Inl err \<Rightarrow> ([], Inl (SignatureError ''marshal'' (Some err)))
      | Inr body \<Rightarrow> decode_response unmarshal op (DoSigned (service_Client s) w ''POST'' op body opts))"

definition invokeGET ::
  "service \<Rightarrow> world \<Rightarrow> string \<Rightarrow> url_values \<Rightarrow> (bytes \<Rightarrow> go_error + 'r) \<Rightarrow> event list \<times> (go_error + 'r)" where
  "invokeGET s w op q unmarshal =
     (if service_Client s = None then ([], Inl (ErrorString ''atome-fin/payment: nil Service or Client''))
      else decode_response unmarshal op (DoSignedGET (service_Client s) w op q []))"

section \<open>Calls\<close>

definition sessionid_opts :: "string \<Rightarrow> do_signed_option option list" where
  "sessionid_opts sid = (if sid \<noteq> [] then [Some (WithRequestHeader ''sessionid'' sid)] else [])"

definition Auth ::
  "service \<Rightarrow> world \<Rightarrow> string \<Rightarrow> (auth_request \<Rightarrow> go_error + bytes) \<Rightarrow> (bytes \<Rightarrow> go_error + auth_response) \<Rightarrow>
   auth_request option \<Rightarrow> auth_request option \<times> event list \<times> (go_error + auth_response)" where
  "Auth s w newID marshal unmarshal reqp =
     (case checkConfigured s of
        Some err \<Rightarrow> (reqp, [], Inl err)
      | None \<Rightarrow>
          (case reqp of
             None \<Rightarrow> (None, [], Inl (ValidationError ''request'' ''nil AuthRequest''))
           | Some req0 \<Rightarrow>
               let req = (if ar_RequestID req0 = [] then req0\<lparr>ar_RequestID := newID\<rparr> else req0) in
               (case validateAuthRequest req of
                  Some err \<Rightarrow> (Some req, [], Inl err)
                | None \<Rightarrow>
                    (Some req, invoke s w ''/auth'' (marshal req) unmarshal (sessionid_opts (ar_Sessionid req))))))"

definition Capture ::
  "service \<Rightarrow> world \<Rightarrow> string \<Rightarrow> (capture_request \<Rightarrow> go_error + bytes) \<Rightarrow> (bytes \<Rightarrow> go_error + capture_response) \<Rightarrow>
   capture_request option \<Rightarrow> capture_request option \<times> event list \<times> (go_error + capture_response)" where
  "Capture s w newID marshal unmarshal reqp =
     (case checkConfigured s of
        Some err \<Rightarrow> (reqp, [], Inl err)
      | None \<Rightarrow>
          (case reqp of
             None \<Rightarrow> (None, [], Inl (ValidationError ''request'' ''nil CaptureRequest''))
           | Some req0 \<Rightarrow>
               let req = (if cr_RequestID req0 = [] then req0\<lparr>cr_RequestID := newID\<rparr> else req0) in
               (case validateCaptureRequest req of
                  Some err \<Rightarrow> (Some req, [], Inl err)
                | None \<Rightarrow> (Some req, invoke s w ''/capture'' (marshal req) unmarshal []))))"

definition ReAuth ::
  "service \<Rightarrow> world \<Rightarrow> string \<Rightarrow> (re_auth_request \<Rightarrow> go_error + bytes) \<Rightarrow> (bytes \<Rightarrow> go_error + re_auth_response) \<Rightarrow>
   re_auth_request option \<Rightarrow> re_auth_request option \<times> event list \<times> (go_error + re_auth_response)" where
  "ReAuth s w newID marshal unmarshal reqp =
     (case checkConfigured s of
        Some err \<Rightarrow> (reqp, [], Inl err)
      | None \<Rightarrow>
          (case reqp of
             None \<Rightarrow> (None, [], Inl (ValidationError ''request'' ''nil ReAuthRequest''))
           | Some req0 \<Rightarrow>
               let req = (if rar_RequestID req0 = [] then req0\<lparr>rar_RequestID := newID\<rparr> else req0) in
               (case validateReAuthRequest req of
                  Some err \<Rightarrow> (Some req, [], Inl err)
                | None \<Rightarrow> (Some req, invoke s w ''/reAuth'' (marshal req) unmarshal []))))"

definition VoidAuth ::
  "service \<Rightarrow> world \<Rightarrow> string \<Rightarrow> (void_auth_request \<Rightarrow> go_error + bytes) \<Rightarrow> (bytes \<Rightarrow> go_error + void_auth_response) \<Rightarrow>
   void_auth_request option \<Rightarrow> void_auth_request option \<times> event list \<times> (go_error + void_auth_response)" where
  "VoidAuth s w newID marshal unmarshal reqp =
     (case checkConfigured s of
        Some err \<Rightarrow> (reqp, [], Inl err)
      | None \<Rightarrow>
          (case reqp of
             None \<Rightarrow> (None, [], Inl (ValidationError ''request'' ''nil VoidAuthRequest''))
           | Some req0 \<Rightarrow>
               let req = (if var_RequestID req0 = [] then req0\<lparr>var_RequestID := newID\<rparr> else req0) in
               (case validateVoidAuthRequest req of
                  Some err \<Rightarrow> (Some req, [], Inl err)
                | None \<Rightarrow> (Some req, invoke s w ''/voidAuth'' (marshal req) unmarshal []))))"

text \<open>PaymentPlan and PaymentPreCheck spell out invoke's body.\<close>

definition marshal_and_send ::
  "service \<Rightarrow> world \<Rightarrow> string \<Rightarrow> go_error + bytes \<Rightarrow> (bytes \<Rightarrow> go_error + 'r) \<Rightarrow> do_signed_option option list \<Rightarrow>
   event list \<times> (go_error + 'r)" where
  "marshal_and_send s w op in_json unmarshal opts =
     (case in_json of
        Inl err \<Rightarrow> ([], Inl (SignatureError ''marshal'' (Some err)))
      | Inr body \<Rightarrow> decode_response unmarshal op (DoSigned (service_Client s) w ''POST'' op body opts))"

definition PaymentPlan ::
  "service \<Rightarrow> world \<Rightarrow> string \<Rightarrow> (payment_plan_request \<Rightarrow> go_error + bytes) \<Rightarrow>
   (bytes \<Rightarrow> go_error + payment_plan_response) \<Rightarrow> payment_plan_request option \<Rightarrow>
   payment_plan_request option \<times> event list \<times> (go_error + payment_plan_response)" where
  "PaymentPlan s w newID marshal unmarshal reqp =
     (case checkConfigured s of
        Some err \<Rightarrow> (reqp, [], Inl err)
      | None \<Rightarrow>
          (case reqp of
             None \<Rightarrow> (None, [], Inl (ValidationError ''request'' ''nil PaymentPlanRequest''))
           | Some req0 \<Rightarrow>
               let req = (if ppr_RequestID req0 = [] then req0\<lparr>ppr_RequestID := newID\<rparr> else req0) in
               (case validatePaymentPlanRequest req of
                  Some err \<Rightarrow> (Some req, [], Inl err)
                | None \<Rightarrow> (Some req, marshal_and_send s w ''/payment-plan'' (marshal req) unmarshal
                    (sessionid_opts (ppr_Sessionid req))))))"

definition PaymentPreCheck ::
  "service \<Rightarrow> world \<Rightarrow> string \<Rightarrow> (payment_pre_check_request \<Rightarrow> go_error + bytes) \<Rightarrow>
   (bytes \<Rightarrow> go_error + payment_pre_check_response) \<Rightarrow> payment_pre_check_request option \<Rightarrow>
   payment_pre_check_request option \<times> event list \<times> (go_error + payment_pre_check_response)" where
  "PaymentPreCheck s w newID marshal unmarshal reqp =
     (case checkConfigured s of
        Some err \<Rightarrow> (reqp, [], Inl err)
      | None \<Rightarrow>
          (case reqp of
             None \<Rightarrow> (None, [], Inl (ValidationError ''request'' ''nil PaymentPreCheckRequest''))
           | Some req0 \<Rightarrow>
               let req = (if ppcr_RequestID req0 = [] then req0\<lparr>ppcr_RequestID := newID\<rparr> else req0) in
               (case validatePaymentPreCheckRequest req of
                  (Some err, req') \<Rightarrow> (Some req', [], Inl err)
                | (None, req') \<Rightarrow> (Some req', marshal_and_send s w ''/payment-precheck'' (marshal req') unmarshal []))))"

text \<open>The four queries differ in their path and response type.\<close>

definition query_call ::
  "service \<Rightarrow> world \<Rightarrow> (bytes \<Rightarrow> go_error + 'r) \<Rightarrow> string \<Rightarrow> string \<Rightarrow> string \<Rightarrow> event list \<times> (go_error + 'r)" where
  "query_call s w unmarshal op requestID externalReferenceUID =
     (case first_error [checkConfigured s, validateQueryParams requestID externalReferenceUID] of
        Some err \<Rightarrow> ([], Inl err)
      | None \<Rightarrow> invokeGET s w op
          [(''requestId'', [requestID]), (''externalReferenceUid'', [externalReferenceUID])] unmarshal)"

definition QueryAuth ::
  "service \<Rightarrow> world \<Rightarrow> (bytes \<Rightarrow> go_error + auth_response) \<Rightarrow> string \<Rightarrow> string \<Rightarrow> event list \<times> (go_error + auth_response)" where
  "QueryAuth s w u r x = query_call s w u ''/query-auth'' r x"

definition QueryCapture ::
  "service \<Rightarrow> world \<Rightarrow> (bytes \<Rightarrow> go_error + capture_response) \<Rightarrow> string \<Rightarrow> string \<Rightarrow> event list \<times> (go_error + capture_response)" where
  "QueryCapture s w u r x = query_call s w u ''/query-capture'' r x"

definition QueryVoidAuth ::
  "service \<Rightarrow> world \<Rightarrow> (bytes \<Rightarrow> go_error + void_auth_response) \<Rightarrow> string \<Rightarrow> string \<Rightarrow> event list \<times> (go_error + void_auth_response)" where
  "QueryVoidAuth s w u r x = query_call s w u ''/query-voidAuth'' r x"

definition QueryReAuth ::
  "service \<Rightarrow> world \<Rightarrow> (bytes \<Rightarrow> go_error + re_auth_response) \<Rightarrow> string \<Rightarrow> string \<Rightarrow> event list \<times> (go_error + re_auth_response)" where
  "QueryReAuth s w u r x = query_call s w u ''/query-reAuth'' r x"

section \<open>Response classes\<close>

definition IsTerminal :: "string \<Rightarrow> bool" where "IsTerminal s = Status_IsTerminal s"
definition IsProcessing :: "string \<Rightarrow> bool" where "IsProcessing s \<longleftrightarrow> s = StatusProcessing"

definition auth_status :: "auth_response option \<Rightarrow> string" where
  "auth_status r = (case r of None \<Rightarrow> [] | Some x \<Rightarrow>
     (case arsp_Data x of None \<Rightarrow> [] | Some d \<Rightarrow> ad_Status d))"

definition AuthResponse_IsTerminal :: "auth_response option \<Rightarrow> bool" where
  "AuthResponse_IsTerminal r = (case r of None \<Rightarrow> False | Some x \<Rightarrow>
     (case arsp_Data x of None \<Rightarrow> False | Some d \<Rightarrow> Status_IsTerminal (ad_Status d)))"

definition AuthResponse_IsProcessing :: "auth_response option \<Rightarrow> bool" where
  "AuthResponse_IsProcessing r = (case r of None \<Rightarrow> False | Some x \<Rightarrow>
     (case arsp_Data x of None \<Rightarrow> False | Some d \<Rightarrow> ad_Status d = StatusProcessing))"

definition capture_status :: "capture_response option \<Rightarrow> string" where
  "capture_status r = (case r of None \<Rightarrow> [] | Some x \<Rightarrow>
     (case crsp_Data x of None \<Rightarrow> [] | Some d \<Rightarrow> pr_Status (crd_PaymentResult d)))"

definition CaptureResponse_IsTerminal :: "capture_response option \<Rightarrow> bool" where
  "CaptureResponse_IsTerminal r = (case r of None \<Rightarrow> False | Some x \<Rightarrow>
     (case crsp_Data x of None \<Rightarrow> False | Some d \<Rightarrow> Status_IsTerminal (pr_Status (crd_PaymentResult d))))"

definition CaptureResponse_IsProcessing :: "capture_response option \<Rightarrow> bool" where
  "CaptureResponse_IsProcessing r = (case r of None \<Rightarrow> False | Some x \<Rightarrow>
     (case crsp_Data x of None \<Rightarrow> False | Some d \<Rightarrow> pr_Status (crd_PaymentResult d) = StatusProcessing))"

definition ReAuthResponse_IsTerminal :: "re_auth_response option \<Rightarrow> bool" where
  "ReAuthResponse_IsTerminal r = (case r of None \<Rightarrow> False | Some x \<Rightarrow>
     (case rarsp_Data x of None \<Rightarrow> False | Some d \<Rightarrow> Status_IsTerminal (rard_Status d)))"

definition ReAuthResponse_IsSuccess :: "re_auth_response option \<Rightarrow> bool" where
  "ReAuthResponse_IsSuccess r = (case r of None \<Rightarrow> False | Some x \<Rightarrow>
     (case rarsp_Data x of None \<Rightarrow> False | Some d \<Rightarrow> rard_Status d = StatusSuccess))"

definition VoidAuthResponse_IsTerminal :: "void_auth_response option \<Rightarrow> bool" where
  "VoidAuthResponse_IsTerminal r = (case r of None \<Rightarrow> False | Some x \<Rightarrow>
     varsp_Code x = CodeSuccess \<and> varsp_Data x \<noteq> None)"

definition PaymentPreCheckResponse_IsEligible :: "payment_pre_check_response option \<Rightarrow> bool" where
  "PaymentPreCheckResponse_IsEligible r = (case r of None \<Rightarrow> False | Some x \<Rightarrow> ppcrsp_Code x = CodeSuccess)"

definition IsSyncRejection :: "string \<Rightarrow> string \<Rightarrow> bool" where
  "IsSyncRejection c status \<longleftrightarrow> c \<noteq> [] \<and> \<not> Code_IsSuccess c \<and> status = []"

section \<open>The contract of a submitting call\<close>

text \<open>
  Auth, Capture, ReAuth, VoidAuth, PaymentPlan and PaymentPreCheck share one shape: check the
  service, mint a missing request id, validate, encode, send.  \<open>prepare\<close> is the part
  before the encoding; it returns the request as the call leaves it.
\<close>

locale submit_call =
  fixes check :: "service \<Rightarrow> go_error option"
    and call :: "service \<Rightarrow> world \<Rightarrow> string \<Rightarrow> ('q \<Rightarrow> go_error + bytes) \<Rightarrow> (bytes \<Rightarrow> go_error + 'r) \<Rightarrow>
      'q option \<Rightarrow> 'q option \<times> event list \<times> (go_error + 'r)"
    and prepare :: "string \<Rightarrow> 'q \<Rightarrow> go_error option \<times> 'q"
    and path :: string
    and opts :: "'q \<Rightarrow> do_signed_option option list"
  assumes configured: "check s = None \<Longrightarrow> \<exists>c. s = Some (Some c)"
    and unconfigured: "check s = Some e \<Longrightarrow> call s w i m u p = (p, [], Inl e)"
    and nil_request: "check s = None \<Longrightarrow> \<exists>t. call s w i m u None = (None, [], Inl (ValidationError ''request'' t))"
    and refused: "check s = None \<Longrightarrow> prepare i q = (Some e, q') \<Longrightarrow> call s w i m u (Some q) = (Some q', [], Inl e)"
    and accepted: "check s = None \<Longrightarrow> prepare i q = (None, q') \<Longrightarrow>
      call s w i m u (Some q) = (Some q', marshal_and_send s w path (m q') u (opts q'))"
begin

lemma sent_prepared:
  assumes "call s w i m u p = (p', evs, r)" "sent_requests evs \<noteq> []"
  obtains c q q' body where "s = Some (Some c)" "p = Some q" "p' = Some q'" "prepare i q = (None, q')"
    "m q' = Inr body" "(evs, r) = decode_response u path (DoSigned (Some c) w ''POST'' path body (opts q'))"
proof -
  have cfg: "check s = None"
    using assms unconfigured by (cases "check s") auto
  then obtain c where c: "s = Some (Some c)" using configured by blast
  obtain q where q: "p = Some q"
    using assms nil_request [OF cfg, of w i m u] by (cases p) auto
  obtain e q' where pr: "prepare i q = (e, q')" by fastforce
  have e: "e = None" using assms q pr refused [OF cfg] by (cases e) auto
  then have sent: "p' = Some q'" "(evs, r) = marshal_and_send s w path (m q') u (opts q')"
    using assms(1) q pr accepted [OF cfg, of i q q' w m u] by auto
  obtain body where body: "m q' = Inr body"
    using sent(2) assms(2) by (cases "m q'") (auto simp: marshal_and_send_def)
  with sent c show thesis
    using that [OF c q sent(1)] pr e by (simp add: marshal_and_send_def service_Client_def)
qed

end

text \<open>A call whose request carries an id: the id is filled in once, and what was prepared stays as it is.\<close>

locale idempotent_call = submit_call check call prepare path opts
  for check and call :: "service \<Rightarrow> world \<Rightarrow> string \<Rightarrow> ('q \<Rightarrow> go_error + bytes) \<Rightarrow> (bytes \<Rightarrow> go_error + 'r) \<Rightarrow>
      'q option \<Rightarrow> 'q option \<times> event list \<times> (go_error + 'r)"
    and prepare :: "string \<Rightarrow> 'q \<Rightarrow> go_error option \<times> 'q" and path and opts :: "'q \<Rightarrow> do_signed_option option list" +
  fixes rid :: "'q \<Rightarrow> string"
  assumes fills_id: "rid (snd (prepare i q)) = (if rid q = [] then i else rid q)"
    and settles: "prepare i q = (None, q') \<Longrightarrow> rid q' \<noteq> [] \<Longrightarrow> prepare j q' = (None, q')"
    and stays_refused: "prepare i q = (Some e, q') \<Longrightarrow> rid q' \<noteq> [] \<Longrightarrow> fst (prepare j q') \<noteq> None"
begin

lemma resubmit:
  assumes "call s w i m u (Some q) = (Some q', evs, r)" "fst (prepare j q') = None" "rid q' \<noteq> []"
  shows "call s w j m u (Some q') = (Some q', evs, r)"
proof (cases "check s")
  case None
  obtain e x where pr: "prepare i q = (e, x)" by fastforce
  have x: "x = q'" using assms(1) pr accepted [OF None, of i q] refused [OF None, of i q] by (cases e) auto
  have e: "prepare i q = (None, q')" using pr x stays_refused [of i q _ q' j] assms(2,3) by (cases e) auto
  from accepted [OF None e] accepted [OF None settles [OF e assms(3)]] show ?thesis
    using assms(1) by simp
next
  case (Some e)
  then show ?thesis using assms(1) unconfigured [OF Some] by simp
qed

lemma keeps_identified:
  assumes "rid q \<noteq> []" "\<And>i q' e. rid q \<noteq> [] \<Longrightarrow> prepare i q = (e, q') \<Longrightarrow> q' = q"
  shows "fst (call s w i m u (Some q)) = Some q"
proof (cases "check s")
  case None
  obtain e q' where pr: "prepare i q = (e, q')" by fastforce
  with assms have "q' = q" by blast
  then show ?thesis using pr accepted [OF None, of i q q] refused [OF None, of i q] by (cases e) auto
qed (simp add: unconfigured)

end

text \<open>The preparation of each call, and the six instances of the contract.\<close>

definition prepare_auth :: "string \<Rightarrow> auth_request \<Rightarrow> go_error option \<times> auth_request" where
  "prepare_auth i q = (let req = (if ar_RequestID q = [] then q\<lparr>ar_RequestID := i\<rparr> else q) in (validateAuthRequest req, req))"

definition prepare_capture :: "string \<Rightarrow> capture_request \<Rightarrow> go_error option \<times> capture_request" where
  "prepare_capture i q = (let req = (if cr_RequestID q = [] then q\<lparr>cr_RequestID := i\<rparr> else q) in (validateCaptureRequest req, req))"

definition prepare_reauth :: "string \<Rightarrow> re_auth_request \<Rightarrow> go_error option \<times> re_auth_request" where
  "prepare_reauth i q = (let req = (if rar_RequestID q = [] then q\<lparr>rar_RequestID := i\<rparr> else q) in (validateReAuthRequest req, req))"

definition prepare_void :: "string \<Rightarrow> void_auth_request \<Rightarrow> go_error option \<times> void_auth_request" where
  "prepare_void i q = (let req = (if var_RequestID q = [] then q\<lparr>var_RequestID := i\<rparr> else q) in (validateVoidAuthRequest req, req))"

definition prepare_plan :: "string \<Rightarrow> payment_plan_request \<Rightarrow> go_error option \<times> payment_plan_request" where
  "prepare_plan i q = (let req = (if ppr_RequestID q = [] then q\<lparr>ppr_RequestID := i\<rparr> else q) in (validatePaymentPlanRequest req, req))"

definition prepare_precheck :: "string \<Rightarrow> payment_pre_check_request \<Rightarrow> go_error option \<times> payment_pre_check_request" where
  "prepare_precheck i q = validatePaymentPreCheckRequest (if ppcr_RequestID q = [] then q\<lparr>ppcr_RequestID := i\<rparr> else q)"

lemma invoke_configured: "checkConfigured s = None \<Longrightarrow> invoke s w op b u opts = marshal_and_send s w op b u opts"
  by (auto simp: checkConfigured_def invoke_def marshal_and_send_def service_Client_def split: option.splits)

lemma effective_period_idem [simp]: "effective_period (effective_period p orders) orders = effective_period p orders"
  by (auto simp: effective_period_def split: option.split)

lemma precheck_request: "snd (validatePaymentPreCheckRequest q) = q \<or>
    snd (validatePaymentPreCheckRequest q) =
      q\<lparr>ppcr_PeriodType := effective_period (ppcr_PeriodType q) (ppcr_SubOrders q)\<rparr>"
  by (simp add: validatePaymentPreCheckRequest_def Let_def split: option.split)

lemma precheck_keeps_id [simp]: "ppcr_RequestID (snd (validatePaymentPreCheckRequest q)) = ppcr_RequestID q"
  using precheck_request [of q] by auto

lemma precheck_settles:
  assumes "validatePaymentPreCheckRequest q = (None, q')"
  shows "validatePaymentPreCheckRequest q' = (None, q')"
proof -
  have q': "q' = q\<lparr>ppcr_PeriodType := effective_period (ppcr_PeriodType q) (ppcr_SubOrders q)\<rparr>"
    using assms by (auto simp: validatePaymentPreCheckRequest_def Let_def split: option.splits)
  show ?thesis using assms unfolding q'
    by (simp add: validatePaymentPreCheckRequest_def Let_def first_error_None_iff split: option.splits)
qed

lemma precheck_refused_again:
  "fst (validatePaymentPreCheckRequest (snd (validatePaymentPreCheckRequest q))) = None \<Longrightarrow>
     fst (validatePaymentPreCheckRequest q) = None"
  by (auto simp: validatePaymentPreCheckRequest_def Let_def first_error_None_iff split: option.splits)

lemma precheck_stays_refused:
  "validatePaymentPreCheckRequest q = (Some e, q') \<Longrightarrow> fst (validatePaymentPreCheckRequest q') \<noteq> None"
  using precheck_refused_again [of q] by auto

lemma checkConfigured_None: "checkConfigured s = None \<Longrightarrow> \<exists>c. s = Some (Some c)"
  by (auto simp: checkConfigured_def split: option.splits)

lemmas call_defs = checkConfigured_None invoke_configured Let_def split_beta

interpretation auth: idempotent_call checkConfigured Auth prepare_auth "''/auth''" "\<lambda>q. sessionid_opts (ar_Sessionid q)" ar_RequestID
  by unfold_locales (auto simp: Auth_def prepare_auth_def call_defs)

interpretation capture: idempotent_call checkConfigured Capture prepare_capture "''/capture''" "\<lambda>q. []" cr_RequestID
  by unfold_locales (auto simp: Capture_def prepare_capture_def call_defs)

interpretation reauth: idempotent_call checkConfigured ReAuth prepare_reauth "''/reAuth''" "\<lambda>q. []" rar_RequestID
  by unfold_locales (auto simp: ReAuth_def prepare_reauth_def call_defs)

interpretation void: idempotent_call checkConfigured VoidAuth prepare_void "''/voidAuth''" "\<lambda>q. []" var_RequestID
  by unfold_locales (auto simp: VoidAuth_def prepare_void_def call_defs)

interpretation plan: idempotent_call checkConfigured PaymentPlan prepare_plan "''/payment-plan''" "\<lambda>q. sessionid_opts (ppr_Sessionid q)" ppr_RequestID
  by unfold_locales (auto simp: PaymentPlan_def prepare_plan_def call_defs)

interpretation precheck: idempotent_call checkConfigured PaymentPreCheck prepare_precheck "''/payment-precheck''" "\<lambda>q. []" ppcr_RequestID
  by unfold_locales (auto simp: PaymentPreCheck_def prepare_precheck_def precheck_settles precheck_stays_refused call_defs)

section \<open>What the calls send\<close>

text \<open>All requests of the trace are one POST of \<open>body\<close> to \<open>path\<close>, signed over that body.\<close>

definition signed_post :: "client \<Rightarrow> world \<Rightarrow> string \<Rightarrow> bytes \<Rightarrow> http_request \<Rightarrow> event list \<Rightarrow> bool" where
  "signed_post c w path body rq evs \<longleftrightarrow>
     (\<exists>sig. Sign (signer c) (w_ctx_sign w) body = Inr sig \<and>
        header_get ''Authorization'' (rq_header rq) = authScheme c sig (KeyID (signer c))) \<and>
     (\<exists>k \<le> nat (MaxAttempts (retry c)). sent_requests evs = replicate k rq) \<and>
     rq_method rq = ''POST'' \<and> rq_url rq = baseURL c @ path \<and> rq_body rq = body"

lemma decode_response_fst [simp]: "fst (decode_response u op d) = fst d"
  by (auto simp: decode_response_def split: prod.split sum.split)

lemma sent_signed_post:
  assumes "(evs, r) = decode_response u path (DoSigned (Some c) w ''POST'' path body opts)" "sent_requests evs \<noteq> []"
  obtains a where "signed_post c w path body (finish_request c a (extra_headers opts [])
     \<lparr>rq_method = ''POST'', rq_url = baseURL c @ path, rq_query = [], rq_header = [], rq_body = body\<rparr>) evs"
proof -
  obtain r' where d: "DoSigned (Some c) w ''POST'' path body opts = (evs, r')"
    using assms(1) decode_response_fst [of u path "DoSigned (Some c) w ''POST'' path body opts"] by (metis fst_conv prod.collapse)
  have x: "canonical_keys (extra_headers opts [])" by (simp add: canonical_keys_extra)
  show thesis
  proof (rule DoSigned_sends [OF d assms(2)])
    fix sig k
    assume "Sign (signer c) (w_ctx_sign w) body = Inr sig" "k \<le> nat (MaxAttempts (retry c))"
      "sent_requests evs = replicate k (finish_request c (authScheme c sig (KeyID (signer c))) (extra_headers opts [])
         \<lparr>rq_method = ''POST'', rq_url = baseURL c @ path, rq_query = [], rq_header = [], rq_body = body\<rparr>)"
    then show thesis
      by (intro that [of "authScheme c sig (KeyID (signer c))"])
        (auto simp: signed_post_def header_get_finish [OF x], simp_all add: finish_request_def)
  qed
qed

lemma sessionid_header:
  assumes "sid \<noteq> []"
  shows "header_get ''sessionid'' (rq_header (finish_request c a (extra_headers (sessionid_opts sid) []) req)) = sid"
proof -
  have k: "CanonicalHeaderKey ''sessionid'' = ''Sessionid''" by simp
  have x: "extra_headers (sessionid_opts sid) [] = [(''Sessionid'', [sid])]"
    using assms by (simp add: sessionid_opts_def WithRequestHeader_def header_set_def k)
  have k2: "CanonicalHeaderKey ''Sessionid'' = ''Sessionid''" by simp
  have nr: "\<not> isReservedHeader ''Sessionid''" by (simp add: isReservedHeader_def k2)
  show ?thesis unfolding x
    by (simp add: finish_request_def nr k k2 header_get_def update_conv')
qed

lemma prepare_valid:
  "prepare_auth i q = (None, q') \<Longrightarrow> validateAuthRequest q' = None"
  "prepare_capture i qc = (None, qc') \<Longrightarrow> validateCaptureRequest qc' = None"
  "prepare_reauth i qr = (None, qr') \<Longrightarrow> validateReAuthRequest qr' = None"
  "prepare_void i qv = (None, qv') \<Longrightarrow> validateVoidAuthRequest qv' = None"
  "prepare_plan i qp = (None, qp') \<Longrightarrow> validatePaymentPlanRequest qp' = None"
  "prepare_precheck i qk = (None, qk') \<Longrightarrow> validatePaymentPreCheckRequest qk' = (None, qk')"
  by (auto simp: prepare_auth_def prepare_capture_def prepare_reauth_def prepare_void_def prepare_plan_def
      prepare_precheck_def Let_def precheck_settles)

section \<open>Properties\<close>

text \<open>C5. An authorisation reaches the network only when its request, with the minted id where the
  caller gave none, passes the validator; then every request sent is one POST to /auth with the
  encoding of that very request as its body, the signature of that body in the Authorization
  header, and the caller's session id, when there is one, in the sessionid header.\<close>
theorem Auth_sends_validated:
  assumes "Auth s w newID marshal unmarshal p = (p', evs, r)" "sent_requests evs \<noteq> []"
  shows "\<exists>c q q' body rq. s = Some (Some c) \<and> p = Some q \<and> p' = Some q' \<and>
     q' = q\<lparr>ar_RequestID := if ar_RequestID q = [] then newID else ar_RequestID q\<rparr> \<and>
     validateAuthRequest q' = None \<and> marshal q' = Inr body \<and> signed_post c w ''/auth'' body rq evs \<and>
     (ar_Sessionid q' \<noteq> [] \<longrightarrow> header_get ''sessionid'' (rq_header rq) = ar_Sessionid q')"
proof (rule auth.sent_prepared [OF assms])
  fix c q q' body
  assume h: "s = Some (Some c)" "p = Some q" "p' = Some q'" "prepare_auth newID q = (None, q')" "marshal q' = Inr body"
    and d: "(evs, r) = decode_response unmarshal ''/auth''
      (DoSigned (Some c) w ''POST'' ''/auth'' body (sessionid_opts (ar_Sessionid q')))"
  have "q' = q\<lparr>ar_RequestID := if ar_RequestID q = [] then newID else ar_RequestID q\<rparr>"
    using h(4) by (auto simp: prepare_auth_def Let_def)
  moreover obtain a where "signed_post c w ''/auth'' body
      (finish_request c a (extra_headers (sessionid_opts (ar_Sessionid q')) [])
       \<lparr>rq_method = ''POST'', rq_url = baseURL c @ ''/auth'', rq_query = [], rq_header = [], rq_body = body\<rparr>) evs"
    by (rule sent_signed_post [OF d assms(2)])
  ultimately show ?thesis using h prepare_valid(1) [OF h(4)] sessionid_header by blast
qed

text \<open>The other submitting calls send nothing but validated requests too: a capture, a
  re-authorisation, a void, a payment plan or a precheck that reaches the network was accepted by
  its validator as the call left it, and each request sent is one POST to the call's path whose
  signed body is the encoding of that request.\<close>
theorem calls_send_validated:
  assumes "sent_requests evs \<noteq> []"
  shows "(Capture (Some (Some c)) w newID mc uc pc = (pc', evs, rc) \<longrightarrow>
     (\<exists>q body rq. pc' = Some q \<and> validateCaptureRequest q = None \<and> mc q = Inr body \<and>
        signed_post c w ''/capture'' body rq evs)) \<and>
    (ReAuth (Some (Some c)) w newID mr ur pr = (pr', evs, rr) \<longrightarrow>
     (\<exists>q body rq. pr' = Some q \<and> validateReAuthRequest q = None \<and> mr q = Inr body \<and>
        signed_post c w ''/reAuth'' body rq evs)) \<and>
    (VoidAuth (Some (Some c)) w newID mv uv pv = (pv', evs, rv) \<longrightarrow>
     (\<exists>q body rq. pv' = Some q \<and> validateVoidAuthRequest q = None \<and> mv q = Inr body \<and>
        signed_post c w ''/voidAuth'' body rq evs)) \<and>
    (PaymentPlan (Some (Some c)) w newID mp up pp = (pp', evs, rp) \<longrightarrow>
     (\<exists>q body rq. pp' = Some q \<and> validatePaymentPlanRequest q = None \<and> mp q = Inr body \<and>
        signed_post c w ''/payment-plan'' body rq evs)) \<and>
    (PaymentPreCheck (Some (Some c)) w newID mk uk pk = (pk', evs, rk) \<longrightarrow>
     (\<exists>q body rq. pk' = Some q \<and> validatePaymentPreCheckRequest q = (None, q) \<and> mk q = Inr body \<and>
        signed_post c w ''/payment-precheck'' body rq evs))"
  using prepare_valid(2-) by (intro conjI impI)
    (erule capture.sent_prepared reauth.sent_prepared void.sent_prepared plan.sent_prepared precheck.sent_prepared,
     rule assms, erule sent_signed_post, rule assms, simp, blast)+



lemma sample_post:
  assumes "\<not> bad_path path"
  obtains evs rq where "DoSigned (Some sample_client) sample_world ''POST'' path body opts =
     (evs, Inr \<lparr>StatusCode = 200, Header = [], Body = ''ok''\<rparr>)" "sent_requests evs = [rq, rq]"
proof -
  let ?u = "''https://h'' @ path" and ?x = "extra_headers opts []"
  let ?b = "post_request sample_world ''POST'' ?u body"
  let ?rq = "\<lparr>rq_method = ''POST'', rq_url = ?u, rq_query = [], rq_header = [], rq_body = body\<rparr>"
  have "DoSigned (Some sample_client) sample_world ''POST'' path body opts =
      dispatch_loop sample_client sample_world path ?u (''sig:'' @ body) ?x ?b 1 None"
    using assms by (simp add: DoSigned_def Let_def signAndDispatch_def sample_client_fields sample_signer_def
        sample_world_def SchemeRawBase64_def)
  moreover have "?b 1 = Inr ?rq" "?b 2 = Inr ?rq" by (simp_all add: post_request_def sample_world_def)
  ultimately show thesis
    using that sample_run [where b = ?b and op = path and u = ?u and a = "''sig:'' @ body" and x = ?x and l = None]
    by (metis prod.collapse)
qed

theorem Auth_sends_validated_witness:
  "\<exists>evs rq. fst (snd (Auth (Some (Some sample_client)) sample_world ''new'' (\<lambda>q. Inr (ar_RequestID q))
        (\<lambda>b. Inl (ErrorString b)) (Some (sample_auth 20000 [15000, 5000])))) = evs \<and>
     signed_post sample_client sample_world ''/auth'' ''r1'' rq evs \<and>
     header_get ''sessionid'' (rq_header rq) = ''sess''"
proof -
  let ?q = "sample_auth 20000 [15000, 5000]" and ?m = "\<lambda>q. Inr (ar_RequestID q)"
  have v: "validateAuthRequest ?q = None" by (rule sample_auth_accepted) simp_all
  have i: "ar_RequestID ?q = ''r1''" "ar_Sessionid ?q = ''sess''" by (simp_all add: sample_auth_def)
  have np: "\<not> bad_path ''/auth''" by (simp add: bad_path_def)
  obtain evs rq0 where d: "DoSigned (Some sample_client) sample_world ''POST'' ''/auth'' ''r1'' (sessionid_opts ''sess'') =
      (evs, Inr \<lparr>StatusCode = 200, Header = [], Body = ''ok''\<rparr>)" "sent_requests evs = [rq0, rq0]"
    by (rule sample_post [OF np])
  obtain r where a: "Auth (Some (Some sample_client)) sample_world ''new'' ?m (\<lambda>b. Inl (ErrorString b)) (Some ?q) = (Some ?q, evs, r)"
    using v i d(1) by (simp add: Auth_def checkConfigured_def invoke_def service_Client_def decode_response_def)
  have "sent_requests evs \<noteq> []" using d(2) by simp
  from Auth_sends_validated [OF a this] i show ?thesis using a by (auto simp: sample_auth_def)
qed

definition sample_void :: void_auth_request where
  "sample_void = \<lparr>var_RequestID = [], var_ExternalReferenceUID = ''u'', var_AuthOrderID = ''a1''\<rparr>"

lemma sample_void_run:
  obtains evs rq r where "sent_requests evs = [rq, rq]"
    "VoidAuth (Some (Some sample_client)) sample_world ''v1'' (\<lambda>q. Inr (var_RequestID q)) (\<lambda>b. Inl (ErrorString b)) (Some sample_void) =
      (Some (sample_void\<lparr>var_RequestID := ''v1''\<rparr>), evs, r)"
    "validateVoidAuthRequest (sample_void\<lparr>var_RequestID := ''v1''\<rparr>) = None"
proof -
  have np: "\<not> bad_path ''/voidAuth''" by (simp add: bad_path_def)
  obtain evs rq where d: "DoSigned (Some sample_client) sample_world ''POST'' ''/voidAuth'' ''v1'' [] =
      (evs, Inr \<lparr>StatusCode = 200, Header = [], Body = ''ok''\<rparr>)" "sent_requests evs = [rq, rq]"
    by (rule sample_post [OF np])
  have v: "validateVoidAuthRequest (sample_void\<lparr>var_RequestID := ''v1''\<rparr>) = None"
    by (simp add: validateVoidAuthRequest_def sample_void_def fail_if_def)
  show thesis
    using v d(1) by (intro that [OF d(2) _ v])
      (auto simp: VoidAuth_def checkConfigured_def invoke_def service_Client_def decode_response_def sample_void_def)
qed

theorem calls_send_validated_witness:
  "\<exists>q evs body rq. fst (VoidAuth (Some (Some sample_client)) sample_world ''v1'' (\<lambda>q. Inr (var_RequestID q))
       (\<lambda>b. Inl (ErrorString b)) (Some sample_void)) = Some q \<and> validateVoidAuthRequest q = None \<and>
     signed_post sample_client sample_world ''/voidAuth'' body rq evs \<and> sent_requests evs \<noteq> []"
proof (rule sample_void_run)
  fix evs rq r
  assume s: "sent_requests evs = [rq, rq]"
    and v: "VoidAuth (Some (Some sample_client)) sample_world ''v1'' (\<lambda>q. Inr (var_RequestID q)) (\<lambda>b. Inl (ErrorString b)) (Some sample_void) =
      (Some (sample_void\<lparr>var_RequestID := ''v1''\<rparr>), evs, r)"
  have "sent_requests evs \<noteq> []" using s by simp
  with calls_send_validated [OF this] v show ?thesis by (metis fst_conv)
qed


end
