(* ===== verification/Poll.thy ===== *)
theory Poll
  imports Payment_Service
begin

text \<open>
  The polling loop of atomefin/payment/payment.go and its two uses,
  AuthPollUntilTerminal and CapturePollUntilTerminal.  Time is an int of nanoseconds;
  the clock moves only while a round's call is under way and while the loop sleeps.
  The loop may run for ever, so it is a partial function whose None is non-termination;
  the product float64(delay) * Multiplier, converted to a Duration, is the argument
  \<open>scale\<close> (its result out of range is left to the implementation by Go).
\<close>

section \<open>Durations as text\<close>

text \<open>time.Duration.String, of a duration that is not negative.\<close>

fun strip_zeros :: "string \<Rightarrow> string" where
  "strip_zeros [] = []"
| "strip_zeros (c # cs) = (let r = strip_zeros cs in if c = CHR ''0'' \<and> r = [] then [] else c # r)"

definition pad_digits :: "nat \<Rightarrow> nat \<Rightarrow> string" where
  "pad_digits n v = (let s = itoa (int v) in replicate (n - length s) CHR ''0'' @ s)"

text \<open>\<open>v\<close> over 10 to the \<open>prec\<close>, the trailing zeros of the fraction left out.\<close>

definition fmt_frac :: "nat \<Rightarrow> nat \<Rightarrow> string" where
  "fmt_frac v prec =
     (let f = strip_zeros (pad_digits prec (v mod 10 ^ prec))
      in itoa (int (v div 10 ^ prec)) @ (if f = [] then [] else CHR ''.'' # f))"

definition Duration_String :: "nat \<Rightarrow> string" where
  "Duration_String d =
     (if d = 0 then ''0s''
      else if d < 1000 then itoa (int d) @ ''ns''
      else if d < 1000000 then fmt_frac d 3 @ [CHR 0xC2, CHR 0xB5, CHR ''s'']
      else if d < 1000000000 then fmt_frac d 6 @ ''ms''
      else
        let secs = d div 1000000000; mins = secs div 60;
            tail = fmt_frac (d mod 60000000000) 9 @ ''s''
        in if mins = 0 then tail
           else if mins < 60 then itoa (int mins) @ ''m'' @ tail
           else itoa (int (mins div 60)) @ ''h'' @ itoa (int (mins mod 60)) @ ''m'' @ tail)"

text \<open>Duration.Round to a millisecond: halves away from zero.\<close>

definition round_ms :: "nat \<Rightarrow> nat" where
  "round_ms d = (let r = d mod 1000000 in if r + r < 1000000 then d - r else d + (1000000 - r))"

section \<open>Options and trace\<close>

record poll_options =
  MaxWait :: duration
  InitialDelay :: duration
  MaxDelay :: duration
  Multiplier :: float64

definition withDefaults :: "poll_options \<Rightarrow> poll_options" where
  "withDefaults p =
     p\<lparr>MaxWait := (if sint (MaxWait p) \<le> 0 then 30 * second else MaxWait p),
       InitialDelay := (if sint (InitialDelay p) \<le> 0 then 250 * millisecond else InitialDelay p),
       MaxDelay := (if sint (MaxDelay p) \<le> 0 then 8 * second else MaxDelay p),
       Multiplier := (if float_less (Multiplier p) (Finite 1) then Finite 2 else Multiplier p)\<rparr>"

text \<open>A log value, a log line, and PollTrace; \<open>pt_Logger\<close> tells whether there is a Logger.\<close>

datatype log_value = LStr string | LInt int | LDur int | LErr go_error

record log_line =
  ll_level :: log_level
  ll_msg :: string
  ll_fields :: "(string \<times> log_value) list"

record 'r poll_trace =
  pt_Logger :: bool
  pt_Op :: string
  pt_RequestID :: string
  pt_Code :: "('r \<Rightarrow> string \<times> string) option"

section \<open>The world of a poll\<close>

text \<open>
  \<open>pw_start\<close> is the time of the call.  The caller's context is done from
  \<open>pw_done\<close> on (None: never), with \<open>pw_err\<close> its Err and \<open>pw_cause\<close> its Cause.
  Round n of \<open>once\<close> returns \<open>pw_once n\<close> after \<open>pw_took n\<close>.  \<open>pw_tie n\<close> is the
  choice of the select in round n's sleep when the timer and the context fire together.
\<close>

record 'r poll_world =
  pw_start :: int
  pw_done :: "int option"
  pw_err :: go_error
  pw_cause :: "go_error option"
  pw_once :: "nat \<Rightarrow> 'r option \<times> go_error option"
  pw_took :: "nat \<Rightarrow> nat"
  pw_tie :: "nat \<Rightarrow> bool"

definition parent_Err :: "'r poll_world \<Rightarrow> int \<Rightarrow> go_error option" where
  "parent_Err w t = (case pw_done w of None \<Rightarrow> None | Some d \<Rightarrow> if d \<le> t then Some (pw_err w) else None)"

text \<open>When pollCtx, the caller's context with the timeout MaxWait, is done.\<close>

definition poll_deadline :: "'r poll_world \<Rightarrow> poll_options \<Rightarrow> int" where
  "poll_deadline w o' = pw_start w + sint (MaxWait o')"

definition poll_done_at :: "'r poll_world \<Rightarrow> poll_options \<Rightarrow> int" where
  "poll_done_at w o' = (case pw_done w of None \<Rightarrow> poll_deadline w o' | Some d \<Rightarrow> min d (poll_deadline w o'))"

definition poll_ctx_done :: "'r poll_world \<Rightarrow> poll_options \<Rightarrow> int \<Rightarrow> bool" where
  "poll_ctx_done w o' t \<longleftrightarrow> poll_done_at w o' \<le> t"

text \<open>The time at which the sleep ends and whether it was cut short by the context.\<close>

definition sleepWithCtx :: "'r poll_world \<Rightarrow> poll_options \<Rightarrow> nat \<Rightarrow> int \<Rightarrow> duration \<Rightarrow> int \<times> bool" where
  "sleepWithCtx w o' n t d =
     (if sint d \<le> 0 then (t, False)
      else let stop = max t (poll_done_at w o') in
        if t + sint d < stop then (t + sint d, False)
        else if t + sint d = stop then (stop, pw_tie w n)
        else (stop, True))"

section \<open>The loop\<close>

definition poll_fields ::
  "'r poll_trace \<Rightarrow> ('r \<Rightarrow> string) \<Rightarrow> 'r poll_world \<Rightarrow> nat \<Rightarrow> int \<Rightarrow> 'r option \<Rightarrow> (string \<times> log_value) list \<Rightarrow>
   (string \<times> log_value) list" where
  "poll_fields trace getStatus w rnd t resp extra =
     [(''op'', LStr (pt_Op trace)), (''request_id'', LStr (pt_RequestID trace)),
      (''round'', LInt (int rnd)), (''elapsed'', LDur (t - pw_start w))] @
     (case resp of None \<Rightarrow> []
      | Some r \<Rightarrow> (''status'', LStr (getStatus r)) #
          (case pt_Code trace of None \<Rightarrow> []
           | Some f \<Rightarrow> [(''code'', LStr (fst (f r))), (''message'', LStr (snd (f r)))])) @ extra"

definition log_at :: "'r poll_trace \<Rightarrow> log_level \<Rightarrow> string \<Rightarrow> (string \<times> log_value) list \<Rightarrow> log_line list" where
  "log_at trace lvl msg kv =
     (if pt_Logger trace then [\<lparr>ll_level = lvl, ll_msg = msg, ll_fields = kv\<rparr>] else [])"

definition poll_target :: "'r poll_trace \<Rightarrow> string" where
  "poll_target trace = (if pt_Op trace = [] then ''payment.PollUntilTerminal'' else pt_Op trace)"

definition pollError ::
  "'r poll_trace \<Rightarrow> ('r \<Rightarrow> string) \<Rightarrow> 'r poll_world \<Rightarrow> poll_options \<Rightarrow> nat \<Rightarrow> int \<Rightarrow> 'r option \<Rightarrow>
   log_line list \<times> go_error" where
  "pollError trace getStatus w o' rnd t lastResp =
     (case parent_Err w t of
        Some err \<Rightarrow>
          let wrapped = WrapError (''caller context done after '' @ itoa (int rnd) @ '' round(s), '' @
                Duration_String (round_ms (nat (t - pw_start w))) @
                '' elapsed (cancelled or deadlined outside the SDK): '') err [];
              full = (case pw_cause w of
                 Some cause \<Rightarrow> if cause \<noteq> err then WrapErrors wrapped '' (cause: '' cause '')'' else wrapped
               | None \<Rightarrow> wrapped)
          in (log_at trace Warn ''atomefin: poll stopped''
                (poll_fields trace getStatus w rnd t lastResp [(''reason'', LStr ''parent_context_done''), (''err'', LErr err)]),
              TransportError ''poll'' (poll_target trace) (Some full) False)
      | None \<Rightarrow>
          (log_at trace Warn ''atomefin: poll stopped''
             (poll_fields trace getStatus w rnd t lastResp
               [(''reason'', LStr ''max_wait_exceeded''), (''max_wait'', LDur (sint (MaxWait o')))]),
           TransportError ''poll'' (poll_target trace)
             (Some (WrapError (''max wait '' @ Duration_String (nat (sint (MaxWait o'))) @ '' exceeded: '')
                ContextDeadlineExceeded [])) False))"

text \<open>What a poll leaves: the number of rounds, the time, the log, and its two results.\<close>

record 'r poll_result =
  po_rounds :: nat
  po_time :: int
  po_log :: "log_line list"
  po_resp :: "'r option"
  po_error :: "go_error option"

definition poll_stopped ::
  "'r poll_trace \<Rightarrow> ('r \<Rightarrow> string) \<Rightarrow> 'r poll_world \<Rightarrow> poll_options \<Rightarrow> nat \<Rightarrow> int \<Rightarrow> log_line list \<Rightarrow>
   'r option \<Rightarrow> 'r poll_result" where
  "poll_stopped trace getStatus w o' rnd t lg resp =
     (let (lines, err) = pollError trace getStatus w o' rnd t resp in
      \<lparr>po_rounds = rnd, po_time = t, po_log = lg @ lines, po_resp = resp, po_error = Some err\<rparr>)"

text \<open>One iteration: the result of the poll, or the time, delay and response the next one starts from.\<close>

definition poll_next_delay :: "(duration \<Rightarrow> float64 \<Rightarrow> duration) \<Rightarrow> poll_options \<Rightarrow> duration \<Rightarrow> duration" where
  "poll_next_delay scale o' delay =
     (let next = scale delay (Multiplier o') in if sint (MaxDelay o') < sint next then MaxDelay o' else next)"

definition poll_round ::
  "'r poll_trace \<Rightarrow> ('r \<Rightarrow> string) \<Rightarrow> ('r option \<Rightarrow> (string \<times> string) option) option \<Rightarrow>
   (duration \<Rightarrow> float64 \<Rightarrow> duration) \<Rightarrow> 'r poll_world \<Rightarrow> poll_options \<Rightarrow>
   nat \<Rightarrow> int \<Rightarrow> duration \<Rightarrow> 'r option \<Rightarrow> log_line list \<Rightarrow>
   'r poll_result + (int \<times> duration \<times> 'r option \<times> log_line list)" where
  "poll_round trace getStatus getRejection scale w o' rnd0 t0 delay lastResp lg =
     (if poll_ctx_done w o' t0 then Inl (poll_stopped trace getStatus w o' rnd0 t0 lg lastResp)
      else
        let rnd = Suc rnd0; (resp, err) = pw_once w rnd; t = t0 + int (pw_took w rnd) in
        if poll_ctx_done w o' t then
          Inl (poll_stopped trace getStatus w o' rnd t lg (if resp \<noteq> None then resp else lastResp))
        else case err of
          Some e \<Rightarrow> Inl \<lparr>po_rounds = rnd, po_time = t,
            po_log = lg @ log_at trace Warn ''atomefin: poll stopped''
              (poll_fields trace getStatus w rnd t None [(''reason'', LStr ''request_error''), (''err'', LErr e)]),
            po_resp = None, po_error = Some e\<rparr>
        | None \<Rightarrow>
            if (case resp of Some r \<Rightarrow> Status_IsTerminal (getStatus r) | None \<Rightarrow> False) then
              Inl \<lparr>po_rounds = rnd, po_time = t,
                po_log = lg @ log_at trace Info ''atomefin: poll finished''
                  (poll_fields trace getStatus w rnd t resp [(''reason'', LStr ''terminal'')]),
                po_resp = resp, po_error = None\<rparr>
            else case (case getRejection of None \<Rightarrow> None | Some f \<Rightarrow> f resp) of
              Some (c, message) \<Rightarrow> Inl \<lparr>po_rounds = rnd, po_time = t,
                po_log = lg @ log_at trace Warn ''atomefin: poll stopped''
                  (poll_fields trace getStatus w rnd t resp [(''reason'', LStr ''business_rejection'')]),
                po_resp = None, po_error = Some (BusinessRejectionError c message)\<rparr>
            | None \<Rightarrow>
                let lg' = lg @ log_at trace Debug ''atomefin: poll round''
                      (poll_fields trace getStatus w rnd t resp [(''next_delay'', LDur (sint delay))]);
                    (t', cut) = sleepWithCtx w o' rnd t delay in
                if cut then Inl (poll_stopped trace getStatus w o' rnd t' lg' resp)
                else Inr (t', poll_next_delay scale o' delay, resp, lg'))"

partial_function (option) poll_loop ::
  "'r poll_trace \<Rightarrow> ('r \<Rightarrow> string) \<Rightarrow> ('r option \<Rightarrow> (string \<times> string) option) option \<Rightarrow>
   (duration \<Rightarrow> float64 \<Rightarrow> duration) \<Rightarrow> 'r poll_world \<Rightarrow> poll_options \<Rightarrow>
   nat \<Rightarrow> int \<Rightarrow> duration \<Rightarrow> 'r option \<Rightarrow> log_line list \<Rightarrow> 'r poll_result option" where
  "poll_loop trace getStatus getRejection scale w o' rnd t delay lastResp lg =
     (case poll_round trace getStatus getRejection scale w o' rnd t delay lastResp lg of
        Inl res \<Rightarrow> Some res
      | Inr (t', delay', resp, lg') \<Rightarrow>
          poll_loop trace getStatus getRejection scale w o' (Suc rnd) t' delay' resp lg')"

definition pollUntilTerminal ::
  "'r poll_world \<Rightarrow> poll_options \<Rightarrow> 'r poll_trace \<Rightarrow> ('r \<Rightarrow> string) \<Rightarrow>
   ('r option \<Rightarrow> (string \<times> string) option) option \<Rightarrow> (duration \<Rightarrow> float64 \<Rightarrow> duration) \<Rightarrow> 'r poll_result option" where
  "pollUntilTerminal w opts trace getStatus getRejection scale =
     (let o' = withDefaults opts in
      poll_loop trace getStatus getRejection scale w o' 0 (pw_start w) (InitialDelay o') None [])"

definition PollUntilTerminal ::
  "'r poll_world \<Rightarrow> poll_options \<Rightarrow> ('r \<Rightarrow> string) \<Rightarrow> (duration \<Rightarrow> float64 \<Rightarrow> duration) \<Rightarrow> 'r poll_result option" where
  "PollUntilTerminal w opts getStatus scale =
     pollUntilTerminal w opts \<lparr>pt_Logger = False, pt_Op = [], pt_RequestID = [], pt_Code = None\<rparr> getStatus None scale"

definition PollUntilTerminalOrRejected ::
  "'r poll_world \<Rightarrow> poll_options \<Rightarrow> 'r poll_trace \<Rightarrow> ('r \<Rightarrow> string) \<Rightarrow>
   ('r option \<Rightarrow> (string \<times> string) option) option \<Rightarrow> (duration \<Rightarrow> float64 \<Rightarrow> duration) \<Rightarrow> 'r poll_result option" where
  "PollUntilTerminalOrRejected w opts trace getStatus getRejection scale =
     pollUntilTerminal w opts trace getStatus getRejection scale"

section \<open>Polling an authorisation or a capture\<close>

text \<open>
  Every round submits the same request object; a submission may write into it, so round
  n starts from what round n - 1 left.  \<open>submit n q\<close> is round n's call on q.
\<close>

fun poll_request :: "(nat \<Rightarrow> 'q \<Rightarrow> 'q option \<times> event list \<times> (go_error + 'r)) \<Rightarrow> 'q \<Rightarrow> nat \<Rightarrow> 'q" where
  "poll_request submit q 0 = q"
| "poll_request submit q (Suc n) =
     (case fst (submit (Suc n) (poll_request submit q n)) of Some q' \<Rightarrow> q' | None \<Rightarrow> poll_request submit q n)"

definition poll_submit ::
  "(nat \<Rightarrow> 'q \<Rightarrow> 'q option \<times> event list \<times> (go_error + 'r)) \<Rightarrow> 'q \<Rightarrow> nat \<Rightarrow> event list \<times> (go_error + 'r)" where
  "poll_submit submit q n = snd (submit n (poll_request submit q (n - 1)))"

definition poll_once ::
  "(nat \<Rightarrow> 'q \<Rightarrow> 'q option \<times> event list \<times> (go_error + 'r)) \<Rightarrow> 'q \<Rightarrow> nat \<Rightarrow> 'r option \<times> go_error option" where
  "poll_once submit q n = (case snd (poll_submit submit q n) of Inl e \<Rightarrow> (None, Some e) | Inr r \<Rightarrow> (Some r, None))"

definition poll_events ::
  "(nat \<Rightarrow> 'q \<Rightarrow> 'q option \<times> event list \<times> (go_error + 'r)) \<Rightarrow> 'q \<Rightarrow> nat \<Rightarrow> event list" where
  "poll_events submit q k = concat (map (\<lambda>n. fst (poll_submit submit q n)) [1..<Suc k])"

definition poll_refused :: "'r poll_world \<Rightarrow> go_error \<Rightarrow> 'r poll_result" where
  "poll_refused w e = \<lparr>po_rounds = 0, po_time = pw_start w, po_log = [], po_resp = None, po_error = Some e\<rparr>"

definition auth_rejection :: "auth_response option \<Rightarrow> (string \<times> string) option" where
  "auth_rejection r = (case r of None \<Rightarrow> None
     | Some x \<Rightarrow> if IsSyncRejection (arsp_Code x) (auth_status r) then Some (arsp_Code x, arsp_Message x) else None)"

definition capture_rejection :: "capture_response option \<Rightarrow> (string \<times> string) option" where
  "capture_rejection r = (case r of None \<Rightarrow> None
     | Some x \<Rightarrow> if IsSyncRejection (crsp_Code x) (capture_status r) then Some (crsp_Code x, crsp_Message x) else None)"

text \<open>
  \<open>ws n\<close> is the world of round n's call and \<open>ids n\<close> what the id generator would return
  then, \<open>ids 0\<close> at the start of the poll.  The results are the request as the poll
  leaves it, the trace, and the outcome (None when the poll does not end).
\<close>

definition AuthPollUntilTerminal ::
  "service \<Rightarrow> (nat \<Rightarrow> world) \<Rightarrow> (nat \<Rightarrow> string) \<Rightarrow> (auth_request \<Rightarrow> go_error + bytes) \<Rightarrow>
   (bytes \<Rightarrow> go_error + auth_response) \<Rightarrow> auth_response poll_world \<Rightarrow> (duration \<Rightarrow> float64 \<Rightarrow> duration) \<Rightarrow>
   auth_request option \<Rightarrow> poll_options \<Rightarrow> auth_request option \<times> event list \<times> auth_response poll_result option" where
  "AuthPollUntilTerminal s ws ids marshal unmarshal pw scale reqp opts =
     (case checkConfigured s of
        Some err \<Rightarrow> (reqp, [], Some (poll_refused pw err))
      | None \<Rightarrow>
          (case reqp of
             None \<Rightarrow> (None, [], Some (poll_refused pw (ValidationError ''request'' ''nil AuthRequest'')))
           | Some req0 \<Rightarrow>
               let req = (if ar_RequestID req0 = [] then req0\<lparr>ar_RequestID := ids 0\<rparr> else req0);
                   submit = (\<lambda>n q. Auth s (ws n) (ids n) marshal unmarshal (Some q));
                   trace = \<lparr>pt_Logger = True, pt_Op = ''/auth'', pt_RequestID = ar_RequestID req,
                            pt_Code = Some (\<lambda>r. (arsp_Code r, arsp_Message r))\<rparr>
               in (case pollUntilTerminal (pw\<lparr>pw_once := poll_once submit req\<rparr>) opts trace
                          (\<lambda>r. auth_status (Some r)) (Some auth_rejection) scale of
                     None \<Rightarrow> (Some req, [], None)
                   | Some res \<Rightarrow> (Some (poll_request submit req (po_rounds res)),
                        poll_events submit req (po_rounds res), Some res))))"

definition CapturePollUntilTerminal ::
  "service \<Rightarrow> (nat \<Rightarrow> world) \<Rightarrow> (nat \<Rightarrow> string) \<Rightarrow> (capture_request \<Rightarrow> go_error + bytes) \<Rightarrow>
   (bytes \<Rightarrow> go_error + capture_response) \<Rightarrow> capture_response poll_world \<Rightarrow> (duration \<Rightarrow> float64 \<Rightarrow> duration) \<Rightarrow>
   capture_request option \<Rightarrow> poll_options \<Rightarrow> capture_request option \<times> event list \<times> capture_response poll_result option" where
  "CapturePollUntilTerminal s ws ids marshal unmarshal pw scale reqp opts =
     (case checkConfigured s of
        Some err \<Rightarrow> (reqp, [], Some (poll_refused pw err))
      | None \<Rightarrow>
          (case reqp of
             None \<Rightarrow> (None, [], Some (poll_refused pw (ValidationError ''request'' ''nil CaptureRequest'')))
           | Some req0 \<Rightarrow>
               let req = (if cr_RequestID req0 = [] then req0\<lparr>cr_RequestID := ids 0\<rparr> else req0);
                   submit = (\<lambda>n q. Capture s (ws n) (ids n) marshal unmarshal (Some q));
                   trace = \<lparr>pt_Logger = True, pt_Op = ''/capture'', pt_RequestID = cr_RequestID req,
                            pt_Code = Some (\<lambda>r. (crsp_Code r, crsp_Message r))\<rparr>
               in (case pollUntilTerminal (pw\<lparr>pw_once := poll_once submit req\<rparr>) opts trace
                          (\<lambda>r. capture_status (Some r)) (Some capture_rejection) scale of
                     None \<Rightarrow> (Some req, [], None)
                   | Some res \<Rightarrow> (Some (poll_request submit req (po_rounds res)),
                        poll_events submit req (po_rounds res), Some res))))"

section \<open>How a poll ends\<close>

text \<open>A round's answer that lets the loop go on.\<close>

definition keeps_polling ::
  "('r \<Rightarrow> string) \<Rightarrow> ('r option \<Rightarrow> (string \<times> string) option) option \<Rightarrow> 'r option \<times> go_error option \<Rightarrow> bool" where
  "keeps_polling gs gr a \<longleftrightarrow> snd a = None \<and> (\<forall>r. fst a = Some r \<longrightarrow> \<not> Status_IsTerminal (gs r)) \<and>
     (\<forall>f. gr = Some f \<longrightarrow> f (fst a) = None)"

text \<open>The error with which a poll ends whose context is done at time t.\<close>

definition poll_timeout :: "'r poll_trace \<Rightarrow> 'r poll_world \<Rightarrow> int \<Rightarrow> go_error option \<Rightarrow> bool" where
  "poll_timeout tr w t err \<longleftrightarrow>
     (\<exists>e. err = Some (TransportError ''poll'' (poll_target tr) (Some e) False) \<and>
        errors_is e (case parent_Err w t of Some pe \<Rightarrow> pe | None \<Rightarrow> ContextDeadlineExceeded))"

lemma poll_stopped_fields [simp]:
  "po_rounds (poll_stopped tr gs w o' n t lg resp) = n" "po_time (poll_stopped tr gs w o' n t lg resp) = t"
  "po_resp (poll_stopped tr gs w o' n t lg resp) = resp"
  by (simp_all add: poll_stopped_def split: prod.split)

lemma poll_stopped_timeout: "poll_timeout tr w t (po_error (poll_stopped tr gs w o' n t lg resp))"
  by (auto simp: poll_stopped_def poll_timeout_def pollError_def Let_def split: option.split)

text \<open>What ended the round of a result: a final status, a rejection, an error, or the context.\<close>

definition poll_end ::
  "'r poll_trace \<Rightarrow> ('r \<Rightarrow> string) \<Rightarrow> ('r option \<Rightarrow> (string \<times> string) option) option \<Rightarrow> 'r poll_world \<Rightarrow> poll_options \<Rightarrow>
   'r poll_result \<Rightarrow> bool" where
  "poll_end tr gs gr w o' res \<longleftrightarrow>
     (if poll_ctx_done w o' (po_time res) then poll_timeout tr w (po_time res) (po_error res)
      else case pw_once w (po_rounds res) of
        (resp, Some e) \<Rightarrow> po_resp res = None \<and> po_error res = Some e
      | (resp, None) \<Rightarrow>
          if (\<exists>r. resp = Some r \<and> Status_IsTerminal (gs r)) then po_resp res = resp \<and> po_error res = None
          else \<exists>f c m. gr = Some f \<and> f resp = Some (c, m) \<and> po_resp res = None \<and>
             po_error res = Some (BusinessRejectionError c m))"

lemma sleep_end:
  assumes "sleepWithCtx w o' n t d = (t', b)" "\<not> poll_ctx_done w o' t"
  shows "b \<Longrightarrow> poll_ctx_done w o' t'" "\<not> b \<Longrightarrow> t' \<le> poll_done_at w o'" "\<not> b \<Longrightarrow> t' = t + max 0 (sint d)"
    "t \<le> t'"
  using assms by (auto simp: sleepWithCtx_def poll_ctx_done_def Let_def split: if_splits)

text \<open>The ways in which an iteration ends, one by one.\<close>

lemma poll_round_late:
  "poll_ctx_done w o' t \<Longrightarrow> poll_round tr gs gr sc w o' n t d lastr lg = Inl (poll_stopped tr gs w o' n t lg lastr)"
  by (simp add: poll_round_def)

lemma poll_round_overtaken:
  "\<not> poll_ctx_done w o' t \<Longrightarrow> poll_ctx_done w o' (t + int (pw_took w (Suc n))) \<Longrightarrow>
     poll_round tr gs gr sc w o' n t d lastr lg =
       Inl (poll_stopped tr gs w o' (Suc n) (t + int (pw_took w (Suc n))) lg
         (if fst (pw_once w (Suc n)) \<noteq> None then fst (pw_once w (Suc n)) else lastr))"
  by (simp add: poll_round_def split: prod.split)

lemma poll_round_error:
  assumes "\<not> poll_ctx_done w o' t" "\<not> poll_ctx_done w o' (t + int (pw_took w (Suc n)))" "snd (pw_once w (Suc n)) = Some e"
  shows "\<exists>res. poll_round tr gs gr sc w o' n t d lastr lg = Inl res \<and> po_rounds res = Suc n \<and>
     po_time res = t + int (pw_took w (Suc n)) \<and> po_resp res = None \<and> po_error res = Some e"
  using assms by (simp add: poll_round_def split_beta Let_def)

lemma poll_round_final:
  assumes "\<not> poll_ctx_done w o' t" "\<not> poll_ctx_done w o' (t + int (pw_took w (Suc n)))"
    "pw_once w (Suc n) = (Some r, None)" "Status_IsTerminal (gs r)"
  shows "\<exists>res. poll_round tr gs gr sc w o' n t d lastr lg = Inl res \<and> po_rounds res = Suc n \<and>
     po_time res = t + int (pw_took w (Suc n)) \<and> po_resp res = Some r \<and> po_error res = None"
  using assms by (simp add: poll_round_def Let_def)

lemma poll_round_rejected:
  assumes "\<not> poll_ctx_done w o' t" "\<not> poll_ctx_done w o' (t + int (pw_took w (Suc n)))"
    "pw_once w (Suc n) = (resp, None)" "\<not> (\<exists>r. resp = Some r \<and> Status_IsTerminal (gs r))"
    "gr = Some f" "f resp = Some (c, m)"
  shows "\<exists>res. poll_round tr gs gr sc w o' n t d lastr lg = Inl res \<and> po_rounds res = Suc n \<and>
     po_time res = t + int (pw_took w (Suc n)) \<and> po_resp res = None \<and> po_error res = Some (BusinessRejectionError c m)"
  using assms by (cases resp) (simp_all add: poll_round_def Let_def)

lemma poll_round_on:
  assumes "\<not> poll_ctx_done w o' t" "\<not> poll_ctx_done w o' (t + int (pw_took w (Suc n)))"
    "keeps_polling gs gr (pw_once w (Suc n))"
    "sleepWithCtx w o' (Suc n) (t + int (pw_took w (Suc n))) d = (t', brk)"
  shows "\<exists>lg'. poll_round tr gs gr sc w o' n t d lastr lg =
     (if brk then Inl (poll_stopped tr gs w o' (Suc n) t' lg' (fst (pw_once w (Suc n))))
      else Inr (t', poll_next_delay sc o' d, fst (pw_once w (Suc n)), lg'))"
proof -
  obtain resp where a: "pw_once w (Suc n) = (resp, None)" "\<forall>r. resp = Some r \<longrightarrow> \<not> Status_IsTerminal (gs r)"
    "\<forall>f. gr = Some f \<longrightarrow> f resp = None" using assms(3) by (cases "pw_once w (Suc n)") (auto simp: keeps_polling_def)
  have "(case resp of Some r \<Rightarrow> Status_IsTerminal (gs r) | None \<Rightarrow> False) = False"
    "(case gr of None \<Rightarrow> None | Some f \<Rightarrow> f resp) = None" using a(2,3) by (auto split: option.split)
  then show ?thesis using assms(1,2,4) a(1)
    by (intro exI [of _ "lg @ log_at tr Debug ''atomefin: poll round'' (poll_fields tr gs w (Suc n)
          (t + int (pw_took w (Suc n))) (fst (pw_once w (Suc n))) [(''next_delay'', LDur (sint d))])"])
      (simp add: poll_round_def Let_def)
qed

lemma poll_answer_cases:
  obtains (err) e where "snd a = Some e"
    | (final) r where "a = (Some r, None)" "Status_IsTerminal (gs r)"
    | (rejected) f c m where "snd a = None" "\<not> (\<exists>r. fst a = Some r \<and> Status_IsTerminal (gs r))"
        "gr = Some f" "f (fst a) = Some (c, m)"
    | (on) "keeps_polling gs gr a"
proof (cases "snd a")
  case None
  note n = this
  show thesis
  proof (cases "\<exists>r. fst a = Some r \<and> Status_IsTerminal (gs r)")
    case True
    then show thesis using n final by (metis prod.collapse)
  next
    case False
    show thesis
    proof (cases "\<exists>f x. gr = Some f \<and> f (fst a) = Some x")
      case True
      then show thesis using n False rejected by auto
    next
      case False2: False
      then have "\<forall>f. gr = Some f \<longrightarrow> f (fst a) = None" by (metis not_None_eq)
      then show thesis using n False on by (simp add: keeps_polling_def)
    qed
  qed
qed (rule err)

text \<open>An iteration ends the poll, in one of the ways of poll_end, or hands on a later time and the next delay.\<close>

lemma poll_round_cases:
  obtains (stop) res where "poll_round tr gs gr sc w o' n t d lastr lg = Inl res" "poll_end tr gs gr w o' res"
      "po_rounds res = n \<or> po_rounds res = Suc n"
  | (continue) t' lg' where
      "poll_round tr gs gr sc w o' n t d lastr lg = Inr (t', poll_next_delay sc o' d, fst (pw_once w (Suc n)), lg')"
      "keeps_polling gs gr (pw_once w (Suc n))"
      "t' \<le> poll_done_at w o'" "t' = t + int (pw_took w (Suc n)) + max 0 (sint d)"
proof -
  let ?t = "t + int (pw_took w (Suc n))"
  consider (late) "poll_ctx_done w o' t" | (over) "\<not> poll_ctx_done w o' t" "poll_ctx_done w o' ?t"
    | (time) "\<not> poll_ctx_done w o' t" "\<not> poll_ctx_done w o' ?t" by blast
  then show thesis
  proof cases
    case late
    from poll_round_late [OF this] show thesis
      by (rule stop) (simp_all add: poll_end_def late poll_stopped_timeout)
  next
    case over
    from poll_round_overtaken [OF over] show thesis
      by (rule stop) (simp_all add: poll_end_def over poll_stopped_timeout)
  next
    case time
    obtain t' brk where sl: "sleepWithCtx w o' (Suc n) ?t d = (t', brk)" by fastforce
    note se = sleep_end [OF sl time(2)]
    show thesis
    proof (cases rule: poll_answer_cases [where a = "pw_once w (Suc n)" and gs = gs and gr = gr])
      case (err e)
      then show thesis using poll_round_error [OF time err, of tr gs gr sc d lastr lg] stop time
        by (auto simp: poll_end_def split_beta)
    next
      case (final r)
      then show thesis using poll_round_final [OF time final(1), of gs tr gr sc d lastr lg] stop time
        by (auto simp: poll_end_def)
    next
      case (rejected f c m)
      obtain resp where a: "pw_once w (Suc n) = (resp, None)" using rejected(1) by (cases "pw_once w (Suc n)") auto
      then show thesis using poll_round_rejected [OF time a _ rejected(3), of gs c m tr sc d lastr lg] rejected stop time
        by (auto simp: poll_end_def)
    next
      case on
      show thesis
      proof (cases brk)
        case True
        then show thesis using poll_round_on [OF time on sl, of tr sc lastr lg] stop se(1)
          by (auto simp: poll_end_def poll_stopped_timeout)
      next
        case False
        then show thesis using poll_round_on [OF time on sl, of tr sc lastr lg] continue on se(2,3) by auto
      qed
    qed
  qed
qed

lemma poll_loop_outcome:
  assumes "poll_loop tr gs gr sc w o' n t d lastr lg = Some res"
  shows "n \<le> po_rounds res \<and> poll_end tr gs gr w o' res \<and>
     (\<forall>k. n < k \<and> k < po_rounds res \<longrightarrow> keeps_polling gs gr (pw_once w k))"
proof (rule poll_loop.raw_induct [OF _ assms, where P = "\<lambda>tr gs gr sc w o' n t d lastr lg res. n \<le> po_rounds res \<and>
    poll_end tr gs gr w o' res \<and> (\<forall>k. n < k \<and> k < po_rounds res \<longrightarrow> keeps_polling gs gr (pw_once w k))"])
  fix loop tr gs gr sc w o' n t d lastr lg and res :: "'a poll_result"
  assume IH: "\<And>tr gs gr sc w o' n t d lastr lg res. loop tr gs gr sc w o' n t d lastr lg = Some res \<Longrightarrow>
      n \<le> po_rounds res \<and> poll_end tr gs gr w o' res \<and> (\<forall>k. n < k \<and> k < po_rounds res \<longrightarrow> keeps_polling gs gr (pw_once w k))"
    and run: "(case poll_round tr gs gr sc w o' n t d lastr lg of Inl res \<Rightarrow> Some res
      | Inr (t', delay', resp, lg') \<Rightarrow> loop tr gs gr sc w o' (Suc n) t' delay' resp lg') = Some res"
  show "n \<le> po_rounds res \<and> poll_end tr gs gr w o' res \<and>
      (\<forall>k. n < k \<and> k < po_rounds res \<longrightarrow> keeps_polling gs gr (pw_once w k))"
  proof (cases rule: poll_round_cases [where tr = tr and gs = gs and gr = gr and sc = sc and w = w and o' = o'
        and n = n and t = t and d = d and lastr = lastr and lg = lg])
    case (stop r)
    then show ?thesis using run by auto
  next
    case (continue t' lg')
    then have "loop tr gs gr sc w o' (Suc n) t' (poll_next_delay sc o' d) (fst (pw_once w (Suc n))) lg' = Some res"
      using run by simp
    from IH [OF this] continue(2) show ?thesis by (metis Suc_leD Suc_lessI)
  qed
qed

section \<open>Termination\<close>

text \<open>\<open>b\<close> is a floor of the delays: positive, and kept by one step of the backoff.\<close>

definition delay_floor :: "(duration \<Rightarrow> float64 \<Rightarrow> duration) \<Rightarrow> poll_options \<Rightarrow> int \<Rightarrow> bool" where
  "delay_floor sc o' b \<longleftrightarrow> 0 < b \<and> b \<le> sint (InitialDelay o') \<and> b \<le> sint (MaxDelay o') \<and>
     (\<forall>d. b \<le> sint d \<and> sint d \<le> max (sint (InitialDelay o')) (sint (MaxDelay o')) \<longrightarrow> b \<le> sint (sc d (Multiplier o')))"

lemma next_delay_bounds:
  assumes "delay_floor sc o' b" "b \<le> sint d" "sint d \<le> max (sint (InitialDelay o')) (sint (MaxDelay o'))"
  shows "b \<le> sint (poll_next_delay sc o' d)"
    "sint (poll_next_delay sc o' d) \<le> max (sint (InitialDelay o')) (sint (MaxDelay o'))"
  using assms by (auto simp: poll_next_delay_def delay_floor_def Let_def)

lemma poll_loop_returns:
  assumes "delay_floor sc o' b" "b \<le> sint d" "sint d \<le> max (sint (InitialDelay o')) (sint (MaxDelay o'))"
  shows "\<exists>res. poll_loop tr gs gr sc w o' n t d lastr lg = Some res \<and>
     (int (po_rounds res) - int n - 1) * b \<le> max 0 (poll_done_at w o' - t)"
  using assms(2,3)
proof (induction "nat (poll_done_at w o' - t)" arbitrary: n t d lastr lg rule: less_induct)
  case less
  have b: "0 < b" using assms(1) by (simp add: delay_floor_def)
  show ?case
  proof (cases rule: poll_round_cases [where tr = tr and gs = gs and gr = gr and sc = sc and w = w and o' = o'
        and n = n and t = t and d = d and lastr = lastr and lg = lg])
    case (stop res)
    then have "poll_loop tr gs gr sc w o' n t d lastr lg = Some res" by (subst poll_loop.simps) simp
    moreover have "(int (po_rounds res) - int n - 1) * b \<le> 0" using stop(3) b by auto
    ultimately show ?thesis by (intro exI [of _ res]) auto
  next
    case (continue t' lg')
    then have step: "t + b \<le> t'" "t' \<le> poll_done_at w o'" using less.prems(1) b by auto
    then have m: "nat (poll_done_at w o' - t') < nat (poll_done_at w o' - t)" using b by auto
    from less.hyps [OF m next_delay_bounds [OF assms(1) less.prems]]
    obtain res where res: "poll_loop tr gs gr sc w o' (Suc n) t' (poll_next_delay sc o' d) (fst (pw_once w (Suc n))) lg' = Some res"
      "(int (po_rounds res) - int (Suc n) - 1) * b \<le> max 0 (poll_done_at w o' - t')" by blast
    have "poll_loop tr gs gr sc w o' n t d lastr lg = Some res"
      using continue(1) res(1) by (subst poll_loop.simps) simp
    moreover have "(int (po_rounds res) - int n - 1) * b \<le> max 0 (poll_done_at w o' - t)"
      using res(2) step b by (simp add: algebra_simps)
    ultimately show ?thesis by blast
  qed
qed

lemma poll_done_le: "poll_done_at w o' \<le> pw_start w + sint (MaxWait o')"
  by (simp add: poll_done_at_def poll_deadline_def split: option.split)

lemma withDefaults_positive:
  "0 < sint (MaxWait (withDefaults p))" "0 < sint (InitialDelay (withDefaults p))" "0 < sint (MaxDelay (withDefaults p))"
  by (simp_all add: withDefaults_def)

section \<open>Rounds of one request\<close>

lemma poll_request_const:
  assumes "\<And>n. fst (submit n q) = Some q"
  shows "poll_request submit q n = q"
  by (induction n) (simp_all add: assms)

lemma sent_poll_events:
  assumes "\<And>n. fst (submit n q) = Some q" "rq \<in> set (sent_requests (poll_events submit q k))"
  obtains n where "rq \<in> set (sent_requests (fst (snd (submit n q))))"
proof -
  have "sent_requests (concat ess) = concat (map sent_requests ess)" for ess by (induction ess) simp_all
  then show thesis using assms(2) that
    by (auto simp: poll_events_def poll_submit_def poll_request_const [of submit q, OF assms(1)])
qed

lemma Auth_keeps_request: "ar_RequestID q \<noteq> [] \<Longrightarrow> fst (Auth s w i m u (Some q)) = Some q"
  by (simp add: Auth_def Let_def split: option.split)

section \<open>Properties\<close>

text \<open>C19. A poll that returns tells exactly why.  Every round before the last was answered without an
  error, with a status that is not final and without a rejection.  The last one decides: if the
  time is up (MaxWait passed or the caller's context done) the result is a TransportError that wraps
  the caller's context error or the deadline; otherwise an error of the call is returned as it is, a
  final status is returned with its response, and a synchronous rejection becomes a
  BusinessRejectionError.\<close>
theorem poll_outcome:
  assumes "pollUntilTerminal w opts trace getStatus getRejection scale = Some res"
  shows "(\<forall>k. 0 < k \<and> k < po_rounds res \<longrightarrow> keeps_polling getStatus getRejection (pw_once w k)) \<and>
    (if poll_done_at w (withDefaults opts) \<le> po_time res then
       \<exists>e. po_error res = Some (TransportError ''poll'' (poll_target trace) (Some e) False) \<and>
         errors_is e (case parent_Err w (po_time res) of Some pe \<Rightarrow> pe | None \<Rightarrow> ContextDeadlineExceeded)
     else case pw_once w (po_rounds res) of
       (resp, Some e) \<Rightarrow> po_resp res = None \<and> po_error res = Some e
     | (resp, None) \<Rightarrow>
         if (\<exists>r. resp = Some r \<and> Status_IsTerminal (getStatus r)) then po_resp res = resp \<and> po_error res = None
         else \<exists>f c m. getRejection = Some f \<and> f resp = Some (c, m) \<and> po_resp res = None \<and>
            po_error res = Some (BusinessRejectionError c m))"
  using poll_loop_outcome [OF assms [unfolded pollUntilTerminal_def Let_def]]
  unfolding poll_end_def poll_timeout_def poll_ctx_done_def by simp

text \<open>C20. A poll returns: when the backoff keeps the delays at or above some positive floor, the loop ends
  whatever the server answers, and the number of its rounds, less one, times the floor fits in
  MaxWait.  The hypothesis on scale is what the floating-point product does for a
  multiplier of at least 1 as long as the product stays within 64 bits.\<close>
theorem poll_returns:
  assumes "0 < b" "b \<le> sint (InitialDelay (withDefaults opts))" "b \<le> sint (MaxDelay (withDefaults opts))"
    and "\<And>d. b \<le> sint d \<Longrightarrow>
      sint d \<le> max (sint (InitialDelay (withDefaults opts))) (sint (MaxDelay (withDefaults opts))) \<Longrightarrow>
      b \<le> sint (scale d (Multiplier (withDefaults opts)))"
  shows "\<exists>res. pollUntilTerminal w opts trace getStatus getRejection scale = Some res \<and>
     (int (po_rounds res) - 1) * b \<le> sint (MaxWait (withDefaults opts))"
proof -
  let ?o = "withDefaults opts"
  have f: "delay_floor scale ?o b" using assms by (simp add: delay_floor_def)
  obtain res where "poll_loop trace getStatus getRejection scale w ?o 0 (pw_start w) (InitialDelay ?o) None [] = Some res"
    "(int (po_rounds res) - int 0 - 1) * b \<le> max 0 (poll_done_at w ?o - pw_start w)"
    using poll_loop_returns [OF f assms(2), of trace getStatus getRejection w 0 "pw_start w" None "[]"] by auto
  then show ?thesis using poll_done_le [of w ?o] withDefaults_positive(1) [of opts]
    by (intro exI [of _ res]) (simp add: pollUntilTerminal_def)
qed

text \<open>C33. Polling an authorisation never submits anything else: every request that any round sends carries the
  encoding of one and the same validated request, whose id is the caller's, or the one minted at the
  start, so that the gateway recognises the repetition.\<close>
theorem auth_poll_same_request:
  assumes "AuthPollUntilTerminal s ws ids marshal unmarshal pw scale (Some q) opts = (p', evs, Some res)"
    and "ids 0 \<noteq> []" "rq \<in> set (sent_requests evs)"
  shows "\<exists>q' body c. q' = q\<lparr>ar_RequestID := if ar_RequestID q = [] then ids 0 else ar_RequestID q\<rparr> \<and>
     p' = Some q' \<and> validateAuthRequest q' = None \<and> marshal q' = Inr body \<and> rq_body rq = body \<and>
     s = Some (Some c) \<and> rq_url rq = baseURL c @ ''/auth''"
proof -
  define q' where "q' = q\<lparr>ar_RequestID := if ar_RequestID q = [] then ids 0 else ar_RequestID q\<rparr>"
  let ?s = "\<lambda>n r. Auth s (ws n) (ids n) marshal unmarshal (Some r)"
  have id: "ar_RequestID q' \<noteq> []" using assms(2) by (simp add: q'_def)
  note keep = Auth_keeps_request [OF id]
  have req: "(if ar_RequestID q = [] then q\<lparr>ar_RequestID := ids 0\<rparr> else q) = q'" by (simp add: q'_def)
  have "checkConfigured s = None" using assms(1,3) by (cases "checkConfigured s") (auto simp: AuthPollUntilTerminal_def)
  then have out: "p' = Some q'" "evs = poll_events ?s q' (po_rounds res)"
    using assms(1) keep by (auto simp: AuthPollUntilTerminal_def req Let_def poll_request_const split: option.splits)
  from sent_poll_events [of ?s q', OF keep assms(3) [unfolded out(2)]] obtain n where
    n: "rq \<in> set (sent_requests (fst (snd (?s n q'))))" by blast
  obtain e r where a: "?s n q' = (Some q', e, r)" using keep by (metis prod.collapse)
  then have ne: "sent_requests e \<noteq> []" using n by auto
  show ?thesis
  proof (rule auth.sent_prepared [OF a ne])
    fix c x x' body
    assume h: "s = Some (Some c)" "Some q' = Some x" "Some q' = Some x'" "prepare_auth (ids n) x = (None, x')"
      "marshal x' = Inr body" and d: "(e, r) = decode_response unmarshal ''/auth''
        (DoSigned (Some c) (ws n) ''POST'' ''/auth'' body (sessionid_opts (ar_Sessionid x')))"
    have v: "validateAuthRequest q' = None" using prepare_valid(1) [OF h(4)] h(3) by simp
    obtain rq' where "signed_post c (ws n) ''/auth'' body rq' e" by (rule sent_signed_post [OF d ne])
    then have "rq_body rq = body \<and> rq_url rq = baseURL c @ ''/auth''" using n a
      by (auto simp: signed_post_def)
    then show ?thesis using h v out(1) q'_def by blast
  qed
qed

definition sample_poll :: "string poll_world" where
  "sample_poll = \<lparr>pw_start = 0, pw_done = None, pw_err = ContextCanceled, pw_cause = None,
     pw_once = (\<lambda>n. (Some (if n = 1 then ''PROCESSING'' else ''SUCCESS''), None)),
     pw_took = (\<lambda>n. 1000), pw_tie = (\<lambda>n. False)\<rparr>"

definition zero_options :: poll_options where
  "zero_options = \<lparr>MaxWait = 0, InitialDelay = 0, MaxDelay = 0, Multiplier = Finite 0\<rparr>"

definition quiet_trace :: "string poll_trace" where
  "quiet_trace = \<lparr>pt_Logger = False, pt_Op = [], pt_RequestID = [], pt_Code = None\<rparr>"

lemma withDefaults_zero:
  "withDefaults zero_options = \<lparr>MaxWait = 30000000000, InitialDelay = 250000000, MaxDelay = 8000000000, Multiplier = Finite 2\<rparr>"
  by (simp add: withDefaults_def zero_options_def)

lemma sample_poll_run:
  "pollUntilTerminal sample_poll zero_options quiet_trace (\<lambda>s. s) None (\<lambda>d m. 2 * d) =
     Some \<lparr>po_rounds = 2, po_time = 250002000, po_log = [], po_resp = Some ''SUCCESS'', po_error = None\<rparr>"
proof -
  note defs = poll_round_def withDefaults_zero poll_ctx_done_def poll_done_at_def poll_deadline_def sample_poll_def
    log_at_def quiet_trace_def sleepWithCtx_def Let_def Status_IsTerminal_def StatusSuccess_def StatusFailed_def
  have 1: "poll_round quiet_trace (\<lambda>s. s) None (\<lambda>d m. 2 * d) sample_poll (withDefaults zero_options) 0 0 250000000 None [] =
      Inr (250001000, 500000000, Some ''PROCESSING'', [])"
    by (simp add: defs poll_next_delay_def)
  have 2: "poll_round quiet_trace (\<lambda>s. s) None (\<lambda>d m. 2 * d) sample_poll (withDefaults zero_options) (Suc 0) 250001000 500000000
      (Some ''PROCESSING'') [] =
      Inl \<lparr>po_rounds = 2, po_time = 250002000, po_log = [], po_resp = Some ''SUCCESS'', po_error = None\<rparr>"
    by (simp add: defs)
  have i: "InitialDelay (withDefaults zero_options) = 250000000" "pw_start sample_poll = 0"
    by (simp_all add: withDefaults_zero sample_poll_def)
  show ?thesis unfolding pollUntilTerminal_def Let_def i
    by (subst poll_loop.simps, simp only: 1 sum.case prod.case, subst poll_loop.simps, simp only: 2 sum.case)
qed

theorem poll_outcome_witness:
  "\<exists>res. pollUntilTerminal sample_poll zero_options quiet_trace (\<lambda>s. s) None (\<lambda>d m. 2 * d) = Some res \<and>
     po_resp res = Some ''SUCCESS'' \<and> keeps_polling (\<lambda>s. s) None (pw_once sample_poll 1)"
  using poll_outcome [OF sample_poll_run] sample_poll_run by simp

lemma double_floor:
  fixes d :: int64
  assumes "250000000 \<le> sint d" "sint d \<le> 8000000000"
  shows "250000000 \<le> sint (2 * d)"
proof -
  have "2 * d = d + d" by (rule mult_2)
  moreover have "- (2 ^ 63) \<le> sint d + sint d" "sint d + sint d < 2 ^ 63" using assms by simp_all
  then have "sint (d + d) = sint d + sint d" by (rule sint64_add)
  ultimately have "sint (2 * d) = sint d + sint d" by simp
  then show ?thesis using assms by linarith
qed

theorem poll_returns_witness:
  "\<exists>res. pollUntilTerminal sample_poll zero_options quiet_trace (\<lambda>s. s) None (\<lambda>d m. 2 * d) = Some res \<and>
     (int (po_rounds res) - 1) * 250000000 \<le> 30000000000"
proof -
  have o: "sint (InitialDelay (withDefaults zero_options)) = 250000000"
    "sint (MaxDelay (withDefaults zero_options)) = 8000000000" "sint (MaxWait (withDefaults zero_options)) = 30000000000"
    by (simp_all add: withDefaults_zero)
  have "\<exists>res. pollUntilTerminal sample_poll zero_options quiet_trace (\<lambda>s. s) None (\<lambda>d m. 2 * d) = Some res \<and>
      (int (po_rounds res) - 1) * 250000000 \<le> sint (MaxWait (withDefaults zero_options))"
  proof (rule poll_returns)
    fix d :: int64
    assume "250000000 \<le> sint d" "sint d \<le> max (sint (InitialDelay (withDefaults zero_options))) (sint (MaxDelay (withDefaults zero_options)))"
    then show "250000000 \<le> sint (2 * d)" unfolding o by (intro double_floor) linarith+
  qed (simp_all add: o)
  then show ?thesis by (simp only: o)
qed

definition sample_reject :: auth_response where
  "sample_reject = \<lparr>arsp_Code = ''E'', arsp_Message = ''no'', arsp_Data = None\<rparr>"

definition sample_auth_poll :: "auth_response poll_world" where
  "sample_auth_poll = \<lparr>pw_start = 0, pw_done = None, pw_err = ContextCanceled, pw_cause = None,
     pw_once = (\<lambda>n. (None, None)), pw_took = (\<lambda>n. 1000), pw_tie = (\<lambda>n. False)\<rparr>"

theorem auth_poll_same_request_witness:
  "\<exists>evs rq. fst (snd (AuthPollUntilTerminal (Some (Some sample_client)) (\<lambda>n. sample_world) (\<lambda>n. ''new'')
        (\<lambda>q. Inr (ar_RequestID q)) (\<lambda>b. Inr sample_reject) sample_auth_poll (\<lambda>d m. d)
        (Some (sample_auth 20000 [15000, 5000])) zero_options)) = evs \<and>
     rq \<in> set (sent_requests evs) \<and> rq_body rq = ''r1''"
proof -
  let ?q = "sample_auth 20000 [15000, 5000]" and ?m = "\<lambda>q. Inr (ar_RequestID q)"
    and ?u = "\<lambda>b. Inr sample_reject" and ?o = "withDefaults zero_options"
  let ?s = "\<lambda>n r. Auth (Some (Some sample_client)) sample_world ''new'' ?m ?u (Some r)"
  let ?w = "sample_auth_poll\<lparr>pw_once := poll_once ?s ?q\<rparr>"
  have v: "validateAuthRequest ?q = None" by (rule sample_auth_accepted) simp_all
  have i: "ar_RequestID ?q = ''r1''" "ar_Sessionid ?q = ''sess''" by (simp_all add: sample_auth_def)
  have np: "\<not> bad_path ''/auth''" by (simp add: bad_path_def)
  obtain evs rq where d: "DoSigned (Some sample_client) sample_world ''POST'' ''/auth'' ''r1'' (sessionid_opts ''sess'') =
      (evs, Inr \<lparr>StatusCode = 200, Header = [], Body = ''ok''\<rparr>)" "sent_requests evs = [rq, rq]"
    by (rule sample_post [OF np])
  have a: "?s n ?q = (Some ?q, evs, Inr sample_reject)" for n :: nat
    using v i d(1) by (simp add: Auth_def checkConfigured_def invoke_def service_Client_def decode_response_def)
  then have once: "pw_once ?w (Suc 0) = (Some sample_reject, None)"
    by (simp add: poll_once_def poll_submit_def)
  have t: "\<not> poll_ctx_done ?w ?o 0" "\<not> poll_ctx_done ?w ?o (0 + int (pw_took ?w (Suc 0)))"
    by (simp_all add: poll_ctx_done_def poll_done_at_def poll_deadline_def sample_auth_poll_def withDefaults_zero)
  have rej: "\<not> (\<exists>r. Some sample_reject = Some r \<and> Status_IsTerminal (auth_status (Some r)))"
    "auth_rejection (Some sample_reject) = Some (''E'', ''no'')"
    by (simp_all add: auth_rejection_def auth_status_def sample_reject_def IsSyncRejection_def Code_IsSuccess_def CodeSuccess_def
        Status_IsTerminal_def StatusSuccess_def StatusFailed_def)
  define tr where "tr = \<lparr>pt_Logger = True, pt_Op = ''/auth'', pt_RequestID = ''r1'',
     pt_Code = Some (\<lambda>r :: auth_response. (arsp_Code r, arsp_Message r))\<rparr>"
  obtain res where r: "poll_round tr (\<lambda>r. auth_status (Some r)) (Some auth_rejection) (\<lambda>d m. d) ?w ?o 0 0 (InitialDelay ?o) None [] = Inl res"
    "po_rounds res = Suc 0"
    using poll_round_rejected [where gs = "\<lambda>r. auth_status (Some r)" and f = auth_rejection and gr = "Some auth_rejection",
      OF t once rej(1) refl rej(2)] by blast
  have st: "pw_start ?w = 0" by (simp add: sample_auth_poll_def)
  have res: "pollUntilTerminal ?w zero_options tr (\<lambda>r. auth_status (Some r)) (Some auth_rejection) (\<lambda>d m. d) = Some res"
    unfolding pollUntilTerminal_def Let_def st by (subst poll_loop.simps) (simp only: r(1) sum.case)
  have ev: "poll_events ?s ?q (Suc 0) = evs" by (simp add: poll_events_def poll_submit_def a)
  have run: "AuthPollUntilTerminal (Some (Some sample_client)) (\<lambda>n. sample_world) (\<lambda>n. ''new'') ?m ?u sample_auth_poll (\<lambda>d m. d)
      (Some ?q) zero_options = (Some (poll_request ?s ?q (Suc 0)), evs, Some res)"
    using res r(2) ev by (simp only: AuthPollUntilTerminal_def checkConfigured_def i tr_def option.case Let_def if_False list.distinct)
  have "rq \<in> set (sent_requests evs)" using d(2) by simp
  from auth_poll_same_request [OF run _ this] i show ?thesis using run \<open>rq \<in> set (sent_requests evs)\<close> by auto
qed

end
