(* ===== verification/Callback.thy ===== *)
theory Callback
  imports Client_Dispatch
begin

text \<open>
  atomefin/callback: the composed Verifier (several keys during a rotation, RSA2 or
  OVO.HMAC mode, replay window) and the generic HTTP handler behind every callback
  endpoint.  Decoding the event, encoding the acknowledgement and the partner's
  function are arguments; the handler returns its reply together with the events it
  passed to the partner's function.
\<close>

section \<open>Acknowledgements: types.go\<close>

record ack_response =
  ack_Code :: string
  ack_Message :: string

definition AckSuccess :: ack_response where
  "AckSuccess = \<lparr>ack_Code = CodeSuccess, ack_Message = ''ack''\<rparr>"

definition AckBadSignature :: ack_response where
  "AckBadSignature = \<lparr>ack_Code = CodeInvalidSignature, ack_Message = ''signature did not verify''\<rparr>"

definition AckServerError :: "string \<Rightarrow> ack_response" where
  "AckServerError reason =
     \<lparr>ack_Code = CodeServerError, ack_Message = (if reason = [] then ''internal handler error'' else reason)\<rparr>"

definition AckParamsWrong :: "string \<Rightarrow> ack_response" where
  "AckParamsWrong reason =
     \<lparr>ack_Code = ''WRONG_PARAMS_FORMAT'', ack_Message = (if reason = [] then ''request rejected'' else reason)\<rparr>"

section \<open>The composed verifier: verifier.go\<close>

definition DefaultBodyLimit :: int64 where "DefaultBodyLimit = push_bit 20 1"

text \<open>The clock gives Unix milliseconds; None for a nil clock, when time.Now is read.\<close>

record cb_verifier =
  verifiers :: "verifier list"
  bodyLimit :: int64
  cb_clock :: "int64 option"
  hmacClientID :: string
  hmacClockSkew :: duration

type_synonym verifier_option = "cb_verifier \<Rightarrow> cb_verifier"

definition WithBodyLimit :: "int64 \<Rightarrow> verifier_option" where
  "WithBodyLimit n v = (if sint n > 0 then v\<lparr>bodyLimit := n\<rparr> else v)"

definition WithCallbackClock :: "int64 option \<Rightarrow> verifier_option" where
  "WithCallbackClock now v = (if now \<noteq> None then v\<lparr>cb_clock := now\<rparr> else v)"

definition WithHMACTimeWindow :: "duration \<Rightarrow> verifier_option" where
  "WithHMACTimeWindow n v = (if sint n > 0 then v\<lparr>hmacClockSkew := n\<rparr> else v)"

fun apply_verifier_options :: "verifier_option option list \<Rightarrow> cb_verifier \<Rightarrow> cb_verifier" where
  "apply_verifier_options [] v = v"
| "apply_verifier_options (None # os) v = apply_verifier_options os v"
| "apply_verifier_options (Some f # os) v = apply_verifier_options os (f v)"

fun nil_index :: "nat \<Rightarrow> 'a option list \<Rightarrow> nat option" where
  "nil_index i [] = None"
| "nil_index i (None # xs) = Some i"
| "nil_index i (Some x # xs) = nil_index (Suc i) xs"

text \<open>\<open>now\<close> is what time.Now reads when the verifier is used.\<close>

definition NewVerifier ::
  "int64 \<Rightarrow> verifier option list \<Rightarrow> verifier_option option list \<Rightarrow> go_error + cb_verifier" where
  "NewVerifier now vs opts =
     (if length vs = 0 then
        Inl (ErrorString ''atomefin/callback: NewVerifier requires at least one sign.Verifier'')
      else case nil_index 0 vs of
        Some i \<Rightarrow> Inl (ErrorString (''atomefin/callback: NewVerifier: verifier['' @ itoa (int i) @ ''] is nil''))
      | None \<Rightarrow> Inr (apply_verifier_options opts
          \<lparr>verifiers = List.map_filter id vs, bodyLimit = DefaultBodyLimit, cb_clock = Some now,
           hmacClientID = [], hmacClockSkew = 0\<rparr>))"

definition FromClient ::
  "int64 \<Rightarrow> client option \<Rightarrow> verifier_option option list \<Rightarrow> go_error + cb_verifier" where
  "FromClient now co opts =
     (case co of
        None \<Rightarrow> Inl (ErrorString ''atomefin/callback: FromClient: nil *Client'')
      | Some c \<Rightarrow>
          if Client_Config.verifier c = None then
            Inl (ErrorString ''atomefin/callback: FromClient: Client has no Atome public key configured (use atomefin.WithAtomePublicKey)'')
          else NewVerifier now [Client_Config.verifier c] opts)"

fun wrap_index :: "string \<Rightarrow> nat \<Rightarrow> go_error + 'a \<Rightarrow> go_error + 'a" where
  "wrap_index name i (Inl err) =
     Inl (WrapError (''atomefin/callback: '' @ name @ ''['' @ itoa (int i) @ '']: '') err [])"
| "wrap_index name i (Inr x) = Inr x"

fun build_all :: "(nat \<Rightarrow> 'a \<Rightarrow> go_error + verifier) \<Rightarrow> nat \<Rightarrow> 'a list \<Rightarrow> go_error + verifier list" where
  "build_all f i [] = Inr []"
| "build_all f i (x # xs) = rbind (f i x) (\<lambda>v. rbind (build_all f (Suc i) xs) (\<lambda>vs. Inr (v # vs)))"

definition FromCertPEMs ::
  "go_lib \<Rightarrow> int64 \<Rightarrow> bytes list \<Rightarrow> verifier_option option list \<Rightarrow> go_error + cb_verifier" where
  "FromCertPEMs L now pems opts =
     (if length pems = 0 then Inl (ErrorString ''atomefin/callback: FromCertPEMs: no PEMs provided'')
      else rbind (build_all (\<lambda>i p.
             rbind (wrap_index ''FromCertPEMs'' i (LoadPublicCertPEM (lib_x509 L) p)) (\<lambda>key.
               wrap_index ''FromCertPEMs'' i (NewRSA2Verifier (lib_sha256 L) (lib_rsa_verify L) (Some key) []))) 0 pems)
        (\<lambda>vs. NewVerifier now (map Some vs) opts))"

definition FromHMACSecret ::
  "(bytes \<Rightarrow> bytes) \<Rightarrow> (bytes \<Rightarrow> bytes \<Rightarrow> bytes) \<Rightarrow> int64 \<Rightarrow> string \<Rightarrow> string list \<Rightarrow>
   verifier_option option list \<Rightarrow> go_error + cb_verifier" where
  "FromHMACSecret sha256 hmac now clientID clientSecrets opts =
     (if clientID = [] then Inl (ErrorString ''atomefin/callback: FromHMACSecret: empty clientID'')
      else if length clientSecrets = 0 then
        Inl (ErrorString ''atomefin/callback: FromHMACSecret: no client secrets provided'')
      else rbind (build_all (\<lambda>i s. wrap_index ''FromHMACSecret'' i (NewOVOHMACVerifier sha256 hmac s)) 0 clientSecrets)
        (\<lambda>vs. rbind (NewVerifier now (map Some vs) opts) (\<lambda>v. Inr (v\<lparr>hmacClientID := clientID\<rparr>))))"

definition IsHMAC :: "cb_verifier option \<Rightarrow> bool" where
  "IsHMAC vo \<longleftrightarrow> (case vo of None \<Rightarrow> False | Some v \<Rightarrow> hmacClientID v \<noteq> [])"

fun verify_any ::
  "verifier list \<Rightarrow> go_error option \<Rightarrow> bytes \<Rightarrow> string \<Rightarrow> go_error option \<Rightarrow> go_error option" where
  "verify_any [] ctx body signature lst = (case lst of None \<Rightarrow> Some ErrSignature | Some e \<Rightarrow> Some e)"
| "verify_any (sv # svs) ctx body signature lst =
     (case Verify sv ctx body signature of
        None \<Rightarrow> None
      | Some err \<Rightarrow> verify_any svs ctx body signature (Some err))"

definition Verifier_Verify :: "cb_verifier option \<Rightarrow> go_error option \<Rightarrow> bytes \<Rightarrow> string \<Rightarrow> go_error option" where
  "Verifier_Verify vo ctx body signature =
     (case vo of
        None \<Rightarrow> Some (ErrorString ''atomefin/callback: Verifier not configured'')
      | Some v \<Rightarrow>
          if length (verifiers v) = 0 then Some (ErrorString ''atomefin/callback: Verifier not configured'')
          else if signature = [] then Some (WrapError [] ErrSignature '': empty signature'')
          else verify_any (verifiers v) ctx body signature None)"

definition verifyHMACTime :: "int64 \<Rightarrow> cb_verifier option \<Rightarrow> string \<Rightarrow> go_error option" where
  "verifyHMACTime time_now vo timeMillis =
     (case vo of
        None \<Rightarrow> None
      | Some v \<Rightarrow>
          if sint (hmacClockSkew v) \<le> 0 then None
          else case parse_int64 timeMillis of
            None \<Rightarrow> Some (ErrorString ''atomefin/callback: OVO.HMAC time header is not epoch milliseconds: '')
          | Some t \<Rightarrow>
              let nowMs = (case cb_clock v of None \<Rightarrow> time_now | Some n \<Rightarrow> n);
                  skew0 = sint (hmacClockSkew v) div 1000000;
                  skewMs = (if skew0 < 0 then 0 else word_of_int skew0) :: int64
              in if t > sint (nowMs + skewMs) \<or> t < sint (nowMs - skewMs) then
                   Some (ErrorString (''atomefin/callback: OVO.HMAC time header outside replay window: header='' @
                     itoa t @ ''ms now='' @ itoa (sint nowMs) @ ''ms window='' @ itoa (sint skewMs) @ ''ms''))
                 else None)"

section \<open>The handler: handler.go\<close>

record inbound =
  in_method :: string
  in_header :: header
  in_body :: "(bytes \<times> go_error option) option"
  in_uri :: string
  in_ctx :: "go_error option"
  in_now :: int64

record http_reply =
  rp_status :: int
  rp_header :: header
  rp_body :: bytes

definition readLimited :: "(bytes \<times> go_error option) option \<Rightarrow> int64 \<Rightarrow> go_error + bytes" where
  "readLimited r limit =
     (case r of
        None \<Rightarrow> Inl (ErrorString ''missing request body'')
      | Some b \<Rightarrow>
          (case read_all_limited b (limit + 1) of
             Inl err \<Rightarrow> Inl (WrapError ''read body: '' err [])
           | Inr buf \<Rightarrow>
               if int (length buf) > sint limit then
                 Inl (ErrorString (''body exceeds '' @ itoa (sint limit) @ '' bytes''))
               else Inr buf))"

text \<open>\<open>marshal\<close> is MarshalSigning of an acknowledgement.\<close>

definition writeAck :: "(ack_response \<Rightarrow> go_error + bytes) \<Rightarrow> int \<Rightarrow> ack_response \<Rightarrow> http_reply" where
  "writeAck marshal status ack =
     (let (st, body) = (case marshal ack of
          Inl err \<Rightarrow> (500, ''{\"code\":\"SERVER_ERROR\",\"message\":\"ack marshal failed\"}'')
        | Inr b \<Rightarrow> (status, b))
      in \<lparr>rp_status = st,
          rp_header = header_set ''X-Content-Type-Options'' ''nosniff''
            (header_set ''Content-Type'' ''application/json; charset=utf-8'' []),
          rp_body = body\<rparr>)"

text \<open>
  The signature and the bytes it must cover, or None when a header is missing or the
  replay window rejects the request.
\<close>

definition extract_signature :: "cb_verifier \<Rightarrow> inbound \<Rightarrow> bytes \<Rightarrow> (string \<times> bytes) option" where
  "extract_signature v r body =
     (if hmacClientID v \<noteq> [] then
        let sig = header_get ''signature'' (in_header r);
            timeMs = header_get ''time'' (in_header r);
            clientID = header_get ''client-id'' (in_header r)
        in if sig = [] \<or> timeMs = [] \<or> clientID \<noteq> hmacClientID v then None
           else if verifyHMACTime (in_now r) (Some v) timeMs \<noteq> None then None
           else Some (sig, OVOHMACCanonical clientID timeMs (in_method r) (in_uri r) body)
      else
        let sig = header_get ''Authorization'' (in_header r)
        in if sig = [] then None else Some (sig, body))"

definition handle_request ::
  "(string \<Rightarrow> string) \<Rightarrow> (ack_response \<Rightarrow> go_error + bytes) \<Rightarrow> (bytes \<Rightarrow> go_error + 'e) \<Rightarrow>
   cb_verifier \<Rightarrow> int64 \<Rightarrow> ('e \<Rightarrow> go_error option) \<Rightarrow> inbound \<Rightarrow> http_reply \<times> 'e list" where
  "handle_request q marshal decode v limit fn r =
     (if in_method r \<noteq> ''POST'' then (writeAck marshal 405 (AckParamsWrong ''method not allowed''), [])
      else case readLimited (in_body r) limit of
        Inl err \<Rightarrow> (writeAck marshal 400 (AckParamsWrong (error_text q err)), [])
      | Inr body \<Rightarrow>
          (case extract_signature v r body of
             None \<Rightarrow> (writeAck marshal 401 AckBadSignature, [])
           | Some (sig, canonical) \<Rightarrow>
               (case Verifier_Verify (Some v) (in_ctx r) canonical sig of
                  Some vErr \<Rightarrow> (writeAck marshal 401 AckBadSignature, [])
                | None \<Rightarrow>
                    (case decode body of
                       Inl err \<Rightarrow> (writeAck marshal 400 (AckParamsWrong (''decode failed: '' @ error_text q err)), [])
                     | Inr event \<Rightarrow>
                         (case fn event of
                            Some err \<Rightarrow> (writeAck marshal 500 (AckServerError (error_text q err)), [event])
                          | None \<Rightarrow> (writeAck marshal 200 AckSuccess, [event]))))))"

definition handle ::
  "(string \<Rightarrow> string) \<Rightarrow> (ack_response \<Rightarrow> go_error + bytes) \<Rightarrow> (bytes \<Rightarrow> go_error + 'e) \<Rightarrow>
   cb_verifier option \<Rightarrow> ('e \<Rightarrow> go_error option) option \<Rightarrow> inbound \<Rightarrow> http_reply \<times> 'e list" where
  "handle q marshal decode vo fo r =
     (case vo of
        None \<Rightarrow> (writeAck marshal 500 (AckServerError ''callback handler missing Verifier''), [])
      | Some v \<Rightarrow>
          (case fo of
             None \<Rightarrow> (writeAck marshal 500 (AckServerError ''callback handler missing user function''), [])
           | Some fn \<Rightarrow>
               handle_request q marshal decode v
                 (if sint (bodyLimit v) \<le> 0 then DefaultBodyLimit else bodyLimit v) fn r))"

text \<open>The exported handlers: each surfaces a nil function before wrapping it.\<close>

definition AuthHandler ::
  "(string \<Rightarrow> string) \<Rightarrow> (ack_response \<Rightarrow> go_error + bytes) \<Rightarrow> (bytes \<Rightarrow> go_error + 'e) \<Rightarrow>
   cb_verifier option \<Rightarrow> ('e \<Rightarrow> go_error option) option \<Rightarrow> inbound \<Rightarrow> http_reply \<times> 'e list" where
  "AuthHandler q marshal decode vo fo r =
     (case fo of None \<Rightarrow> handle q marshal decode vo None r
      | Some fn \<Rightarrow> handle q marshal decode vo (Some (\<lambda>e. fn e)) r)"

definition CaptureHandler ::
  "(string \<Rightarrow> string) \<Rightarrow> (ack_response \<Rightarrow> go_error + bytes) \<Rightarrow> (bytes \<Rightarrow> go_error + 'e) \<Rightarrow>
   cb_verifier option \<Rightarrow> ('e \<Rightarrow> go_error option) option \<Rightarrow> inbound \<Rightarrow> http_reply \<times> 'e list" where
  "CaptureHandler q marshal decode vo fo r =
     (case fo of None \<Rightarrow> handle q marshal decode vo None r
      | Some fn \<Rightarrow> handle q marshal decode vo (Some (\<lambda>e. fn e)) r)"

definition RefundHandler ::
  "(string \<Rightarrow> string) \<Rightarrow> (ack_response \<Rightarrow> go_error + bytes) \<Rightarrow> (bytes \<Rightarrow> go_error + 'e) \<Rightarrow>
   cb_verifier option \<Rightarrow> ('e \<Rightarrow> go_error option) option \<Rightarrow> inbound \<Rightarrow> http_reply \<times> 'e list" where
  "RefundHandler q marshal decode vo fo r =
     (case fo of None \<Rightarrow> handle q marshal decode vo None r
      | Some fn \<Rightarrow> handle q marshal decode vo (Some (\<lambda>e. fn e)) r)"

definition RepaymentHandler ::
  "(string \<Rightarrow> string) \<Rightarrow> (ack_response \<Rightarrow> go_error + bytes) \<Rightarrow> (bytes \<Rightarrow> go_error + 'e) \<Rightarrow>
   cb_verifier option \<Rightarrow> ('e \<Rightarrow> go_error option) option \<Rightarrow> inbound \<Rightarrow> http_reply \<times> 'e list" where
  "RepaymentHandler q marshal decode vo fo r =
     (case fo of None \<Rightarrow> handle q marshal decode vo None r
      | Some fn \<Rightarrow> handle q marshal decode vo (Some (\<lambda>e. fn e)) r)"

definition CreditApplicationHandler ::
  "(string \<Rightarrow> string) \<Rightarrow> (ack_response \<Rightarrow> go_error + bytes) \<Rightarrow> (bytes \<Rightarrow> go_error + 'e) \<Rightarrow>
   cb_verifier option \<Rightarrow> ('e \<Rightarrow> go_error option) option \<Rightarrow> inbound \<Rightarrow> http_reply \<times> 'e list" where
  "CreditApplicationHandler q marshal decode vo fo r =
     (case fo of None \<Rightarrow> handle q marshal decode vo None r
      | Some fn \<Rightarrow> handle q marshal decode vo (Some (\<lambda>e. fn e)) r)"

definition CreditInformationHandler ::
  "(string \<Rightarrow> string) \<Rightarrow> (ack_response \<Rightarrow> go_error + bytes) \<Rightarrow> (bytes \<Rightarrow> go_error + 'e) \<Rightarrow>
   cb_verifier option \<Rightarrow> ('e \<Rightarrow> go_error option) option \<Rightarrow> inbound \<Rightarrow> http_reply \<times> 'e list" where
  "CreditInformationHandler q marshal decode vo fo r =
     (case fo of None \<Rightarrow> handle q marshal decode vo None r
      | Some fn \<Rightarrow> handle q marshal decode vo (Some (\<lambda>e. fn e)) r)"

definition AccountChangeHandler ::
  "(string \<Rightarrow> string) \<Rightarrow> (ack_response \<Rightarrow> go_error + bytes) \<Rightarrow> (bytes \<Rightarrow> go_error + 'e) \<Rightarrow>
   cb_verifier option \<Rightarrow> ('e \<Rightarrow> go_error option) option \<Rightarrow> inbound \<Rightarrow> http_reply \<times> 'e list" where
  "AccountChangeHandler q marshal decode vo fo r =
     (case fo of None \<Rightarrow> handle q marshal decode vo None r
      | Some fn \<Rightarrow> handle q marshal decode vo (Some (\<lambda>e. fn e)) r)"

section \<open>Lemmas\<close>

lemma verify_any_None:
  "verify_any svs ctx m s l = None \<longleftrightarrow> (\<exists>sv \<in> set svs. Verify sv ctx m s = None)"
  by (induction svs ctx m s l rule: verify_any.induct) (auto split: option.splits)

lemma Verifier_Verify_None:
  "Verifier_Verify (Some v) ctx m s = None \<longleftrightarrow> s \<noteq> [] \<and> (\<exists>sv \<in> set (verifiers v). Verify sv ctx m s = None)"
  by (auto simp: Verifier_Verify_def verify_any_None)

lemma build_all_Inr:
  "build_all f i xs = Inr vs \<Longrightarrow> \<forall>v \<in> set vs. \<exists>j x. x \<in> set xs \<and> f j x = Inr v"
proof (induction f i xs arbitrary: vs rule: build_all.induct)
  case (2 f i x xs)
  then obtain v ws where "f i x = Inr v" "build_all f (Suc i) xs = Inr ws" "vs = v # ws"
    by (auto simp: result_simps)
  then show ?case using 2(1) by (metis list.set_intros set_ConsD)
qed simp

lemma build_all_mem:
  "build_all f i xs = Inr vs \<Longrightarrow> x \<in> set xs \<Longrightarrow> \<exists>j v. v \<in> set vs \<and> f j x = Inr v"
proof (induction f i xs arbitrary: vs rule: build_all.induct)
  case (2 f i y ys)
  then obtain v ws where "f i y = Inr v" "build_all f (Suc i) ys = Inr ws" "vs = v # ws" by (auto simp: result_simps)
  then show ?case using 2 by (cases "x = y") auto
qed simp

lemma wrap_index_Inr: "wrap_index n i r = Inr x \<longleftrightarrow> r = Inr x"
  by (cases r) auto

text \<open>The options of the package: they keep the keys and the limit positive.\<close>

inductive callback_option :: "verifier_option \<Rightarrow> bool" where
  "callback_option (WithBodyLimit n)"
| "callback_option (WithCallbackClock now)"
| "callback_option (WithHMACTimeWindow d)"

inductive_cases callback_optionE: "callback_option f"

lemma callback_option_keeps:
  assumes "callback_option f"
  shows "verifiers (f v) = verifiers v \<and> hmacClientID (f v) = hmacClientID v \<and>
    (0 < sint (bodyLimit v) \<longrightarrow> 0 < sint (bodyLimit (f v)))"
  using assms
  by (rule callback_optionE) (auto simp: WithBodyLimit_def WithCallbackClock_def WithHMACTimeWindow_def)

lemma apply_verifier_options_keeps:
  "\<forall>f. Some f \<in> set opts \<longrightarrow> callback_option f \<Longrightarrow>
     verifiers (apply_verifier_options opts v) = verifiers v \<and>
     hmacClientID (apply_verifier_options opts v) = hmacClientID v \<and>
     (0 < sint (bodyLimit v) \<longrightarrow> 0 < sint (bodyLimit (apply_verifier_options opts v)))"
  by (induction opts v rule: apply_verifier_options.induct) (auto simp: callback_option_keeps)

lemma map_filter_id_Some [simp]: "List.map_filter id (map Some xs) = xs"
  by (induction xs) (simp_all add: map_filter_simps)

lemma NewVerifier_Inr:
  assumes "NewVerifier now (map Some vs) opts = Inr v" "\<forall>f. Some f \<in> set opts \<longrightarrow> callback_option f"
  shows "verifiers v = vs \<and> vs \<noteq> [] \<and> hmacClientID v = [] \<and> 0 < sint (bodyLimit v)"
  using assms(1) apply_verifier_options_keeps [OF assms(2)]
  by (auto simp: NewVerifier_def DefaultBodyLimit_def push_bit_eq_mult split: if_splits option.splits)

lemma FromHMACSecret_Inr:
  assumes "FromHMACSecret sha256 hmac now clientID secrets opts = Inr v"
    and "\<forall>f. Some f \<in> set opts \<longrightarrow> callback_option f"
  shows "hmacClientID v = clientID \<and> clientID \<noteq> [] \<and> verifiers v \<noteq> [] \<and> 0 < sint (bodyLimit v) \<and>
    (\<forall>sv \<in> set (verifiers v). \<exists>s \<in> set secrets. s \<noteq> [] \<and> sv = \<lparr>Verify = ovoHMAC_Verify hmac (OVOHMACKey sha256 s)\<rparr>)"
proof -
  let ?f = "\<lambda>i s. wrap_index ''FromHMACSecret'' i (NewOVOHMACVerifier sha256 hmac s)"
  obtain vs v' where b: "build_all ?f 0 secrets = Inr vs" and n: "NewVerifier now (map Some vs) opts = Inr v'"
    and v: "v = v'\<lparr>hmacClientID := clientID\<rparr>" "clientID \<noteq> []"
    using assms(1) by (auto simp: FromHMACSecret_def result_simps split: if_splits)
  have "\<exists>s \<in> set secrets. s \<noteq> [] \<and> sv = \<lparr>Verify = ovoHMAC_Verify hmac (OVOHMACKey sha256 s)\<rparr>" if "sv \<in> set vs" for sv
    using build_all_Inr [OF b] that by (force simp: wrap_index_Inr NewOVOHMACVerifier_def split: if_splits)
  then show ?thesis using NewVerifier_Inr [OF n assms(2)] v by auto
qed

text \<open>No secret is left out: each becomes a verifier of the rotation.\<close>

lemma FromHMACSecret_covers:
  assumes "FromHMACSecret sha256 hmac now clientID secrets opts = Inr v"
    and "\<forall>f. Some f \<in> set opts \<longrightarrow> callback_option f" "s \<in> set secrets"
  shows "\<lparr>Verify = ovoHMAC_Verify hmac (OVOHMACKey sha256 s)\<rparr> \<in> set (verifiers v)"
proof -
  let ?f = "\<lambda>i s. wrap_index ''FromHMACSecret'' i (NewOVOHMACVerifier sha256 hmac s)"
  obtain vs v' where b: "build_all ?f 0 secrets = Inr vs" and n: "NewVerifier now (map Some vs) opts = Inr v'"
    and v: "v = v'\<lparr>hmacClientID := clientID\<rparr>"
    using assms(1) by (auto simp: FromHMACSecret_def result_simps split: if_splits)
  obtain j sv where sv: "sv \<in> set vs" "?f j s = Inr sv" using build_all_mem [OF b assms(3)] by blast
  then have "sv = \<lparr>Verify = ovoHMAC_Verify hmac (OVOHMACKey sha256 s)\<rparr>"
    by (auto simp: wrap_index_Inr NewOVOHMACVerifier_def split: if_splits)
  then show ?thesis using sv(1) NewVerifier_Inr [OF n assms(2)] v by simp
qed

lemma readLimited_Inr:
  assumes "readLimited b limit = Inr body" "0 < sint limit" "sint limit < 2 ^ 63 - 1"
  shows "b = Some (body, None) \<and> int (length body) \<le> sint limit"
  using assms sint_max_plus_1 [OF assms(3)]
  by (auto simp: readLimited_def read_all_limited_def split: option.splits sum.splits if_splits)

lemma handle_request_ran:
  "snd (handle_request q marshal decode v limit fn r) = es \<Longrightarrow> es \<noteq> [] \<Longrightarrow>
     \<exists>body sig canonical e. es = [e] \<and> in_method r = ''POST'' \<and> readLimited (in_body r) limit = Inr body \<and>
       extract_signature v r body = Some (sig, canonical) \<and>
       Verifier_Verify (Some v) (in_ctx r) canonical sig = None \<and> decode body = Inr e"
  by (auto simp: handle_request_def split: if_splits sum.splits option.splits prod.splits)

section \<open>Properties\<close>

text \<open>C3. The partner's function runs only on an authenticated event: when a handler built from
  OVO.HMAC secrets passes an event to it, the request was a POST whose whole body fits the limit,
  its client-id is the configured one, and its signature is the MAC, under one of the configured
  secrets, of the canonical of this very request; the event is the decoding of the signed body, and
  it is passed exactly once.\<close>
theorem hmac_handler_runs_only_verified:
  assumes "FromHMACSecret sha256 hmac now clientID secrets opts = Inr v"
    and "\<forall>f. Some f \<in> set opts \<longrightarrow> callback_option f" "sint (bodyLimit v) < 2 ^ 63 - 1"
    and "snd (handle q marshal decode (Some v) (Some fn) r) = es" "es \<noteq> []"
  shows "\<exists>body e s. es = [e] \<and> in_method r = ''POST'' \<and> in_body r = Some (body, None) \<and>
    int (length body) \<le> sint (bodyLimit v) \<and> in_ctx r = None \<and> decode body = Inr e \<and>
    header_get ''client-id'' (in_header r) = clientID \<and> s \<in> set secrets \<and>
    header_get ''signature'' (in_header r) =
      ovoHMAC hmac (OVOHMACKey sha256 s)
        (OVOHMACCanonical clientID (header_get ''time'' (in_header r)) ''POST'' (in_uri r) body)"
proof -
  note v = FromHMACSecret_Inr [OF assms(1,2)]
  then have h: "snd (handle_request q marshal decode v (bodyLimit v) fn r) = es"
    using assms(4) by (simp add: handle_def)
  obtain body sig canonical e where run: "es = [e]" "in_method r = ''POST''"
    "readLimited (in_body r) (bodyLimit v) = Inr body" "extract_signature v r body = Some (sig, canonical)"
    "Verifier_Verify (Some v) (in_ctx r) canonical sig = None" "decode body = Inr e"
    using handle_request_ran [OF h assms(5)] by blast
  have body: "in_body r = Some (body, None)" "int (length body) \<le> sint (bodyLimit v)"
    using readLimited_Inr [OF run(3) _ assms(3)] v by blast+
  have sig: "sig = header_get ''signature'' (in_header r)" "header_get ''client-id'' (in_header r) = clientID"
    "canonical = OVOHMACCanonical clientID (header_get ''time'' (in_header r)) ''POST'' (in_uri r) body"
    using run(2,4) v by (auto simp: extract_signature_def Let_def split: if_splits)
  obtain sv where sv: "sv \<in> set (verifiers v)" "Verify sv (in_ctx r) canonical sig = None"
    using run(5) by (auto simp: Verifier_Verify_None)
  obtain s where "s \<in> set secrets" "sv = \<lparr>Verify = ovoHMAC_Verify hmac (OVOHMACKey sha256 s)\<rparr>"
    using v sv(1) by blast
  with sv(2) have s: "s \<in> set secrets"
    "Verify \<lparr>Verify = ovoHMAC_Verify hmac (OVOHMACKey sha256 s)\<rparr> (in_ctx r) canonical sig = None" by simp_all
  have ctx: "in_ctx r = None" using s(2) by (rule ovo.accepted_live)
  then have "sig = ovoHMAC hmac (OVOHMACKey sha256 s) canonical"
    using s(2) by (auto simp: ovoHMAC_Verify_def Let_def split: if_splits)
  then show ?thesis using run(1,2,6) body sig s(1) ctx
    by (intro exI [of _ body] exI [of _ e] exI [of _ s]) simp
qed

text \<open>A configured client: one retired and one current secret, a MAC that is not empty.\<close>

definition toy_hmac :: "bytes \<Rightarrow> bytes \<Rightarrow> bytes" where
  "toy_hmac k m = CHR ''!'' # k @ m"

definition sample_inbound :: inbound where
  "sample_inbound = \<lparr>in_method = ''POST'',
     in_header = [(''Client-Id'', [''c1'']), (''Time'', [''1700000000000'']),
       (''Signature'', [ovoHMAC toy_hmac (OVOHMACKey (\<lambda>b. b) ''new'')
          (OVOHMACCanonical ''c1'' ''1700000000000'' ''POST'' ''/cb'' ''{}'')])],
     in_body = Some (''{}'', None), in_uri = ''/cb'', in_ctx = None, in_now = 0\<rparr>"

lemma sample_keys [simp]:
  "CanonicalHeaderKey ''client-id'' = ''Client-Id''" "CanonicalHeaderKey ''time'' = ''Time''"
  "CanonicalHeaderKey ''signature'' = ''Signature''"
  by (simp_all add: CanonicalHeaderKey_def valid_header_byte_def is_upper_def is_lower_def is_digit_def
      to_upper_def to_lower_def char_eq_code_iff)

definition sample_verifier :: cb_verifier where
  "sample_verifier = \<lparr>verifiers =
      [\<lparr>Verify = ovoHMAC_Verify toy_hmac (OVOHMACKey (\<lambda>b. b) ''old'')\<rparr>,
       \<lparr>Verify = ovoHMAC_Verify toy_hmac (OVOHMACKey (\<lambda>b. b) ''new'')\<rparr>],
     bodyLimit = DefaultBodyLimit, cb_clock = Some 0, hmacClientID = ''c1'', hmacClockSkew = 0\<rparr>"

lemma sample_FromHMACSecret:
  "FromHMACSecret (\<lambda>b. b) toy_hmac 0 ''c1'' [''old'', ''new''] [] = Inr sample_verifier"
  by (simp add: FromHMACSecret_def NewOVOHMACVerifier_def NewVerifier_def sample_verifier_def map_filter_simps)

lemma sint_DefaultBodyLimit [simp]: "sint DefaultBodyLimit = 1048576"
  by (simp add: DefaultBodyLimit_def push_bit_eq_mult)

text \<open>What makes a request of an OVO.HMAC handler pass.\<close>

lemma hmac_request_passes:
  assumes "FromHMACSecret sha256 hmac now clientID secrets opts = Inr v"
    and "\<forall>f. Some f \<in> set opts \<longrightarrow> callback_option f" "sint (bodyLimit v) < 2 ^ 63 - 1"
    and "in_method r = ''POST''" "in_body r = Some (body, None)" "int (length body) \<le> sint (bodyLimit v)"
    and "in_ctx r = None" "header_get ''client-id'' (in_header r) = clientID"
    and "header_get ''time'' (in_header r) = tm" "tm \<noteq> []" "verifyHMACTime (in_now r) (Some v) tm = None"
    and "\<exists>sv \<in> set (verifiers v). Verify sv None (OVOHMACCanonical clientID tm ''POST'' (in_uri r) body)
           (header_get ''signature'' (in_header r)) = None"
    and "header_get ''signature'' (in_header r) \<noteq> []" "decode body = Inr e"
  shows "handle q marshal decode (Some v) (Some fn) r =
    (case fn e of Some err \<Rightarrow> (writeAck marshal 500 (AckServerError (error_text q err)), [e])
     | None \<Rightarrow> (writeAck marshal 200 AckSuccess, [e]))"
proof -
  note v = FromHMACSecret_Inr [OF assms(1,2)]
  let ?c = "OVOHMACCanonical clientID tm ''POST'' (in_uri r) body"
  have rd: "readLimited (in_body r) (bodyLimit v) = Inr body"
    using assms(3,5,6) v sint_max_plus_1 [OF assms(3)] by (simp add: readLimited_def read_all_limited_def)
  have ex: "extract_signature v r body = Some (header_get ''signature'' (in_header r), ?c)"
    using assms v by (simp add: extract_signature_def Let_def)
  have "Verifier_Verify (Some v) (in_ctx r) ?c (header_get ''signature'' (in_header r)) = None"
    using assms(7,12,13) by (simp only: Verifier_Verify_None simp_thms)
  then show ?thesis using v rd ex assms(4,14)
    by (simp add: handle_def handle_request_def split: option.split)
qed

text \<open>C28. A correctly signed callback is delivered: a POST with the configured client-id, a time the
  window accepts, a body within the limit that decodes, and the MAC under any of the secrets
  FromHMACSecret was given as signature reaches the partner's function exactly once and is
  acknowledged with 200 when the function returns nil and 500 when it fails, so that a secret
  rotation loses no callback.  The MAC is never empty and the acknowledgement can be encoded.\<close>
theorem hmac_handler_delivers_signed:
  assumes "FromHMACSecret sha256 hmac now clientID secrets opts = Inr v"
    and "\<forall>f. Some f \<in> set opts \<longrightarrow> callback_option f" "sint (bodyLimit v) < 2 ^ 63 - 1"
    and "in_method r = ''POST''" "in_body r = Some (body, None)" "int (length body) \<le> sint (bodyLimit v)"
    and "in_ctx r = None" "header_get ''client-id'' (in_header r) = clientID"
    and "header_get ''time'' (in_header r) = tm" "tm \<noteq> []" "verifyHMACTime (in_now r) (Some v) tm = None"
    and "s \<in> set secrets" "header_get ''signature'' (in_header r) =
      ovoHMAC hmac (OVOHMACKey sha256 s) (OVOHMACCanonical clientID tm ''POST'' (in_uri r) body)"
    and "\<And>k m. hmac k m \<noteq> []" "decode body = Inr e" "\<And>a. marshal a = Inr (enc a)"
  shows "snd (handle q marshal decode (Some v) (Some fn) r) = [e] \<and>
    rp_status (fst (handle q marshal decode (Some v) (Some fn) r)) = (if fn e = None then 200 else 500)"
proof -
  let ?c = "OVOHMACCanonical clientID tm ''POST'' (in_uri r) body"
  have ne: "header_get ''signature'' (in_header r) \<noteq> []"
    using assms(13) assms(14) [of "OVOHMACKey sha256 s" ?c] by (metis ovoHMAC_def hex_encode_inj hex_encode.simps(1))
  have "Verify \<lparr>Verify = ovoHMAC_Verify hmac (OVOHMACKey sha256 s)\<rparr> None ?c (header_get ''signature'' (in_header r)) = None"
    using ne assms(13) by (simp add: ovoHMAC_Verify_def)
  then have ver: "\<exists>sv \<in> set (verifiers v). Verify sv None ?c (header_get ''signature'' (in_header r)) = None"
    using FromHMACSecret_covers [OF assms(1,2,12)] by blast
  show ?thesis
    unfolding hmac_request_passes [where decode = decode, OF assms(1-11) ver ne assms(15)]
    using assms(16) by (simp add: writeAck_def split: option.split)
qed

theorem hmac_handler_delivers_signed_witness:
  "snd (handle (\<lambda>s. s) (\<lambda>a. Inr (ack_Code a)) Inr (Some sample_verifier) (Some (\<lambda>e. None)) sample_inbound) = [''{}''] \<and>
   rp_status (fst (handle (\<lambda>s. s) (\<lambda>a. Inr (ack_Code a)) Inr (Some sample_verifier) (Some (\<lambda>e. None)) sample_inbound)) = 200"
proof -
  have "snd (handle (\<lambda>s. s) (\<lambda>a. Inr (ack_Code a)) Inr (Some sample_verifier) (Some (\<lambda>e. None)) sample_inbound) = [''{}''] \<and>
   rp_status (fst (handle (\<lambda>s. s) (\<lambda>a. Inr (ack_Code a)) Inr (Some sample_verifier) (Some (\<lambda>e. None)) sample_inbound)) =
     (if (\<lambda>e :: string. None :: go_error option) ''{}'' = None then 200 else 500)"
    by (rule hmac_handler_delivers_signed [OF sample_FromHMACSecret, where tm = "''1700000000000''" and
          s = "''new''" and body = "''{}''"])
       (simp_all add: sample_verifier_def sample_inbound_def header_get_def verifyHMACTime_def toy_hmac_def)
  then show ?thesis by simp
qed

theorem hmac_handler_runs_only_verified_witness:
  "\<exists>s. s \<in> {''old'', ''new''} \<and> header_get ''signature'' (in_header sample_inbound) =
      ovoHMAC toy_hmac (OVOHMACKey (\<lambda>b. b) s)
        (OVOHMACCanonical ''c1'' (header_get ''time'' (in_header sample_inbound)) ''POST'' ''/cb'' ''{}'')"
proof -
  have h: "handle (\<lambda>s. s) (\<lambda>a. Inr (ack_Code a)) Inr (Some sample_verifier) (Some (\<lambda>e. None)) sample_inbound =
      (writeAck (\<lambda>a. Inr (ack_Code a)) 200 AckSuccess, [''{}''])"
    by (subst hmac_request_passes [OF sample_FromHMACSecret, where tm = "''1700000000000''" and body = "''{}''" and e = "''{}''"])
       (simp_all add: sample_verifier_def sample_inbound_def header_get_def verifyHMACTime_def toy_hmac_def
         ovoHMAC_Verify_def ovoHMAC_def)
  have "\<exists>body e s. [''{}''] = [e] \<and> in_method sample_inbound = ''POST'' \<and> in_body sample_inbound = Some (body, None) \<and>
    int (length body) \<le> sint (bodyLimit sample_verifier) \<and> in_ctx sample_inbound = None \<and> Inr body = (Inr e :: go_error + string) \<and>
    header_get ''client-id'' (in_header sample_inbound) = ''c1'' \<and> s \<in> set [''old'', ''new''] \<and>
    header_get ''signature'' (in_header sample_inbound) = ovoHMAC toy_hmac (OVOHMACKey (\<lambda>b. b) s)
        (OVOHMACCanonical ''c1'' (header_get ''time'' (in_header sample_inbound)) ''POST'' (in_uri sample_inbound) body)"
    by (rule hmac_handler_runs_only_verified [OF sample_FromHMACSecret, where marshal = "\<lambda>a. Inr (ack_Code a)" and
          q = "\<lambda>s. s" and fn = "\<lambda>e. None"]) (simp_all only: h snd_conv, simp_all add: sample_verifier_def)
  then show ?thesis by (auto simp: sample_inbound_def)
qed

section \<open>Replay window and reply classes\<close>

lemma sint_window:
  assumes "\<bar>sint now\<bar> < 2 ^ 62" "0 \<le> s" "s < 2 ^ 62"
  shows "sint (now + word_of_int s :: int64) = sint now + s" "sint (now - word_of_int s :: int64) = sint now - s"
proof -
  have s: "sint (word_of_int s :: int64) = s" using assms(2,3) by (intro sint64_of_int) simp_all
  then show "sint (now + word_of_int s :: int64) = sint now + s"
    using assms sint64_add [of now "word_of_int s"] by simp
  have "now - word_of_int s = (word_of_int (sint now - s) :: int64)" by simp
  then show "sint (now - word_of_int s :: int64) = sint now - s"
    using assms sint64_of_int [of "sint now - s"] by simp
qed

lemma skew_small: "0 \<le> sint (d :: duration) \<Longrightarrow> sint d div 1000000 < 2 ^ 62"
proof -
  assume "0 \<le> sint d"
  moreover have "sint d < 2 ^ 63" by (rule sint64_range)
  ultimately show ?thesis by (simp add: div_less_iff_less_mult) 
qed

text \<open>C29. With a replay window set, a time header passes exactly when it is a decimal 64-bit number
  that lies within the window, in whole milliseconds, of the clock on either side; without a window
  every header passes.  The clock is within 2^62 ms of the epoch.\<close>
theorem replay_window_exact:
  assumes "nowMs = (case cb_clock v of None \<Rightarrow> time_now | Some n \<Rightarrow> n)" "\<bar>sint nowMs\<bar> < 2 ^ 62"
  shows "verifyHMACTime time_now (Some v) tm = None \<longleftrightarrow>
    sint (hmacClockSkew v) \<le> 0 \<or>
    (\<exists>t. parse_int64 tm = Some t \<and> \<bar>t - sint nowMs\<bar> \<le> sint (hmacClockSkew v) div 1000000)"
proof (cases "sint (hmacClockSkew v) \<le> 0")
  case False
  let ?s = "sint (hmacClockSkew v) div 1000000"
  have s: "0 \<le> ?s" "?s < 2 ^ 62"
    using False skew_small [of "hmacClockSkew v"] by (simp_all add: pos_imp_zdiv_nonneg_iff)
  show ?thesis
    using False s sint_window [OF assms(2) s] assms(1)
    by (auto simp: verifyHMACTime_def Let_def abs_le_iff split: option.splits)
qed (simp add: verifyHMACTime_def)

theorem replay_window_exact_witness:
  "verifyHMACTime 0 (Some (sample_verifier\<lparr>cb_clock := Some 1700000000500, hmacClockSkew := second\<rparr>)) ''1700000000000'' = None \<and>
   verifyHMACTime 0 (Some (sample_verifier\<lparr>cb_clock := Some 1700000001500, hmacClockSkew := second\<rparr>)) ''1700000000000'' \<noteq> None"
proof -
  have p: "parse_int64 ''1700000000000'' = Some 1700000000000"
    by (simp add: parse_int64_def parse_unsigned_def is_digit_def)
  show ?thesis
    using replay_window_exact [where nowMs = 1700000000500 and v = "sample_verifier\<lparr>cb_clock := Some 1700000000500, hmacClockSkew := second\<rparr>"
          and time_now = 0 and tm = "''1700000000000''"]
      replay_window_exact [where nowMs = 1700000001500 and v = "sample_verifier\<lparr>cb_clock := Some 1700000001500, hmacClockSkew := second\<rparr>"
          and time_now = 0 and tm = "''1700000000000''"] p
    by simp
qed

text \<open>The reply tells Atome what happened: 200 exactly when the partner's function ran and
  returned nil, 500 exactly when it ran and failed, and otherwise, with nothing run, 405 for a method
  other than POST and 400 or 401 for a bad body or signature.  Encoding an acknowledgement of two
  strings does not fail.\<close>
theorem handler_reply_class:
  assumes "\<And>a. marshal a = Inr (enc a)"
  shows "case snd (handle q marshal decode (Some v) (Some fn) r) of
      [] \<Rightarrow> rp_status (fst (handle q marshal decode (Some v) (Some fn) r)) \<in>
              (if in_method r = ''POST'' then {400, 401} else {405})
    | e # es \<Rightarrow> es = [] \<and> in_method r = ''POST'' \<and>
        rp_status (fst (handle q marshal decode (Some v) (Some fn) r)) = (if fn e = None then 200 else 500)"
proof -
  have st: "rp_status (writeAck marshal n a) = n" for n a by (simp add: writeAck_def assms)
  show ?thesis
    by (simp add: handle_def handle_request_def st split: option.split sum.split prod.split)
qed

theorem handler_reply_class_witness:
  "rp_status (fst (handle (\<lambda>s. s) (\<lambda>a. Inr (ack_Code a)) Inr (Some sample_verifier) (Some (\<lambda>e :: string. None))
     (sample_inbound\<lparr>in_method := ''GET''\<rparr>))) = 405"
proof -
  let ?h = "handle (\<lambda>s. s) (\<lambda>a. Inr (ack_Code a)) Inr (Some sample_verifier) (Some (\<lambda>e :: string. None))
     (sample_inbound\<lparr>in_method := ''GET''\<rparr>)"
  have "snd ?h = []" by (simp add: handle_def handle_request_def)
  then show ?thesis
    using handler_reply_class [of "\<lambda>a. Inr (ack_Code a)" ack_Code "\<lambda>s. s" Inr sample_verifier "\<lambda>e. None"
        "sample_inbound\<lparr>in_method := ''GET''\<rparr>"] by simp
qed

end
