(* ===== verification/Commerce_Types.thy ===== *)
theory Commerce_Types
  imports Payment_Types
begin

text \<open>
  The structs of atomefin/repayment, refund, bill, transaction and virtualaccount, one
  record each with the fields of the source and a prefix of the struct on every field,
  and the enumerations with their IsValid.  A struct whose name another package has too
  carries its package's name.  The open extension objects are association lists.
\<close>

type_synonym extend_map = "(string \<times> json) list"

section \<open>Enumerations\<close>

definition RepaymentEvent_IsValid :: "string \<Rightarrow> bool" where
  "RepaymentEvent_IsValid e \<longleftrightarrow> e \<in> set [''NORMAL'', ''ATOME_REPAYMENT'', ''OVERPAID_REPAYMENT'']"

definition RepaymentStatus_IsValid :: "string \<Rightarrow> bool" where
  "RepaymentStatus_IsValid s \<longleftrightarrow> s \<in> set [''REPAID'', ''UNPAID'', ''PARTIAL_REPAID'']"

definition OverdueStatus_IsValid :: "string \<Rightarrow> bool" where
  "OverdueStatus_IsValid s \<longleftrightarrow> s \<in> set [''NOT_OVERDUE'', ''OVERDUE'']"

definition BillRepaymentStatus_IsValid :: "string \<Rightarrow> bool" where
  "BillRepaymentStatus_IsValid s \<longleftrightarrow> s \<in> set [''REPAID'', ''UNPAID'', ''PARTIAL_REPAID'']"

definition TransactionType_IsValid :: "string \<Rightarrow> bool" where
  "TransactionType_IsValid t \<longleftrightarrow> t \<in> set [''PAYMENT'', ''REFUND'', ''REPAYMENT'']"

definition RefundType_IsValid :: "string \<Rightarrow> bool" where
  "RefundType_IsValid t \<longleftrightarrow> t \<in> set [''NORMAL'', ''CHARGEBACK'', ''OVERPAID'', ''ATOME_REPAYMENT'']"

definition BankCode_IsValid :: "string \<Rightarrow> bool" where
  "BankCode_IsValid c \<longleftrightarrow>
     c \<in> set [''BCA'', ''MANDIRI'', ''BRI'', ''BNI'', ''PERMATA'', ''SAHABAT_SAMPOERNA'']"

section \<open>Structs of repayment\<close>

record repayment_param =
  rpp_RequestID :: string
  rpp_ExternalReferenceUID :: string
  rpp_RepaymentAmount :: int64
  rpp_RepaymentApplyTime :: int64
  rpp_ExtendInfo :: extend_map

record commerce_account_changes =
  cac_ExternalReferenceUID :: string
  cac_PreviousStatus :: string
  cac_CurrentStatus :: string
  cac_TotalCreditChange :: int64
  cac_UsedCreditChange :: int64
  cac_AvailableCreditChange :: int64
  cac_OverpaidAmountChange :: int64
  cac_LateFeeAmountChange :: int64
  cac_InterestAmountChange :: int64
  cac_Version :: int64

record repayment_result =
  rpr_RequestID :: string
  rpr_RepaymentID :: string
  rpr_Status :: string
  rpr_Currency :: string
  rpr_RepaymentAmount :: int64
  rpr_RepaymentTime :: int64
  rpr_Event :: string
  rpr_AccountChanges :: "commerce_account_changes option"

record repayment_response =
  rprsp_Code :: string
  rprsp_Message :: string
  rprsp_Data :: "repayment_result option"

section \<open>Structs of refund\<close>

record sub_order_refund_request =
  sorr_SubOrderID :: string
  sorr_MerchantID :: string
  sorr_MerchantName :: string
  sorr_Quantity :: int
  sorr_Amount :: int64

record refund_extend_info =
  rfei_OrderType :: string

record refund_param =
  rfp_RequestID :: string
  rfp_ExternalReferenceUID :: string
  rfp_OrderID :: string
  rfp_RefundAmount :: int64
  rfp_SubOrders :: "sub_order_refund_request list"
  rfp_ExtendInfo :: "refund_extend_info option"

record sub_order_refund_info =
  sori_SubOrderID :: string
  sori_MerchantID :: string
  sori_MerchantName :: string
  sori_Quantity :: int
  sori_TotalAmount :: int64
  sori_PrincipalAmount :: int64
  sori_InterestAmount :: int64
  sori_DiscountAmount :: int64
  sori_OverpaidAmountChange :: int64
  sori_ExtendInfo :: extend_map

record refund_result =
  rfr_RequestID :: string
  rfr_CaptureRequestID :: string
  rfr_RefundID :: string
  rfr_RefundAmount :: int64
  rfr_WaivedInterestAmount :: int64
  rfr_RefundDiscountAmount :: int64
  rfr_Status :: string
  rfr_FailureCode :: string
  rfr_Currency :: string
  rfr_SubOrders :: "sub_order_refund_info list"
  rfr_AccountChanges :: "commerce_account_changes option"

record refund_response =
  rfrsp_Code :: string
  rfrsp_Message :: string
  rfrsp_Data :: "refund_result option"

section \<open>Structs of bill\<close>

record bill_discounts =
  bds_DiscountAmount :: int64
  bds_InterestAmountAfterDiscount :: int64
  bds_BillTotalAmountAfterDiscount :: int64
  bds_RepaidAmountExcludeDiscount :: int64

record bill =
  bl_BillID :: string
  bl_BillMonth :: string
  bl_BillStartDate :: string
  bl_BillEndDate :: string
  bl_BillTotalAmount :: int64
  bl_OutstandingAmount :: int64
  bl_RepaidAmount :: int64
  bl_PrincipalAmount :: int64
  bl_InterestAmount :: int64
  bl_LateFeeAmount :: int64
  bl_RefundAmount :: int64
  bl_DueDate :: string
  bl_DaysPastDue :: int
  bl_GracePeriod :: int
  bl_Status :: string
  bl_RefundStatus :: string
  bl_Currency :: string
  bl_RepaymentStatus :: string
  bl_OverdueStatus :: string
  bl_Discounts :: "bill_discounts option"

record bills_response_item =
  bri_Bill :: bill

record repayment_detail =
  rpd_RepaymentRequestID :: string
  rpd_RepaymentAmount :: int64
  rpd_RepaidPrincipalAmount :: int64
  rpd_RepaidInterestAmount :: int64
  rpd_RepaidLateFeeAmount :: int64
  rpd_RepaymentTime :: int64
  rpd_Event :: string

record bill_main_order =
  bmo_OrderID :: string
  bmo_RequestID :: string
  bmo_MerchantID :: string
  bmo_MerchantName :: string
  bmo_OrderType :: string
  bmo_SubOrderID :: string
  bmo_CreateTime :: int64
  bmo_PeriodType :: int
  bmo_CurrentPeriod :: int
  bmo_TotalAmount :: int64
  bmo_OutstandingAmount :: int64
  bmo_RepaidAmount :: int64
  bmo_PrincipalAmount :: int64
  bmo_InterestAmount :: int64
  bmo_RefundAmount :: int64
  bmo_GracePeriod :: int
  bmo_DueDate :: string
  bmo_Status :: string
  bmo_RepaymentStatus :: string
  bmo_OverdueStatus :: string
  bmo_RefundStatus :: string
  bmo_Discounts :: "bill_discounts option"

record bill_paginator =
  bpg_Start :: int
  bpg_Count :: int
  bpg_TotalCount :: int

record bill_detail =
  bdt_Currency :: string
  bdt_Bill :: "bill option"
  bdt_RepaymentDetails :: "repayment_detail list"
  bdt_MainOrders :: "bill_main_order list"
  bdt_Paginator :: "bill_paginator option"
  bdt_Orders :: "extend_map list"

record bills_params =
  bsp_ExternalReferenceUID :: string
  bsp_StartMonth :: string
  bsp_EndMonth :: string
  bsp_Status :: "string list"
  bsp_RepaymentStatus :: "string list"
  bsp_OverdueStatus :: "string list"
  bsp_RefundStatus :: "string list"

record bills_unpaid_params =
  bup_ExternalReferenceUID :: string

record bill_detail_params =
  bdp_BillID :: string
  bdp_ExternalReferenceUID :: string
  bdp_Start :: int
  bdp_Count :: int

record bills_response =
  bsrsp_Code :: string
  bsrsp_Message :: string
  bsrsp_Data :: "bills_response_item list"

record bill_detail_response =
  bdrsp_Code :: string
  bdrsp_Message :: string
  bdrsp_Data :: "bill_detail option"

record bill_unpaid =
  bu_BilledAmountToBeRepaid :: int64
  bu_BilledPrincipalAmountToBeRepaid :: int64
  bu_BilledInterestAmountToBeRepaid :: int64
  bu_BilledLateFeeAmountToBeRepaid :: int64
  bu_BilledCurrentBillID :: string
  bu_OverdueStatus :: string
  bu_DaysPastDue :: int
  bu_BilledCurrentDueDate :: string
  bu_BilledCurrentBillDate :: string
  bu_BilledCurrentStartDate :: string
  bu_BilledCurrentEndDate :: string
  bu_TotalAmountToBeRepaid :: int64
  bu_TotalPrincipalAmountToBeRepaid :: int64
  bu_TotalInterestAmountToBeRepaid :: int64
  bu_TotalLateFeeAmountToBeRepaid :: int64

record bill_unpaid_response =
  bursp_Code :: string
  bursp_Message :: string
  bursp_Data :: "bill_unpaid option"

section \<open>Structs of transaction\<close>

record transactions_params =
  txp_ExternalReferenceUID :: string
  txp_TransactionType :: string
  txp_StartDate :: string
  txp_EndDate :: string
  txp_Start :: int
  txp_Count :: int

record trade_sub_order =
  tso_SubOrderID :: string
  tso_MerchantID :: string
  tso_MerchantName :: string
  tso_PrincipalAmount :: int64
  tso_InterestAmount :: int64
  tso_DiscountAmount :: int64

record trade_payment_info =
  tpi_PaymentRequestID :: string
  tpi_OrderID :: string
  tpi_OrderType :: string
  tpi_TotalTenor :: int
  tpi_CreateTime :: int64
  tpi_SubOrders :: "trade_sub_order list"

record trade_refund_sub_order =
  trso_SubOrderID :: string
  trso_MerchantID :: string
  trso_MerchantName :: string
  trso_RefundStatus :: string
  trso_PrincipalAmount :: int64
  trso_WaivedInterestAmount :: int64
  trso_AvailableCreditChange :: int64
  trso_DiscountAmount :: int64
  trso_OverpaidAmountChange :: int64

record trade_refund_info =
  tri_RefundRequestID :: string
  tri_PaymentRequestID :: string
  tri_RefundAmount :: int64
  tri_RefundDiscountAmount :: int64
  tri_WaivedInterestAmount :: int64
  tri_OverpaidAmountChange :: int64
  tri_AvailableCreditChange :: int64
  tri_LateFeeAmountChange :: int64
  tri_RefundType :: string
  tri_CreateTime :: int64
  tri_SubOrders :: "trade_refund_sub_order list"

record trade_repayment_detail =
  trd_BillID :: string
  trd_DueDate :: string
  trd_BillStartDate :: string
  trd_BillEndDate :: string
  trd_RepaymentAmount :: int64

record trade_repayment_info =
  trpi_RepaymentRequestID :: string
  trpi_RepaymentAmount :: int64
  trpi_OverpaidAmountChange :: int64
  trpi_Event :: string
  trpi_CreateTime :: int64
  trpi_RepaymentDetails :: "trade_repayment_detail list"

record transaction_paginator =
  tpg_Start :: int
  tpg_Count :: int
  tpg_TotalCount :: int

record transactions_data =
  txd_Currency :: string
  txd_PaymentInfo :: "trade_payment_info list"
  txd_RefundInfo :: "trade_refund_info list"
  txd_RepaymentInfo :: "trade_repayment_info list"
  txd_Paginator :: "transaction_paginator option"

record transactions_response =
  txrsp_Code :: string
  txrsp_Message :: string
  txrsp_Data :: "transactions_data option"

record trade_bill_detail =
  tbd_BillID :: string
  tbd_BillDate :: string
  tbd_DueDate :: string
  tbd_BillStartDate :: string
  tbd_BillEndDate :: string
  tbd_TotalAmount :: int64
  tbd_OutstandingAmount :: int64
  tbd_RepaidAmount :: int64
  tbd_PrincipalAmount :: int64
  tbd_InterestAmount :: int64
  tbd_Status :: string
  tbd_RepaymentStatus :: string
  tbd_OverdueStatus :: string
  tbd_Discounts :: "bill_discounts option"

record trade_refund_info_detail =
  trid_RefundRequestID :: string
  trid_PrincipalAmount :: int64
  trid_DiscountAmount :: int64
  trid_WaivedInterestAmount :: int64
  trid_AvailableCreditChange :: int64
  trid_LateFeeAmountChange :: int64
  trid_RefundStatus :: string
  trid_OverpaidAmountChange :: int64
  trid_Event :: string
  trid_CreateTime :: int64

record trade_sub_order_detail =
  tsod_SubOrderID :: string
  tsod_MerchantID :: string
  tsod_MerchantName :: string
  tsod_PrincipalAmount :: int64
  tsod_InterestAmount :: int64
  tsod_DiscountAmount :: int64
  tsod_BillOrderDetails :: "trade_bill_detail list"
  tsod_RefundInfo :: "trade_refund_info_detail list"

record payment_transaction_extend_info =
  ptei_Agreement :: "agreement_ref option"

record trade_payment_info_detail =
  tpid_CaptureRequestID :: string
  tpid_OrderID :: string
  tpid_OrderType :: string
  tpid_TotalTenor :: int
  tpid_CreateTime :: int64
  tpid_PrincipalAmount :: int64
  tpid_InterestAmount :: int64
  tpid_DiscountAmount :: int64
  tpid_SubOrders :: "trade_sub_order_detail list"
  tpid_ExtendInfo :: "payment_transaction_extend_info option"

record refund_info_detail =
  rid_RefundRequestID :: string
  rid_PaymentRequestID :: string
  rid_RefundAmount :: int64
  rid_RefundDiscountAmount :: int64
  rid_WaivedInterestAmount :: int64
  rid_LateFeeAmountChange :: int64
  rid_AvailableCreditChange :: int64
  rid_OverpaidAmountChange :: int64
  rid_RefundType :: string
  rid_CreateTime :: int64
  rid_SubOrders :: "trade_refund_sub_order list"

record trade_detail_repayment_detail =
  tdrd_BillID :: string
  tdrd_DueDate :: string
  tdrd_BillStartDate :: string
  tdrd_BillEndDate :: string
  tdrd_RepaymentAmount :: int64
  tdrd_RepaidPrincipalAmount :: int64
  tdrd_RepaidInterestAmount :: int64

record trade_repayment_info_detail =
  trpid_RepaymentRequestID :: string
  trpid_RepaymentAmount :: int64
  trpid_OverpaidAmountChange :: int64
  trpid_LateFeeAmountChange :: int64
  trpid_Event :: string
  trpid_CreateTime :: int64
  trpid_RepaymentDetails :: "trade_detail_repayment_detail list"

record trade_detail =
  td_Currency :: string
  td_PaymentInfo :: "trade_payment_info_detail option"
  td_RefundInfo :: "refund_info_detail option"
  td_RepaymentInfo :: "trade_repayment_info_detail option"

record transaction_detail_response =
  tdrsp_Code :: string
  tdrsp_Message :: string
  tdrsp_Data :: "trade_detail option"

section \<open>Structs of virtualaccount\<close>

record virtual_account_request =
  vaq_ExternalReferenceUID :: string
  vaq_BankCode :: string

record virtual_account =
  vac_VANumber :: string
  vac_BankCode :: string
  vac_CreateTime :: int64

record virtual_account_list_response =
  valr_Code :: string
  valr_Message :: string
  valr_Data :: "string list"

record virtual_account_response =
  vars_Code :: string
  vars_Message :: string
  vars_Data :: "virtual_account option"

end
