(* ===== verification/Credit_Types.thy ===== *)
theory Credit_Types
  imports Commerce_Types
begin

text \<open>
  The structs of atomefin/credit (types.go) and of the account-change notification of
  atomefin/callback, one record each, with their enumerations.  An embedded struct is a
  field with the struct's name.
\<close>

section \<open>Enumerations\<close>

definition CreditStatus_IsValid :: "string \<Rightarrow> bool" where
  "CreditStatus_IsValid s \<longleftrightarrow>
     s \<in> set [''SUCCESS'', ''FAILED'', ''PROCESSING'', ''DRAFT'']"

definition CreditStatus_IsTerminal :: "string \<Rightarrow> bool" where
  "CreditStatus_IsTerminal s \<longleftrightarrow>
     s \<in> set [''SUCCESS'', ''FAILED'']"

definition Country_IsValid :: "string \<Rightarrow> bool" where
  "Country_IsValid c \<longleftrightarrow>
     c = ''ID''"

definition Language_IsValid :: "string \<Rightarrow> bool" where
  "Language_IsValid l \<longleftrightarrow>
     l \<in> set [''en'', ''id'']"

definition BalanceHistoryType_IsValid :: "string \<Rightarrow> bool" where
  "BalanceHistoryType_IsValid t \<longleftrightarrow>
     t \<in> set [''OVERPAID_CHANGE'', ''CREDIT_LIMIT_ADJUSTMENT'', ''TRADE_AVAILABLE_CREDIT_CHANGE'']"

definition LoanStatus_IsValid :: "string \<Rightarrow> bool" where
  "LoanStatus_IsValid s \<longleftrightarrow>
     s \<in> set [''NORMAL'', ''RISK_REJECTED'']"

definition UserStatus_IsValid :: "string \<Rightarrow> bool" where
  "UserStatus_IsValid s \<longleftrightarrow>
     s \<in> set [''NORMAL'', ''ACCOUNT_BLOCKED_OVERDUE'', ''ACCOUNT_BLOCKED'', ''ACCOUNT_CLOSED'']"

definition UserTag_IsValid :: "string \<Rightarrow> bool" where
  "UserTag_IsValid t \<longleftrightarrow>
     t \<in> set [''NEW_USER'', ''PRIOR_USER'']"

definition UserTagStatus_IsValid :: "string \<Rightarrow> bool" where
  "UserTagStatus_IsValid s \<longleftrightarrow>
     s \<in> set [''APPROVE'', ''REJECT'']"

definition CreditSceneType_IsValid :: "string \<Rightarrow> bool" where
  "CreditSceneType_IsValid t \<longleftrightarrow>
     t \<in> set [''PRODUCT_LANDING_PAGE'', ''PROMO_BANNER_PAGE'', ''MARKETING_PUSH_ENTRY'', ''CHECKOUT_PAGE'', ''WALLET_DASHBOARD_ENTRY'']"

definition UserFlag_IsValid :: "string \<Rightarrow> bool" where
  "UserFlag_IsValid f \<longleftrightarrow>
     f \<in> set [''OVO'', ''COMMON'', ''GRAB'']"

definition SCDUserLevel_IsValid :: "string \<Rightarrow> bool" where
  "SCDUserLevel_IsValid l \<longleftrightarrow>
     l \<in> set [''1'', ''2'', ''3'']"

definition AccountChangeEventType_IsValid :: "string \<Rightarrow> bool" where
  "AccountChangeEventType_IsValid t \<longleftrightarrow>
     t \<in> set [''ACCOUNT_OVERDUE'', ''LATE_FEE_INCREASE'', ''LATE_FEE_DECREASE'', ''FIXED_CREDIT_LIMIT_BOOST'', ''FIXED_CREDIT_LIMIT_DECREASE'', ''TEMP_CREDIT_LIMIT_BOOST'', ''TEMP_CREDIT_LIMIT_DECREASE'', ''ATOME_CONTROL'']"

definition AccountChangeScene_IsValid :: "string \<Rightarrow> bool" where
  "AccountChangeScene_IsValid s \<longleftrightarrow>
     s \<in> set [''ACCOUNT_STATUS_CHANGE'', ''LATE_FEE_CHANGE'', ''OVERPAID_CHANGE'', ''CREDIT_LIMIT_ADJUSTMENT'']"

section \<open>Structs of credit\<close>

record query_user_tag_param =
  qutp_RequestID :: string
  qutp_MobileNumber :: string
  qutp_Country :: string

record liveness_check =
  lc_Result :: string
  lc_SnapshotPhoto :: string
  lc_LivenessCheckResult01 :: string
  lc_LivenessCheckResult02 :: string
  lc_LivenessCheckResult03 :: string

record ocr_result =
  ocr_IDNumber :: string
  ocr_FullName :: string
  ocr_BirthPlace :: string
  ocr_OCRBloodType :: string
  ocr_OCRReligion :: string
  ocr_OCRGender :: string
  ocr_ManuallyBirthDate :: string
  ocr_OCRProvince :: string
  ocr_OCRCity :: string
  ocr_OCRDistrict :: string
  ocr_JobType :: string
  ocr_OCRMaritalStatus :: string
  ocr_ManuallyExpiredDate :: string
  ocr_ManuallyCitizenship :: string
  ocr_ManuallyRt :: string
  ocr_ManuallyRw :: string

record individual_profile =
  inp_IDType :: string
  inp_OCRResult :: "ocr_result option"
  inp_IDFrontPhoto :: string
  inp_ManuallyEducation :: string
  inp_MotherMaidenName :: string
  inp_MaritalStatus :: string

record emergency_contact =
  ec_Name :: string
  ec_Phone :: string
  ec_Relation :: string

record work_information =
  wi_EmployerName :: string
  wi_WorkSince :: string
  wi_MonthlyIncome :: string
  wi_JobIndustry :: string
  wi_JobPosition :: string
  wi_PayrollPeriod :: string

record residential_information =
  ri_Region :: string
  ri_Province :: string
  ri_City :: string
  ri_District :: string
  ri_Address :: string

record payment_information =
  pi_PayDay :: int

record financial_information =
  fi_EmergencyContact :: "emergency_contact option"
  fi_EmergencyContact2 :: "emergency_contact option"
  fi_WorkInformation :: "work_information option"
  fi_Residential :: "residential_information option"
  fi_PaymentInformation :: "payment_information option"

record gps_sample =
  gps_Longitude :: string
  gps_Latitude :: string
  gps_Time :: string

record device_build =
  db_Board :: string
  db_Brand :: string
  db_CPUAbi :: string
  db_Device :: string
  db_Manufacturer :: string
  db_Model :: string
  db_Product :: string

record credit_device =
  dev_DeviceID :: string
  dev_GoogleAdvertisingID :: string
  dev_IDFA :: string
  dev_IDFV :: string
  dev_UTDID :: string
  dev_IsRoot :: bool
  dev_AndroidID :: string
  dev_Build :: "device_build option"

record credit_wifi_ap =
  cwa_SSID :: string

record credit_ip_address =
  cipa_EthIP :: string
  cipa_TrueIP :: string

record credit_device_info =
  cdi_Platform :: string
  cdi_GPS :: "gps_sample option"
  cdi_Device :: "credit_device option"
  cdi_WifiList :: "credit_wifi_ap list"
  cdi_IPAddress :: "credit_ip_address option"

record platform_information =
  pfi_CreditProfile :: string
  pfi_LatestGkycTimeStamp :: string
  pfi_UserFlag :: string
  pfi_SCDUserLevel :: string
  pfi_SceneType :: string
  pfi_DeviceInfo :: "credit_device_info option"

record credit_information_essential_info =
  ciei_LivenessCheck :: "liveness_check option"
  ciei_IndividualProfile :: "individual_profile option"
  ciei_FinancialInformation :: financial_information
  ciei_PlatformInformation :: "platform_information option"

record credit_information_extend_info =
  ciex_Language :: string

record credit_information_param =
  cinp_RequestID :: string
  cinp_ExternalReferenceUID :: string
  cinp_MobileNumber :: string
  cinp_Email :: string
  cinp_Country :: string
  cinp_ApplicationEssentialInfo :: "credit_information_essential_info option"
  cinp_ExtendInfo :: "credit_information_extend_info option"

record application_essential_info =
  aei_LivenessCheck :: "liveness_check option"
  aei_IndividualProfile :: "individual_profile option"
  aei_FinancialInformation :: financial_information
  aei_PlatformInformation :: "platform_information option"

record credit_application_extend_info =
  caei_CreditInformationRequestID :: string

record credit_application_param =
  cap_RequestID :: string
  cap_ExternalReferenceUID :: string
  cap_MobileNumber :: string
  cap_Email :: string
  cap_Country :: string
  cap_ApplicationEssentialInfo :: "application_essential_info option"
  cap_ExtendInfo :: "credit_application_extend_info option"

record credit_application_change_extend_info =
  cacei_Language :: string

record credit_application_change_param =
  cacp_RequestID :: string
  cacp_ExternalReferenceUID :: string
  cacp_MobileNumber :: string
  cacp_Email :: string
  cacp_ExtendInfo :: "credit_application_change_extend_info option"

record close_account_param =
  clap_RequestID :: string
  clap_ExternalReferenceUID :: string

record query_user_tag_result =
  qutr_UserTag :: string
  qutr_UserStatus :: string
  qutr_ExtendInfo :: extend_map

record query_user_tag_response =
  qutrsp_Code :: string
  qutrsp_Message :: string
  qutrsp_Data :: "query_user_tag_result option"

record credit_information_result =
  cirs_RequestID :: string
  cirs_ExternalReferenceUID :: string
  cirs_Status :: string
  cirs_JumpURL :: string
  cirs_FailReason :: string
  cirs_ExtendInfo :: extend_map

record credit_information_response =
  cirsp_Code :: string
  cirsp_Message :: string
  cirsp_Data :: "credit_information_result option"

record credit_info =
  cri_TotalCredit :: int64
  cri_AvailableCredit :: int64
  cri_UsedCredit :: int64
  cri_LateFeeAmount :: int64
  cri_OverpaidAmount :: int64
  cri_OverpaidWithdrawAmount :: int64
  cri_OverpaidWithdrawLink :: string
  cri_UserStatus :: string
  cri_Version :: int64

record loan_credit_info =
  lci_LoanStatus :: string
  lci_ReapplyTime :: int64

record credit_application_result =
  cars_ExternalReferenceUID :: string
  cars_Status :: string
  cars_ReapplyTime :: int64
  cars_FailReason :: "string list"
  cars_Currency :: string
  cars_CreditInfo :: "credit_info option"
  cars_LoanCreditInfo :: "loan_credit_info option"
  cars_BillDay :: int
  cars_PayDay :: int
  cars_ExtendInfo :: extend_map

record credit_application_response =
  carsp_Code :: string
  carsp_Message :: string
  carsp_Data :: "credit_application_result option"

record credit_application_collect_query_result =
  cacqr_RequestID :: string
  cacqr_ExternalReferenceUID :: string
  cacqr_Status :: string
  cacqr_FailReason :: string
  cacqr_ExtendInfo :: extend_map

record credit_information_collect_response =
  cicr_Code :: string
  cicr_Message :: string
  cicr_Data :: "credit_application_collect_query_result option"

record balance_history_params =
  bhp_ExternalReferenceUID :: string
  bhp_Type :: string
  bhp_RequestID :: string
  bhp_Start :: int
  bhp_Count :: int

record record_info =
  rec_RequestID :: string
  rec_ChangeAmount :: string
  rec_Event :: string
  rec_ValidTil :: int64
  rec_Time :: int64

record credit_paginator =
  cpg_Start :: int
  cpg_Count :: int
  cpg_TotalCount :: int

record credit_change_history_response =
  cchr_ExternalReferenceUID :: string
  cchr_Type :: string
  cchr_Currency :: string
  cchr_RecordInfo :: "record_info list"
  cchr_Paginator :: "credit_paginator option"

record balance_history_response =
  bhrsp_Code :: string
  bhrsp_Message :: string
  bhrsp_Data :: "credit_change_history_response option"

record modify_application_info_response =
  mair_Code :: string
  mair_Message :: string

record close_account_response =
  clar_Code :: string
  clar_Message :: string

section \<open>The account-change notification\<close>

record account_change_credit_info =
  acci_TotalCredit :: int64
  acci_AvailableCredit :: int64
  acci_UsedCredit :: int64
  acci_LateFeeAmount :: int64
  acci_OverpaidAmount :: int64
  acci_UserStatus :: string

record account_change_extend_info =
  acei_TempCreditLimitAdjustmentValidTil :: int64
  acei_CreditLimitAdjustmentReason :: string

record account_change_event =
  ace_CallbackRequestID :: string
  ace_ExternalReferenceUID :: string
  ace_ExternalRequestID :: string
  ace_Event :: string
  ace_Scene :: string
  ace_PreviousStatus :: string
  ace_CurrentStatus :: string
  ace_Currency :: string
  ace_AmountChange :: "int64 option"
  ace_Version :: int64
  ace_CreditInfo :: "account_change_credit_info option"
  ace_ExtendInfo :: "account_change_extend_info option"

definition HasIdentity :: "account_change_event option \<Rightarrow> bool" where
  "HasIdentity e = (case e of None \<Rightarrow> False | Some x \<Rightarrow> ace_CallbackRequestID x \<noteq> [])"

end
