(* ===== verification/Mock_Scenarios.thy ===== *)
theory Mock_Scenarios
  imports Client_Dispatch Credit_Types
begin

text \<open>
  atomefin/mock: the scenarios of scenarios.go and the typed builders of scenarios\_typed.go.
  A Scenario is one of the package's three implementations; a partner's own is a
  \<open>ScenarioFunc\<close>.  JSON encoding is an argument, as is the quoting of fmt's %q.
\<close>

section \<open>Requests and scenarios\<close>

text \<open>An inbound request as the mock sees it; a nil Go body is the empty one.\<close>

record server_request =
  sr_method :: string
  sr_path :: string
  sr_query :: string
  sr_header :: header
  sr_body :: bytes
  sr_ctx :: "go_error option"

text \<open>The callback event is the result of encoding it, None when the builder carries none.\<close>

record typedScenario =
  respStatus :: int
  respBody :: bytes
  callbackEvent :: "(go_error + bytes) option"
  callbackHandlerKey :: string
  callbackPath :: string

text \<open>The map of PerEndpoint; a nil Scenario in it counts as no entry in every use of the map.\<close>

datatype scenario =
    ScenarioFunc "server_request \<Rightarrow> go_error + http_response"
  | TypedScenario typedScenario
  | PerEndpointScenario "string \<Rightarrow> scenario option" scenario

record callbackPayload =
  handlerKey :: string
  payload_path :: string
  payload_body :: bytes

definition jsonResponse :: "int \<Rightarrow> string \<Rightarrow> http_response" where
  "jsonResponse status body =
     \<lparr>rsp_StatusCode = status, rsp_Header = [(''Content-Type'', [''application/json; charset=utf-8''])],
      rsp_Body = (body, None)\<rparr>"

primrec Respond :: "scenario \<Rightarrow> server_request \<Rightarrow> go_error + http_response" where
  "Respond (ScenarioFunc f) r = f r"
| "Respond (TypedScenario t) r = Inr (jsonResponse (respStatus t) (respBody t))"
| "Respond (PerEndpointScenario byOp fallback) r =
     (case (\<lambda>k. map_option Respond (byOp k)) (map to_upper (sr_method r) @ '' '' @ sr_path r) of
        Some f \<Rightarrow> f r
      | None \<Rightarrow> Respond fallback r)"

definition typed_AutoCallback :: "typedScenario \<Rightarrow> callbackPayload option" where
  "typed_AutoCallback t =
     (case callbackEvent t of
        Some (Inr body) \<Rightarrow> Some \<lparr>handlerKey = callbackHandlerKey t, payload_path = callbackPath t, payload_body = body\<rparr>
      | _ \<Rightarrow> None)"

text \<open>None for a scenario that is no autoCallbackCarrier.\<close>

primrec AutoCallback :: "scenario \<Rightarrow> string \<Rightarrow> callbackPayload option option" where
  "AutoCallback (ScenarioFunc f) op = None"
| "AutoCallback (TypedScenario t) op = Some (typed_AutoCallback t)"
| "AutoCallback (PerEndpointScenario byOp fallback) op =
     (case (\<lambda>k. map_option AutoCallback (byOp k)) op of
        Some g \<Rightarrow> (case g op of
            Some payload \<Rightarrow> Some payload
          | None \<Rightarrow> (case AutoCallback fallback op of Some payload \<Rightarrow> Some payload | None \<Rightarrow> Some None))
      | None \<Rightarrow> (case AutoCallback fallback op of Some payload \<Rightarrow> Some payload | None \<Rightarrow> Some None))"

section \<open>scenarios.go\<close>

definition AlwaysSuccess :: scenario where
  "AlwaysSuccess = ScenarioFunc (\<lambda>_. Inr (jsonResponse 200 ''{\"code\":\"SUCCESS\",\"message\":\"ok\"}''))"

definition AlwaysProcessing :: scenario where
  "AlwaysProcessing = ScenarioFunc (\<lambda>_.
     Inr (jsonResponse 200 ''{\"code\":\"SUCCESS\",\"message\":\"ok\",\"data\":{\"status\":\"PROCESSING\"}}''))"

definition AlwaysFailed :: "(string \<Rightarrow> string) \<Rightarrow> string \<Rightarrow> scenario" where
  "AlwaysFailed quote failure = ScenarioFunc (\<lambda>_. Inr (jsonResponse 200
     (if failure \<noteq> [] then
        ''{\"code\":\"SUCCESS\",\"message\":\"ok\",\"data\":{\"status\":\"FAILED\",\"failureCode\":'' @ quote failure @ ''}}''
      else ''{\"code\":\"SUCCESS\",\"message\":\"ok\",\"data\":{\"status\":\"FAILED\"}}'')))"

definition AlwaysAPIError :: "(string \<Rightarrow> string) \<Rightarrow> int \<Rightarrow> string \<Rightarrow> string \<Rightarrow> scenario" where
  "AlwaysAPIError quote httpStatus err_code msg = ScenarioFunc (\<lambda>_.
     Inr (jsonResponse httpStatus (''{\"code\":'' @ quote err_code @ '',\"message\":'' @ quote msg @ ''}'')))"

definition PerEndpoint :: "(string \<Rightarrow> scenario option) \<Rightarrow> scenario option \<Rightarrow> scenario" where
  "PerEndpoint byOp fallback =
     PerEndpointScenario byOp (case fallback of None \<Rightarrow> AlwaysSuccess | Some s \<Rightarrow> s)"

text \<open>\<open>encode\<close> is json.Encoder's Encode, which ends its output with a newline.\<close>

definition JSONResponse :: "('v \<Rightarrow> go_error + bytes) \<Rightarrow> int \<Rightarrow> 'v \<Rightarrow> go_error + http_response" where
  "JSONResponse encode status v =
     (case encode v of
        Inl err \<Rightarrow> Inl (WrapError ''mock: encode response: '' err [])
      | Inr out \<Rightarrow> Inr (jsonResponse status
          (if out \<noteq> [] \<and> last out = char_of (10 :: nat) then butlast out else out)))"

section \<open>scenarios\_typed.go\<close>

definition jsonOK :: "('v \<Rightarrow> go_error + bytes) \<Rightarrow> 'v \<Rightarrow> int \<times> bytes" where
  "jsonOK marshal v =
     (case marshal v of
        Inl err \<Rightarrow> (200, ''{\"code\":\"SUCCESS\",\"message\":\"ok\"}'')
      | Inr body \<Rightarrow> (200, body))"

definition sync_scenario :: "('v \<Rightarrow> go_error + bytes) \<Rightarrow> 'v \<Rightarrow> scenario" where
  "sync_scenario marshal resp =
     (let (status, body) = jsonOK marshal resp in
      TypedScenario \<lparr>respStatus = status, respBody = body, callbackEvent = None, callbackHandlerKey = [], callbackPath = []\<rparr>)"

definition event_scenario ::
  "('v \<Rightarrow> go_error + bytes) \<Rightarrow> 'v \<Rightarrow> ('e \<Rightarrow> go_error + bytes) \<Rightarrow> 'e \<Rightarrow> string \<Rightarrow> scenario" where
  "event_scenario marshal resp marshal_event ev path =
     (let (status, body) = jsonOK marshal resp in
      TypedScenario \<lparr>respStatus = status, respBody = body, callbackEvent = Some (marshal_event ev),
        callbackHandlerKey = ''POST '' @ path, callbackPath = path\<rparr>)"

text \<open>The zero values of the structs the builders fill in.\<close>

definition CurrencyIDR :: string where "CurrencyIDR = ''IDR''"

definition zero_authorization_data :: authorization_data where
  "zero_authorization_data = \<lparr>ad_RequestID = [], ad_Currency = [], ad_AuthOrderID = [], ad_TotalAmount = 0, ad_Status = [],
     ad_FailureCode = [], ad_SubOrderInstallmentPlans = [], ad_AccountChanges = None, ad_ExtendInfo = None\<rparr>"

definition zero_capture_result_data :: capture_result_data where
  "zero_capture_result_data = \<lparr>crd_PaymentResult = \<lparr>pr_RequestID = [], pr_OrderID = [], pr_Currency = [], pr_TotalAmount = 0,
     pr_Status = [], pr_FailureCode = [], pr_SubOrderInstallmentPlans = [], pr_AccountChanges = None, pr_ExtendInfo = None\<rparr>,
     crd_AuthOrderID = []\<rparr>"

definition zero_void_result_data :: void_result_data where
  "zero_void_result_data = \<lparr>vrd_RequestID = [], vrd_ExternalReferenceUID = [], vrd_AuthOrderID = [], vrd_AccountChanges = None\<rparr>"

definition zero_refund_result :: refund_result where
  "zero_refund_result = \<lparr>rfr_RequestID = [], rfr_CaptureRequestID = [], rfr_RefundID = [], rfr_RefundAmount = 0,
     rfr_WaivedInterestAmount = 0, rfr_RefundDiscountAmount = 0, rfr_Status = [], rfr_FailureCode = [], rfr_Currency = [],
     rfr_SubOrders = [], rfr_AccountChanges = None\<rparr>"

definition zero_repayment_result :: repayment_result where
  "zero_repayment_result = \<lparr>rpr_RequestID = [], rpr_RepaymentID = [], rpr_Status = [], rpr_Currency = [], rpr_RepaymentAmount = 0,
     rpr_RepaymentTime = 0, rpr_Event = [], rpr_AccountChanges = None\<rparr>"

definition zero_credit_application_result :: credit_application_result where
  "zero_credit_application_result = \<lparr>cars_ExternalReferenceUID = [], cars_Status = [], cars_ReapplyTime = 0, cars_FailReason = [],
     cars_Currency = [], cars_CreditInfo = None, cars_LoanCreditInfo = None, cars_BillDay = 0, cars_PayDay = 0, cars_ExtendInfo = []\<rparr>"

definition zero_collect_query_result :: credit_application_collect_query_result where
  "zero_collect_query_result = \<lparr>cacqr_RequestID = [], cacqr_ExternalReferenceUID = [], cacqr_Status = [], cacqr_FailReason = [],
     cacqr_ExtendInfo = []\<rparr>"

definition AuthSuccess :: "(auth_response \<Rightarrow> go_error + bytes) \<Rightarrow> string \<Rightarrow> scenario" where
  "AuthSuccess marshal authOrderID =
     (let resp = \<lparr>arsp_Code = CodeSuccess, arsp_Message = ''ok'', arsp_Data = Some (zero_authorization_data\<lparr>
            ad_AuthOrderID := authOrderID, ad_Currency := CurrencyIDR, ad_Status := StatusSuccess\<rparr>)\<rparr>
      in event_scenario marshal resp marshal resp ''/<authNotifyUrl>'')"

definition AuthProcessing :: "(auth_response \<Rightarrow> go_error + bytes) \<Rightarrow> scenario" where
  "AuthProcessing marshal =
     sync_scenario marshal \<lparr>arsp_Code = CodeSuccess, arsp_Message = ''ok'', arsp_Data = Some (zero_authorization_data\<lparr>
       ad_Status := StatusProcessing, ad_Currency := CurrencyIDR\<rparr>)\<rparr>"

definition AuthFailed :: "(auth_response \<Rightarrow> go_error + bytes) \<Rightarrow> string \<Rightarrow> scenario" where
  "AuthFailed marshal failureCode =
     (let resp = \<lparr>arsp_Code = CodeSuccess, arsp_Message = ''ok'', arsp_Data = Some (zero_authorization_data\<lparr>
            ad_Status := StatusFailed, ad_FailureCode := failureCode, ad_Currency := CurrencyIDR\<rparr>)\<rparr>
      in event_scenario marshal resp marshal resp ''/<authNotifyUrl>'')"

definition CaptureSuccess :: "(capture_response \<Rightarrow> go_error + bytes) \<Rightarrow> string \<Rightarrow> scenario" where
  "CaptureSuccess marshal authOrderID =
     (let resp = \<lparr>crsp_Code = CodeSuccess, crsp_Message = ''ok'',
            crsp_Data = Some (zero_capture_result_data\<lparr>crd_AuthOrderID := authOrderID\<rparr>)\<rparr>
      in event_scenario marshal resp marshal resp ''/<captureNotifyUrl>'')"

definition CaptureProcessing :: "(capture_response \<Rightarrow> go_error + bytes) \<Rightarrow> scenario" where
  "CaptureProcessing marshal =
     sync_scenario marshal \<lparr>crsp_Code = CodeSuccess, crsp_Message = ''ok'', crsp_Data = Some zero_capture_result_data\<rparr>"

definition CaptureFailed :: "(capture_response \<Rightarrow> go_error + bytes) \<Rightarrow> string \<Rightarrow> scenario" where
  "CaptureFailed marshal failureCode =
     (let resp = \<lparr>crsp_Code = CodeSuccess, crsp_Message = ''ok'', crsp_Data = Some zero_capture_result_data\<rparr>
      in event_scenario marshal resp marshal resp ''/<captureNotifyUrl>'')"

definition VoidAuthSuccess :: "(void_auth_response \<Rightarrow> go_error + bytes) \<Rightarrow> scenario" where
  "VoidAuthSuccess marshal =
     sync_scenario marshal \<lparr>varsp_Code = CodeSuccess, varsp_Message = ''ok'', varsp_Data = Some zero_void_result_data\<rparr>"

definition VoidAuthFailed :: "(void_auth_response \<Rightarrow> go_error + bytes) \<Rightarrow> string \<Rightarrow> scenario" where
  "VoidAuthFailed marshal failureCode =
     sync_scenario marshal \<lparr>varsp_Code = CodeSuccess, varsp_Message = ''ok'', varsp_Data = Some zero_void_result_data\<rparr>"

definition RefundSuccess :: "(refund_response \<Rightarrow> go_error + bytes) \<Rightarrow> string \<Rightarrow> scenario" where
  "RefundSuccess marshal refundOrderID =
     (let resp = \<lparr>rfrsp_Code = CodeSuccess, rfrsp_Message = ''ok'', rfrsp_Data = Some (zero_refund_result\<lparr>
            rfr_RefundID := refundOrderID, rfr_Currency := CurrencyIDR, rfr_Status := StatusSuccess\<rparr>)\<rparr>
      in event_scenario marshal resp marshal resp ''/<refundNotifyUrl>'')"

definition RefundProcessing :: "(refund_response \<Rightarrow> go_error + bytes) \<Rightarrow> scenario" where
  "RefundProcessing marshal =
     sync_scenario marshal \<lparr>rfrsp_Code = CodeSuccess, rfrsp_Message = ''ok'', rfrsp_Data = Some (zero_refund_result\<lparr>
       rfr_Currency := CurrencyIDR, rfr_Status := StatusProcessing\<rparr>)\<rparr>"

definition RefundFailed :: "(refund_response \<Rightarrow> go_error + bytes) \<Rightarrow> string \<Rightarrow> scenario" where
  "RefundFailed marshal failureCode =
     (let resp = \<lparr>rfrsp_Code = CodeSuccess, rfrsp_Message = ''ok'', rfrsp_Data = Some (zero_refund_result\<lparr>
            rfr_Currency := CurrencyIDR, rfr_Status := StatusFailed, rfr_FailureCode := failureCode\<rparr>)\<rparr>
      in event_scenario marshal resp marshal resp ''/<refundNotifyUrl>'')"

definition RepaymentSuccess :: "(repayment_response \<Rightarrow> go_error + bytes) \<Rightarrow> string \<Rightarrow> scenario" where
  "RepaymentSuccess marshal repaymentID =
     (let resp = \<lparr>rprsp_Code = CodeSuccess, rprsp_Message = ''ok'', rprsp_Data = Some (zero_repayment_result\<lparr>
            rpr_RepaymentID := repaymentID, rpr_Currency := CurrencyIDR, rpr_Status := StatusSuccess\<rparr>)\<rparr>
      in event_scenario marshal resp marshal resp ''/repayment-callback'')"

definition RepaymentProcessing :: "(repayment_response \<Rightarrow> go_error + bytes) \<Rightarrow> scenario" where
  "RepaymentProcessing marshal =
     sync_scenario marshal \<lparr>rprsp_Code = CodeSuccess, rprsp_Message = ''ok'', rprsp_Data = Some (zero_repayment_result\<lparr>
       rpr_Currency := CurrencyIDR, rpr_Status := StatusProcessing\<rparr>)\<rparr>"

definition RepaymentFailed :: "(repayment_response \<Rightarrow> go_error + bytes) \<Rightarrow> string \<Rightarrow> scenario" where
  "RepaymentFailed marshal failureCode =
     (let resp = \<lparr>rprsp_Code = CodeSuccess, rprsp_Message = ''ok'', rprsp_Data = Some (zero_repayment_result\<lparr>
            rpr_Currency := CurrencyIDR, rpr_Status := StatusFailed\<rparr>)\<rparr>
      in event_scenario marshal resp marshal resp ''/repayment-callback'')"

definition CreditApplicationSuccess :: "(credit_application_response \<Rightarrow> go_error + bytes) \<Rightarrow> scenario" where
  "CreditApplicationSuccess marshal =
     (let resp = \<lparr>carsp_Code = CodeSuccess, carsp_Message = ''ok'', carsp_Data = Some (zero_credit_application_result\<lparr>
            cars_Status := ''SUCCESS'', cars_Currency := CurrencyIDR\<rparr>)\<rparr>
      in event_scenario marshal resp marshal resp ''/<creditApplicationNotifyUrl>'')"

definition CreditApplicationProcessing :: "(credit_application_response \<Rightarrow> go_error + bytes) \<Rightarrow> scenario" where
  "CreditApplicationProcessing marshal =
     sync_scenario marshal \<lparr>carsp_Code = CodeSuccess, carsp_Message = ''ok'', carsp_Data = Some (zero_credit_application_result\<lparr>
       cars_Status := ''PROCESSING'', cars_Currency := CurrencyIDR\<rparr>)\<rparr>"

definition CreditApplicationFailed :: "(credit_application_response \<Rightarrow> go_error + bytes) \<Rightarrow> scenario" where
  "CreditApplicationFailed marshal =
     (let resp = \<lparr>carsp_Code = CodeSuccess, carsp_Message = ''ok'', carsp_Data = Some (zero_credit_application_result\<lparr>
            cars_Status := ''FAILED'', cars_Currency := CurrencyIDR\<rparr>)\<rparr>
      in event_scenario marshal resp marshal resp ''/<creditApplicationNotifyUrl>'')"

definition ok_information_response :: credit_information_response where
  "ok_information_response = \<lparr>cirsp_Code = CodeSuccess, cirsp_Message = ''ok'', cirsp_Data = None\<rparr>"

definition CreditInformationSuccess ::
  "(credit_information_response \<Rightarrow> go_error + bytes) \<Rightarrow> (credit_information_collect_response \<Rightarrow> go_error + bytes) \<Rightarrow> scenario" where
  "CreditInformationSuccess marshal marshal_event =
     event_scenario marshal ok_information_response marshal_event
       \<lparr>cicr_Code = CodeSuccess, cicr_Message = ''ok'', cicr_Data = Some (zero_collect_query_result\<lparr>cacqr_Status := ''SUCCESS''\<rparr>)\<rparr>
       ''/<creditInformationNotifyUrl>''"

definition CreditInformationProcessing :: "(credit_information_response \<Rightarrow> go_error + bytes) \<Rightarrow> scenario" where
  "CreditInformationProcessing marshal = sync_scenario marshal ok_information_response"

definition CreditInformationFailed ::
  "(credit_information_response \<Rightarrow> go_error + bytes) \<Rightarrow> (credit_information_collect_response \<Rightarrow> go_error + bytes) \<Rightarrow> scenario" where
  "CreditInformationFailed marshal marshal_event =
     event_scenario marshal ok_information_response marshal_event
       \<lparr>cicr_Code = CodeSuccess, cicr_Message = ''ok'', cicr_Data = Some (zero_collect_query_result\<lparr>cacqr_Status := ''FAILED''\<rparr>)\<rparr>
       ''/<creditInformationNotifyUrl>''"

end
