(* ===== verification/Mock_Cache.thy ===== *)
theory Mock_Cache
  imports Go_Strings
begin

text \<open>
  The replay cache of the mock server (atomefin/mock/server\_options.go): idempotencyCache with
  its constructor and Get, Put and Reset.  The doubly linked list of container/list is the
  list of its elements, front first; an element is an address, its Value a cell of the heap
  \<open>ic_value\<close>, and the items map points at elements the way the code does.  Each method holds the
  mutex from start to end, so any interleaving of calls is a sequence of these operations.
  An abstract least-recently-used table is the specification; the model refines it.
\<close>

section \<open>The cache\<close>

record cacheEntry =
  ce_key :: string
  ce_status :: int
  ce_body :: bytes
  ce_headers :: header

record idempotencyCache =
  ic_cap :: int
  ic_items :: "string \<Rightarrow> nat option"
  ic_order :: "nat list"
  ic_value :: "nat \<Rightarrow> cacheEntry option"
  ic_next :: nat

definition newIdempotencyCache :: "int \<Rightarrow> idempotencyCache" where
  "newIdempotencyCache capacity =
     \<lparr>ic_cap = (if capacity \<le> 0 then 1024 else capacity), ic_items = Map.empty, ic_order = [],
      ic_value = Map.empty, ic_next = 0\<rparr>"

text \<open>MoveToFront of container/list: nothing happens to an element of another list.\<close>

definition MoveToFront :: "nat \<Rightarrow> nat list \<Rightarrow> nat list" where
  "MoveToFront e l = (if e \<in> set l then e # remove1 e l else l)"

definition cache_Get :: "string \<Rightarrow> idempotencyCache \<Rightarrow> cacheEntry option \<times> idempotencyCache" where
  "cache_Get key c =
     (case ic_items c key of
        Some elem \<Rightarrow> (ic_value c elem, c\<lparr>ic_order := MoveToFront elem (ic_order c)\<rparr>)
      | None \<Rightarrow> (None, c))"

text \<open>The eviction: the back element leaves the list, and the entry it holds names the key to delete.\<close>

definition evict_oldest :: "idempotencyCache \<Rightarrow> idempotencyCache" where
  "evict_oldest c =
     (if ic_order c = [] then c
      else let oldest = last (ic_order c) in
        c\<lparr>ic_order := remove1 oldest (ic_order c),
          ic_items := (case ic_value c oldest of
             Some e \<Rightarrow> (ic_items c)(ce_key e := None) | None \<Rightarrow> ic_items c)\<rparr>)"

definition cache_Put :: "string \<Rightarrow> cacheEntry \<Rightarrow> idempotencyCache \<Rightarrow> idempotencyCache" where
  "cache_Put key e c =
     (case ic_items c key of
        Some elem \<Rightarrow> c\<lparr>ic_value := (ic_value c)(elem \<mapsto> e), ic_order := MoveToFront elem (ic_order c)\<rparr>
      | None \<Rightarrow>
          let c1 = (if int (length (ic_order c)) \<ge> ic_cap c then evict_oldest c else c);
              elem = ic_next c1 in
          c1\<lparr>ic_next := Suc elem, ic_value := (ic_value c1)(elem \<mapsto> e), ic_order := elem # ic_order c1,
             ic_items := (ic_items c1)(key \<mapsto> elem)\<rparr>)"

definition cache_Reset :: "idempotencyCache \<Rightarrow> idempotencyCache" where
  "cache_Reset c = c\<lparr>ic_items := Map.empty, ic_order := []\<rparr>"

section \<open>The specification: a least-recently-used table\<close>

text \<open>Most recent first, every key once.\<close>

type_synonym 'v lru = "(string \<times> 'v) list"

definition lru_delete :: "string \<Rightarrow> 'v lru \<Rightarrow> 'v lru" where
  "lru_delete k xs = filter (\<lambda>kv. fst kv \<noteq> k) xs"

definition lru_touch :: "string \<Rightarrow> 'v lru \<Rightarrow> 'v lru" where
  "lru_touch k xs = (case map_of xs k of None \<Rightarrow> xs | Some v \<Rightarrow> (k, v) # lru_delete k xs)"

definition lru_insert :: "nat \<Rightarrow> string \<Rightarrow> 'v \<Rightarrow> 'v lru \<Rightarrow> 'v lru" where
  "lru_insert n k v xs =
     (if map_of xs k \<noteq> None then (k, v) # lru_delete k xs
      else (k, v) # (if length xs \<ge> n then butlast xs else xs))"

lemma lru_delete_fst: "fst ` set (lru_delete k xs) = fst ` set xs - {k}"
  by (auto simp: lru_delete_def)

lemma map_of_lru_delete: "map_of (lru_delete k xs) = (map_of xs)(k := None)"
  by (induction xs) (auto simp: lru_delete_def fun_eq_iff)

lemma distinct_lru_delete: "distinct (map fst xs) \<Longrightarrow> distinct (map fst (lru_delete k xs))"
  by (simp add: lru_delete_def distinct_map_filter)

lemma lru_delete_absent: "k \<notin> fst ` set xs \<Longrightarrow> lru_delete k xs = xs"
  by (auto simp: lru_delete_def filter_id_conv)

lemma lru_delete_split:
  "distinct (map fst (ys @ (k, v) # zs)) \<Longrightarrow> lru_delete k (ys @ (k, v) # zs) = ys @ zs"
  using lru_delete_absent [of k ys] lru_delete_absent [of k zs] by (auto simp: lru_delete_def)

text \<open>A sequence of calls, over any implementation of the three operations.\<close>

datatype 'v cache_op = GetOp string | PutOp string 'v | ResetOp

fun op_key :: "'v cache_op \<Rightarrow> string option" where
  "op_key (GetOp k) = Some k"
| "op_key (PutOp k v) = Some k"
| "op_key ResetOp = None"

fun apply_op :: "(string \<Rightarrow> 's \<Rightarrow> 's) \<Rightarrow> (string \<Rightarrow> 'v \<Rightarrow> 's \<Rightarrow> 's) \<Rightarrow> ('s \<Rightarrow> 's) \<Rightarrow> 'v cache_op \<Rightarrow> 's \<Rightarrow> 's" where
  "apply_op get put reset (GetOp k) s = get k s"
| "apply_op get put reset (PutOp k v) s = put k v s"
| "apply_op get put reset ResetOp s = reset s"

definition lru_run :: "nat \<Rightarrow> 'v cache_op list \<Rightarrow> 'v lru \<Rightarrow> 'v lru" where
  "lru_run n ops xs = fold (apply_op lru_touch (lru_insert n) (\<lambda>_. [])) ops xs"

fun op_fits :: "(string \<Rightarrow> 'v \<Rightarrow> bool) \<Rightarrow> 'v cache_op \<Rightarrow> bool" where
  "op_fits fits (PutOp k v) = fits k v"
| "op_fits fits _ = True"

text \<open>The contract: \<open>view\<close> reads the table off a good state, and the operations act on it as specified.\<close>

locale lru_table =
  fixes ok :: "'s \<Rightarrow> bool"
    and view :: "'s \<Rightarrow> 'v lru"
    and capacity :: "'s \<Rightarrow> nat"
    and get :: "string \<Rightarrow> 's \<Rightarrow> 'v option \<times> 's"
    and put :: "string \<Rightarrow> 'v \<Rightarrow> 's \<Rightarrow> 's"
    and reset :: "'s \<Rightarrow> 's"
    and fits :: "string \<Rightarrow> 'v \<Rightarrow> bool"
  assumes view_distinct: "ok s \<Longrightarrow> distinct (map fst (view s))"
    and view_bounded: "ok s \<Longrightarrow> length (view s) \<le> capacity s"
    and capacity_pos: "ok s \<Longrightarrow> 0 < capacity s"
    and get_result: "ok s \<Longrightarrow> fst (get k s) = map_of (view s) k"
    and get_view: "ok s \<Longrightarrow> view (snd (get k s)) = lru_touch k (view s)"
    and get_ok: "ok s \<Longrightarrow> ok (snd (get k s)) \<and> capacity (snd (get k s)) = capacity s"
    and put_view: "ok s \<Longrightarrow> fits k v \<Longrightarrow> view (put k v s) = lru_insert (capacity s) k v (view s)"
    and put_ok: "ok s \<Longrightarrow> fits k v \<Longrightarrow> ok (put k v s) \<and> capacity (put k v s) = capacity s"
    and reset_view: "view (reset s) = []"
    and reset_ok: "ok s \<Longrightarrow> ok (reset s) \<and> capacity (reset s) = capacity s"
begin

definition run :: "'v cache_op list \<Rightarrow> 's \<Rightarrow> 's" where
  "run ops s = fold (apply_op (\<lambda>k s. snd (get k s)) put reset) ops s"

lemma run_refines:
  "ok s \<Longrightarrow> \<forall>op \<in> set ops. op_fits fits op \<Longrightarrow>
     ok (run ops s) \<and> capacity (run ops s) = capacity s \<and> view (run ops s) = lru_run (capacity s) ops (view s)"
proof (induction ops arbitrary: s)
  case (Cons op ops)
  let ?s = "apply_op (\<lambda>k s. snd (get k s)) put reset op s"
  have "ok ?s \<and> capacity ?s = capacity s \<and> view ?s = apply_op lru_touch (lru_insert (capacity s)) (\<lambda>_. []) op (view s)"
    using Cons.prems by (cases op) (simp_all add: get_view get_ok put_view put_ok reset_view reset_ok)
  then show ?case using Cons by (auto simp: run_def lru_run_def)
qed (simp add: run_def lru_run_def)

lemma get_put: "ok s \<Longrightarrow> fits k v \<Longrightarrow> fst (get k (put k v s)) = Some v"
  by (simp add: get_result put_view put_ok lru_insert_def)

text \<open>A key kept at a position before the capacity; the keys before it have all been used since.\<close>

definition kept :: "string \<Rightarrow> 'v \<Rightarrow> string set \<Rightarrow> 's \<Rightarrow> bool" where
  "kept k v T s \<longleftrightarrow> ok s \<and> (\<exists>ys zs. view s = ys @ (k, v) # zs \<and> fst ` set ys \<subseteq> T)"

lemma kept_get: "kept k v T s \<Longrightarrow> fst (get k s) = Some v"
proof -
  assume "kept k v T s"
  then obtain ys zs where v: "view s = ys @ (k, v) # zs" and ok: "ok s" by (auto simp: kept_def)
  have "k \<notin> fst ` set ys" using view_distinct [OF ok] v by auto
  then have "map_of ys k = None" by (simp add: map_of_eq_None_iff)
  then show ?thesis using get_result [OF ok] v by (simp add: map_add_def)
qed

lemma kept_put: "ok s \<Longrightarrow> fits k v \<Longrightarrow> kept k v {} (put k v s)"
  using put_view [of s k v] put_ok [of s k v] by (auto simp: kept_def lru_insert_def)

lemma kept_move:
  assumes "distinct (map fst (ys @ (k, v) # zs))" "fst ` set ys \<subseteq> T" "j \<noteq> k"
  shows "\<exists>ys' zs'. (j, u) # lru_delete j (ys @ (k, v) # zs) = ys' @ (k, v) # zs' \<and> fst ` set ys' \<subseteq> insert j T"
proof -
  have "(j, u) # lru_delete j (ys @ (k, v) # zs) = ((j, u) # lru_delete j ys) @ (k, v) # lru_delete j zs"
    using assms(3) by (simp add: lru_delete_def)
  moreover have "fst ` set ((j, u) # lru_delete j ys) \<subseteq> insert j T"
    using assms(2) lru_delete_fst [of j ys] by auto
  ultimately show ?thesis by blast
qed

lemma kept_get_other:
  assumes "kept k v T s" "j \<noteq> k"
  shows "kept k v (insert j T) (snd (get j s))"
proof -
  from assms obtain ys zs where v: "view s = ys @ (k, v) # zs" "fst ` set ys \<subseteq> T" and ok: "ok s" by (auto simp: kept_def)
  have d: "distinct (map fst (ys @ (k, v) # zs))" using view_distinct [OF ok] v by simp
  show ?thesis
  proof (cases "map_of (view s) j")
    case None
    then have "view (snd (get j s)) = view s" using get_view [OF ok, of j] by (simp add: lru_touch_def)
    then show ?thesis using v get_ok [OF ok, of j] by (auto simp: kept_def)
  next
    case (Some u)
    then show ?thesis using kept_move [OF d v(2) assms(2), of u] v get_view [OF ok, of j] get_ok [OF ok, of j]
      by (simp add: kept_def lru_touch_def)
  qed
qed

lemma kept_get_same: "kept k v T s \<Longrightarrow> kept k v {} (snd (get k s))"
  using kept_get [of k v T s] get_view [of s k] get_ok [of s k] get_result [of s k]
  by (auto simp: kept_def lru_touch_def)

lemma kept_put_other:
  assumes "kept k v T s" "j \<noteq> k" "fits j u" "finite T" "card (insert j T) < capacity s"
  shows "kept k v (insert j T) (put j u s)"
proof -
  from assms obtain ys zs where v: "view s = ys @ (k, v) # zs" "fst ` set ys \<subseteq> T" and ok: "ok s" by (auto simp: kept_def)
  have d: "distinct (map fst (ys @ (k, v) # zs))" using view_distinct [OF ok] v by simp
  show ?thesis
  proof (cases "map_of (view s) j")
    case (Some w)
    then show ?thesis using kept_move [OF d v(2) assms(2), of u] v put_view [OF ok assms(3)] put_ok [OF ok assms(3)]
      by (simp add: kept_def lru_insert_def)
  next
    case None
    have "zs = [] \<Longrightarrow> length (view s) < capacity s"
    proof -
      assume "zs = []"
      have "j \<notin> fst ` set ys" using None v(1) by (auto simp: map_of_eq_None_iff simp del: map_of_append)
      then have "card (insert j (fst ` set ys)) = Suc (length ys)"
        using d distinct_card [of "map fst ys"] by simp
      moreover have "card (insert j (fst ` set ys)) \<le> card (insert j T)"
        using v(2) assms(4) by (intro card_mono) auto
      ultimately show ?thesis using assms(5) v(1) \<open>zs = []\<close> by simp
    qed
    moreover have "view (put j u s) = (j, u) # (if length (view s) \<ge> capacity s then butlast (view s) else view s)"
      using put_view [OF ok assms(3)] None by (simp add: lru_insert_def)
    ultimately have "view (put j u s) = ((j, u) # ys) @ (k, v) # (if length (view s) \<ge> capacity s then butlast zs else zs)"
      using v(1) by (auto simp: butlast_append)
    then have "\<exists>ys' zs'. view (put j u s) = ys' @ (k, v) # zs' \<and> fst ` set ys' \<subseteq> insert j T"
      using v(2) by (metis image_insert insert_mono list.simps(15) fst_conv)
    then show ?thesis using put_ok [OF ok assms(3)] by (simp add: kept_def)
  qed
qed

lemma run_keeps:
  assumes "kept k v T s" "finite T" "\<forall>op \<in> set ops. op_fits fits op"
    and "\<forall>op \<in> set ops. (\<exists>j. op = GetOp j) \<or> (\<exists>j u. op = PutOp j u \<and> j \<noteq> k)"
    and "card (T \<union> {j. j \<noteq> k \<and> Some j \<in> op_key ` set ops}) < capacity s"
  shows "\<exists>T'. kept k v T' (run ops s)"
  using assms
proof (induction ops arbitrary: s T)
  case (Cons op ops)
  let ?s = "apply_op (\<lambda>k s. snd (get k s)) put reset op s"
  let ?K = "\<lambda>os. {j. j \<noteq> k \<and> Some j \<in> op_key ` set os}"
  have ok: "ok s" using Cons.prems(1) by (simp add: kept_def)
  have fin: "finite (T \<union> ?K (op # ops))" 
  proof -
    have "?K (op # ops) \<subseteq> the ` (op_key ` set (op # ops))" by (auto simp: image_iff) (metis option.sel)+
    then show ?thesis using Cons.prems(2) by (meson finite_UnI finite_imageI List.finite_set finite_subset)
  qed
  obtain T1 where T1: "kept k v T1 ?s" "T1 \<union> ?K ops \<subseteq> T \<union> ?K (op # ops)"
  proof (cases "op = GetOp k")
    case True
    then show thesis using kept_get_same [OF Cons.prems(1)] by (intro that [of "{}"]) auto
  next
    case False
    then obtain j where j: "op_key op = Some j" "j \<noteq> k" "op = GetOp j \<or> (\<exists>u. op = PutOp j u)" using Cons.prems(4) by fastforce
    have "card (insert j T) \<le> card (T \<union> ?K (op # ops))" using j fin by (intro card_mono) auto
    then have "kept k v (insert j T) ?s"
      using j kept_get_other [OF Cons.prems(1) j(2)] kept_put_other [OF Cons.prems(1) j(2) _ Cons.prems(2)] Cons.prems(3,5)
      by auto
    then show thesis using j by (intro that [of "insert j T"]) auto
  qed
  have "capacity ?s = capacity s" using ok Cons.prems(3,4) by (cases op) (auto simp: get_ok put_ok)
  moreover have "card (T1 \<union> ?K ops) \<le> card (T \<union> ?K (op # ops))" by (rule card_mono [OF fin T1(2)])
  moreover have "finite T1" using fin T1(2) by (meson finite_subset le_sup_iff)
  ultimately have "\<exists>T'. kept k v T' (run ops ?s)" using Cons.IH [OF T1(1)] Cons.prems(3-5) by simp
  then show ?case by (simp add: run_def)
qed (auto simp: run_def)

end

section \<open>The model refines the specification\<close>

definition element_entry :: "idempotencyCache \<Rightarrow> nat \<Rightarrow> string \<times> cacheEntry" where
  "element_entry c e = (ce_key (the (ic_value c e)), the (ic_value c e))"

definition cache_view :: "idempotencyCache \<Rightarrow> cacheEntry lru" where
  "cache_view c = map (element_entry c) (ic_order c)"

text \<open>
  The representation invariant: the list holds each element once and no more than the capacity, every
  element holds an entry that the items map finds under its own key, and the map points at nothing else.
\<close>

definition cache_ok :: "idempotencyCache \<Rightarrow> bool" where
  "cache_ok c \<longleftrightarrow> 0 < ic_cap c \<and> int (length (ic_order c)) \<le> ic_cap c \<and> distinct (ic_order c) \<and>
     (\<forall>e \<in> set (ic_order c). e < ic_next c \<and> (\<exists>v. ic_value c e = Some v \<and> ic_items c (ce_key v) = Some e)) \<and>
     (\<forall>k e. ic_items c k = Some e \<longrightarrow> e \<in> set (ic_order c) \<and> (\<exists>v. ic_value c e = Some v \<and> ce_key v = k))"

lemma cache_okD:
  assumes "cache_ok c"
  shows "0 < ic_cap c" "int (length (ic_order c)) \<le> ic_cap c" "distinct (ic_order c)"
    and "e \<in> set (ic_order c) \<Longrightarrow> e < ic_next c"
    and "e \<in> set (ic_order c) \<Longrightarrow> \<exists>v. ic_value c e = Some v \<and> ic_items c (ce_key v) = Some e"
    and "ic_items c k = Some e \<Longrightarrow> e \<in> set (ic_order c)"
    and "ic_items c k = Some e \<Longrightarrow> \<exists>v. ic_value c e = Some v \<and> ce_key v = k"
  using assms unfolding cache_ok_def by blast+

lemma cache_okI:
  assumes "0 < ic_cap c" "int (length (ic_order c)) \<le> ic_cap c" "distinct (ic_order c)"
    and "\<And>e. e \<in> set (ic_order c) \<Longrightarrow> e < ic_next c"
    and "\<And>e. e \<in> set (ic_order c) \<Longrightarrow> \<exists>v. ic_value c e = Some v \<and> ic_items c (ce_key v) = Some e"
    and "\<And>k e. ic_items c k = Some e \<Longrightarrow> e \<in> set (ic_order c) \<and> (\<exists>v. ic_value c e = Some v \<and> ce_key v = k)"
  shows "cache_ok c"
  unfolding cache_ok_def using assms by blast

lemma element_key: "cache_ok c \<Longrightarrow> e \<in> set (ic_order c) \<Longrightarrow> fst (element_entry c e) = k \<longleftrightarrow> ic_items c k = Some e"
  using cache_okD(5) [of c e] cache_okD(7) [of c k e] by (fastforce simp: element_entry_def)

lemma newIdempotencyCache_ok: "cache_ok (newIdempotencyCache n)"
  by (simp add: cache_ok_def newIdempotencyCache_def)

lemma cache_Reset_ok: "cache_ok c \<Longrightarrow> cache_ok (cache_Reset c)"
  by (simp add: cache_ok_def cache_Reset_def)

lemma cache_view_distinct:
  assumes "cache_ok c"
  shows "distinct (map fst (cache_view c))"
proof -
  have "inj_on (\<lambda>e. fst (element_entry c e)) (set (ic_order c))"
    using element_key [OF assms] by (intro inj_onI) (metis option.inject)
  then show ?thesis using cache_okD(3) [OF assms] by (simp add: cache_view_def distinct_map comp_def)
qed

lemma map_of_cache_view:
  assumes "cache_ok c"
  shows "map_of (cache_view c) k = (case ic_items c k of None \<Rightarrow> None | Some e \<Rightarrow> ic_value c e)"
proof (cases "ic_items c k")
  case None
  then have "fst (element_entry c e) \<noteq> k" if "e \<in> set (ic_order c)" for e using element_key [OF assms that, of k] by simp
  then have "k \<notin> fst ` set (cache_view c)" unfolding cache_view_def by (metis (no_types, lifting) imageE list.set_map)
  then show ?thesis using None by (simp add: map_of_eq_None_iff)
next
  case (Some e)
  then obtain v where "ic_value c e = Some v" "e \<in> set (ic_order c)" "ce_key v = k"
    using cache_okD(6,7) [OF assms] by blast
  then have "(k, v) \<in> set (cache_view c)" "ic_value c e = Some v" by (force simp: cache_view_def element_entry_def)+
  then show ?thesis using Some cache_view_distinct [OF assms] by simp
qed

lemma lru_delete_cache_view:
  assumes "cache_ok c" "ic_items c k = Some e"
  shows "lru_delete k (cache_view c) = map (element_entry c) (remove1 e (ic_order c))"
proof -
  have "filter (\<lambda>x. fst (element_entry c x) \<noteq> k) (ic_order c) = filter (\<lambda>x. e \<noteq> x) (ic_order c)"
    using element_key [OF assms(1)] assms(2) by (intro filter_cong) auto
  then show ?thesis using cache_okD(3) [OF assms(1)]
    by (simp add: lru_delete_def cache_view_def filter_map comp_def distinct_remove1_removeAll removeAll_filter_not_eq)
qed

lemma MoveToFront_simps:
  "distinct l \<Longrightarrow> e \<in> set l \<Longrightarrow> set (MoveToFront e l) = set l \<and> distinct (MoveToFront e l) \<and> length (MoveToFront e l) = length l"
  by (auto simp: MoveToFront_def length_remove1 dest: length_pos_if_in_set)

lemma cache_Get_ok: "cache_ok c \<Longrightarrow> cache_ok (snd (cache_Get k c))"
proof (cases "ic_items c k")
  case (Some e)
  assume ok: "cache_ok c"
  note m = MoveToFront_simps [OF cache_okD(3) [OF ok] cache_okD(6) [OF ok Some]]
  from ok show ?thesis unfolding cache_ok_def by (simp add: cache_Get_def Some m)
qed (simp add: cache_Get_def)

lemma cache_Get_view:
  assumes "cache_ok c"
  shows "cache_view (snd (cache_Get k c)) = lru_touch k (cache_view c)"
proof (cases "ic_items c k")
  case None
  then show ?thesis using map_of_cache_view [OF assms, of k] by (simp add: cache_Get_def lru_touch_def)
next
  case (Some e)
  then obtain v where v: "ic_value c e = Some v" "e \<in> set (ic_order c)" "ce_key v = k"
    using cache_okD(6,7) [OF assms] by blast
  have "element_entry (c\<lparr>ic_order := l\<rparr>) = element_entry c" for l by (simp add: element_entry_def fun_eq_iff)
  then show ?thesis using Some v map_of_cache_view [OF assms, of k] lru_delete_cache_view [OF assms Some]
    by (simp add: cache_Get_def lru_touch_def cache_view_def MoveToFront_def) (simp add: element_entry_def)
qed

text \<open>Put over a key the table has.\<close>

lemma cache_Put_hit:
  assumes "cache_ok c" "ic_items c k = Some e" "ce_key v = k"
  shows "cache_ok (cache_Put k v c) \<and> cache_view (cache_Put k v c) = (k, v) # lru_delete k (cache_view c)"
proof -
  let ?c = "cache_Put k v c"
  have e: "e \<in> set (ic_order c)" using cache_okD(6) [OF assms(1,2)] .
  note m = MoveToFront_simps [OF cache_okD(3) [OF assms(1)] e]
  have "map (element_entry ?c) (remove1 e (ic_order c)) = map (element_entry c) (remove1 e (ic_order c))"
    using assms(2) cache_okD(3) [OF assms(1)] by (intro map_cong) (auto simp: cache_Put_def element_entry_def)
  moreover have "element_entry ?c e = (k, v)" using assms(2,3) by (simp add: cache_Put_def element_entry_def)
  moreover have "ic_order ?c = e # remove1 e (ic_order c)" using assms(2) e by (simp add: cache_Put_def MoveToFront_def)
  ultimately have "cache_view ?c = (k, v) # lru_delete k (cache_view c)"
    using lru_delete_cache_view [OF assms(1,2)] unfolding cache_view_def by simp
  moreover have "cache_ok ?c"
  proof -
    have p: "?c = c\<lparr>ic_value := (ic_value c)(e \<mapsto> v), ic_order := MoveToFront e (ic_order c)\<rparr>"
      using assms(2) by (simp add: cache_Put_def)
    have "x < ic_next c \<and> (\<exists>u. ((ic_value c)(e \<mapsto> v)) x = Some u \<and> ic_items c (ce_key u) = Some x)" if "x \<in> set (ic_order c)" for x
      using cache_okD(4,5) [OF assms(1) that] assms(2,3) by auto
    moreover have "x \<in> set (ic_order c) \<and> (\<exists>u. ((ic_value c)(e \<mapsto> v)) x = Some u \<and> ce_key u = j)" if "ic_items c j = Some x" for j x
    proof (cases "x = e")
      case True
      then have "j = k" using cache_okD(7) [OF assms(1) that] cache_okD(7) [OF assms(1,2)] by auto
      then show ?thesis using True e assms(3) by simp
    qed (use cache_okD(6,7) [OF assms(1) that] in simp)
    ultimately show ?thesis using cache_okD(1-3) [OF assms(1)] unfolding cache_ok_def p by (simp add: m)
  qed
  ultimately show ?thesis by blast
qed

text \<open>The eviction drops the last row.\<close>

lemma evict_oldest_ok:
  assumes "cache_ok c" "ic_order c \<noteq> []"
  shows "cache_ok (evict_oldest c) \<and> ic_order (evict_oldest c) = butlast (ic_order c) \<and>
    cache_view (evict_oldest c) = butlast (cache_view c) \<and> ic_cap (evict_oldest c) = ic_cap c \<and>
    (\<forall>k. ic_items c k = None \<longrightarrow> ic_items (evict_oldest c) k = None)"
proof -
  obtain os e where o: "ic_order c = os @ [e]" using assms(2) by (metis append_butlast_last_id)
  have d: "e \<notin> set os" "distinct os" using cache_okD(3) [OF assms(1)] o by auto
  obtain v where v: "ic_value c e = Some v" "ic_items c (ce_key v) = Some e" using cache_okD(5) [OF assms(1), of e] o by auto
  have ev: "evict_oldest c = c\<lparr>ic_order := os, ic_items := (ic_items c)(ce_key v := None)\<rparr>"
    using d by (simp add: evict_oldest_def o v remove1_append)
  have "element_entry (evict_oldest c) = element_entry c" by (simp add: element_entry_def ev fun_eq_iff)
  then have "cache_view (evict_oldest c) = butlast (cache_view c)" by (simp add: cache_view_def ev o)
  moreover have "cache_ok (evict_oldest c)"
  proof -
    have "\<exists>u. ic_value c x = Some u \<and> ce_key u \<noteq> ce_key v \<and> ic_items c (ce_key u) = Some x" if x: "x \<in> set os" for x
    proof -
      have "x \<in> set (ic_order c)" using x o by simp
      then obtain u where u: "ic_value c x = Some u" "ic_items c (ce_key u) = Some x"
        using cache_okD(5) [OF assms(1)] by blast
      have "ce_key u \<noteq> ce_key v" using u v x d(1) by auto
      with u show ?thesis by blast
    qed
    moreover have "x \<in> set os \<and> (\<exists>u. ic_value c x = Some u \<and> ce_key u = k)" if "ic_items c k = Some x" "k \<noteq> ce_key v" for k x
      using cache_okD(6,7) [OF assms(1) that(1)] v that(2) o by auto
    moreover have "x < ic_next c" if "x \<in> set os" for x using cache_okD(4) [OF assms(1), of x] that o by simp
    ultimately show ?thesis unfolding ev
      by (intro cache_okI) (use cache_okD(1,2) [OF assms(1)] d(2) o in \<open>auto split: if_splits\<close>, metis)
  qed
  ultimately show ?thesis using o ev by simp
qed

lemma cache_Put_new:
  assumes "cache_ok c" "ic_items c k = None" "ce_key v = k" "int (length (ic_order c)) < ic_cap c"
  shows "cache_ok (cache_Put k v c) \<and> cache_view (cache_Put k v c) = (k, v) # cache_view c"
proof -
  let ?n = "ic_next c"
  have p: "cache_Put k v c = c\<lparr>ic_next := Suc ?n, ic_value := (ic_value c)(?n \<mapsto> v), ic_order := ?n # ic_order c,
      ic_items := (ic_items c)(k \<mapsto> ?n)\<rparr>"
    using assms(2,4) by (simp add: cache_Put_def Let_def)
  have n: "?n \<notin> set (ic_order c)" using cache_okD(4) [OF assms(1)] by blast
  have "element_entry (cache_Put k v c) x = element_entry c x" if "x \<in> set (ic_order c)" for x
    using that n by (auto simp: p element_entry_def)
  then have "cache_view (cache_Put k v c) = (k, v) # cache_view c"
    using assms(3) by (simp add: cache_view_def p) (simp add: element_entry_def)
  moreover have "cache_ok (cache_Put k v c)"
  proof -
    have old: "x < Suc ?n \<and> x \<noteq> ?n \<and> (\<exists>u. ic_value c x = Some u \<and> ce_key u \<noteq> k \<and> ic_items c (ce_key u) = Some x)"
      if "x \<in> set (ic_order c)" for x
      using cache_okD(4,5) [OF assms(1) that] assms(2) by (metis less_SucI less_irrefl option.distinct(1))
    have pts: "x \<in> set (ic_order c) \<and> x \<noteq> ?n \<and> (\<exists>u. ic_value c x = Some u \<and> ce_key u = j)" if "ic_items c j = Some x" for j x
      using cache_okD(6,7) [OF assms(1) that] n by blast
    show ?thesis unfolding p
    proof (rule cache_okI, goal_cases)
      case (5 x)
      show ?case
      proof (cases "x = ?n")
        case False
        then have "x \<in> set (ic_order c)" using 5 by simp
        then obtain u where "ic_value c x = Some u" "ce_key u \<noteq> k" "ic_items c (ce_key u) = Some x" using old by blast
        with False show ?thesis by (intro exI [of _ u]) simp
      qed (simp add: assms(3))
    qed (use cache_okD(1,3) [OF assms(1)] assms(3,4) n old pts in \<open>auto split: if_splits\<close>)
  qed
  ultimately show ?thesis by blast
qed

lemma cache_Put_refines:
  assumes "cache_ok c" "ce_key v = k"
  shows "cache_ok (cache_Put k v c) \<and> ic_cap (cache_Put k v c) = ic_cap c \<and>
    cache_view (cache_Put k v c) = lru_insert (nat (ic_cap c)) k v (cache_view c)"
proof (cases "ic_items c k")
  case (Some e)
  then obtain u where "ic_value c e = Some u" using cache_okD(7) [OF assms(1)] by blast
  then show ?thesis using cache_Put_hit [OF assms(1) Some assms(2)] map_of_cache_view [OF assms(1), of k] Some
    by (simp add: lru_insert_def) (simp add: cache_Put_def)
next
  case None
  have absent: "map_of (cache_view c) k = None" using map_of_cache_view [OF assms(1), of k] None by simp
  have len: "length (cache_view c) = length (ic_order c)" by (simp add: cache_view_def)
  show ?thesis
  proof (cases "int (length (ic_order c)) \<ge> ic_cap c")
    case False
    then have "\<not> length (cache_view c) \<ge> nat (ic_cap c)" using len by linarith
    then show ?thesis using cache_Put_new [OF assms(1) None assms(2)] False absent None
      by (simp add: lru_insert_def) (simp add: cache_Put_def Let_def)
  next
    case True
    then have ne: "ic_order c \<noteq> []" using cache_okD(1) [OF assms(1)] by auto
    note ev = evict_oldest_ok [OF assms(1) ne]
    have lt: "int (length (ic_order (evict_oldest c))) < ic_cap (evict_oldest c)"
      using ev ne cache_okD(2) [OF assms(1)] by (cases "ic_order c") auto
    have "cache_Put k v c = cache_Put k v (evict_oldest c)"
      using None True ev lt by (simp add: cache_Put_def Let_def)
    moreover have "ic_cap (cache_Put k v (evict_oldest c)) = ic_cap c" using None ev lt by (simp add: cache_Put_def Let_def)
    ultimately show ?thesis using cache_Put_new [OF _ _ assms(2) lt] ev None True absent len
      by (simp add: lru_insert_def nat_le_iff)
  qed
qed

interpretation idem: lru_table cache_ok cache_view "\<lambda>c. nat (ic_cap c)" cache_Get cache_Put cache_Reset "\<lambda>k e. ce_key e = k"
proof unfold_locales
  fix c :: idempotencyCache and k :: string and v :: cacheEntry
  assume ok: "cache_ok c"
  show "distinct (map fst (cache_view c))" by (rule cache_view_distinct [OF ok])
  show "length (cache_view c) \<le> nat (ic_cap c)" "0 < nat (ic_cap c)"
    using cache_okD(1,2) [OF ok] by (simp_all add: cache_view_def nat_le_iff)
  show "fst (cache_Get k c) = map_of (cache_view c) k"
    by (simp add: map_of_cache_view [OF ok] cache_Get_def split: option.split)
  show "cache_view (snd (cache_Get k c)) = lru_touch k (cache_view c)" by (rule cache_Get_view [OF ok])
  show "cache_ok (snd (cache_Get k c)) \<and> nat (ic_cap (snd (cache_Get k c))) = nat (ic_cap c)"
    using cache_Get_ok [OF ok] by (simp add: cache_Get_def split: option.split)
  show "cache_view (cache_Put k v c) = lru_insert (nat (ic_cap c)) k v (cache_view c)" if "ce_key v = k"
    using cache_Put_refines [OF ok that] by blast
  show "cache_ok (cache_Put k v c) \<and> nat (ic_cap (cache_Put k v c)) = nat (ic_cap c)" if "ce_key v = k"
    using cache_Put_refines [OF ok that] by simp
  show "cache_ok (cache_Reset c) \<and> nat (ic_cap (cache_Reset c)) = nat (ic_cap c)"
    using cache_Reset_ok [OF ok] by (simp add: cache_Reset_def)
qed (simp add: cache_view_def cache_Reset_def)

section \<open>Properties\<close>

definition cache_run :: "cacheEntry cache_op list \<Rightarrow> idempotencyCache \<Rightarrow> idempotencyCache" where
  "cache_run ops c = fold (apply_op (\<lambda>k c. snd (cache_Get k c)) cache_Put cache_Reset) ops c"

lemma cache_run_eq: "cache_run = idem.run"
  by (simp add: cache_run_def idem.run_def fun_eq_iff)

text \<open>C11. The replay cache is a least-recently-used table: after any sequence of Get, Put and Reset calls on a new
  cache, where each entry is stored under its own key as the server does, the linked list and the
  items map agree, the list holds at most the capacity, its rows are exactly those of the abstract
  table after the same calls, most recent first, and Get finds exactly what that table holds.\<close>
theorem cache_refines_lru:
  assumes "\<forall>op \<in> set ops. op_fits (\<lambda>k e. ce_key e = k) op"
    and "c = cache_run ops (newIdempotencyCache n)" "cap = nat (if n \<le> 0 then 1024 else n)"
  shows "cache_ok c \<and> length (ic_order c) \<le> cap \<and> cache_view c = lru_run cap ops [] \<and>
    fst (cache_Get k c) = map_of (lru_run cap ops []) k"
proof -
  have v: "cache_view (newIdempotencyCache n) = []" "nat (ic_cap (newIdempotencyCache n)) = cap"
    using assms(3) by (simp_all add: cache_view_def newIdempotencyCache_def)
  have c: "cache_ok c" "nat (ic_cap c) = cap" "cache_view c = lru_run cap ops []"
    using idem.run_refines [OF newIdempotencyCache_ok assms(1), of n] assms(2) v by (simp_all add: cache_run_eq)
  moreover have "length (ic_order c) = length (cache_view c)" by (simp add: cache_view_def)
  ultimately show ?thesis using idem.get_result [OF c(1), of k] idem.view_bounded [OF c(1)] by simp
qed

text \<open>A replay is not lost to unrelated traffic: once an entry is stored, it is still what Get returns after any
  calls that do not overwrite it, as long as fewer other keys than the capacity were used since; in
  particular at the default capacity of 1024 entries the next 1023 distinct request ids cannot evict it.\<close>
theorem cache_keeps_recent:
  assumes "cache_ok c" "ce_key e = k" "\<forall>op \<in> set ops. op_fits (\<lambda>k e. ce_key e = k) op"
    and "\<forall>op \<in> set ops. (\<exists>j. op = GetOp j) \<or> (\<exists>j u. op = PutOp j u \<and> j \<noteq> k)"
    and "int (card {j. j \<noteq> k \<and> Some j \<in> op_key ` set ops}) < ic_cap c"
  shows "fst (cache_Get k (cache_run ops (cache_Put k e c))) = Some e"
proof -
  have "ic_cap (cache_Put k e c) = ic_cap c" using cache_Put_refines [OF assms(1,2)] by simp
  then have "card ({} \<union> {j. j \<noteq> k \<and> Some j \<in> op_key ` set ops}) < nat (ic_cap (cache_Put k e c))" using assms(5) by simp
  from idem.run_keeps [OF idem.kept_put [OF assms(1,2)] _ assms(3,4) this] obtain T' where
    "idem.kept k e T' (cache_run ops (cache_Put k e c))" by (auto simp: cache_run_eq)
  then show ?thesis by (rule idem.kept_get)
qed

definition sample_entry :: "string \<Rightarrow> cacheEntry" where
  "sample_entry k = \<lparr>ce_key = k, ce_status = 200, ce_body = ''b'' @ k, ce_headers = []\<rparr>"

theorem cache_refines_lru_witness:
  "map fst (cache_view (cache_run [PutOp ''a'' (sample_entry ''a''), PutOp ''b'' (sample_entry ''b''), GetOp ''a'',
     PutOp ''c'' (sample_entry ''c'')] (newIdempotencyCache 2))) = [''c'', ''a'']"
proof -
  let ?ops = "[PutOp ''a'' (sample_entry ''a''), PutOp ''b'' (sample_entry ''b''), GetOp ''a'', PutOp ''c'' (sample_entry ''c'')]"
  have "\<forall>op \<in> set ?ops. op_fits (\<lambda>k e. ce_key e = k) op" by (simp add: sample_entry_def)
  from cache_refines_lru [OF this refl refl, of 2] show ?thesis
    by (simp add: lru_run_def lru_insert_def lru_touch_def lru_delete_def)
qed

theorem cache_keeps_recent_witness:
  "fst (cache_Get ''a'' (cache_run [PutOp ''b'' (sample_entry ''b''), GetOp ''a''] (cache_Put ''a'' (sample_entry ''a'')
     (newIdempotencyCache 2)))) = Some (sample_entry ''a'')"
proof (rule cache_keeps_recent [OF newIdempotencyCache_ok])
  have "{j. j \<noteq> ''a'' \<and> Some j \<in> op_key ` set [PutOp ''b'' (sample_entry ''b''), GetOp ''a'']} = {''b''}" by auto
  then show "int (card {j. j \<noteq> ''a'' \<and> Some j \<in> op_key ` set [PutOp ''b'' (sample_entry ''b''), GetOp ''a'']})
      < ic_cap (newIdempotencyCache 2)"
    by (simp add: newIdempotencyCache_def)
qed (simp_all add: sample_entry_def)

end
