(* ===== verification/Spec_Check.thy ===== *)
theory Spec_Check
  imports Errors "HOL-Library.AList" "HOL-Library.Multiset"
begin

text \<open>
  internal/spec: the walker that reads the required fields of every operation off the pinned
  OpenAPI document, and the presence check of a request body against them.  A yaml.Node is the
  datatype \<open>yaml_node\<close>; the parsers (yaml.Unmarshal, json.Unmarshal), the file system and the
  quoting of fmt's %q (\<open>quote\<close>) are arguments.  A nil *yaml.Node is None; JSON null and an absent
  key are both nil in Go and JNull here.
\<close>

section \<open>dispatch.go: presence of the required fields\<close>

definition has_suffix :: "string \<Rightarrow> string \<Rightarrow> bool" where
  "has_suffix s suf \<longleftrightarrow> length suf \<le> length s \<and> drop (length s - length suf) s = suf"

definition trim_suffix :: "string \<Rightarrow> string \<Rightarrow> string" where
  "trim_suffix s suf = (if has_suffix s suf then take (length s - length suf) s else s)"

definition has_prefix :: "string \<Rightarrow> string \<Rightarrow> bool" where
  "has_prefix s p \<longleftrightarrow> take (length p) s = p"

definition trim_prefix :: "string \<Rightarrow> string \<Rightarrow> string" where
  "trim_prefix s p = (if has_prefix s p then drop (length p) s else s)"

definition childOf :: "json \<Rightarrow> string \<Rightarrow> json" where
  "childOf node key =
     (case node of
        JObject m \<Rightarrow> (case map_of m key of Some v \<Rightarrow> v | None \<Rightarrow> JNull)
      | _ \<Rightarrow> JNull)"

definition splitPath :: "string \<Rightarrow> string list" where
  "splitPath p = (if p = [] then [] else split_on (CHR ''.'') p)"

definition joinRendered :: "string \<Rightarrow> string \<Rightarrow> string" where
  "joinRendered prefix seg =
     (if prefix = [] then seg
      else if has_prefix seg ''['' then prefix @ seg
      else prefix @ ''.'' @ seg)"

text \<open>The loop over an array's elements stops at the first missing field.\<close>

fun first_missing :: "string list \<Rightarrow> string" where
  "first_missing [] = []"
| "first_missing (m # ms) = (if m \<noteq> [] then m else first_missing ms)"

fun descend :: "json \<Rightarrow> string list \<Rightarrow> string \<Rightarrow> string" where
  "descend node [] rendered = (if node = JNull then rendered else [])"
| "descend node (seg # segs) rendered =
     (if has_suffix seg ''[]'' then
        let propName = trim_suffix seg ''[]'' in
        (case childOf node propName of
           JArray arr \<Rightarrow> first_missing
             (map (\<lambda>(idx, elem). descend elem segs
                (joinRendered (joinRendered rendered propName) (''['' @ itoa (int idx) @ '']'')))
               (zip [0..<length arr] arr))
         | _ \<Rightarrow> [])
      else
        let nxt = childOf node seg; r = joinRendered rendered seg in
        if nxt = JNull then (if segs = [] then r else [])
        else if segs = [] then []
        else descend nxt segs r)"

definition findMissing :: "json \<Rightarrow> string \<Rightarrow> string" where
  "findMissing doc path = descend doc (splitPath path) []"

definition ValidateBody :: "(bytes \<Rightarrow> go_error + json) \<Rightarrow> bytes \<Rightarrow> string list \<Rightarrow> go_error + string" where
  "ValidateBody unmarshal body required =
     (if required = [] then Inr []
      else case unmarshal body of
        Inl err \<Rightarrow> Inl (WrapError ''invalid JSON body: '' err [])
      | Inr doc \<Rightarrow> Inr (first_missing (map (findMissing doc) required)))"

section \<open>spec.go: operations and their order\<close>

definition OpKey :: "string \<Rightarrow> string \<Rightarrow> string" where
  "OpKey m path = map to_upper m @ '' '' @ path"

text \<open>The inner loop of the insertion sort, from position j down, and the outer one from i.\<close>

fun sift_down :: "nat \<Rightarrow> string list \<Rightarrow> string list" where
  "sift_down 0 s = s"
| "sift_down (Suc j) s =
     (if s ! j > s ! Suc j then sift_down j (s[j := s ! Suc j, Suc j := s ! j]) else s)"

lemma length_sift_down [simp]: "length (sift_down j s) = length s"
  by (induction j s rule: sift_down.induct) auto

function sort_from :: "nat \<Rightarrow> string list \<Rightarrow> string list" where
  "sort_from i s = (if i < length s then sort_from (Suc i) (sift_down i s) else s)"
  by pat_completeness auto
termination
  by (relation "measure (\<lambda>(i, s). length s - i)") auto

declare sort_from.simps [simp del]

definition stableSort :: "string list \<Rightarrow> string list" where
  "stableSort s = sort_from 1 s"

record operation =
  op_Method :: string
  op_Path :: string
  RequiredBody :: "string list"
  RequiredQuery :: "string list"
  RequiredHeader :: "string list"

datatype yaml_kind = DocumentNode | SequenceNode | MappingNode | ScalarNode | AliasNode

datatype yaml_node = YNode (Kind: yaml_kind) (Value: string) (Content: "yaml_node list")

record raw_spec =
  Paths :: "(string \<times> yaml_node) list"
  RequestBodies :: "(string \<times> yaml_node) list"
  Schemas :: "(string \<times> yaml_node) list"

record spec =
  spec_Path :: string
  Operations :: "(string \<times> operation) list"
  raw :: raw_spec

definition Spec_Op :: "spec option \<Rightarrow> string \<Rightarrow> string \<Rightarrow> operation option" where
  "Spec_Op s m path = (case s of None \<Rightarrow> None | Some x \<Rightarrow> map_of (Operations x) (OpKey m path))"

definition Endpoints :: "spec option \<Rightarrow> string list" where
  "Endpoints s = (case s of None \<Rightarrow> [] | Some x \<Rightarrow> stableSort (map fst (Operations x)))"

section \<open>walker.go\<close>

text \<open>The content of a mapping alternates keys and values; yaml.v3 gives it an even length.\<close>

fun pair_value :: "string \<Rightarrow> yaml_node list \<Rightarrow> yaml_node option" where
  "pair_value key (k # v # rest) = (if Value k = key then Some v else pair_value key rest)"
| "pair_value key _ = None"

fun pairs :: "yaml_node list \<Rightarrow> (string \<times> yaml_node) list" where
  "pairs (k # v # rest) = (Value k, v) # pairs rest"
| "pairs _ = []"

definition mappingChild :: "yaml_node \<Rightarrow> string \<Rightarrow> yaml_node option" where
  "mappingChild n key =
     (let n = (if Kind n = DocumentNode \<and> Content n \<noteq> [] then hd (Content n) else n) in
      if Kind n \<noteq> MappingNode then None else pair_value key (Content n))"

definition scalarChild :: "yaml_node \<Rightarrow> string \<Rightarrow> string" where
  "scalarChild n key =
     (case mappingChild n key of None \<Rightarrow> [] | Some v \<Rightarrow> if Kind v \<noteq> ScalarNode then [] else Value v)"

fun firstMappingChild :: "yaml_node \<Rightarrow> string list \<Rightarrow> yaml_node option" where
  "firstMappingChild n [] = None"
| "firstMappingChild n (k # ks) =
     (case mappingChild n k of Some c \<Rightarrow> Some c | None \<Rightarrow> firstMappingChild n ks)"

definition resolveRef :: "raw_spec \<Rightarrow> string \<Rightarrow> yaml_node option" where
  "resolveRef rw ref =
     (if has_prefix ref ''#/components/schemas/'' then map_of (Schemas rw) (trim_prefix ref ''#/components/schemas/'')
      else if has_prefix ref ''#/components/requestBodies/'' then
        map_of (RequestBodies rw) (trim_prefix ref ''#/components/requestBodies/'')
      else None)"

definition intersectPaths :: "string list \<Rightarrow> string list \<Rightarrow> string list" where
  "intersectPaths a b = filter (\<lambda>p. p \<in> set b) a"

definition joinPath :: "string \<Rightarrow> string \<Rightarrow> string" where
  "joinPath prefix name = (if prefix = [] then name else prefix @ ''.'' @ name)"

text \<open>The output list and the seen set, as collectRequired passes them on.\<close>

type_synonym collected = "string list \<times> string set"

fun add_path :: "string \<Rightarrow> collected \<Rightarrow> collected" where
  "add_path path (out, seen) = (if path \<in> seen then (out, seen) else (out @ [path], insert path seen))"

definition seq_items :: "yaml_node option \<Rightarrow> yaml_node list" where
  "seq_items n = (case n of Some c \<Rightarrow> if Kind c = SequenceNode then Content c else [] | None \<Rightarrow> [])"

definition map_items :: "yaml_node option \<Rightarrow> (string \<times> yaml_node) list" where
  "map_items n = (case n of Some c \<Rightarrow> if Kind c = MappingNode then pairs (Content c) else [] | None \<Rightarrow> [])"

text \<open>The loop over the branches of oneOf or anyOf keeps what every branch requires.\<close>

fun common_paths :: "string list list \<Rightarrow> string list" where
  "common_paths [] = []"
| "common_paths (b # bs) = foldl intersectPaths b bs"

text \<open>
  The first argument is the number of levels left before depth exceeds maxDepth = 12; depth 0 is 13 levels.
\<close>

fun collect_levels :: "nat \<Rightarrow> raw_spec \<Rightarrow> yaml_node \<Rightarrow> string \<Rightarrow> collected \<Rightarrow> collected" where
  "collect_levels 0 rw n0 prefix st = st"
| "collect_levels (Suc left) rw n0 prefix st =
     (case (if scalarChild n0 ''$ref'' \<noteq> [] then resolveRef rw (scalarChild n0 ''$ref'') else Some n0) of
        None \<Rightarrow> st
      | Some n \<Rightarrow>
          let inter = common_paths (map (\<lambda>child. fst (collect_levels left rw child prefix ([], {})))
                        (seq_items (firstMappingChild n [''oneOf'', ''anyOf''])));
              st = fold add_path inter st;
              st = fold (\<lambda>child st. collect_levels left rw child prefix st) (seq_items (mappingChild n ''allOf'')) st;
              st = fold (\<lambda>r st. add_path (joinPath prefix (Value r)) st) (seq_items (mappingChild n ''required'')) st;
              st = fold (\<lambda>(name, child) st. collect_levels left rw child (joinPath prefix name) st)
                     (map_items (mappingChild n ''properties'')) st
          in if scalarChild n ''type'' = ''array'' then
               (case mappingChild n ''items'' of
                  Some items \<Rightarrow> collect_levels left rw items (prefix @ ''[]'') st
                | None \<Rightarrow> st)
             else st)"

definition collectRequired :: "raw_spec \<Rightarrow> yaml_node \<Rightarrow> string \<Rightarrow> collected \<Rightarrow> nat \<Rightarrow> collected" where
  "collectRequired rw n prefix st depth = collect_levels (13 - depth) rw n prefix st"

definition bodySchema :: "(string \<Rightarrow> string) \<Rightarrow> raw_spec \<Rightarrow> yaml_node \<Rightarrow> go_error + yaml_node option" where
  "bodySchema quote rw body0 =
     (let ref = scalarChild body0 ''$ref'' in
      case (if ref \<noteq> [] then map_of (RequestBodies rw) (trim_prefix ref ''#/components/requestBodies/'') else Some body0) of
        None \<Rightarrow> Inl (ErrorString (''$ref '' @ quote ref @ '': requestBody not found in components''))
      | Some body \<Rightarrow>
          (case mappingChild body ''content'' of
             None \<Rightarrow> Inr None
           | Some content \<Rightarrow>
               (case mappingChild content ''application/json'' of
                  None \<Rightarrow> Inr None
                | Some appJSON \<Rightarrow> Inr (mappingChild appJSON ''schema''))))"

text \<open>One required parameter: which list it is added to.\<close>

definition add_parameter :: "yaml_node \<Rightarrow> string list \<times> string list \<Rightarrow> string list \<times> string list" where
  "add_parameter p qh =
     (let loc = scalarChild p ''in''; req = scalarChild p ''required''; name = scalarChild p ''name'' in
      if req \<noteq> ''true'' \<or> name = [] then qh
      else if loc = ''query'' then (fst qh @ [name], snd qh)
      else if loc = ''header'' \<and> name \<noteq> ''Authorization'' then (fst qh, snd qh @ [name])
      else qh)"

definition parseOperation ::
  "(string \<Rightarrow> string) \<Rightarrow> raw_spec \<Rightarrow> string \<Rightarrow> string \<Rightarrow> yaml_node \<Rightarrow> go_error + operation" where
  "parseOperation quote rw m path opNode =
     (let (query, hdr) = (case mappingChild opNode ''parameters'' of
            None \<Rightarrow> ([], [])
          | Some params \<Rightarrow> fold add_parameter (Content params) ([], [])) in
      case (case mappingChild opNode ''requestBody'' of
              None \<Rightarrow> Inr None
            | Some body \<Rightarrow> bodySchema quote rw body) of
        Inl err \<Rightarrow> Inl (WrapError ''requestBody: '' err [])
      | Inr schema \<Rightarrow>
          let body = (case schema of None \<Rightarrow> [] | Some n \<Rightarrow> fst (collectRequired rw n [] ([], {}) 0)) in
          Inr \<lparr>op_Method = m, op_Path = path, RequiredBody = stableSort body, RequiredQuery = stableSort query,
               RequiredHeader = stableSort hdr\<rparr>)"

fun walk_methods ::
  "(string \<Rightarrow> string) \<Rightarrow> raw_spec \<Rightarrow> string \<Rightarrow> (string \<times> yaml_node) list \<Rightarrow> (string \<times> operation) list \<Rightarrow>
   go_error + (string \<times> operation) list" where
  "walk_methods quote rw path [] ops = Inr ops"
| "walk_methods quote rw path ((name, opNode) # rest) ops =
     (let m = map to_upper name in
      if m \<in> set [''GET'', ''POST'', ''PUT'', ''DELETE'', ''PATCH''] then
        (case parseOperation quote rw m path opNode of
           Inl err \<Rightarrow> Inl (WrapError (m @ '' '' @ path @ '': '') err [])
         | Inr op \<Rightarrow> walk_methods quote rw path rest (AList.update (OpKey m path) op ops))
      else walk_methods quote rw path rest ops)"

fun walk ::
  "(string \<Rightarrow> string) \<Rightarrow> raw_spec \<Rightarrow> (string \<times> yaml_node) list \<Rightarrow> (string \<times> operation) list \<Rightarrow>
   go_error + (string \<times> operation) list" where
  "walk quote rw [] ops = Inr ops"
| "walk quote rw ((path, n) # rest) ops =
     (if Kind n \<noteq> MappingNode then walk quote rw rest ops
      else rbind (walk_methods quote rw path (pairs (Content n)) ops) (walk quote rw rest))"

section \<open>Loading\<close>

definition Load ::
  "(string \<Rightarrow> string) \<Rightarrow> (string \<Rightarrow> go_error + string) \<Rightarrow> (string \<Rightarrow> go_error + bytes) \<Rightarrow> (bytes \<Rightarrow> go_error + raw_spec) \<Rightarrow>
   string \<Rightarrow> go_error + spec" where
  "Load quote absPath readFile unmarshal path =
     (case absPath path of
        Inl err \<Rightarrow> Inl (WrapError (''specserver: resolve '' @ quote path @ '': '') err [])
      | Inr pa \<Rightarrow>
          (case readFile pa of
             Inl err \<Rightarrow> Inl (WrapError (''specserver: read '' @ quote pa @ '': '') err [])
           | Inr data \<Rightarrow>
               (case unmarshal data of
                  Inl err \<Rightarrow> Inl (WrapError (''specserver: parse '' @ quote pa @ '': '') err [])
                | Inr rw \<Rightarrow>
                    if Paths rw = [] then
                      Inl (ErrorString (''specserver: '' @ quote pa @ '': no paths section (not an OpenAPI document?)''))
                    else case walk quote rw (Paths rw) [] of
                      Inl err \<Rightarrow> Inl (WrapError (''specserver: walk '' @ quote pa @ '': '') err [])
                    | Inr ops \<Rightarrow> Inr \<lparr>spec_Path = pa, Operations = ops, raw = rw\<rparr>)))"

definition pinned_name :: "string \<times> bool \<Rightarrow> bool" where
  "pinned_name e \<longleftrightarrow> \<not> snd e \<and> has_prefix (fst e) ''swagger-'' \<and> (has_suffix (fst e) ''.yaml'' \<or> has_suffix (fst e) ''.yml'')"

text \<open>A directory entry is its name and whether it is a directory.\<close>

fun pick_pinned :: "(string \<Rightarrow> string) \<Rightarrow> string \<Rightarrow> string \<Rightarrow> (string \<times> bool) list \<Rightarrow> go_error + string" where
  "pick_pinned quote dir pinned [] =
     (if pinned = [] then Inl (ErrorString (''specserver: no pinned swagger-*.yaml in '' @ quote dir)) else Inr pinned)"
| "pick_pinned quote dir pinned (e # es) =
     (if pinned_name e then
        (if pinned \<noteq> [] then Inl (ErrorString (''specserver: multiple pinned swagger files in '' @ quote dir @ '' (have '' @
             quote pinned @ '' and '' @ quote (fst e) @ ''); ship exactly one''))
         else pick_pinned quote dir (fst e) es)
      else pick_pinned quote dir pinned es)"

definition LoadDefault ::
  "(string \<Rightarrow> string) \<Rightarrow> go_error + string \<Rightarrow> (string \<Rightarrow> go_error + (string \<times> bool) list) \<Rightarrow> (string \<Rightarrow> string \<Rightarrow> string) \<Rightarrow>
   (string \<Rightarrow> go_error + spec) \<Rightarrow> go_error + spec" where
  "LoadDefault quote testdataDir readDir join load =
     rbind testdataDir (\<lambda>dir.
       case readDir dir of
         Inl err \<Rightarrow> Inl (WrapError (''specserver: read testdata dir '' @ quote dir @ '': '') err [])
       | Inr entries \<Rightarrow> rbind (pick_pinned quote dir [] entries) (\<lambda>pinned. load (join dir pinned)))"

definition PinnedPath ::
  "(string \<Rightarrow> string) \<Rightarrow> go_error + string \<Rightarrow> (string \<Rightarrow> go_error + (string \<times> bool) list) \<Rightarrow> (string \<Rightarrow> string \<Rightarrow> string) \<Rightarrow>
   go_error + string" where
  "PinnedPath quote testdataDir readDir join =
     rbind testdataDir (\<lambda>dir.
       case readDir dir of
         Inl err \<Rightarrow> Inl (WrapError (''specserver: read testdata dir '' @ quote dir @ '': '') err [])
       | Inr entries \<Rightarrow>
           (case filter pinned_name entries of
              [] \<Rightarrow> Inl (ErrorString (''specserver: no pinned swagger-*.yaml in '' @ quote dir))
            | e # _ \<Rightarrow> Inr (join dir (fst e))))"

section \<open>The sort\<close>

lemma mset_sift_down: "j < length s \<Longrightarrow> mset (sift_down j s) = mset s"
proof (induction j s rule: sift_down.induct)
  case (2 j s)
  then show ?case using mset_swap [of "Suc j" s j] by auto
qed simp

text \<open>Everything up to i is in order, but for the element at j, which is not above those behind it.\<close>

definition in_order_but :: "nat \<Rightarrow> nat \<Rightarrow> string list \<Rightarrow> bool" where
  "in_order_but i j s \<longleftrightarrow> (\<forall>a b. a < b \<and> b \<le> i \<and> b \<noteq> j \<longrightarrow> s ! a \<le> s ! b)"

lemma in_order_but_swap:
  assumes "in_order_but i (Suc j) s" "Suc j \<le> i" "i < length s" "s ! j > s ! Suc j"
  shows "in_order_but i j (s[j := s ! Suc j, Suc j := s ! j])"
  unfolding in_order_but_def
proof (intro allI impI)
  fix a b
  assume ab: "a < b \<and> b \<le> i \<and> b \<noteq> j"
  have ord: "s ! x \<le> s ! y" if "x < y" "y \<le> i" "y \<noteq> Suc j" for x y
    using assms(1) that by (simp add: in_order_but_def)
  show "s[j := s ! Suc j, Suc j := s ! j] ! a \<le> s[j := s ! Suc j, Suc j := s ! j] ! b"
  proof (cases "b = Suc j")
    case True
    then show ?thesis using ab assms(3,4) ord [of a j] by (cases "a = j") auto
  next
    case False
    then show ?thesis using ab assms(2,3) ord [of a b] ord [of j b] ord [of "Suc j" b] by (cases "a = j"; cases "a = Suc j") auto
  qed
qed

lemma sift_down_sorted:
  "in_order_but i j s \<Longrightarrow> j \<le> i \<Longrightarrow> i < length s \<Longrightarrow> a < b \<Longrightarrow> b \<le> i \<Longrightarrow> sift_down j s ! a \<le> sift_down j s ! b"
proof (induction j s rule: sift_down.induct)
  case (1 s)
  then show ?case by (auto simp: in_order_but_def)
next
  case (2 j s)
  show ?case
  proof (cases "s ! j > s ! Suc j")
    case True
    then show ?thesis using 2 in_order_but_swap [OF 2(2) 2(3) 2(4) True] by auto
  next
    case False
    have "s ! a \<le> s ! b"
    proof (cases "b = Suc j")
      case True
      have "s ! a \<le> s ! j" if "a < j" using 2(2,3) that unfolding in_order_but_def by (meson Suc_leD n_not_Suc_n order.strict_implies_not_eq)
      then show ?thesis using True False 2(5) by (cases "a = j") auto
    qed (use 2 in \<open>auto simp: in_order_but_def\<close>)
    then show ?thesis using False by simp
  qed
qed

lemma sort_from_sorted:
  "(\<forall>a b. a < b \<and> b < i \<longrightarrow> s ! a \<le> s ! b) \<Longrightarrow> i \<le> length s \<Longrightarrow> sorted (sort_from i s) \<and> mset (sort_from i s) = mset s"
proof (induction i s rule: sort_from.induct)
  case (1 i s)
  show ?case
  proof (cases "i < length s")
    case True
    have "in_order_but i i s" using 1(2) by (auto simp: in_order_but_def)
    then have "\<forall>a b. a < b \<and> b < Suc i \<longrightarrow> sift_down i s ! a \<le> sift_down i s ! b"
      using sift_down_sorted True by (simp add: less_Suc_eq_le)
    then show ?thesis using 1(1) [OF True] True mset_sift_down [OF True] by (simp add: sort_from.simps [of i s])
  next
    case False
    then have "sorted s" using 1(2,3) by (auto simp: sorted_iff_nth_mono_less)
    then show ?thesis using False by (simp add: sort_from.simps [of i s])
  qed
qed

lemma stableSort_eq: "stableSort s = sort s"
proof (cases "s = []")
  case False
  then have "sorted (stableSort s) \<and> mset (stableSort s) = mset s"
    unfolding stableSort_def by (intro sort_from_sorted) (auto simp: Suc_le_eq)
  then show ?thesis by (metis properties_for_sort)
qed (simp add: stableSort_def sort_from.simps)

section \<open>The required fields of a schema\<close>

text \<open>
  What an OpenAPI schema requires, as a set: the names of its required list, what every branch of
  oneOf or anyOf requires, what any branch of allOf, any property and the items of an array require.
\<close>

fun required_set :: "nat \<Rightarrow> raw_spec \<Rightarrow> yaml_node \<Rightarrow> string \<Rightarrow> string set" where
  "required_set 0 rw n0 prefix = {}"
| "required_set (Suc left) rw n0 prefix =
     (case (if scalarChild n0 ''$ref'' \<noteq> [] then resolveRef rw (scalarChild n0 ''$ref'') else Some n0) of
        None \<Rightarrow> {}
      | Some n \<Rightarrow>
          {p. seq_items (firstMappingChild n [''oneOf'', ''anyOf'']) \<noteq> [] \<and>
              (\<forall>child \<in> set (seq_items (firstMappingChild n [''oneOf'', ''anyOf''])). p \<in> required_set left rw child prefix)} \<union>
          (\<Union>child \<in> set (seq_items (mappingChild n ''allOf'')). required_set left rw child prefix) \<union>
          (\<lambda>r. joinPath prefix (Value r)) ` set (seq_items (mappingChild n ''required'')) \<union>
          (\<Union>(name, child) \<in> set (map_items (mappingChild n ''properties'')). required_set left rw child (joinPath prefix name)) \<union>
          (if scalarChild n ''type'' = ''array'' then
             (case mappingChild n ''items'' of Some items \<Rightarrow> required_set left rw items (prefix @ ''[]'') | None \<Rightarrow> {})
           else {}))"

definition collected_ok :: "collected \<Rightarrow> bool" where
  "collected_ok st \<longleftrightarrow> distinct (fst st) \<and> set (fst st) = snd st"

lemma add_path_ok: "collected_ok st \<Longrightarrow> collected_ok (add_path p st) \<and> snd (add_path p st) = insert p (snd st)"
  by (cases st) (auto simp: collected_ok_def)

lemma fold_collected:
  assumes "\<And>x st. x \<in> set xs \<Longrightarrow> collected_ok st \<Longrightarrow> collected_ok (f x st) \<and> snd (f x st) = snd st \<union> g x" "collected_ok st"
  shows "collected_ok (fold f xs st) \<and> snd (fold f xs st) = snd st \<union> (\<Union>x \<in> set xs. g x)"
  using assms
proof (induction xs arbitrary: st)
  case (Cons x xs)
  then have "collected_ok (f x st) \<and> snd (f x st) = snd st \<union> g x" by simp
  then show ?case using Cons.IH [of "f x st"] Cons.prems(1) by auto
qed simp

lemma common_paths_set: "set (common_paths bs) = {p. bs \<noteq> [] \<and> (\<forall>b \<in> set bs. p \<in> set b)}"
proof (cases bs)
  case (Cons b bs')
  have "set (foldl intersectPaths b bs') = {p. p \<in> set b \<and> (\<forall>c \<in> set bs'. p \<in> set c)}" for b
    by (induction bs' arbitrary: b) (auto simp: intersectPaths_def)
  then show ?thesis using Cons by auto
qed simp

lemma collect_levels_set:
  "collected_ok st \<Longrightarrow> collected_ok (collect_levels left rw n0 prefix st) \<and>
     snd (collect_levels left rw n0 prefix st) = snd st \<union> required_set left rw n0 prefix"
proof (induction left arbitrary: n0 prefix st)
  case (Suc left)
  let ?r = "if scalarChild n0 ''$ref'' \<noteq> [] then resolveRef rw (scalarChild n0 ''$ref'') else Some n0"
  show ?case
  proof (cases ?r)
    case None
    then show ?thesis using Suc.prems by (simp only: collect_levels.simps required_set.simps option.simps) simp
  next
    case (Some n)
    let ?one = "seq_items (firstMappingChild n [''oneOf'', ''anyOf''])"
    define inter where "inter = common_paths (map (\<lambda>child. fst (collect_levels left rw child prefix ([], {}))) ?one)"
    have e: "collected_ok ([], {})" by (simp add: collected_ok_def)
    have br: "set (fst (collect_levels left rw child prefix ([], {}))) = required_set left rw child prefix" for child
      using Suc.IH [OF e, of child prefix] by (simp add: collected_ok_def)
    define st1 where "st1 = fold add_path inter st"
    define st2 where "st2 = fold (\<lambda>child st. collect_levels left rw child prefix st) (seq_items (mappingChild n ''allOf'')) st1"
    define st3 where "st3 = fold (\<lambda>r st. add_path (joinPath prefix (Value r)) st) (seq_items (mappingChild n ''required'')) st2"
    define st4 where "st4 = fold (\<lambda>(name, child) st. collect_levels left rw child (joinPath prefix name) st)
      (map_items (mappingChild n ''properties'')) st3"
    have 1: "collected_ok st1 \<and> snd st1 = snd st \<union> (\<Union>p \<in> set inter. {p})"
      unfolding st1_def using add_path_ok Suc.prems by (intro fold_collected) auto
    have 2: "collected_ok st2 \<and> snd st2 = snd st1 \<union> (\<Union>child \<in> set (seq_items (mappingChild n ''allOf'')). required_set left rw child prefix)"
      unfolding st2_def using Suc.IH 1 by (intro fold_collected) auto
    have 3: "collected_ok st3 \<and> snd st3 = snd st2 \<union> (\<Union>r \<in> set (seq_items (mappingChild n ''required'')). {joinPath prefix (Value r)})"
      unfolding st3_def using add_path_ok 2 by (intro fold_collected) auto
    have 4: "collected_ok st4 \<and> snd st4 = snd st3 \<union> (\<Union>nc \<in> set (map_items (mappingChild n ''properties'')).
        required_set left rw (snd nc) (joinPath prefix (fst nc)))"
      unfolding st4_def split_def using Suc.IH 3 by (intro fold_collected) auto
    have 5: "collected_ok (collect_levels left rw items p st4) \<and>
        snd (collect_levels left rw items p st4) = snd st4 \<union> required_set left rw items p" for items p
      using Suc.IH 4 by blast
    have col: "collect_levels (Suc left) rw n0 prefix st = (if scalarChild n ''type'' = ''array'' then
               (case mappingChild n ''items'' of
                  Some items \<Rightarrow> collect_levels left rw items (prefix @ ''[]'') st4 | None \<Rightarrow> st4) else st4)"
      unfolding collect_levels.simps Some option.simps Let_def st4_def st3_def st2_def st1_def inter_def by simp
    define A where "A = {p. ?one \<noteq> [] \<and> (\<forall>child \<in> set ?one. p \<in> required_set left rw child prefix)}"
    define B where "B = (\<Union>child \<in> set (seq_items (mappingChild n ''allOf'')). required_set left rw child prefix)"
    define C where "C = (\<lambda>r. joinPath prefix (Value r)) ` set (seq_items (mappingChild n ''required''))"
    define D where "D = (\<Union>(name, child) \<in> set (map_items (mappingChild n ''properties'')). required_set left rw child (joinPath prefix name))"
    define E where "E = (if scalarChild n ''type'' = ''array'' then
             (case mappingChild n ''items'' of Some items \<Rightarrow> required_set left rw items (prefix @ ''[]'') | None \<Rightarrow> {}) else {})"
    have req: "required_set (Suc left) rw n0 prefix = A \<union> B \<union> C \<union> D \<union> E"
      unfolding required_set.simps Some option.case A_def B_def C_def D_def E_def ..
    have "(\<Union>p \<in> set inter. {p}) = A" using br by (simp add: inter_def common_paths_set A_def)
    moreover have "(\<Union>r \<in> set (seq_items (mappingChild n ''required'')). {joinPath prefix (Value r)}) = C" by (auto simp: C_def)
    moreover have "(\<Union>nc \<in> set (map_items (mappingChild n ''properties'')). required_set left rw (snd nc) (joinPath prefix (fst nc))) = D"
      by (simp add: D_def split_def)
    ultimately have "snd st4 = snd st \<union> A \<union> B \<union> C \<union> D" using 1 2 3 4 B_def by simp
    then have "collected_ok (collect_levels (Suc left) rw n0 prefix st) \<and>
        snd (collect_levels (Suc left) rw n0 prefix st) = snd st \<union> A \<union> B \<union> C \<union> D \<union> E"
      unfolding col E_def using 4 5 [of _ "prefix @ ''[]''"] by (cases "mappingChild n ''items''") simp_all
    then show ?thesis unfolding req by (simp add: Un_assoc)
  qed
qed simp

section \<open>Presence\<close>

text \<open>The nodes of a document that a field path leads to: through every element of an array, and only through what is there.\<close>

inductive reaches :: "json \<Rightarrow> string list \<Rightarrow> json \<Rightarrow> bool" where
  here: "reaches d [] d"
| element: "has_suffix seg ''[]'' \<Longrightarrow> childOf d (trim_suffix seg ''[]'') = JArray arr \<Longrightarrow> e \<in> set arr \<Longrightarrow>
    reaches e segs x \<Longrightarrow> reaches d (seg # segs) x"
| property: "\<not> has_suffix seg ''[]'' \<Longrightarrow> childOf d seg \<noteq> JNull \<Longrightarrow> reaches (childOf d seg) segs x \<Longrightarrow> reaches d (seg # segs) x"

inductive_simps reaches_Nil [simp]: "reaches d [] x"
inductive_simps reaches_Cons: "reaches d (seg # segs) x"

lemma first_missing_Nil: "first_missing ms = [] \<longleftrightarrow> (\<forall>m \<in> set ms. m = [])"
  by (induction ms rule: first_missing.induct) auto

lemma descend_array:
  "has_suffix seg ''[]'' \<Longrightarrow> descend d (seg # segs) r = [] \<longleftrightarrow>
     (\<forall>arr. childOf d (trim_suffix seg ''[]'') = JArray arr \<longrightarrow> (\<forall>i < length arr.
        descend (arr ! i) segs (joinRendered (joinRendered r (trim_suffix seg ''[]'')) (''['' @ itoa (int i) @ '']'')) = []))"
  by (auto simp: Let_def first_missing_Nil set_zip split: json.split) (metis add_0 nth_upt)

lemma joinRendered_Nil [simp]: "seg \<noteq> [] \<Longrightarrow> joinRendered r seg \<noteq> []"
  by (simp add: joinRendered_def)

lemma descend_Nil_iff:
  assumes "f \<noteq> []" "\<not> has_suffix f ''[]''"
  shows "descend d (ps @ [f]) r = [] \<longleftrightarrow> (\<forall>x. reaches d ps x \<longrightarrow> childOf x f \<noteq> JNull)"
proof (induction ps arbitrary: d r)
  case Nil
  then show ?case using assms by (simp add: Let_def)
next
  case (Cons p ps)
  show ?case
  proof (cases "has_suffix p ''[]''")
    case True
    show ?thesis unfolding append_Cons descend_array [OF True] Cons.IH
      using True by (auto simp: reaches_Cons in_set_conv_nth)
  next
    case False
    then show ?thesis using Cons.IH [of "childOf d p"] by (simp add: Let_def reaches_Cons)
  qed
qed

lemma split_on_nonempty: "split_on c s \<noteq> []"
  by (induction s) (auto split: list.split)

section \<open>Properties\<close>

text \<open>C22. The presence check means what the OpenAPI required lists mean: a body passes exactly when, for every required
  path, each object the path's parent leads to, through every element of every array on the way and
  only through properties that are there, has the last field with a value other than null.\<close>
theorem ValidateBody_iff:
  assumes "unmarshal body = Inr doc"
    and "\<And>p. p \<in> set required \<Longrightarrow> p \<noteq> [] \<and> last (splitPath p) \<noteq> [] \<and> \<not> has_suffix (last (splitPath p)) ''[]''"
  shows "ValidateBody unmarshal body required = Inr [] \<longleftrightarrow>
    (\<forall>p \<in> set required. \<forall>x. reaches doc (butlast (splitPath p)) x \<longrightarrow> childOf x (last (splitPath p)) \<noteq> JNull)"
proof -
  have "findMissing doc p = [] \<longleftrightarrow> (\<forall>x. reaches doc (butlast (splitPath p)) x \<longrightarrow> childOf x (last (splitPath p)) \<noteq> JNull)"
    if "p \<in> set required" for p
  proof -
    have "splitPath p = butlast (splitPath p) @ [last (splitPath p)]"
      using assms(2) [OF that] split_on_nonempty by (simp add: splitPath_def)
    then show ?thesis using descend_Nil_iff assms(2) [OF that] unfolding findMissing_def by metis
  qed
  then show ?thesis using assms(1) by (cases "required = []") (auto simp: ValidateBody_def first_missing_Nil)
qed

text \<open>The names of the required parameters a document declares in one location, in its order and with
  its repetitions.\<close>

definition declared_parameters :: "string \<Rightarrow> yaml_node \<Rightarrow> string list" where
  "declared_parameters loc opNode =
     map (\<lambda>p. scalarChild p ''name'')
       (filter (\<lambda>p. scalarChild p ''in'' = loc \<and> scalarChild p ''required'' = ''true'' \<and> scalarChild p ''name'' \<noteq> [])
         (case mappingChild opNode ''parameters'' of None \<Rightarrow> [] | Some params \<Rightarrow> Content params))"

lemma fold_add_parameter:
  "fold add_parameter ps qh =
     (fst qh @ map (\<lambda>p. scalarChild p ''name'')
        (filter (\<lambda>p. scalarChild p ''in'' = ''query'' \<and> scalarChild p ''required'' = ''true'' \<and> scalarChild p ''name'' \<noteq> []) ps),
      snd qh @ filter (\<lambda>n. n \<noteq> ''Authorization'') (map (\<lambda>p. scalarChild p ''name'')
        (filter (\<lambda>p. scalarChild p ''in'' = ''header'' \<and> scalarChild p ''required'' = ''true'' \<and> scalarChild p ''name'' \<noteq> []) ps)))"
  by (induction ps arbitrary: qh) (auto simp: add_parameter_def Let_def)

lemma parameters_declared:
  "(case mappingChild opNode ''parameters'' of None \<Rightarrow> ([], []) | Some params \<Rightarrow> fold add_parameter (Content params) ([], [])) =
     (declared_parameters ''query'' opNode, filter (\<lambda>n. n \<noteq> ''Authorization'') (declared_parameters ''header'' opNode))"
  by (simp add: declared_parameters_def fold_add_parameter split: option.split)

lemma parseOperation_Inr:
  assumes "parseOperation quote rw m path opNode = Inr op"
  shows "op_Method op = m \<and> op_Path op = path \<and>
    RequiredQuery op = sort (declared_parameters ''query'' opNode) \<and>
    RequiredHeader op = sort (filter (\<lambda>n. n \<noteq> ''Authorization'') (declared_parameters ''header'' opNode)) \<and>
    (\<exists>schema. (case mappingChild opNode ''requestBody'' of None \<Rightarrow> Inr None | Some body \<Rightarrow> bodySchema quote rw body) = Inr schema \<and>
      RequiredBody op = sort (case schema of None \<Rightarrow> [] | Some n \<Rightarrow> fst (collectRequired rw n [] ([], {}) 0)))"
  using assms unfolding parseOperation_def parameters_declared
  by (auto simp: Let_def stableSort_eq split: sum.splits)

text \<open>C23. The walker computes the required lists the document defines.  The body fields of an operation,
  sorted and each once, are exactly the fields its schema requires, down to the twelve levels the
  walker follows, with the fields of a oneOf or anyOf only where every branch requires them; the
  recursion ends on any document, self-referential ones included.  The query and header lists are
  the sorted names of exactly the parameters written in the operation with in: query or in: header,
  required: true and a name, as often as they are listed; the signature header Authorization is left
  out.  A parameter given by $ref has no name of its own and is not followed.\<close>
theorem parseOperation_required:
  assumes "parseOperation quote rw m path opNode = Inr op"
  shows "sorted (RequiredBody op) \<and> distinct (RequiredBody op) \<and>
    set (RequiredBody op) = (case mappingChild opNode ''requestBody'' of
        None \<Rightarrow> {}
      | Some body \<Rightarrow> (case bodySchema quote rw body of Inr (Some schema) \<Rightarrow> required_set 13 rw schema [] | _ \<Rightarrow> {})) \<and>
    sorted (RequiredQuery op) \<and> mset (RequiredQuery op) = mset (declared_parameters ''query'' opNode) \<and>
    sorted (RequiredHeader op) \<and>
    mset (RequiredHeader op) = filter_mset (\<lambda>n. n \<noteq> ''Authorization'') (mset (declared_parameters ''header'' opNode)) \<and>
    ''Authorization'' \<notin> set (RequiredHeader op)"
proof -
  have c: "distinct (fst (collectRequired rw n [] ([], {}) 0)) \<and> set (fst (collectRequired rw n [] ([], {}) 0)) = required_set 13 rw n []" for n
    using collect_levels_set [of "([], {})" 13 rw n "[]"] by (simp add: collectRequired_def collected_ok_def)
  obtain schema where
    s: "(case mappingChild opNode ''requestBody'' of None \<Rightarrow> Inr None | Some body \<Rightarrow> bodySchema quote rw body) = Inr schema"
    and b: "RequiredBody op = sort (case schema of None \<Rightarrow> [] | Some n \<Rightarrow> fst (collectRequired rw n [] ([], {}) 0))"
    using parseOperation_Inr [OF assms] by blast
  have "set (RequiredBody op) = (case mappingChild opNode ''requestBody'' of None \<Rightarrow> {}
      | Some body \<Rightarrow> (case bodySchema quote rw body of Inr (Some schema) \<Rightarrow> required_set 13 rw schema [] | _ \<Rightarrow> {}))"
    using s c unfolding b set_sort by (cases schema) (simp_all split: option.splits)
  moreover have "sorted (RequiredBody op)" "distinct (RequiredBody op)"
    using c unfolding b by (simp_all split: option.split)
  ultimately show ?thesis using parseOperation_Inr [OF assms] by (auto simp: mset_filter)
qed

definition y_scalar :: "string \<Rightarrow> yaml_node" where "y_scalar v = YNode ScalarNode v []"
definition y_map :: "(string \<times> yaml_node) list \<Rightarrow> yaml_node" where
  "y_map kvs = YNode MappingNode [] (concat (map (\<lambda>(k, v). [y_scalar k, v]) kvs))"
definition y_seq :: "yaml_node list \<Rightarrow> yaml_node" where "y_seq ns = YNode SequenceNode [] ns"

definition sample_schema :: yaml_node where
  "sample_schema = y_map [(''required'', y_seq [y_scalar ''id'']),
     (''oneOf'', y_seq [y_map [(''required'', y_seq [y_scalar ''a'', y_scalar ''b''])], y_map [(''required'', y_seq [y_scalar ''b''])]])]"

definition sample_op_node :: yaml_node where
  "sample_op_node = y_map
     [(''parameters'', y_seq
        [y_map [(''name'', y_scalar ''userId''), (''in'', y_scalar ''query''), (''required'', y_scalar ''true'')],
         y_map [(''name'', y_scalar ''page''), (''in'', y_scalar ''query'')],
         y_map [(''name'', y_scalar ''Authorization''), (''in'', y_scalar ''header''), (''required'', y_scalar ''true'')],
         y_map [(''name'', y_scalar ''Encrypt''), (''in'', y_scalar ''header''), (''required'', y_scalar ''true'')]]),
      (''requestBody'', y_map [(''content'', y_map [(''application/json'', y_map [(''schema'', sample_schema)])])])]"

text \<open>The field b is required by both branches, the field a by one of them only.\<close>

lemma sample_schema_nodes:
  "mappingChild sample_schema ''required'' = Some (y_seq [y_scalar ''id''])"
  "firstMappingChild sample_schema [''oneOf'', ''anyOf''] =
     Some (y_seq [y_map [(''required'', y_seq (map y_scalar [''a'', ''b'']))], y_map [(''required'', y_seq (map y_scalar [''b'']))]])"
  "mappingChild sample_schema ''allOf'' = None" "mappingChild sample_schema ''properties'' = None"
  "scalarChild sample_schema ''$ref'' = []" "scalarChild sample_schema ''type'' = []"
  by (simp_all add: sample_schema_def mappingChild_def scalarChild_def y_map_def y_scalar_def y_seq_def)

lemma required_set_flat:
  assumes "scalarChild n ''$ref'' = []" "scalarChild n ''type'' = []" "mappingChild n ''allOf'' = None" "mappingChild n ''properties'' = None"
  shows "required_set (Suc k) rw n [] = {p. seq_items (firstMappingChild n [''oneOf'', ''anyOf'']) \<noteq> [] \<and>
      (\<forall>child \<in> set (seq_items (firstMappingChild n [''oneOf'', ''anyOf''])). p \<in> required_set k rw child [])} \<union>
    Value ` set (seq_items (mappingChild n ''required''))"
proof -
  have "seq_items None = []" "map_items None = []" by (simp_all add: seq_items_def map_items_def)
  then show ?thesis unfolding required_set.simps by (simp del: firstMappingChild.simps add: joinPath_def assms)
qed

lemma required_list:
  "required_set (Suc k) rw (y_map [(''required'', y_seq (map y_scalar fs))]) [] = set fs"
proof -
  let ?n = "y_map [(''required'', y_seq (map y_scalar fs))]"
  have n: "mappingChild ?n ''required'' = Some (y_seq (map y_scalar fs))" "mappingChild ?n ''oneOf'' = None"
    "mappingChild ?n ''anyOf'' = None"
    by (simp_all add: mappingChild_def y_map_def y_scalar_def)
  have "required_set (Suc k) rw ?n [] = Value ` set (seq_items (mappingChild ?n ''required''))"
    by (subst required_set_flat)
      (simp_all add: n mappingChild_def scalarChild_def y_map_def y_scalar_def seq_items_def)
  then show ?thesis by (simp only: n seq_items_def) (simp add: y_seq_def y_scalar_def image_image)
qed

lemma sample_required: "required_set (Suc (Suc k)) rw sample_schema [] = {''b'', ''id''}"
proof -
  have s: "seq_items (firstMappingChild sample_schema [''oneOf'', ''anyOf'']) =
      [y_map [(''required'', y_seq (map y_scalar [''a'', ''b'']))], y_map [(''required'', y_seq (map y_scalar [''b'']))]]"
    "seq_items (mappingChild sample_schema ''required'') = [y_scalar ''id'']"
    unfolding sample_schema_nodes by (simp_all add: seq_items_def y_seq_def)
  have "required_set (Suc (Suc k)) rw sample_schema [] = {p. p \<in> set [''a'', ''b''] \<and> p \<in> set [''b'']} \<union> Value ` {y_scalar ''id''}"
    unfolding required_set_flat [OF sample_schema_nodes(5,6,3,4)] s using required_list [of k rw] by (simp del: required_set.simps list.map)
  then show ?thesis by (auto simp: y_scalar_def)
qed

lemma sample_op_parameters:
  "declared_parameters ''query'' sample_op_node = [''userId'']"
  "declared_parameters ''header'' sample_op_node = [''Authorization'', ''Encrypt'']"
  by (simp_all add: declared_parameters_def sample_op_node_def mappingChild_def scalarChild_def y_map_def y_scalar_def y_seq_def)

theorem parseOperation_required_witness:
  "\<exists>op. parseOperation id \<lparr>Paths = [], RequestBodies = [], Schemas = []\<rparr> ''POST'' ''/x'' sample_op_node = Inr op \<and>
     set (RequiredBody op) = {''b'', ''id''} \<and> set (RequiredQuery op) = {''userId''} \<and> set (RequiredHeader op) = {''Encrypt''}"
proof -
  define rw where "rw = \<lparr>Paths = [], RequestBodies = [], Schemas = []\<rparr>"
  obtain body where b: "mappingChild sample_op_node ''requestBody'' = Some body" "bodySchema id rw body = Inr (Some sample_schema)"
    by (simp add: sample_op_node_def mappingChild_def scalarChild_def bodySchema_def y_map_def y_scalar_def)
  obtain op where p: "parseOperation id rw ''POST'' ''/x'' sample_op_node = Inr op"
    by (simp add: parseOperation_def b case_prod_beta)
  have thirteen: "(13 :: nat) = Suc (Suc 11)" by simp
  have "required_set 13 rw sample_schema [] = {''b'', ''id''}" unfolding thirteen by (rule sample_required)
  then have "set (RequiredBody op) = {''b'', ''id''}"
    using parseOperation_required [OF p] b by (simp only: option.case sum.case)
  moreover have "set_mset (mset (RequiredQuery op)) = {''userId''}" "set_mset (mset (RequiredHeader op)) = {''Encrypt''}"
    using parseOperation_required [OF p] by (simp_all add: sample_op_parameters del: set_mset_mset)
  ultimately show ?thesis using p unfolding rw_def by auto
qed

theorem ValidateBody_iff_witness:
  "ValidateBody (\<lambda>b. Inr (JObject [(''items'', JArray [JObject [(''a'', JBool True)], JObject []])])) ''x'' [''items[].a''] \<noteq> Inr []"
proof -
  let ?doc = "JObject [(''items'', JArray [JObject [(''a'', JBool True)], JObject []])]"
  have sp: "splitPath ''items[].a'' = [''items[]'', ''a'']" by (simp add: splitPath_def)
  have r: "reaches ?doc [''items[]''] (JObject [])"
    by (rule reaches.element [where arr = "[JObject [(''a'', JBool True)], JObject []]" and e = "JObject []"])
      (simp_all add: has_suffix_def trim_suffix_def childOf_def)
  have "ValidateBody (\<lambda>b. Inr ?doc) ''x'' [''items[].a''] = Inr [] \<longleftrightarrow>
      (\<forall>p \<in> set [''items[].a'']. \<forall>x. reaches ?doc (butlast (splitPath p)) x \<longrightarrow> childOf x (last (splitPath p)) \<noteq> JNull)"
    by (rule ValidateBody_iff) (auto simp: sp has_suffix_def)
  then show ?thesis using r by (auto simp: sp childOf_def)
qed

end
