(* ===== verification/Mock_Server.thy ===== *)
theory Mock_Server
  imports Mock_Scenarios Mock_Cache Spec_Check Callback
begin

text \<open>
  atomefin/mock: the recording Transport, the Server with its options and its dispatch
  pipeline with the auto-callbacks.  What the pipeline takes
  from libraries, files and partner code is the record \<open>mock_env\<close>; what it does besides
  replying (reported failures, callbacks, sleeping) is a list of \<open>mock_effect\<close>s.  testing.TB's
  Fatalf ends the test, so the functions that may call it return the error instead.
\<close>

section \<open>transport.go\<close>

record recordedRequest =
  rec_Method :: string
  rec_Path :: string
  rec_Headers :: header
  rec_Query :: string
  rec_Body :: bytes

record transport =
  tr_scenario :: scenario
  tr_requests :: "recordedRequest list"
  tr_hits :: "(string \<times> int) list"

definition NewTransport :: "scenario option \<Rightarrow> go_error + transport" where
  "NewTransport sc =
     (case sc of
        None \<Rightarrow> Inl (ErrorString ''mock.NewTransport: nil Scenario'')
      | Some s \<Rightarrow> Inr \<lparr>tr_scenario = s, tr_requests = [], tr_hits = []\<rparr>)"

definition SetScenario :: "scenario option \<Rightarrow> transport \<Rightarrow> go_error + transport" where
  "SetScenario sc t =
     (case sc of
        None \<Rightarrow> Inl (ErrorString ''mock.Transport.SetScenario: nil Scenario'')
      | Some s \<Rightarrow> Inr (t\<lparr>tr_scenario := s\<rparr>))"

definition Hits :: "transport \<Rightarrow> string \<Rightarrow> int" where
  "Hits t op = (case map_of (tr_hits t) op of Some n \<Rightarrow> n | None \<Rightarrow> 0)"

definition Requests :: "transport \<Rightarrow> recordedRequest list" where
  "Requests t = tr_requests t"

definition Transport_Reset :: "transport \<Rightarrow> transport" where
  "Transport_Reset t = t\<lparr>tr_requests := [], tr_hits := []\<rparr>"

definition record_request :: "server_request \<Rightarrow> recordedRequest" where
  "record_request r = \<lparr>rec_Method = sr_method r, rec_Path = sr_path r, rec_Headers = sr_header r, rec_Query = sr_query r,
     rec_Body = sr_body r\<rparr>"

definition RoundTrip :: "transport \<Rightarrow> server_request \<Rightarrow> (go_error + http_response) \<times> transport" where
  "RoundTrip t r =
     (let op = sr_method r @ '' '' @ sr_path r in
      (Respond (tr_scenario t) r,
       t\<lparr>tr_requests := tr_requests t @ [record_request r], tr_hits := AList.update op (Hits t op + 1) (tr_hits t)\<rparr>))"

section \<open>server\_options.go\<close>

text \<open>A callback handler is known by its name; what it does is in the environment.\<close>

record serverConfig =
  specValidation :: bool
  idempotency :: bool
  idempotencyCacheSize :: int
  idempotencyDecryptPEM :: bytes
  autoCallbackHandlers :: "(string \<times> string) list"
  autoCallbackURL :: string
  autoCallbackDelay :: int
  autoCallbackSignerPEM :: bytes
  responseSigningKeyPEM :: bytes

definition zero_serverConfig :: serverConfig where
  "zero_serverConfig = \<lparr>specValidation = False, idempotency = False, idempotencyCacheSize = 0, idempotencyDecryptPEM = [],
     autoCallbackHandlers = [], autoCallbackURL = [], autoCallbackDelay = 0, autoCallbackSignerPEM = [], responseSigningKeyPEM = []\<rparr>"

type_synonym server_option = "serverConfig \<Rightarrow> serverConfig"

definition WithSpecValidation :: server_option where
  "WithSpecValidation c = c\<lparr>specValidation := True\<rparr>"

definition WithIdempotency :: server_option where
  "WithIdempotency c =
     (let c = c\<lparr>idempotency := True\<rparr> in if idempotencyCacheSize c = 0 then c\<lparr>idempotencyCacheSize := 1024\<rparr> else c)"

definition WithIdempotencyCacheSize :: "int \<Rightarrow> server_option" where
  "WithIdempotencyCacheSize n c = (if n > 0 then c\<lparr>idempotencyCacheSize := n\<rparr> else c)"

definition WithIdempotencyDecryptKey :: "bytes \<Rightarrow> server_option" where
  "WithIdempotencyDecryptKey pem c = c\<lparr>idempotencyDecryptPEM := pem\<rparr>"

definition upperASCII :: "string \<Rightarrow> string" where
  "upperASCII s = map (\<lambda>b. if code b \<ge> code (CHR ''a'') \<and> code b \<le> code (CHR ''z'')
     then char_of (code b - (code (CHR ''a'') - code (CHR ''A''))) else b) s"

definition normalizeOpKey :: "string \<Rightarrow> string" where
  "normalizeOpKey op =
     (case cut_at (CHR '' '') op of
        (before, after, True) \<Rightarrow> upperASCII before @ '' '' @ after
      | (before, after, False) \<Rightarrow> op)"

definition WithAutoCallback :: "(string \<times> string) list \<Rightarrow> server_option" where
  "WithAutoCallback handlerByOp c =
     c\<lparr>autoCallbackHandlers := fold (\<lambda>(k, h) out. AList.update (normalizeOpKey k) h out) handlerByOp []\<rparr>"

definition WithCallbackURL :: "string \<Rightarrow> server_option" where
  "WithCallbackURL url c = c\<lparr>autoCallbackURL := url\<rparr>"

definition WithCallbackDelay :: "int \<Rightarrow> server_option" where
  "WithCallbackDelay d c = c\<lparr>autoCallbackDelay := d\<rparr>"

definition WithAutoCallbackKey :: "bytes \<Rightarrow> server_option" where
  "WithAutoCallbackKey pem c = c\<lparr>autoCallbackSignerPEM := pem\<rparr>"

definition WithResponseSigning :: "bytes \<Rightarrow> server_option" where
  "WithResponseSigning pem c = c\<lparr>responseSigningKeyPEM := pem\<rparr>"

fun apply_server_options :: "server_option option list \<Rightarrow> serverConfig \<Rightarrow> serverConfig" where
  "apply_server_options [] c = c"
| "apply_server_options (None # os) c = apply_server_options os c"
| "apply_server_options (Some f # os) c = apply_server_options os (f c)"

section \<open>The server\<close>

record server =
  sv_transport :: transport
  sv_cfg :: serverConfig
  sv_idem :: "idempotencyCache option"

definition NewServer :: "scenario option \<Rightarrow> server_option option list \<Rightarrow> go_error + server" where
  "NewServer sc opts =
     (if sc = None then Inl (ErrorString ''mock.NewServer: nil Scenario'')
      else let cfg = apply_server_options opts zero_serverConfig in
        rbind (NewTransport sc) (\<lambda>tr.
          Inr \<lparr>sv_transport = tr, sv_cfg = cfg,
               sv_idem = (if idempotency cfg then Some (newIdempotencyCache (idempotencyCacheSize cfg)) else None)\<rparr>))"

definition Server_SetScenario :: "scenario option \<Rightarrow> server \<Rightarrow> go_error + server" where
  "Server_SetScenario sc s = rbind (SetScenario sc (sv_transport s)) (\<lambda>t. Inr (s\<lparr>sv_transport := t\<rparr>))"

definition Server_Hits :: "server \<Rightarrow> string \<Rightarrow> int" where
  "Server_Hits s op = Hits (sv_transport s) op"

definition Server_Requests :: "server \<Rightarrow> recordedRequest list" where
  "Server_Requests s = Requests (sv_transport s)"

definition Server_Reset :: "server \<Rightarrow> server" where
  "Server_Reset s = s\<lparr>sv_transport := Transport_Reset (sv_transport s), sv_idem := map_option cache_Reset (sv_idem s)\<rparr>"

text \<open>
  \<open>me_spec\<close> is LoadDefault's result, \<open>me_json\<close> and \<open>me_requestId\<close> json.Unmarshal into any and
  into the struct with a requestId, \<open>me_error_json\<close> the encoded error envelope, \<open>me_handler\<close> what
  a panicking handler panics with, \<open>me_post\<close> and \<open>me_request\<close> the errors of the network path.
\<close>

record mock_env =
  me_lib :: go_lib
  me_cipher :: block_cipher
  me_rsa_decrypt :: "rsa_key \<Rightarrow> bytes \<Rightarrow> go_error + bytes"
  me_spec :: "go_error + spec"
  me_json :: "bytes \<Rightarrow> go_error + json"
  me_requestId :: "bytes \<Rightarrow> go_error + string"
  me_error_json :: "string \<Rightarrow> string \<Rightarrow> bytes"
  me_quote :: "string \<Rightarrow> string"
  me_mock_priv :: bytes
  me_handler :: "string \<Rightarrow> server_request \<Rightarrow> string option"
  me_request :: "string \<Rightarrow> go_error option"
  me_post :: "string \<Rightarrow> server_request \<Rightarrow> go_error option"

datatype mock_effect =
    Reported string "go_error option"
  | Slept int
  | HandlerCalled string server_request
  | Posted string server_request

text \<open>signBodyWithPEM of sign\_helper.go.\<close>

definition signBodyWithPEM :: "go_lib \<Rightarrow> go_error option \<Rightarrow> bytes \<Rightarrow> bytes \<Rightarrow> go_error + string" where
  "signBodyWithPEM L ctx body pem =
     rbind (LoadPrivateKeyPEM (lib_x509 L) pem []) (\<lambda>k.
     rbind (NewRSA2Signer (lib_sha256 L) (lib_rsa_sign L) (Some k) []) (\<lambda>sg. Sign sg ctx body))"

section \<open>server\_dispatch.go\<close>

definition writeJSONErrorMock :: "mock_env \<Rightarrow> int \<Rightarrow> string \<Rightarrow> string \<Rightarrow> http_reply" where
  "writeJSONErrorMock M status err_code message =
     \<lparr>rp_status = status, rp_header = header_set ''Content-Type'' ''application/json; charset=utf-8'' [],
      rp_body = me_error_json M err_code message\<rparr>"

text \<open>http.Error of net/http.\<close>

definition http_Error :: "string \<Rightarrow> int \<Rightarrow> http_reply" where
  "http_Error msg status =
     \<lparr>rp_status = status, rp_header = header_set ''X-Content-Type-Options'' ''nosniff''
        (header_set ''Content-Type'' ''text/plain; charset=utf-8'' []), rp_body = msg @ [char_of (10 :: nat)]\<rparr>"

definition query_get :: "server_request \<Rightarrow> string \<Rightarrow> string" where
  "query_get r key = (case parsed_values (parse_query (sr_query r)) key of [] \<Rightarrow> [] | v # _ \<Rightarrow> v)"

fun missing_name :: "(string \<Rightarrow> string) \<Rightarrow> string list \<Rightarrow> string option" where
  "missing_name f [] = None"
| "missing_name f (n # ns) = (if f n = [] then Some n else missing_name f ns)"

text \<open>The reported effects, and the envelope of a refused request: status, code, message.\<close>

definition specValidate :: "mock_env \<Rightarrow> server_request \<Rightarrow> mock_effect list \<times> (int \<times> string \<times> string) option" where
  "specValidate M r =
     (case me_spec M of
        Inl err \<Rightarrow> ([Reported ''mock.Server: WithSpecValidation: load: '' (Some err)], None)
      | Inr sp \<Rightarrow>
          (case Spec_Op (Some sp) (sr_method r) (sr_path r) of
             None \<Rightarrow> ([], None)
           | Some op \<Rightarrow>
               (case missing_name (\<lambda>n. header_get n (sr_header r)) (RequiredHeader op) of
                  Some n \<Rightarrow> ([], Some (400, ''PARAMS_MISSING'', ''missing required header '' @ me_quote M n))
                | None \<Rightarrow>
                    if sr_method r = ''GET'' then
                      (case missing_name (query_get r) (RequiredQuery op) of
                         Some n \<Rightarrow> ([], Some (400, ''PARAMS_MISSING'', ''missing required query param '' @ me_quote M n))
                       | None \<Rightarrow> ([], None))
                    else if sr_method r = ''POST'' \<and> ''Encrypt'' \<notin> set (RequiredHeader op) then
                      (case ValidateBody (me_json M) (sr_body r) (RequiredBody op) of
                         Inl ferr \<Rightarrow> ([], Some (400, ''WRONG_PARAMS_FORMAT'', error_text (me_quote M) ferr))
                       | Inr missing \<Rightarrow>
                           if missing \<noteq> [] then
                             ([], Some (400, ''PARAMS_MISSING'', ''missing required body field '' @ me_quote M missing))
                           else ([], None))
                    else ([], None))))"

definition requestIDFromEncryptedBody ::
  "mock_env \<Rightarrow> serverConfig \<Rightarrow> string \<Rightarrow> bytes \<Rightarrow> mock_effect list \<times> string" where
  "requestIDFromEncryptedBody M cfg encryptHeader body =
     (case LoadPrivateKeyPEM (lib_x509 (me_lib M)) (idempotencyDecryptPEM cfg) [] of
        Inl err \<Rightarrow> ([Reported ''mock.Server: WithIdempotencyDecryptKey: load: '' (Some err)], [])
      | Inr k \<Rightarrow>
          (case Unmarshal (me_cipher M) (me_rsa_decrypt M) encryptHeader body (Some k) of
             Inl err \<Rightarrow> ([], [])
           | Inr plain \<Rightarrow> (case me_requestId M plain of Inl err \<Rightarrow> ([], []) | Inr rid \<Rightarrow> ([], rid))))"

definition idemKey :: "mock_env \<Rightarrow> serverConfig \<Rightarrow> server_request \<Rightarrow> mock_effect list \<times> string" where
  "idemKey M cfg r =
     (let op = OpKey (sr_method r) (sr_path r);
          key = (\<lambda>rid. if rid = [] then [] else op @ ''::'' @ rid);
          encryptHeader = header_get ''Encrypt'' (sr_header r) in
      if encryptHeader \<noteq> [] then
        (if idempotencyDecryptPEM cfg = [] then ([], [])
         else case requestIDFromEncryptedBody M cfg encryptHeader (sr_body r) of (evs, rid) \<Rightarrow> (evs, key rid))
      else if sr_method r = ''GET'' then ([], key (query_get r ''requestId''))
      else if sr_method r = ''POST'' then
        (case me_requestId M (sr_body r) of Inr rid \<Rightarrow> ([], key rid) | Inl err \<Rightarrow> ([], []))
      else ([], []))"

text \<open>The loop that copies a header map into the reply's.\<close>

definition copy_headers :: "header \<Rightarrow> header" where
  "copy_headers h = fold (\<lambda>(k, v) out. AList.update k v out) h []"

definition replay :: "cacheEntry \<Rightarrow> http_reply" where
  "replay e = \<lparr>rp_status = ce_status e, rp_header = header_set ''X-Mock-Replay'' ''1'' (copy_headers (ce_headers e)),
     rp_body = ce_body e\<rparr>"

definition signCallback :: "mock_env \<Rightarrow> serverConfig \<Rightarrow> go_error option \<Rightarrow> bytes \<Rightarrow> go_error + (bytes \<times> string)" where
  "signCallback M cfg ctx body =
     (let pem = (if autoCallbackSignerPEM cfg = [] then me_mock_priv M else autoCallbackSignerPEM cfg) in
      rbind (signBodyWithPEM (me_lib M) ctx body pem) (\<lambda>authz. Inr (body, authz)))"

definition callback_request :: "string \<Rightarrow> bytes \<Rightarrow> string \<Rightarrow> go_error option \<Rightarrow> server_request" where
  "callback_request path body authz ctx =
     \<lparr>sr_method = ''POST'', sr_path = path, sr_query = [],
      sr_header = header_set ''Authorization'' authz (header_set ''Content-Type'' ''application/json'' []),
      sr_body = body, sr_ctx = ctx\<rparr>"

definition fireCallbackInProcess ::
  "mock_env \<Rightarrow> serverConfig \<Rightarrow> go_error option \<Rightarrow> string \<Rightarrow> callbackPayload \<Rightarrow> mock_effect list" where
  "fireCallbackInProcess M cfg ctx h payload =
     (case signCallback M cfg ctx (payload_body payload) of
        Inl err \<Rightarrow> [Reported ''mock.Server: auto-callback sign: '' (Some err)]
      | Inr (body, authz) \<Rightarrow>
          let req = callback_request (payload_path payload) body authz None in
          HandlerCalled h req #
          (case me_handler M h req of
             Some p \<Rightarrow> [Reported (''mock.Server: auto-callback handler panicked: '' @ p) None]
           | None \<Rightarrow> []))"

definition fireCallbackToURL ::
  "mock_env \<Rightarrow> serverConfig \<Rightarrow> go_error option \<Rightarrow> callbackPayload \<Rightarrow> mock_effect list" where
  "fireCallbackToURL M cfg ctx payload =
     (case signCallback M cfg ctx (payload_body payload) of
        Inl err \<Rightarrow> [Reported ''mock.Server: auto-callback sign: '' (Some err)]
      | Inr (body, authz) \<Rightarrow>
          (case me_request M (autoCallbackURL cfg) of
             Some err \<Rightarrow> [Reported ''mock.Server: auto-callback build request: '' (Some err)]
           | None \<Rightarrow>
               let req = callback_request [] body authz ctx in
               Posted (autoCallbackURL cfg) req #
               (case me_post M (autoCallbackURL cfg) req of
                  Some err \<Rightarrow> [Reported ''mock.Server: auto-callback POST: '' (Some err)]
                | None \<Rightarrow> [])))"

definition fireAutoCallback ::
  "mock_env \<Rightarrow> server \<Rightarrow> go_error option \<Rightarrow> string \<Rightarrow> mock_effect list" where
  "fireAutoCallback M s ctx op =
     (case AutoCallback (tr_scenario (sv_transport s)) op of
        Some (Some payload) \<Rightarrow>
          (if autoCallbackDelay (sv_cfg s) > 0 then [Slept (autoCallbackDelay (sv_cfg s))] else []) @
          (case map_of (autoCallbackHandlers (sv_cfg s)) (normalizeOpKey (handlerKey payload)) of
             Some h \<Rightarrow> fireCallbackInProcess M (sv_cfg s) ctx h payload
           | None \<Rightarrow> if autoCallbackURL (sv_cfg s) \<noteq> [] then fireCallbackToURL M (sv_cfg s) ctx payload else [])
      | _ \<Rightarrow> [])"

text \<open>Steps 5 and the stamp: the response's headers once signed.\<close>

definition sign_response :: "mock_env \<Rightarrow> serverConfig \<Rightarrow> server_request \<Rightarrow> http_response \<Rightarrow> mock_effect list \<times> header" where
  "sign_response M cfg r resp =
     (if responseSigningKeyPEM cfg = [] then ([], rsp_Header resp)
      else case signBodyWithPEM (me_lib M) (sr_ctx r) (fst (rsp_Body resp)) (responseSigningKeyPEM cfg) of
        Inr authz \<Rightarrow> ([], header_set ''Authorization'' authz (rsp_Header resp))
      | Inl err \<Rightarrow> ([Reported ''mock.Server: WithResponseSigning: '' (Some err)], rsp_Header resp))"

text \<open>Steps 4 to 6, for a request that is neither refused nor replayed.\<close>

definition serve_dispatch ::
  "mock_env \<Rightarrow> server_request \<Rightarrow> string \<Rightarrow> server \<Rightarrow> http_reply \<times> server \<times> mock_effect list" where
  "serve_dispatch M r key s =
     (case RoundTrip (sv_transport s) r of
        (Inl err, tr) \<Rightarrow> (http_Error (error_text (me_quote M) err) 500, s\<lparr>sv_transport := tr\<rparr>, [])
      | (Inr resp, tr) \<Rightarrow>
          let (evs, hdr) = sign_response M (sv_cfg s) r resp;
              entry = \<lparr>ce_key = key, ce_status = rsp_StatusCode resp, ce_body = fst (rsp_Body resp), ce_headers = hdr\<rparr>;
              s' = s\<lparr>sv_transport := tr,
                     sv_idem := (if key \<noteq> [] then map_option (cache_Put key entry) (sv_idem s) else sv_idem s)\<rparr>
          in (\<lparr>rp_status = rsp_StatusCode resp, rp_header = copy_headers hdr, rp_body = fst (rsp_Body resp)\<rparr>, s',
              evs @ (if autoCallbackHandlers (sv_cfg s) \<noteq> [] \<or> autoCallbackURL (sv_cfg s) \<noteq> []
                     then fireAutoCallback M s' (sr_ctx r) (OpKey (sr_method r) (sr_path r)) else [])))"

definition serveHTTP :: "mock_env \<Rightarrow> server_request \<Rightarrow> server \<Rightarrow> http_reply \<times> server \<times> mock_effect list" where
  "serveHTTP M r s =
     (let (evs1, refused) = (if specValidation (sv_cfg s) then specValidate M r else ([], None)) in
      case refused of
        Some (status, err_code, msg) \<Rightarrow> (writeJSONErrorMock M status err_code msg, s, evs1)
      | None \<Rightarrow>
          (case sv_idem s of
             None \<Rightarrow> (case serve_dispatch M r [] s of (rep, s', evs) \<Rightarrow> (rep, s', evs1 @ evs))
           | Some cache \<Rightarrow>
               let (evs2, key) = idemKey M (sv_cfg s) r in
               if key = [] then (case serve_dispatch M r [] s of (rep, s', evs) \<Rightarrow> (rep, s', evs1 @ evs2 @ evs))
               else (case cache_Get key cache of
                   (Some hit, cache') \<Rightarrow> (replay hit, s\<lparr>sv_idem := Some cache'\<rparr>, evs1 @ evs2)
                 | (None, cache') \<Rightarrow>
                     (case serve_dispatch M r key (s\<lparr>sv_idem := Some cache'\<rparr>) of
                        (rep, s', evs) \<Rightarrow> (rep, s', evs1 @ evs2 @ evs)))))"

section \<open>The cache across requests\<close>

definition serve_state :: "mock_env \<Rightarrow> server_request \<Rightarrow> server \<Rightarrow> server" where
  "serve_state M r s = fst (snd (serveHTTP M r s))"

definition serve_all :: "mock_env \<Rightarrow> server_request list \<Rightarrow> server \<Rightarrow> server" where
  "serve_all M rs s = fold (serve_state M) rs s"

definition request_key :: "mock_env \<Rightarrow> serverConfig \<Rightarrow> server_request \<Rightarrow> string" where
  "request_key M cfg r = snd (idemKey M cfg r)"

definition spec_passes :: "mock_env \<Rightarrow> serverConfig \<Rightarrow> server_request \<Rightarrow> bool" where
  "spec_passes M cfg r \<longleftrightarrow> \<not> specValidation cfg \<or> snd (specValidate M r) = None"

lemma serve_dispatch_state:
  "sv_cfg (fst (snd (serve_dispatch M r key s))) = sv_cfg s"
  "\<exists>e. ce_key e = key \<and> (sv_idem (fst (snd (serve_dispatch M r key s))) = sv_idem s \<or>
     key \<noteq> [] \<and> sv_idem (fst (snd (serve_dispatch M r key s))) = map_option (cache_Put key e) (sv_idem s))"
proof -
  show "sv_cfg (fst (snd (serve_dispatch M r key s))) = sv_cfg s"
    by (auto simp: serve_dispatch_def Let_def split: prod.split sum.split)
  obtain res tr where rt: "RoundTrip (sv_transport s) r = (res, tr)" by fastforce
  show "\<exists>e. ce_key e = key \<and> (sv_idem (fst (snd (serve_dispatch M r key s))) = sv_idem s \<or>
     key \<noteq> [] \<and> sv_idem (fst (snd (serve_dispatch M r key s))) = map_option (cache_Put key e) (sv_idem s))"
  proof (cases res)
    case (Inl err)
    then show ?thesis using rt by (intro exI [of _ "\<lparr>ce_key = key, ce_status = 0, ce_body = [], ce_headers = []\<rparr>"])
        (simp add: serve_dispatch_def)
  next
    case (Inr resp)
    obtain evs hdr where h: "sign_response M (sv_cfg s) r resp = (evs, hdr)" by fastforce
    show ?thesis using rt Inr h
      by (intro exI [of _ "\<lparr>ce_key = key, ce_status = rsp_StatusCode resp, ce_body = fst (rsp_Body resp), ce_headers = hdr\<rparr>"])
        (simp add: serve_dispatch_def Let_def)
  qed
qed

lemma serve_cfg [simp]: "sv_cfg (serve_state M r s) = sv_cfg s"
  using serve_dispatch_state(1)
  by (simp add: serve_state_def serveHTTP_def Let_def split_def split: option.split)

text \<open>The four ways a request takes.\<close>

lemma serve_refused: "\<not> spec_passes M (sv_cfg s) r \<Longrightarrow> serve_state M r s = s"
  by (auto simp: serve_state_def serveHTTP_def spec_passes_def Let_def split_def)

lemma serve_plain:
  "spec_passes M (sv_cfg s) r \<Longrightarrow> sv_idem s = Some c \<Longrightarrow> request_key M (sv_cfg s) r = [] \<Longrightarrow>
     serve_state M r s = fst (snd (serve_dispatch M r [] s))"
  by (simp add: serve_state_def serveHTTP_def spec_passes_def request_key_def Let_def split_def)

lemma serve_hit:
  assumes "spec_passes M (sv_cfg s) r" "sv_idem s = Some c" "request_key M (sv_cfg s) r \<noteq> []"
    and "cache_Get (request_key M (sv_cfg s) r) c = (Some h, c')"
  shows "fst (serveHTTP M r s) = replay h \<and> serve_state M r s = s\<lparr>sv_idem := Some c'\<rparr>"
proof -
  obtain ev k where k: "idemKey M (sv_cfg s) r = (ev, k)" by fastforce
  obtain ev' where "(if specValidation (sv_cfg s) then specValidate M r else ([], None)) = (ev', None)"
    using assms(1) by (cases "specValidation (sv_cfg s)"; cases "specValidate M r") (auto simp: spec_passes_def)
  then show ?thesis using assms(2-) k by (simp add: serve_state_def serveHTTP_def request_key_def Let_def)
qed

lemma serve_miss:
  assumes "spec_passes M (sv_cfg s) r" "sv_idem s = Some c" "request_key M (sv_cfg s) r \<noteq> []"
    and "cache_Get (request_key M (sv_cfg s) r) c = (None, c')"
  shows "fst (serveHTTP M r s) = fst (serve_dispatch M r (request_key M (sv_cfg s) r) (s\<lparr>sv_idem := Some c'\<rparr>)) \<and>
    serve_state M r s = fst (snd (serve_dispatch M r (request_key M (sv_cfg s) r) (s\<lparr>sv_idem := Some c'\<rparr>)))"
proof -
  obtain ev k where k: "idemKey M (sv_cfg s) r = (ev, k)" by fastforce
  obtain ev' where "(if specValidation (sv_cfg s) then specValidate M r else ([], None)) = (ev', None)"
    using assms(1) by (cases "specValidation (sv_cfg s)"; cases "specValidate M r") (auto simp: spec_passes_def)
  then show ?thesis using assms(2-) k
    by (auto simp: serve_state_def serveHTTP_def request_key_def Let_def split: prod.split)
qed

text \<open>What one request does to the cache.\<close>

lemma serve_idem:
  assumes "sv_idem s = Some c"
  obtains "sv_idem (serve_state M r s) = Some c"
  | "request_key M (sv_cfg s) r \<noteq> []" "sv_idem (serve_state M r s) = Some (snd (cache_Get (request_key M (sv_cfg s) r) c))"
  | e where "request_key M (sv_cfg s) r \<noteq> []" "ce_key e = request_key M (sv_cfg s) r"
      "fst (cache_Get (request_key M (sv_cfg s) r) c) = None"
      "sv_idem (serve_state M r s) = Some (cache_Put (request_key M (sv_cfg s) r) e (snd (cache_Get (request_key M (sv_cfg s) r) c)))"
proof (cases "spec_passes M (sv_cfg s) r")
  case False
  then show thesis using that(1) serve_refused assms by simp
next
  case True
  let ?k = "request_key M (sv_cfg s) r"
  obtain hit c' where g: "cache_Get ?k c = (hit, c')" by fastforce
  show thesis
  proof (cases "?k = []")
    case None: True
    then show thesis using that(1) serve_dispatch_state(2) [of "[]" M r s] serve_plain [OF True assms] assms by auto
  next
    case key: False
    show thesis
    proof (cases hit)
      case None
      then show thesis using that(2,3) serve_miss [OF True assms key] serve_dispatch_state(2) [of ?k M r "s\<lparr>sv_idem := Some c'\<rparr>"] g key by auto
    next
      case (Some h)
      then show thesis using that(2) serve_hit [OF True assms key] g key by auto
    qed
  qed
qed

lemma serve_kept:
  assumes "sv_idem s = Some c" "idem.kept k e T c" "k \<noteq> []" "finite T" "request_key M (sv_cfg s) r = j"
    and "int (card (T \<union> ({j} - {k, []}))) < ic_cap c"
  shows "\<exists>c'. sv_idem (serve_state M r s) = Some c' \<and> ic_cap c' = ic_cap c \<and>
     (\<exists>T' \<subseteq> T \<union> ({j} - {k, []}). idem.kept k e T' c')"
proof -
  have ok: "cache_ok c" using assms(2) by (simp add: idem.kept_def)
  have cap: "ic_cap (snd (cache_Get j c)) = ic_cap c" for j by (simp add: cache_Get_def split: option.split)
  from assms(1) show ?thesis
  proof (rule serve_idem [where M = M and r = r], goal_cases)
    case 1
    then show ?case using assms(2) by (intro exI [of _ c]) auto
  next
    case 2
    show ?case
    proof (cases "j = k")
      case True
      then show ?thesis using 2 assms(5) idem.kept_get_same [OF assms(2)] cap by (intro exI [of _ "snd (cache_Get k c)"]) auto
    next
      case False
      then show ?thesis using 2 assms(5) idem.kept_get_other [OF assms(2) False] cap
        by (intro exI [of _ "snd (cache_Get j c)"] conjI exI [of _ "insert j T"]) auto
    qed
  next
    case (3 u)
    let ?c = "snd (cache_Get j c)"
    have jk: "j \<noteq> k" "j \<noteq> []" using 3 assms(5) idem.kept_get [OF assms(2)] by auto
    have kept: "idem.kept k e (insert j T) ?c" by (rule idem.kept_get_other [OF assms(2) jk(1)])
    have "T \<union> ({j} - {k, []}) = insert j (insert j T)" using jk by auto
    then have "card (insert j (insert j T)) < nat (ic_cap ?c)" using assms(6) cap by simp
    then have "idem.kept k e (insert j (insert j T)) (cache_Put j u ?c)"
      using 3 assms(4,5) by (intro idem.kept_put_other [OF kept jk(1)]) auto
    moreover have "ic_cap (cache_Put j u ?c) = ic_cap c"
      using cache_Put_refines [of ?c u j] cache_Get_ok [OF ok] 3 assms(5) cap by simp
    ultimately show ?case using 3 assms(5) jk by (intro exI [of _ "cache_Put j u ?c"] conjI exI [of _ "insert j T"]) auto
  qed
qed

lemma serve_all_kept:
  assumes "sv_idem s = Some c" "idem.kept k e T c" "k \<noteq> []" "finite T"
    and "int (card (T \<union> (request_key M (sv_cfg s) ` set rs - {k, []}))) < ic_cap c"
  shows "\<exists>c' T'. sv_idem (serve_all M rs s) = Some c' \<and> idem.kept k e T' c' \<and> sv_cfg (serve_all M rs s) = sv_cfg s"
  using assms
proof (induction rs arbitrary: s c T)
  case (Cons r rs)
  let ?K = "\<lambda>rs. request_key M (sv_cfg s) ` set rs - {k, []}" and ?j = "request_key M (sv_cfg s) r"
  have sub: "card A \<le> card (T \<union> ?K (r # rs))" if "A \<subseteq> T \<union> ?K (r # rs)" for A
    using that Cons.prems(4) by (intro card_mono) auto
  have "card (T \<union> ({?j} - {k, []})) \<le> card (T \<union> ?K (r # rs))" by (rule sub) auto
  then have "int (card (T \<union> ({?j} - {k, []}))) < ic_cap c" using Cons.prems(5) by linarith
  from serve_kept [OF Cons.prems(1-4) refl this] obtain c' T' where c': "sv_idem (serve_state M r s) = Some c'"
    "ic_cap c' = ic_cap c" "idem.kept k e T' c'" and T': "T' \<subseteq> T \<union> ({?j} - {k, []})"
    by blast
  have fin: "finite T'" using T' Cons.prems(4) by (meson finite.emptyI finite.insertI finite_Diff finite_Un finite_subset)
  have c'4: "T' \<union> ?K rs \<subseteq> T \<union> ?K (r # rs)" using T' by auto
  have "int (card (T' \<union> ?K rs)) < ic_cap c'" using sub [OF c'4] Cons.prems(5) c'(2) by linarith
  then show ?case using Cons.IH [OF c'(1,3) Cons.prems(3) fin] by (simp add: serve_all_def)
qed (auto simp: serve_all_def)

text \<open>The entry a first answer leaves, and what every later request with its key gets.\<close>

lemma replayed_later:
  assumes "sv_idem s = Some c" "cache_ok c" "spec_passes M (sv_cfg s) r" "request_key M (sv_cfg s) r = k" "k \<noteq> []"
    and "fst (cache_Get k c) = None" "Respond (tr_scenario (sv_transport s)) r = Inr resp"
    and "s' = serve_all M rs (serve_state M r s)" "int (card (request_key M (sv_cfg s) ` set rs - {k, []})) < ic_cap c"
  shows "\<exists>e. fst (serveHTTP M r s) = \<lparr>rp_status = ce_status e, rp_header = copy_headers (ce_headers e), rp_body = ce_body e\<rparr> \<and>
    ce_status e = rsp_StatusCode resp \<and> ce_body e = fst (rsp_Body resp) \<and>
    (\<forall>r'. spec_passes M (sv_cfg s) r' \<longrightarrow> request_key M (sv_cfg s) r' = k \<longrightarrow>
      fst (serveHTTP M r' s') = replay e \<and> sv_transport (serve_state M r' s') = sv_transport s')"
proof -
  obtain c1 where g: "cache_Get k c = (None, c1)" using assms(6) by (metis prod.collapse)
  have c1: "cache_ok c1" "ic_cap c1 = ic_cap c"
    using cache_Get_ok [OF assms(2), of k] g by (auto simp: cache_Get_def split: option.splits)
  obtain ev hdr where h: "sign_response M (sv_cfg s) r resp = (ev, hdr)" by fastforce
  define e where "e = \<lparr>ce_key = k, ce_status = rsp_StatusCode resp, ce_body = fst (rsp_Body resp), ce_headers = hdr\<rparr>"
  have first: "fst (serveHTTP M r s) = \<lparr>rp_status = rsp_StatusCode resp, rp_header = copy_headers hdr, rp_body = fst (rsp_Body resp)\<rparr>"
    "sv_idem (serve_state M r s) = Some (cache_Put k e c1)"
    using serve_miss [OF assms(3,1)] assms(4,5,7) g h
    by (simp_all add: serve_dispatch_def RoundTrip_def Let_def e_def)
  have ek: "ce_key e = k" by (simp add: e_def)
  have "ic_cap (cache_Put k e c1) = ic_cap c" using cache_Put_refines [OF c1(1) ek] c1(2) by simp
  then obtain c' T' where c': "sv_idem s' = Some c'" "idem.kept k e T' c'" "sv_cfg s' = sv_cfg s"
    using serve_all_kept [OF first(2) idem.kept_put [OF c1(1) ek] assms(5) finite.emptyI, of M rs] assms(8,9) by auto
  obtain c2 where c2: "cache_Get k c' = (Some e, c2)" using idem.kept_get [OF c'(2)] by (metis prod.collapse)
  have "fst (serveHTTP M r' s') = replay e \<and> sv_transport (serve_state M r' s') = sv_transport s'"
    if "spec_passes M (sv_cfg s) r'" "request_key M (sv_cfg s) r' = k" for r'
    using serve_hit [of M s' r' c'] assms(5) that c' c2 by simp
  then show ?thesis using first(1) by (intro exI [of _ e]) (simp add: e_def)
qed

section \<open>Properties\<close>

text \<open>C21. The mock gateway is idempotent per request id: once it has answered a request with a given method, path and
  request id, any later request with the same three gets the same status, body and headers, marked as
  a replay, without reaching the scenario or the recorded traffic, even when the scenario or other
  traffic would answer differently, as long as fewer other request ids than the cache holds came in
  between.  Encrypted requests count by the id inside their envelope.\<close>
theorem mock_replays_first_answer:
  assumes "sv_idem s = Some c" "cache_ok c" "spec_passes M (sv_cfg s) r" "request_key M (sv_cfg s) r = k" "k \<noteq> []"
    and "fst (cache_Get k c) = None" "Respond (tr_scenario (sv_transport s)) r = Inr resp"
    and "s' = serve_all M rs (serve_state M r s)" "int (card (request_key M (sv_cfg s) ` set rs - {k, []})) < ic_cap c"
    and "spec_passes M (sv_cfg s) r'" "request_key M (sv_cfg s) r' = k"
  shows "rp_status (fst (serveHTTP M r' s')) = rp_status (fst (serveHTTP M r s)) \<and>
    rp_body (fst (serveHTTP M r' s')) = rp_body (fst (serveHTTP M r s)) \<and>
    rp_header (fst (serveHTTP M r' s')) = header_set ''X-Mock-Replay'' ''1'' (rp_header (fst (serveHTTP M r s))) \<and>
    sv_transport (serve_state M r' s') = sv_transport s'"
proof -
  obtain e where "fst (serveHTTP M r s) = \<lparr>rp_status = ce_status e, rp_header = copy_headers (ce_headers e), rp_body = ce_body e\<rparr>"
    "fst (serveHTTP M r' s') = replay e \<and> sv_transport (serve_state M r' s') = sv_transport s'"
    using replayed_later [OF assms(1-9)] assms(10,11) by blast
  then show ?thesis by (simp add: replay_def)
qed

definition sample_mock_env :: mock_env where
  "sample_mock_env = \<lparr>me_lib = sample_lib,
     me_cipher = \<lparr>block_Encrypt = (\<lambda>k b. b), block_Decrypt = (\<lambda>k b. b)\<rparr>, me_rsa_decrypt = (\<lambda>k b. Inr b),
     me_spec = Inl (ErrorString ''none''), me_json = (\<lambda>b. Inr JNull), me_requestId = (\<lambda>b. Inr b),
     me_error_json = (\<lambda>c m. c), me_quote = id, me_mock_priv = [], me_handler = (\<lambda>h r. None), me_request = (\<lambda>u. None),
     me_post = (\<lambda>u r. None)\<rparr>"

definition sample_server_request :: "string \<Rightarrow> server_request" where
  "sample_server_request rid = \<lparr>sr_method = ''POST'', sr_path = ''/auth'', sr_query = [], sr_header = [], sr_body = rid, sr_ctx = None\<rparr>"

text \<open>The answer of the first request comes back after another one, from a scenario that echoes the body.\<close>

theorem mock_replays_first_answer_witness:
  "\<exists>s s'. NewServer (Some (ScenarioFunc (\<lambda>r. Inr (jsonResponse 200 (sr_body r))))) [Some WithIdempotency] = Inr s \<and>
     s' = serve_all sample_mock_env [sample_server_request ''r2''] (serve_state sample_mock_env (sample_server_request ''r1'') s) \<and>
     rp_body (fst (serveHTTP sample_mock_env (sample_server_request ''r1'') s')) = ''r1''"
proof -
  let ?f = "\<lambda>r. Inr (jsonResponse 200 (sr_body r))" and ?M = sample_mock_env and ?q = sample_server_request
  define s where "s = \<lparr>sv_transport = \<lparr>tr_scenario = ScenarioFunc ?f, tr_requests = [], tr_hits = []\<rparr>,
    sv_cfg = WithIdempotency zero_serverConfig, sv_idem = Some (newIdempotencyCache 1024)\<rparr>"
  have new: "NewServer (Some (ScenarioFunc ?f)) [Some WithIdempotency] = Inr s"
    by (simp add: NewServer_def NewTransport_def s_def WithIdempotency_def zero_serverConfig_def)
  have key: "request_key ?M (sv_cfg s) (?q x) = ''POST /auth::'' @ x" if "x \<noteq> []" for x
    using that by (simp add: request_key_def idemKey_def sample_server_request_def header_get_def sample_mock_env_def OpKey_def Let_def
        to_upper_def is_lower_def)
  have pass: "spec_passes ?M (sv_cfg s) x" for x
    by (simp add: spec_passes_def s_def WithIdempotency_def zero_serverConfig_def Let_def)
  have none: "fst (cache_Get k (newIdempotencyCache 1024)) = None" for k by (simp add: cache_Get_def newIdempotencyCache_def)
  have c: "sv_idem s = Some (newIdempotencyCache 1024)" by (simp add: s_def)
  have first: "rp_body (fst (serveHTTP ?M (?q ''r1'') s)) = ''r1''"
    by (simp add: serveHTTP_def s_def WithIdempotency_def zero_serverConfig_def Let_def idemKey_def sample_server_request_def
        header_get_def sample_mock_env_def cache_Get_def newIdempotencyCache_def serve_dispatch_def RoundTrip_def sign_response_def
        jsonResponse_def)
  have "card (request_key ?M (sv_cfg s) ` set [?q ''r2''] - {''POST /auth::r1'', []}) \<le> card {request_key ?M (sv_cfg s) (?q ''r2'')}"
    by (rule card_mono) auto
  then have "int (card (request_key ?M (sv_cfg s) ` set [?q ''r2''] - {''POST /auth::r1'', []})) < ic_cap (newIdempotencyCache 1024)"
    by (simp add: newIdempotencyCache_def)
  from mock_replays_first_answer [OF c newIdempotencyCache_ok pass _ _ none _ refl this pass] key [of "''r1''"] first
  have "rp_body (fst (serveHTTP ?M (?q ''r1'') (serve_all ?M [?q ''r2''] (serve_state ?M (?q ''r1'') s)))) = ''r1''"
    by (simp add: s_def)
  with new show ?thesis by blast
qed

end
