(* ===== verification/Spec_Server.thy ===== *)
theory Spec_Server
  imports Mock_Server
begin

text \<open>
  qa/specserver: the strict test server that checks what the SDK sends against the
  pinned spec (server.go) and the table runner on top of it (runner.go).  The server's
  maps are association lists, a skip set the list of its members; each method holds the
  mutex, so calls are sequenced.  JSON (unmarshalling, json.Valid, the encoding of an
  error envelope), the quoting of fmt's %q, files and key generation are arguments.
  Methods and the method part of an op key are ASCII, where strings.ToUpper is
  \<open>upperASCII\<close>.
\<close>

section \<open>server.go\<close>

record failure =
  f_Op :: string
  f_Reason :: string
  f_Field :: string
  f_Body :: string
  f_Query :: string
  f_SpecPath :: string

record specServer =
  ss_Spec :: spec
  ss_fixtures :: "(string \<times> bytes) list"
  ss_hits :: "(string \<times> nat) list"
  ss_failures :: "failure list"
  ss_skipReq :: "(string \<times> string list) list"

definition blank_failure :: failure where
  "blank_failure = \<lparr>f_Op = [], f_Reason = [], f_Field = [], f_Body = [], f_Query = [], f_SpecPath = []\<rparr>"

definition NewWithSpec :: "spec \<Rightarrow> specServer" where
  "NewWithSpec sp = \<lparr>ss_Spec = sp, ss_fixtures = [], ss_hits = [], ss_failures = [], ss_skipReq = []\<rparr>"

text \<open>A failed load ends the test.\<close>

definition specserver_New :: "go_error + spec \<Rightarrow> go_error + specServer" where
  "specserver_New loaded =
     (case loaded of
        Inl err \<Rightarrow> Inl (WrapError ''specserver.New: '' err [])
      | Inr sp \<Rightarrow> Inr (NewWithSpec sp))"

definition spec_normalizeOpKey :: "string \<Rightarrow> string" where
  "spec_normalizeOpKey op =
     (case cut_at (CHR '' '') op of
        (before, after, True) \<Rightarrow> upperASCII before @ '' '' @ after
      | (before, after, False) \<Rightarrow> op)"

definition SetFixtureRaw :: "string \<Rightarrow> bytes \<Rightarrow> specServer \<Rightarrow> specServer" where
  "SetFixtureRaw op body s = s\<lparr>ss_fixtures := AList.update (spec_normalizeOpKey op) body (ss_fixtures s)\<rparr>"

definition SetFixture ::
  "(string \<Rightarrow> string) \<Rightarrow> (string \<Rightarrow> go_error + bytes) \<Rightarrow> (bytes \<Rightarrow> bool) \<Rightarrow> string \<Rightarrow> string \<Rightarrow> specServer \<Rightarrow>
   go_error + specServer" where
  "SetFixture quote readFile valid op path s =
     (case readFile path of
        Inl err \<Rightarrow> Inl (WrapError (''specserver: load fixture '' @ quote path @ '': '') err [])
      | Inr data \<Rightarrow>
          if \<not> valid data then Inl (ErrorString (''specserver: fixture '' @ quote path @ '' is not valid JSON''))
          else Inr (s\<lparr>ss_fixtures := AList.update (spec_normalizeOpKey op) data (ss_fixtures s)\<rparr>))"

definition skip_set :: "specServer \<Rightarrow> string \<Rightarrow> string list" where
  "skip_set s key = (case map_of (ss_skipReq s) key of Some ps \<Rightarrow> ps | None \<Rightarrow> [])"

definition SkipRequired :: "string \<Rightarrow> string list \<Rightarrow> specServer \<Rightarrow> specServer" where
  "SkipRequired op paths s =
     (let key = spec_normalizeOpKey op in
      s\<lparr>ss_skipReq := AList.update key (fold List.insert paths (skip_set s key)) (ss_skipReq s)\<rparr>)"

definition effectiveRequired :: "specServer \<Rightarrow> operation \<Rightarrow> string list \<times> string list \<times> string list" where
  "effectiveRequired s op =
     (let skip = skip_set s (OpKey (op_Method op) (op_Path op)) in
      if skip = [] then (RequiredBody op, RequiredQuery op, RequiredHeader op)
      else (filter (\<lambda>p. p \<notin> set skip) (RequiredBody op), filter (\<lambda>p. p \<notin> set skip) (RequiredQuery op),
            filter (\<lambda>p. p \<notin> set skip) (RequiredHeader op)))"

definition hit_count :: "(string \<times> nat) list \<Rightarrow> string \<Rightarrow> nat" where
  "hit_count hits key = (case map_of hits key of Some n \<Rightarrow> n | None \<Rightarrow> 0)"

definition spec_Hits :: "specServer \<Rightarrow> string \<Rightarrow> nat" where
  "spec_Hits s op = hit_count (ss_hits s) (spec_normalizeOpKey op)"

definition Failures :: "specServer \<Rightarrow> failure list" where
  "Failures s = ss_failures s"

definition spec_Reset :: "specServer \<Rightarrow> specServer" where
  "spec_Reset s = s\<lparr>ss_hits := [], ss_failures := []\<rparr>"

definition recordFailure :: "failure \<Rightarrow> specServer \<Rightarrow> specServer" where
  "recordFailure f s = s\<lparr>ss_failures := ss_failures s @ [f]\<rparr>"

definition json_header :: header where
  "json_header = header_set ''Content-Type'' ''application/json; charset=utf-8'' []"

definition writeFixture :: "specServer \<Rightarrow> string \<Rightarrow> http_reply" where
  "writeFixture s op =
     \<lparr>rp_status = 200, rp_header = json_header,
      rp_body = (case map_of (ss_fixtures s) op of
          Some body \<Rightarrow> body
        | None \<Rightarrow> [CHR ''{'', CHR 0x22] @ ''code'' @ [CHR 0x22, CHR '':'', CHR 0x22] @ ''SUCCESS'' @
            [CHR 0x22, CHR '','', CHR 0x22] @ ''message'' @ [CHR 0x22, CHR '':'', CHR 0x22] @ ''ok'' @
            [CHR 0x22, CHR ''}''])\<rparr>"

text \<open>The cut is marked with an ellipsis, three bytes of UTF-8.\<close>

definition truncate_text :: "string \<Rightarrow> nat \<Rightarrow> string" where
  "truncate_text s n = (if length s \<le> n then s else take n s @ [CHR 0xE2, CHR 0x80, CHR 0xA6])"

record spec_env =
  se_json :: "bytes \<Rightarrow> go_error + json"
  se_error_json :: "string \<Rightarrow> string \<Rightarrow> bytes"
  se_quote :: "string \<Rightarrow> string"

definition writeJSONError :: "spec_env \<Rightarrow> int \<Rightarrow> string \<Rightarrow> string \<Rightarrow> http_reply" where
  "writeJSONError M status err_code message =
     \<lparr>rp_status = status, rp_header = json_header, rp_body = se_error_json M err_code message\<rparr>"

definition count_hit :: "string \<Rightarrow> specServer \<Rightarrow> specServer" where
  "count_hit op s = s\<lparr>ss_hits := AList.update op (Suc (hit_count (ss_hits s) op)) (ss_hits s)\<rparr>"

text \<open>The POST branch; \<open>readErr\<close> is the error io.ReadAll meets, if any.\<close>

definition check_post ::
  "spec_env \<Rightarrow> go_error option \<Rightarrow> server_request \<Rightarrow> string \<Rightarrow> bool \<Rightarrow> string list \<Rightarrow> specServer \<Rightarrow>
   http_reply \<times> specServer" where
  "check_post M readErr r op encryptedRequest requiredBody s =
     (let body = take (2 ^ 20) (sr_body r);
          f = blank_failure\<lparr>f_Op := op, f_Body := truncate_text body 256, f_SpecPath := spec_Path (ss_Spec s)\<rparr> in
      case readErr of
        Some err \<Rightarrow> (writeJSONError M 400 ''WRONG_PARAMS_FORMAT'' (''read body: '' @ error_text (se_quote M) err), s)
      | None \<Rightarrow>
          if encryptedRequest then (writeFixture s op, s)
          else (case ValidateBody (se_json M) body requiredBody of
              Inl ferr \<Rightarrow>
                (writeJSONError M 400 ''WRONG_PARAMS_FORMAT'' (error_text (se_quote M) ferr),
                 recordFailure (f\<lparr>f_Reason := ''request body is not valid JSON''\<rparr>) s)
            | Inr missing \<Rightarrow>
                if missing \<noteq> [] then
                  (writeJSONError M 400 ''PARAMS_MISSING'' (''missing required body field '' @ se_quote M missing),
                   recordFailure (f\<lparr>f_Reason := ''missing required body field'', f_Field := missing\<rparr>) s)
                else (writeFixture s op, s)))"

definition spec_handle ::
  "spec_env \<Rightarrow> go_error option \<Rightarrow> server_request \<Rightarrow> specServer \<Rightarrow> http_reply \<times> specServer" where
  "spec_handle M readErr r s0 =
     (let op = OpKey (sr_method r) (sr_path r);
          s = count_hit op s0;
          f = blank_failure\<lparr>f_Op := op, f_SpecPath := spec_Path (ss_Spec s)\<rparr> in
      case Spec_Op (Some (ss_Spec s)) (sr_method r) (sr_path r) of
        None \<Rightarrow>
          (writeJSONError M 404 ''PARAMS_WRONG'' (''operation '' @ op @ '' not in pinned spec''),
           recordFailure (f\<lparr>f_Reason := ''operation not declared in pinned spec''\<rparr>) s)
      | Some specOp \<Rightarrow>
          let (requiredBody, requiredQuery, requiredHeader) = effectiveRequired s specOp in
          (case missing_name (\<lambda>n. header_get n (sr_header r)) requiredHeader of
             Some n \<Rightarrow>
               (writeJSONError M 400 ''PARAMS_MISSING'' (''missing required header '' @ se_quote M n),
                recordFailure (f\<lparr>f_Reason := ''missing required header'', f_Field := n\<rparr>) s)
           | None \<Rightarrow>
               if sr_method r = ''GET'' then
                 (case missing_name (query_get r) requiredQuery of
                    Some n \<Rightarrow>
                      (writeJSONError M 400 ''PARAMS_MISSING'' (''missing required query param '' @ se_quote M n),
                       recordFailure (f\<lparr>f_Reason := ''missing required query param'', f_Field := n,
                         f_Query := sr_query r\<rparr>) s)
                  | None \<Rightarrow> (writeFixture s op, s))
               else if sr_method r = ''POST'' then
                 check_post M readErr r op (''Encrypt'' \<in> set requiredHeader) requiredBody s
               else (writeJSONError M 405 ''PARAMS_WRONG'' ''verb not supported by spec server'', s)))"

section \<open>runner.go\<close>

text \<open>Run acts on the server through the client it is given, and returns the SDK's error.\<close>

record spec_case =
  case_Op :: string
  case_Run :: "client \<Rightarrow> specServer \<Rightarrow> specServer \<times> go_error option"
  case_Fixture :: string
  case_SkipRequired :: "string list"

definition formatFailure :: "(string \<Rightarrow> string) \<Rightarrow> failure \<Rightarrow> string" where
  "formatFailure quote f =
     ''specserver: '' @ f_Op f @ '': '' @ f_Reason f @
     (if f_Field f \<noteq> [] then '' '' @ quote (f_Field f) else []) @
     (if f_Body f \<noteq> [] then [char_of (10 :: nat)] @ ''  request body: '' @ f_Body f else []) @
     (if f_Query f \<noteq> [] then [char_of (10 :: nat)] @ ''  wire query: '' @ f_Query f else []) @
     (if f_SpecPath f \<noteq> [] then [char_of (10 :: nat)] @ ''  spec: '' @ f_SpecPath f else [])"

fun sanitizeName :: "string \<Rightarrow> string" where
  "sanitizeName [] = []"
| "sanitizeName (c # cs) =
     (if c = CHR '' '' \<or> c = CHR ''/'' then CHR ''_'' # sanitizeName cs
      else if c = CHR ''<'' \<or> c = CHR ''>'' then sanitizeName cs
      else c # sanitizeName cs)"

text \<open>
  The generated keys: the PEM text of the signing key, of its public half and of the
  encryption public key, each with the error of generating or encoding it.
\<close>

definition MustClient ::
  "go_lib \<Rightarrow> (nat \<Rightarrow> int) \<Rightarrow> (nat \<Rightarrow> string) \<Rightarrow> go_error + bytes \<Rightarrow> go_error + bytes \<Rightarrow> go_error + bytes \<Rightarrow>
   go_error + bytes \<Rightarrow> string \<Rightarrow> go_error + client" where
  "MustClient L now ids privKey pubKey encKey encPub srvURL =
     (case privKey of
        Inl err \<Rightarrow> Inl (WrapError ''specserver.MustClient: rsa.GenerateKey signing: '' err [])
      | Inr privPEM \<Rightarrow>
     (case pubKey of
        Inl err \<Rightarrow> Inl (WrapError ''specserver.MustClient: marshal signing public key: '' err [])
      | Inr pubPEM \<Rightarrow>
     (case encKey of
        Inl err \<Rightarrow> Inl (WrapError ''specserver.MustClient: rsa.GenerateKey encrypt: '' err [])
      | Inr encPEM \<Rightarrow>
     (case encPub of
        Inl err \<Rightarrow> Inl (WrapError ''specserver.MustClient: marshal encrypt public key: '' err [])
      | Inr encPubPEM \<Rightarrow>
     (case New L now ids
         [Some (WithBaseURL L srvURL), Some (WithPrivateKeyPEM L privPEM []),
          Some (WithAtomePublicCertPEM L pubPEM), Some (WithEncryptAtomePublicCertPEM L encPubPEM)] of
        Inl err \<Rightarrow> Inl (WrapError ''specserver.MustClient: atomefin.New: '' err [])
      | Inr c \<Rightarrow> Inr c)))))"

fun prepare_cases ::
  "(string \<Rightarrow> string) \<Rightarrow> (string \<Rightarrow> go_error + bytes) \<Rightarrow> (bytes \<Rightarrow> bool) \<Rightarrow> spec_case list \<Rightarrow> specServer \<Rightarrow>
   go_error + specServer" where
  "prepare_cases quote readFile valid [] s = Inr s"
| "prepare_cases quote readFile valid (c # cs) s =
     (case (if case_Fixture c \<noteq> [] then SetFixture quote readFile valid (case_Op c) (case_Fixture c) s else Inr s) of
        Inl err \<Rightarrow> Inl (WrapError ''RunCases: '' err [])
      | Inr s1 \<Rightarrow> prepare_cases quote readFile valid cs
          (if case_SkipRequired c \<noteq> [] then SkipRequired (case_Op c) (case_SkipRequired c) s1 else s1))"

text \<open>One subtest: its name and the texts given to Errorf.\<close>

definition run_case ::
  "(string \<Rightarrow> string) \<Rightarrow> client \<Rightarrow> spec_case \<Rightarrow> specServer \<Rightarrow> specServer \<times> string list" where
  "run_case quote cl c s =
     (let before = length (Failures s);
          (s', err) = case_Run c cl s;
          newFailures = drop before (Failures s') in
      if newFailures \<noteq> [] then (s', map (formatFailure quote) newFailures)
      else case err of
        Some e \<Rightarrow> (s', [case_Op c @ '': SDK call returned error: '' @ error_text quote e])
      | None \<Rightarrow>
          if spec_Hits s' (case_Op c) = 0
          then (s', [case_Op c @ '': SDK did not reach the spec server (hit count = 0)'']) else (s', []))"

fun run_all ::
  "(string \<Rightarrow> string) \<Rightarrow> client \<Rightarrow> spec_case list \<Rightarrow> specServer \<Rightarrow> specServer \<times> (string \<times> string list) list" where
  "run_all quote cl [] s = (s, [])"
| "run_all quote cl (c # cs) s =
     (case run_case quote cl c s of (s', reports) \<Rightarrow>
       (case run_all quote cl cs s' of (s'', rest) \<Rightarrow> (s'', (sanitizeName (case_Op c), reports) # rest)))"

definition RunCases ::
  "(string \<Rightarrow> string) \<Rightarrow> (string \<Rightarrow> go_error + bytes) \<Rightarrow> (bytes \<Rightarrow> bool) \<Rightarrow> go_error + spec \<Rightarrow> go_error + client \<Rightarrow>
   spec_case list \<Rightarrow> go_error + (specServer \<times> (string \<times> string list) list)" where
  "RunCases quote readFile valid loaded mustClient cases =
     rbind (specserver_New loaded) (\<lambda>srv0.
     rbind (prepare_cases quote readFile valid cases srv0) (\<lambda>srv.
     rbind mustClient (\<lambda>cl. Inr (run_all quote cl cases srv))))"

section \<open>The verdict of the server\<close>

text \<open>What a request must carry, in terms of the operation and the skips.\<close>

definition conformant :: "spec_env \<Rightarrow> specServer \<Rightarrow> server_request \<Rightarrow> bool" where
  "conformant M s r \<longleftrightarrow>
     (case map_of (Operations (ss_Spec s)) (OpKey (sr_method r) (sr_path r)) of
        None \<Rightarrow> False
      | Some op \<Rightarrow>
          let demanded = (\<lambda>names. {n \<in> set names. n \<notin> set (skip_set s (OpKey (op_Method op) (op_Path op)))}) in
          (\<forall>n \<in> demanded (RequiredHeader op). header_get n (sr_header r) \<noteq> []) \<and>
          (sr_method r = ''GET'' \<longrightarrow> (\<forall>n \<in> demanded (RequiredQuery op). query_get r n \<noteq> [])) \<and>
          (sr_method r = ''POST'' \<longrightarrow> ''Encrypt'' \<in> demanded (RequiredHeader op) \<or>
             ValidateBody (se_json M) (take (2 ^ 20) (sr_body r))
               (filter (\<lambda>p. p \<notin> set (skip_set s (OpKey (op_Method op) (op_Path op)))) (RequiredBody op)) = Inr []))"

lemma missing_name_None: "missing_name f ns = None \<longleftrightarrow> (\<forall>n \<in> set ns. f n \<noteq> [])"
  by (induction ns) auto

lemma effectiveRequired_filter:
  "effectiveRequired s op =
     (let keep = filter (\<lambda>p. p \<notin> set (skip_set s (OpKey (op_Method op) (op_Path op))))
      in (keep (RequiredBody op), keep (RequiredQuery op), keep (RequiredHeader op)))"
  by (simp add: effectiveRequired_def Let_def)

lemma count_hit_simps [simp]:
  "skip_set (count_hit op s) k = skip_set s k" "ss_failures (count_hit op s) = ss_failures s"
  "ss_Spec (count_hit op s) = ss_Spec s" "ss_skipReq (count_hit op s) = ss_skipReq s"
  "ss_fixtures (count_hit op s) = ss_fixtures s"
  by (simp_all add: skip_set_def count_hit_def)

lemma writeFixture_simps [simp]:
  "rp_status (writeFixture s op) = 200" "writeFixture (count_hit k s) op = writeFixture s op"
  by (simp_all add: writeFixture_def)

lemma writeJSONError_status [simp]: "rp_status (writeJSONError M st c msg) = st"
  by (simp add: writeJSONError_def)

lemma ss_recordFailure [simp]:
  "ss_failures (recordFailure f s) = ss_failures s @ [f]" "ss_hits (recordFailure f s) = ss_hits s"
  "ss_Spec (recordFailure f s) = ss_Spec s" "ss_skipReq (recordFailure f s) = ss_skipReq s"
  "ss_fixtures (recordFailure f s) = ss_fixtures s"
  by (simp_all add: recordFailure_def)

lemma conformant_cong:
  "ss_Spec s = ss_Spec s' \<Longrightarrow> ss_skipReq s = ss_skipReq s' \<Longrightarrow> conformant M s r = conformant M s' r"
  unfolding conformant_def skip_set_def by (simp only:)

lemma hit_count_count_hit:
  "hit_count (ss_hits (count_hit op s)) k = hit_count (ss_hits s) k + (if k = op then 1 else 0)"
  by (simp add: count_hit_def hit_count_def update_conv')

text \<open>The server answers 200 to exactly the conformant requests and records every other one.\<close>

lemma spec_handle_cases:
  assumes "sr_method r = ''GET'' \<or> sr_method r = ''POST''" "op = OpKey (sr_method r) (sr_path r)"
  shows "if conformant M s r then spec_handle M None r s = (writeFixture s op, count_hit op s)
     else \<exists>rep f. spec_handle M None r s = (rep, recordFailure f (count_hit op s)) \<and>
       rp_status rep \<noteq> 200 \<and> f_Op f = op"
proof (cases "map_of (Operations (ss_Spec s)) op")
  case None
  then have "\<not> conformant M s r" by (simp add: conformant_def assms(2))
  moreover have "spec_handle M None r s =
      (writeJSONError M 404 ''PARAMS_WRONG'' (''operation '' @ op @ '' not in pinned spec''),
       recordFailure (blank_failure\<lparr>f_Op := op, f_SpecPath := spec_Path (ss_Spec s),
         f_Reason := ''operation not declared in pinned spec''\<rparr>) (count_hit op s))"
    using None by (simp add: spec_handle_def Spec_Op_def Let_def assms(2))
  ultimately show ?thesis by (auto simp: blank_failure_def)
next
  case (Some spop)
  define keep where "keep = filter (\<lambda>p. p \<notin> set (skip_set s (OpKey (op_Method spop) (op_Path spop))))"
  have eff: "effectiveRequired (count_hit op s) spop =
      (keep (RequiredBody spop), keep (RequiredQuery spop), keep (RequiredHeader spop))"
    by (simp add: effectiveRequired_filter keep_def Let_def)
  have conf: "conformant M s r \<longleftrightarrow>
      missing_name (\<lambda>n. header_get n (sr_header r)) (keep (RequiredHeader spop)) = None \<and>
      (sr_method r = ''GET'' \<longrightarrow> missing_name (query_get r) (keep (RequiredQuery spop)) = None) \<and>
      (sr_method r = ''POST'' \<longrightarrow> ''Encrypt'' \<in> set (keep (RequiredHeader spop)) \<or>
         ValidateBody (se_json M) (take (2 ^ 20) (sr_body r)) (keep (RequiredBody spop)) = Inr [])"
    using Some unfolding conformant_def assms(2) keep_def by (simp add: missing_name_None Let_def)
  have lookup: "Spec_Op (Some (ss_Spec s)) (sr_method r) (sr_path r) = Some spop"
    using Some by (simp add: Spec_Op_def assms(2))
  show ?thesis
    using assms(1) unfolding conf spec_handle_def check_post_def Let_def assms(2) [symmetric] count_hit_simps lookup
    by (auto simp: eff blank_failure_def split: option.splits sum.splits)
qed

section \<open>A run of the table\<close>

text \<open>The requests a case sends, handled one after the other.\<close>

fun talk :: "spec_env \<Rightarrow> server_request list \<Rightarrow> specServer \<Rightarrow> specServer" where
  "talk M [] s = s"
| "talk M (r # rs) s = talk M rs (snd (spec_handle M None r s))"

definition plain_method :: "server_request \<Rightarrow> bool" where
  "plain_method r \<longleftrightarrow> sr_method r = ''GET'' \<or> sr_method r = ''POST''"

lemma spec_handle_step:
  assumes "plain_method r"
  obtains fs where "length fs = (if conformant M s r then 0 else 1)"
    and "ss_failures (snd (spec_handle M None r s)) = ss_failures s @ fs"
    and "ss_Spec (snd (spec_handle M None r s)) = ss_Spec s"
    and "ss_skipReq (snd (spec_handle M None r s)) = ss_skipReq s"
    and "\<And>k. hit_count (ss_hits (snd (spec_handle M None r s))) k =
      hit_count (ss_hits s) k + (if k = OpKey (sr_method r) (sr_path r) then 1 else 0)"
proof (cases "conformant M s r")
  case True
  with spec_handle_cases [of r _ M s] assms show ?thesis
    by (intro that [of "[]"]) (auto simp: plain_method_def hit_count_count_hit)
next
  case False
  with spec_handle_cases [of r _ M s] assms obtain rep f where
    "spec_handle M None r s = (rep, recordFailure f (count_hit (OpKey (sr_method r) (sr_path r)) s))"
    by (auto simp: plain_method_def)
  with False show ?thesis by (intro that [of "[f]"]) (auto simp: hit_count_count_hit)
qed

lemma talk_facts:
  assumes "\<forall>r \<in> set rs. plain_method r"
  shows "\<exists>fs. ss_failures (talk M rs s) = ss_failures s @ fs \<and> (fs = [] \<longleftrightarrow> (\<forall>r \<in> set rs. conformant M s r)) \<and>
     ss_Spec (talk M rs s) = ss_Spec s \<and> ss_skipReq (talk M rs s) = ss_skipReq s \<and>
     (\<forall>k. hit_count (ss_hits (talk M rs s)) k =
        hit_count (ss_hits s) k + length (filter (\<lambda>r. OpKey (sr_method r) (sr_path r) = k) rs))"
  using assms
proof (induction rs arbitrary: s)
  case (Cons r rs)
  obtain fs where step: "length fs = (if conformant M s r then 0 else 1)"
    "ss_failures (snd (spec_handle M None r s)) = ss_failures s @ fs"
    "ss_Spec (snd (spec_handle M None r s)) = ss_Spec s"
    "ss_skipReq (snd (spec_handle M None r s)) = ss_skipReq s"
    "\<And>k. hit_count (ss_hits (snd (spec_handle M None r s))) k =
      hit_count (ss_hits s) k + (if k = OpKey (sr_method r) (sr_path r) then 1 else 0)"
    by (rule spec_handle_step [of r M s]) (use Cons.prems in simp, rule that)
  then have cong: "conformant M (snd (spec_handle M None r s)) q = conformant M s q" for q
    by (intro conformant_cong) simp_all
  from Cons.prems have "\<forall>q \<in> set rs. plain_method q" by simp
  from Cons.IH [OF this, of "snd (spec_handle M None r s)", unfolded cong step(2-5)]
  obtain gs where "ss_failures (talk M (r # rs) s) = ss_failures s @ fs @ gs"
    and gs: "gs = [] \<longleftrightarrow> (\<forall>q \<in> set rs. conformant M s q)"
    and "ss_Spec (talk M (r # rs) s) = ss_Spec s" "ss_skipReq (talk M (r # rs) s) = ss_skipReq s"
    and hits: "\<forall>k. hit_count (ss_hits (talk M (r # rs) s)) k =
        hit_count (ss_hits s) k + (if k = OpKey (sr_method r) (sr_path r) then 1 else 0) +
        length (filter (\<lambda>q. OpKey (sr_method q) (sr_path q) = k) rs)"
    by (simp only: talk.simps append_assoc) blast
  moreover have "fs @ gs = [] \<longleftrightarrow> (\<forall>q \<in> set (r # rs). conformant M s q)"
    using step(1) gs by (cases "conformant M s r") auto
  ultimately show ?case by (intro exI [of _ "fs @ gs"] conjI) simp_all
qed simp

text \<open>A case whose client only sends requests to the server, with a verb the server knows.\<close>

definition drives ::
  "spec_env \<Rightarrow> client \<Rightarrow> (spec_case \<Rightarrow> specServer \<Rightarrow> server_request list) \<Rightarrow> spec_case \<Rightarrow> bool" where
  "drives M cl reqs c \<longleftrightarrow>
     (\<forall>s. fst (case_Run c cl s) = talk M (reqs c s) s \<and> (\<forall>r \<in> set (reqs c s). plain_method r))"

abbreviation state_before ::
  "(string \<Rightarrow> string) \<Rightarrow> client \<Rightarrow> spec_case list \<Rightarrow> specServer \<Rightarrow> nat \<Rightarrow> specServer" where
  "state_before quote cl cases srv i \<equiv> fst (run_all quote cl (take i cases) srv)"

lemma fst_run_case: "fst (run_case quote cl c s) = fst (case_Run c cl s)"
  by (simp add: run_case_def Let_def split: prod.split option.split)

lemma run_all_nth:
  "i < length cases \<Longrightarrow> snd (run_all quote cl cases s) ! i =
     (sanitizeName (case_Op (cases ! i)), snd (run_case quote cl (cases ! i) (state_before quote cl cases s i)))"
proof (induction cases arbitrary: i s)
  case (Cons c cs)
  then show ?case by (cases i) (simp_all add: case_prod_beta)
qed simp

lemma fst_run_all_snoc:
  "fst (run_all quote cl (cs @ [c]) s) = fst (case_Run c cl (fst (run_all quote cl cs s)))"
proof (induction cs arbitrary: s)
  case Nil
  then show ?case using fst_run_case [of quote cl c s] by (auto split: prod.splits)
next
  case (Cons d cs)
  then show ?case by (auto split: prod.splits) (metis fst_conv)
qed

lemma state_before_Suc:
  assumes "i < length cases" "\<forall>c \<in> set cases. drives M cl reqs c"
  shows "state_before quote cl cases srv (Suc i) =
    talk M (reqs (cases ! i) (state_before quote cl cases srv i)) (state_before quote cl cases srv i)"
proof -
  have "drives M cl reqs (cases ! i)" using assms by simp
  then show ?thesis
    using fst_run_all_snoc [of quote cl "take i cases" "cases ! i" srv]
    by (simp add: take_Suc_conv_app_nth [OF assms(1)] drives_def)
qed

lemma state_before_facts:
  assumes "i \<le> length cases" "\<forall>c \<in> set cases. drives M cl reqs c"
  shows "ss_Spec (state_before quote cl cases srv i) = ss_Spec srv \<and>
    ss_skipReq (state_before quote cl cases srv i) = ss_skipReq srv \<and>
    (hit_count (ss_hits (state_before quote cl cases srv i)) k = 0 \<longleftrightarrow> hit_count (ss_hits srv) k = 0 \<and>
      (\<forall>j < i. \<forall>r \<in> set (reqs (cases ! j) (state_before quote cl cases srv j)). OpKey (sr_method r) (sr_path r) \<noteq> k))"
  using assms(1)
proof (induction i)
  case (Suc i)
  let ?s = "state_before quote cl cases srv i"
  have i: "i < length cases" using Suc.prems by simp
  then have "\<forall>r \<in> set (reqs (cases ! i) ?s). plain_method r"
    using assms(2) nth_mem unfolding drives_def by blast
  from talk_facts [OF this, of M ?s] Suc show ?case
    by (auto simp: state_before_Suc [OF i assms(2)] filter_empty_conv less_Suc_eq)
qed simp

lemma prepare_cases_fresh:
  "prepare_cases quote readFile valid cs s = Inr srv \<Longrightarrow>
     ss_Spec srv = ss_Spec s \<and> ss_hits srv = ss_hits s \<and> ss_failures srv = ss_failures s"
proof (induction cs arbitrary: s)
  case (Cons c cs)
  obtain s1 where "(if case_Fixture c \<noteq> [] then SetFixture quote readFile valid (case_Op c) (case_Fixture c) s else Inr s) = Inr s1"
    and "prepare_cases quote readFile valid cs
      (if case_SkipRequired c \<noteq> [] then SkipRequired (case_Op c) (case_SkipRequired c) s1 else s1) = Inr srv"
    using Cons.prems by (auto split: sum.splits)
  with Cons.IH [of "if case_SkipRequired c \<noteq> [] then SkipRequired (case_Op c) (case_SkipRequired c) s1 else s1"]
  show ?case by (auto simp: SetFixture_def SkipRequired_def Let_def split: if_splits sum.splits)
qed simp

lemma run_case_clean:
  assumes "drives M cl reqs c"
  shows "snd (run_case quote cl c s) = [] \<longleftrightarrow> (\<forall>r \<in> set (reqs c s). conformant M s r) \<and>
    snd (case_Run c cl s) = None \<and> spec_Hits (talk M (reqs c s) s) (case_Op c) \<noteq> 0"
proof -
  obtain err where run: "case_Run c cl s = (talk M (reqs c s) s, err)"
    using assms by (metis drives_def prod.collapse)
  from assms talk_facts [of "reqs c s" M s] obtain fs where
    "ss_failures (talk M (reqs c s) s) = ss_failures s @ fs" "fs = [] \<longleftrightarrow> (\<forall>r \<in> set (reqs c s). conformant M s r)"
    by (auto simp: drives_def)
  then show ?thesis by (auto simp: run_case_def run Failures_def Let_def split: option.split)
qed

section \<open>Properties\<close>

text \<open>The test server's verdict on a GET or a POST it can read: it answers 200, with the fixture of the operation and
  without a new failure, exactly when the operation is declared and every required header, query
  parameter or body field that is not skipped is there, an operation with a required Encrypt
  header being excused from the body check; every other request gets another status and exactly
  one new failure under its operation.  Each request counts as one hit of its operation.\<close>

theorem spec_server_verdict:
  assumes "sr_method r = ''GET'' \<or> sr_method r = ''POST''"
    and "spec_handle M None r s = (rep, s')"
  defines "op \<equiv> OpKey (sr_method r) (sr_path r)"
  shows "(rp_status rep = 200 \<longleftrightarrow> conformant M s r) \<and>
    (conformant M s r \<longrightarrow> rep = writeFixture s op \<and> Failures s' = Failures s) \<and>
    (\<not> conformant M s r \<longrightarrow> (\<exists>f. Failures s' = Failures s @ [f] \<and> f_Op f = op)) \<and>
    (\<forall>k. hit_count (ss_hits s') k = hit_count (ss_hits s) k + (if k = op then 1 else 0))"
  using spec_handle_cases [OF assms(1), of op M s] assms(2)
  by (auto simp: op_def Failures_def hit_count_count_hit split: if_splits)

text \<open>C24. What a green run of the table means.  When every case only sends GETs and POSTs to the server, the subtest of a case
  has no report exactly when all its requests conform to the pinned spec, less the fields the table
  skips, the SDK returned no error, and some request of this or an earlier case went to the case's
  operation.\<close>

theorem RunCases_clean_iff:
  assumes "RunCases quote readFile valid (Inr sp) (Inr cl) cases = Inr (s', reports)"
    and "prepare_cases quote readFile valid cases (NewWithSpec sp) = Inr srv"
    and "\<forall>c \<in> set cases. drives M cl reqs c"
    and "i < length cases"
  shows "fst (reports ! i) = sanitizeName (case_Op (cases ! i)) \<and>
    (snd (reports ! i) = [] \<longleftrightarrow>
      (\<forall>r \<in> set (reqs (cases ! i) (state_before quote cl cases srv i)). conformant M srv r) \<and>
      snd (case_Run (cases ! i) cl (state_before quote cl cases srv i)) = None \<and>
      (\<exists>j \<le> i. \<exists>r \<in> set (reqs (cases ! j) (state_before quote cl cases srv j)).
         OpKey (sr_method r) (sr_path r) = spec_normalizeOpKey (case_Op (cases ! i))))"
proof -
  let ?s = "state_before quote cl cases srv i"
  have reports: "reports = snd (run_all quote cl cases srv)"
    using assms(1,2) by (auto simp: RunCases_def specserver_New_def)
  have conf: "conformant M ?s r = conformant M srv r" for r
    using state_before_facts [of i cases M cl reqs quote srv] assms(3,4) by (intro conformant_cong) auto
  have "hit_count (ss_hits srv) k = 0" for k
    using prepare_cases_fresh [OF assms(2)] by (simp add: NewWithSpec_def hit_count_def)
  then have hits: "spec_Hits (talk M (reqs (cases ! i) ?s) ?s) op \<noteq> 0 \<longleftrightarrow>
      (\<exists>j \<le> i. \<exists>r \<in> set (reqs (cases ! j) (state_before quote cl cases srv j)).
         OpKey (sr_method r) (sr_path r) = spec_normalizeOpKey op)" for op
    using state_before_facts [of "Suc i" cases M cl reqs quote srv "spec_normalizeOpKey op"] assms(3,4)
    by (simp add: spec_Hits_def state_before_Suc [OF assms(4,3)] less_Suc_eq_le)
  have "drives M cl reqs (cases ! i)" using assms(3,4) by simp
  from run_case_clean [OF this, of quote ?s] show ?thesis
    unfolding reports run_all_nth [OF assms(4)] conf hits by simp
qed

section \<open>Instances\<close>

definition sample_spec_env :: spec_env where
  "sample_spec_env = \<lparr>se_json = (\<lambda>b. Inr JNull), se_error_json = (\<lambda>c m. c @ m), se_quote = id\<rparr>"

definition sample_x_op :: operation where
  "sample_x_op = \<lparr>op_Method = ''GET'', op_Path = ''/x'', RequiredBody = [], RequiredQuery = [''a''], RequiredHeader = []\<rparr>"

definition sample_x_spec :: spec where
  "sample_x_spec = \<lparr>spec_Path = ''spec.yaml'', Operations = [(''GET /x'', sample_x_op)],
     raw = \<lparr>Paths = [], RequestBodies = [], Schemas = []\<rparr>\<rparr>"

definition sample_x_get :: "string \<Rightarrow> server_request" where
  "sample_x_get q = \<lparr>sr_method = ''GET'', sr_path = ''/x'', sr_query = q, sr_header = [], sr_body = [], sr_ctx = None\<rparr>"

lemma sample_x_key: "OpKey (sr_method (sample_x_get q)) (sr_path (sample_x_get q)) = ''GET /x''"
  by (simp add: sample_x_get_def OpKey_def to_upper_def is_lower_def)

lemma sample_x_query: "query_get (sample_x_get ''a=1'') ''a'' \<noteq> []" "query_get (sample_x_get ''b=1'') ''a'' = []"
  by code_simp+

lemma sample_x_conformant:
  assumes "ss_Spec s = sample_x_spec" "ss_skipReq s = []"
  shows "conformant sample_spec_env s (sample_x_get q) \<longleftrightarrow> query_get (sample_x_get q) ''a'' \<noteq> []"
  unfolding conformant_def sample_x_key assms(1)
  by (simp add: sample_x_spec_def sample_x_op_def skip_set_def assms(2)) (simp add: sample_x_get_def)

text \<open>A query without the required parameter is refused and recorded.\<close>

theorem spec_server_verdict_witness:
  "rp_status (fst (spec_handle sample_spec_env None (sample_x_get ''b=1'') (NewWithSpec sample_x_spec))) \<noteq> 200 \<and>
   length (Failures (snd (spec_handle sample_spec_env None (sample_x_get ''b=1'') (NewWithSpec sample_x_spec)))) = 1"
proof -
  let ?s = "NewWithSpec sample_x_spec"
  have "\<not> conformant sample_spec_env ?s (sample_x_get ''b=1'')"
    using sample_x_conformant [of ?s] sample_x_query by (simp add: NewWithSpec_def)
  moreover have "sr_method (sample_x_get ''b=1'') = ''GET'' \<or> sr_method (sample_x_get ''b=1'') = ''POST''"
    by (simp add: sample_x_get_def)
  ultimately show ?thesis
    using spec_server_verdict [of "sample_x_get ''b=1''" sample_spec_env ?s] 
    by (cases "spec_handle sample_spec_env None (sample_x_get ''b=1'') ?s") (auto simp: Failures_def NewWithSpec_def)
qed

text \<open>Two cases of one operation: the second sends nothing and still passes, on the hit of the first.\<close>

definition sample_cases :: "spec_case list" where
  "sample_cases =
     [\<lparr>case_Op = ''GET /x'', case_Run = (\<lambda>cl s. (talk sample_spec_env [sample_x_get ''a=1''] s, None)),
       case_Fixture = [], case_SkipRequired = []\<rparr>,
      \<lparr>case_Op = ''get /x'', case_Run = (\<lambda>cl s. (s, None)), case_Fixture = [], case_SkipRequired = []\<rparr>]"

definition sample_reqs :: "spec_case \<Rightarrow> specServer \<Rightarrow> server_request list" where
  "sample_reqs c s = (if case_Op c = ''GET /x'' then [sample_x_get ''a=1''] else [])"

theorem RunCases_clean_iff_witness:
  "\<exists>s' reports. RunCases id (\<lambda>p. Inl ContextCanceled) (\<lambda>d. True) (Inr sample_x_spec) (Inr sample_client) sample_cases =
     Inr (s', reports) \<and> snd (reports ! 1) = []"
proof -
  let ?srv = "NewWithSpec sample_x_spec"
  have prep: "prepare_cases id (\<lambda>p. Inl ContextCanceled) (\<lambda>d. True) sample_cases ?srv = Inr ?srv"
    by (simp add: sample_cases_def)
  obtain s' reports where run: "RunCases id (\<lambda>p. Inl ContextCanceled) (\<lambda>d. True) (Inr sample_x_spec) (Inr sample_client)
      sample_cases = Inr (s', reports)"
    using prep by (cases "run_all id sample_client sample_cases ?srv") (simp add: RunCases_def specserver_New_def)
  have "\<forall>c \<in> set sample_cases. drives sample_spec_env sample_client sample_reqs c"
    by (simp add: sample_cases_def drives_def sample_reqs_def plain_method_def sample_x_get_def)
  from RunCases_clean_iff [OF run prep this, of 1]
  have "snd (reports ! 1) = [] \<longleftrightarrow> (\<exists>j \<le> 1. \<exists>r \<in> set (sample_reqs (sample_cases ! j)
        (state_before id sample_client sample_cases ?srv j)).
      OpKey (sr_method r) (sr_path r) = spec_normalizeOpKey (case_Op (sample_cases ! 1)))"
    by (simp add: sample_cases_def sample_reqs_def)
  moreover have "spec_normalizeOpKey (case_Op (sample_cases ! 1)) = ''GET /x''"
    by (simp add: sample_cases_def spec_normalizeOpKey_def) code_simp
  moreover have "sample_reqs (sample_cases ! 0) s = [sample_x_get ''a=1'']" for s
    by (simp add: sample_cases_def sample_reqs_def)
  ultimately have "snd (reports ! 1) = []" using sample_x_key by (auto intro!: exI [of _ 0])
  with run show ?thesis by blast
qed

end
