(* ===== verification/Request_Id.thy ===== *)
theory Request_Id
  imports Go_Strings
begin

text \<open>
  src/atomefin/request_id.go: the identifier the SDK mints when a request has
  none.  The clock and the random source are arguments: \<open>ms\<close> is the uint64
  made of time.Now().UnixMilli(), \<open>filled\<close> the ten bytes buf[6:] holds after
  rand.Read, \<open>read_err\<close> whether rand.Read returned an error.  The lemmas show
  that the big-endian layout and the hexadecimal text keep the order of time.
\<close>

unbundle bit_operations_syntax

section \<open>Model\<close>

text \<open>A Go conversion \<open>byte(w)\<close>: the low eight bits of the word.\<close>

definition low_byte :: "64 word \<Rightarrow> char" where
  "low_byte w = char_of (unat w)"

definition time_bytes :: "64 word \<Rightarrow> bytes" where
  "time_bytes ms =
     [low_byte (drop_bit 40 ms), low_byte (drop_bit 32 ms), low_byte (drop_bit 24 ms),
      low_byte (drop_bit 16 ms), low_byte (drop_bit 8 ms), low_byte ms]"

text \<open>binary.BigEndian.PutUint64\<close>

definition PutUint64 :: "64 word \<Rightarrow> bytes" where
  "PutUint64 w =
     [low_byte (drop_bit 56 w), low_byte (drop_bit 48 w), low_byte (drop_bit 40 w),
      low_byte (drop_bit 32 w), low_byte (drop_bit 24 w), low_byte (drop_bit 16 w),
      low_byte (drop_bit 8 w), low_byte w]"

definition DefaultRequestID :: "64 word \<Rightarrow> bytes \<Rightarrow> bool \<Rightarrow> string" where
  "DefaultRequestID ms filled read_err =
     (let buf = time_bytes ms @ filled;
          buf = (if read_err then take 8 buf @ PutUint64 ms else buf)
      in hex_encode buf)"

section \<open>Order of byte strings\<close>

definition big_endian :: "nat \<Rightarrow> nat \<Rightarrow> bytes" where
  "big_endian k n = map (\<lambda>i. char_of (n div 256 ^ i)) (rev [0..<k])"

lemma char_of_less_iff: "m < 256 \<Longrightarrow> n < 256 \<Longrightarrow> (char_of m :: char) < char_of n \<longleftrightarrow> m < (n :: nat)"
  by (simp add: less_char_def)

lemma big_endian_Suc:
  "big_endian (Suc k) n = char_of (n div 256 ^ k) # big_endian k (n mod 256 ^ k)"
proof -
  have "(char_of (n div 256 ^ i) :: char) = char_of (n mod 256 ^ k div 256 ^ i)" if "i < k" for i
  proof -
    have "n mod 256 ^ k div 256 ^ i mod 256 = n div 256 ^ i mod 256"
    proof -
      have k: "(256 :: nat) ^ k = 256 ^ i * 256 ^ (k - i)"
        using that by (simp flip: power_add)
      have "(256 :: nat) dvd 256 ^ (k - i)" using that by (simp add: dvd_power)
      then show ?thesis
        by (simp only: k mod_mult2_eq) (simp add: div_mult_self1 mod_mod_cancel)
    qed
    then show ?thesis by (metis char_of_mod_256)
  qed
  then show ?thesis by (simp add: big_endian_def)
qed

lemma big_endian_less:
  "m < n \<Longrightarrow> n < 256 ^ k \<Longrightarrow> big_endian k m < big_endian k n"
proof (induction k arbitrary: m n)
  case (Suc k)
  have hi: "m div 256 ^ k < 256" "n div 256 ^ k < 256"
    using Suc.prems by (simp_all add: less_mult_imp_div_less)
  show ?case
  proof (cases "m div 256 ^ k = n div 256 ^ k")
    case True
    then have "m mod 256 ^ k < n mod 256 ^ k"
      using Suc.prems(1) by (metis add_less_cancel_left div_mult_mod_eq)
    with Suc.IH [of "m mod 256 ^ k" "n mod 256 ^ k"] True show ?thesis
      by (simp add: big_endian_Suc)
  next
    case False
    then have "m div 256 ^ k < n div 256 ^ k"
      using Suc.prems(1) by (meson div_le_mono le_neq_implies_less less_imp_le)
    with hi show ?thesis by (simp add: big_endian_Suc char_of_less_iff)
  qed
qed simp

lemma lowerhex_less: "m < 16 \<Longrightarrow> n < 16 \<Longrightarrow> lowerhex ! m < lowerhex ! n \<longleftrightarrow> m < n"
  by (drule less_16_cases, drule less_16_cases) (auto simp: lowerhex_def less_char_def)

lemma lowerhex_eq: "m < 16 \<Longrightarrow> n < 16 \<Longrightarrow> lowerhex ! m = lowerhex ! n \<longleftrightarrow> m = n"
  by (metis unhex_lowerhex option.inject)

lemma nibbles_eq: "(m :: nat) = n \<longleftrightarrow> m div 16 = n div 16 \<and> m mod 16 = n mod 16"
  by (metis div_mult_mod_eq)

lemma nibbles_less:
  "(m :: nat) < n \<longleftrightarrow> m div 16 < n div 16 \<or> m div 16 = n div 16 \<and> m mod 16 < n mod 16"
proof -
  have "m = 16 * (m div 16) + m mod 16" "n = 16 * (n div 16) + n mod 16" by simp_all
  moreover have "m mod 16 < 16" "n mod 16 < 16" by simp_all
  ultimately show ?thesis by linarith
qed

text \<open>The hexadecimal text of two byte strings is ordered as the byte strings are.\<close>

lemma hex_encode_less: "hex_encode a < hex_encode b \<longleftrightarrow> a < b"
proof (induction a arbitrary: b)
  case Nil
  then show ?case by (cases b) auto
next
  case (Cons x xs)
  show ?case
  proof (cases b)
    case (Cons y ys)
    have bound: "code x div 16 < 16" "code y div 16 < 16" "code x mod 16 < 16" "code y mod 16 < 16"
      by (simp_all add: less_mult_imp_div_less nat_of_char_less_256)
    have eq: "x = y \<longleftrightarrow> code x div 16 = code y div 16 \<and> code x mod 16 = code y mod 16"
      unfolding char_eq_code_iff [of x y] by (rule nibbles_eq)
    have less: "x < y \<longleftrightarrow> code x div 16 < code y div 16 \<or>
        code x div 16 = code y div 16 \<and> code x mod 16 < code y mod 16"
      unfolding less_char_def by (rule nibbles_less)
    show ?thesis
      unfolding Cons hex_encode.simps Cons_less_Cons lowerhex_less [OF bound(1,2)]
        lowerhex_less [OF bound(3,4)] lowerhex_eq [OF bound(1,2)] lowerhex_eq [OF bound(3,4)]
        eq less Cons.IH by blast
  qed simp
qed

section \<open>The identifier\<close>

lemma low_byte_drop: "low_byte (drop_bit k w) = char_of (unat w div 2 ^ k)"
  unfolding low_byte_def unat_drop_bit_eq by (simp only: drop_bit_eq_div)

lemma time_bytes_big_endian: "time_bytes ms = big_endian 6 (unat ms)"
  by (simp add: time_bytes_def big_endian_def low_byte_drop) (simp add: low_byte_def upt_rec)

lemma length_time_bytes [simp]: "length (time_bytes ms) = 6"
  by (simp add: time_bytes_def)

lemma DefaultRequestID_split:
  "DefaultRequestID ms filled read_err =
     hex_encode (time_bytes ms) @
     hex_encode (if read_err then take 2 filled @ PutUint64 ms else filled)"
  by (simp add: DefaultRequestID_def hex_encode_append)

lemma earlier_id_less:
  assumes "unat ms < unat ms'" "unat ms' < 2 ^ 48"
  shows "DefaultRequestID ms filled e < DefaultRequestID ms' filled' e'"
proof -
  have less: "time_bytes ms < time_bytes ms'"
    using big_endian_less [of "unat ms" "unat ms'" 6] assms by (simp add: time_bytes_big_endian)
  have "time_bytes ms @ xs < time_bytes ms' @ ys" for xs ys
    using less by (simp add: time_bytes_def) (auto split: if_splits)
  then show ?thesis
    by (simp add: DefaultRequestID_split hex_encode_less flip: hex_encode_append)
qed

text \<open>C38. The identifier minted for a request is 32 lower-case hexadecimal
  characters, well under the limit of 64, whether or not the random source
  answers; identifiers of later milliseconds are greater as strings, for every
  clock value that fits 48 bits; and two identifiers of one millisecond with a
  working random source are equal only when the ten random bytes are.\<close>

theorem DefaultRequestID_sortable:
  assumes "length filled = 10" "length filled' = 10"
  shows "length (DefaultRequestID ms filled e) = 32 \<and>
     set (DefaultRequestID ms filled e) \<subseteq> set ''0123456789abcdef'' \<and>
     (unat ms < unat ms' \<and> unat ms' < 2 ^ 48 \<longrightarrow>
        DefaultRequestID ms filled e < DefaultRequestID ms' filled' e') \<and>
     (DefaultRequestID ms filled False = DefaultRequestID ms filled' False \<longleftrightarrow> filled = filled')"
proof (intro conjI impI)
  show "length (DefaultRequestID ms filled e) = 32"
    using assms by (simp add: DefaultRequestID_split PutUint64_def)
  show "set (DefaultRequestID ms filled e) \<subseteq> set ''0123456789abcdef''"
    using hex_encode_chars unfolding DefaultRequestID_def Let_def lowerhex_def by blast
qed (use earlier_id_less in \<open>auto simp: DefaultRequestID_split hex_encode_inj\<close>)

text \<open>Two identifiers minted one millisecond apart, the second without randomness.\<close>

theorem DefaultRequestID_sortable_witness:
  "length (DefaultRequestID 1700000000000 ''abcdefghij'' False) = 32 \<and>
   DefaultRequestID 1700000000000 ''abcdefghij'' False <
     DefaultRequestID 1700000000001 ''ABCDEFGHIJ'' True"
  using DefaultRequestID_sortable [of "''abcdefghij''" "''ABCDEFGHIJ''" 1700000000000 False
    1700000000001 True] by simp

end
