(* ===== verification/Log_Redaction.thy ===== *)
theory Log_Redaction
  imports Go_Strings
begin

text \<open>
  The logging side of src/atomefin/transport: the redaction of headers
  (logging.go) and the slog adapter that redacts key/value arguments (slog.go).
  An slog argument is a string or some other value; \<open>'v\<close> stands for the other
  Go values, which the code only passes on.  The Unicode part of
  strings.ToLower, which acts on strings with a byte of 0x80 or more, is the
  argument \<open>uni\<close>; on ASCII strings the function is defined here.
\<close>

section \<open>Model\<close>

definition RedactedAuthorization :: string where
  "RedactedAuthorization = ''[REDACTED]''"

definition isSensitiveHeader :: "string \<Rightarrow> bool" where
  "isSensitiveHeader name \<longleftrightarrow> CanonicalHeaderKey name \<in>
     {''Authorization'', ''Cookie'', ''Set-Cookie'', ''Proxy-Authorization'', ''Sessionid''}"

fun RedactHeaders :: "header \<Rightarrow> header" where
  "RedactHeaders [] = []"
| "RedactHeaders ((k, v) # h) =
     (if isSensitiveHeader k then (k, [RedactedAuthorization]) # RedactHeaders h
      else (k, v) # RedactHeaders h)"

datatype 'v log_arg = ArgString string | ArgOther 'v

definition ToLower :: "(string \<Rightarrow> string) \<Rightarrow> string \<Rightarrow> string" where
  "ToLower uni s = (if \<forall>c \<in> set s. code c < 128 then map to_lower s else uni s)"

definition isSensitiveLogKey :: "(string \<Rightarrow> string) \<Rightarrow> string \<Rightarrow> bool" where
  "isSensitiveLogKey uni k \<longleftrightarrow> ToLower uni k \<in>
     {''authorization'', ''auth'', ''cookie'', ''set-cookie'', ''proxy-authorization'',
      ''sessionid'', ''session_id'', ''session-id'', ''shipping_name'', ''shippingname'',
      ''shipping_phone_no'', ''shippingphoneno'', ''external_reference_uid'',
      ''externalreferenceuid''}"

text \<open>The loop with i and i + 1 over the copy; a last unpaired element is passed through.\<close>

fun redactKVs :: "(string \<Rightarrow> string) \<Rightarrow> 'v log_arg list \<Rightarrow> 'v log_arg list" where
  "redactKVs uni (k # v # kv) =
     (case k of
        ArgString s \<Rightarrow>
          (if isSensitiveLogKey uni s then k # ArgString RedactedAuthorization # redactKVs uni kv
           else k # v # redactKVs uni kv)
      | ArgOther _ \<Rightarrow> k # v # redactKVs uni kv)"
| "redactKVs uni kv = kv"

datatype slog_level = SlogDebug | SlogInfo | SlogWarn | SlogError

text \<open>An *slog.Logger is what it does with one call; nil is None.\<close>

type_synonym ('v, 'out) slog_logger = "slog_level \<Rightarrow> string \<Rightarrow> 'v log_arg list \<Rightarrow> 'out"

record ('v, 'out) slogAdapter =
  l :: "('v, 'out) slog_logger"

definition NewSlogLogger ::
  "('v, 'out) slog_logger \<Rightarrow> ('v, 'out) slog_logger option \<Rightarrow> ('v, 'out) slogAdapter" where
  "NewSlogLogger slog_Default lg = \<lparr> l = (case lg of None \<Rightarrow> slog_Default | Some x \<Rightarrow> x) \<rparr>"

definition slogAdapter_log ::
  "(string \<Rightarrow> string) \<Rightarrow> ('v, 'out) slogAdapter \<Rightarrow> slog_level \<Rightarrow> string \<Rightarrow> 'v log_arg list \<Rightarrow> 'out" where
  "slogAdapter_log uni a lv msg kv = l a lv msg (redactKVs uni kv)"

section \<open>Names in any case\<close>

lemma to_lower_to_upper: "to_lower (to_upper c) = to_lower c"
  by (auto simp: to_upper_def to_lower_def is_lower_def is_upper_def)

lemma map_to_lower_canon: "map to_lower (canon_loop up s) = map to_lower s"
  by (induction s arbitrary: up) (simp_all add: to_lower_to_upper to_upper_lower_simps)

lemma canon_loop_lower: "canon_loop up (map to_lower s) = canon_loop up s"
proof (induction s arbitrary: up)
  case (Cons c s)
  have "to_upper (to_lower c) = to_upper c"
    by (auto simp: to_upper_def to_lower_def is_lower_def is_upper_def)
  then show ?case using Cons by (simp add: to_upper_lower_simps to_lower_hyphen)
qed simp

lemma valid_header_byte_lower: "valid_header_byte (to_lower c) \<longleftrightarrow> valid_header_byte c"
  using valid_header_byte_case [of c]
  by (cases "is_upper c") (auto simp: to_lower_def valid_header_byte_def)

lemma lower_CanonicalHeaderKey: "map to_lower (CanonicalHeaderKey k) = map to_lower k"
  by (simp add: CanonicalHeaderKey_def map_to_lower_canon)

lemma CanonicalHeaderKey_lower:
  assumes "\<forall>c \<in> set (map to_lower k). valid_header_byte c"
  shows "CanonicalHeaderKey k = canon_loop True (map to_lower k)"
  using assms by (simp add: CanonicalHeaderKey_def canon_loop_lower valid_header_byte_lower)

lemma lower_sensitive:
  "map to_lower ''Authorization'' = ''authorization''" "map to_lower ''Cookie'' = ''cookie''"
  "map to_lower ''Set-Cookie'' = ''set-cookie''" "map to_lower ''Sessionid'' = ''sessionid''"
  "map to_lower ''Proxy-Authorization'' = ''proxy-authorization''"
  by (simp_all add: to_lower_def to_upper_def is_upper_def is_lower_def char_eq_code_iff)

lemma canon_sensitive:
  "canon_loop True ''authorization'' = ''Authorization''" "canon_loop True ''cookie'' = ''Cookie''"
  "canon_loop True ''set-cookie'' = ''Set-Cookie''" "canon_loop True ''sessionid'' = ''Sessionid''"
  "canon_loop True ''proxy-authorization'' = ''Proxy-Authorization''"
  by (simp_all add: to_lower_def to_upper_def is_upper_def is_lower_def char_eq_code_iff)

lemma valid_sensitive:
  "list_all valid_header_byte ''authorization''" "list_all valid_header_byte ''cookie''"
  "list_all valid_header_byte ''set-cookie''" "list_all valid_header_byte ''sessionid''"
  "list_all valid_header_byte ''proxy-authorization''"
  by (simp_all add: valid_header_byte_def is_upper_def is_lower_def is_digit_def)

lemma isSensitiveHeader_iff:
  "isSensitiveHeader k \<longleftrightarrow> map to_lower k \<in>
     {''authorization'', ''cookie'', ''set-cookie'', ''proxy-authorization'', ''sessionid''}"
    (is "_ \<longleftrightarrow> _ \<in> ?S")
proof
  assume "isSensitiveHeader k"
  then have "map to_lower (CanonicalHeaderKey k) \<in> ?S"
    unfolding isSensitiveHeader_def by (elim insertE emptyE) (simp_all only: lower_sensitive insert_iff simp_thms)
  then show "map to_lower k \<in> ?S" by (simp only: lower_CanonicalHeaderKey)
next
  assume S: "map to_lower k \<in> ?S"
  then have "list_all valid_header_byte (map to_lower k)"
    by (elim insertE emptyE) (simp_all only: valid_sensitive)
  then have "CanonicalHeaderKey k = canon_loop True (map to_lower k)"
    by (intro CanonicalHeaderKey_lower) (simp only: list_all_iff)
  with S show "isSensitiveHeader k" unfolding isSensitiveHeader_def
    by (elim insertE emptyE) (simp_all only: canon_sensitive insert_iff simp_thms)
qed

lemma ToLower_ascii: "\<forall>c \<in> set (map to_lower s). code c < 128 \<Longrightarrow> ToLower uni s = map to_lower s"
  by (force simp: ToLower_def to_lower_def is_upper_def)

lemma header_key_is_log_key: "isSensitiveHeader k \<Longrightarrow> isSensitiveLogKey uni k"
proof -
  assume "isSensitiveHeader k"
  then have S: "map to_lower k \<in> {''authorization'', ''cookie'', ''set-cookie'',
      ''proxy-authorization'', ''sessionid''}"
    by (simp only: isSensitiveHeader_iff)
  then have "ToLower uni k = map to_lower k" by (intro ToLower_ascii) auto
  with S show ?thesis unfolding isSensitiveLogKey_def by auto
qed

section \<open>What reaches a log\<close>

lemma map_fst_RedactHeaders: "map fst (RedactHeaders h) = map fst h"
  by (induction h rule: RedactHeaders.induct) auto

lemma length_redactKVs [simp]: "length (redactKVs uni kv) = length kv"
  by (induction uni kv rule: redactKVs.induct) (auto split: log_arg.split)

lemma redactKVs_short [simp]:
  "redactKVs uni kv = [] \<longleftrightarrow> kv = []" "[] = redactKVs uni kv \<longleftrightarrow> kv = []"
  "redactKVs uni kv = [v] \<longleftrightarrow> kv = [v]" "[v] = redactKVs uni kv \<longleftrightarrow> kv = [v]"
  by (induction uni kv rule: redactKVs.induct) (auto split: log_arg.splits)

text \<open>Two argument lists a reader of the log must not tell apart: they differ
  only in values that follow a sensitive key.\<close>

fun same_public :: "(string \<Rightarrow> string) \<Rightarrow> 'v log_arg list \<Rightarrow> 'v log_arg list \<Rightarrow> bool" where
  "same_public uni (k # v # kv) (k' # v' # kv') \<longleftrightarrow> k = k' \<and>
     (v = v' \<or> (\<exists>s. k = ArgString s \<and> isSensitiveLogKey uni s)) \<and> same_public uni kv kv'"
| "same_public uni kv kv' \<longleftrightarrow> kv = kv'"

lemma redactKVs_same_public: "same_public uni kv kv' \<Longrightarrow> redactKVs uni kv = redactKVs uni kv'"
  by (induction uni kv kv' rule: same_public.induct) (auto split: log_arg.splits)

lemma same_public_redactKVs:
  "redactKVs uni kv = redactKVs uni kv' \<Longrightarrow> same_public uni kv kv'"
  by (induction uni kv kv' rule: same_public.induct)
     (auto split: log_arg.splits if_splits)

lemma RedactHeaders_eq_iff:
  "RedactHeaders h = RedactHeaders h' \<longleftrightarrow> map fst h = map fst h' \<and>
     (\<forall>i < length h. isSensitiveHeader (fst (h ! i)) \<or> h ! i = h' ! i)"
proof (induction h arbitrary: h' rule: RedactHeaders.induct)
  case 1
  then show ?case by (cases h' rule: RedactHeaders.cases) auto
next
  case (2 k v h)
  show ?case
  proof (cases h')
    case (Cons p ps)
    then show ?thesis
      using 2 by (cases p) (auto simp: All_less_Suc2)
  qed simp
qed

text \<open>C37. Redaction hides exactly the sensitive values.  Two header maps give the
  same redacted headers exactly when they have the same names and the same
  values under every name that is not Authorization, Cookie, Set-Cookie,
  Proxy-Authorization or Sessionid, in whatever letter case; two slog argument
  lists give the logger the same arguments exactly when they differ only in
  values behind a sensitive key, and every sensitive header name is such a key.\<close>

theorem redaction_hides_exactly:
  "(RedactHeaders h = RedactHeaders h' \<longleftrightarrow> map fst h = map fst h' \<and>
      (\<forall>i < length h. map to_lower (fst (h ! i)) \<in>
         {''authorization'', ''cookie'', ''set-cookie'', ''proxy-authorization'', ''sessionid''} \<or>
         h ! i = h' ! i)) \<and>
   (redactKVs uni kv = redactKVs uni kv' \<longleftrightarrow> same_public uni kv kv') \<and>
   slogAdapter_log uni (NewSlogLogger dflt (Some lg)) lv msg kv = lg lv msg (redactKVs uni kv) \<and>
   (isSensitiveHeader k \<longrightarrow> isSensitiveLogKey uni k)"
  unfolding RedactHeaders_eq_iff isSensitiveHeader_iff [symmetric]
  by (auto simp: slogAdapter_log_def NewSlogLogger_def
    intro: redactKVs_same_public same_public_redactKVs header_key_is_log_key)

text \<open>A bearer token and a session id under odd spellings.\<close>

theorem redaction_hides_exactly_witness:
  "isSensitiveHeader ''AUTHORIZATION'' \<and> isSensitiveLogKey id ''AUTHORIZATION''"
proof -
  have "isSensitiveHeader ''AUTHORIZATION''"
    by code_simp
  then show ?thesis
    using redaction_hides_exactly [of "[]" "[]" id "[]" "[]" "\<lambda>_ _ _. ()" "\<lambda>_ _ _. ()" SlogInfo "[]"
      "''AUTHORIZATION''"] by simp
qed

end
