(* ===== verification/Json_Text.thy ===== *)
theory Json_Text
  imports Go_Strings "HOL-Library.AList"
begin

text \<open>
  encoding/json as the SDK uses it, on the type \<open>json\<close>: the compact text that
  json.Encoder writes with SetEscapeHTML(false), and the reader of json.Unmarshal and
  json.Decoder.  Strings are byte strings; a byte that is not part of a UTF-8 sequence is
  written as U+FFFD, as Go does.  The reader is a machine of one step per token with an explicit
  stack and Go's limit of 10000 open arrays and objects; a number is kept as its literal.  The
  main result is that the reader gives back what the writer was given.
\<close>

section \<open>UTF-8\<close>

definition between :: "nat \<Rightarrow> nat \<Rightarrow> char \<Rightarrow> bool" where
  "between lo hi c \<longleftrightarrow> lo \<le> code c \<and> code c \<le> hi"

abbreviation cont :: "char \<Rightarrow> bool" where "cont \<equiv> between 0x80 0xBF"

text \<open>How long a sequence its first byte announces, 0 for a byte that starts none, and the range of
  its second byte.\<close>

definition lead_size :: "char \<Rightarrow> nat" where
  "lead_size a =
     (if code a < 0x80 then 1
      else if between 0xC2 0xDF a then 2
      else if between 0xE0 0xEF a then 3
      else if between 0xF0 0xF4 a then 4
      else 0)"

definition second_ok :: "char \<Rightarrow> char \<Rightarrow> bool" where
  "second_ok a b \<longleftrightarrow>
     between (if code a = 0xE0 then 0xA0 else if code a = 0xF0 then 0x90 else 0x80)
       (if code a = 0xED then 0x9F else if code a = 0xF4 then 0x8F else 0xBF) b"

text \<open>The length of the UTF-8 sequence at the head, 0 where utf8.DecodeRune finds none.\<close>

fun rune_size :: "string \<Rightarrow> nat" where
  "rune_size [] = 0"
| "rune_size (a # t) =
     (if lead_size a \<le> Suc (length t) \<and> (2 \<le> lead_size a \<longrightarrow> second_ok a (hd t)) \<and>
         list_all cont (take (lead_size a - 1) t) then lead_size a else 0)"

declare rune_size.simps(2) [simp del]

text \<open>utf8.AppendRune, for a rune that is not a surrogate.\<close>

definition utf8_encode :: "nat \<Rightarrow> string" where
  "utf8_encode r =
     (if r < 0x80 then [char_of r]
      else if r < 0x800 then [char_of (0xC0 + r div 64), char_of (0x80 + r mod 64)]
      else if r < 0x10000 then
        [char_of (0xE0 + r div 4096), char_of (0x80 + r div 64 mod 64), char_of (0x80 + r mod 64)]
      else [char_of (0xF0 + r div 262144), char_of (0x80 + r div 4096 mod 64),
            char_of (0x80 + r div 64 mod 64), char_of (0x80 + r mod 64)])"

definition replacement :: string where "replacement = [CHR 0xEF, CHR 0xBF, CHR 0xBD]"

lemma rune_size_le: "rune_size s \<le> length s"
  by (cases s) (simp_all add: rune_size.simps)

lemma rune_size_ascii: "code c < 0x80 \<Longrightarrow> rune_size (c # s) = 1"
  by (simp add: rune_size.simps lead_size_def)

text \<open>The sequence does not depend on what follows it.\<close>

lemma rune_size_take:
  assumes "rune_size (a # s) = n" "0 < n"
  shows "rune_size (take n (a # s) @ t) = n"
proof -
  have n: "n = lead_size a" "n \<le> Suc (length s)" "2 \<le> n \<longrightarrow> second_ok a (hd s)" "list_all cont (take (n - 1) s)"
    using assms by (auto simp: rune_size.simps split: if_splits)
  have "take n (a # s) @ t = a # take (n - 1) s @ t"
    using assms(2) by (cases n) auto
  moreover have "2 \<le> n \<longrightarrow> hd (take (n - 1) s @ t) = hd s"
    using n(2) by (cases s) auto
  ultimately show ?thesis using n by (simp add: rune_size.simps)
qed

section \<open>Strings\<close>

text \<open>Go's replacement of the bytes that are not UTF-8.\<close>

function scrub :: "string \<Rightarrow> string" where
  "scrub [] = []"
| "scrub (c # s) =
     (let n = rune_size (c # s) in
      if n = 0 then replacement @ scrub s else take n (c # s) @ scrub (drop n (c # s)))"
  by pat_completeness auto
termination
  by (relation "measure length") auto

abbreviation backslash :: char where "backslash \<equiv> CHR 0x5C"
abbreviation dquote :: char where "dquote \<equiv> CHR 0x22"

definition escape_ascii :: "char \<Rightarrow> string" where
  "escape_ascii c =
     (if c = backslash \<or> c = dquote then [backslash, c]
      else if code c = 8 then backslash # ''b''
      else if code c = 12 then backslash # ''f''
      else if code c = 10 then backslash # ''n''
      else if code c = 13 then backslash # ''r''
      else if code c = 9 then backslash # ''t''
      else if code c < 32 then backslash # ''u00'' @ [lowerhex ! (code c div 16), lowerhex ! (code c mod 16)]
      else [c])"

definition escape_rune :: "string \<Rightarrow> string" where
  "escape_rune r =
     (if r = [CHR 0xE2, CHR 0x80, CHR 0xA8] then backslash # ''u2028''
      else if r = [CHR 0xE2, CHR 0x80, CHR 0xA9] then backslash # ''u2029''
      else r)"

function quote_chars :: "string \<Rightarrow> string" where
  "quote_chars [] = []"
| "quote_chars (c # s) =
     (if code c < 0x80 then escape_ascii c @ quote_chars s
      else let n = rune_size (c # s) in
        if n = 0 then (backslash # ''ufffd'') @ quote_chars s
        else escape_rune (take n (c # s)) @ quote_chars (drop n (c # s)))"
  by pat_completeness auto
termination
  by (relation "measure length") auto

definition json_quote :: "string \<Rightarrow> string" where
  "json_quote s = dquote # quote_chars s @ [dquote]"

fun get_u4 :: "string \<Rightarrow> nat option" where
  "get_u4 (a # b # c # d # s) =
     (case (unhex a, unhex b, unhex c, unhex d) of
        (Some w, Some x, Some y, Some z) \<Rightarrow> Some (w * 4096 + x * 256 + y * 16 + z)
      | _ \<Rightarrow> None)"
| "get_u4 s = None"

definition unescape_simple :: "char \<Rightarrow> char option" where
  "unescape_simple e =
     (if e = dquote \<or> e = backslash \<or> e = CHR ''/'' then Some e
      else if e = CHR ''b'' then Some (char_of (8 :: nat))
      else if e = CHR ''f'' then Some (char_of (12 :: nat))
      else if e = CHR ''n'' then Some (char_of (10 :: nat))
      else if e = CHR ''r'' then Some (char_of (13 :: nat))
      else if e = CHR ''t'' then Some (char_of (9 :: nat))
      else None)"

text \<open>
  The text of an escape sequence \<open>\u\<close> whose digits gave \<open>r\<close>, and how many bytes of what
  follows the digits it takes in: six for the second half of a surrogate pair.
\<close>

definition unescape_u4 :: "nat \<Rightarrow> string \<Rightarrow> string \<times> nat" where
  "unescape_u4 r t =
     (if 0xD800 \<le> r \<and> r < 0xE000 then
        (case (if take 2 t = [backslash, CHR ''u''] then get_u4 (drop 2 t) else None) of
           Some r2 \<Rightarrow>
             if r < 0xDC00 \<and> 0xDC00 \<le> r2 \<and> r2 < 0xE000
             then (utf8_encode (0x10000 + (r - 0xD800) * 1024 + (r2 - 0xDC00)), 6)
             else (replacement, 0)
         | None \<Rightarrow> (replacement, 0))
      else (utf8_encode r, 0))"

text \<open>The reader of a string, after its opening quote: the value and what follows the closing quote.\<close>

function unquote_chars :: "string \<Rightarrow> (string \<times> string) option" where
  "unquote_chars [] = None"
| "unquote_chars (c # s) =
     (if c = dquote then Some ([], s)
      else if c = backslash then
        (case s of
           [] \<Rightarrow> None
         | e # t \<Rightarrow>
             if e = CHR ''u'' then
               (case get_u4 t of
                  None \<Rightarrow> None
                | Some r \<Rightarrow>
                    (case unescape_u4 r (drop 4 t) of (w, k) \<Rightarrow>
                      map_option (apfst ((@) w)) (unquote_chars (drop (4 + k) t))))
             else (case unescape_simple e of
                 None \<Rightarrow> None
               | Some x \<Rightarrow> map_option (apfst ((#) x)) (unquote_chars t)))
      else if code c < 0x20 then None
      else if code c < 0x80 then map_option (apfst ((#) c)) (unquote_chars s)
      else let n = rune_size (c # s) in
        if n = 0 then map_option (apfst ((@) replacement)) (unquote_chars s)
        else map_option (apfst ((@) (take n (c # s)))) (unquote_chars (drop n (c # s))))"
  by pat_completeness auto
termination
  by (relation "measure length") auto

declare scrub.simps(2) [simp del] quote_chars.simps(2) [simp del] unquote_chars.simps(2) [simp del]

lemma scrub_append_ascii: "code c < 0x80 \<Longrightarrow> scrub (c # s) = c # scrub s"
  by (simp add: scrub.simps(2) rune_size_ascii)

text \<open>ASCII has nothing to replace, and printable ASCII nothing to escape.\<close>

lemma scrub_ascii: "list_all (\<lambda>c. code c < 0x80) s \<Longrightarrow> scrub s = s"
  by (induction s) (simp_all add: scrub_append_ascii)

lemma quote_plain:
  "list_all (\<lambda>c. 32 \<le> code c \<and> code c < 0x80 \<and> c \<noteq> backslash \<and> c \<noteq> dquote) s \<Longrightarrow> quote_chars s = s"
  by (induction s) (auto simp: quote_chars.simps(2) escape_ascii_def)

lemma get_u4_byte:
  "n < 256 \<Longrightarrow> get_u4 (''00'' @ lowerhex ! (n div 16) # lowerhex ! (n mod 16) # t) = Some n"
proof -
  assume "n < 256"
  then have "unhex (lowerhex ! (n div 16)) = Some (n div 16)" "unhex (lowerhex ! (n mod 16)) = Some (n mod 16)"
    by (simp_all add: unhex_lowerhex div_less_iff_less_mult)
  then show ?thesis by (simp add: unhex_def)
qed

text \<open>Reading one escaped ASCII character.\<close>

lemma unquote_escape_ascii:
  assumes "code c < 0x80"
  shows "unquote_chars (escape_ascii c @ t) = map_option (apfst ((#) c)) (unquote_chars t)"
proof -
  consider (quote) "c = backslash \<or> c = dquote" | (short) "code c \<in> {8, 12, 10, 13, 9}"
    | (control) "code c < 32" "code c \<notin> {8, 12, 10, 13, 9}"
    | (plain) "32 \<le> code c" "c \<noteq> backslash" "c \<noteq> dquote"
    by fastforce
  then show ?thesis
  proof cases
    case quote
    then show ?thesis by (auto simp: escape_ascii_def unquote_chars.simps(2) unescape_simple_def)
  next
    case short
    then have "c \<in> char_of ` {8 :: nat, 12, 10, 13, 9}" by (metis char_of_char imageI)
    then show ?thesis
      by (auto simp: escape_ascii_def unquote_chars.simps(2) unescape_simple_def)
  next
    case control
    then have "escape_ascii c @ t =
        backslash # CHR ''u'' # ''00'' @ lowerhex ! (code c div 16) # lowerhex ! (code c mod 16) # t"
      by (auto simp: escape_ascii_def)
    moreover have "unescape_u4 (code c) u = ([c], 0)" for u
      using control by (simp add: unescape_u4_def utf8_encode_def)
    moreover have "apfst ((@) [c]) = (apfst ((#) c) :: string \<times> string \<Rightarrow> _)" by (simp add: fun_eq_iff apfst_def)
    ultimately show ?thesis
      using get_u4_byte [of "code c" t] by (simp add: unquote_chars.simps(2))
  next
    case plain
    then have "escape_ascii c = [c]" by (auto simp: escape_ascii_def)
    with plain assms show ?thesis by (simp add: unquote_chars.simps(2))
  qed
qed

text \<open>Reading one escape sequence \<open>\uXXXX\<close> of a rune that is not a surrogate.\<close>

lemma unquote_u4:
  assumes "get_u4 d = Some r" "length d = 4" "r < 0xD800 \<or> 0xE000 \<le> r"
  shows "unquote_chars (backslash # CHR ''u'' # d @ t) = map_option (apfst ((@) (utf8_encode r))) (unquote_chars t)"
proof -
  obtain a b e f where d: "d = [a, b, e, f]"
    using assms(2) by (auto simp: numeral_eq_Suc length_Suc_conv)
  have u: "unescape_u4 r u = (utf8_encode r, 0)" for u
    using assms(3) by (auto simp: unescape_u4_def)
  have "get_u4 (a # b # e # f # t) = Some r" using assms(1) unfolding d by (simp only: get_u4.simps)
  then show ?thesis
    by (simp add: d unquote_chars.simps(2) u del: get_u4.simps)
qed

lemma u4_constants:
  "get_u4 ''fffd'' = Some 0xFFFD" "get_u4 ''2028'' = Some 0x2028" "get_u4 ''2029'' = Some 0x2029"
  "utf8_encode 0xFFFD = replacement" "utf8_encode 0x2028 = [CHR 0xE2, CHR 0x80, CHR 0xA8]"
  "utf8_encode 0x2029 = [CHR 0xE2, CHR 0x80, CHR 0xA9]"
  by (simp_all add: unhex_def utf8_encode_def replacement_def char_of_def bit_0)

lemma rune_head_plain:
  assumes "rune_size (c # s) \<noteq> 0" "\<not> code c < 0x80"
  shows "unquote_chars (take (rune_size (c # s)) (c # s) @ t) =
    map_option (apfst ((@) (take (rune_size (c # s)) (c # s)))) (unquote_chars t)"
proof -
  let ?n = "rune_size (c # s)"
  obtain k where n: "?n = Suc k" using assms(1) by (cases ?n) auto
  have k: "Suc k \<le> Suc (length s)" using rune_size_le [of "c # s"] n by simp
  have head: "rune_size (c # take k s @ t) = Suc k"
    using rune_size_take [of c s ?n t] n assms(1) by simp
  have "c \<noteq> dquote" "c \<noteq> backslash" "\<not> code c < 0x20" using assms(2) by auto
  then show ?thesis
    using assms(2) head k by (simp add: n unquote_chars.simps(2) min_absorb2)
qed

lemma unquote_escape_rune:
  assumes "rune_size (c # s) \<noteq> 0" "\<not> code c < 0x80"
  shows "unquote_chars (escape_rune (take (rune_size (c # s)) (c # s)) @ t) =
    map_option (apfst ((@) (take (rune_size (c # s)) (c # s)))) (unquote_chars t)"
proof -
  consider (e2028) "take (rune_size (c # s)) (c # s) = [CHR 0xE2, CHR 0x80, CHR 0xA8]"
    | (e2029) "take (rune_size (c # s)) (c # s) = [CHR 0xE2, CHR 0x80, CHR 0xA9]"
    | (plain) "take (rune_size (c # s)) (c # s) \<noteq> [CHR 0xE2, CHR 0x80, CHR 0xA8]"
        "take (rune_size (c # s)) (c # s) \<noteq> [CHR 0xE2, CHR 0x80, CHR 0xA9]"
    by blast
  then show ?thesis
  proof cases
    case e2028
    show ?thesis unfolding e2028 using unquote_u4 [of "''2028''" "0x2028" t] u4_constants
      by (simp add: escape_rune_def del: get_u4.simps)
  next
    case e2029
    show ?thesis unfolding e2029 using unquote_u4 [of "''2029''" "0x2029" t] u4_constants
      by (simp add: escape_rune_def del: get_u4.simps)
  next
    case plain
    then have "escape_rune (take (rune_size (c # s)) (c # s)) = take (rune_size (c # s)) (c # s)"
      unfolding escape_rune_def by (simp only: if_False)
    then show ?thesis using rune_head_plain [OF assms] by (simp only:)
  qed
qed

text \<open>The reader gives back the string, scrubbed, and stops at the closing quote.\<close>

lemma unquote_quote: "unquote_chars (quote_chars s @ dquote # t) = Some (scrub s, t)"
proof (induction s rule: quote_chars.induct)
  case 1
  show ?case by (simp add: unquote_chars.simps(2))
next
  case (2 c s)
  show ?case
  proof (cases "code c < 0x80")
    case True
    with 2(1) show ?thesis
      by (simp add: quote_chars.simps(2) unquote_escape_ascii scrub_append_ascii)
  next
    case False
    note c = this
    show ?thesis
    proof (cases "rune_size (c # s) = 0")
      case True
      with 2(2) c show ?thesis
        using unquote_u4 [of "''fffd''" "0xFFFD" "quote_chars s @ dquote # t"] u4_constants
        by (simp add: quote_chars.simps(2) scrub.simps(2) del: get_u4.simps)
    next
      case False
      with 2(3) c show ?thesis
        by (simp add: quote_chars.simps(2) scrub.simps(2) Let_def unquote_escape_rune)
    qed
  qed
qed

section \<open>Tokens\<close>

datatype token =
    TObjOpen | TObjClose | TArrOpen | TArrClose | TColon | TComma
  | TStr string | TNum string | TTrue | TFalse | TNull

definition is_ws :: "char \<Rightarrow> bool" where
  "is_ws c \<longleftrightarrow> code c \<in> {9, 10, 13, 32}"

definition number_char :: "char \<Rightarrow> bool" where
  "number_char c \<longleftrightarrow> is_digit c \<or> c \<in> set ''+-.eE''"

definition exponent_ok :: "string \<Rightarrow> bool" where
  "exponent_ok s =
     (case s of
        [] \<Rightarrow> True
      | c # t \<Rightarrow> c \<in> {CHR ''e'', CHR ''E''} \<and>
          (let u = (case t of d # t' \<Rightarrow> if d \<in> {CHR ''+'', CHR ''-''} then t' else t | [] \<Rightarrow> [])
           in u \<noteq> [] \<and> list_all is_digit u))"

definition json_number :: "string \<Rightarrow> bool" where
  "json_number s =
     (let body = (if s \<noteq> [] \<and> hd s = CHR ''-'' then tl s else s);
          whole = takeWhile is_digit body;
          rest = dropWhile is_digit body in
      whole \<noteq> [] \<and> (hd whole = CHR ''0'' \<longrightarrow> length whole = 1) \<and>
      (case rest of
         c # t \<Rightarrow>
           if c = CHR ''.'' then takeWhile is_digit t \<noteq> [] \<and> exponent_ok (dropWhile is_digit t)
           else exponent_ok rest
       | [] \<Rightarrow> True))"

text \<open>
  One token.  A number takes in all characters of numbers that follow, so that a top-level number
  with another number at its heels is an error here where Go's Decoder would stop in between.
\<close>

definition lex_one :: "string \<Rightarrow> (token \<times> string) option" where
  "lex_one s =
     (case s of
        [] \<Rightarrow> None
      | c # t \<Rightarrow>
          if c = CHR ''{'' then Some (TObjOpen, t)
          else if c = CHR ''}'' then Some (TObjClose, t)
          else if c = CHR ''['' then Some (TArrOpen, t)
          else if c = CHR '']'' then Some (TArrClose, t)
          else if c = CHR '':'' then Some (TColon, t)
          else if c = CHR '','' then Some (TComma, t)
          else if c = dquote then map_option (apfst TStr) (unquote_chars t)
          else if number_char c then
            (if json_number (takeWhile number_char s) then Some (TNum (takeWhile number_char s), dropWhile number_char s)
             else None)
          else if take 4 s = ''true'' then Some (TTrue, drop 4 s)
          else if take 5 s = ''false'' then Some (TFalse, drop 5 s)
          else if take 4 s = ''null'' then Some (TNull, drop 4 s)
          else None)"

lemma unquote_chars_shorter: "unquote_chars s = Some (v, r) \<Longrightarrow> length r < length s"
proof (induction s arbitrary: v r rule: measure_induct_rule [of length])
  case (less s)
  show ?case
  proof (cases s)
    case (Cons c t)
    have sub: "length r < length u" if "unquote_chars u = Some (w, r)" "length u < Suc (length t)" for u w
      using less.IH [of u w r] that Cons by simp
    have "length r < Suc (length t) \<or> r = t"
      using less.prems unfolding Cons unquote_chars.simps(2) Let_def
      by (auto simp: apfst_def split: if_splits list.splits option.splits prod.splits dest!: sub)
    then show ?thesis using Cons by auto
  qed (use less.prems in simp)
qed

lemma lex_one_shorter: "lex_one s = Some (tok, r) \<Longrightarrow> length r < length s"
proof (cases s)
  case (Cons c t)
  assume "lex_one s = Some (tok, r)"
  moreover have "length (dropWhile number_char s) < length s" if "number_char c"
    using that Cons length_dropWhile_le [of number_char t] by (simp add: le_imp_less_Suc)
  ultimately show ?thesis
    using Cons by (auto simp: lex_one_def apfst_def split: if_splits dest!: unquote_chars_shorter)
qed (simp add: lex_one_def)

section \<open>The reader\<close>

text \<open>An open array with its elements so far, or an open object with its members and the pending key.\<close>

datatype frame = InArray "json list" | InObject "(string \<times> json) list" string

datatype mode = WantValue | WantFirstElem | WantFirstKey | WantKey | WantColon | HaveValue json

type_synonym reader = "mode \<times> frame list"

abbreviation max_depth :: nat where "max_depth \<equiv> 10000"

definition open_frame :: "mode \<Rightarrow> frame \<Rightarrow> frame list \<Rightarrow> reader option" where
  "open_frame m f st = (if length st < max_depth then Some (m, f # st) else None)"

fun begin_value :: "token \<Rightarrow> frame list \<Rightarrow> reader option" where
  "begin_value (TStr s) st = Some (HaveValue (JString s), st)"
| "begin_value (TNum n) st = Some (HaveValue (JNumber n), st)"
| "begin_value TTrue st = Some (HaveValue (JBool True), st)"
| "begin_value TFalse st = Some (HaveValue (JBool False), st)"
| "begin_value TNull st = Some (HaveValue JNull, st)"
| "begin_value TArrOpen st = open_frame WantFirstElem (InArray []) st"
| "begin_value TObjOpen st = open_frame WantFirstKey (InObject [] []) st"
| "begin_value _ st = None"

fun read_token :: "token \<Rightarrow> reader \<Rightarrow> reader option" where
  "read_token tok (WantValue, st) = begin_value tok st"
| "read_token TArrClose (WantFirstElem, InArray vs # st) = Some (HaveValue (JArray vs), st)"
| "read_token tok (WantFirstElem, st) = begin_value tok st"
| "read_token TObjClose (WantFirstKey, InObject kvs k # st) = Some (HaveValue (JObject kvs), st)"
| "read_token (TStr s) (WantFirstKey, InObject kvs k # st) = Some (WantColon, InObject kvs s # st)"
| "read_token (TStr s) (WantKey, InObject kvs k # st) = Some (WantColon, InObject kvs s # st)"
| "read_token TColon (WantColon, st) = Some (WantValue, st)"
| "read_token TComma (HaveValue v, InArray vs # st) = Some (WantValue, InArray (vs @ [v]) # st)"
| "read_token TArrClose (HaveValue v, InArray vs # st) = Some (HaveValue (JArray (vs @ [v])), st)"
| "read_token TComma (HaveValue v, InObject kvs k # st) = Some (WantKey, InObject (kvs @ [(k, v)]) [] # st)"
| "read_token TObjClose (HaveValue v, InObject kvs k # st) = Some (HaveValue (JObject (kvs @ [(k, v)])), st)"
| "read_token _ _ = None"

text \<open>
  The members are kept as they stand in the text.  Decoding into an \<open>any\<close> assigns them to a Go map
  one after the other, so that a repeated key replaces the value.
\<close>

fun json_collapse :: "json \<Rightarrow> json" where
  "json_collapse (JArray vs) = JArray (map json_collapse vs)"
| "json_collapse (JObject kvs) = JObject (fold (\<lambda>(k, v). AList.update k (json_collapse v)) kvs [])"
| "json_collapse v = v"

text \<open>Decoder.Decode: the first value and the text after it; None is a syntax error.\<close>

function read_value :: "reader \<Rightarrow> string \<Rightarrow> (json \<times> string) option" where
  "read_value rd [] = None"
| "read_value rd (c # s) =
     (if is_ws c then read_value rd s
      else case lex_one (c # s) of
        None \<Rightarrow> None
      | Some (tok, rest) \<Rightarrow>
          (case read_token tok rd of
             None \<Rightarrow> None
           | Some (HaveValue v, []) \<Rightarrow> Some (v, rest)
           | Some rd' \<Rightarrow> read_value rd' rest))"
  by pat_completeness auto
termination
  by (relation "measure (\<lambda>(rd, s). length s)") (auto dest: lex_one_shorter)

declare read_value.simps(2) [simp del]

definition json_decode :: "string \<Rightarrow> (json \<times> string) option" where
  "json_decode s = read_value (WantValue, []) s"

text \<open>The value json.Unmarshal reads, and json.Valid: nothing but white space may follow.\<close>

definition json_parse :: "string \<Rightarrow> json option" where
  "json_parse s =
     (case json_decode s of
        Some (v, rest) \<Rightarrow> if list_all is_ws rest then Some v else None
      | None \<Rightarrow> None)"

definition json_valid :: "string \<Rightarrow> bool" where
  "json_valid s \<longleftrightarrow> json_parse s \<noteq> None"

section \<open>The writer\<close>

fun json_text :: "json \<Rightarrow> string"
  and elems_tail :: "json list \<Rightarrow> string"
  and members_tail :: "(string \<times> json) list \<Rightarrow> string" where
  "json_text JNull = ''null''"
| "json_text (JBool b) = (if b then ''true'' else ''false'')"
| "json_text (JNumber n) = n"
| "json_text (JString s) = json_quote s"
| "json_text (JArray []) = ''[]''"
| "json_text (JArray (v # vs)) = CHR ''['' # json_text v @ elems_tail vs"
| "json_text (JObject []) = ''{}''"
| "json_text (JObject ((k, v) # kvs)) =
     CHR ''{'' # json_quote k @ CHR '':'' # json_text v @ members_tail kvs"
| "elems_tail [] = '']''"
| "elems_tail (v # vs) = CHR '','' # json_text v @ elems_tail vs"
| "members_tail [] = ''}''"
| "members_tail ((k, v) # kvs) = CHR '','' # json_quote k @ CHR '':'' # json_text v @ members_tail kvs"

text \<open>
  The values the writer can be given: strings in UTF-8, numbers that are literals of the
  grammar, and no more than \<open>d\<close> levels of nesting.
\<close>

fun json_ok :: "nat \<Rightarrow> json \<Rightarrow> bool" where
  "json_ok d (JString s) \<longleftrightarrow> scrub s = s"
| "json_ok d (JNumber n) \<longleftrightarrow> json_number n"
| "json_ok d (JArray vs) \<longleftrightarrow> 0 < d \<and> (\<forall>v \<in> set vs. json_ok (d - 1) v)"
| "json_ok d (JObject kvs) \<longleftrightarrow> 0 < d \<and>
     (\<forall>kv \<in> set kvs. scrub (fst kv) = fst kv \<and> json_ok (d - 1) (snd kv))"
| "json_ok d v \<longleftrightarrow> True"

text \<open>An integer as it is printed is a JSON number.\<close>

lemma code_zero_char: "code (CHR ''0'') = 48"
  by simp

lemma utoa_leading: "n \<noteq> 0 \<Longrightarrow> hd (utoa n) \<noteq> CHR ''0''"
proof (induction n rule: utoa.induct)
  case (1 n)
  show ?case
  proof (cases "n < 10")
    case True
    then have "code (digit_char n) \<noteq> 48" using 1(2) by simp
    then have "digit_char n \<noteq> CHR ''0''" by (metis code_zero_char)
    then show ?thesis using True by (subst utoa.simps) simp
  next
    case False
    then show ?thesis using 1 by (subst utoa.simps) simp
  qed
qed

lemma json_number_itoa: "json_number (itoa i)"
proof -
  have u: "list_all is_digit (utoa n)" for n using utoa_digits by (auto simp: list_all_iff)
  have w: "takeWhile is_digit (utoa n) = utoa n" "dropWhile is_digit (utoa n) = []" for n
    using u [of n] unfolding list_all_iff by (simp_all add: takeWhile_eq_all_conv dropWhile_eq_Nil_conv)
  have z: "hd (utoa n) = CHR ''0'' \<longrightarrow> length (utoa n) = 1" for n
  proof (cases "n = 0")
    case True
    then show ?thesis by (simp add: utoa.simps)
  qed (simp add: utoa_leading)
  have "hd (utoa n) \<noteq> CHR ''-''" for n
    using utoa_digits [OF hd_in_set [OF utoa_not_Nil], of n] by (auto simp: is_digit_def)
  then show ?thesis using z by (simp add: json_number_def itoa_def Let_def w)
qed

section \<open>Round trip\<close>

definition resume :: "reader \<Rightarrow> string \<Rightarrow> (json \<times> string) option" where
  "resume rd t = (case rd of (HaveValue v, []) \<Rightarrow> Some (v, t) | _ \<Rightarrow> read_value rd t)"

definition stops_number :: "string \<Rightarrow> bool" where
  "stops_number t \<longleftrightarrow> t = [] \<or> \<not> number_char (hd t)"

lemma read_lexed:
  assumes "lex_one s = Some (tok, t)" "s \<noteq> []" "\<not> is_ws (hd s)"
  shows "read_value rd s = (case read_token tok rd of None \<Rightarrow> None | Some rd' \<Rightarrow> resume rd' t)"
  using assms by (cases s) (auto simp: read_value.simps(2) resume_def split: option.split mode.split list.split)

lemmas char_class = is_ws_def number_char_def is_digit_def

lemma read_punct:
  "read_value rd (CHR ''{'' # t) = (case read_token TObjOpen rd of None \<Rightarrow> None | Some rd' \<Rightarrow> resume rd' t)"
  "read_value rd (CHR ''}'' # t) = (case read_token TObjClose rd of None \<Rightarrow> None | Some rd' \<Rightarrow> resume rd' t)"
  "read_value rd (CHR ''['' # t) = (case read_token TArrOpen rd of None \<Rightarrow> None | Some rd' \<Rightarrow> resume rd' t)"
  "read_value rd (CHR '']'' # t) = (case read_token TArrClose rd of None \<Rightarrow> None | Some rd' \<Rightarrow> resume rd' t)"
  "read_value rd (CHR '':'' # t) = (case read_token TColon rd of None \<Rightarrow> None | Some rd' \<Rightarrow> resume rd' t)"
  "read_value rd (CHR '','' # t) = (case read_token TComma rd of None \<Rightarrow> None | Some rd' \<Rightarrow> resume rd' t)"
  by (rule read_lexed; simp add: lex_one_def char_class)+

lemma read_words:
  "read_value rd (''true'' @ t) = (case read_token TTrue rd of None \<Rightarrow> None | Some rd' \<Rightarrow> resume rd' t)"
  "read_value rd (''false'' @ t) = (case read_token TFalse rd of None \<Rightarrow> None | Some rd' \<Rightarrow> resume rd' t)"
  "read_value rd (''null'' @ t) = (case read_token TNull rd of None \<Rightarrow> None | Some rd' \<Rightarrow> resume rd' t)"
  by (rule read_lexed; simp add: lex_one_def char_class)+

lemma read_quote:
  "read_value rd (json_quote s @ t) =
     (case read_token (TStr (scrub s)) rd of None \<Rightarrow> None | Some rd' \<Rightarrow> resume rd' t)"
  by (rule read_lexed) (simp_all add: lex_one_def json_quote_def char_class unquote_quote)

lemma digits_number_char: "list_all is_digit s \<Longrightarrow> list_all number_char s"
  by (auto simp: list_all_iff number_char_def)

lemma exponent_ok_chars: "exponent_ok s \<Longrightarrow> list_all number_char s"
  by (auto simp: exponent_ok_def number_char_def list_all_iff Let_def split: list.splits if_splits)

lemma json_number_chars:
  assumes "json_number n"
  shows "list_all number_char n \<and> n \<noteq> [] \<and> (is_digit (hd n) \<or> hd n = CHR ''-'')"
proof -
  define body where "body = (if n \<noteq> [] \<and> hd n = CHR ''-'' then tl n else n)"
  have t: "list_all number_char (takeWhile is_digit u)" for u
    by (auto simp: list_all_iff number_char_def dest: set_takeWhileD)
  have ok: "takeWhile is_digit body \<noteq> []"
    "case dropWhile is_digit body of [] \<Rightarrow> True | c # u \<Rightarrow>
       if c = CHR ''.'' then takeWhile is_digit u \<noteq> [] \<and> exponent_ok (dropWhile is_digit u)
       else exponent_ok (dropWhile is_digit body)"
    using assms unfolding json_number_def Let_def body_def [symmetric] by (auto split: list.splits)
  have "list_all number_char (dropWhile is_digit body)"
  proof (cases "dropWhile is_digit body")
    case (Cons c u)
    show ?thesis
    proof (cases "c = CHR ''.''")
      case True
      then have "list_all number_char (dropWhile is_digit u)"
        using ok(2) Cons exponent_ok_chars by simp
      then have "list_all number_char (takeWhile is_digit u @ dropWhile is_digit u)"
        using t [of u] unfolding list_all_append by blast
      then have "list_all number_char u" by simp
      then show ?thesis using Cons True by (simp add: number_char_def)
    next
      case False
      then show ?thesis using ok(2) Cons exponent_ok_chars [of "c # u"] by simp
    qed
  next
    case Nil
    then show ?thesis unfolding Nil by simp
  qed
  then have "list_all number_char (takeWhile is_digit body @ dropWhile is_digit body)"
    using t [of body] unfolding list_all_append by blast
  then have "list_all number_char body" by simp
  moreover have "is_digit (hd body)" "body \<noteq> []" using ok(1) by (cases body; auto split: if_splits)+
  ultimately show ?thesis
    unfolding body_def by (cases n) (auto simp: number_char_def split: if_splits)
qed

lemma read_number:
  assumes "json_number n" "stops_number t"
  shows "read_value rd (n @ t) = (case read_token (TNum n) rd of None \<Rightarrow> None | Some rd' \<Rightarrow> resume rd' t)"
proof -
  have n: "list_all number_char n" "n \<noteq> []" "is_digit (hd n) \<or> hd n = CHR ''-''"
    using json_number_chars [OF assms(1)] by auto
  have split: "takeWhile number_char (n @ t) = n" "dropWhile number_char (n @ t) = t"
    using n(1) assms(2) by (cases t; auto simp: list_all_iff stops_number_def)+
  obtain c u where c: "n = c # u" using n(2) by (cases n) auto
  have "c \<notin> set ''{}[]:,''" "c \<noteq> dquote" "number_char c"
    using n unfolding c by (auto simp: number_char_def is_digit_def)
  then have "lex_one (n @ t) = Some (TNum n, t)"
    using split assms(1) unfolding c lex_one_def by simp
  moreover have "\<not> is_ws (hd (n @ t))"
    using n(3) unfolding c by (auto simp: is_ws_def is_digit_def)
  ultimately show ?thesis using n(2) by (intro read_lexed) auto
qed

lemma stops_number_simps [simp]:
  "stops_number []" "stops_number (elems_tail vs @ t)" "stops_number (members_tail kvs @ t)"
  by (cases vs; cases kvs; auto simp: stops_number_def number_char_def is_digit_def)+

lemma begin_scalar [simp]:
  "m \<in> {WantValue, WantFirstElem} \<Longrightarrow> tok \<noteq> TArrClose \<Longrightarrow> read_token tok (m, st) = begin_value tok st"
  by (cases tok) auto

lemma resume_simps [simp]:
  "resume (HaveValue v, f # st) t = read_value (HaveValue v, f # st) t"
  "resume (WantValue, st) t = read_value (WantValue, st) t"
  "resume (WantFirstElem, st) t = read_value (WantFirstElem, st) t"
  "resume (WantFirstKey, st) t = read_value (WantFirstKey, st) t"
  "resume (WantKey, st) t = read_value (WantKey, st) t"
  "resume (WantColon, st) t = read_value (WantColon, st) t"
  "resume (HaveValue v, []) t = Some (v, t)"
  by (simp_all add: resume_def)

text \<open>The reader, put before the text of a value, an array's or an object's rest, leaves the value.\<close>

lemma read_text:
  "json_ok d v \<Longrightarrow> length st + d \<le> max_depth \<Longrightarrow> m \<in> {WantValue, WantFirstElem} \<Longrightarrow> stops_number t \<Longrightarrow>
     read_value (m, st) (json_text v @ t) = resume (HaveValue v, st) t"
  "(\<forall>w \<in> set vs. json_ok d w) \<Longrightarrow> Suc (length st) + d \<le> max_depth \<Longrightarrow>
     read_value (HaveValue v0, InArray ws # st) (elems_tail vs @ t) =
       resume (HaveValue (JArray (ws @ v0 # vs)), st) t"
  "(\<forall>kv \<in> set kvs. scrub (fst kv) = fst kv \<and> json_ok d (snd kv)) \<Longrightarrow>
     Suc (length st) + d \<le> max_depth \<Longrightarrow>
     read_value (HaveValue v0, InObject kws k0 # st) (members_tail kvs @ t) =
       resume (HaveValue (JObject (kws @ (k0, v0) # kvs)), st) t"
proof (induction v and vs and kvs arbitrary: d st m t and d st v0 ws t and d st kws k0 v0 t
    rule: json_text_elems_tail_members_tail.induct)
  case (3 n)
  then show ?case by (simp add: read_number)
next
  case (4 s)
  then show ?case by (simp add: read_quote)
next
  case (6 v vs)
  then obtain d' where d: "d = Suc d'" by (cases d) auto
  with 6 show ?case
    using "6.IH"(1) [of d' "InArray [] # st" WantFirstElem "elems_tail vs @ t"] "6.IH"(2) [of d' st v "[]" t]
    by (simp add: read_punct open_frame_def)
next
  case (8 k v kvs)
  then obtain d' where d: "d = Suc d'" by (cases d) auto
  with 8 show ?case
    using "8.IH"(1) [of d' "InObject [] k # st" WantValue "members_tail kvs @ t"] "8.IH"(2) [of d' st v "[]" k t]
    by (simp add: read_punct read_quote open_frame_def)
next
  case (10 v vs)
  then show ?case
    using "10.IH"(1) [of d "InArray (ws @ [v0]) # st" WantValue "elems_tail vs @ t"]
      "10.IH"(2) [of d st v "ws @ [v0]" t]
    by (simp add: read_punct)
next
  case (12 k v kvs)
  then show ?case
    using "12.IH"(1) [of d "InObject (kws @ [(k0, v0)]) k # st" WantValue "members_tail kvs @ t"]
      "12.IH"(2) [of d st v "kws @ [(k0, v0)]" k t]
    by (simp add: read_punct read_quote)
qed (use read_words in \<open>auto simp: read_punct open_frame_def\<close>)

theorem json_round_trip:
  assumes "json_ok max_depth v" "stops_number t"
  shows "json_decode (json_text v @ t) = Some (v, t)"
  using read_text(1) [of max_depth v "[]" WantValue t] assms by (simp add: json_decode_def)

end
