(* ===== verification/Json_Codec.thy ===== *)
theory Json_Codec
  imports Json_Text Errors
begin

text \<open>
  How encoding/json walks a Go value: a codec for each kind of type, built up as reflection
  builds it (basic types, pointers, slices, structs with their field tags), and on top of it
  atomefin/marshal.go.  A struct's codec is the list of its fields in the order of the source,
  each with the name and the omitempty of its tag; decoding assigns the members of an object one
  after the other, ignores or (with DisallowUnknownFields) rejects unknown names, and matches
  names without regard to case as a second try.  An empty slice stands for a nil one.
\<close>

section \<open>Codecs\<close>

text \<open>
  \<open>of_json strict j v\<close> is the value after decoding \<open>j\<close> into a variable that holds \<open>v\<close>, None on an
  UnmarshalTypeError; \<open>fits\<close> says that an int of the model is in the range of Go's type.
\<close>

record 'v codec =
  to_json :: "'v \<Rightarrow> json"
  of_json :: "bool \<Rightarrow> json \<Rightarrow> 'v \<Rightarrow> 'v option"
  zero_value :: 'v
  is_empty :: "'v \<Rightarrow> bool"
  fits :: "'v \<Rightarrow> bool"

definition string_codec :: "string codec" where
  "string_codec = \<lparr>to_json = JString,
     of_json = (\<lambda>strict j s. case j of JString t \<Rightarrow> Some t | JNull \<Rightarrow> Some s | _ \<Rightarrow> None),
     zero_value = [], is_empty = (\<lambda>s. s = []), fits = (\<lambda>s. True)\<rparr>"

definition bool_codec :: "bool codec" where
  "bool_codec = \<lparr>to_json = JBool,
     of_json = (\<lambda>strict j b. case j of JBool c \<Rightarrow> Some c | JNull \<Rightarrow> Some b | _ \<Rightarrow> None),
     zero_value = False, is_empty = (\<lambda>b. \<not> b), fits = (\<lambda>b. True)\<rparr>"

definition int64_codec :: "int64 codec" where
  "int64_codec = \<lparr>to_json = (\<lambda>w. JNumber (itoa (sint w))),
     of_json = (\<lambda>strict j w. case j of JNumber n \<Rightarrow> map_option word_of_int (parse_int64 n) | JNull \<Rightarrow> Some w | _ \<Rightarrow> None),
     zero_value = 0, is_empty = (\<lambda>w. w = 0), fits = (\<lambda>w. True)\<rparr>"

definition int_codec :: "int codec" where
  "int_codec = \<lparr>to_json = (\<lambda>i. JNumber (itoa i)),
     of_json = (\<lambda>strict j i. case j of JNumber n \<Rightarrow> parse_int64 n | JNull \<Rightarrow> Some i | _ \<Rightarrow> None),
     zero_value = 0, is_empty = (\<lambda>i. i = 0), fits = (\<lambda>i. - (2 ^ 63) \<le> i \<and> i < 2 ^ 63)\<rparr>"

definition pointer_codec :: "'v codec \<Rightarrow> 'v option codec" where
  "pointer_codec c = \<lparr>to_json = (\<lambda>p. case p of None \<Rightarrow> JNull | Some v \<Rightarrow> to_json c v),
     of_json = (\<lambda>strict j p.
       if j = JNull then Some None
       else map_option Some (of_json c strict j (case p of None \<Rightarrow> zero_value c | Some v \<Rightarrow> v))),
     zero_value = None, is_empty = (\<lambda>p. p = None),
     fits = (\<lambda>p. case p of None \<Rightarrow> True | Some v \<Rightarrow> fits c v \<and> to_json c v \<noteq> JNull)\<rparr>"

text \<open>Element by element, into the elements that are there and into zero values beyond them.\<close>

fun decode_elems :: "(json \<Rightarrow> 'v \<Rightarrow> 'v option) \<Rightarrow> 'v \<Rightarrow> json list \<Rightarrow> 'v list \<Rightarrow> 'v list option" where
  "decode_elems f z [] vs = Some []"
| "decode_elems f z (j # js) vs =
     (case f j (case vs of v # _ \<Rightarrow> v | [] \<Rightarrow> z) of
        None \<Rightarrow> None
      | Some v \<Rightarrow> map_option ((#) v) (decode_elems f z js (tl vs)))"

definition slice_codec :: "'v codec \<Rightarrow> 'v list codec" where
  "slice_codec c = \<lparr>to_json = (\<lambda>vs. if vs = [] then JNull else JArray (map (to_json c) vs)),
     of_json = (\<lambda>strict j vs. case j of
         JArray js \<Rightarrow> decode_elems (of_json c strict) (zero_value c) js vs
       | JNull \<Rightarrow> Some []
       | _ \<Rightarrow> None),
     zero_value = [], is_empty = (\<lambda>vs. vs = []), fits = list_all (fits c)\<rparr>"

text \<open>
  A map[string]any: json.Marshal sorts the keys at every level, decoding assigns key by key into
  the map that is there.
\<close>

fun json_sorted :: "json \<Rightarrow> json" where
  "json_sorted (JArray vs) = JArray (map json_sorted vs)"
| "json_sorted (JObject kvs) = JObject (sort_key fst (map (\<lambda>(k, v). (k, json_sorted v)) kvs))"
| "json_sorted v = v"

definition map_codec :: "(string \<times> json) list codec" where
  "map_codec = \<lparr>to_json = (\<lambda>m. if m = [] then JNull else json_sorted (JObject m)),
     of_json = (\<lambda>strict j m. case j of
         JObject kvs \<Rightarrow> Some (fold (\<lambda>(k, v). AList.update k (json_collapse v)) kvs m)
       | JNull \<Rightarrow> Some []
       | _ \<Rightarrow> None),
     zero_value = [], is_empty = (\<lambda>m. m = []),
     fits = (\<lambda>m. json_sorted (JObject m) = JObject m \<and> json_collapse (JObject m) = JObject m)\<rparr>"

section \<open>Structs\<close>

record 's json_field =
  fname :: string
  fenc :: "'s \<Rightarrow> json option"
  fdec :: "bool \<Rightarrow> json \<Rightarrow> 's \<Rightarrow> 's option"
  ffits :: "'s \<Rightarrow> bool"

text \<open>A field with its tag: the name, omitempty, the type of its value, how to read and assign it.\<close>

definition tag :: "string \<Rightarrow> bool \<Rightarrow> 'v codec \<Rightarrow> ('s \<Rightarrow> 'v) \<Rightarrow> ('v \<Rightarrow> 's \<Rightarrow> 's) \<Rightarrow> 's json_field" where
  "tag name omitempty c rd wr =
     \<lparr>fname = name,
      fenc = (\<lambda>s. if omitempty \<and> is_empty c (rd s) then None else Some (to_json c (rd s))),
      fdec = (\<lambda>strict j s. map_option (\<lambda>v. wr v s) (of_json c strict j (rd s))),
      ffits = (\<lambda>s. fits c (rd s))\<rparr>"

text \<open>
  foldName of encoding/json on the names that can equal an ASCII name after folding: the long s
  and the Kelvin sign fold to S and K.
\<close>

fun fold_name :: "string \<Rightarrow> string" where
  "fold_name [] = []"
| "fold_name (c # s) =
     (if c = CHR 0xC5 \<and> take 1 s = [CHR 0xBF] then CHR ''S'' # fold_name (drop 1 s)
      else if c = CHR 0xE2 \<and> take 2 s = [CHR 0x84, CHR 0xAA] then CHR ''K'' # fold_name (drop 2 s)
      else to_upper c # fold_name s)"

definition find_field :: "'s json_field list \<Rightarrow> string \<Rightarrow> 's json_field option" where
  "find_field fs k =
     (case List.find (\<lambda>f. fname f = k) fs of
        Some f \<Rightarrow> Some f
      | None \<Rightarrow> List.find (\<lambda>f. fold_name (fname f) = fold_name k) fs)"

fun decode_members :: "bool \<Rightarrow> 's json_field list \<Rightarrow> (string \<times> json) list \<Rightarrow> 's \<Rightarrow> 's option" where
  "decode_members strict fs [] s = Some s"
| "decode_members strict fs ((k, j) # kvs) s =
     (case find_field fs k of
        None \<Rightarrow> if strict then None else decode_members strict fs kvs s
      | Some f \<Rightarrow>
          (case fdec f strict j s of
             None \<Rightarrow> None
           | Some s' \<Rightarrow> decode_members strict fs kvs s'))"

definition encode_members :: "'s json_field list \<Rightarrow> 's \<Rightarrow> (string \<times> json) list" where
  "encode_members fs s = List.map_filter (\<lambda>f. map_option (Pair (fname f)) (fenc f s)) fs"

definition struct_codec :: "'s json_field list \<Rightarrow> 's \<Rightarrow> 's codec" where
  "struct_codec fs z = \<lparr>to_json = (\<lambda>s. JObject (encode_members fs s)),
     of_json = (\<lambda>strict j s. case j of
         JObject kvs \<Rightarrow> decode_members strict fs kvs s
       | JNull \<Rightarrow> Some s
       | _ \<Rightarrow> None),
     zero_value = z, is_empty = (\<lambda>s. False), fits = (\<lambda>s. list_all (\<lambda>f. ffits f s) fs)\<rparr>"

text \<open>A struct with fields outside the JSON, which decoding leaves alone: values with them at zero.\<close>

definition hide_fields :: "('v \<Rightarrow> bool) \<Rightarrow> 'v codec \<Rightarrow> 'v codec" where
  "hide_fields unset c = c\<lparr>fits := \<lambda>v. fits c v \<and> unset v\<rparr>"

text \<open>The rules that unfold a codec built of these parts.\<close>

lemmas codec_eval = struct_codec_def tag_def string_codec_def bool_codec_def int64_codec_def int_codec_def
  slice_codec_def pointer_codec_def map_codec_def

section \<open>marshal.go and the decoders\<close>

definition newline :: char where "newline = char_of (10 :: nat)"

text \<open>json.Encoder's Encode, with a newline after the value, and the trimming of MarshalSigning.\<close>

definition encoder_Encode :: "'v codec \<Rightarrow> 'v \<Rightarrow> go_error + bytes" where
  "encoder_Encode c v = Inr (json_text (to_json c v) @ [newline])"

definition MarshalSigning :: "'v codec \<Rightarrow> 'v \<Rightarrow> go_error + bytes" where
  "MarshalSigning c v =
     (case encoder_Encode c v of
        Inl err \<Rightarrow> Inl err
      | Inr b \<Rightarrow> Inr (if b \<noteq> [] \<and> last b = newline then butlast b else b))"

text \<open>
  json.Unmarshal into a fresh variable; \<open>syntax\<close> and \<open>typing\<close> are the errors of the library for a
  text that is not JSON and for a value that does not fit the type.
\<close>

definition json_Unmarshal :: "(bytes \<Rightarrow> go_error) \<Rightarrow> (bytes \<Rightarrow> go_error) \<Rightarrow> 'v codec \<Rightarrow> bytes \<Rightarrow> go_error + 'v" where
  "json_Unmarshal syntax typing c b =
     (case json_parse b of
        None \<Rightarrow> Inl (syntax b)
      | Some j \<Rightarrow>
          (case of_json c False j (zero_value c) of
             None \<Rightarrow> Inl (typing b)
           | Some v \<Rightarrow> Inr v))"

text \<open>
  json.Decoder's Decode into a fresh variable: the value and the text after it, which the decoder
  has not looked at.
\<close>

definition decoder_Decode ::
  "bool \<Rightarrow> (bytes \<Rightarrow> go_error) \<Rightarrow> (bytes \<Rightarrow> go_error) \<Rightarrow> 'v codec \<Rightarrow> bytes \<Rightarrow> go_error + ('v \<times> string)" where
  "decoder_Decode strict syntax typing c b =
     (case json_decode b of
        None \<Rightarrow> Inl (syntax b)
      | Some (j, rest) \<Rightarrow>
          (case of_json c strict j (zero_value c) of
             None \<Rightarrow> Inl (typing b)
           | Some v \<Rightarrow> Inr (v, rest)))"

section \<open>The law of a codec\<close>

text \<open>Decoding what was encoded into a fresh variable gives the value; an empty value is the zero value.\<close>

definition codec_ok :: "'v codec \<Rightarrow> bool" where
  "codec_ok c \<longleftrightarrow>
     (\<forall>strict v. fits c v \<longrightarrow> of_json c strict (to_json c v) (zero_value c) = Some v) \<and>
     (\<forall>v. is_empty c v \<longrightarrow> v = zero_value c)"

named_theorems codec_laws \<open>the codecs that keep the law\<close>

lemma string_codec_ok [codec_laws]: "codec_ok string_codec"
  by (simp add: codec_ok_def string_codec_def)

lemma bool_codec_ok [codec_laws]: "codec_ok bool_codec"
  by (simp add: codec_ok_def bool_codec_def)

lemma int64_codec_ok [codec_laws]: "codec_ok int64_codec"
  using sint64_range by (simp add: codec_ok_def int64_codec_def parse_int64_itoa)

lemma int_codec_ok [codec_laws]: "codec_ok int_codec"
  by (simp add: codec_ok_def int_codec_def parse_int64_itoa)

lemma pointer_codec_ok [codec_laws]: "codec_ok c \<Longrightarrow> codec_ok (pointer_codec c)"
  by (auto simp: codec_ok_def pointer_codec_def split: option.splits)

lemma decode_elems_encoded:
  assumes "codec_ok c" "list_all (fits c) vs"
  shows "decode_elems (of_json c strict) (zero_value c) (map (to_json c) vs) [] = Some vs"
  using assms(2) by (induction vs) (use assms(1) in \<open>auto simp: codec_ok_def\<close>)

lemma slice_codec_ok [codec_laws]: "codec_ok c \<Longrightarrow> codec_ok (slice_codec c)"
  using decode_elems_encoded [of c] 
  unfolding codec_ok_def [of "slice_codec c"] by (auto simp: slice_codec_def)

lemma map_codec_ok [codec_laws]: "codec_ok map_codec"
  by (auto simp: codec_ok_def map_codec_def)

text \<open>Decoding one's own members runs through the fields, each assigned unless it was left out.\<close>

fun rebuild :: "bool \<Rightarrow> 's json_field list \<Rightarrow> 's \<Rightarrow> 's \<Rightarrow> 's option" where
  "rebuild strict [] s y = Some y"
| "rebuild strict (f # fs) s y =
     (case fenc f s of
        None \<Rightarrow> rebuild strict fs s y
      | Some j \<Rightarrow>
          (case fdec f strict j y of
             None \<Rightarrow> None
           | Some y' \<Rightarrow> rebuild strict fs s y'))"

lemma encode_members_simps [simp]:
  "encode_members [] s = []"
  "encode_members (f # fs) s =
     (case fenc f s of None \<Rightarrow> encode_members fs s | Some j \<Rightarrow> (fname f, j) # encode_members fs s)"
  by (simp_all add: encode_members_def map_filter_simps split: option.split)

lemma find_field_own:
  assumes "distinct (map fname fs)" "f \<in> set fs"
  shows "find_field fs (fname f) = Some f"
proof -
  have "List.find (\<lambda>g. fname g = fname f) fs = Some f"
    using assms by (induction fs) auto
  then show ?thesis by (simp add: find_field_def)
qed

lemma decode_own_members:
  assumes "distinct (map fname fs)" "set gs \<subseteq> set fs"
  shows "decode_members strict fs (encode_members gs s) y = rebuild strict gs s y"
  using assms(2)
proof (induction gs arbitrary: y)
  case (Cons g gs)
  then have "find_field fs (fname g) = Some g" using assms(1) by (intro find_field_own) auto
  with Cons show ?case by (auto split: option.split)
qed simp

text \<open>
  A field that keeps the law is assigned the value of the source, where the target still has
  the zero value.
\<close>

lemma rebuild_tag:
  assumes "codec_ok c" "fits c (rd s)" "rd y = zero_value c" "wr (zero_value c) y = y"
  shows "rebuild strict (tag name om c rd wr # fs) s y = rebuild strict fs s (wr (rd s) y)"
  using assms by (auto simp: tag_def codec_ok_def split: option.split)

declare rebuild.simps(2) [simp del]

lemma struct_codec_ok:
  assumes "distinct (map fname fs)"
    and "\<And>s strict. list_all (\<lambda>f. ffits f s) fs \<Longrightarrow> rebuild strict fs s z = Some s"
  shows "codec_ok (struct_codec fs z)"
  using decode_own_members [OF assms(1) subset_refl] assms(2)
  by (simp add: codec_ok_def struct_codec_def)

lemma hide_fields_ok:
  assumes "distinct (map fname fs)"
    and "\<And>s strict. unset s \<Longrightarrow> list_all (\<lambda>f. ffits f s) fs \<Longrightarrow> rebuild strict fs s z = Some s"
  shows "codec_ok (hide_fields unset (struct_codec fs z))"
  using decode_own_members [OF assms(1) subset_refl] assms(2)
  by (simp add: codec_ok_def struct_codec_def hide_fields_def)

lemma tag_simps [simp]:
  "fname (tag name om c rd wr) = name" "ffits (tag name om c rd wr) s = fits c (rd s)"
  by (simp_all add: tag_def)

lemma zero_value_simps [simp]:
  "zero_value string_codec = []" "zero_value bool_codec = False" "zero_value int64_codec = 0"
  "zero_value int_codec = 0" "zero_value (pointer_codec c) = None" "zero_value (slice_codec d) = []"
  "zero_value (struct_codec fs z) = z" "zero_value map_codec = []" "zero_value (hide_fields u c) = zero_value c"
  by (simp_all add: string_codec_def bool_codec_def int64_codec_def int_codec_def pointer_codec_def
    slice_codec_def struct_codec_def map_codec_def hide_fields_def)

section \<open>From value to bytes and back\<close>

definition wire_ok :: "'v codec \<Rightarrow> 'v \<Rightarrow> bool" where
  "wire_ok c v \<longleftrightarrow> fits c v \<and> json_ok max_depth (to_json c v)"

lemma MarshalSigning_Inr: "MarshalSigning c v = Inr (json_text (to_json c v))"
  by (simp add: MarshalSigning_def encoder_Encode_def)

lemma json_parse_text: "json_ok max_depth j \<Longrightarrow> json_parse (json_text j) = Some j"
  using json_round_trip [of j "[]"] by (simp add: json_parse_def)

lemma Unmarshal_MarshalSigning:
  assumes "codec_ok c" "wire_ok c v" "MarshalSigning c v = Inr b"
  shows "json_Unmarshal syntax typing c b = Inr v"
  using assms by (auto simp: MarshalSigning_Inr json_Unmarshal_def json_parse_text wire_ok_def codec_ok_def)

end
