(* ===== verification/Payment_Json.thy ===== *)
theory Payment_Json
  imports Json_Codec Payment_Types
begin

text \<open>
  The JSON form of the structs of atomefin/payment: for each the fields with the names and
  the omitempty of their tags, and the fact that its codec keeps the law.  The two floating-point
  fields are read and written by the codec \<open>fl\<close>.
\<close>

definition sub_order_codec :: "sub_order codec" where
  "sub_order_codec = struct_codec
     [tag ''subOrderId'' True string_codec so_SubOrderID
        (\<lambda>v s. s\<lparr>so_SubOrderID := v\<rparr>),
      tag ''merchantId'' True string_codec so_MerchantID
        (\<lambda>v s. s\<lparr>so_MerchantID := v\<rparr>),
      tag ''merchantName'' True string_codec so_MerchantName
        (\<lambda>v s. s\<lparr>so_MerchantName := v\<rparr>),
      tag ''merchantCategory'' True string_codec so_MerchantCategory
        (\<lambda>v s. s\<lparr>so_MerchantCategory := v\<rparr>),
      tag ''merchantJoinedDate'' True string_codec so_MerchantJoinedDate
        (\<lambda>v s. s\<lparr>so_MerchantJoinedDate := v\<rparr>),
      tag ''amount'' False int64_codec so_Amount
        (\<lambda>v s. s\<lparr>so_Amount := v\<rparr>),
      tag ''periodType'' True (pointer_codec int_codec) so_PeriodType
        (\<lambda>v s. s\<lparr>so_PeriodType := v\<rparr>)]
     \<lparr>so_SubOrderID = [], so_MerchantID = [], so_MerchantName = [], so_MerchantCategory = [], so_MerchantJoinedDate = [], so_Amount = 0, so_PeriodType = None\<rparr>"

lemma sub_order_codec_ok [codec_laws]: "codec_ok sub_order_codec"
  unfolding sub_order_codec_def
  by (rule struct_codec_ok) (simp_all add: rebuild_tag codec_laws)

definition sku_info_codec :: "sku_info codec" where
  "sku_info_codec = struct_codec
     [tag ''skuId'' True string_codec sku_SkuID
        (\<lambda>v s. s\<lparr>sku_SkuID := v\<rparr>),
      tag ''skuName'' True string_codec sku_SkuName
        (\<lambda>v s. s\<lparr>sku_SkuName := v\<rparr>),
      tag ''categoryId'' True string_codec sku_CategoryID
        (\<lambda>v s. s\<lparr>sku_CategoryID := v\<rparr>),
      tag ''categoryOneName'' True string_codec sku_CategoryOneName
        (\<lambda>v s. s\<lparr>sku_CategoryOneName := v\<rparr>),
      tag ''categoryCodes'' True (slice_codec string_codec) sku_CategoryCodes
        (\<lambda>v s. s\<lparr>sku_CategoryCodes := v\<rparr>),
      tag ''quantity'' True int_codec sku_Quantity
        (\<lambda>v s. s\<lparr>sku_Quantity := v\<rparr>),
      tag ''amount'' True int64_codec sku_Amount
        (\<lambda>v s. s\<lparr>sku_Amount := v\<rparr>)]
     \<lparr>sku_SkuID = [], sku_SkuName = [], sku_CategoryID = [], sku_CategoryOneName = [], sku_CategoryCodes = [], sku_Quantity = 0, sku_Amount = 0\<rparr>"

lemma sku_info_codec_ok [codec_laws]: "codec_ok sku_info_codec"
  unfolding sku_info_codec_def
  by (rule struct_codec_ok) (simp_all add: rebuild_tag codec_laws)

definition main_order_extend_info_codec :: "main_order_extend_info codec" where
  "main_order_extend_info_codec = struct_codec
     [tag ''merchantId'' True string_codec moei_MerchantID
        (\<lambda>v s. s\<lparr>moei_MerchantID := v\<rparr>),
      tag ''merchantName'' True string_codec moei_MerchantName
        (\<lambda>v s. s\<lparr>moei_MerchantName := v\<rparr>),
      tag ''skuInfos'' True (slice_codec sku_info_codec) moei_SkuInfos
        (\<lambda>v s. s\<lparr>moei_SkuInfos := v\<rparr>)]
     \<lparr>moei_MerchantID = [], moei_MerchantName = [], moei_SkuInfos = []\<rparr>"

lemma main_order_extend_info_codec_ok [codec_laws]: "codec_ok main_order_extend_info_codec"
  unfolding main_order_extend_info_codec_def
  by (rule struct_codec_ok) (simp_all add: rebuild_tag codec_laws)

definition geo_point_codec :: "geo_point codec" where
  "geo_point_codec = struct_codec
     [tag ''longitude'' True string_codec gp_Longitude
        (\<lambda>v s. s\<lparr>gp_Longitude := v\<rparr>),
      tag ''latitude'' True string_codec gp_Latitude
        (\<lambda>v s. s\<lparr>gp_Latitude := v\<rparr>),
      tag ''time'' True string_codec gp_Time
        (\<lambda>v s. s\<lparr>gp_Time := v\<rparr>)]
     \<lparr>gp_Longitude = [], gp_Latitude = [], gp_Time = []\<rparr>"

lemma geo_point_codec_ok [codec_laws]: "codec_ok geo_point_codec"
  unfolding geo_point_codec_def
  by (rule struct_codec_ok) (simp_all add: rebuild_tag codec_laws)

definition build_info_codec :: "build_info codec" where
  "build_info_codec = struct_codec
     [tag ''board'' True string_codec bi_Board
        (\<lambda>v s. s\<lparr>bi_Board := v\<rparr>),
      tag ''brand'' True string_codec bi_Brand
        (\<lambda>v s. s\<lparr>bi_Brand := v\<rparr>),
      tag ''cpuAbi'' True string_codec bi_CPUABI
        (\<lambda>v s. s\<lparr>bi_CPUABI := v\<rparr>),
      tag ''device'' True string_codec bi_Device
        (\<lambda>v s. s\<lparr>bi_Device := v\<rparr>),
      tag ''manufacturer'' True string_codec bi_Manufacturer
        (\<lambda>v s. s\<lparr>bi_Manufacturer := v\<rparr>),
      tag ''model'' True string_codec bi_Model
        (\<lambda>v s. s\<lparr>bi_Model := v\<rparr>),
      tag ''product'' True string_codec bi_Product
        (\<lambda>v s. s\<lparr>bi_Product := v\<rparr>)]
     \<lparr>bi_Board = [], bi_Brand = [], bi_CPUABI = [], bi_Device = [], bi_Manufacturer = [], bi_Model = [], bi_Product = []\<rparr>"

lemma build_info_codec_ok [codec_laws]: "codec_ok build_info_codec"
  unfolding build_info_codec_def
  by (rule struct_codec_ok) (simp_all add: rebuild_tag codec_laws)

definition device_profile_codec :: "device_profile codec" where
  "device_profile_codec = struct_codec
     [tag ''deviceId'' True string_codec dp_DeviceID
        (\<lambda>v s. s\<lparr>dp_DeviceID := v\<rparr>),
      tag ''googleAdvertisingId'' True string_codec dp_GoogleAdvertisingID
        (\<lambda>v s. s\<lparr>dp_GoogleAdvertisingID := v\<rparr>),
      tag ''idfa'' True string_codec dp_IDFA
        (\<lambda>v s. s\<lparr>dp_IDFA := v\<rparr>),
      tag ''idfv'' True string_codec dp_IDFV
        (\<lambda>v s. s\<lparr>dp_IDFV := v\<rparr>),
      tag ''utdid'' True string_codec dp_UTDID
        (\<lambda>v s. s\<lparr>dp_UTDID := v\<rparr>),
      tag ''isRoot'' False (pointer_codec bool_codec) dp_IsRoot
        (\<lambda>v s. s\<lparr>dp_IsRoot := v\<rparr>),
      tag ''androidId'' True string_codec dp_AndroidID
        (\<lambda>v s. s\<lparr>dp_AndroidID := v\<rparr>),
      tag ''build'' True (pointer_codec build_info_codec) dp_Build
        (\<lambda>v s. s\<lparr>dp_Build := v\<rparr>)]
     \<lparr>dp_DeviceID = [], dp_GoogleAdvertisingID = [], dp_IDFA = [], dp_IDFV = [], dp_UTDID = [], dp_IsRoot = None, dp_AndroidID = [], dp_Build = None\<rparr>"

lemma device_profile_codec_ok [codec_laws]: "codec_ok device_profile_codec"
  unfolding device_profile_codec_def
  by (rule struct_codec_ok) (simp_all add: rebuild_tag codec_laws)

definition wifi_ap_codec :: "wifi_ap codec" where
  "wifi_ap_codec = struct_codec
     [tag ''ssid'' False string_codec wa_SSID
        (\<lambda>v s. s\<lparr>wa_SSID := v\<rparr>)]
     \<lparr>wa_SSID = []\<rparr>"

lemma wifi_ap_codec_ok [codec_laws]: "codec_ok wifi_ap_codec"
  unfolding wifi_ap_codec_def
  by (rule struct_codec_ok) (simp_all add: rebuild_tag codec_laws)

definition ip_address_codec :: "ip_address codec" where
  "ip_address_codec = struct_codec
     [tag ''ethIp'' True string_codec ipa_EthIP
        (\<lambda>v s. s\<lparr>ipa_EthIP := v\<rparr>),
      tag ''trueIp'' True string_codec ipa_TrueIP
        (\<lambda>v s. s\<lparr>ipa_TrueIP := v\<rparr>)]
     \<lparr>ipa_EthIP = [], ipa_TrueIP = []\<rparr>"

lemma ip_address_codec_ok [codec_laws]: "codec_ok ip_address_codec"
  unfolding ip_address_codec_def
  by (rule struct_codec_ok) (simp_all add: rebuild_tag codec_laws)

definition device_info_codec :: "device_info codec" where
  "device_info_codec = struct_codec
     [tag ''platform'' False string_codec di_Platform
        (\<lambda>v s. s\<lparr>di_Platform := v\<rparr>),
      tag ''gps'' True (pointer_codec geo_point_codec) di_GPS
        (\<lambda>v s. s\<lparr>di_GPS := v\<rparr>),
      tag ''device'' False (pointer_codec device_profile_codec) di_Device
        (\<lambda>v s. s\<lparr>di_Device := v\<rparr>),
      tag ''wifiList'' True (slice_codec wifi_ap_codec) di_WifiList
        (\<lambda>v s. s\<lparr>di_WifiList := v\<rparr>),
      tag ''ipAddress'' True (pointer_codec ip_address_codec) di_IPAddress
        (\<lambda>v s. s\<lparr>di_IPAddress := v\<rparr>)]
     \<lparr>di_Platform = [], di_GPS = None, di_Device = None, di_WifiList = [], di_IPAddress = None\<rparr>"

lemma device_info_codec_ok [codec_laws]: "codec_ok device_info_codec"
  unfolding device_info_codec_def
  by (rule struct_codec_ok) (simp_all add: rebuild_tag codec_laws)

definition shipping_address_codec :: "shipping_address codec" where
  "shipping_address_codec = struct_codec
     [tag ''state'' True string_codec sa_State
        (\<lambda>v s. s\<lparr>sa_State := v\<rparr>),
      tag ''city'' False string_codec sa_City
        (\<lambda>v s. s\<lparr>sa_City := v\<rparr>),
      tag ''district'' True string_codec sa_District
        (\<lambda>v s. s\<lparr>sa_District := v\<rparr>),
      tag ''address1'' False string_codec sa_Address1
        (\<lambda>v s. s\<lparr>sa_Address1 := v\<rparr>),
      tag ''address2'' True string_codec sa_Address2
        (\<lambda>v s. s\<lparr>sa_Address2 := v\<rparr>)]
     \<lparr>sa_State = [], sa_City = [], sa_District = [], sa_Address1 = [], sa_Address2 = []\<rparr>"

lemma shipping_address_codec_ok [codec_laws]: "codec_ok shipping_address_codec"
  unfolding shipping_address_codec_def
  by (rule struct_codec_ok) (simp_all add: rebuild_tag codec_laws)

definition address_codec :: "address codec" where
  "address_codec = struct_codec
     [tag ''shippingAddress'' False (pointer_codec shipping_address_codec) adr_ShippingAddress
        (\<lambda>v s. s\<lparr>adr_ShippingAddress := v\<rparr>),
      tag ''shippingName'' False string_codec adr_ShippingName
        (\<lambda>v s. s\<lparr>adr_ShippingName := v\<rparr>),
      tag ''shippingPhoneNo'' False string_codec adr_ShippingPhoneNo
        (\<lambda>v s. s\<lparr>adr_ShippingPhoneNo := v\<rparr>)]
     \<lparr>adr_ShippingAddress = None, adr_ShippingName = [], adr_ShippingPhoneNo = []\<rparr>"

lemma address_codec_ok [codec_laws]: "codec_ok address_codec"
  unfolding address_codec_def
  by (rule struct_codec_ok) (simp_all add: rebuild_tag codec_laws)

definition driver_info_codec :: "float64 codec \<Rightarrow> driver_info codec" where
  "driver_info_codec fl = struct_codec
     [tag ''averageRating'' True (pointer_codec fl) dri_AverageRating
        (\<lambda>v s. s\<lparr>dri_AverageRating := v\<rparr>),
      tag ''isVerified'' True (pointer_codec bool_codec) dri_IsVerified
        (\<lambda>v s. s\<lparr>dri_IsVerified := v\<rparr>)]
     \<lparr>dri_AverageRating = None, dri_IsVerified = None\<rparr>"

lemma driver_info_codec_ok [codec_laws]: "codec_ok fl \<Longrightarrow> codec_ok (driver_info_codec fl)"
  unfolding driver_info_codec_def
  by (rule struct_codec_ok) (simp_all add: rebuild_tag codec_laws)

definition trip_metadata_codec :: "float64 codec \<Rightarrow> trip_metadata codec" where
  "trip_metadata_codec fl = struct_codec
     [tag ''estimatedDistance'' True fl trip_EstimatedDistance
        (\<lambda>v s. s\<lparr>trip_EstimatedDistance := v\<rparr>),
      tag ''pickupLocation'' True string_codec trip_PickupLocation
        (\<lambda>v s. s\<lparr>trip_PickupLocation := v\<rparr>)]
     \<lparr>trip_EstimatedDistance = zero_value fl, trip_PickupLocation = []\<rparr>"

lemma trip_metadata_codec_ok [codec_laws]: "codec_ok fl \<Longrightarrow> codec_ok (trip_metadata_codec fl)"
  unfolding trip_metadata_codec_def
  by (rule struct_codec_ok) (simp_all add: rebuild_tag codec_laws)

definition payment_risk_info_codec :: "float64 codec \<Rightarrow> payment_risk_info codec" where
  "payment_risk_info_codec fl = struct_codec
     [tag ''driverInfo'' True (pointer_codec (driver_info_codec fl)) pri_DriverInfo
        (\<lambda>v s. s\<lparr>pri_DriverInfo := v\<rparr>),
      tag ''tripMetadata'' True (pointer_codec (trip_metadata_codec fl)) pri_TripMetadata
        (\<lambda>v s. s\<lparr>pri_TripMetadata := v\<rparr>)]
     \<lparr>pri_DriverInfo = None, pri_TripMetadata = None\<rparr>"

lemma payment_risk_info_codec_ok [codec_laws]: "codec_ok fl \<Longrightarrow> codec_ok (payment_risk_info_codec fl)"
  unfolding payment_risk_info_codec_def
  by (rule struct_codec_ok) (simp_all add: rebuild_tag codec_laws)

definition request_extend_info_codec :: "float64 codec \<Rightarrow> request_extend_info codec" where
  "request_extend_info_codec fl = struct_codec
     [tag ''orderType'' False string_codec rei_OrderType
        (\<lambda>v s. s\<lparr>rei_OrderType := v\<rparr>),
      tag ''creditProfile'' False string_codec rei_CreditProfile
        (\<lambda>v s. s\<lparr>rei_CreditProfile := v\<rparr>),
      tag ''deviceInfo'' False (pointer_codec device_info_codec) rei_DeviceInfo
        (\<lambda>v s. s\<lparr>rei_DeviceInfo := v\<rparr>),
      tag ''address'' False (pointer_codec address_codec) rei_Address
        (\<lambda>v s. s\<lparr>rei_Address := v\<rparr>),
      tag ''riskInfo'' True (pointer_codec (payment_risk_info_codec fl)) rei_RiskInfo
        (\<lambda>v s. s\<lparr>rei_RiskInfo := v\<rparr>),
      tag ''mainOrderExtendInfos'' True (slice_codec main_order_extend_info_codec) rei_MainOrderExtendInfos
        (\<lambda>v s. s\<lparr>rei_MainOrderExtendInfos := v\<rparr>)]
     \<lparr>rei_OrderType = [], rei_CreditProfile = [], rei_DeviceInfo = None, rei_Address = None, rei_RiskInfo = None, rei_MainOrderExtendInfos = []\<rparr>"

lemma request_extend_info_codec_ok [codec_laws]: "codec_ok fl \<Longrightarrow> codec_ok (request_extend_info_codec fl)"
  unfolding request_extend_info_codec_def
  by (rule struct_codec_ok) (simp_all add: rebuild_tag codec_laws)

definition account_changes_codec :: "account_changes codec" where
  "account_changes_codec = struct_codec
     [tag ''version'' False int64_codec ac_Version
        (\<lambda>v s. s\<lparr>ac_Version := v\<rparr>),
      tag ''externalReferenceUid'' False string_codec ac_ExternalReferenceUID
        (\<lambda>v s. s\<lparr>ac_ExternalReferenceUID := v\<rparr>),
      tag ''previousStatus'' False string_codec ac_PreviousStatus
        (\<lambda>v s. s\<lparr>ac_PreviousStatus := v\<rparr>),
      tag ''currentStatus'' False string_codec ac_CurrentStatus
        (\<lambda>v s. s\<lparr>ac_CurrentStatus := v\<rparr>),
      tag ''totalCreditChange'' False int64_codec ac_TotalCreditChange
        (\<lambda>v s. s\<lparr>ac_TotalCreditChange := v\<rparr>),
      tag ''usedCreditChange'' False int64_codec ac_UsedCreditChange
        (\<lambda>v s. s\<lparr>ac_UsedCreditChange := v\<rparr>),
      tag ''frozenCreditChange'' False int64_codec ac_FrozenCreditChange
        (\<lambda>v s. s\<lparr>ac_FrozenCreditChange := v\<rparr>),
      tag ''availableCreditChange'' False int64_codec ac_AvailableCreditChange
        (\<lambda>v s. s\<lparr>ac_AvailableCreditChange := v\<rparr>),
      tag ''overpaidAmountChange'' False int64_codec ac_OverpaidAmountChange
        (\<lambda>v s. s\<lparr>ac_OverpaidAmountChange := v\<rparr>),
      tag ''lateFeeAmountChange'' False int64_codec ac_LateFeeAmountChange
        (\<lambda>v s. s\<lparr>ac_LateFeeAmountChange := v\<rparr>),
      tag ''interestAmountChange'' False int64_codec ac_InterestAmountChange
        (\<lambda>v s. s\<lparr>ac_InterestAmountChange := v\<rparr>)]
     \<lparr>ac_Version = 0, ac_ExternalReferenceUID = [], ac_PreviousStatus = [], ac_CurrentStatus = [], ac_TotalCreditChange = 0, ac_UsedCreditChange = 0, ac_FrozenCreditChange = 0, ac_AvailableCreditChange = 0, ac_OverpaidAmountChange = 0, ac_LateFeeAmountChange = 0, ac_InterestAmountChange = 0\<rparr>"

lemma account_changes_codec_ok [codec_laws]: "codec_ok account_changes_codec"
  unfolding account_changes_codec_def
  by (rule struct_codec_ok) (simp_all add: rebuild_tag codec_laws)

definition installment_detail_codec :: "installment_detail codec" where
  "installment_detail_codec = struct_codec
     [tag ''subOrderId'' True string_codec ind_SubOrderID
        (\<lambda>v s. s\<lparr>ind_SubOrderID := v\<rparr>),
      tag ''totalTenor'' False int_codec ind_TotalTenor
        (\<lambda>v s. s\<lparr>ind_TotalTenor := v\<rparr>),
      tag ''currentTenor'' False int_codec ind_CurrentTenor
        (\<lambda>v s. s\<lparr>ind_CurrentTenor := v\<rparr>),
      tag ''repayAmount'' False int64_codec ind_RepayAmount
        (\<lambda>v s. s\<lparr>ind_RepayAmount := v\<rparr>),
      tag ''principalAmount'' False int64_codec ind_PrincipalAmount
        (\<lambda>v s. s\<lparr>ind_PrincipalAmount := v\<rparr>),
      tag ''interestAmount'' False int64_codec ind_InterestAmount
        (\<lambda>v s. s\<lparr>ind_InterestAmount := v\<rparr>),
      tag ''billId'' False string_codec ind_BillID
        (\<lambda>v s. s\<lparr>ind_BillID := v\<rparr>),
      tag ''billDate'' False string_codec ind_BillDate
        (\<lambda>v s. s\<lparr>ind_BillDate := v\<rparr>),
      tag ''dueDate'' False string_codec ind_DueDate
        (\<lambda>v s. s\<lparr>ind_DueDate := v\<rparr>)]
     \<lparr>ind_SubOrderID = [], ind_TotalTenor = 0, ind_CurrentTenor = 0, ind_RepayAmount = 0, ind_PrincipalAmount = 0, ind_InterestAmount = 0, ind_BillID = [], ind_BillDate = [], ind_DueDate = []\<rparr>"

lemma installment_detail_codec_ok [codec_laws]: "codec_ok installment_detail_codec"
  unfolding installment_detail_codec_def
  by (rule struct_codec_ok) (simp_all add: rebuild_tag codec_laws)

definition installment_plan_codec :: "installment_plan codec" where
  "installment_plan_codec = struct_codec
     [tag ''totalTenor'' False int_codec ip_TotalTenor
        (\<lambda>v s. s\<lparr>ip_TotalTenor := v\<rparr>),
      tag ''orderRepayAmount'' False int64_codec ip_OrderRepayAmount
        (\<lambda>v s. s\<lparr>ip_OrderRepayAmount := v\<rparr>),
      tag ''orderInterestAmount'' False int64_codec ip_OrderInterestAmount
        (\<lambda>v s. s\<lparr>ip_OrderInterestAmount := v\<rparr>),
      tag ''installmentDetails'' False (slice_codec installment_detail_codec) ip_InstallmentDetails
        (\<lambda>v s. s\<lparr>ip_InstallmentDetails := v\<rparr>)]
     \<lparr>ip_TotalTenor = 0, ip_OrderRepayAmount = 0, ip_OrderInterestAmount = 0, ip_InstallmentDetails = []\<rparr>"

lemma installment_plan_codec_ok [codec_laws]: "codec_ok installment_plan_codec"
  unfolding installment_plan_codec_def
  by (rule struct_codec_ok) (simp_all add: rebuild_tag codec_laws)

definition sub_order_installment_plans_codec :: "sub_order_installment_plans codec" where
  "sub_order_installment_plans_codec = struct_codec
     [tag ''subOrderId'' True string_codec soips_SubOrderID
        (\<lambda>v s. s\<lparr>soips_SubOrderID := v\<rparr>),
      tag ''merchantId'' True string_codec soips_MerchantID
        (\<lambda>v s. s\<lparr>soips_MerchantID := v\<rparr>),
      tag ''merchantName'' True string_codec soips_MerchantName
        (\<lambda>v s. s\<lparr>soips_MerchantName := v\<rparr>),
      tag ''orderAmount'' False int64_codec soips_OrderAmount
        (\<lambda>v s. s\<lparr>soips_OrderAmount := v\<rparr>),
      tag ''installmentPlans'' False (slice_codec installment_plan_codec) soips_InstallmentPlans
        (\<lambda>v s. s\<lparr>soips_InstallmentPlans := v\<rparr>)]
     \<lparr>soips_SubOrderID = [], soips_MerchantID = [], soips_MerchantName = [], soips_OrderAmount = 0, soips_InstallmentPlans = []\<rparr>"

lemma sub_order_installment_plans_codec_ok [codec_laws]: "codec_ok sub_order_installment_plans_codec"
  unfolding sub_order_installment_plans_codec_def
  by (rule struct_codec_ok) (simp_all add: rebuild_tag codec_laws)

definition auth_extend_info_resp_codec :: "auth_extend_info_resp codec" where
  "auth_extend_info_resp_codec = struct_codec
     [tag ''reapplyTime'' True (pointer_codec int64_codec) aeir_ReapplyTime
        (\<lambda>v s. s\<lparr>aeir_ReapplyTime := v\<rparr>)]
     \<lparr>aeir_ReapplyTime = None\<rparr>"

lemma auth_extend_info_resp_codec_ok [codec_laws]: "codec_ok auth_extend_info_resp_codec"
  unfolding auth_extend_info_resp_codec_def
  by (rule struct_codec_ok) (simp_all add: rebuild_tag codec_laws)

definition agreement_ref_codec :: "agreement_ref codec" where
  "agreement_ref_codec = struct_codec
     [tag ''agreementUrl'' True (pointer_codec string_codec) agr_AgreementURL
        (\<lambda>v s. s\<lparr>agr_AgreementURL := v\<rparr>)]
     \<lparr>agr_AgreementURL = None\<rparr>"

lemma agreement_ref_codec_ok [codec_laws]: "codec_ok agreement_ref_codec"
  unfolding agreement_ref_codec_def
  by (rule struct_codec_ok) (simp_all add: rebuild_tag codec_laws)

definition capture_extend_info_resp_codec :: "capture_extend_info_resp codec" where
  "capture_extend_info_resp_codec = struct_codec
     [tag ''reapplyTime'' True (pointer_codec int64_codec) ceir_ReapplyTime
        (\<lambda>v s. s\<lparr>ceir_ReapplyTime := v\<rparr>),
      tag ''agreement'' True (pointer_codec agreement_ref_codec) ceir_Agreement
        (\<lambda>v s. s\<lparr>ceir_Agreement := v\<rparr>)]
     \<lparr>ceir_ReapplyTime = None, ceir_Agreement = None\<rparr>"

lemma capture_extend_info_resp_codec_ok [codec_laws]: "codec_ok capture_extend_info_resp_codec"
  unfolding capture_extend_info_resp_codec_def
  by (rule struct_codec_ok) (simp_all add: rebuild_tag codec_laws)

definition auth_request_codec :: "float64 codec \<Rightarrow> auth_request codec" where
  "auth_request_codec fl = hide_fields (\<lambda>s. ar_Sessionid s = [])
     (struct_codec
     [tag ''requestId'' False string_codec ar_RequestID
        (\<lambda>v s. s\<lparr>ar_RequestID := v\<rparr>),
      tag ''externalReferenceUid'' False string_codec ar_ExternalReferenceUID
        (\<lambda>v s. s\<lparr>ar_ExternalReferenceUID := v\<rparr>),
      tag ''totalAmount'' False int64_codec ar_TotalAmount
        (\<lambda>v s. s\<lparr>ar_TotalAmount := v\<rparr>),
      tag ''periodType'' False int_codec ar_PeriodType
        (\<lambda>v s. s\<lparr>ar_PeriodType := v\<rparr>),
      tag ''subOrders'' False (slice_codec sub_order_codec) ar_SubOrders
        (\<lambda>v s. s\<lparr>ar_SubOrders := v\<rparr>),
      tag ''extendInfo'' False (pointer_codec (request_extend_info_codec fl)) ar_ExtendInfo
        (\<lambda>v s. s\<lparr>ar_ExtendInfo := v\<rparr>)]
     \<lparr>ar_RequestID = [], ar_ExternalReferenceUID = [], ar_TotalAmount = 0, ar_PeriodType = 0, ar_SubOrders = [], ar_ExtendInfo = None, ar_Sessionid = []\<rparr>)"

lemma auth_request_codec_ok [codec_laws]: "codec_ok fl \<Longrightarrow> codec_ok (auth_request_codec fl)"
  unfolding auth_request_codec_def
  by (rule hide_fields_ok) (simp_all add: rebuild_tag codec_laws)

definition authorization_data_codec :: "authorization_data codec" where
  "authorization_data_codec = struct_codec
     [tag ''requestId'' False string_codec ad_RequestID
        (\<lambda>v s. s\<lparr>ad_RequestID := v\<rparr>),
      tag ''currency'' False string_codec ad_Currency
        (\<lambda>v s. s\<lparr>ad_Currency := v\<rparr>),
      tag ''authOrderId'' False string_codec ad_AuthOrderID
        (\<lambda>v s. s\<lparr>ad_AuthOrderID := v\<rparr>),
      tag ''totalAmount'' False int64_codec ad_TotalAmount
        (\<lambda>v s. s\<lparr>ad_TotalAmount := v\<rparr>),
      tag ''status'' False string_codec ad_Status
        (\<lambda>v s. s\<lparr>ad_Status := v\<rparr>),
      tag ''failureCode'' True string_codec ad_FailureCode
        (\<lambda>v s. s\<lparr>ad_FailureCode := v\<rparr>),
      tag ''subOrderInstallmentPlans'' True (slice_codec sub_order_installment_plans_codec) ad_SubOrderInstallmentPlans
        (\<lambda>v s. s\<lparr>ad_SubOrderInstallmentPlans := v\<rparr>),
      tag ''accountChanges'' True (pointer_codec account_changes_codec) ad_AccountChanges
        (\<lambda>v s. s\<lparr>ad_AccountChanges := v\<rparr>),
      tag ''extendInfo'' True (pointer_codec auth_extend_info_resp_codec) ad_ExtendInfo
        (\<lambda>v s. s\<lparr>ad_ExtendInfo := v\<rparr>)]
     \<lparr>ad_RequestID = [], ad_Currency = [], ad_AuthOrderID = [], ad_TotalAmount = 0, ad_Status = [], ad_FailureCode = [], ad_SubOrderInstallmentPlans = [], ad_AccountChanges = None, ad_ExtendInfo = None\<rparr>"

lemma authorization_data_codec_ok [codec_laws]: "codec_ok authorization_data_codec"
  unfolding authorization_data_codec_def
  by (rule struct_codec_ok) (simp_all add: rebuild_tag codec_laws)

definition auth_response_codec :: "auth_response codec" where
  "auth_response_codec = struct_codec
     [tag ''code'' False string_codec arsp_Code
        (\<lambda>v s. s\<lparr>arsp_Code := v\<rparr>),
      tag ''message'' False string_codec arsp_Message
        (\<lambda>v s. s\<lparr>arsp_Message := v\<rparr>),
      tag ''data'' True (pointer_codec authorization_data_codec) arsp_Data
        (\<lambda>v s. s\<lparr>arsp_Data := v\<rparr>)]
     \<lparr>arsp_Code = [], arsp_Message = [], arsp_Data = None\<rparr>"

lemma auth_response_codec_ok [codec_laws]: "codec_ok auth_response_codec"
  unfolding auth_response_codec_def
  by (rule struct_codec_ok) (simp_all add: rebuild_tag codec_laws)

definition capture_request_codec :: "float64 codec \<Rightarrow> capture_request codec" where
  "capture_request_codec fl = struct_codec
     [tag ''requestId'' False string_codec cr_RequestID
        (\<lambda>v s. s\<lparr>cr_RequestID := v\<rparr>),
      tag ''externalReferenceUid'' False string_codec cr_ExternalReferenceUID
        (\<lambda>v s. s\<lparr>cr_ExternalReferenceUID := v\<rparr>),
      tag ''authOrderId'' False string_codec cr_AuthOrderID
        (\<lambda>v s. s\<lparr>cr_AuthOrderID := v\<rparr>),
      tag ''totalAmount'' False int64_codec cr_TotalAmount
        (\<lambda>v s. s\<lparr>cr_TotalAmount := v\<rparr>),
      tag ''periodType'' False int_codec cr_PeriodType
        (\<lambda>v s. s\<lparr>cr_PeriodType := v\<rparr>),
      tag ''subOrders'' False (slice_codec sub_order_codec) cr_SubOrders
        (\<lambda>v s. s\<lparr>cr_SubOrders := v\<rparr>),
      tag ''extendInfo'' False (pointer_codec (request_extend_info_codec fl)) cr_ExtendInfo
        (\<lambda>v s. s\<lparr>cr_ExtendInfo := v\<rparr>)]
     \<lparr>cr_RequestID = [], cr_ExternalReferenceUID = [], cr_AuthOrderID = [], cr_TotalAmount = 0, cr_PeriodType = 0, cr_SubOrders = [], cr_ExtendInfo = None\<rparr>"

lemma capture_request_codec_ok [codec_laws]: "codec_ok fl \<Longrightarrow> codec_ok (capture_request_codec fl)"
  unfolding capture_request_codec_def
  by (rule struct_codec_ok) (simp_all add: rebuild_tag codec_laws)

definition payment_result_codec :: "payment_result codec" where
  "payment_result_codec = struct_codec
     [tag ''requestId'' False string_codec pr_RequestID
        (\<lambda>v s. s\<lparr>pr_RequestID := v\<rparr>),
      tag ''orderId'' False string_codec pr_OrderID
        (\<lambda>v s. s\<lparr>pr_OrderID := v\<rparr>),
      tag ''currency'' False string_codec pr_Currency
        (\<lambda>v s. s\<lparr>pr_Currency := v\<rparr>),
      tag ''totalAmount'' False int64_codec pr_TotalAmount
        (\<lambda>v s. s\<lparr>pr_TotalAmount := v\<rparr>),
      tag ''status'' False string_codec pr_Status
        (\<lambda>v s. s\<lparr>pr_Status := v\<rparr>),
      tag ''failureCode'' True string_codec pr_FailureCode
        (\<lambda>v s. s\<lparr>pr_FailureCode := v\<rparr>),
      tag ''subOrderInstallmentPlans'' True (slice_codec sub_order_installment_plans_codec) pr_SubOrderInstallmentPlans
        (\<lambda>v s. s\<lparr>pr_SubOrderInstallmentPlans := v\<rparr>),
      tag ''accountChanges'' True (pointer_codec account_changes_codec) pr_AccountChanges
        (\<lambda>v s. s\<lparr>pr_AccountChanges := v\<rparr>),
      tag ''extendInfo'' True (pointer_codec capture_extend_info_resp_codec) pr_ExtendInfo
        (\<lambda>v s. s\<lparr>pr_ExtendInfo := v\<rparr>)]
     \<lparr>pr_RequestID = [], pr_OrderID = [], pr_Currency = [], pr_TotalAmount = 0, pr_Status = [], pr_FailureCode = [], pr_SubOrderInstallmentPlans = [], pr_AccountChanges = None, pr_ExtendInfo = None\<rparr>"

lemma payment_result_codec_ok [codec_laws]: "codec_ok payment_result_codec"
  unfolding payment_result_codec_def
  by (rule struct_codec_ok) (simp_all add: rebuild_tag codec_laws)

definition capture_result_data_codec :: "capture_result_data codec" where
  "capture_result_data_codec = struct_codec
     [tag ''requestId'' False string_codec (\<lambda>s. pr_RequestID (crd_PaymentResult s))
        (\<lambda>v s. s\<lparr>crd_PaymentResult := (crd_PaymentResult s)\<lparr>pr_RequestID := v\<rparr>\<rparr>),
      tag ''orderId'' False string_codec (\<lambda>s. pr_OrderID (crd_PaymentResult s))
        (\<lambda>v s. s\<lparr>crd_PaymentResult := (crd_PaymentResult s)\<lparr>pr_OrderID := v\<rparr>\<rparr>),
      tag ''currency'' False string_codec (\<lambda>s. pr_Currency (crd_PaymentResult s))
        (\<lambda>v s. s\<lparr>crd_PaymentResult := (crd_PaymentResult s)\<lparr>pr_Currency := v\<rparr>\<rparr>),
      tag ''totalAmount'' False int64_codec (\<lambda>s. pr_TotalAmount (crd_PaymentResult s))
        (\<lambda>v s. s\<lparr>crd_PaymentResult := (crd_PaymentResult s)\<lparr>pr_TotalAmount := v\<rparr>\<rparr>),
      tag ''status'' False string_codec (\<lambda>s. pr_Status (crd_PaymentResult s))
        (\<lambda>v s. s\<lparr>crd_PaymentResult := (crd_PaymentResult s)\<lparr>pr_Status := v\<rparr>\<rparr>),
      tag ''failureCode'' True string_codec (\<lambda>s. pr_FailureCode (crd_PaymentResult s))
        (\<lambda>v s. s\<lparr>crd_PaymentResult := (crd_PaymentResult s)\<lparr>pr_FailureCode := v\<rparr>\<rparr>),
      tag ''subOrderInstallmentPlans'' True (slice_codec sub_order_installment_plans_codec) (\<lambda>s. pr_SubOrderInstallmentPlans (crd_PaymentResult s))
        (\<lambda>v s. s\<lparr>crd_PaymentResult := (crd_PaymentResult s)\<lparr>pr_SubOrderInstallmentPlans := v\<rparr>\<rparr>),
      tag ''accountChanges'' True (pointer_codec account_changes_codec) (\<lambda>s. pr_AccountChanges (crd_PaymentResult s))
        (\<lambda>v s. s\<lparr>crd_PaymentResult := (crd_PaymentResult s)\<lparr>pr_AccountChanges := v\<rparr>\<rparr>),
      tag ''extendInfo'' True (pointer_codec capture_extend_info_resp_codec) (\<lambda>s. pr_ExtendInfo (crd_PaymentResult s))
        (\<lambda>v s. s\<lparr>crd_PaymentResult := (crd_PaymentResult s)\<lparr>pr_ExtendInfo := v\<rparr>\<rparr>),
      tag ''authOrderId'' False string_codec crd_AuthOrderID
        (\<lambda>v s. s\<lparr>crd_AuthOrderID := v\<rparr>)]
     \<lparr>crd_PaymentResult = \<lparr>pr_RequestID = [], pr_OrderID = [], pr_Currency = [], pr_TotalAmount = 0, pr_Status = [], pr_FailureCode = [], pr_SubOrderInstallmentPlans = [], pr_AccountChanges = None, pr_ExtendInfo = None\<rparr>, crd_AuthOrderID = []\<rparr>"

lemma capture_result_data_codec_ok [codec_laws]: "codec_ok capture_result_data_codec"
  unfolding capture_result_data_codec_def
  by (rule struct_codec_ok) (simp_all add: rebuild_tag codec_laws)

definition capture_response_codec :: "capture_response codec" where
  "capture_response_codec = struct_codec
     [tag ''code'' False string_codec crsp_Code
        (\<lambda>v s. s\<lparr>crsp_Code := v\<rparr>),
      tag ''message'' False string_codec crsp_Message
        (\<lambda>v s. s\<lparr>crsp_Message := v\<rparr>),
      tag ''data'' True (pointer_codec capture_result_data_codec) crsp_Data
        (\<lambda>v s. s\<lparr>crsp_Data := v\<rparr>)]
     \<lparr>crsp_Code = [], crsp_Message = [], crsp_Data = None\<rparr>"

lemma capture_response_codec_ok [codec_laws]: "codec_ok capture_response_codec"
  unfolding capture_response_codec_def
  by (rule struct_codec_ok) (simp_all add: rebuild_tag codec_laws)

definition re_auth_request_codec :: "float64 codec \<Rightarrow> re_auth_request codec" where
  "re_auth_request_codec fl = struct_codec
     [tag ''requestId'' False string_codec rar_RequestID
        (\<lambda>v s. s\<lparr>rar_RequestID := v\<rparr>),
      tag ''externalReferenceUid'' False string_codec rar_ExternalReferenceUID
        (\<lambda>v s. s\<lparr>rar_ExternalReferenceUID := v\<rparr>),
      tag ''authOrderId'' False string_codec rar_AuthOrderID
        (\<lambda>v s. s\<lparr>rar_AuthOrderID := v\<rparr>),
      tag ''totalAmount'' False int64_codec rar_TotalAmount
        (\<lambda>v s. s\<lparr>rar_TotalAmount := v\<rparr>),
      tag ''periodType'' False int_codec rar_PeriodType
        (\<lambda>v s. s\<lparr>rar_PeriodType := v\<rparr>),
      tag ''subOrders'' False (slice_codec sub_order_codec) rar_SubOrders
        (\<lambda>v s. s\<lparr>rar_SubOrders := v\<rparr>),
      tag ''extendInfo'' False (pointer_codec (request_extend_info_codec fl)) rar_ExtendInfo
        (\<lambda>v s. s\<lparr>rar_ExtendInfo := v\<rparr>)]
     \<lparr>rar_RequestID = [], rar_ExternalReferenceUID = [], rar_AuthOrderID = [], rar_TotalAmount = 0, rar_PeriodType = 0, rar_SubOrders = [], rar_ExtendInfo = None\<rparr>"

lemma re_auth_request_codec_ok [codec_laws]: "codec_ok fl \<Longrightarrow> codec_ok (re_auth_request_codec fl)"
  unfolding re_auth_request_codec_def
  by (rule struct_codec_ok) (simp_all add: rebuild_tag codec_laws)

definition re_auth_result_data_codec :: "re_auth_result_data codec" where
  "re_auth_result_data_codec = struct_codec
     [tag ''requestId'' False string_codec rard_RequestID
        (\<lambda>v s. s\<lparr>rard_RequestID := v\<rparr>),
      tag ''currency'' False string_codec rard_Currency
        (\<lambda>v s. s\<lparr>rard_Currency := v\<rparr>),
      tag ''authOrderId'' False string_codec rard_AuthOrderID
        (\<lambda>v s. s\<lparr>rard_AuthOrderID := v\<rparr>),
      tag ''originalAuthOrderId'' False string_codec rard_OriginalAuthOrderID
        (\<lambda>v s. s\<lparr>rard_OriginalAuthOrderID := v\<rparr>),
      tag ''totalAmount'' False int64_codec rard_TotalAmount
        (\<lambda>v s. s\<lparr>rard_TotalAmount := v\<rparr>),
      tag ''status'' False string_codec rard_Status
        (\<lambda>v s. s\<lparr>rard_Status := v\<rparr>),
      tag ''failureCode'' True string_codec rard_FailureCode
        (\<lambda>v s. s\<lparr>rard_FailureCode := v\<rparr>),
      tag ''subOrderInstallmentPlans'' True (slice_codec sub_order_installment_plans_codec) rard_SubOrderInstallmentPlans
        (\<lambda>v s. s\<lparr>rard_SubOrderInstallmentPlans := v\<rparr>),
      tag ''accountChanges'' True (pointer_codec account_changes_codec) rard_AccountChanges
        (\<lambda>v s. s\<lparr>rard_AccountChanges := v\<rparr>),
      tag ''extendInfo'' True (pointer_codec auth_extend_info_resp_codec) rard_ExtendInfo
        (\<lambda>v s. s\<lparr>rard_ExtendInfo := v\<rparr>)]
     \<lparr>rard_RequestID = [], rard_Currency = [], rard_AuthOrderID = [], rard_OriginalAuthOrderID = [], rard_TotalAmount = 0, rard_Status = [], rard_FailureCode = [], rard_SubOrderInstallmentPlans = [], rard_AccountChanges = None, rard_ExtendInfo = None\<rparr>"

lemma re_auth_result_data_codec_ok [codec_laws]: "codec_ok re_auth_result_data_codec"
  unfolding re_auth_result_data_codec_def
  by (rule struct_codec_ok) (simp_all add: rebuild_tag codec_laws)

definition re_auth_response_codec :: "re_auth_response codec" where
  "re_auth_response_codec = struct_codec
     [tag ''code'' False string_codec rarsp_Code
        (\<lambda>v s. s\<lparr>rarsp_Code := v\<rparr>),
      tag ''message'' False string_codec rarsp_Message
        (\<lambda>v s. s\<lparr>rarsp_Message := v\<rparr>),
      tag ''data'' True (pointer_codec re_auth_result_data_codec) rarsp_Data
        (\<lambda>v s. s\<lparr>rarsp_Data := v\<rparr>)]
     \<lparr>rarsp_Code = [], rarsp_Message = [], rarsp_Data = None\<rparr>"

lemma re_auth_response_codec_ok [codec_laws]: "codec_ok re_auth_response_codec"
  unfolding re_auth_response_codec_def
  by (rule struct_codec_ok) (simp_all add: rebuild_tag codec_laws)

definition void_auth_request_codec :: "void_auth_request codec" where
  "void_auth_request_codec = struct_codec
     [tag ''requestId'' False string_codec var_RequestID
        (\<lambda>v s. s\<lparr>var_RequestID := v\<rparr>),
      tag ''externalReferenceUid'' False string_codec var_ExternalReferenceUID
        (\<lambda>v s. s\<lparr>var_ExternalReferenceUID := v\<rparr>),
      tag ''authOrderId'' False string_codec var_AuthOrderID
        (\<lambda>v s. s\<lparr>var_AuthOrderID := v\<rparr>)]
     \<lparr>var_RequestID = [], var_ExternalReferenceUID = [], var_AuthOrderID = []\<rparr>"

lemma void_auth_request_codec_ok [codec_laws]: "codec_ok void_auth_request_codec"
  unfolding void_auth_request_codec_def
  by (rule struct_codec_ok) (simp_all add: rebuild_tag codec_laws)

definition void_result_data_codec :: "void_result_data codec" where
  "void_result_data_codec = struct_codec
     [tag ''requestId'' False string_codec vrd_RequestID
        (\<lambda>v s. s\<lparr>vrd_RequestID := v\<rparr>),
      tag ''externalReferenceUid'' False string_codec vrd_ExternalReferenceUID
        (\<lambda>v s. s\<lparr>vrd_ExternalReferenceUID := v\<rparr>),
      tag ''authOrderId'' False string_codec vrd_AuthOrderID
        (\<lambda>v s. s\<lparr>vrd_AuthOrderID := v\<rparr>),
      tag ''accountChanges'' True (pointer_codec account_changes_codec) vrd_AccountChanges
        (\<lambda>v s. s\<lparr>vrd_AccountChanges := v\<rparr>)]
     \<lparr>vrd_RequestID = [], vrd_ExternalReferenceUID = [], vrd_AuthOrderID = [], vrd_AccountChanges = None\<rparr>"

lemma void_result_data_codec_ok [codec_laws]: "codec_ok void_result_data_codec"
  unfolding void_result_data_codec_def
  by (rule struct_codec_ok) (simp_all add: rebuild_tag codec_laws)

definition void_auth_response_codec :: "void_auth_response codec" where
  "void_auth_response_codec = struct_codec
     [tag ''code'' False string_codec varsp_Code
        (\<lambda>v s. s\<lparr>varsp_Code := v\<rparr>),
      tag ''message'' False string_codec varsp_Message
        (\<lambda>v s. s\<lparr>varsp_Message := v\<rparr>),
      tag ''data'' True (pointer_codec void_result_data_codec) varsp_Data
        (\<lambda>v s. s\<lparr>varsp_Data := v\<rparr>)]
     \<lparr>varsp_Code = [], varsp_Message = [], varsp_Data = None\<rparr>"

lemma void_auth_response_codec_ok [codec_laws]: "codec_ok void_auth_response_codec"
  unfolding void_auth_response_codec_def
  by (rule struct_codec_ok) (simp_all add: rebuild_tag codec_laws)

definition plan_sub_order_codec :: "plan_sub_order codec" where
  "plan_sub_order_codec = struct_codec
     [tag ''subOrderId'' True string_codec pso_SubOrderID
        (\<lambda>v s. s\<lparr>pso_SubOrderID := v\<rparr>),
      tag ''merchantId'' True string_codec pso_MerchantID
        (\<lambda>v s. s\<lparr>pso_MerchantID := v\<rparr>),
      tag ''merchantName'' True string_codec pso_MerchantName
        (\<lambda>v s. s\<lparr>pso_MerchantName := v\<rparr>),
      tag ''merchantCategory'' True string_codec pso_MerchantCategory
        (\<lambda>v s. s\<lparr>pso_MerchantCategory := v\<rparr>),
      tag ''merchantJoinedDate'' True string_codec pso_MerchantJoinedDate
        (\<lambda>v s. s\<lparr>pso_MerchantJoinedDate := v\<rparr>),
      tag ''amount'' True int64_codec pso_Amount
        (\<lambda>v s. s\<lparr>pso_Amount := v\<rparr>),
      tag ''periodType'' True (pointer_codec int_codec) pso_PeriodType
        (\<lambda>v s. s\<lparr>pso_PeriodType := v\<rparr>)]
     \<lparr>pso_SubOrderID = [], pso_MerchantID = [], pso_MerchantName = [], pso_MerchantCategory = [], pso_MerchantJoinedDate = [], pso_Amount = 0, pso_PeriodType = None\<rparr>"

lemma plan_sub_order_codec_ok [codec_laws]: "codec_ok plan_sub_order_codec"
  unfolding plan_sub_order_codec_def
  by (rule struct_codec_ok) (simp_all add: rebuild_tag codec_laws)

definition checkout_extend_info_codec :: "checkout_extend_info codec" where
  "checkout_extend_info_codec = struct_codec
     [tag ''orderType'' False string_codec cei_OrderType
        (\<lambda>v s. s\<lparr>cei_OrderType := v\<rparr>),
      tag ''mainOrderExtendInfos'' True (slice_codec main_order_extend_info_codec) cei_MainOrderExtendInfos
        (\<lambda>v s. s\<lparr>cei_MainOrderExtendInfos := v\<rparr>)]
     \<lparr>cei_OrderType = [], cei_MainOrderExtendInfos = []\<rparr>"

lemma checkout_extend_info_codec_ok [codec_laws]: "codec_ok checkout_extend_info_codec"
  unfolding checkout_extend_info_codec_def
  by (rule struct_codec_ok) (simp_all add: rebuild_tag codec_laws)

definition payment_plan_request_codec :: "payment_plan_request codec" where
  "payment_plan_request_codec = hide_fields (\<lambda>s. ppr_RequestID s = [] \<and> ppr_PeriodType s = 0 \<and> ppr_Sessionid s = [])
     (struct_codec
     [tag ''externalReferenceUid'' False string_codec ppr_ExternalReferenceUID
        (\<lambda>v s. s\<lparr>ppr_ExternalReferenceUID := v\<rparr>),
      tag ''mode'' False string_codec ppr_Mode
        (\<lambda>v s. s\<lparr>ppr_Mode := v\<rparr>),
      tag ''sessionId'' True string_codec ppr_SessionID
        (\<lambda>v s. s\<lparr>ppr_SessionID := v\<rparr>),
      tag ''totalAmount'' False int64_codec ppr_TotalAmount
        (\<lambda>v s. s\<lparr>ppr_TotalAmount := v\<rparr>),
      tag ''subOrders'' False (slice_codec plan_sub_order_codec) ppr_SubOrders
        (\<lambda>v s. s\<lparr>ppr_SubOrders := v\<rparr>),
      tag ''extendInfo'' False (pointer_codec checkout_extend_info_codec) ppr_ExtendInfo
        (\<lambda>v s. s\<lparr>ppr_ExtendInfo := v\<rparr>)]
     \<lparr>ppr_RequestID = [], ppr_PeriodType = 0, ppr_ExternalReferenceUID = [], ppr_Mode = [], ppr_SessionID = [], ppr_TotalAmount = 0, ppr_SubOrders = [], ppr_ExtendInfo = None, ppr_Sessionid = []\<rparr>)"

lemma payment_plan_request_codec_ok [codec_laws]: "codec_ok payment_plan_request_codec"
  unfolding payment_plan_request_codec_def
  by (rule hide_fields_ok) (simp_all add: rebuild_tag codec_laws)

definition commerce_installment_detail_codec :: "commerce_installment_detail codec" where
  "commerce_installment_detail_codec = struct_codec
     [tag ''subOrderId'' True string_codec cid_SubOrderID
        (\<lambda>v s. s\<lparr>cid_SubOrderID := v\<rparr>),
      tag ''totalTenor'' False int_codec cid_TotalTenor
        (\<lambda>v s. s\<lparr>cid_TotalTenor := v\<rparr>),
      tag ''currentTenor'' False int_codec cid_CurrentTenor
        (\<lambda>v s. s\<lparr>cid_CurrentTenor := v\<rparr>),
      tag ''repayAmount'' False int64_codec cid_RepayAmount
        (\<lambda>v s. s\<lparr>cid_RepayAmount := v\<rparr>),
      tag ''principalAmount'' False int64_codec cid_PrincipalAmount
        (\<lambda>v s. s\<lparr>cid_PrincipalAmount := v\<rparr>),
      tag ''interestAmount'' False int64_codec cid_InterestAmount
        (\<lambda>v s. s\<lparr>cid_InterestAmount := v\<rparr>),
      tag ''discountAmount'' True int64_codec cid_DiscountAmount
        (\<lambda>v s. s\<lparr>cid_DiscountAmount := v\<rparr>),
      tag ''billId'' False string_codec cid_BillID
        (\<lambda>v s. s\<lparr>cid_BillID := v\<rparr>),
      tag ''billDate'' False string_codec cid_BillDate
        (\<lambda>v s. s\<lparr>cid_BillDate := v\<rparr>),
      tag ''dueDate'' False string_codec cid_DueDate
        (\<lambda>v s. s\<lparr>cid_DueDate := v\<rparr>)]
     \<lparr>cid_SubOrderID = [], cid_TotalTenor = 0, cid_CurrentTenor = 0, cid_RepayAmount = 0, cid_PrincipalAmount = 0, cid_InterestAmount = 0, cid_DiscountAmount = 0, cid_BillID = [], cid_BillDate = [], cid_DueDate = []\<rparr>"

lemma commerce_installment_detail_codec_ok [codec_laws]: "codec_ok commerce_installment_detail_codec"
  unfolding commerce_installment_detail_codec_def
  by (rule struct_codec_ok) (simp_all add: rebuild_tag codec_laws)

definition commerce_installment_plan_codec :: "commerce_installment_plan codec" where
  "commerce_installment_plan_codec = struct_codec
     [tag ''totalTenor'' False int_codec cip_TotalTenor
        (\<lambda>v s. s\<lparr>cip_TotalTenor := v\<rparr>),
      tag ''orderRepayAmount'' False int64_codec cip_OrderRepayAmount
        (\<lambda>v s. s\<lparr>cip_OrderRepayAmount := v\<rparr>),
      tag ''orderInterestAmount'' False int64_codec cip_OrderInterestAmount
        (\<lambda>v s. s\<lparr>cip_OrderInterestAmount := v\<rparr>),
      tag ''orderDiscountAmount'' True int64_codec cip_OrderDiscountAmount
        (\<lambda>v s. s\<lparr>cip_OrderDiscountAmount := v\<rparr>),
      tag ''installmentDetails'' False (slice_codec commerce_installment_detail_codec) cip_InstallmentDetails
        (\<lambda>v s. s\<lparr>cip_InstallmentDetails := v\<rparr>)]
     \<lparr>cip_TotalTenor = 0, cip_OrderRepayAmount = 0, cip_OrderInterestAmount = 0, cip_OrderDiscountAmount = 0, cip_InstallmentDetails = []\<rparr>"

lemma commerce_installment_plan_codec_ok [codec_laws]: "codec_ok commerce_installment_plan_codec"
  unfolding commerce_installment_plan_codec_def
  by (rule struct_codec_ok) (simp_all add: rebuild_tag codec_laws)

definition commerce_sub_order_installment_plans_codec :: "commerce_sub_order_installment_plans codec" where
  "commerce_sub_order_installment_plans_codec = struct_codec
     [tag ''subOrderId'' True string_codec csoip_SubOrderID
        (\<lambda>v s. s\<lparr>csoip_SubOrderID := v\<rparr>),
      tag ''merchantId'' True string_codec csoip_MerchantID
        (\<lambda>v s. s\<lparr>csoip_MerchantID := v\<rparr>),
      tag ''merchantName'' True string_codec csoip_MerchantName
        (\<lambda>v s. s\<lparr>csoip_MerchantName := v\<rparr>),
      tag ''orderAmount'' False int64_codec csoip_OrderAmount
        (\<lambda>v s. s\<lparr>csoip_OrderAmount := v\<rparr>),
      tag ''installmentPlans'' False (slice_codec commerce_installment_plan_codec) csoip_InstallmentPlans
        (\<lambda>v s. s\<lparr>csoip_InstallmentPlans := v\<rparr>)]
     \<lparr>csoip_SubOrderID = [], csoip_MerchantID = [], csoip_MerchantName = [], csoip_OrderAmount = 0, csoip_InstallmentPlans = []\<rparr>"

lemma commerce_sub_order_installment_plans_codec_ok [codec_laws]: "codec_ok commerce_sub_order_installment_plans_codec"
  unfolding commerce_sub_order_installment_plans_codec_def
  by (rule struct_codec_ok) (simp_all add: rebuild_tag codec_laws)

definition sum_order_installment_detail_codec :: "sum_order_installment_detail codec" where
  "sum_order_installment_detail_codec = struct_codec
     [tag ''totalTenor'' False int_codec sumid_TotalTenor
        (\<lambda>v s. s\<lparr>sumid_TotalTenor := v\<rparr>),
      tag ''currentTenor'' False int_codec sumid_CurrentTenor
        (\<lambda>v s. s\<lparr>sumid_CurrentTenor := v\<rparr>),
      tag ''repayAmount'' False int64_codec sumid_RepayAmount
        (\<lambda>v s. s\<lparr>sumid_RepayAmount := v\<rparr>),
      tag ''principalAmount'' False int64_codec sumid_PrincipalAmount
        (\<lambda>v s. s\<lparr>sumid_PrincipalAmount := v\<rparr>),
      tag ''interestAmount'' False int64_codec sumid_InterestAmount
        (\<lambda>v s. s\<lparr>sumid_InterestAmount := v\<rparr>),
      tag ''discountAmount'' True int64_codec sumid_DiscountAmount
        (\<lambda>v s. s\<lparr>sumid_DiscountAmount := v\<rparr>),
      tag ''billId'' False string_codec sumid_BillID
        (\<lambda>v s. s\<lparr>sumid_BillID := v\<rparr>),
      tag ''billDate'' False string_codec sumid_BillDate
        (\<lambda>v s. s\<lparr>sumid_BillDate := v\<rparr>),
      tag ''dueDate'' False string_codec sumid_DueDate
        (\<lambda>v s. s\<lparr>sumid_DueDate := v\<rparr>)]
     \<lparr>sumid_TotalTenor = 0, sumid_CurrentTenor = 0, sumid_RepayAmount = 0, sumid_PrincipalAmount = 0, sumid_InterestAmount = 0, sumid_DiscountAmount = 0, sumid_BillID = [], sumid_BillDate = [], sumid_DueDate = []\<rparr>"

lemma sum_order_installment_detail_codec_ok [codec_laws]: "codec_ok sum_order_installment_detail_codec"
  unfolding sum_order_installment_detail_codec_def
  by (rule struct_codec_ok) (simp_all add: rebuild_tag codec_laws)

definition sum_order_installment_plan_codec :: "sum_order_installment_plan codec" where
  "sum_order_installment_plan_codec = struct_codec
     [tag ''totalTenor'' False int_codec sumip_TotalTenor
        (\<lambda>v s. s\<lparr>sumip_TotalTenor := v\<rparr>),
      tag ''sumOrderRepayAmount'' False int64_codec sumip_SumOrderRepayAmount
        (\<lambda>v s. s\<lparr>sumip_SumOrderRepayAmount := v\<rparr>),
      tag ''sumOrderInterestAmount'' False int64_codec sumip_SumOrderInterestAmount
        (\<lambda>v s. s\<lparr>sumip_SumOrderInterestAmount := v\<rparr>),
      tag ''sumOrderDiscountAmount'' True int64_codec sumip_SumOrderDiscountAmount
        (\<lambda>v s. s\<lparr>sumip_SumOrderDiscountAmount := v\<rparr>),
      tag ''installmentDetails'' False (slice_codec sum_order_installment_detail_codec) sumip_InstallmentDetails
        (\<lambda>v s. s\<lparr>sumip_InstallmentDetails := v\<rparr>)]
     \<lparr>sumip_TotalTenor = 0, sumip_SumOrderRepayAmount = 0, sumip_SumOrderInterestAmount = 0, sumip_SumOrderDiscountAmount = 0, sumip_InstallmentDetails = []\<rparr>"

lemma sum_order_installment_plan_codec_ok [codec_laws]: "codec_ok sum_order_installment_plan_codec"
  unfolding sum_order_installment_plan_codec_def
  by (rule struct_codec_ok) (simp_all add: rebuild_tag codec_laws)

definition sum_order_installment_plans_codec :: "sum_order_installment_plans codec" where
  "sum_order_installment_plans_codec = struct_codec
     [tag ''sumOrderAmount'' True int64_codec sumips_SumOrderAmount
        (\<lambda>v s. s\<lparr>sumips_SumOrderAmount := v\<rparr>),
      tag ''installmentPlans'' True (slice_codec sum_order_installment_plan_codec) sumips_InstallmentPlans
        (\<lambda>v s. s\<lparr>sumips_InstallmentPlans := v\<rparr>)]
     \<lparr>sumips_SumOrderAmount = 0, sumips_InstallmentPlans = []\<rparr>"

lemma sum_order_installment_plans_codec_ok [codec_laws]: "codec_ok sum_order_installment_plans_codec"
  unfolding sum_order_installment_plans_codec_def
  by (rule struct_codec_ok) (simp_all add: rebuild_tag codec_laws)

definition payment_plan_data_extend_info_codec :: "payment_plan_data_extend_info codec" where
  "payment_plan_data_extend_info_codec = struct_codec
     [tag ''sessionId'' True string_codec ppdei_SessionID
        (\<lambda>v s. s\<lparr>ppdei_SessionID := v\<rparr>),
      tag ''recommendedTenor'' True int_codec ppdei_RecommendedTenor
        (\<lambda>v s. s\<lparr>ppdei_RecommendedTenor := v\<rparr>),
      tag ''sumOrderInstallmentPlans'' True (pointer_codec sum_order_installment_plans_codec) ppdei_SumOrderInstallmentPlans
        (\<lambda>v s. s\<lparr>ppdei_SumOrderInstallmentPlans := v\<rparr>)]
     \<lparr>ppdei_SessionID = [], ppdei_RecommendedTenor = 0, ppdei_SumOrderInstallmentPlans = None\<rparr>"

lemma payment_plan_data_extend_info_codec_ok [codec_laws]: "codec_ok payment_plan_data_extend_info_codec"
  unfolding payment_plan_data_extend_info_codec_def
  by (rule struct_codec_ok) (simp_all add: rebuild_tag codec_laws)

definition payment_plan_data_codec :: "payment_plan_data codec" where
  "payment_plan_data_codec = struct_codec
     [tag ''currency'' True string_codec ppd_Currency
        (\<lambda>v s. s\<lparr>ppd_Currency := v\<rparr>),
      tag ''subOrderInstallmentPlans'' False (slice_codec commerce_sub_order_installment_plans_codec) ppd_SubOrderInstallmentPlans
        (\<lambda>v s. s\<lparr>ppd_SubOrderInstallmentPlans := v\<rparr>),
      tag ''extendInfo'' True (pointer_codec payment_plan_data_extend_info_codec) ppd_ExtendInfo
        (\<lambda>v s. s\<lparr>ppd_ExtendInfo := v\<rparr>)]
     \<lparr>ppd_Currency = [], ppd_SubOrderInstallmentPlans = [], ppd_ExtendInfo = None\<rparr>"

lemma payment_plan_data_codec_ok [codec_laws]: "codec_ok payment_plan_data_codec"
  unfolding payment_plan_data_codec_def
  by (rule struct_codec_ok) (simp_all add: rebuild_tag codec_laws)

definition payment_plan_response_codec :: "payment_plan_response codec" where
  "payment_plan_response_codec = struct_codec
     [tag ''code'' False string_codec pprsp_Code
        (\<lambda>v s. s\<lparr>pprsp_Code := v\<rparr>),
      tag ''message'' False string_codec pprsp_Message
        (\<lambda>v s. s\<lparr>pprsp_Message := v\<rparr>),
      tag ''data'' True (pointer_codec payment_plan_data_codec) pprsp_Data
        (\<lambda>v s. s\<lparr>pprsp_Data := v\<rparr>)]
     \<lparr>pprsp_Code = [], pprsp_Message = [], pprsp_Data = None\<rparr>"

lemma payment_plan_response_codec_ok [codec_laws]: "codec_ok payment_plan_response_codec"
  unfolding payment_plan_response_codec_def
  by (rule struct_codec_ok) (simp_all add: rebuild_tag codec_laws)

definition pre_check_extend_info_codec :: "pre_check_extend_info codec" where
  "pre_check_extend_info_codec = struct_codec
     [tag ''orderType'' True string_codec pcei_OrderType
        (\<lambda>v s. s\<lparr>pcei_OrderType := v\<rparr>)]
     \<lparr>pcei_OrderType = []\<rparr>"

lemma pre_check_extend_info_codec_ok [codec_laws]: "codec_ok pre_check_extend_info_codec"
  unfolding pre_check_extend_info_codec_def
  by (rule struct_codec_ok) (simp_all add: rebuild_tag codec_laws)

definition payment_pre_check_request_codec :: "payment_pre_check_request codec" where
  "payment_pre_check_request_codec = hide_fields (\<lambda>s. ppcr_RequestID s = [] \<and> ppcr_PeriodType s = 0)
     (struct_codec
     [tag ''externalReferenceUid'' False string_codec ppcr_ExternalReferenceUID
        (\<lambda>v s. s\<lparr>ppcr_ExternalReferenceUID := v\<rparr>),
      tag ''totalAmount'' False int64_codec ppcr_TotalAmount
        (\<lambda>v s. s\<lparr>ppcr_TotalAmount := v\<rparr>),
      tag ''subOrders'' True (slice_codec plan_sub_order_codec) ppcr_SubOrders
        (\<lambda>v s. s\<lparr>ppcr_SubOrders := v\<rparr>),
      tag ''extendInfo'' True (pointer_codec pre_check_extend_info_codec) ppcr_ExtendInfo
        (\<lambda>v s. s\<lparr>ppcr_ExtendInfo := v\<rparr>)]
     \<lparr>ppcr_ExternalReferenceUID = [], ppcr_TotalAmount = 0, ppcr_SubOrders = [], ppcr_ExtendInfo = None, ppcr_RequestID = [], ppcr_PeriodType = 0\<rparr>)"

lemma payment_pre_check_request_codec_ok [codec_laws]: "codec_ok payment_pre_check_request_codec"
  unfolding payment_pre_check_request_codec_def
  by (rule hide_fields_ok) (simp_all add: rebuild_tag codec_laws)

definition payment_pre_check_data_extend_info_codec :: "payment_pre_check_data_extend_info codec" where
  "payment_pre_check_data_extend_info_codec = struct_codec
     [tag ''reapplyTime'' True int64_codec ppcdei_ReapplyTime
        (\<lambda>v s. s\<lparr>ppcdei_ReapplyTime := v\<rparr>)]
     \<lparr>ppcdei_ReapplyTime = 0\<rparr>"

lemma payment_pre_check_data_extend_info_codec_ok [codec_laws]: "codec_ok payment_pre_check_data_extend_info_codec"
  unfolding payment_pre_check_data_extend_info_codec_def
  by (rule struct_codec_ok) (simp_all add: rebuild_tag codec_laws)

definition payment_pre_check_data_codec :: "payment_pre_check_data codec" where
  "payment_pre_check_data_codec = struct_codec
     [tag ''availableCredit'' False int64_codec ppcd_AvailableCredit
        (\<lambda>v s. s\<lparr>ppcd_AvailableCredit := v\<rparr>),
      tag ''extendInfo'' True (pointer_codec payment_pre_check_data_extend_info_codec) ppcd_ExtendInfo
        (\<lambda>v s. s\<lparr>ppcd_ExtendInfo := v\<rparr>)]
     \<lparr>ppcd_AvailableCredit = 0, ppcd_ExtendInfo = None\<rparr>"

lemma payment_pre_check_data_codec_ok [codec_laws]: "codec_ok payment_pre_check_data_codec"
  unfolding payment_pre_check_data_codec_def
  by (rule struct_codec_ok) (simp_all add: rebuild_tag codec_laws)

definition payment_pre_check_response_codec :: "payment_pre_check_response codec" where
  "payment_pre_check_response_codec = struct_codec
     [tag ''code'' False string_codec ppcrsp_Code
        (\<lambda>v s. s\<lparr>ppcrsp_Code := v\<rparr>),
      tag ''message'' False string_codec ppcrsp_Message
        (\<lambda>v s. s\<lparr>ppcrsp_Message := v\<rparr>),
      tag ''data'' True (pointer_codec payment_pre_check_data_codec) ppcrsp_Data
        (\<lambda>v s. s\<lparr>ppcrsp_Data := v\<rparr>)]
     \<lparr>ppcrsp_Code = [], ppcrsp_Message = [], ppcrsp_Data = None\<rparr>"

lemma payment_pre_check_response_codec_ok [codec_laws]: "codec_ok payment_pre_check_response_codec"
  unfolding payment_pre_check_response_codec_def
  by (rule struct_codec_ok) (simp_all add: rebuild_tag codec_laws)

end
