(* ===== verification/Commerce_Service.thy ===== *)
theory Commerce_Service
  imports Commerce_Types Poll
begin

text \<open>
  The calls of atomefin/refund, repayment, virtualaccount, bill and transaction: their
  services, validators, query builders, submissions, queries and pollers.  As in the
  payment calls, JSON encoding and decoding and the minted request id are arguments.
  TransactionsAll, which fetches pages until one is short, is a partial function whose
  None is non-termination.
\<close>

section \<open>Services\<close>

definition check_service :: "string \<Rightarrow> service \<Rightarrow> go_error option" where
  "check_service pkg s =
     (case s of
        None \<Rightarrow> Some (ValidationError ''service'' (''nil *'' @ pkg @ ''.Service (likely from '' @ pkg @ ''.New(nil))''))
      | Some None \<Rightarrow> Some (ValidationError ''service'' (''*'' @ pkg @ ''.Service has nil *atomefin.Client''))
      | Some (Some c) \<Rightarrow> None)"

definition refund_checkConfigured :: "service \<Rightarrow> go_error option" where
  "refund_checkConfigured = check_service ''refund''"

definition repayment_checkConfigured :: "service \<Rightarrow> go_error option" where
  "repayment_checkConfigured = check_service ''repayment''"

definition virtualaccount_checkConfigured :: "service \<Rightarrow> go_error option" where
  "virtualaccount_checkConfigured = check_service ''virtualaccount''"

definition bill_checkConfigured :: "service \<Rightarrow> go_error option" where
  "bill_checkConfigured = check_service ''bill''"

definition transaction_checkConfigured :: "service \<Rightarrow> go_error option" where
  "transaction_checkConfigured = check_service ''transaction''"

text \<open>New and Client of each package.\<close>

definition refund_New :: "client option \<Rightarrow> service" where
  "refund_New c = (case c of None \<Rightarrow> None | Some x \<Rightarrow> Some (Some x))"

definition refund_Client :: "service \<Rightarrow> client option" where
  "refund_Client s = (case s of None \<Rightarrow> None | Some c \<Rightarrow> c)"

definition repayment_New :: "client option \<Rightarrow> service" where
  "repayment_New c = (case c of None \<Rightarrow> None | Some x \<Rightarrow> Some (Some x))"

definition repayment_Client :: "service \<Rightarrow> client option" where
  "repayment_Client s = (case s of None \<Rightarrow> None | Some c \<Rightarrow> c)"

definition virtualaccount_New :: "client option \<Rightarrow> service" where
  "virtualaccount_New c = (case c of None \<Rightarrow> None | Some x \<Rightarrow> Some (Some x))"

definition virtualaccount_Client :: "service \<Rightarrow> client option" where
  "virtualaccount_Client s = (case s of None \<Rightarrow> None | Some c \<Rightarrow> c)"

definition bill_New :: "client option \<Rightarrow> service" where
  "bill_New c = (case c of None \<Rightarrow> None | Some x \<Rightarrow> Some (Some x))"

definition bill_Client :: "service \<Rightarrow> client option" where
  "bill_Client s = (case s of None \<Rightarrow> None | Some c \<Rightarrow> c)"

definition transaction_New :: "client option \<Rightarrow> service" where
  "transaction_New c = (case c of None \<Rightarrow> None | Some x \<Rightarrow> Some (Some x))"

definition transaction_Client :: "service \<Rightarrow> client option" where
  "transaction_Client s = (case s of None \<Rightarrow> None | Some c \<Rightarrow> c)"

text \<open>A signed GET whose reply is decoded.\<close>

definition get_and_decode ::
  "service \<Rightarrow> world \<Rightarrow> string \<Rightarrow> url_values \<Rightarrow> (bytes \<Rightarrow> go_error + 'r) \<Rightarrow> event list \<times> (go_error + 'r)" where
  "get_and_decode s w op q unmarshal = decode_response unmarshal op (DoSignedGET (service_Client s) w op q [])"

text \<open>url.Values.Set and Add.\<close>

definition values_set :: "string \<Rightarrow> string \<Rightarrow> url_values \<Rightarrow> url_values" where
  "values_set k v q = AList.update k [v] q"

definition values_add :: "string \<Rightarrow> string \<Rightarrow> url_values \<Rightarrow> url_values" where
  "values_add k v q = AList.update k ((case map_of q k of None \<Rightarrow> [] | Some vs \<Rightarrow> vs) @ [v]) q"

definition set_unless_empty :: "string \<Rightarrow> string \<Rightarrow> url_values \<Rightarrow> url_values" where
  "set_unless_empty k v q = (if v \<noteq> [] then values_set k v q else q)"

section \<open>Refunds\<close>

fun refund_sum :: "int64 \<Rightarrow> sub_order_refund_request list \<Rightarrow> go_error + int64" where
  "refund_sum acc [] = Inr acc"
| "refund_sum acc (so # sos) =
     (if sint (sorr_Amount so) \<le> 0 then Inl (invalid ''subOrders[].amount'' ''must be > 0 (minor units)'')
      else refund_sum (acc + sorr_Amount so) sos)"

definition validate_refund_type :: "string \<Rightarrow> sub_order_refund_request list \<Rightarrow> go_error option" where
  "validate_refund_type t orders =
     (if t = OrderTypeTransport \<or> t = OrderTypeGrabFood then
        fail_if (length orders \<noteq> 1) (invalid ''subOrders'' (''must contain exactly one entry for '' @ t))
      else if t = OrderTypeGrabMart then
        first_error (map (\<lambda>so. fail_if (sorr_MerchantID so = [])
          (invalid ''subOrders[].merchantId'' ''required for GRAB_MART'')) orders)
      else Some (invalid ''extendInfo.orderType'' ''must be one of TRANSPORT | GRAB_FOOD | GRAB_MART''))"

definition validateRefund :: "refund_param \<Rightarrow> go_error option" where
  "validateRefund req = first_error
     [fail_if (rfp_RequestID req = []) (invalid ''requestId'' ''required''),
      fail_if (length (rfp_RequestID req) > 64) (invalid ''requestId'' ''exceeds spec maxlength 64''),
      fail_if (rfp_ExternalReferenceUID req = []) (invalid ''externalReferenceUid'' ''required''),
      fail_if (length (rfp_ExternalReferenceUID req) > 64) (invalid ''externalReferenceUid'' ''exceeds spec maxlength 64''),
      fail_if (rfp_OrderID req = []) (invalid ''orderId'' ''required (the orderId returned by the prior /capture call)''),
      fail_if (length (rfp_OrderID req) > 32) (invalid ''orderId'' ''exceeds spec maxlength 32''),
      fail_if (sint (rfp_RefundAmount req) \<le> 0) (invalid ''refundAmount'' ''must be > 0 (minor units)''),
      fail_if (length (rfp_SubOrders req) = 0) (invalid ''subOrders'' ''must be non-empty''),
      (case refund_sum 0 (rfp_SubOrders req) of
         Inl err \<Rightarrow> Some err
       | Inr acc \<Rightarrow> fail_if (acc \<noteq> rfp_RefundAmount req) (invalid ''refundAmount''
           (''must equal sum of subOrders[].amount (Q25 conservative '' @ [CHR 0xE2, CHR 0x80, CHR 0x94] @ '' partner-pending)''))),
      (case rfp_ExtendInfo req of
         None \<Rightarrow> Some (invalid ''extendInfo.orderType'' ''required'')
       | Some info \<Rightarrow>
           if rfei_OrderType info = [] then Some (invalid ''extendInfo.orderType'' ''required'')
           else validate_refund_type (rfei_OrderType info) (rfp_SubOrders req))]"

definition Refund ::
  "service \<Rightarrow> world \<Rightarrow> string \<Rightarrow> (refund_param \<Rightarrow> go_error + bytes) \<Rightarrow> (bytes \<Rightarrow> go_error + refund_response) \<Rightarrow>
   refund_param option \<Rightarrow> refund_param option \<times> event list \<times> (go_error + refund_response)" where
  "Refund s w newID marshal unmarshal reqp =
     (case refund_checkConfigured s of
        Some err \<Rightarrow> (reqp, [], Inl err)
      | None \<Rightarrow>
          (case reqp of
             None \<Rightarrow> (None, [], Inl (ValidationError ''request'' ''nil RefundParam''))
           | Some req0 \<Rightarrow>
               let req = (if rfp_RequestID req0 = [] then req0\<lparr>rfp_RequestID := newID\<rparr> else req0) in
               (case validateRefund req of
                  Some err \<Rightarrow> (Some req, [], Inl err)
                | None \<Rightarrow> (Some req, marshal_and_send s w ''/refund'' (marshal req) unmarshal []))))"

definition QueryRefund ::
  "service \<Rightarrow> world \<Rightarrow> (bytes \<Rightarrow> go_error + refund_response) \<Rightarrow> string \<Rightarrow> string \<Rightarrow> event list \<times> (go_error + refund_response)" where
  "QueryRefund s w unmarshal requestID externalReferenceUID =
     (case first_error
        [refund_checkConfigured s,
         fail_if (requestID = []) (invalid ''requestId'' ''required (the requestId from the prior /refund submission)''),
         fail_if (length requestID > 64) (invalid ''requestId'' ''exceeds spec maxlength 64''),
         fail_if (externalReferenceUID = []) (invalid ''externalReferenceUid''
           ''required (the partner-side user/account identifier from the prior /refund submission)''),
         fail_if (length externalReferenceUID > 64) (invalid ''externalReferenceUid'' ''exceeds spec maxlength 64'')] of
        Some err \<Rightarrow> ([], Inl err)
      | None \<Rightarrow> get_and_decode s w ''/query-refund''
          [(''requestId'', [requestID]), (''externalReferenceUid'', [externalReferenceUID])] unmarshal)"

definition RefundResponse_IsTerminal :: "refund_response option \<Rightarrow> bool" where
  "RefundResponse_IsTerminal r = (case r of None \<Rightarrow> False | Some x \<Rightarrow>
     (case rfrsp_Data x of None \<Rightarrow> False | Some d \<Rightarrow> Status_IsTerminal (rfr_Status d)))"

definition RefundResponse_IsProcessing :: "refund_response option \<Rightarrow> bool" where
  "RefundResponse_IsProcessing r = (case r of None \<Rightarrow> False | Some x \<Rightarrow>
     (case rfrsp_Data x of None \<Rightarrow> False | Some d \<Rightarrow> rfr_Status d = StatusProcessing))"

definition refund_status :: "refund_response option \<Rightarrow> string" where
  "refund_status r = (case r of None \<Rightarrow> [] | Some x \<Rightarrow>
     (case rfrsp_Data x of None \<Rightarrow> [] | Some d \<Rightarrow> rfr_Status d))"

definition refund_rejection :: "refund_response option \<Rightarrow> (string \<times> string) option" where
  "refund_rejection r = (case r of None \<Rightarrow> None
     | Some x \<Rightarrow> if IsSyncRejection (rfrsp_Code x) (refund_status r) then Some (rfrsp_Code x, rfrsp_Message x) else None)"

definition RefundPollUntilTerminal ::
  "service \<Rightarrow> (nat \<Rightarrow> world) \<Rightarrow> (nat \<Rightarrow> string) \<Rightarrow> (refund_param \<Rightarrow> go_error + bytes) \<Rightarrow>
   (bytes \<Rightarrow> go_error + refund_response) \<Rightarrow> refund_response poll_world \<Rightarrow> (duration \<Rightarrow> float64 \<Rightarrow> duration) \<Rightarrow>
   refund_param option \<Rightarrow> poll_options \<Rightarrow> refund_param option \<times> event list \<times> refund_response poll_result option" where
  "RefundPollUntilTerminal s ws ids marshal unmarshal pw scale reqp opts =
     (case refund_checkConfigured s of
        Some err \<Rightarrow> (reqp, [], Some (poll_refused pw err))
      | None \<Rightarrow>
          (case reqp of
             None \<Rightarrow> (None, [], Some (poll_refused pw (ValidationError ''request'' ''nil RefundParam'')))
           | Some req0 \<Rightarrow>
               let req = (if rfp_RequestID req0 = [] then req0\<lparr>rfp_RequestID := ids 0\<rparr> else req0);
                   submit = (\<lambda>n q. Refund s (ws n) (ids n) marshal unmarshal (Some q));
                   trace = \<lparr>pt_Logger = True, pt_Op = ''/refund'', pt_RequestID = rfp_RequestID req,
                            pt_Code = Some (\<lambda>r. (rfrsp_Code r, rfrsp_Message r))\<rparr>
               in (case PollUntilTerminalOrRejected (pw\<lparr>pw_once := poll_once submit req\<rparr>) opts trace
                          (\<lambda>r. refund_status (Some r)) (Some refund_rejection) scale of
                     None \<Rightarrow> (Some req, [], None)
                   | Some res \<Rightarrow> (Some (poll_request submit req (po_rounds res)),
                        poll_events submit req (po_rounds res), Some res))))"

section \<open>Repayments\<close>

definition validateRepayment :: "repayment_param \<Rightarrow> go_error option" where
  "validateRepayment req = first_error
     [fail_if (rpp_RequestID req = []) (invalid ''requestId'' ''required''),
      fail_if (length (rpp_RequestID req) > 64) (invalid ''requestId'' ''exceeds spec maxlength 64''),
      fail_if (rpp_ExternalReferenceUID req = []) (invalid ''externalReferenceUid'' ''required''),
      fail_if (length (rpp_ExternalReferenceUID req) > 64) (invalid ''externalReferenceUid'' ''exceeds spec maxlength 64''),
      fail_if (sint (rpp_RepaymentAmount req) \<le> 0) (invalid ''repaymentAmount'' ''must be > 0 (minor units)''),
      fail_if (sint (rpp_RepaymentApplyTime req) \<le> 0) (invalid ''repaymentApplyTime''
        (''must be > 0 (Unix timestamp in milliseconds; TZ unspecified '' @ [CHR 0xE2, CHR 0x80, CHR 0x94] @ '' Q11)''))]"

definition Repayment ::
  "service \<Rightarrow> world \<Rightarrow> string \<Rightarrow> (repayment_param \<Rightarrow> go_error + bytes) \<Rightarrow> (bytes \<Rightarrow> go_error + repayment_response) \<Rightarrow>
   repayment_param option \<Rightarrow> repayment_param option \<times> event list \<times> (go_error + repayment_response)" where
  "Repayment s w newID marshal unmarshal reqp =
     (case repayment_checkConfigured s of
        Some err \<Rightarrow> (reqp, [], Inl err)
      | None \<Rightarrow>
          (case reqp of
             None \<Rightarrow> (None, [], Inl (ValidationError ''request'' ''nil RepaymentParam''))
           | Some req0 \<Rightarrow>
               let req = (if rpp_RequestID req0 = [] then req0\<lparr>rpp_RequestID := newID\<rparr> else req0) in
               (case validateRepayment req of
                  Some err \<Rightarrow> (Some req, [], Inl err)
                | None \<Rightarrow> (Some req, marshal_and_send s w ''/repayment-request'' (marshal req) unmarshal []))))"

definition QueryRepayment ::
  "service \<Rightarrow> world \<Rightarrow> (bytes \<Rightarrow> go_error + repayment_response) \<Rightarrow> string \<Rightarrow> string \<Rightarrow>
   event list \<times> (go_error + repayment_response)" where
  "QueryRepayment s w unmarshal requestID externalReferenceUID =
     (case first_error
        [repayment_checkConfigured s,
         fail_if (requestID = []) (invalid ''requestId'' ''required (the requestId from the prior /repayment-request submission)''),
         fail_if (length requestID > 64) (invalid ''requestId'' ''exceeds spec maxlength 64''),
         fail_if (externalReferenceUID = []) (invalid ''externalReferenceUid'' ''required''),
         fail_if (length externalReferenceUID > 64) (invalid ''externalReferenceUid'' ''exceeds spec maxlength 64'')] of
        Some err \<Rightarrow> ([], Inl err)
      | None \<Rightarrow> get_and_decode s w ''/repayment-result''
          [(''requestId'', [requestID]), (''externalReferenceUid'', [externalReferenceUID])] unmarshal)"

definition RepaymentResponse_IsTerminal :: "repayment_response option \<Rightarrow> bool" where
  "RepaymentResponse_IsTerminal r = (case r of None \<Rightarrow> False | Some x \<Rightarrow>
     (case rprsp_Data x of None \<Rightarrow> False | Some d \<Rightarrow> Status_IsTerminal (rpr_Status d)))"

definition RepaymentResponse_IsProcessing :: "repayment_response option \<Rightarrow> bool" where
  "RepaymentResponse_IsProcessing r = (case r of None \<Rightarrow> False | Some x \<Rightarrow>
     (case rprsp_Data x of None \<Rightarrow> False | Some d \<Rightarrow> rpr_Status d = StatusProcessing))"

definition repayment_status :: "repayment_response option \<Rightarrow> string" where
  "repayment_status r = (case r of None \<Rightarrow> [] | Some x \<Rightarrow>
     (case rprsp_Data x of None \<Rightarrow> [] | Some d \<Rightarrow> rpr_Status d))"

definition repayment_rejection :: "repayment_response option \<Rightarrow> (string \<times> string) option" where
  "repayment_rejection r = (case r of None \<Rightarrow> None
     | Some x \<Rightarrow> if IsSyncRejection (rprsp_Code x) (repayment_status r) then Some (rprsp_Code x, rprsp_Message x) else None)"

definition RepaymentPollUntilTerminal ::
  "service \<Rightarrow> (nat \<Rightarrow> world) \<Rightarrow> (nat \<Rightarrow> string) \<Rightarrow> (repayment_param \<Rightarrow> go_error + bytes) \<Rightarrow>
   (bytes \<Rightarrow> go_error + repayment_response) \<Rightarrow> repayment_response poll_world \<Rightarrow> (duration \<Rightarrow> float64 \<Rightarrow> duration) \<Rightarrow>
   repayment_param option \<Rightarrow> poll_options \<Rightarrow> repayment_param option \<times> event list \<times> repayment_response poll_result option" where
  "RepaymentPollUntilTerminal s ws ids marshal unmarshal pw scale reqp opts =
     (case repayment_checkConfigured s of
        Some err \<Rightarrow> (reqp, [], Some (poll_refused pw err))
      | None \<Rightarrow>
          (case reqp of
             None \<Rightarrow> (None, [], Some (poll_refused pw (ValidationError ''request'' ''nil RepaymentParam'')))
           | Some req0 \<Rightarrow>
               let req = (if rpp_RequestID req0 = [] then req0\<lparr>rpp_RequestID := ids 0\<rparr> else req0);
                   submit = (\<lambda>n q. Repayment s (ws n) (ids n) marshal unmarshal (Some q));
                   trace = \<lparr>pt_Logger = True, pt_Op = ''/repayment-request'', pt_RequestID = rpp_RequestID req,
                            pt_Code = Some (\<lambda>r. (rprsp_Code r, rprsp_Message r))\<rparr>
               in (case PollUntilTerminalOrRejected (pw\<lparr>pw_once := poll_once submit req\<rparr>) opts trace
                          (\<lambda>r. repayment_status (Some r)) (Some repayment_rejection) scale of
                     None \<Rightarrow> (Some req, [], None)
                   | Some res \<Rightarrow> (Some (poll_request submit req (po_rounds res)),
                        poll_events submit req (po_rounds res), Some res))))"

section \<open>Virtual accounts\<close>

definition validateVirtualAccountRequest :: "virtual_account_request \<Rightarrow> go_error option" where
  "validateVirtualAccountRequest req = first_error
     [fail_if (vaq_ExternalReferenceUID req = []) (invalid ''externalReferenceUid'' ''required''),
      fail_if (length (vaq_ExternalReferenceUID req) > 64) (invalid ''externalReferenceUid'' ''exceeds spec maxlength 64''),
      fail_if (\<not> BankCode_IsValid (vaq_BankCode req))
        (invalid ''bankCode'' ''must be one of BCA | MANDIRI | BRI | BNI | PERMATA | SAHABAT_SAMPOERNA'')]"

text \<open>\<open>empty_json\<close> is MarshalSigning of the empty struct.\<close>

definition ListBanks ::
  "service \<Rightarrow> world \<Rightarrow> go_error + bytes \<Rightarrow> (bytes \<Rightarrow> go_error + virtual_account_list_response) \<Rightarrow>
   event list \<times> (go_error + virtual_account_list_response)" where
  "ListBanks s w empty_json unmarshal =
     (case virtualaccount_checkConfigured s of
        Some err \<Rightarrow> ([], Inl err)
      | None \<Rightarrow> marshal_and_send s w ''/va/getList'' empty_json unmarshal [])"

definition GetOrCreate ::
  "service \<Rightarrow> world \<Rightarrow> (virtual_account_request \<Rightarrow> go_error + bytes) \<Rightarrow> (bytes \<Rightarrow> go_error + virtual_account_response) \<Rightarrow>
   virtual_account_request option \<Rightarrow> virtual_account_request option \<times> event list \<times> (go_error + virtual_account_response)" where
  "GetOrCreate s w marshal unmarshal reqp =
     (case virtualaccount_checkConfigured s of
        Some err \<Rightarrow> (reqp, [], Inl err)
      | None \<Rightarrow>
          (case reqp of
             None \<Rightarrow> (None, [], Inl (ValidationError ''request'' ''nil VirtualAccountRequest''))
           | Some req \<Rightarrow>
               (case validateVirtualAccountRequest req of
                  Some err \<Rightarrow> (Some req, [], Inl err)
                | None \<Rightarrow> (Some req, marshal_and_send s w ''/va/vaCodeByBank'' (marshal req) unmarshal []))))"

definition VirtualAccountListResponse_IsSuccess :: "virtual_account_list_response option \<Rightarrow> bool" where
  "VirtualAccountListResponse_IsSuccess r = (case r of None \<Rightarrow> False | Some x \<Rightarrow> valr_Code x = CodeSuccess)"

definition VirtualAccountResponse_IsSuccess :: "virtual_account_response option \<Rightarrow> bool" where
  "VirtualAccountResponse_IsSuccess r = (case r of None \<Rightarrow> False | Some x \<Rightarrow> vars_Code x = CodeSuccess)"

section \<open>Bills\<close>

definition validateBillDetailParams :: "bill_detail_params \<Rightarrow> go_error option" where
  "validateBillDetailParams p = first_error
     [fail_if (bdp_BillID p = []) (invalid ''billId'' (''required (format yyyyMM, e.g. '' @ [CHR 0x22] @ ''202607'' @ [CHR 0x22] @ '')'')),
      fail_if (bdp_ExternalReferenceUID p = []) (invalid ''externalReferenceUid'' ''required (the partner-side user identifier)''),
      fail_if (bdp_Start p < 0) (invalid ''start'' ''must be >= 0 (0 omits the param and uses server default 1)''),
      fail_if (bdp_Count p < 0) (invalid ''count'' ''must be >= 0 (0 omits the param and uses server default 10)''),
      fail_if (bdp_Count p > 50) (invalid ''count'' ''must be <= 50'')]"

definition validateBillsParams :: "bills_params \<Rightarrow> go_error option" where
  "validateBillsParams p = first_error
     [fail_if (bsp_ExternalReferenceUID p = []) (invalid ''externalReferenceUid'' ''required''),
      fail_if (bsp_StartMonth p = []) (invalid ''startMonth'' ''required''),
      fail_if (bsp_EndMonth p = []) (invalid ''endMonth'' ''required'')]"

definition validateBillsUnpaidParams :: "bills_unpaid_params \<Rightarrow> go_error option" where
  "validateBillsUnpaidParams p =
     fail_if (bup_ExternalReferenceUID p = []) (invalid ''externalReferenceUid'' ''required'')"

definition buildBillsQuery :: "bills_params \<Rightarrow> url_values" where
  "buildBillsQuery p =
     (let q = set_unless_empty ''externalReferenceUid'' (bsp_ExternalReferenceUID p) [];
          q = set_unless_empty ''startMonth'' (bsp_StartMonth p) q;
          q = set_unless_empty ''endMonth'' (bsp_EndMonth p) q;
          q = fold (values_add ''status'') (bsp_Status p) q;
          q = fold (values_add ''repaymentStatus'') (bsp_RepaymentStatus p) q;
          q = fold (values_add ''overdueStatus'') (bsp_OverdueStatus p) q
      in fold (values_add ''refundStatus'') (bsp_RefundStatus p) q)"

definition buildBillDetailQuery :: "bill_detail_params \<Rightarrow> url_values" where
  "buildBillDetailQuery p =
     (let q = [(''billId'', [bdp_BillID p]), (''externalReferenceUid'', [bdp_ExternalReferenceUID p])];
          q = (if bdp_Start p > 0 then values_set ''start'' (itoa (bdp_Start p)) q else q)
      in if bdp_Count p > 0 then values_set ''count'' (itoa (bdp_Count p)) q else q)"

definition buildBillsUnpaidQuery :: "bills_unpaid_params \<Rightarrow> url_values" where
  "buildBillsUnpaidQuery p = set_unless_empty ''externalReferenceUid'' (bup_ExternalReferenceUID p) []"

definition zero_bills_params :: bills_params where
  "zero_bills_params = \<lparr>bsp_ExternalReferenceUID = [], bsp_StartMonth = [], bsp_EndMonth = [], bsp_Status = [],
     bsp_RepaymentStatus = [], bsp_OverdueStatus = [], bsp_RefundStatus = []\<rparr>"

definition Bills ::
  "service \<Rightarrow> world \<Rightarrow> (bytes \<Rightarrow> go_error + bills_response) \<Rightarrow> bills_params option \<Rightarrow>
   event list \<times> (go_error + bills_response)" where
  "Bills s w unmarshal pp =
     (let params = (case pp of None \<Rightarrow> zero_bills_params | Some p \<Rightarrow> p) in
      case first_error [bill_checkConfigured s, validateBillsParams params] of
        Some err \<Rightarrow> ([], Inl err)
      | None \<Rightarrow> get_and_decode s w ''/bills'' (buildBillsQuery params) unmarshal)"

definition BillDetailWithParams ::
  "service \<Rightarrow> world \<Rightarrow> (bytes \<Rightarrow> go_error + bill_detail_response) \<Rightarrow> bill_detail_params option \<Rightarrow>
   event list \<times> (go_error + bill_detail_response)" where
  "BillDetailWithParams s w unmarshal pp =
     (case bill_checkConfigured s of
        Some err \<Rightarrow> ([], Inl err)
      | None \<Rightarrow>
          (case pp of
             None \<Rightarrow> ([], Inl (ValidationError ''request'' ''nil BillDetailParams''))
           | Some params \<Rightarrow>
               (case validateBillDetailParams params of
                  Some err \<Rightarrow> ([], Inl err)
                | None \<Rightarrow> get_and_decode s w ''/billDetail'' (buildBillDetailQuery params) unmarshal)))"

definition BillDetail ::
  "service \<Rightarrow> world \<Rightarrow> (bytes \<Rightarrow> go_error + bill_detail_response) \<Rightarrow> string \<Rightarrow> string \<Rightarrow>
   event list \<times> (go_error + bill_detail_response)" where
  "BillDetail s w unmarshal billID externalReferenceUID =
     BillDetailWithParams s w unmarshal
       (Some \<lparr>bdp_BillID = billID, bdp_ExternalReferenceUID = externalReferenceUID, bdp_Start = 0, bdp_Count = 0\<rparr>)"

definition BillsUnpaid ::
  "service \<Rightarrow> world \<Rightarrow> (bytes \<Rightarrow> go_error + bill_unpaid_response) \<Rightarrow> bills_unpaid_params option \<Rightarrow>
   event list \<times> (go_error + bill_unpaid_response)" where
  "BillsUnpaid s w unmarshal pp =
     (let params = (case pp of None \<Rightarrow> \<lparr>bup_ExternalReferenceUID = []\<rparr> | Some p \<Rightarrow> p) in
      case first_error [bill_checkConfigured s, validateBillsUnpaidParams params] of
        Some err \<Rightarrow> ([], Inl err)
      | None \<Rightarrow> get_and_decode s w ''/billUnpaid'' (buildBillsUnpaidQuery params) unmarshal)"

definition BillsAll ::
  "service \<Rightarrow> world \<Rightarrow> (bytes \<Rightarrow> go_error + bills_response) \<Rightarrow> bills_params option \<Rightarrow>
   event list \<times> (go_error + bills_response_item list)" where
  "BillsAll s w unmarshal pp =
     (case bill_checkConfigured s of
        Some err \<Rightarrow> ([], Inl err)
      | None \<Rightarrow> (case Bills s w unmarshal pp of
          (evs, Inl err) \<Rightarrow> (evs, Inl err)
        | (evs, Inr resp) \<Rightarrow> (evs, Inr (bsrsp_Data resp))))"

definition BillsResponse_IsSuccess :: "bills_response option \<Rightarrow> bool" where
  "BillsResponse_IsSuccess r = (case r of None \<Rightarrow> False | Some x \<Rightarrow> bsrsp_Code x = CodeSuccess)"

definition BillDetailResponse_IsSuccess :: "bill_detail_response option \<Rightarrow> bool" where
  "BillDetailResponse_IsSuccess r = (case r of None \<Rightarrow> False | Some x \<Rightarrow> bdrsp_Code x = CodeSuccess)"

definition BillUnpaidResponse_IsSuccess :: "bill_unpaid_response option \<Rightarrow> bool" where
  "BillUnpaidResponse_IsSuccess r = (case r of None \<Rightarrow> False | Some x \<Rightarrow> bursp_Code x = CodeSuccess)"

section \<open>Transactions\<close>

definition DefaultStart :: int where "DefaultStart = 1"
definition DefaultCount :: int where "DefaultCount = 10"
definition MaxCount :: int where "MaxCount = 50"

definition validateTransactionsParams :: "transactions_params \<Rightarrow> go_error option" where
  "validateTransactionsParams p = first_error
     [fail_if (txp_ExternalReferenceUID p = []) (invalid ''externalReferenceUid'' ''required''),
      fail_if (txp_StartDate p = []) (invalid ''startDate'' ''required''),
      fail_if (txp_EndDate p = []) (invalid ''endDate'' ''required''),
      fail_if (txp_TransactionType p = []) (invalid ''transactionType'' ''required''),
      fail_if (txp_Start p < 0) (invalid ''start'' (''must be >= 0 (0 '' @ [CHR 0xE2, CHR 0x86, CHR 0x92] @ '' default 1)'')),
      fail_if (txp_Count p < 0) (invalid ''count'' (''must be >= 0 (0 '' @ [CHR 0xE2, CHR 0x86, CHR 0x92] @ '' default 10)'')),
      fail_if (txp_Count p > MaxCount) (invalid ''count'' ''must be <= 50'')]"

definition buildTransactionsQuery :: "transactions_params \<Rightarrow> url_values" where
  "buildTransactionsQuery p =
     (let start = (if txp_Start p \<le> 0 then DefaultStart else txp_Start p);
          count = (if txp_Count p \<le> 0 then DefaultCount else txp_Count p);
          q = values_set ''start'' (itoa start) [];
          q = values_set ''count'' (itoa count) q;
          q = set_unless_empty ''externalReferenceUid'' (txp_ExternalReferenceUID p) q;
          q = set_unless_empty ''transactionType'' (txp_TransactionType p) q;
          q = set_unless_empty ''startDate'' (txp_StartDate p) q
      in set_unless_empty ''endDate'' (txp_EndDate p) q)"

definition zero_transactions_params :: transactions_params where
  "zero_transactions_params = \<lparr>txp_ExternalReferenceUID = [], txp_TransactionType = [], txp_StartDate = [],
     txp_EndDate = [], txp_Start = 0, txp_Count = 0\<rparr>"

definition Transactions ::
  "service \<Rightarrow> world \<Rightarrow> (bytes \<Rightarrow> go_error + transactions_response) \<Rightarrow> transactions_params option \<Rightarrow>
   event list \<times> (go_error + transactions_response)" where
  "Transactions s w unmarshal pp =
     (let params = (case pp of None \<Rightarrow> zero_transactions_params | Some p \<Rightarrow> p) in
      case first_error [transaction_checkConfigured s, validateTransactionsParams params] of
        Some err \<Rightarrow> ([], Inl err)
      | None \<Rightarrow> get_and_decode s w ''/transactions'' (buildTransactionsQuery params) unmarshal)"

definition TransactionDetail ::
  "service \<Rightarrow> world \<Rightarrow> (bytes \<Rightarrow> go_error + transaction_detail_response) \<Rightarrow> string \<Rightarrow> string \<Rightarrow> string \<Rightarrow>
   event list \<times> (go_error + transaction_detail_response)" where
  "TransactionDetail s w unmarshal requestID externalReferenceUID transactionType =
     (case first_error
        [transaction_checkConfigured s,
         fail_if (requestID = []) (invalid ''requestId'' ''required (the original payment / refund / repayment requestId)''),
         fail_if (externalReferenceUID = []) (invalid ''externalReferenceUid'' ''required (the partner-side user identifier)''),
         fail_if (transactionType = []) (invalid ''transactionType'' ''required (PAYMENT / REFUND / REPAYMENT)'')] of
        Some err \<Rightarrow> ([], Inl err)
      | None \<Rightarrow> get_and_decode s w ''/transactionDetail''
          [(''requestId'', [requestID]), (''externalReferenceUid'', [externalReferenceUID]),
           (''transactionType'', [transactionType])] unmarshal)"

text \<open>
  One page is fetched by \<open>fetch n params\<close>, the n-th call; \<open>ctx n\<close> is ctx.Err() before it.
  The walk returns the trace, the data so far and the error.
\<close>

definition page_rows :: "transactions_data \<Rightarrow> int" where
  "page_rows d = int (length (txd_PaymentInfo d)) + int (length (txd_RefundInfo d)) + int (length (txd_RepaymentInfo d))"

definition add_page :: "transactions_data \<Rightarrow> transactions_data \<Rightarrow> transactions_data" where
  "add_page out d = out\<lparr>
     txd_Currency := (if txd_Currency out = [] then txd_Currency d else txd_Currency out),
     txd_PaymentInfo := txd_PaymentInfo out @ txd_PaymentInfo d,
     txd_RefundInfo := txd_RefundInfo out @ txd_RefundInfo d,
     txd_RepaymentInfo := txd_RepaymentInfo out @ txd_RepaymentInfo d,
     txd_Paginator := txd_Paginator d\<rparr>"

definition last_page :: "transactions_params \<Rightarrow> transactions_data \<Rightarrow> transactions_data \<Rightarrow> bool" where
  "last_page cur d out \<longleftrightarrow>
     page_rows d < txp_Count cur \<or>
     (case txd_Paginator d of None \<Rightarrow> False | Some p \<Rightarrow> tpg_TotalCount p > 0 \<and> page_rows out \<ge> tpg_TotalCount p) \<or>
     txp_Count cur \<le> 0"

partial_function (option) transactions_walk ::
  "(nat \<Rightarrow> go_error option) \<Rightarrow> (nat \<Rightarrow> transactions_params \<Rightarrow> event list \<times> (go_error + transactions_response)) \<Rightarrow>
   nat \<Rightarrow> transactions_params \<Rightarrow> transactions_data \<Rightarrow> event list \<Rightarrow>
   (event list \<times> transactions_data \<times> go_error option) option" where
  "transactions_walk ctx fetch n cur out evs =
     (case ctx n of
        Some err \<Rightarrow> Some (evs, out, Some err)
      | None \<Rightarrow>
          (case snd (fetch n cur) of
             Inl err \<Rightarrow> Some (evs @ fst (fetch n cur), out, Some err)
           | Inr page \<Rightarrow>
               (case txrsp_Data page of
                  None \<Rightarrow> Some (evs @ fst (fetch n cur), out, None)
                | Some d \<Rightarrow>
                    if last_page cur d (add_page out d) then Some (evs @ fst (fetch n cur), add_page out d, None)
                    else transactions_walk ctx fetch (Suc n) (cur\<lparr>txp_Start := txp_Start cur + txp_Count cur\<rparr>)
                           (add_page out d) (evs @ fst (fetch n cur)))))"

definition zero_transactions_data :: transactions_data where
  "zero_transactions_data = \<lparr>txd_Currency = [], txd_PaymentInfo = [], txd_RefundInfo = [], txd_RepaymentInfo = [],
     txd_Paginator = None\<rparr>"

text \<open>The outcome of a refused call is the nil data with the error.\<close>

definition TransactionsAll ::
  "service \<Rightarrow> (nat \<Rightarrow> go_error option) \<Rightarrow> (nat \<Rightarrow> world) \<Rightarrow> (bytes \<Rightarrow> go_error + transactions_response) \<Rightarrow>
   transactions_params option \<Rightarrow> (event list \<times> transactions_data option \<times> go_error option) option" where
  "TransactionsAll s ctx ws unmarshal pp =
     (case transaction_checkConfigured s of
        Some err \<Rightarrow> Some ([], None, Some err)
      | None \<Rightarrow>
          let params = (case pp of None \<Rightarrow> zero_transactions_params | Some p \<Rightarrow> p);
              cur = params\<lparr>txp_Start := (if txp_Start params \<le> 0 then DefaultStart else txp_Start params),
                           txp_Count := (if txp_Count params \<le> 0 then DefaultCount else txp_Count params)\<rparr>
          in map_option (\<lambda>(evs, out, err). (evs, Some out, err))
               (transactions_walk ctx (\<lambda>n p. Transactions s (ws n) unmarshal (Some p)) 0 cur zero_transactions_data []))"

definition TransactionsResponse_IsSuccess :: "transactions_response option \<Rightarrow> bool" where
  "TransactionsResponse_IsSuccess r = (case r of None \<Rightarrow> False | Some x \<Rightarrow> txrsp_Code x = CodeSuccess)"

definition TransactionDetailResponse_IsSuccess :: "transaction_detail_response option \<Rightarrow> bool" where
  "TransactionDetailResponse_IsSuccess r = (case r of None \<Rightarrow> False | Some x \<Rightarrow> tdrsp_Code x = CodeSuccess)"

section \<open>The submitting calls\<close>

definition prepare_refund :: "string \<Rightarrow> refund_param \<Rightarrow> go_error option \<times> refund_param" where
  "prepare_refund i q = (let req = (if rfp_RequestID q = [] then q\<lparr>rfp_RequestID := i\<rparr> else q) in (validateRefund req, req))"

definition prepare_repayment :: "string \<Rightarrow> repayment_param \<Rightarrow> go_error option \<times> repayment_param" where
  "prepare_repayment i q = (let req = (if rpp_RequestID q = [] then q\<lparr>rpp_RequestID := i\<rparr> else q) in (validateRepayment req, req))"

lemma check_service_None: "check_service pkg s = None \<Longrightarrow> \<exists>c. s = Some (Some c)"
  by (auto simp: check_service_def split: option.splits)

lemmas service_checks = refund_checkConfigured_def repayment_checkConfigured_def virtualaccount_checkConfigured_def
  bill_checkConfigured_def transaction_checkConfigured_def

lemmas commerce_call_defs = Let_def service_checks check_service_None

interpretation refund: idempotent_call refund_checkConfigured Refund prepare_refund "''/refund''" "\<lambda>q. []" rfp_RequestID
  by unfold_locales (auto simp: Refund_def prepare_refund_def commerce_call_defs)

interpretation repayment: idempotent_call repayment_checkConfigured Repayment prepare_repayment "''/repayment-request''" "\<lambda>q. []"
    rpp_RequestID
  by unfold_locales (auto simp: Repayment_def prepare_repayment_def commerce_call_defs)

interpretation va: submit_call virtualaccount_checkConfigured "\<lambda>s w i. GetOrCreate s w" "\<lambda>i q. (validateVirtualAccountRequest q, q)"
    "''/va/vaCodeByBank''" "\<lambda>q. []"
  by unfold_locales (auto simp: GetOrCreate_def commerce_call_defs)

section \<open>Refund amounts\<close>

lemma refund_sum_Inr:
  "refund_sum a sos = Inr t \<longleftrightarrow> (\<forall>so \<in> set sos. 0 < sint (sorr_Amount so)) \<and> t = a + sum_list (map sorr_Amount sos)"
  by (induction a sos rule: refund_sum.induct) (auto simp: add.assoc)

text \<open>What the order type asks of the lines of a refund.\<close>

definition refund_lines_ok :: "string \<Rightarrow> sub_order_refund_request list \<Rightarrow> bool" where
  "refund_lines_ok t sos \<longleftrightarrow>
     (t = ''TRANSPORT'' \<or> t = ''GRAB_FOOD'') \<and> length sos = 1 \<or>
     t = ''GRAB_MART'' \<and> (\<forall>so \<in> set sos. sorr_MerchantID so \<noteq> [])"

lemma validate_refund_type_None: "validate_refund_type t sos = None \<longleftrightarrow> refund_lines_ok t sos"
  by (auto simp: validate_refund_type_def refund_lines_ok_def OrderTypeTransport_def OrderTypeGrabFood_def
      OrderTypeGrabMart_def accept_simps split: if_splits)

lemma refund_amount_check: "(case refund_sum 0 sos of Inl err \<Rightarrow> Some err | Inr acc \<Rightarrow> fail_if (acc \<noteq> t) e) = None \<longleftrightarrow>
    (\<forall>so \<in> set sos. 0 < sint (sorr_Amount so)) \<and> t = sum_list (map sorr_Amount sos)"
  using refund_sum_Inr [of 0 sos] by (cases "refund_sum 0 sos") (auto simp: fail_if_None_iff)

lemma refund_type_check:
  "(case x of None \<Rightarrow> Some e | Some info \<Rightarrow> if rfei_OrderType info = [] then Some e else validate_refund_type (rfei_OrderType info) sos) = None
    \<longleftrightarrow> (\<exists>info. x = Some info \<and> refund_lines_ok (rfei_OrderType info) sos)"
  by (auto simp: validate_refund_type_None refund_lines_ok_def split: option.split)

section \<open>Walking the pages\<close>

datatype trade_row =
    PaymentRow trade_payment_info
  | RefundRow trade_refund_info
  | RepaymentRow trade_repayment_info

fun payments_of :: "trade_row list \<Rightarrow> trade_payment_info list" where
  "payments_of [] = []"
| "payments_of (PaymentRow x # rs) = x # payments_of rs"
| "payments_of (_ # rs) = payments_of rs"

fun refunds_of :: "trade_row list \<Rightarrow> trade_refund_info list" where
  "refunds_of [] = []"
| "refunds_of (RefundRow x # rs) = x # refunds_of rs"
| "refunds_of (_ # rs) = refunds_of rs"

fun repayments_of :: "trade_row list \<Rightarrow> trade_repayment_info list" where
  "repayments_of [] = []"
| "repayments_of (RepaymentRow x # rs) = x # repayments_of rs"
| "repayments_of (_ # rs) = repayments_of rs"

lemma rows_of_append [simp]:
  "payments_of (xs @ ys) = payments_of xs @ payments_of ys"
  "refunds_of (xs @ ys) = refunds_of xs @ refunds_of ys"
  "repayments_of (xs @ ys) = repayments_of xs @ repayments_of ys"
  by (induction xs rule: payments_of.induct; simp)+

lemma rows_of_length: "length (payments_of rs) + length (refunds_of rs) + length (repayments_of rs) = length rs"
  by (induction rs rule: payments_of.induct) auto

text \<open>The data of the page that starts at row \<open>start\<close> (from 1) and has up to \<open>cnt\<close> rows.\<close>

definition page_of :: "trade_row list \<Rightarrow> int \<Rightarrow> int \<Rightarrow> trade_row list" where
  "page_of rows start cnt = take (nat cnt) (drop (nat (start - 1)) rows)"

definition is_page :: "trade_row list \<Rightarrow> transactions_params \<Rightarrow> transactions_data \<Rightarrow> bool" where
  "is_page rows p d \<longleftrightarrow>
     txd_PaymentInfo d = payments_of (page_of rows (txp_Start p) (txp_Count p)) \<and>
     txd_RefundInfo d = refunds_of (page_of rows (txp_Start p) (txp_Count p)) \<and>
     txd_RepaymentInfo d = repayments_of (page_of rows (txp_Start p) (txp_Count p)) \<and>
     (\<forall>g. txd_Paginator d = Some g \<longrightarrow> tpg_TotalCount g \<le> 0 \<or> tpg_TotalCount g = int (length rows))"

definition holds_rows :: "transactions_data \<Rightarrow> trade_row list \<Rightarrow> bool" where
  "holds_rows d rows \<longleftrightarrow> txd_PaymentInfo d = payments_of rows \<and> txd_RefundInfo d = refunds_of rows \<and>
     txd_RepaymentInfo d = repayments_of rows"

lemma page_rows_holds: "holds_rows d rows \<Longrightarrow> page_rows d = int (length rows)"
  using rows_of_length [of rows] by (simp add: holds_rows_def page_rows_def)

lemma is_page_holds: "is_page rows p d \<Longrightarrow> holds_rows d (page_of rows (txp_Start p) (txp_Count p))"
  by (simp add: is_page_def holds_rows_def)

lemma add_page_holds: "holds_rows out xs \<Longrightarrow> holds_rows d ys \<Longrightarrow> holds_rows (add_page out d) (xs @ ys)"
  by (simp add: holds_rows_def add_page_def)

lemma walk_step:
  assumes "ctx n = None" "snd (fetch n cur) = Inr page" "txrsp_Data page = Some d"
  shows "transactions_walk ctx fetch n cur out evs =
      (if last_page cur d (add_page out d) then Some (evs @ fst (fetch n cur), add_page out d, None)
       else transactions_walk ctx fetch (Suc n) (cur\<lparr>txp_Start := txp_Start cur + txp_Count cur\<rparr>) (add_page out d) (evs @ fst (fetch n cur)))"
  by (subst transactions_walk.simps) (simp add: assms)

text \<open>A page that ends the walk reaches the end of the rows; one that does not is full.\<close>

lemma last_page_end:
  assumes "last_page cur d (add_page out d)" "is_page rows cur d" "holds_rows out xs"
    and "1 \<le> txp_Count cur" "1 \<le> txp_Start cur" "int (length xs) \<le> txp_Start cur - 1"
  shows "drop (nat (txp_Count cur)) (drop (nat (txp_Start cur - 1)) rows) = []"
proof -
  let ?pg = "page_of rows (txp_Start cur) (txp_Count cur)"
  have d: "page_rows d = int (length ?pg)" by (rule page_rows_holds [OF is_page_holds [OF assms(2)]])
  have o: "page_rows (add_page out d) = int (length xs) + int (length ?pg)"
    using page_rows_holds [OF add_page_holds [OF assms(3) is_page_holds [OF assms(2)]]] by simp
  have len: "int (length ?pg) = min (txp_Count cur) (max 0 (int (length rows) - (txp_Start cur - 1)))"
    using assms(4,5) by (simp add: page_of_def)
  from assms(1) consider "page_rows d < txp_Count cur" | "page_rows (add_page out d) \<ge> int (length rows)"
    using assms(2,4) by (fastforce simp: last_page_def is_page_def split: option.splits)
  then have "int (length rows) \<le> txp_Start cur - 1 + txp_Count cur"
    using d o len assms(4-6) by cases linarith+
  then show ?thesis by simp
qed

lemma full_page:
  assumes "\<not> last_page cur d out'" "is_page rows cur d" "1 \<le> txp_Count cur" "1 \<le> txp_Start cur"
  shows "int (length (page_of rows (txp_Start cur) (txp_Count cur))) = txp_Count cur"
    "txp_Start cur - 1 + txp_Count cur \<le> int (length rows)"
proof -
  let ?pg = "page_of rows (txp_Start cur) (txp_Count cur)"
  have "page_rows d = int (length ?pg)" by (rule page_rows_holds [OF is_page_holds [OF assms(2)]])
  moreover have "\<not> page_rows d < txp_Count cur" using assms(1) by (simp add: last_page_def)
  moreover have len: "int (length ?pg) = min (txp_Count cur) (max 0 (int (length rows) - (txp_Start cur - 1)))"
    using assms(3,4) by (simp add: page_of_def)
  ultimately show "int (length ?pg) = txp_Count cur" "txp_Start cur - 1 + txp_Count cur \<le> int (length rows)"
    using assms(3) by linarith+
qed

lemma page_then_rest:
  assumes "1 \<le> st" "1 \<le> c"
  shows "page_of rows st c @ drop (nat (st + c - 1)) rows = drop (nat (st - 1)) rows"
proof -
  have "nat (st + c - 1) = nat c + nat (st - 1)" using assms by simp
  then show ?thesis by (simp only: page_of_def drop_drop [symmetric] append_take_drop_id)
qed

text \<open>The walk, from any page on, ends without an error and adds exactly the rows from there on.\<close>

lemma walk_complete:
  assumes "\<And>n. ctx n = None"
    and "\<And>n. n = 0 \<or> st0 + int n * txp_Count p \<le> int (length rows) + 1 \<Longrightarrow>
      \<exists>page d. snd (fetch n (p\<lparr>txp_Start := st0 + int n * txp_Count p\<rparr>)) = Inr page \<and> txrsp_Data page = Some d \<and>
        is_page rows (p\<lparr>txp_Start := st0 + int n * txp_Count p\<rparr>) d"
    and "1 \<le> txp_Count p" "1 \<le> st" "holds_rows out xs" "int (length xs) \<le> st - 1" "st = st0 + int n * txp_Count p"
      "n = 0 \<or> st \<le> int (length rows) + 1"
  shows "\<exists>evs' out'. transactions_walk ctx fetch n (p\<lparr>txp_Start := st\<rparr>) out evs = Some (evs', out', None) \<and>
     holds_rows out' (xs @ drop (nat (st - 1)) rows)"
  using assms(4-8)
proof (induction "nat (int (length rows) + 1 - st)" arbitrary: n st out xs evs rule: less_induct)
  case less
  define cur where "cur = p\<lparr>txp_Start := st\<rparr>"
  have cur: "txp_Start cur = st" "txp_Count cur = txp_Count p" "cur\<lparr>txp_Start := x\<rparr> = p\<lparr>txp_Start := x\<rparr>" for x
    by (simp_all add: cur_def)
  obtain page d where pg: "snd (fetch n cur) = Inr page" "txrsp_Data page = Some d" "is_page rows cur d"
    using assms(2) [of n] less.prems(4,5) unfolding cur_def by blast
  let ?pg = "page_of rows st (txp_Count p)"
  have out: "holds_rows (add_page out d) (xs @ ?pg)"
    using add_page_holds [OF less.prems(2) is_page_holds [OF pg(3)]] unfolding cur .
  note step = walk_step [where ctx = ctx and fetch = fetch, OF assms(1) pg(1,2), of out evs]
  show ?case
  proof (cases "last_page cur d (add_page out d)")
    case True
    have "drop (nat (txp_Count p)) (drop (nat (st - 1)) rows) = []"
      using last_page_end [OF True pg(3) less.prems(2)] less.prems(1,3) assms(3) unfolding cur by blast
    then have "?pg = drop (nat (st - 1)) rows" by (simp add: page_of_def)
    then show ?thesis using step True out unfolding cur_def by auto
  next
    case False
    note full = full_page [OF False pg(3), unfolded cur, OF assms(3) less.prems(1)]
    have m: "nat (int (length rows) + 1 - (st + txp_Count p)) < nat (int (length rows) + 1 - st)"
      using full(2) assms(3) by linarith
    have "1 \<le> st + txp_Count p" "int (length (xs @ ?pg)) \<le> st + txp_Count p - 1"
      "st + txp_Count p = st0 + int (Suc n) * txp_Count p" "Suc n = 0 \<or> st + txp_Count p \<le> int (length rows) + 1"
      using full less.prems(1,3,4) assms(3) by (simp_all add: algebra_simps)
    from less.hyps [OF m this(1) out this(2-4), of "evs @ fst (fetch n cur)"]
    have "\<exists>evs' out'. transactions_walk ctx fetch (Suc n) (p\<lparr>txp_Start := st + txp_Count p\<rparr>) (add_page out d) (evs @ fst (fetch n cur)) =
        Some (evs', out', None) \<and> holds_rows out' (xs @ drop (nat (st - 1)) rows)"
      unfolding append_assoc page_then_rest [OF less.prems(1) assms(3)] .
    then show ?thesis using step False by (simp only: cur if_False cur_def [symmetric])
  qed
qed


section \<open>Properties\<close>

text \<open>A refund is accepted exactly when its identifiers are present and within their lengths, its amount is
  positive and is the (64-bit) sum of its lines, which are all positive, and the lines fit the order
  type: one line for TRANSPORT and GRAB_FOOD, a merchant on every line for GRAB_MART.  When the
  lines add up to less than 2^63 the sum is the sum of the integers.\<close>
theorem validateRefund_iff:
  "(validateRefund req = None \<longleftrightarrow>
     rfp_RequestID req \<noteq> [] \<and> length (rfp_RequestID req) \<le> 64 \<and>
     rfp_ExternalReferenceUID req \<noteq> [] \<and> length (rfp_ExternalReferenceUID req) \<le> 64 \<and>
     rfp_OrderID req \<noteq> [] \<and> length (rfp_OrderID req) \<le> 32 \<and> 0 < sint (rfp_RefundAmount req) \<and>
     rfp_SubOrders req \<noteq> [] \<and> (\<forall>so \<in> set (rfp_SubOrders req). 0 < sint (sorr_Amount so)) \<and>
     rfp_RefundAmount req = sum_list (map sorr_Amount (rfp_SubOrders req)) \<and>
     (\<exists>info. rfp_ExtendInfo req = Some info \<and> refund_lines_ok (rfei_OrderType info) (rfp_SubOrders req))) \<and>
   (validateRefund req = None \<and> sum_list (map (sint \<circ> sorr_Amount) (rfp_SubOrders req)) < 2 ^ 63 \<longrightarrow>
     sint (rfp_RefundAmount req) = sum_list (map (sint \<circ> sorr_Amount) (rfp_SubOrders req)))"
proof -
  have iff: "validateRefund req = None \<longleftrightarrow>
     rfp_RequestID req \<noteq> [] \<and> length (rfp_RequestID req) \<le> 64 \<and>
     rfp_ExternalReferenceUID req \<noteq> [] \<and> length (rfp_ExternalReferenceUID req) \<le> 64 \<and>
     rfp_OrderID req \<noteq> [] \<and> length (rfp_OrderID req) \<le> 32 \<and> 0 < sint (rfp_RefundAmount req) \<and>
     rfp_SubOrders req \<noteq> [] \<and> (\<forall>so \<in> set (rfp_SubOrders req). 0 < sint (sorr_Amount so)) \<and>
     rfp_RefundAmount req = sum_list (map sorr_Amount (rfp_SubOrders req)) \<and>
     (\<exists>info. rfp_ExtendInfo req = Some info \<and> refund_lines_ok (rfei_OrderType info) (rfp_SubOrders req))"
    unfolding validateRefund_def first_error_None_iff
    by (simp add: refund_amount_check refund_type_check fail_if_None_iff not_less not_le conj_assoc)
  moreover have "sint (rfp_RefundAmount req) = sum_list (map (sint \<circ> sorr_Amount) (rfp_SubOrders req))"
    if "validateRefund req = None" "sum_list (map (sint \<circ> sorr_Amount) (rfp_SubOrders req)) < 2 ^ 63"
    using that sint_sum_exact [of "map sorr_Amount (rfp_SubOrders req)"] unfolding iff by (auto simp: less_imp_le)
  ultimately show ?thesis by blast
qed

text \<open>C31. Refunds, repayments and virtual-account requests reach the network only when their validator
  accepts the request as the call leaves it, and every request sent is one signed POST of its
  encoding to the call's path.\<close>
theorem commerce_calls_send_validated:
  assumes "sent_requests evs \<noteq> []"
  shows "(Refund (Some (Some c)) w newID mf uf pf = (pf', evs, rf) \<longrightarrow>
     (\<exists>q body rq. pf' = Some q \<and> validateRefund q = None \<and> mf q = Inr body \<and> signed_post c w ''/refund'' body rq evs)) \<and>
    (Repayment (Some (Some c)) w newID mp up pp = (pp', evs, rp) \<longrightarrow>
     (\<exists>q body rq. pp' = Some q \<and> validateRepayment q = None \<and> mp q = Inr body \<and>
        signed_post c w ''/repayment-request'' body rq evs)) \<and>
    (GetOrCreate (Some (Some c)) w mv uv pv = (pv', evs, rv) \<longrightarrow>
     (\<exists>q body rq. pv' = Some q \<and> validateVirtualAccountRequest q = None \<and> mv q = Inr body \<and>
        signed_post c w ''/va/vaCodeByBank'' body rq evs))"
proof -
  have v: "prepare_refund i q = (None, q') \<Longrightarrow> validateRefund q' = None"
    "prepare_repayment i r = (None, r') \<Longrightarrow> validateRepayment r' = None" for i q q' r r'
    by (auto simp: prepare_refund_def prepare_repayment_def Let_def)
  show ?thesis using v by (intro conjI impI)
    (erule refund.sent_prepared repayment.sent_prepared va.sent_prepared, rule assms, erule sent_signed_post, rule assms, simp, blast)+
qed

text \<open>C13. TransactionsAll ends and is complete: when the gateway answers each requested page with the rows of a
  fixed list from its start row on, up to the page size, and with either no total or the right one,
  the walk returns exactly the rows from the first requested one to the end, each kind in order, and
  no error.\<close>
theorem TransactionsAll_complete:
  assumes "transaction_checkConfigured s = None" "\<And>n. ctx n = None"
    and "first = (if txp_Start p \<le> 0 then 1 else txp_Start p)" "cnt = (if txp_Count p \<le> 0 then 10 else txp_Count p)"
    and "\<And>n. n = 0 \<or> first + int n * cnt \<le> int (length rows) + 1 \<Longrightarrow>
      \<exists>page d. snd (Transactions s (ws n) unmarshal (Some (p\<lparr>txp_Start := first + int n * cnt, txp_Count := cnt\<rparr>))) = Inr page \<and>
        txrsp_Data page = Some d \<and> is_page rows (p\<lparr>txp_Start := first + int n * cnt, txp_Count := cnt\<rparr>) d"
  shows "\<exists>evs out. TransactionsAll s ctx ws unmarshal (Some p) = Some (evs, Some out, None) \<and>
     txd_PaymentInfo out = payments_of (drop (nat (first - 1)) rows) \<and>
     txd_RefundInfo out = refunds_of (drop (nat (first - 1)) rows) \<and>
     txd_RepaymentInfo out = repayments_of (drop (nat (first - 1)) rows)"
proof -
  let ?p = "p\<lparr>txp_Count := cnt\<rparr>" and ?f = "\<lambda>n q. Transactions s (ws n) unmarshal (Some q)"
  have c: "1 \<le> cnt" "1 \<le> first" using assms(3,4) by simp_all
  have sw: "p\<lparr>txp_Start := x, txp_Count := cnt\<rparr> = ?p\<lparr>txp_Start := x\<rparr>" for x by simp
  have "\<exists>evs' out'. transactions_walk ctx ?f 0 (p\<lparr>txp_Start := first, txp_Count := cnt\<rparr>) zero_transactions_data [] = Some (evs', out', None) \<and>
      holds_rows out' ([] @ drop (nat (first - 1)) rows)"
    using assms(2,5) c unfolding sw by (intro walk_complete [where st0 = first])
      (simp_all add: holds_rows_def zero_transactions_data_def)
  then show ?thesis using assms(1)
    by (auto simp: TransactionsAll_def Let_def DefaultStart_def DefaultCount_def holds_rows_def assms(3,4))
qed


definition sample_refund :: refund_param where
  "sample_refund = \<lparr>rfp_RequestID = [], rfp_ExternalReferenceUID = ''u'', rfp_OrderID = ''o1'', rfp_RefundAmount = 30,
     rfp_SubOrders = [\<lparr>sorr_SubOrderID = [], sorr_MerchantID = ''m'', sorr_MerchantName = [], sorr_Quantity = 0, sorr_Amount = 10\<rparr>,
       \<lparr>sorr_SubOrderID = [], sorr_MerchantID = ''n'', sorr_MerchantName = [], sorr_Quantity = 0, sorr_Amount = 20\<rparr>],
     rfp_ExtendInfo = Some \<lparr>rfei_OrderType = ''GRAB_MART''\<rparr>\<rparr>"

lemma sample_refund_valid: "validateRefund (sample_refund\<lparr>rfp_RequestID := ''f1''\<rparr>) = None"
  by (simp add: validateRefund_def sample_refund_def fail_if_def validate_refund_type_def OrderTypeTransport_def
      OrderTypeGrabFood_def OrderTypeGrabMart_def)

theorem validateRefund_iff_witness:
  "sint (rfp_RefundAmount sample_refund) = sum_list (map (sint \<circ> sorr_Amount) (rfp_SubOrders sample_refund)) \<and>
   refund_lines_ok ''GRAB_MART'' (rfp_SubOrders sample_refund)"
proof -
  have "sum_list (map (sint \<circ> sorr_Amount) (rfp_SubOrders (sample_refund\<lparr>rfp_RequestID := ''f1''\<rparr>))) < 2 ^ 63"
    by (simp add: sample_refund_def)
  with validateRefund_iff [of "sample_refund\<lparr>rfp_RequestID := ''f1''\<rparr>"] sample_refund_valid show ?thesis
    by (simp add: sample_refund_def)
qed

theorem commerce_calls_send_validated_witness:
  "\<exists>evs rq. fst (snd (Refund (Some (Some sample_client)) sample_world ''f1'' (\<lambda>q. Inr (rfp_RequestID q))
       (\<lambda>b. Inl (ErrorString b)) (Some sample_refund))) = evs \<and>
     signed_post sample_client sample_world ''/refund'' ''f1'' rq evs"
proof -
  let ?q = "sample_refund\<lparr>rfp_RequestID := ''f1''\<rparr>"
  have np: "\<not> bad_path ''/refund''" by (simp add: bad_path_def)
  obtain evs rq0 where d: "DoSigned (Some sample_client) sample_world ''POST'' ''/refund'' ''f1'' [] =
      (evs, Inr \<lparr>StatusCode = 200, Header = [], Body = ''ok''\<rparr>)" "sent_requests evs = [rq0, rq0]"
    by (rule sample_post [OF np])
  obtain r where a: "Refund (Some (Some sample_client)) sample_world ''f1'' (\<lambda>q. Inr (rfp_RequestID q))
      (\<lambda>b. Inl (ErrorString b)) (Some sample_refund) = (Some ?q, evs, r)"
  proof -
    have "rfp_RequestID sample_refund = []" by (simp add: sample_refund_def)
    then show thesis using that sample_refund_valid d(1)
      by (simp add: Refund_def refund_checkConfigured_def check_service_def marshal_and_send_def service_Client_def decode_response_def)
  qed
  have "sent_requests evs \<noteq> []" using d(2) by simp
  from commerce_calls_send_validated [OF this, THEN conjunct1, THEN mp, OF a] show ?thesis using a by auto
qed

definition sample_row :: trade_repayment_info where
  "sample_row = \<lparr>trpi_RepaymentRequestID = ''r'', trpi_RepaymentAmount = 5, trpi_OverpaidAmountChange = 0, trpi_Event = ''NORMAL'',
     trpi_CreateTime = 1, trpi_RepaymentDetails = []\<rparr>"

definition sample_page :: transactions_response where
  "sample_page = \<lparr>txrsp_Code = ''SUCCESS'', txrsp_Message = [], txrsp_Data = Some \<lparr>txd_Currency = ''IDR'', txd_PaymentInfo = [],
     txd_RefundInfo = [], txd_RepaymentInfo = [sample_row], txd_Paginator = None\<rparr>\<rparr>"

definition sample_params :: transactions_params where
  "sample_params = \<lparr>txp_ExternalReferenceUID = ''u'', txp_TransactionType = ''REPAYMENT'', txp_StartDate = ''a'',
     txp_EndDate = ''b'', txp_Start = 0, txp_Count = 0\<rparr>"

lemma sample_get:
  assumes "\<not> bad_path path"
  obtains evs where "DoSignedGET (Some sample_client) sample_world path q [] =
     (evs, Inr \<lparr>StatusCode = 200, Header = [], Body = ''ok''\<rparr>)"
proof -
  let ?u = "''https://h'' @ path" and ?a = "''sig:'' @ CanonicalQueryFirstValue q"
  let ?b = "get_request sample_world ?u (EncodeWireQueryRFC3986 q)"
  have "DoSignedGET (Some sample_client) sample_world path q [] =
      dispatch_loop sample_client sample_world path ?u ?a [] ?b 1 None"
    using assms by (simp add: DoSignedGET_def Let_def signAndDispatch_def sample_client_fields sample_signer_def
        sample_world_def SchemeRawBase64_def)
  moreover define rq where "rq = \<lparr>rq_method = ''GET'', rq_url = ?u, rq_query = EncodeWireQueryRFC3986 q, rq_header = [], rq_body = []\<rparr>"
  have "?b 1 = Inr rq" "?b 2 = Inr rq" by (simp_all add: get_request_def sample_world_def rq_def)
  note sample_run [where b = ?b and op = path and u = ?u and a = ?a and x = "[]" and l = None, OF this]
  ultimately show thesis using that by (metis prod.collapse)
qed

theorem TransactionsAll_complete_witness:
  "\<exists>evs out. TransactionsAll (Some (Some sample_client)) (\<lambda>n. None) (\<lambda>n. sample_world) (\<lambda>b. Inr sample_page) (Some sample_params) =
     Some (evs, Some out, None) \<and> txd_RepaymentInfo out = [sample_row]"
proof -
  let ?s = "Some (Some sample_client)" and ?u = "\<lambda>b. Inr sample_page" and ?rows = "[RepaymentRow sample_row]"
  have np: "\<not> bad_path ''/transactions''" by (simp add: bad_path_def)
  have page: "snd (Transactions ?s sample_world ?u (Some (sample_params\<lparr>txp_Start := 1, txp_Count := 10\<rparr>))) = Inr sample_page"
  proof (rule sample_get [OF np])
    fix evs
    assume "DoSignedGET (Some sample_client) sample_world ''/transactions''
        (buildTransactionsQuery (sample_params\<lparr>txp_Start := 1, txp_Count := 10\<rparr>)) [] =
        (evs, Inr \<lparr>StatusCode = 200, Header = [], Body = ''ok''\<rparr>)"
    then show ?thesis
      by (simp add: Transactions_def validateTransactionsParams_def sample_params_def fail_if_def MaxCount_def
          transaction_checkConfigured_def check_service_def get_and_decode_def service_Client_def decode_response_def)
  qed
  have "\<exists>evs out. TransactionsAll ?s (\<lambda>n. None) (\<lambda>n. sample_world) ?u (Some sample_params) = Some (evs, Some out, None) \<and>
      txd_PaymentInfo out = payments_of (drop (nat (1 - 1)) ?rows) \<and> txd_RefundInfo out = refunds_of (drop (nat (1 - 1)) ?rows) \<and>
      txd_RepaymentInfo out = repayments_of (drop (nat (1 - 1)) ?rows)"
  proof (rule TransactionsAll_complete)
    fix n :: nat
    assume "n = 0 \<or> 1 + int n * 10 \<le> int (length ?rows) + 1"
    then have "n = 0" by auto
    then show "\<exists>page d. snd (Transactions ?s sample_world ?u (Some (sample_params\<lparr>txp_Start := 1 + int n * 10, txp_Count := 10\<rparr>))) = Inr page \<and>
        txrsp_Data page = Some d \<and> is_page ?rows (sample_params\<lparr>txp_Start := 1 + int n * 10, txp_Count := 10\<rparr>) d"
      using page by (simp add: sample_page_def is_page_def page_of_def)
  qed (simp_all add: transaction_checkConfigured_def check_service_def sample_params_def)
  then show ?thesis by auto
qed

end
