(* ===== verification/Commerce_Json.thy ===== *)
theory Commerce_Json
  imports Payment_Json Commerce_Types
begin

text \<open>
  The JSON form of the structs of atomefin/repayment, refund, bill, transaction and
  virtualaccount, as in Payment_Json.
\<close>

section \<open>atomefin/repayment\<close>

definition repayment_param_codec :: "repayment_param codec" where
  "repayment_param_codec = struct_codec
     [tag ''requestId'' False string_codec rpp_RequestID
        (\<lambda>v s. s\<lparr>rpp_RequestID := v\<rparr>),
      tag ''externalReferenceUid'' False string_codec rpp_ExternalReferenceUID
        (\<lambda>v s. s\<lparr>rpp_ExternalReferenceUID := v\<rparr>),
      tag ''repaymentAmount'' False int64_codec rpp_RepaymentAmount
        (\<lambda>v s. s\<lparr>rpp_RepaymentAmount := v\<rparr>),
      tag ''repaymentApplyTime'' False int64_codec rpp_RepaymentApplyTime
        (\<lambda>v s. s\<lparr>rpp_RepaymentApplyTime := v\<rparr>),
      tag ''extendInfo'' True map_codec rpp_ExtendInfo
        (\<lambda>v s. s\<lparr>rpp_ExtendInfo := v\<rparr>)]
     \<lparr>rpp_RequestID = [], rpp_ExternalReferenceUID = [], rpp_RepaymentAmount = 0, rpp_RepaymentApplyTime = 0, rpp_ExtendInfo = []\<rparr>"

lemma repayment_param_codec_ok [codec_laws]: "codec_ok repayment_param_codec"
  unfolding repayment_param_codec_def
  by (rule struct_codec_ok) (simp_all add: rebuild_tag codec_laws)

definition commerce_account_changes_codec :: "commerce_account_changes codec" where
  "commerce_account_changes_codec = struct_codec
     [tag ''externalReferenceUid'' False string_codec cac_ExternalReferenceUID
        (\<lambda>v s. s\<lparr>cac_ExternalReferenceUID := v\<rparr>),
      tag ''previousStatus'' True string_codec cac_PreviousStatus
        (\<lambda>v s. s\<lparr>cac_PreviousStatus := v\<rparr>),
      tag ''currentStatus'' True string_codec cac_CurrentStatus
        (\<lambda>v s. s\<lparr>cac_CurrentStatus := v\<rparr>),
      tag ''totalCreditChange'' True int64_codec cac_TotalCreditChange
        (\<lambda>v s. s\<lparr>cac_TotalCreditChange := v\<rparr>),
      tag ''usedCreditChange'' True int64_codec cac_UsedCreditChange
        (\<lambda>v s. s\<lparr>cac_UsedCreditChange := v\<rparr>),
      tag ''availableCreditChange'' True int64_codec cac_AvailableCreditChange
        (\<lambda>v s. s\<lparr>cac_AvailableCreditChange := v\<rparr>),
      tag ''overpaidAmountChange'' True int64_codec cac_OverpaidAmountChange
        (\<lambda>v s. s\<lparr>cac_OverpaidAmountChange := v\<rparr>),
      tag ''lateFeeAmountChange'' True int64_codec cac_LateFeeAmountChange
        (\<lambda>v s. s\<lparr>cac_LateFeeAmountChange := v\<rparr>),
      tag ''interestAmountChange'' True int64_codec cac_InterestAmountChange
        (\<lambda>v s. s\<lparr>cac_InterestAmountChange := v\<rparr>),
      tag ''version'' False int64_codec cac_Version
        (\<lambda>v s. s\<lparr>cac_Version := v\<rparr>)]
     \<lparr>cac_ExternalReferenceUID = [], cac_PreviousStatus = [], cac_CurrentStatus = [], cac_TotalCreditChange = 0, cac_UsedCreditChange = 0, cac_AvailableCreditChange = 0, cac_OverpaidAmountChange = 0, cac_LateFeeAmountChange = 0, cac_InterestAmountChange = 0, cac_Version = 0\<rparr>"

lemma commerce_account_changes_codec_ok [codec_laws]: "codec_ok commerce_account_changes_codec"
  unfolding commerce_account_changes_codec_def
  by (rule struct_codec_ok) (simp_all add: rebuild_tag codec_laws)

definition repayment_result_codec :: "repayment_result codec" where
  "repayment_result_codec = struct_codec
     [tag ''requestId'' False string_codec rpr_RequestID
        (\<lambda>v s. s\<lparr>rpr_RequestID := v\<rparr>),
      tag ''repaymentId'' False string_codec rpr_RepaymentID
        (\<lambda>v s. s\<lparr>rpr_RepaymentID := v\<rparr>),
      tag ''status'' False string_codec rpr_Status
        (\<lambda>v s. s\<lparr>rpr_Status := v\<rparr>),
      tag ''currency'' False string_codec rpr_Currency
        (\<lambda>v s. s\<lparr>rpr_Currency := v\<rparr>),
      tag ''repaymentAmount'' True int64_codec rpr_RepaymentAmount
        (\<lambda>v s. s\<lparr>rpr_RepaymentAmount := v\<rparr>),
      tag ''repaymentTime'' True int64_codec rpr_RepaymentTime
        (\<lambda>v s. s\<lparr>rpr_RepaymentTime := v\<rparr>),
      tag ''event'' True string_codec rpr_Event
        (\<lambda>v s. s\<lparr>rpr_Event := v\<rparr>),
      tag ''accountChanges'' True (pointer_codec commerce_account_changes_codec) rpr_AccountChanges
        (\<lambda>v s. s\<lparr>rpr_AccountChanges := v\<rparr>)]
     \<lparr>rpr_RequestID = [], rpr_RepaymentID = [], rpr_Status = [], rpr_Currency = [], rpr_RepaymentAmount = 0, rpr_RepaymentTime = 0, rpr_Event = [], rpr_AccountChanges = None\<rparr>"

lemma repayment_result_codec_ok [codec_laws]: "codec_ok repayment_result_codec"
  unfolding repayment_result_codec_def
  by (rule struct_codec_ok) (simp_all add: rebuild_tag codec_laws)

definition repayment_response_codec :: "repayment_response codec" where
  "repayment_response_codec = struct_codec
     [tag ''code'' False string_codec rprsp_Code
        (\<lambda>v s. s\<lparr>rprsp_Code := v\<rparr>),
      tag ''message'' False string_codec rprsp_Message
        (\<lambda>v s. s\<lparr>rprsp_Message := v\<rparr>),
      tag ''data'' True (pointer_codec repayment_result_codec) rprsp_Data
        (\<lambda>v s. s\<lparr>rprsp_Data := v\<rparr>)]
     \<lparr>rprsp_Code = [], rprsp_Message = [], rprsp_Data = None\<rparr>"

lemma repayment_response_codec_ok [codec_laws]: "codec_ok repayment_response_codec"
  unfolding repayment_response_codec_def
  by (rule struct_codec_ok) (simp_all add: rebuild_tag codec_laws)

section \<open>atomefin/refund\<close>

definition sub_order_refund_request_codec :: "sub_order_refund_request codec" where
  "sub_order_refund_request_codec = struct_codec
     [tag ''subOrderId'' True string_codec sorr_SubOrderID
        (\<lambda>v s. s\<lparr>sorr_SubOrderID := v\<rparr>),
      tag ''merchantId'' True string_codec sorr_MerchantID
        (\<lambda>v s. s\<lparr>sorr_MerchantID := v\<rparr>),
      tag ''merchantName'' True string_codec sorr_MerchantName
        (\<lambda>v s. s\<lparr>sorr_MerchantName := v\<rparr>),
      tag ''quantity'' True int_codec sorr_Quantity
        (\<lambda>v s. s\<lparr>sorr_Quantity := v\<rparr>),
      tag ''amount'' False int64_codec sorr_Amount
        (\<lambda>v s. s\<lparr>sorr_Amount := v\<rparr>)]
     \<lparr>sorr_SubOrderID = [], sorr_MerchantID = [], sorr_MerchantName = [], sorr_Quantity = 0, sorr_Amount = 0\<rparr>"

lemma sub_order_refund_request_codec_ok [codec_laws]: "codec_ok sub_order_refund_request_codec"
  unfolding sub_order_refund_request_codec_def
  by (rule struct_codec_ok) (simp_all add: rebuild_tag codec_laws)

definition refund_extend_info_codec :: "refund_extend_info codec" where
  "refund_extend_info_codec = struct_codec
     [tag ''orderType'' False string_codec rfei_OrderType
        (\<lambda>v s. s\<lparr>rfei_OrderType := v\<rparr>)]
     \<lparr>rfei_OrderType = []\<rparr>"

lemma refund_extend_info_codec_ok [codec_laws]: "codec_ok refund_extend_info_codec"
  unfolding refund_extend_info_codec_def
  by (rule struct_codec_ok) (simp_all add: rebuild_tag codec_laws)

definition refund_param_codec :: "refund_param codec" where
  "refund_param_codec = struct_codec
     [tag ''requestId'' False string_codec rfp_RequestID
        (\<lambda>v s. s\<lparr>rfp_RequestID := v\<rparr>),
      tag ''externalReferenceUid'' False string_codec rfp_ExternalReferenceUID
        (\<lambda>v s. s\<lparr>rfp_ExternalReferenceUID := v\<rparr>),
      tag ''orderId'' False string_codec rfp_OrderID
        (\<lambda>v s. s\<lparr>rfp_OrderID := v\<rparr>),
      tag ''refundAmount'' False int64_codec rfp_RefundAmount
        (\<lambda>v s. s\<lparr>rfp_RefundAmount := v\<rparr>),
      tag ''subOrders'' False (slice_codec sub_order_refund_request_codec) rfp_SubOrders
        (\<lambda>v s. s\<lparr>rfp_SubOrders := v\<rparr>),
      tag ''extendInfo'' False (pointer_codec refund_extend_info_codec) rfp_ExtendInfo
        (\<lambda>v s. s\<lparr>rfp_ExtendInfo := v\<rparr>)]
     \<lparr>rfp_RequestID = [], rfp_ExternalReferenceUID = [], rfp_OrderID = [], rfp_RefundAmount = 0, rfp_SubOrders = [], rfp_ExtendInfo = None\<rparr>"

lemma refund_param_codec_ok [codec_laws]: "codec_ok refund_param_codec"
  unfolding refund_param_codec_def
  by (rule struct_codec_ok) (simp_all add: rebuild_tag codec_laws)

definition sub_order_refund_info_codec :: "sub_order_refund_info codec" where
  "sub_order_refund_info_codec = struct_codec
     [tag ''subOrderId'' True string_codec sori_SubOrderID
        (\<lambda>v s. s\<lparr>sori_SubOrderID := v\<rparr>),
      tag ''merchantId'' True string_codec sori_MerchantID
        (\<lambda>v s. s\<lparr>sori_MerchantID := v\<rparr>),
      tag ''merchantName'' True string_codec sori_MerchantName
        (\<lambda>v s. s\<lparr>sori_MerchantName := v\<rparr>),
      tag ''quantity'' True int_codec sori_Quantity
        (\<lambda>v s. s\<lparr>sori_Quantity := v\<rparr>),
      tag ''totalAmount'' False int64_codec sori_TotalAmount
        (\<lambda>v s. s\<lparr>sori_TotalAmount := v\<rparr>),
      tag ''principalAmount'' True int64_codec sori_PrincipalAmount
        (\<lambda>v s. s\<lparr>sori_PrincipalAmount := v\<rparr>),
      tag ''interestAmount'' True int64_codec sori_InterestAmount
        (\<lambda>v s. s\<lparr>sori_InterestAmount := v\<rparr>),
      tag ''discountAmount'' True int64_codec sori_DiscountAmount
        (\<lambda>v s. s\<lparr>sori_DiscountAmount := v\<rparr>),
      tag ''overpaidAmountChange'' True int64_codec sori_OverpaidAmountChange
        (\<lambda>v s. s\<lparr>sori_OverpaidAmountChange := v\<rparr>),
      tag ''extendInfo'' True map_codec sori_ExtendInfo
        (\<lambda>v s. s\<lparr>sori_ExtendInfo := v\<rparr>)]
     \<lparr>sori_SubOrderID = [], sori_MerchantID = [], sori_MerchantName = [], sori_Quantity = 0, sori_TotalAmount = 0, sori_PrincipalAmount = 0, sori_InterestAmount = 0, sori_DiscountAmount = 0, sori_OverpaidAmountChange = 0, sori_ExtendInfo = []\<rparr>"

lemma sub_order_refund_info_codec_ok [codec_laws]: "codec_ok sub_order_refund_info_codec"
  unfolding sub_order_refund_info_codec_def
  by (rule struct_codec_ok) (simp_all add: rebuild_tag codec_laws)

definition refund_result_codec :: "refund_result codec" where
  "refund_result_codec = struct_codec
     [tag ''requestId'' False string_codec rfr_RequestID
        (\<lambda>v s. s\<lparr>rfr_RequestID := v\<rparr>),
      tag ''captureRequestId'' False string_codec rfr_CaptureRequestID
        (\<lambda>v s. s\<lparr>rfr_CaptureRequestID := v\<rparr>),
      tag ''refundId'' False string_codec rfr_RefundID
        (\<lambda>v s. s\<lparr>rfr_RefundID := v\<rparr>),
      tag ''refundAmount'' False int64_codec rfr_RefundAmount
        (\<lambda>v s. s\<lparr>rfr_RefundAmount := v\<rparr>),
      tag ''waivedInterestAmount'' True int64_codec rfr_WaivedInterestAmount
        (\<lambda>v s. s\<lparr>rfr_WaivedInterestAmount := v\<rparr>),
      tag ''refundDiscountAmount'' True int64_codec rfr_RefundDiscountAmount
        (\<lambda>v s. s\<lparr>rfr_RefundDiscountAmount := v\<rparr>),
      tag ''status'' False string_codec rfr_Status
        (\<lambda>v s. s\<lparr>rfr_Status := v\<rparr>),
      tag ''failureCode'' True string_codec rfr_FailureCode
        (\<lambda>v s. s\<lparr>rfr_FailureCode := v\<rparr>),
      tag ''currency'' False string_codec rfr_Currency
        (\<lambda>v s. s\<lparr>rfr_Currency := v\<rparr>),
      tag ''subOrders'' True (slice_codec sub_order_refund_info_codec) rfr_SubOrders
        (\<lambda>v s. s\<lparr>rfr_SubOrders := v\<rparr>),
      tag ''accountChanges'' True (pointer_codec commerce_account_changes_codec) rfr_AccountChanges
        (\<lambda>v s. s\<lparr>rfr_AccountChanges := v\<rparr>)]
     \<lparr>rfr_RequestID = [], rfr_CaptureRequestID = [], rfr_RefundID = [], rfr_RefundAmount = 0, rfr_WaivedInterestAmount = 0, rfr_RefundDiscountAmount = 0, rfr_Status = [], rfr_FailureCode = [], rfr_Currency = [], rfr_SubOrders = [], rfr_AccountChanges = None\<rparr>"

lemma refund_result_codec_ok [codec_laws]: "codec_ok refund_result_codec"
  unfolding refund_result_codec_def
  by (rule struct_codec_ok) (simp_all add: rebuild_tag codec_laws)

definition refund_response_codec :: "refund_response codec" where
  "refund_response_codec = struct_codec
     [tag ''code'' False string_codec rfrsp_Code
        (\<lambda>v s. s\<lparr>rfrsp_Code := v\<rparr>),
      tag ''message'' False string_codec rfrsp_Message
        (\<lambda>v s. s\<lparr>rfrsp_Message := v\<rparr>),
      tag ''data'' True (pointer_codec refund_result_codec) rfrsp_Data
        (\<lambda>v s. s\<lparr>rfrsp_Data := v\<rparr>)]
     \<lparr>rfrsp_Code = [], rfrsp_Message = [], rfrsp_Data = None\<rparr>"

lemma refund_response_codec_ok [codec_laws]: "codec_ok refund_response_codec"
  unfolding refund_response_codec_def
  by (rule struct_codec_ok) (simp_all add: rebuild_tag codec_laws)

section \<open>atomefin/bill\<close>

definition bill_discounts_codec :: "bill_discounts codec" where
  "bill_discounts_codec = struct_codec
     [tag ''discountAmount'' True int64_codec bds_DiscountAmount
        (\<lambda>v s. s\<lparr>bds_DiscountAmount := v\<rparr>),
      tag ''interestAmountAfterDiscount'' True int64_codec bds_InterestAmountAfterDiscount
        (\<lambda>v s. s\<lparr>bds_InterestAmountAfterDiscount := v\<rparr>),
      tag ''billTotalAmountAfterDiscount'' True int64_codec bds_BillTotalAmountAfterDiscount
        (\<lambda>v s. s\<lparr>bds_BillTotalAmountAfterDiscount := v\<rparr>),
      tag ''repaidAmountExcludeDiscount'' True int64_codec bds_RepaidAmountExcludeDiscount
        (\<lambda>v s. s\<lparr>bds_RepaidAmountExcludeDiscount := v\<rparr>)]
     \<lparr>bds_DiscountAmount = 0, bds_InterestAmountAfterDiscount = 0, bds_BillTotalAmountAfterDiscount = 0, bds_RepaidAmountExcludeDiscount = 0\<rparr>"

lemma bill_discounts_codec_ok [codec_laws]: "codec_ok bill_discounts_codec"
  unfolding bill_discounts_codec_def
  by (rule struct_codec_ok) (simp_all add: rebuild_tag codec_laws)

definition bill_codec :: "bill codec" where
  "bill_codec = struct_codec
     [tag ''billId'' False string_codec bl_BillID
        (\<lambda>v s. s\<lparr>bl_BillID := v\<rparr>),
      tag ''billMonth'' False string_codec bl_BillMonth
        (\<lambda>v s. s\<lparr>bl_BillMonth := v\<rparr>),
      tag ''billStartDate'' False string_codec bl_BillStartDate
        (\<lambda>v s. s\<lparr>bl_BillStartDate := v\<rparr>),
      tag ''billEndDate'' False string_codec bl_BillEndDate
        (\<lambda>v s. s\<lparr>bl_BillEndDate := v\<rparr>),
      tag ''billTotalAmount'' False int64_codec bl_BillTotalAmount
        (\<lambda>v s. s\<lparr>bl_BillTotalAmount := v\<rparr>),
      tag ''outstandingAmount'' False int64_codec bl_OutstandingAmount
        (\<lambda>v s. s\<lparr>bl_OutstandingAmount := v\<rparr>),
      tag ''repaidAmount'' False int64_codec bl_RepaidAmount
        (\<lambda>v s. s\<lparr>bl_RepaidAmount := v\<rparr>),
      tag ''principalAmount'' False int64_codec bl_PrincipalAmount
        (\<lambda>v s. s\<lparr>bl_PrincipalAmount := v\<rparr>),
      tag ''interestAmount'' False int64_codec bl_InterestAmount
        (\<lambda>v s. s\<lparr>bl_InterestAmount := v\<rparr>),
      tag ''lateFeeAmount'' False int64_codec bl_LateFeeAmount
        (\<lambda>v s. s\<lparr>bl_LateFeeAmount := v\<rparr>),
      tag ''refundAmount'' False int64_codec bl_RefundAmount
        (\<lambda>v s. s\<lparr>bl_RefundAmount := v\<rparr>),
      tag ''dueDate'' False string_codec bl_DueDate
        (\<lambda>v s. s\<lparr>bl_DueDate := v\<rparr>),
      tag ''daysPastDue'' False int_codec bl_DaysPastDue
        (\<lambda>v s. s\<lparr>bl_DaysPastDue := v\<rparr>),
      tag ''gracePeriod'' False int_codec bl_GracePeriod
        (\<lambda>v s. s\<lparr>bl_GracePeriod := v\<rparr>),
      tag ''status'' False string_codec bl_Status
        (\<lambda>v s. s\<lparr>bl_Status := v\<rparr>),
      tag ''refundStatus'' False string_codec bl_RefundStatus
        (\<lambda>v s. s\<lparr>bl_RefundStatus := v\<rparr>),
      tag ''currency'' False string_codec bl_Currency
        (\<lambda>v s. s\<lparr>bl_Currency := v\<rparr>),
      tag ''repaymentStatus'' False string_codec bl_RepaymentStatus
        (\<lambda>v s. s\<lparr>bl_RepaymentStatus := v\<rparr>),
      tag ''overdueStatus'' False string_codec bl_OverdueStatus
        (\<lambda>v s. s\<lparr>bl_OverdueStatus := v\<rparr>),
      tag ''discounts'' True (pointer_codec bill_discounts_codec) bl_Discounts
        (\<lambda>v s. s\<lparr>bl_Discounts := v\<rparr>)]
     \<lparr>bl_BillID = [], bl_BillMonth = [], bl_BillStartDate = [], bl_BillEndDate = [], bl_BillTotalAmount = 0, bl_OutstandingAmount = 0, bl_RepaidAmount = 0, bl_PrincipalAmount = 0, bl_InterestAmount = 0, bl_LateFeeAmount = 0, bl_RefundAmount = 0, bl_DueDate = [], bl_DaysPastDue = 0, bl_GracePeriod = 0, bl_Status = [], bl_RefundStatus = [], bl_Currency = [], bl_RepaymentStatus = [], bl_OverdueStatus = [], bl_Discounts = None\<rparr>"

lemma bill_codec_ok [codec_laws]: "codec_ok bill_codec"
  unfolding bill_codec_def
  by (rule struct_codec_ok) (simp_all add: rebuild_tag codec_laws)

definition bills_response_item_codec :: "bills_response_item codec" where
  "bills_response_item_codec = struct_codec
     [tag ''billId'' False string_codec (\<lambda>s. bl_BillID (bri_Bill s))
        (\<lambda>v s. s\<lparr>bri_Bill := (bri_Bill s)\<lparr>bl_BillID := v\<rparr>\<rparr>),
      tag ''billMonth'' False string_codec (\<lambda>s. bl_BillMonth (bri_Bill s))
        (\<lambda>v s. s\<lparr>bri_Bill := (bri_Bill s)\<lparr>bl_BillMonth := v\<rparr>\<rparr>),
      tag ''billStartDate'' False string_codec (\<lambda>s. bl_BillStartDate (bri_Bill s))
        (\<lambda>v s. s\<lparr>bri_Bill := (bri_Bill s)\<lparr>bl_BillStartDate := v\<rparr>\<rparr>),
      tag ''billEndDate'' False string_codec (\<lambda>s. bl_BillEndDate (bri_Bill s))
        (\<lambda>v s. s\<lparr>bri_Bill := (bri_Bill s)\<lparr>bl_BillEndDate := v\<rparr>\<rparr>),
      tag ''billTotalAmount'' False int64_codec (\<lambda>s. bl_BillTotalAmount (bri_Bill s))
        (\<lambda>v s. s\<lparr>bri_Bill := (bri_Bill s)\<lparr>bl_BillTotalAmount := v\<rparr>\<rparr>),
      tag ''outstandingAmount'' False int64_codec (\<lambda>s. bl_OutstandingAmount (bri_Bill s))
        (\<lambda>v s. s\<lparr>bri_Bill := (bri_Bill s)\<lparr>bl_OutstandingAmount := v\<rparr>\<rparr>),
      tag ''repaidAmount'' False int64_codec (\<lambda>s. bl_RepaidAmount (bri_Bill s))
        (\<lambda>v s. s\<lparr>bri_Bill := (bri_Bill s)\<lparr>bl_RepaidAmount := v\<rparr>\<rparr>),
      tag ''principalAmount'' False int64_codec (\<lambda>s. bl_PrincipalAmount (bri_Bill s))
        (\<lambda>v s. s\<lparr>bri_Bill := (bri_Bill s)\<lparr>bl_PrincipalAmount := v\<rparr>\<rparr>),
      tag ''interestAmount'' False int64_codec (\<lambda>s. bl_InterestAmount (bri_Bill s))
        (\<lambda>v s. s\<lparr>bri_Bill := (bri_Bill s)\<lparr>bl_InterestAmount := v\<rparr>\<rparr>),
      tag ''lateFeeAmount'' False int64_codec (\<lambda>s. bl_LateFeeAmount (bri_Bill s))
        (\<lambda>v s. s\<lparr>bri_Bill := (bri_Bill s)\<lparr>bl_LateFeeAmount := v\<rparr>\<rparr>),
      tag ''refundAmount'' False int64_codec (\<lambda>s. bl_RefundAmount (bri_Bill s))
        (\<lambda>v s. s\<lparr>bri_Bill := (bri_Bill s)\<lparr>bl_RefundAmount := v\<rparr>\<rparr>),
      tag ''dueDate'' False string_codec (\<lambda>s. bl_DueDate (bri_Bill s))
        (\<lambda>v s. s\<lparr>bri_Bill := (bri_Bill s)\<lparr>bl_DueDate := v\<rparr>\<rparr>),
      tag ''daysPastDue'' False int_codec (\<lambda>s. bl_DaysPastDue (bri_Bill s))
        (\<lambda>v s. s\<lparr>bri_Bill := (bri_Bill s)\<lparr>bl_DaysPastDue := v\<rparr>\<rparr>),
      tag ''gracePeriod'' False int_codec (\<lambda>s. bl_GracePeriod (bri_Bill s))
        (\<lambda>v s. s\<lparr>bri_Bill := (bri_Bill s)\<lparr>bl_GracePeriod := v\<rparr>\<rparr>),
      tag ''status'' False string_codec (\<lambda>s. bl_Status (bri_Bill s))
        (\<lambda>v s. s\<lparr>bri_Bill := (bri_Bill s)\<lparr>bl_Status := v\<rparr>\<rparr>),
      tag ''refundStatus'' False string_codec (\<lambda>s. bl_RefundStatus (bri_Bill s))
        (\<lambda>v s. s\<lparr>bri_Bill := (bri_Bill s)\<lparr>bl_RefundStatus := v\<rparr>\<rparr>),
      tag ''currency'' False string_codec (\<lambda>s. bl_Currency (bri_Bill s))
        (\<lambda>v s. s\<lparr>bri_Bill := (bri_Bill s)\<lparr>bl_Currency := v\<rparr>\<rparr>),
      tag ''repaymentStatus'' False string_codec (\<lambda>s. bl_RepaymentStatus (bri_Bill s))
        (\<lambda>v s. s\<lparr>bri_Bill := (bri_Bill s)\<lparr>bl_RepaymentStatus := v\<rparr>\<rparr>),
      tag ''overdueStatus'' False string_codec (\<lambda>s. bl_OverdueStatus (bri_Bill s))
        (\<lambda>v s. s\<lparr>bri_Bill := (bri_Bill s)\<lparr>bl_OverdueStatus := v\<rparr>\<rparr>),
      tag ''discounts'' True (pointer_codec bill_discounts_codec) (\<lambda>s. bl_Discounts (bri_Bill s))
        (\<lambda>v s. s\<lparr>bri_Bill := (bri_Bill s)\<lparr>bl_Discounts := v\<rparr>\<rparr>)]
     \<lparr>bri_Bill = \<lparr>bl_BillID = [], bl_BillMonth = [], bl_BillStartDate = [], bl_BillEndDate = [], bl_BillTotalAmount = 0, bl_OutstandingAmount = 0, bl_RepaidAmount = 0, bl_PrincipalAmount = 0, bl_InterestAmount = 0, bl_LateFeeAmount = 0, bl_RefundAmount = 0, bl_DueDate = [], bl_DaysPastDue = 0, bl_GracePeriod = 0, bl_Status = [], bl_RefundStatus = [], bl_Currency = [], bl_RepaymentStatus = [], bl_OverdueStatus = [], bl_Discounts = None\<rparr>\<rparr>"

lemma bills_response_item_codec_ok [codec_laws]: "codec_ok bills_response_item_codec"
  unfolding bills_response_item_codec_def
  by (rule struct_codec_ok) (simp_all add: rebuild_tag codec_laws)

definition repayment_detail_codec :: "repayment_detail codec" where
  "repayment_detail_codec = struct_codec
     [tag ''repaymentRequestId'' True string_codec rpd_RepaymentRequestID
        (\<lambda>v s. s\<lparr>rpd_RepaymentRequestID := v\<rparr>),
      tag ''repaymentAmount'' True int64_codec rpd_RepaymentAmount
        (\<lambda>v s. s\<lparr>rpd_RepaymentAmount := v\<rparr>),
      tag ''repaidPrincipalAmount'' True int64_codec rpd_RepaidPrincipalAmount
        (\<lambda>v s. s\<lparr>rpd_RepaidPrincipalAmount := v\<rparr>),
      tag ''repaidInterestAmount'' True int64_codec rpd_RepaidInterestAmount
        (\<lambda>v s. s\<lparr>rpd_RepaidInterestAmount := v\<rparr>),
      tag ''repaidLateFeeAmount'' True int64_codec rpd_RepaidLateFeeAmount
        (\<lambda>v s. s\<lparr>rpd_RepaidLateFeeAmount := v\<rparr>),
      tag ''repaymentTime'' True int64_codec rpd_RepaymentTime
        (\<lambda>v s. s\<lparr>rpd_RepaymentTime := v\<rparr>),
      tag ''event'' True string_codec rpd_Event
        (\<lambda>v s. s\<lparr>rpd_Event := v\<rparr>)]
     \<lparr>rpd_RepaymentRequestID = [], rpd_RepaymentAmount = 0, rpd_RepaidPrincipalAmount = 0, rpd_RepaidInterestAmount = 0, rpd_RepaidLateFeeAmount = 0, rpd_RepaymentTime = 0, rpd_Event = []\<rparr>"

lemma repayment_detail_codec_ok [codec_laws]: "codec_ok repayment_detail_codec"
  unfolding repayment_detail_codec_def
  by (rule struct_codec_ok) (simp_all add: rebuild_tag codec_laws)

definition bill_main_order_codec :: "bill_main_order codec" where
  "bill_main_order_codec = struct_codec
     [tag ''orderId'' False string_codec bmo_OrderID
        (\<lambda>v s. s\<lparr>bmo_OrderID := v\<rparr>),
      tag ''requestId'' False string_codec bmo_RequestID
        (\<lambda>v s. s\<lparr>bmo_RequestID := v\<rparr>),
      tag ''merchantId'' True string_codec bmo_MerchantID
        (\<lambda>v s. s\<lparr>bmo_MerchantID := v\<rparr>),
      tag ''merchantName'' True string_codec bmo_MerchantName
        (\<lambda>v s. s\<lparr>bmo_MerchantName := v\<rparr>),
      tag ''orderType'' False string_codec bmo_OrderType
        (\<lambda>v s. s\<lparr>bmo_OrderType := v\<rparr>),
      tag ''subOrderId'' True string_codec bmo_SubOrderID
        (\<lambda>v s. s\<lparr>bmo_SubOrderID := v\<rparr>),
      tag ''createTime'' False int64_codec bmo_CreateTime
        (\<lambda>v s. s\<lparr>bmo_CreateTime := v\<rparr>),
      tag ''periodType'' False int_codec bmo_PeriodType
        (\<lambda>v s. s\<lparr>bmo_PeriodType := v\<rparr>),
      tag ''currentPeriod'' False int_codec bmo_CurrentPeriod
        (\<lambda>v s. s\<lparr>bmo_CurrentPeriod := v\<rparr>),
      tag ''totalAmount'' False int64_codec bmo_TotalAmount
        (\<lambda>v s. s\<lparr>bmo_TotalAmount := v\<rparr>),
      tag ''outstandingAmount'' False int64_codec bmo_OutstandingAmount
        (\<lambda>v s. s\<lparr>bmo_OutstandingAmount := v\<rparr>),
      tag ''repaidAmount'' False int64_codec bmo_RepaidAmount
        (\<lambda>v s. s\<lparr>bmo_RepaidAmount := v\<rparr>),
      tag ''principalAmount'' False int64_codec bmo_PrincipalAmount
        (\<lambda>v s. s\<lparr>bmo_PrincipalAmount := v\<rparr>),
      tag ''interestAmount'' False int64_codec bmo_InterestAmount
        (\<lambda>v s. s\<lparr>bmo_InterestAmount := v\<rparr>),
      tag ''refundAmount'' False int64_codec bmo_RefundAmount
        (\<lambda>v s. s\<lparr>bmo_RefundAmount := v\<rparr>),
      tag ''gracePeriod'' False int_codec bmo_GracePeriod
        (\<lambda>v s. s\<lparr>bmo_GracePeriod := v\<rparr>),
      tag ''dueDate'' False string_codec bmo_DueDate
        (\<lambda>v s. s\<lparr>bmo_DueDate := v\<rparr>),
      tag ''status'' False string_codec bmo_Status
        (\<lambda>v s. s\<lparr>bmo_Status := v\<rparr>),
      tag ''repaymentStatus'' False string_codec bmo_RepaymentStatus
        (\<lambda>v s. s\<lparr>bmo_RepaymentStatus := v\<rparr>),
      tag ''overdueStatus'' False string_codec bmo_OverdueStatus
        (\<lambda>v s. s\<lparr>bmo_OverdueStatus := v\<rparr>),
      tag ''refundStatus'' False string_codec bmo_RefundStatus
        (\<lambda>v s. s\<lparr>bmo_RefundStatus := v\<rparr>),
      tag ''discounts'' True (pointer_codec bill_discounts_codec) bmo_Discounts
        (\<lambda>v s. s\<lparr>bmo_Discounts := v\<rparr>)]
     \<lparr>bmo_OrderID = [], bmo_RequestID = [], bmo_MerchantID = [], bmo_MerchantName = [], bmo_OrderType = [], bmo_SubOrderID = [], bmo_CreateTime = 0, bmo_PeriodType = 0, bmo_CurrentPeriod = 0, bmo_TotalAmount = 0, bmo_OutstandingAmount = 0, bmo_RepaidAmount = 0, bmo_PrincipalAmount = 0, bmo_InterestAmount = 0, bmo_RefundAmount = 0, bmo_GracePeriod = 0, bmo_DueDate = [], bmo_Status = [], bmo_RepaymentStatus = [], bmo_OverdueStatus = [], bmo_RefundStatus = [], bmo_Discounts = None\<rparr>"

lemma bill_main_order_codec_ok [codec_laws]: "codec_ok bill_main_order_codec"
  unfolding bill_main_order_codec_def
  by (rule struct_codec_ok) (simp_all add: rebuild_tag codec_laws)

definition bill_paginator_codec :: "bill_paginator codec" where
  "bill_paginator_codec = struct_codec
     [tag ''start'' False int_codec bpg_Start
        (\<lambda>v s. s\<lparr>bpg_Start := v\<rparr>),
      tag ''count'' False int_codec bpg_Count
        (\<lambda>v s. s\<lparr>bpg_Count := v\<rparr>),
      tag ''totalCount'' False int_codec bpg_TotalCount
        (\<lambda>v s. s\<lparr>bpg_TotalCount := v\<rparr>)]
     \<lparr>bpg_Start = 0, bpg_Count = 0, bpg_TotalCount = 0\<rparr>"

lemma bill_paginator_codec_ok [codec_laws]: "codec_ok bill_paginator_codec"
  unfolding bill_paginator_codec_def
  by (rule struct_codec_ok) (simp_all add: rebuild_tag codec_laws)

definition bill_detail_codec :: "bill_detail codec" where
  "bill_detail_codec = struct_codec
     [tag ''currency'' False string_codec bdt_Currency
        (\<lambda>v s. s\<lparr>bdt_Currency := v\<rparr>),
      tag ''bill'' False (pointer_codec bill_codec) bdt_Bill
        (\<lambda>v s. s\<lparr>bdt_Bill := v\<rparr>),
      tag ''repaymentDetails'' True (slice_codec repayment_detail_codec) bdt_RepaymentDetails
        (\<lambda>v s. s\<lparr>bdt_RepaymentDetails := v\<rparr>),
      tag ''mainOrders'' False (slice_codec bill_main_order_codec) bdt_MainOrders
        (\<lambda>v s. s\<lparr>bdt_MainOrders := v\<rparr>),
      tag ''paginator'' False (pointer_codec bill_paginator_codec) bdt_Paginator
        (\<lambda>v s. s\<lparr>bdt_Paginator := v\<rparr>),
      tag ''orders'' True (slice_codec map_codec) bdt_Orders
        (\<lambda>v s. s\<lparr>bdt_Orders := v\<rparr>)]
     \<lparr>bdt_Currency = [], bdt_Bill = None, bdt_RepaymentDetails = [], bdt_MainOrders = [], bdt_Paginator = None, bdt_Orders = []\<rparr>"

lemma bill_detail_codec_ok [codec_laws]: "codec_ok bill_detail_codec"
  unfolding bill_detail_codec_def
  by (rule struct_codec_ok) (simp_all add: rebuild_tag codec_laws)

definition bills_response_codec :: "bills_response codec" where
  "bills_response_codec = struct_codec
     [tag ''code'' False string_codec bsrsp_Code
        (\<lambda>v s. s\<lparr>bsrsp_Code := v\<rparr>),
      tag ''message'' False string_codec bsrsp_Message
        (\<lambda>v s. s\<lparr>bsrsp_Message := v\<rparr>),
      tag ''data'' False (slice_codec bills_response_item_codec) bsrsp_Data
        (\<lambda>v s. s\<lparr>bsrsp_Data := v\<rparr>)]
     \<lparr>bsrsp_Code = [], bsrsp_Message = [], bsrsp_Data = []\<rparr>"

lemma bills_response_codec_ok [codec_laws]: "codec_ok bills_response_codec"
  unfolding bills_response_codec_def
  by (rule struct_codec_ok) (simp_all add: rebuild_tag codec_laws)

definition bill_detail_response_codec :: "bill_detail_response codec" where
  "bill_detail_response_codec = struct_codec
     [tag ''code'' False string_codec bdrsp_Code
        (\<lambda>v s. s\<lparr>bdrsp_Code := v\<rparr>),
      tag ''message'' False string_codec bdrsp_Message
        (\<lambda>v s. s\<lparr>bdrsp_Message := v\<rparr>),
      tag ''data'' True (pointer_codec bill_detail_codec) bdrsp_Data
        (\<lambda>v s. s\<lparr>bdrsp_Data := v\<rparr>)]
     \<lparr>bdrsp_Code = [], bdrsp_Message = [], bdrsp_Data = None\<rparr>"

lemma bill_detail_response_codec_ok [codec_laws]: "codec_ok bill_detail_response_codec"
  unfolding bill_detail_response_codec_def
  by (rule struct_codec_ok) (simp_all add: rebuild_tag codec_laws)

definition bill_unpaid_codec :: "bill_unpaid codec" where
  "bill_unpaid_codec = struct_codec
     [tag ''billedAmountToBeRepaid'' False int64_codec bu_BilledAmountToBeRepaid
        (\<lambda>v s. s\<lparr>bu_BilledAmountToBeRepaid := v\<rparr>),
      tag ''billedPrincipalAmountToBeRepaid'' False int64_codec bu_BilledPrincipalAmountToBeRepaid
        (\<lambda>v s. s\<lparr>bu_BilledPrincipalAmountToBeRepaid := v\<rparr>),
      tag ''billedInterestAmountToBeRepaid'' False int64_codec bu_BilledInterestAmountToBeRepaid
        (\<lambda>v s. s\<lparr>bu_BilledInterestAmountToBeRepaid := v\<rparr>),
      tag ''billedLateFeeAmountToBeRepaid'' False int64_codec bu_BilledLateFeeAmountToBeRepaid
        (\<lambda>v s. s\<lparr>bu_BilledLateFeeAmountToBeRepaid := v\<rparr>),
      tag ''billedCurrentBillId'' False string_codec bu_BilledCurrentBillID
        (\<lambda>v s. s\<lparr>bu_BilledCurrentBillID := v\<rparr>),
      tag ''overdueStatus'' False string_codec bu_OverdueStatus
        (\<lambda>v s. s\<lparr>bu_OverdueStatus := v\<rparr>),
      tag ''daysPastDue'' False int_codec bu_DaysPastDue
        (\<lambda>v s. s\<lparr>bu_DaysPastDue := v\<rparr>),
      tag ''billedCurrentDueDate'' False string_codec bu_BilledCurrentDueDate
        (\<lambda>v s. s\<lparr>bu_BilledCurrentDueDate := v\<rparr>),
      tag ''billedCurrentBillDate'' False string_codec bu_BilledCurrentBillDate
        (\<lambda>v s. s\<lparr>bu_BilledCurrentBillDate := v\<rparr>),
      tag ''billedCurrentStartDate'' False string_codec bu_BilledCurrentStartDate
        (\<lambda>v s. s\<lparr>bu_BilledCurrentStartDate := v\<rparr>),
      tag ''billedCurrentEndDate'' False string_codec bu_BilledCurrentEndDate
        (\<lambda>v s. s\<lparr>bu_BilledCurrentEndDate := v\<rparr>),
      tag ''totalAmountToBeRepaid'' False int64_codec bu_TotalAmountToBeRepaid
        (\<lambda>v s. s\<lparr>bu_TotalAmountToBeRepaid := v\<rparr>),
      tag ''totalPrincipalAmountToBeRepaid'' False int64_codec bu_TotalPrincipalAmountToBeRepaid
        (\<lambda>v s. s\<lparr>bu_TotalPrincipalAmountToBeRepaid := v\<rparr>),
      tag ''totalInterestAmountToBeRepaid'' False int64_codec bu_TotalInterestAmountToBeRepaid
        (\<lambda>v s. s\<lparr>bu_TotalInterestAmountToBeRepaid := v\<rparr>),
      tag ''totalLateFeeAmountToBeRepaid'' False int64_codec bu_TotalLateFeeAmountToBeRepaid
        (\<lambda>v s. s\<lparr>bu_TotalLateFeeAmountToBeRepaid := v\<rparr>)]
     \<lparr>bu_BilledAmountToBeRepaid = 0, bu_BilledPrincipalAmountToBeRepaid = 0, bu_BilledInterestAmountToBeRepaid = 0, bu_BilledLateFeeAmountToBeRepaid = 0, bu_BilledCurrentBillID = [], bu_OverdueStatus = [], bu_DaysPastDue = 0, bu_BilledCurrentDueDate = [], bu_BilledCurrentBillDate = [], bu_BilledCurrentStartDate = [], bu_BilledCurrentEndDate = [], bu_TotalAmountToBeRepaid = 0, bu_TotalPrincipalAmountToBeRepaid = 0, bu_TotalInterestAmountToBeRepaid = 0, bu_TotalLateFeeAmountToBeRepaid = 0\<rparr>"

lemma bill_unpaid_codec_ok [codec_laws]: "codec_ok bill_unpaid_codec"
  unfolding bill_unpaid_codec_def
  by (rule struct_codec_ok) (simp_all add: rebuild_tag codec_laws)

definition bill_unpaid_response_codec :: "bill_unpaid_response codec" where
  "bill_unpaid_response_codec = struct_codec
     [tag ''code'' False string_codec bursp_Code
        (\<lambda>v s. s\<lparr>bursp_Code := v\<rparr>),
      tag ''message'' False string_codec bursp_Message
        (\<lambda>v s. s\<lparr>bursp_Message := v\<rparr>),
      tag ''data'' True (pointer_codec bill_unpaid_codec) bursp_Data
        (\<lambda>v s. s\<lparr>bursp_Data := v\<rparr>)]
     \<lparr>bursp_Code = [], bursp_Message = [], bursp_Data = None\<rparr>"

lemma bill_unpaid_response_codec_ok [codec_laws]: "codec_ok bill_unpaid_response_codec"
  unfolding bill_unpaid_response_codec_def
  by (rule struct_codec_ok) (simp_all add: rebuild_tag codec_laws)

section \<open>atomefin/transaction\<close>

definition trade_sub_order_codec :: "trade_sub_order codec" where
  "trade_sub_order_codec = struct_codec
     [tag ''subOrderId'' True string_codec tso_SubOrderID
        (\<lambda>v s. s\<lparr>tso_SubOrderID := v\<rparr>),
      tag ''merchantId'' True string_codec tso_MerchantID
        (\<lambda>v s. s\<lparr>tso_MerchantID := v\<rparr>),
      tag ''merchantName'' True string_codec tso_MerchantName
        (\<lambda>v s. s\<lparr>tso_MerchantName := v\<rparr>),
      tag ''principalAmount'' False int64_codec tso_PrincipalAmount
        (\<lambda>v s. s\<lparr>tso_PrincipalAmount := v\<rparr>),
      tag ''interestAmount'' True int64_codec tso_InterestAmount
        (\<lambda>v s. s\<lparr>tso_InterestAmount := v\<rparr>),
      tag ''discountAmount'' True int64_codec tso_DiscountAmount
        (\<lambda>v s. s\<lparr>tso_DiscountAmount := v\<rparr>)]
     \<lparr>tso_SubOrderID = [], tso_MerchantID = [], tso_MerchantName = [], tso_PrincipalAmount = 0, tso_InterestAmount = 0, tso_DiscountAmount = 0\<rparr>"

lemma trade_sub_order_codec_ok [codec_laws]: "codec_ok trade_sub_order_codec"
  unfolding trade_sub_order_codec_def
  by (rule struct_codec_ok) (simp_all add: rebuild_tag codec_laws)

definition trade_payment_info_codec :: "trade_payment_info codec" where
  "trade_payment_info_codec = struct_codec
     [tag ''paymentRequestId'' False string_codec tpi_PaymentRequestID
        (\<lambda>v s. s\<lparr>tpi_PaymentRequestID := v\<rparr>),
      tag ''orderId'' False string_codec tpi_OrderID
        (\<lambda>v s. s\<lparr>tpi_OrderID := v\<rparr>),
      tag ''orderType'' False string_codec tpi_OrderType
        (\<lambda>v s. s\<lparr>tpi_OrderType := v\<rparr>),
      tag ''totalTenor'' True int_codec tpi_TotalTenor
        (\<lambda>v s. s\<lparr>tpi_TotalTenor := v\<rparr>),
      tag ''createTime'' False int64_codec tpi_CreateTime
        (\<lambda>v s. s\<lparr>tpi_CreateTime := v\<rparr>),
      tag ''subOrders'' True (slice_codec trade_sub_order_codec) tpi_SubOrders
        (\<lambda>v s. s\<lparr>tpi_SubOrders := v\<rparr>)]
     \<lparr>tpi_PaymentRequestID = [], tpi_OrderID = [], tpi_OrderType = [], tpi_TotalTenor = 0, tpi_CreateTime = 0, tpi_SubOrders = []\<rparr>"

lemma trade_payment_info_codec_ok [codec_laws]: "codec_ok trade_payment_info_codec"
  unfolding trade_payment_info_codec_def
  by (rule struct_codec_ok) (simp_all add: rebuild_tag codec_laws)

definition trade_refund_sub_order_codec :: "trade_refund_sub_order codec" where
  "trade_refund_sub_order_codec = struct_codec
     [tag ''subOrderId'' True string_codec trso_SubOrderID
        (\<lambda>v s. s\<lparr>trso_SubOrderID := v\<rparr>),
      tag ''merchantId'' True string_codec trso_MerchantID
        (\<lambda>v s. s\<lparr>trso_MerchantID := v\<rparr>),
      tag ''merchantName'' True string_codec trso_MerchantName
        (\<lambda>v s. s\<lparr>trso_MerchantName := v\<rparr>),
      tag ''refundStatus'' False string_codec trso_RefundStatus
        (\<lambda>v s. s\<lparr>trso_RefundStatus := v\<rparr>),
      tag ''principalAmount'' False int64_codec trso_PrincipalAmount
        (\<lambda>v s. s\<lparr>trso_PrincipalAmount := v\<rparr>),
      tag ''waivedInterestAmount'' True int64_codec trso_WaivedInterestAmount
        (\<lambda>v s. s\<lparr>trso_WaivedInterestAmount := v\<rparr>),
      tag ''availableCreditChange'' True int64_codec trso_AvailableCreditChange
        (\<lambda>v s. s\<lparr>trso_AvailableCreditChange := v\<rparr>),
      tag ''discountAmount'' True int64_codec trso_DiscountAmount
        (\<lambda>v s. s\<lparr>trso_DiscountAmount := v\<rparr>),
      tag ''overpaidAmountChange'' True int64_codec trso_OverpaidAmountChange
        (\<lambda>v s. s\<lparr>trso_OverpaidAmountChange := v\<rparr>)]
     \<lparr>trso_SubOrderID = [], trso_MerchantID = [], trso_MerchantName = [], trso_RefundStatus = [], trso_PrincipalAmount = 0, trso_WaivedInterestAmount = 0, trso_AvailableCreditChange = 0, trso_DiscountAmount = 0, trso_OverpaidAmountChange = 0\<rparr>"

lemma trade_refund_sub_order_codec_ok [codec_laws]: "codec_ok trade_refund_sub_order_codec"
  unfolding trade_refund_sub_order_codec_def
  by (rule struct_codec_ok) (simp_all add: rebuild_tag codec_laws)

definition trade_refund_info_codec :: "trade_refund_info codec" where
  "trade_refund_info_codec = struct_codec
     [tag ''refundRequestId'' False string_codec tri_RefundRequestID
        (\<lambda>v s. s\<lparr>tri_RefundRequestID := v\<rparr>),
      tag ''paymentRequestId'' False string_codec tri_PaymentRequestID
        (\<lambda>v s. s\<lparr>tri_PaymentRequestID := v\<rparr>),
      tag ''refundAmount'' False int64_codec tri_RefundAmount
        (\<lambda>v s. s\<lparr>tri_RefundAmount := v\<rparr>),
      tag ''refundDiscountAmount'' True int64_codec tri_RefundDiscountAmount
        (\<lambda>v s. s\<lparr>tri_RefundDiscountAmount := v\<rparr>),
      tag ''waivedInterestAmount'' True int64_codec tri_WaivedInterestAmount
        (\<lambda>v s. s\<lparr>tri_WaivedInterestAmount := v\<rparr>),
      tag ''overpaidAmountChange'' True int64_codec tri_OverpaidAmountChange
        (\<lambda>v s. s\<lparr>tri_OverpaidAmountChange := v\<rparr>),
      tag ''availableCreditChange'' True int64_codec tri_AvailableCreditChange
        (\<lambda>v s. s\<lparr>tri_AvailableCreditChange := v\<rparr>),
      tag ''lateFeeAmountChange'' True int64_codec tri_LateFeeAmountChange
        (\<lambda>v s. s\<lparr>tri_LateFeeAmountChange := v\<rparr>),
      tag ''refundType'' False string_codec tri_RefundType
        (\<lambda>v s. s\<lparr>tri_RefundType := v\<rparr>),
      tag ''createTime'' False int64_codec tri_CreateTime
        (\<lambda>v s. s\<lparr>tri_CreateTime := v\<rparr>),
      tag ''subOrders'' True (slice_codec trade_refund_sub_order_codec) tri_SubOrders
        (\<lambda>v s. s\<lparr>tri_SubOrders := v\<rparr>)]
     \<lparr>tri_RefundRequestID = [], tri_PaymentRequestID = [], tri_RefundAmount = 0, tri_RefundDiscountAmount = 0, tri_WaivedInterestAmount = 0, tri_OverpaidAmountChange = 0, tri_AvailableCreditChange = 0, tri_LateFeeAmountChange = 0, tri_RefundType = [], tri_CreateTime = 0, tri_SubOrders = []\<rparr>"

lemma trade_refund_info_codec_ok [codec_laws]: "codec_ok trade_refund_info_codec"
  unfolding trade_refund_info_codec_def
  by (rule struct_codec_ok) (simp_all add: rebuild_tag codec_laws)

definition trade_repayment_detail_codec :: "trade_repayment_detail codec" where
  "trade_repayment_detail_codec = struct_codec
     [tag ''billId'' False string_codec trd_BillID
        (\<lambda>v s. s\<lparr>trd_BillID := v\<rparr>),
      tag ''dueDate'' False string_codec trd_DueDate
        (\<lambda>v s. s\<lparr>trd_DueDate := v\<rparr>),
      tag ''billStartDate'' False string_codec trd_BillStartDate
        (\<lambda>v s. s\<lparr>trd_BillStartDate := v\<rparr>),
      tag ''billEndDate'' False string_codec trd_BillEndDate
        (\<lambda>v s. s\<lparr>trd_BillEndDate := v\<rparr>),
      tag ''repaymentAmount'' False int64_codec trd_RepaymentAmount
        (\<lambda>v s. s\<lparr>trd_RepaymentAmount := v\<rparr>)]
     \<lparr>trd_BillID = [], trd_DueDate = [], trd_BillStartDate = [], trd_BillEndDate = [], trd_RepaymentAmount = 0\<rparr>"

lemma trade_repayment_detail_codec_ok [codec_laws]: "codec_ok trade_repayment_detail_codec"
  unfolding trade_repayment_detail_codec_def
  by (rule struct_codec_ok) (simp_all add: rebuild_tag codec_laws)

definition trade_repayment_info_codec :: "trade_repayment_info codec" where
  "trade_repayment_info_codec = struct_codec
     [tag ''repaymentRequestId'' False string_codec trpi_RepaymentRequestID
        (\<lambda>v s. s\<lparr>trpi_RepaymentRequestID := v\<rparr>),
      tag ''repaymentAmount'' False int64_codec trpi_RepaymentAmount
        (\<lambda>v s. s\<lparr>trpi_RepaymentAmount := v\<rparr>),
      tag ''overpaidAmountChange'' True int64_codec trpi_OverpaidAmountChange
        (\<lambda>v s. s\<lparr>trpi_OverpaidAmountChange := v\<rparr>),
      tag ''event'' False string_codec trpi_Event
        (\<lambda>v s. s\<lparr>trpi_Event := v\<rparr>),
      tag ''createTime'' False int64_codec trpi_CreateTime
        (\<lambda>v s. s\<lparr>trpi_CreateTime := v\<rparr>),
      tag ''repaymentDetails'' True (slice_codec trade_repayment_detail_codec) trpi_RepaymentDetails
        (\<lambda>v s. s\<lparr>trpi_RepaymentDetails := v\<rparr>)]
     \<lparr>trpi_RepaymentRequestID = [], trpi_RepaymentAmount = 0, trpi_OverpaidAmountChange = 0, trpi_Event = [], trpi_CreateTime = 0, trpi_RepaymentDetails = []\<rparr>"

lemma trade_repayment_info_codec_ok [codec_laws]: "codec_ok trade_repayment_info_codec"
  unfolding trade_repayment_info_codec_def
  by (rule struct_codec_ok) (simp_all add: rebuild_tag codec_laws)

definition transaction_paginator_codec :: "transaction_paginator codec" where
  "transaction_paginator_codec = struct_codec
     [tag ''start'' False int_codec tpg_Start
        (\<lambda>v s. s\<lparr>tpg_Start := v\<rparr>),
      tag ''count'' False int_codec tpg_Count
        (\<lambda>v s. s\<lparr>tpg_Count := v\<rparr>),
      tag ''totalCount'' False int_codec tpg_TotalCount
        (\<lambda>v s. s\<lparr>tpg_TotalCount := v\<rparr>)]
     \<lparr>tpg_Start = 0, tpg_Count = 0, tpg_TotalCount = 0\<rparr>"

lemma transaction_paginator_codec_ok [codec_laws]: "codec_ok transaction_paginator_codec"
  unfolding transaction_paginator_codec_def
  by (rule struct_codec_ok) (simp_all add: rebuild_tag codec_laws)

definition transactions_data_codec :: "transactions_data codec" where
  "transactions_data_codec = struct_codec
     [tag ''currency'' False string_codec txd_Currency
        (\<lambda>v s. s\<lparr>txd_Currency := v\<rparr>),
      tag ''paymentInfo'' True (slice_codec trade_payment_info_codec) txd_PaymentInfo
        (\<lambda>v s. s\<lparr>txd_PaymentInfo := v\<rparr>),
      tag ''refundInfo'' True (slice_codec trade_refund_info_codec) txd_RefundInfo
        (\<lambda>v s. s\<lparr>txd_RefundInfo := v\<rparr>),
      tag ''repaymentInfo'' True (slice_codec trade_repayment_info_codec) txd_RepaymentInfo
        (\<lambda>v s. s\<lparr>txd_RepaymentInfo := v\<rparr>),
      tag ''paginator'' False (pointer_codec transaction_paginator_codec) txd_Paginator
        (\<lambda>v s. s\<lparr>txd_Paginator := v\<rparr>)]
     \<lparr>txd_Currency = [], txd_PaymentInfo = [], txd_RefundInfo = [], txd_RepaymentInfo = [], txd_Paginator = None\<rparr>"

lemma transactions_data_codec_ok [codec_laws]: "codec_ok transactions_data_codec"
  unfolding transactions_data_codec_def
  by (rule struct_codec_ok) (simp_all add: rebuild_tag codec_laws)

definition transactions_response_codec :: "transactions_response codec" where
  "transactions_response_codec = struct_codec
     [tag ''code'' False string_codec txrsp_Code
        (\<lambda>v s. s\<lparr>txrsp_Code := v\<rparr>),
      tag ''message'' False string_codec txrsp_Message
        (\<lambda>v s. s\<lparr>txrsp_Message := v\<rparr>),
      tag ''data'' True (pointer_codec transactions_data_codec) txrsp_Data
        (\<lambda>v s. s\<lparr>txrsp_Data := v\<rparr>)]
     \<lparr>txrsp_Code = [], txrsp_Message = [], txrsp_Data = None\<rparr>"

lemma transactions_response_codec_ok [codec_laws]: "codec_ok transactions_response_codec"
  unfolding transactions_response_codec_def
  by (rule struct_codec_ok) (simp_all add: rebuild_tag codec_laws)

definition trade_bill_detail_codec :: "trade_bill_detail codec" where
  "trade_bill_detail_codec = struct_codec
     [tag ''billId'' False string_codec tbd_BillID
        (\<lambda>v s. s\<lparr>tbd_BillID := v\<rparr>),
      tag ''billDate'' False string_codec tbd_BillDate
        (\<lambda>v s. s\<lparr>tbd_BillDate := v\<rparr>),
      tag ''dueDate'' False string_codec tbd_DueDate
        (\<lambda>v s. s\<lparr>tbd_DueDate := v\<rparr>),
      tag ''billStartDate'' True string_codec tbd_BillStartDate
        (\<lambda>v s. s\<lparr>tbd_BillStartDate := v\<rparr>),
      tag ''billEndDate'' True string_codec tbd_BillEndDate
        (\<lambda>v s. s\<lparr>tbd_BillEndDate := v\<rparr>),
      tag ''totalAmount'' False int64_codec tbd_TotalAmount
        (\<lambda>v s. s\<lparr>tbd_TotalAmount := v\<rparr>),
      tag ''outstandingAmount'' True int64_codec tbd_OutstandingAmount
        (\<lambda>v s. s\<lparr>tbd_OutstandingAmount := v\<rparr>),
      tag ''repaidAmount'' False int64_codec tbd_RepaidAmount
        (\<lambda>v s. s\<lparr>tbd_RepaidAmount := v\<rparr>),
      tag ''principalAmount'' False int64_codec tbd_PrincipalAmount
        (\<lambda>v s. s\<lparr>tbd_PrincipalAmount := v\<rparr>),
      tag ''interestAmount'' False int64_codec tbd_InterestAmount
        (\<lambda>v s. s\<lparr>tbd_InterestAmount := v\<rparr>),
      tag ''status'' False string_codec tbd_Status
        (\<lambda>v s. s\<lparr>tbd_Status := v\<rparr>),
      tag ''repaymentStatus'' False string_codec tbd_RepaymentStatus
        (\<lambda>v s. s\<lparr>tbd_RepaymentStatus := v\<rparr>),
      tag ''overdueStatus'' False string_codec tbd_OverdueStatus
        (\<lambda>v s. s\<lparr>tbd_OverdueStatus := v\<rparr>),
      tag ''discounts'' True (pointer_codec bill_discounts_codec) tbd_Discounts
        (\<lambda>v s. s\<lparr>tbd_Discounts := v\<rparr>)]
     \<lparr>tbd_BillID = [], tbd_BillDate = [], tbd_DueDate = [], tbd_BillStartDate = [], tbd_BillEndDate = [], tbd_TotalAmount = 0, tbd_OutstandingAmount = 0, tbd_RepaidAmount = 0, tbd_PrincipalAmount = 0, tbd_InterestAmount = 0, tbd_Status = [], tbd_RepaymentStatus = [], tbd_OverdueStatus = [], tbd_Discounts = None\<rparr>"

lemma trade_bill_detail_codec_ok [codec_laws]: "codec_ok trade_bill_detail_codec"
  unfolding trade_bill_detail_codec_def
  by (rule struct_codec_ok) (simp_all add: rebuild_tag codec_laws)

definition trade_refund_info_detail_codec :: "trade_refund_info_detail codec" where
  "trade_refund_info_detail_codec = struct_codec
     [tag ''refundRequestId'' False string_codec trid_RefundRequestID
        (\<lambda>v s. s\<lparr>trid_RefundRequestID := v\<rparr>),
      tag ''principalAmount'' False int64_codec trid_PrincipalAmount
        (\<lambda>v s. s\<lparr>trid_PrincipalAmount := v\<rparr>),
      tag ''discountAmount'' True int64_codec trid_DiscountAmount
        (\<lambda>v s. s\<lparr>trid_DiscountAmount := v\<rparr>),
      tag ''waivedInterestAmount'' True int64_codec trid_WaivedInterestAmount
        (\<lambda>v s. s\<lparr>trid_WaivedInterestAmount := v\<rparr>),
      tag ''availableCreditChange'' True int64_codec trid_AvailableCreditChange
        (\<lambda>v s. s\<lparr>trid_AvailableCreditChange := v\<rparr>),
      tag ''lateFeeAmountChange'' True int64_codec trid_LateFeeAmountChange
        (\<lambda>v s. s\<lparr>trid_LateFeeAmountChange := v\<rparr>),
      tag ''refundStatus'' True string_codec trid_RefundStatus
        (\<lambda>v s. s\<lparr>trid_RefundStatus := v\<rparr>),
      tag ''overpaidAmountChange'' True int64_codec trid_OverpaidAmountChange
        (\<lambda>v s. s\<lparr>trid_OverpaidAmountChange := v\<rparr>),
      tag ''event'' True string_codec trid_Event
        (\<lambda>v s. s\<lparr>trid_Event := v\<rparr>),
      tag ''createTime'' False int64_codec trid_CreateTime
        (\<lambda>v s. s\<lparr>trid_CreateTime := v\<rparr>)]
     \<lparr>trid_RefundRequestID = [], trid_PrincipalAmount = 0, trid_DiscountAmount = 0, trid_WaivedInterestAmount = 0, trid_AvailableCreditChange = 0, trid_LateFeeAmountChange = 0, trid_RefundStatus = [], trid_OverpaidAmountChange = 0, trid_Event = [], trid_CreateTime = 0\<rparr>"

lemma trade_refund_info_detail_codec_ok [codec_laws]: "codec_ok trade_refund_info_detail_codec"
  unfolding trade_refund_info_detail_codec_def
  by (rule struct_codec_ok) (simp_all add: rebuild_tag codec_laws)

definition trade_sub_order_detail_codec :: "trade_sub_order_detail codec" where
  "trade_sub_order_detail_codec = struct_codec
     [tag ''subOrderId'' True string_codec tsod_SubOrderID
        (\<lambda>v s. s\<lparr>tsod_SubOrderID := v\<rparr>),
      tag ''merchantId'' True string_codec tsod_MerchantID
        (\<lambda>v s. s\<lparr>tsod_MerchantID := v\<rparr>),
      tag ''merchantName'' True string_codec tsod_MerchantName
        (\<lambda>v s. s\<lparr>tsod_MerchantName := v\<rparr>),
      tag ''principalAmount'' False int64_codec tsod_PrincipalAmount
        (\<lambda>v s. s\<lparr>tsod_PrincipalAmount := v\<rparr>),
      tag ''interestAmount'' True int64_codec tsod_InterestAmount
        (\<lambda>v s. s\<lparr>tsod_InterestAmount := v\<rparr>),
      tag ''discountAmount'' True int64_codec tsod_DiscountAmount
        (\<lambda>v s. s\<lparr>tsod_DiscountAmount := v\<rparr>),
      tag ''billOrderDetails'' True (slice_codec trade_bill_detail_codec) tsod_BillOrderDetails
        (\<lambda>v s. s\<lparr>tsod_BillOrderDetails := v\<rparr>),
      tag ''refundInfo'' True (slice_codec trade_refund_info_detail_codec) tsod_RefundInfo
        (\<lambda>v s. s\<lparr>tsod_RefundInfo := v\<rparr>)]
     \<lparr>tsod_SubOrderID = [], tsod_MerchantID = [], tsod_MerchantName = [], tsod_PrincipalAmount = 0, tsod_InterestAmount = 0, tsod_DiscountAmount = 0, tsod_BillOrderDetails = [], tsod_RefundInfo = []\<rparr>"

lemma trade_sub_order_detail_codec_ok [codec_laws]: "codec_ok trade_sub_order_detail_codec"
  unfolding trade_sub_order_detail_codec_def
  by (rule struct_codec_ok) (simp_all add: rebuild_tag codec_laws)

definition payment_transaction_extend_info_codec :: "payment_transaction_extend_info codec" where
  "payment_transaction_extend_info_codec = struct_codec
     [tag ''agreement'' True (pointer_codec agreement_ref_codec) ptei_Agreement
        (\<lambda>v s. s\<lparr>ptei_Agreement := v\<rparr>)]
     \<lparr>ptei_Agreement = None\<rparr>"

lemma payment_transaction_extend_info_codec_ok [codec_laws]: "codec_ok payment_transaction_extend_info_codec"
  unfolding payment_transaction_extend_info_codec_def
  by (rule struct_codec_ok) (simp_all add: rebuild_tag codec_laws)

definition trade_payment_info_detail_codec :: "trade_payment_info_detail codec" where
  "trade_payment_info_detail_codec = struct_codec
     [tag ''captureRequestId'' False string_codec tpid_CaptureRequestID
        (\<lambda>v s. s\<lparr>tpid_CaptureRequestID := v\<rparr>),
      tag ''orderId'' False string_codec tpid_OrderID
        (\<lambda>v s. s\<lparr>tpid_OrderID := v\<rparr>),
      tag ''orderType'' False string_codec tpid_OrderType
        (\<lambda>v s. s\<lparr>tpid_OrderType := v\<rparr>),
      tag ''totalTenor'' True int_codec tpid_TotalTenor
        (\<lambda>v s. s\<lparr>tpid_TotalTenor := v\<rparr>),
      tag ''createTime'' False int64_codec tpid_CreateTime
        (\<lambda>v s. s\<lparr>tpid_CreateTime := v\<rparr>),
      tag ''principalAmount'' False int64_codec tpid_PrincipalAmount
        (\<lambda>v s. s\<lparr>tpid_PrincipalAmount := v\<rparr>),
      tag ''interestAmount'' True int64_codec tpid_InterestAmount
        (\<lambda>v s. s\<lparr>tpid_InterestAmount := v\<rparr>),
      tag ''discountAmount'' True int64_codec tpid_DiscountAmount
        (\<lambda>v s. s\<lparr>tpid_DiscountAmount := v\<rparr>),
      tag ''subOrders'' True (slice_codec trade_sub_order_detail_codec) tpid_SubOrders
        (\<lambda>v s. s\<lparr>tpid_SubOrders := v\<rparr>),
      tag ''extendInfo'' True (pointer_codec payment_transaction_extend_info_codec) tpid_ExtendInfo
        (\<lambda>v s. s\<lparr>tpid_ExtendInfo := v\<rparr>)]
     \<lparr>tpid_CaptureRequestID = [], tpid_OrderID = [], tpid_OrderType = [], tpid_TotalTenor = 0, tpid_CreateTime = 0, tpid_PrincipalAmount = 0, tpid_InterestAmount = 0, tpid_DiscountAmount = 0, tpid_SubOrders = [], tpid_ExtendInfo = None\<rparr>"

lemma trade_payment_info_detail_codec_ok [codec_laws]: "codec_ok trade_payment_info_detail_codec"
  unfolding trade_payment_info_detail_codec_def
  by (rule struct_codec_ok) (simp_all add: rebuild_tag codec_laws)

definition refund_info_detail_codec :: "refund_info_detail codec" where
  "refund_info_detail_codec = struct_codec
     [tag ''refundRequestId'' False string_codec rid_RefundRequestID
        (\<lambda>v s. s\<lparr>rid_RefundRequestID := v\<rparr>),
      tag ''paymentRequestId'' False string_codec rid_PaymentRequestID
        (\<lambda>v s. s\<lparr>rid_PaymentRequestID := v\<rparr>),
      tag ''refundAmount'' False int64_codec rid_RefundAmount
        (\<lambda>v s. s\<lparr>rid_RefundAmount := v\<rparr>),
      tag ''refundDiscountAmount'' True int64_codec rid_RefundDiscountAmount
        (\<lambda>v s. s\<lparr>rid_RefundDiscountAmount := v\<rparr>),
      tag ''waivedInterestAmount'' True int64_codec rid_WaivedInterestAmount
        (\<lambda>v s. s\<lparr>rid_WaivedInterestAmount := v\<rparr>),
      tag ''lateFeeAmountChange'' True int64_codec rid_LateFeeAmountChange
        (\<lambda>v s. s\<lparr>rid_LateFeeAmountChange := v\<rparr>),
      tag ''availableCreditChange'' True int64_codec rid_AvailableCreditChange
        (\<lambda>v s. s\<lparr>rid_AvailableCreditChange := v\<rparr>),
      tag ''overpaidAmountChange'' True int64_codec rid_OverpaidAmountChange
        (\<lambda>v s. s\<lparr>rid_OverpaidAmountChange := v\<rparr>),
      tag ''refundType'' False string_codec rid_RefundType
        (\<lambda>v s. s\<lparr>rid_RefundType := v\<rparr>),
      tag ''createTime'' False int64_codec rid_CreateTime
        (\<lambda>v s. s\<lparr>rid_CreateTime := v\<rparr>),
      tag ''subOrders'' True (slice_codec trade_refund_sub_order_codec) rid_SubOrders
        (\<lambda>v s. s\<lparr>rid_SubOrders := v\<rparr>)]
     \<lparr>rid_RefundRequestID = [], rid_PaymentRequestID = [], rid_RefundAmount = 0, rid_RefundDiscountAmount = 0, rid_WaivedInterestAmount = 0, rid_LateFeeAmountChange = 0, rid_AvailableCreditChange = 0, rid_OverpaidAmountChange = 0, rid_RefundType = [], rid_CreateTime = 0, rid_SubOrders = []\<rparr>"

lemma refund_info_detail_codec_ok [codec_laws]: "codec_ok refund_info_detail_codec"
  unfolding refund_info_detail_codec_def
  by (rule struct_codec_ok) (simp_all add: rebuild_tag codec_laws)

definition trade_detail_repayment_detail_codec :: "trade_detail_repayment_detail codec" where
  "trade_detail_repayment_detail_codec = struct_codec
     [tag ''billId'' False string_codec tdrd_BillID
        (\<lambda>v s. s\<lparr>tdrd_BillID := v\<rparr>),
      tag ''dueDate'' False string_codec tdrd_DueDate
        (\<lambda>v s. s\<lparr>tdrd_DueDate := v\<rparr>),
      tag ''billStartDate'' False string_codec tdrd_BillStartDate
        (\<lambda>v s. s\<lparr>tdrd_BillStartDate := v\<rparr>),
      tag ''billEndDate'' False string_codec tdrd_BillEndDate
        (\<lambda>v s. s\<lparr>tdrd_BillEndDate := v\<rparr>),
      tag ''repaymentAmount'' False int64_codec tdrd_RepaymentAmount
        (\<lambda>v s. s\<lparr>tdrd_RepaymentAmount := v\<rparr>),
      tag ''repaidPrincipalAmount'' True int64_codec tdrd_RepaidPrincipalAmount
        (\<lambda>v s. s\<lparr>tdrd_RepaidPrincipalAmount := v\<rparr>),
      tag ''repaidInterestAmount'' True int64_codec tdrd_RepaidInterestAmount
        (\<lambda>v s. s\<lparr>tdrd_RepaidInterestAmount := v\<rparr>)]
     \<lparr>tdrd_BillID = [], tdrd_DueDate = [], tdrd_BillStartDate = [], tdrd_BillEndDate = [], tdrd_RepaymentAmount = 0, tdrd_RepaidPrincipalAmount = 0, tdrd_RepaidInterestAmount = 0\<rparr>"

lemma trade_detail_repayment_detail_codec_ok [codec_laws]: "codec_ok trade_detail_repayment_detail_codec"
  unfolding trade_detail_repayment_detail_codec_def
  by (rule struct_codec_ok) (simp_all add: rebuild_tag codec_laws)

definition trade_repayment_info_detail_codec :: "trade_repayment_info_detail codec" where
  "trade_repayment_info_detail_codec = struct_codec
     [tag ''repaymentRequestId'' False string_codec trpid_RepaymentRequestID
        (\<lambda>v s. s\<lparr>trpid_RepaymentRequestID := v\<rparr>),
      tag ''repaymentAmount'' False int64_codec trpid_RepaymentAmount
        (\<lambda>v s. s\<lparr>trpid_RepaymentAmount := v\<rparr>),
      tag ''overpaidAmountChange'' True int64_codec trpid_OverpaidAmountChange
        (\<lambda>v s. s\<lparr>trpid_OverpaidAmountChange := v\<rparr>),
      tag ''lateFeeAmountChange'' True int64_codec trpid_LateFeeAmountChange
        (\<lambda>v s. s\<lparr>trpid_LateFeeAmountChange := v\<rparr>),
      tag ''event'' False string_codec trpid_Event
        (\<lambda>v s. s\<lparr>trpid_Event := v\<rparr>),
      tag ''createTime'' False int64_codec trpid_CreateTime
        (\<lambda>v s. s\<lparr>trpid_CreateTime := v\<rparr>),
      tag ''repaymentDetails'' True (slice_codec trade_detail_repayment_detail_codec) trpid_RepaymentDetails
        (\<lambda>v s. s\<lparr>trpid_RepaymentDetails := v\<rparr>)]
     \<lparr>trpid_RepaymentRequestID = [], trpid_RepaymentAmount = 0, trpid_OverpaidAmountChange = 0, trpid_LateFeeAmountChange = 0, trpid_Event = [], trpid_CreateTime = 0, trpid_RepaymentDetails = []\<rparr>"

lemma trade_repayment_info_detail_codec_ok [codec_laws]: "codec_ok trade_repayment_info_detail_codec"
  unfolding trade_repayment_info_detail_codec_def
  by (rule struct_codec_ok) (simp_all add: rebuild_tag codec_laws)

definition trade_detail_codec :: "trade_detail codec" where
  "trade_detail_codec = struct_codec
     [tag ''currency'' False string_codec td_Currency
        (\<lambda>v s. s\<lparr>td_Currency := v\<rparr>),
      tag ''paymentInfo'' True (pointer_codec trade_payment_info_detail_codec) td_PaymentInfo
        (\<lambda>v s. s\<lparr>td_PaymentInfo := v\<rparr>),
      tag ''refundInfo'' True (pointer_codec refund_info_detail_codec) td_RefundInfo
        (\<lambda>v s. s\<lparr>td_RefundInfo := v\<rparr>),
      tag ''repaymentInfo'' True (pointer_codec trade_repayment_info_detail_codec) td_RepaymentInfo
        (\<lambda>v s. s\<lparr>td_RepaymentInfo := v\<rparr>)]
     \<lparr>td_Currency = [], td_PaymentInfo = None, td_RefundInfo = None, td_RepaymentInfo = None\<rparr>"

lemma trade_detail_codec_ok [codec_laws]: "codec_ok trade_detail_codec"
  unfolding trade_detail_codec_def
  by (rule struct_codec_ok) (simp_all add: rebuild_tag codec_laws)

definition transaction_detail_response_codec :: "transaction_detail_response codec" where
  "transaction_detail_response_codec = struct_codec
     [tag ''code'' False string_codec tdrsp_Code
        (\<lambda>v s. s\<lparr>tdrsp_Code := v\<rparr>),
      tag ''message'' False string_codec tdrsp_Message
        (\<lambda>v s. s\<lparr>tdrsp_Message := v\<rparr>),
      tag ''data'' True (pointer_codec trade_detail_codec) tdrsp_Data
        (\<lambda>v s. s\<lparr>tdrsp_Data := v\<rparr>)]
     \<lparr>tdrsp_Code = [], tdrsp_Message = [], tdrsp_Data = None\<rparr>"

lemma transaction_detail_response_codec_ok [codec_laws]: "codec_ok transaction_detail_response_codec"
  unfolding transaction_detail_response_codec_def
  by (rule struct_codec_ok) (simp_all add: rebuild_tag codec_laws)

section \<open>atomefin/virtualaccount\<close>

definition virtual_account_request_codec :: "virtual_account_request codec" where
  "virtual_account_request_codec = struct_codec
     [tag ''externalReferenceUid'' False string_codec vaq_ExternalReferenceUID
        (\<lambda>v s. s\<lparr>vaq_ExternalReferenceUID := v\<rparr>),
      tag ''bankCode'' False string_codec vaq_BankCode
        (\<lambda>v s. s\<lparr>vaq_BankCode := v\<rparr>)]
     \<lparr>vaq_ExternalReferenceUID = [], vaq_BankCode = []\<rparr>"

lemma virtual_account_request_codec_ok [codec_laws]: "codec_ok virtual_account_request_codec"
  unfolding virtual_account_request_codec_def
  by (rule struct_codec_ok) (simp_all add: rebuild_tag codec_laws)

definition virtual_account_codec :: "virtual_account codec" where
  "virtual_account_codec = struct_codec
     [tag ''vaNumber'' False string_codec vac_VANumber
        (\<lambda>v s. s\<lparr>vac_VANumber := v\<rparr>),
      tag ''bankCode'' False string_codec vac_BankCode
        (\<lambda>v s. s\<lparr>vac_BankCode := v\<rparr>),
      tag ''createTime'' True int64_codec vac_CreateTime
        (\<lambda>v s. s\<lparr>vac_CreateTime := v\<rparr>)]
     \<lparr>vac_VANumber = [], vac_BankCode = [], vac_CreateTime = 0\<rparr>"

lemma virtual_account_codec_ok [codec_laws]: "codec_ok virtual_account_codec"
  unfolding virtual_account_codec_def
  by (rule struct_codec_ok) (simp_all add: rebuild_tag codec_laws)

definition virtual_account_list_response_codec :: "virtual_account_list_response codec" where
  "virtual_account_list_response_codec = struct_codec
     [tag ''code'' False string_codec valr_Code
        (\<lambda>v s. s\<lparr>valr_Code := v\<rparr>),
      tag ''message'' False string_codec valr_Message
        (\<lambda>v s. s\<lparr>valr_Message := v\<rparr>),
      tag ''data'' False (slice_codec string_codec) valr_Data
        (\<lambda>v s. s\<lparr>valr_Data := v\<rparr>)]
     \<lparr>valr_Code = [], valr_Message = [], valr_Data = []\<rparr>"

lemma virtual_account_list_response_codec_ok [codec_laws]: "codec_ok virtual_account_list_response_codec"
  unfolding virtual_account_list_response_codec_def
  by (rule struct_codec_ok) (simp_all add: rebuild_tag codec_laws)

definition virtual_account_response_codec :: "virtual_account_response codec" where
  "virtual_account_response_codec = struct_codec
     [tag ''code'' False string_codec vars_Code
        (\<lambda>v s. s\<lparr>vars_Code := v\<rparr>),
      tag ''message'' False string_codec vars_Message
        (\<lambda>v s. s\<lparr>vars_Message := v\<rparr>),
      tag ''data'' False (pointer_codec virtual_account_codec) vars_Data
        (\<lambda>v s. s\<lparr>vars_Data := v\<rparr>)]
     \<lparr>vars_Code = [], vars_Message = [], vars_Data = None\<rparr>"

lemma virtual_account_response_codec_ok [codec_laws]: "codec_ok virtual_account_response_codec"
  unfolding virtual_account_response_codec_def
  by (rule struct_codec_ok) (simp_all add: rebuild_tag codec_laws)

end
