(* ===== verification/Credit_Service.thy ===== *)
theory Credit_Service
  imports Credit_Types Commerce_Service
begin

text \<open>
  atomefin/credit: the validators of validation.go, the query builder, and the calls of
  credit.go.  The calls of three endpoints (user tag, credit information, credit application) go
  through DoEncryptedSigned; their result is None while the draws given for the AES key do not complete it.
\<close>

section \<open>Validation\<close>

definition maxRequestID :: nat where "maxRequestID = 64"
definition maxExternalReferenceUID :: nat where "maxExternalReferenceUID = 64"
definition maxEmail :: nat where "maxEmail = 64"

definition validateCreditApplication :: "credit_application_param \<Rightarrow> go_error option" where
  "validateCreditApplication req = first_error
     [fail_if (cap_RequestID req = []) (invalid ''requestId'' ''required''),
      fail_if (length (cap_RequestID req) > maxRequestID) (invalid ''requestId'' ''exceeds spec maxlength 64''),
      fail_if (cap_ExternalReferenceUID req = []) (invalid ''externalReferenceUid'' ''required''),
      fail_if (length (cap_ExternalReferenceUID req) > maxExternalReferenceUID)
        (invalid ''externalReferenceUid'' ''exceeds spec maxlength 64''),
      fail_if (cap_MobileNumber req = []) (invalid ''mobileNumber'' ''required''),
      fail_if (cap_Email req = []) (invalid ''email'' ''required''),
      fail_if (length (cap_Email req) > maxEmail) (invalid ''email'' ''exceeds spec maxlength 64''),
      fail_if (cap_Country req = []) (invalid ''country'' ''required''),
      fail_if (\<not> Country_IsValid (cap_Country req)) (invalid ''country'' ''only ID is currently supported by the spec''),
      with_present (cap_ExtendInfo req) (invalid ''extendInfo'' ''required (carries creditInformationRequestId)'') (\<lambda>info.
        first_error
          [fail_if (caei_CreditInformationRequestID info = []) (invalid ''extendInfo.creditInformationRequestId''
             ''required (the requestId from the prior /credit-information call)''),
           fail_if (length (caei_CreditInformationRequestID info) > maxRequestID)
             (invalid ''extendInfo.creditInformationRequestId'' ''exceeds spec maxlength 64'')])]"

definition validateCreditApplicationChange :: "credit_application_change_param \<Rightarrow> go_error option" where
  "validateCreditApplicationChange req = first_error
     [fail_if (cacp_RequestID req = []) (invalid ''requestId'' ''required''),
      fail_if (length (cacp_RequestID req) > maxRequestID) (invalid ''requestId'' ''exceeds spec maxlength 64''),
      fail_if (cacp_ExternalReferenceUID req = []) (invalid ''externalReferenceUid'' ''required''),
      fail_if (length (cacp_ExternalReferenceUID req) > maxExternalReferenceUID)
        (invalid ''externalReferenceUid'' ''exceeds spec maxlength 64''),
      fail_if (cacp_MobileNumber req = []) (invalid ''mobileNumber''
        (''required (per spec '' @ [CHR 0xE2, CHR 0x80, CHR 0x94] @ '' the modify endpoint always carries the new mobile)'')),
      fail_if (cacp_Email req \<noteq> [] \<and> length (cacp_Email req) > maxEmail) (invalid ''email'' ''exceeds spec maxlength 64''),
      (case cacp_ExtendInfo req of None \<Rightarrow> None
       | Some info \<Rightarrow> fail_if (cacei_Language info \<noteq> [] \<and> \<not> Language_IsValid (cacei_Language info))
           (invalid ''extendInfo.language'' ''must be one of en | id''))]"

definition validateCloseAccount :: "close_account_param \<Rightarrow> go_error option" where
  "validateCloseAccount req = first_error
     [fail_if (clap_RequestID req = []) (invalid ''requestId'' ''required''),
      fail_if (length (clap_RequestID req) > maxRequestID) (invalid ''requestId'' ''exceeds spec maxlength 64''),
      fail_if (clap_ExternalReferenceUID req = []) (invalid ''externalReferenceUid'' ''required''),
      fail_if (length (clap_ExternalReferenceUID req) > maxExternalReferenceUID)
        (invalid ''externalReferenceUid'' ''exceeds spec maxlength 64'')]"

definition validateBalanceHistoryParams :: "balance_history_params \<Rightarrow> go_error option" where
  "validateBalanceHistoryParams p = first_error
     [fail_if (bhp_ExternalReferenceUID p = []) (invalid ''externalReferenceUid'' ''required''),
      fail_if (length (bhp_ExternalReferenceUID p) > maxExternalReferenceUID)
        (invalid ''externalReferenceUid'' ''exceeds spec maxlength 64''),
      fail_if (bhp_Type p = []) (invalid ''type'' ''required''),
      fail_if (\<not> BalanceHistoryType_IsValid (bhp_Type p)) (invalid ''type''
        ''must be one of OVERPAID_CHANGE | CREDIT_LIMIT_ADJUSTMENT | TRADE_AVAILABLE_CREDIT_CHANGE''),
      fail_if (bhp_RequestID p \<noteq> [] \<and> length (bhp_RequestID p) > maxRequestID)
        (invalid ''requestId'' ''exceeds spec maxlength 64''),
      fail_if (bhp_Start p < 0) (invalid ''start'' (''must be >= 0 (0 '' @ [CHR 0xE2, CHR 0x86, CHR 0x92] @ '' default 1)'')),
      fail_if (bhp_Count p < 0) (invalid ''count'' (''must be >= 0 (0 '' @ [CHR 0xE2, CHR 0x86, CHR 0x92] @ '' default 10)'')),
      fail_if (bhp_Count p > 50) (invalid ''count'' ''exceeds spec server cap of 50'')]"

definition buildBalanceHistoryQuery :: "balance_history_params \<Rightarrow> url_values" where
  "buildBalanceHistoryQuery p =
     (let q = values_set ''externalReferenceUid'' (bhp_ExternalReferenceUID p) [];
          q = values_set ''type'' (bhp_Type p) q;
          q = (if bhp_RequestID p \<noteq> [] then values_set ''requestId'' (bhp_RequestID p) q else q);
          start = (if bhp_Start p \<le> 0 then 1 else bhp_Start p);
          q = values_set ''start'' (itoa start) q;
          cnt = (if bhp_Count p \<le> 0 then 10 else bhp_Count p)
      in values_set ''count'' (itoa cnt) q)"

section \<open>The service\<close>

definition credit_New :: "client option \<Rightarrow> service" where
  "credit_New c = (case c of None \<Rightarrow> None | Some x \<Rightarrow> Some (Some x))"

definition credit_Client :: "service \<Rightarrow> client option" where
  "credit_Client s = (case s of None \<Rightarrow> None | Some c \<Rightarrow> c)"

definition credit_checkConfigured :: "service \<Rightarrow> go_error option" where
  "credit_checkConfigured = check_service ''credit''"

text \<open>What the encrypted calls need of the libraries: the block cipher, RSA encryption and the random draws.\<close>

record crypto_env =
  ce_cipher :: block_cipher
  ce_rsa_encrypt :: "rsa_key \<Rightarrow> bytes \<Rightarrow> go_error + bytes"
  ce_draws :: "(go_error + char) list"

definition invokePost ::
  "service \<Rightarrow> world \<Rightarrow> string \<Rightarrow> go_error + bytes \<Rightarrow> (bytes \<Rightarrow> go_error + 'r) \<Rightarrow> event list \<times> (go_error + 'r)" where
  "invokePost s w op in_json unmarshal =
     (case in_json of
        Inl err \<Rightarrow> ([], Inl (SignatureError ''marshal'' (Some err)))
      | Inr body \<Rightarrow> decode_response unmarshal op (DoSigned (service_Client s) w ''POST'' op body []))"

definition invokeEncryptedPost ::
  "crypto_env \<Rightarrow> service \<Rightarrow> world \<Rightarrow> string \<Rightarrow> go_error + bytes \<Rightarrow> (bytes \<Rightarrow> go_error + 'r) \<Rightarrow>
   (event list \<times> (go_error + 'r)) option" where
  "invokeEncryptedPost ce s w op in_json unmarshal =
     (case in_json of
        Inl err \<Rightarrow> Some ([], Inl (SignatureError ''marshal'' (Some err)))
      | Inr body \<Rightarrow> map_option (decode_response unmarshal op)
          (DoEncryptedSigned (ce_cipher ce) (ce_rsa_encrypt ce) (ce_draws ce) (service_Client s) w ''POST'' op body []))"

definition invokeGet ::
  "service \<Rightarrow> world \<Rightarrow> string \<Rightarrow> url_values \<Rightarrow> (bytes \<Rightarrow> go_error + 'r) \<Rightarrow> event list \<times> (go_error + 'r)" where
  "invokeGet s w op q unmarshal = decode_response unmarshal op (DoSignedGET (service_Client s) w op q [])"

section \<open>Encrypted calls\<close>

definition QueryUserTag ::
  "crypto_env \<Rightarrow> service \<Rightarrow> world \<Rightarrow> string \<Rightarrow> (query_user_tag_param \<Rightarrow> go_error + bytes) \<Rightarrow>
   (bytes \<Rightarrow> go_error + query_user_tag_response) \<Rightarrow> query_user_tag_param option \<Rightarrow>
   query_user_tag_param option \<times> (event list \<times> (go_error + query_user_tag_response)) option" where
  "QueryUserTag ce s w newID marshal unmarshal reqp =
     (case credit_checkConfigured s of
        Some err \<Rightarrow> (reqp, Some ([], Inl err))
      | None \<Rightarrow>
          (case reqp of
             None \<Rightarrow> (None, Some ([], Inl (ValidationError ''request'' ''nil QueryUserTagParam'')))
           | Some req0 \<Rightarrow>
               let req = (if qutp_RequestID req0 = [] then req0\<lparr>qutp_RequestID := newID\<rparr> else req0) in
               (Some req, invokeEncryptedPost ce s w ''/query-user-tag'' (marshal req) unmarshal)))"

definition GetUserTag ::
  "crypto_env \<Rightarrow> service \<Rightarrow> world \<Rightarrow> string \<Rightarrow> (query_user_tag_param \<Rightarrow> go_error + bytes) \<Rightarrow>
   (bytes \<Rightarrow> go_error + query_user_tag_response) \<Rightarrow> query_user_tag_param option \<Rightarrow>
   query_user_tag_param option \<times> (event list \<times> (go_error + query_user_tag_response)) option" where
  "GetUserTag ce s w newID marshal unmarshal reqp = QueryUserTag ce s w newID marshal unmarshal reqp"

definition SubmitInformation ::
  "crypto_env \<Rightarrow> service \<Rightarrow> world \<Rightarrow> string \<Rightarrow> (credit_information_param \<Rightarrow> go_error + bytes) \<Rightarrow>
   (bytes \<Rightarrow> go_error + credit_information_response) \<Rightarrow> credit_information_param option \<Rightarrow>
   credit_information_param option \<times> (event list \<times> (go_error + credit_information_response)) option" where
  "SubmitInformation ce s w newID marshal unmarshal reqp =
     (case credit_checkConfigured s of
        Some err \<Rightarrow> (reqp, Some ([], Inl err))
      | None \<Rightarrow>
          (case reqp of
             None \<Rightarrow> (None, Some ([], Inl (ValidationError ''request'' ''nil CreditInformationParam'')))
           | Some req0 \<Rightarrow>
               let req = (if cinp_RequestID req0 = [] then req0\<lparr>cinp_RequestID := newID\<rparr> else req0) in
               (Some req, invokeEncryptedPost ce s w ''/credit-information'' (marshal req) unmarshal)))"

definition SubmitApplication ::
  "crypto_env \<Rightarrow> service \<Rightarrow> world \<Rightarrow> string \<Rightarrow> (credit_application_param \<Rightarrow> go_error + bytes) \<Rightarrow>
   (bytes \<Rightarrow> go_error + credit_application_response) \<Rightarrow> credit_application_param option \<Rightarrow>
   credit_application_param option \<times> (event list \<times> (go_error + credit_application_response)) option" where
  "SubmitApplication ce s w newID marshal unmarshal reqp =
     (case credit_checkConfigured s of
        Some err \<Rightarrow> (reqp, Some ([], Inl err))
      | None \<Rightarrow>
          (case reqp of
             None \<Rightarrow> (None, Some ([], Inl (ValidationError ''request'' ''nil CreditApplicationParam'')))
           | Some req0 \<Rightarrow>
               let req = (if cap_RequestID req0 = [] then req0\<lparr>cap_RequestID := newID\<rparr> else req0) in
               (case validateCreditApplication req of
                  Some err \<Rightarrow> (Some req, Some ([], Inl err))
                | None \<Rightarrow> (Some req, invokeEncryptedPost ce s w ''/credit-application'' (marshal req) unmarshal))))"

section \<open>Plain calls\<close>

definition ModifyApplicationInfo ::
  "service \<Rightarrow> world \<Rightarrow> string \<Rightarrow> (credit_application_change_param \<Rightarrow> go_error + bytes) \<Rightarrow>
   (bytes \<Rightarrow> go_error + modify_application_info_response) \<Rightarrow> credit_application_change_param option \<Rightarrow>
   credit_application_change_param option \<times> event list \<times> (go_error + modify_application_info_response)" where
  "ModifyApplicationInfo s w newID marshal unmarshal reqp =
     (case credit_checkConfigured s of
        Some err \<Rightarrow> (reqp, [], Inl err)
      | None \<Rightarrow>
          (case reqp of
             None \<Rightarrow> (None, [], Inl (ValidationError ''request'' ''nil CreditApplicationChangeParam''))
           | Some req0 \<Rightarrow>
               let req = (if cacp_RequestID req0 = [] then req0\<lparr>cacp_RequestID := newID\<rparr> else req0) in
               (case validateCreditApplicationChange req of
                  Some err \<Rightarrow> (Some req, [], Inl err)
                | None \<Rightarrow> (Some req, invokePost s w ''/modify-application-info'' (marshal req) unmarshal))))"

definition CloseAccount ::
  "service \<Rightarrow> world \<Rightarrow> string \<Rightarrow> (close_account_param \<Rightarrow> go_error + bytes) \<Rightarrow>
   (bytes \<Rightarrow> go_error + close_account_response) \<Rightarrow> close_account_param option \<Rightarrow>
   close_account_param option \<times> event list \<times> (go_error + close_account_response)" where
  "CloseAccount s w newID marshal unmarshal reqp =
     (case credit_checkConfigured s of
        Some err \<Rightarrow> (reqp, [], Inl err)
      | None \<Rightarrow>
          (case reqp of
             None \<Rightarrow> (None, [], Inl (ValidationError ''request'' ''nil CloseAccountParam''))
           | Some req0 \<Rightarrow>
               let req = (if clap_RequestID req0 = [] then req0\<lparr>clap_RequestID := newID\<rparr> else req0) in
               (case validateCloseAccount req of
                  Some err \<Rightarrow> (Some req, [], Inl err)
                | None \<Rightarrow> (Some req, invokePost s w ''/close-account'' (marshal req) unmarshal))))"

definition QueryResult ::
  "service \<Rightarrow> world \<Rightarrow> (bytes \<Rightarrow> go_error + credit_application_response) \<Rightarrow> string \<Rightarrow>
   event list \<times> (go_error + credit_application_response)" where
  "QueryResult s w unmarshal externalReferenceUID =
     (case first_error
        [credit_checkConfigured s,
         fail_if (externalReferenceUID = []) (invalid ''externalReferenceUid'' ''required''),
         fail_if (length externalReferenceUID > 64) (invalid ''externalReferenceUid'' ''exceeds spec maxlength 64'')] of
        Some err \<Rightarrow> ([], Inl err)
      | None \<Rightarrow> invokeGet s w ''/credit-result'' [(''externalReferenceUid'', [externalReferenceUID])] unmarshal)"

definition QueryInformationResult ::
  "service \<Rightarrow> world \<Rightarrow> (bytes \<Rightarrow> go_error + credit_information_collect_response) \<Rightarrow> string \<Rightarrow> string \<Rightarrow>
   event list \<times> (go_error + credit_information_collect_response)" where
  "QueryInformationResult s w unmarshal externalReferenceUID requestID =
     (case first_error
        [credit_checkConfigured s,
         fail_if (externalReferenceUID = []) (invalid ''externalReferenceUid'' ''required''),
         fail_if (length externalReferenceUID > 64) (invalid ''externalReferenceUid'' ''exceeds spec maxlength 64''),
         fail_if (requestID = []) (invalid ''requestId'' ''required (the requestId from the prior /credit-information submission)''),
         fail_if (length requestID > 64) (invalid ''requestId'' ''exceeds spec maxlength 64'')] of
        Some err \<Rightarrow> ([], Inl err)
      | None \<Rightarrow> invokeGet s w ''/credit-information-result''
          [(''externalReferenceUid'', [externalReferenceUID]), (''requestId'', [requestID])] unmarshal)"

definition BalanceHistory ::
  "service \<Rightarrow> world \<Rightarrow> (bytes \<Rightarrow> go_error + balance_history_response) \<Rightarrow> balance_history_params option \<Rightarrow>
   event list \<times> (go_error + balance_history_response)" where
  "BalanceHistory s w unmarshal pp =
     (case credit_checkConfigured s of
        Some err \<Rightarrow> ([], Inl err)
      | None \<Rightarrow>
          (case pp of
             None \<Rightarrow> ([], Inl (ValidationError ''request'' ''nil BalanceHistoryParams''))
           | Some params \<Rightarrow>
               (case validateBalanceHistoryParams params of
                  Some err \<Rightarrow> ([], Inl err)
                | None \<Rightarrow> invokeGet s w ''/query-balance-history'' (buildBalanceHistoryQuery params) unmarshal)))"

section \<open>Response classes\<close>

definition QueryUserTagResponse_IsSuccess :: "query_user_tag_response option \<Rightarrow> bool" where
  "QueryUserTagResponse_IsSuccess r = (case r of None \<Rightarrow> False | Some x \<Rightarrow> qutrsp_Code x = CodeSuccess)"

definition CreditInformationResponse_IsSuccess :: "credit_information_response option \<Rightarrow> bool" where
  "CreditInformationResponse_IsSuccess r = (case r of None \<Rightarrow> False | Some x \<Rightarrow> cirsp_Code x = CodeSuccess)"

definition CreditInformationResponse_IsTerminal :: "credit_information_response option \<Rightarrow> bool" where
  "CreditInformationResponse_IsTerminal r = (case r of None \<Rightarrow> False | Some x \<Rightarrow>
     (case cirsp_Data x of None \<Rightarrow> False | Some d \<Rightarrow> CreditStatus_IsTerminal (cirs_Status d)))"

definition CreditApplicationResponse_IsSuccess :: "credit_application_response option \<Rightarrow> bool" where
  "CreditApplicationResponse_IsSuccess r = (case r of None \<Rightarrow> False | Some x \<Rightarrow> carsp_Code x = CodeSuccess)"

definition CreditApplicationResponse_IsTerminal :: "credit_application_response option \<Rightarrow> bool" where
  "CreditApplicationResponse_IsTerminal r = (case r of None \<Rightarrow> False | Some x \<Rightarrow>
     (case carsp_Data x of None \<Rightarrow> False | Some d \<Rightarrow> CreditStatus_IsTerminal (cars_Status d)))"

definition CreditApplicationResponse_IsProcessing :: "credit_application_response option \<Rightarrow> bool" where
  "CreditApplicationResponse_IsProcessing r = (case r of None \<Rightarrow> False | Some x \<Rightarrow>
     (case carsp_Data x of None \<Rightarrow> False | Some d \<Rightarrow> cars_Status d = ''PROCESSING''))"

definition CreditInformationCollectResponse_IsSuccess :: "credit_information_collect_response option \<Rightarrow> bool" where
  "CreditInformationCollectResponse_IsSuccess r = (case r of None \<Rightarrow> False | Some x \<Rightarrow> cicr_Code x = CodeSuccess)"

definition CreditInformationCollectResponse_IsTerminal :: "credit_information_collect_response option \<Rightarrow> bool" where
  "CreditInformationCollectResponse_IsTerminal r = (case r of None \<Rightarrow> False | Some x \<Rightarrow>
     (case cicr_Data x of None \<Rightarrow> False | Some d \<Rightarrow> CreditStatus_IsTerminal (cacqr_Status d)))"

definition BalanceHistoryResponse_IsSuccess :: "balance_history_response option \<Rightarrow> bool" where
  "BalanceHistoryResponse_IsSuccess r = (case r of None \<Rightarrow> False | Some x \<Rightarrow> bhrsp_Code x = CodeSuccess)"

definition ModifyApplicationInfoResponse_IsSuccess :: "modify_application_info_response option \<Rightarrow> bool" where
  "ModifyApplicationInfoResponse_IsSuccess r = (case r of None \<Rightarrow> False | Some x \<Rightarrow> mair_Code x = CodeSuccess)"

definition CloseAccountResponse_IsSuccess :: "close_account_response option \<Rightarrow> bool" where
  "CloseAccountResponse_IsSuccess r = (case r of None \<Rightarrow> False | Some x \<Rightarrow> clar_Code x = CodeSuccess)"

section \<open>The contract of an encrypted call\<close>

text \<open>The plain submitting calls of the package are instances of the contract of Payment\_Service.\<close>

definition prepare_modify :: "string \<Rightarrow> credit_application_change_param \<Rightarrow> go_error option \<times> credit_application_change_param" where
  "prepare_modify i q = (let req = (if cacp_RequestID q = [] then q\<lparr>cacp_RequestID := i\<rparr> else q)
     in (validateCreditApplicationChange req, req))"

definition prepare_close :: "string \<Rightarrow> close_account_param \<Rightarrow> go_error option \<times> close_account_param" where
  "prepare_close i q = (let req = (if clap_RequestID q = [] then q\<lparr>clap_RequestID := i\<rparr> else q) in (validateCloseAccount req, req))"

lemma invokePost_eq: "invokePost s w op b u = marshal_and_send s w op b u []"
  by (simp add: invokePost_def marshal_and_send_def)

lemmas credit_call_defs = Let_def credit_checkConfigured_def check_service_None invokePost_eq

interpretation modify: idempotent_call credit_checkConfigured ModifyApplicationInfo prepare_modify "''/modify-application-info''"
    "\<lambda>q. []" cacp_RequestID
  by unfold_locales (auto simp: ModifyApplicationInfo_def prepare_modify_def credit_call_defs)

interpretation close_acct: idempotent_call credit_checkConfigured CloseAccount prepare_close "''/close-account''" "\<lambda>q. []"
    clap_RequestID
  by unfold_locales (auto simp: CloseAccount_def prepare_close_def credit_call_defs)

text \<open>The encrypted calls have the same shape, with the envelope in place of the plain body.\<close>

locale encrypted_call =
  fixes check :: "service \<Rightarrow> go_error option"
    and call :: "crypto_env \<Rightarrow> service \<Rightarrow> world \<Rightarrow> string \<Rightarrow> ('q \<Rightarrow> go_error + bytes) \<Rightarrow> (bytes \<Rightarrow> go_error + 'r) \<Rightarrow>
      'q option \<Rightarrow> 'q option \<times> (event list \<times> (go_error + 'r)) option"
    and prepare :: "string \<Rightarrow> 'q \<Rightarrow> go_error option \<times> 'q"
    and path :: string
  assumes configured: "check s = None \<Longrightarrow> \<exists>c. s = Some (Some c)"
    and unconfigured: "check s = Some e \<Longrightarrow> call ce s w i m u p = (p, Some ([], Inl e))"
    and nil_request: "check s = None \<Longrightarrow> \<exists>t. call ce s w i m u None = (None, Some ([], Inl (ValidationError ''request'' t)))"
    and refused: "check s = None \<Longrightarrow> prepare i q = (Some e, q') \<Longrightarrow> call ce s w i m u (Some q) = (Some q', Some ([], Inl e))"
    and accepted: "check s = None \<Longrightarrow> prepare i q = (None, q') \<Longrightarrow>
      call ce s w i m u (Some q) = (Some q', invokeEncryptedPost ce s w path (m q') u)"
begin

lemma sent_encrypted:
  assumes "call ce s w i m u p = (p', Some (evs, r))" "sent_requests evs \<noteq> []"
  obtains c q q' body r0 where "s = Some (Some c)" "p = Some q" "p' = Some q'" "prepare i q = (None, q')" "m q' = Inr body"
    "DoEncryptedSigned (ce_cipher ce) (ce_rsa_encrypt ce) (ce_draws ce) (Some c) w ''POST'' path body [] = Some (evs, r0)"
proof -
  have cfg: "check s = None"
    using assms unconfigured by (cases "check s") auto
  then obtain c where c: "s = Some (Some c)" using configured by blast
  obtain q where q: "p = Some q"
    using assms nil_request [OF cfg, of ce w i m u] by (cases p) auto
  obtain e q' where pr: "prepare i q = (e, q')" by fastforce
  have e: "e = None" using assms q pr refused [OF cfg] by (cases e) auto
  then have sent: "p' = Some q'" "invokeEncryptedPost ce s w path (m q') u = Some (evs, r)"
    using assms(1) q pr accepted [OF cfg, of i q q' ce w m u] by auto
  obtain body where body: "m q' = Inr body"
    using sent(2) assms(2) by (cases "m q'") (auto simp: invokeEncryptedPost_def)
  then obtain d where d: "DoEncryptedSigned (ce_cipher ce) (ce_rsa_encrypt ce) (ce_draws ce) (Some c) w ''POST'' path body [] = Some d"
    "decode_response u path d = (evs, r)"
    using sent(2) c by (auto simp: invokeEncryptedPost_def service_Client_def)
  have "fst d = evs" using decode_response_fst [of u path d] d(2) by simp
  then show thesis using that [OF c q sent(1) _ body, of "snd d"] pr e d(1) by (metis prod.collapse)
qed

end

definition prepare_tag :: "string \<Rightarrow> query_user_tag_param \<Rightarrow> go_error option \<times> query_user_tag_param" where
  "prepare_tag i q = (None, if qutp_RequestID q = [] then q\<lparr>qutp_RequestID := i\<rparr> else q)"

definition prepare_information :: "string \<Rightarrow> credit_information_param \<Rightarrow> go_error option \<times> credit_information_param" where
  "prepare_information i q = (None, if cinp_RequestID q = [] then q\<lparr>cinp_RequestID := i\<rparr> else q)"

definition prepare_application :: "string \<Rightarrow> credit_application_param \<Rightarrow> go_error option \<times> credit_application_param" where
  "prepare_application i q = (let req = (if cap_RequestID q = [] then q\<lparr>cap_RequestID := i\<rparr> else q)
     in (validateCreditApplication req, req))"

interpretation user_tag: encrypted_call credit_checkConfigured QueryUserTag prepare_tag "''/query-user-tag''"
  by unfold_locales (auto simp: QueryUserTag_def prepare_tag_def credit_call_defs)

interpretation information: encrypted_call credit_checkConfigured SubmitInformation prepare_information "''/credit-information''"
  by unfold_locales (auto simp: SubmitInformation_def prepare_information_def credit_call_defs)

interpretation application: encrypted_call credit_checkConfigured SubmitApplication prepare_application "''/credit-application''"
  by unfold_locales (auto simp: SubmitApplication_def prepare_application_def credit_call_defs)

section \<open>What an encrypted call sends\<close>

lemma encrypt_extra: "extra_headers [Some (WithRequestHeader EncryptHeaderName hdr)] [] = [(''Encrypt'', [hdr])]"
proof -
  have "CanonicalHeaderKey ''Encrypt'' = ''Encrypt''" by simp
  then show ?thesis by (simp add: WithRequestHeader_def EncryptHeaderName_def header_set_def)
qed

lemma encrypt_header: "header_get ''Encrypt'' (rq_header (finish_request c a [(''Encrypt'', [hdr])] req)) = hdr"
proof -
  have k: "CanonicalHeaderKey ''Encrypt'' = ''Encrypt''" by simp
  then have "\<not> isReservedHeader ''Encrypt''" by (simp add: isReservedHeader_def)
  with k show ?thesis by (simp add: finish_request_def header_get_def update_conv')
qed

lemma DoEncryptedSigned_sends:
  assumes "DoEncryptedSigned B enc draws (Some c) w ''POST'' path plain [] = Some (evs, r)" "sent_requests evs \<noteq> []"
  obtains pub hdr rq where "encryptAtomePub c = Some pub" "Marshal B enc draws plain (Some pub) = Some (Inr (hdr, rq_body rq))"
    "header_get ''Encrypt'' (rq_header rq) = hdr" "signed_post c w path (rq_body rq) rq evs"
proof -
  from assms obtain pub where pub: "encryptAtomePub c = Some pub"
    by (cases "encryptAtomePub c") (auto simp: DoEncryptedSigned_def)
  have "\<not> bad_path path" using assms pub by (auto simp: DoEncryptedSigned_def)
  then obtain m where m: "Marshal B enc draws plain (Some pub) = Some m"
    using assms(1) pub by (auto simp: DoEncryptedSigned_def)
  obtain hdr b where hb: "m = Inr (hdr, b)"
    using assms m pub by (cases m) (auto simp: DoEncryptedSigned_def split: if_splits)
  have s: "signAndDispatch c w path (baseURL c @ path) b [(''Encrypt'', [hdr])] (post_request w ''POST'' (baseURL c @ path) b) = (evs, r)"
    using assms(1) pub m hb \<open>\<not> bad_path path\<close> encrypt_extra [of hdr] by (simp add: DoEncryptedSigned_def Let_def)
  let ?req = "\<lparr>rq_method = ''POST'', rq_url = baseURL c @ path, rq_query = [], rq_header = [], rq_body = b\<rparr>"
  have x: "canonical_keys [(''Encrypt'', [hdr])]" unfolding encrypt_extra [symmetric] by (rule canonical_keys_extra) simp
  show thesis
  proof (rule signAndDispatch_sent [OF s assms(2) attempt_sends_post])
    fix sig k
    let ?rq = "finish_request c (authScheme c sig (KeyID (signer c))) [(''Encrypt'', [hdr])] ?req"
    assume "Sign (signer c) (w_ctx_sign w) b = Inr sig" "sent_requests evs = replicate k ?rq" "k \<le> nat (MaxAttempts (retry c))"
    moreover have "rq_body ?rq = b" "rq_method ?rq = ''POST''" "rq_url ?rq = baseURL c @ path" by (simp_all add: finish_request_def)
    ultimately have "signed_post c w path (rq_body ?rq) ?rq evs"
      using header_get_finish(1) [OF x] by (auto simp: signed_post_def)
    then show thesis using that [OF pub _ encrypt_header] m hb \<open>rq_body ?rq = b\<close> by metis
  qed
qed

section \<open>Properties\<close>

text \<open>C4. The three calls of the encrypted endpoints send envelopes only.  Whatever a user-tag query
  (/query-user-tag), a credit-information submission (/credit-information) or a credit application
  (/credit-application) sends is one request repeated at most MaxAttempts times, a POST whose
  signature covers the encrypted body, and opening that body with its Encrypt header and the private
  key of the gateway gives back exactly the encoding of the request as the call left it; a credit
  application was accepted by its validator first.  The hypotheses are the documented laws of AES and
  of RSA decryption after encryption.  Nothing is said of the other calls, some of which carry
  personal fields too and are plain JSON by design: /modify-application-info (mobile number, email)
  and /auth (shipping name and phone) among them.\<close>
theorem encrypted_calls_send_envelopes:
  assumes "lawful_cipher (ce_cipher ce)"
    and "\<And>m x. ce_rsa_encrypt ce pub m = Inr x \<Longrightarrow> x \<noteq> [] \<and> rsa_decrypt sk x = Inr m"
    and "encrypt_key_check (Some sk) ''private'' = Inr sk" "encryptAtomePub c = Some pub" "sent_requests evs \<noteq> []"
  shows "(QueryUserTag ce (Some (Some c)) w newID mt ut pt = (pt', Some (evs, rt)) \<longrightarrow>
     (\<exists>q body rq. pt' = Some q \<and> mt q = Inr body \<and> signed_post c w ''/query-user-tag'' (rq_body rq) rq evs \<and>
        Unmarshal (ce_cipher ce) rsa_decrypt (header_get ''Encrypt'' (rq_header rq)) (rq_body rq) (Some sk) = Inr body)) \<and>
    (SubmitInformation ce (Some (Some c)) w newID mi ui pn = (pn', Some (evs, ri)) \<longrightarrow>
     (\<exists>q body rq. pn' = Some q \<and> mi q = Inr body \<and> signed_post c w ''/credit-information'' (rq_body rq) rq evs \<and>
        Unmarshal (ce_cipher ce) rsa_decrypt (header_get ''Encrypt'' (rq_header rq)) (rq_body rq) (Some sk) = Inr body)) \<and>
    (SubmitApplication ce (Some (Some c)) w newID ma ua pa = (pa', Some (evs, ra)) \<longrightarrow>
     (\<exists>q body rq. pa' = Some q \<and> validateCreditApplication q = None \<and> ma q = Inr body \<and>
        signed_post c w ''/credit-application'' (rq_body rq) rq evs \<and>
        Unmarshal (ce_cipher ce) rsa_decrypt (header_get ''Encrypt'' (rq_header rq)) (rq_body rq) (Some sk) = Inr body))"
proof -
  have opens: "\<exists>rq. signed_post c w path (rq_body rq) rq evs \<and>
      Unmarshal (ce_cipher ce) rsa_decrypt (header_get ''Encrypt'' (rq_header rq)) (rq_body rq) (Some sk) = Inr body"
    if d: "DoEncryptedSigned (ce_cipher ce) (ce_rsa_encrypt ce) (ce_draws ce) (Some c) w ''POST'' path body [] = Some (evs, r0)"
    for path body r0
  proof (rule DoEncryptedSigned_sends [OF d assms(5)])
    fix pub' hdr rq
    assume "encryptAtomePub c = Some pub'" "header_get ''Encrypt'' (rq_header rq) = hdr"
      "Marshal (ce_cipher ce) (ce_rsa_encrypt ce) (ce_draws ce) body (Some pub') = Some (Inr (hdr, rq_body rq))"
      "signed_post c w path (rq_body rq) rq evs"
    then show ?thesis
      using Unmarshal_Marshal [where rsa_encrypt = "ce_rsa_encrypt ce" and rsa_decrypt = rsa_decrypt and pub = pub and sk = sk, OF assms(1,2,3)] assms(4) by auto
  qed
  have v: "prepare_application i q = (None, q') \<Longrightarrow> validateCreditApplication q' = None" for i q q'
    by (auto simp: prepare_application_def Let_def)
  show ?thesis
    by (intro conjI impI)
      (erule user_tag.sent_encrypted information.sent_encrypted application.sent_encrypted, rule assms(5), use opens v in blast)+
qed

definition sample_rsa_key :: rsa_key where "sample_rsa_key = \<lparr>N_BitLen = Some 2048, key_material = 0\<rparr>"

text \<open>A toy cipher that obeys the laws, and one key byte drawn 32 times.\<close>

definition sample_crypto :: crypto_env where
  "sample_crypto = \<lparr>ce_cipher = \<lparr>block_Encrypt = (\<lambda>k b. rev b), block_Decrypt = (\<lambda>k b. rev b)\<rparr>,
     ce_rsa_encrypt = (\<lambda>k m. Inr (CHR ''#'' # m)), ce_draws = replicate 32 (Inr (CHR 0x1B))\<rparr>"

definition sample_credit_client :: client where
  "sample_credit_client = sample_client\<lparr>encryptAtomePub := Some sample_rsa_key\<rparr>"

definition sample_application :: credit_application_param where
  "sample_application = \<lparr>cap_RequestID = [], cap_ExternalReferenceUID = ''u'', cap_MobileNumber = ''1'', cap_Email = ''e'',
     cap_Country = ''ID'', cap_ApplicationEssentialInfo = None,
     cap_ExtendInfo = Some \<lparr>caei_CreditInformationRequestID = ''c1''\<rparr>\<rparr>"

lemma dispatch_loop_sends:
  assumes "n \<le> MaxAttempts (retry c)" "b n = Inr rq"
  shows "sent_requests (fst (dispatch_loop c w op u a x b n l)) \<noteq> []"
proof -
  obtain m where m: "n \<le> m"
    "sent_requests (fst (dispatch_loop c w op u a x b n l)) = concat (map (attempt_sends c a x b) [n..m])"
    using dispatch_loop_run [OF assms(1)] by blast
  have "attempt_sends c a x b n \<noteq> []" using assms(2) by (simp add: attempt_sends_def)
  moreover have "n \<in> set [n..m]" using m(1) by simp
  ultimately show ?thesis using m(2) by (metis concat_eq_Nil_conv image_eqI image_set)
qed

lemma sample_credit_run:
  obtains evs r where "sent_requests evs \<noteq> []"
    "SubmitApplication sample_crypto (Some (Some sample_credit_client)) sample_world ''a1'' (\<lambda>q. Inr (cap_RequestID q))
       (\<lambda>b. Inl (ErrorString b)) (Some sample_application) = (Some (sample_application\<lparr>cap_RequestID := ''a1''\<rparr>), Some (evs, r))"
proof -
  let ?B = "ce_cipher sample_crypto" and ?d = "replicate 32 (CHR 0x1B)"
  have v: "validateCreditApplication (sample_application\<lparr>cap_RequestID := ''a1''\<rparr>) = None"
    by (simp add: validateCreditApplication_def sample_application_def fail_if_def maxRequestID_def
        maxExternalReferenceUID_def maxEmail_def Country_IsValid_def with_present_def)
  have "RandomAESKey (ce_draws sample_crypto) = Some (Inr (replicate 32 (key_letter (CHR 0x1B))))"
    using draw_key_spec [of 32 "[]" ?d]
    by (simp add: RandomAESKey_def sample_crypto_def aesKeyBytes_def accepted_def aesKeyAlphabetCutoff_def AESKeyAlphabetSize_def)
  then obtain hdr b where m: "Marshal ?B (ce_rsa_encrypt sample_crypto) (ce_draws sample_crypto) ''a1'' (Some sample_rsa_key) =
      Some (Inr (hdr, b))"
    by (simp add: sample_crypto_def sample_rsa_key_def Marshal_def aesKeyBytes_def EncryptBody_def WrapAESKey_def
        encrypt_key_check_def MinKeyBits_def Let_def)
  define D where "D = dispatch_loop sample_credit_client sample_world ''/credit-application'' (''https://h'' @ ''/credit-application'')
    (''sig:'' @ b) [(''Encrypt'', [hdr])] (post_request sample_world ''POST'' (''https://h'' @ ''/credit-application'') b) 1 None"
  have f: "retry sample_credit_client = plain_policy" "signer sample_credit_client = sample_signer"
    "baseURL sample_credit_client = ''https://h''" "authScheme sample_credit_client = SchemeRawBase64"
    "encryptAtomePub sample_credit_client = Some sample_rsa_key"
    by (simp_all add: sample_credit_client_def sample_client_fields)
  have "DoEncryptedSigned ?B (ce_rsa_encrypt sample_crypto) (ce_draws sample_crypto) (Some sample_credit_client) sample_world
      ''POST'' ''/credit-application'' ''a1'' [] = Some D"
    using m encrypt_extra [of hdr]
    by (simp add: DoEncryptedSigned_def f bad_path_def Let_def signAndDispatch_def D_def sample_signer_def sample_world_def
        SchemeRawBase64_def)
  moreover have "sent_requests (fst D) \<noteq> []"
    unfolding D_def by (rule dispatch_loop_sends) (simp_all add: f plain_policy_fields post_request_def sample_world_def)
  moreover obtain evs r where "decode_response (\<lambda>b. Inl (ErrorString b)) ''/credit-application'' D = (evs, r :: go_error + credit_application_response)"
    by fastforce
  moreover from this have "evs = fst D" by (metis decode_response_fst fst_conv)
  ultimately show thesis using v
    by (intro that [of evs r]) (auto simp: SubmitApplication_def credit_checkConfigured_def check_service_def Let_def
        sample_application_def invokeEncryptedPost_def service_Client_def)
qed

theorem encrypted_calls_send_envelopes_witness:
  "\<exists>evs rq. sent_requests evs \<noteq> [] \<and> signed_post sample_credit_client sample_world ''/credit-application'' (rq_body rq) rq evs \<and>
     Unmarshal (ce_cipher sample_crypto) (\<lambda>k c. Inr (tl c)) (header_get ''Encrypt'' (rq_header rq)) (rq_body rq)
       (Some sample_rsa_key) = Inr ''a1''"
proof (rule sample_credit_run)
  fix evs r
  assume s: "sent_requests evs \<noteq> []" and a:
    "SubmitApplication sample_crypto (Some (Some sample_credit_client)) sample_world ''a1'' (\<lambda>q. Inr (cap_RequestID q))
       (\<lambda>b. Inl (ErrorString b)) (Some sample_application) = (Some (sample_application\<lparr>cap_RequestID := ''a1''\<rparr>), Some (evs, r))"
  have h: "lawful_cipher (ce_cipher sample_crypto)" "encrypt_key_check (Some sample_rsa_key) ''private'' = Inr sample_rsa_key"
    "encryptAtomePub sample_credit_client = Some sample_rsa_key"
    by (auto simp: lawful_cipher_def sample_crypto_def encrypt_key_check_def MinKeyBits_def sample_rsa_key_def sample_credit_client_def)
  have e: "ce_rsa_encrypt sample_crypto sample_rsa_key m = Inr x \<Longrightarrow> x \<noteq> [] \<and> Inr (tl x) = (Inr m :: go_error + bytes)" for m x
    by (auto simp: sample_crypto_def)
  have "\<exists>q body rq. Some (sample_application\<lparr>cap_RequestID := ''a1''\<rparr>) = Some q \<and> validateCreditApplication q = None \<and>
      Inr (cap_RequestID q) = (Inr body :: go_error + bytes) \<and>
      signed_post sample_credit_client sample_world ''/credit-application'' (rq_body rq) rq evs \<and>
      Unmarshal (ce_cipher sample_crypto) (\<lambda>k c. Inr (tl c)) (header_get ''Encrypt'' (rq_header rq)) (rq_body rq)
        (Some sample_rsa_key) = Inr body"
    by (rule encrypted_calls_send_envelopes [THEN conjunct2, THEN conjunct2, THEN mp, OF h(1) _ h(2,3) s a]) (use e in blast)
  then show ?thesis using s by auto
qed

end
