(* ===== verification/Credit_Json.thy ===== *)
theory Credit_Json
  imports Json_Codec Credit_Types
begin

text \<open>
  The JSON form of the structs of atomefin/credit and of the account-change notification, as in
  Payment_Json.
\<close>

section \<open>atomefin/credit\<close>

definition query_user_tag_param_codec :: "query_user_tag_param codec" where
  "query_user_tag_param_codec = struct_codec
     [tag ''requestId'' False string_codec qutp_RequestID
        (\<lambda>v s. s\<lparr>qutp_RequestID := v\<rparr>),
      tag ''mobileNumber'' False string_codec qutp_MobileNumber
        (\<lambda>v s. s\<lparr>qutp_MobileNumber := v\<rparr>),
      tag ''country'' False string_codec qutp_Country
        (\<lambda>v s. s\<lparr>qutp_Country := v\<rparr>)]
     \<lparr>qutp_RequestID = [], qutp_MobileNumber = [], qutp_Country = []\<rparr>"

lemma query_user_tag_param_codec_ok [codec_laws]: "codec_ok query_user_tag_param_codec"
  unfolding query_user_tag_param_codec_def
  by (rule struct_codec_ok) (simp_all add: rebuild_tag codec_laws)

definition liveness_check_codec :: "liveness_check codec" where
  "liveness_check_codec = struct_codec
     [tag ''result'' True string_codec lc_Result
        (\<lambda>v s. s\<lparr>lc_Result := v\<rparr>),
      tag ''snapshotPhoto'' True string_codec lc_SnapshotPhoto
        (\<lambda>v s. s\<lparr>lc_SnapshotPhoto := v\<rparr>),
      tag ''livenessCheckResult01'' True string_codec lc_LivenessCheckResult01
        (\<lambda>v s. s\<lparr>lc_LivenessCheckResult01 := v\<rparr>),
      tag ''livenessCheckResult02'' True string_codec lc_LivenessCheckResult02
        (\<lambda>v s. s\<lparr>lc_LivenessCheckResult02 := v\<rparr>),
      tag ''livenessCheckResult03'' True string_codec lc_LivenessCheckResult03
        (\<lambda>v s. s\<lparr>lc_LivenessCheckResult03 := v\<rparr>)]
     \<lparr>lc_Result = [], lc_SnapshotPhoto = [], lc_LivenessCheckResult01 = [], lc_LivenessCheckResult02 = [], lc_LivenessCheckResult03 = []\<rparr>"

lemma liveness_check_codec_ok [codec_laws]: "codec_ok liveness_check_codec"
  unfolding liveness_check_codec_def
  by (rule struct_codec_ok) (simp_all add: rebuild_tag codec_laws)

definition ocr_result_codec :: "ocr_result codec" where
  "ocr_result_codec = struct_codec
     [tag ''idNumber'' False string_codec ocr_IDNumber
        (\<lambda>v s. s\<lparr>ocr_IDNumber := v\<rparr>),
      tag ''fullName'' False string_codec ocr_FullName
        (\<lambda>v s. s\<lparr>ocr_FullName := v\<rparr>),
      tag ''birthPlace'' False string_codec ocr_BirthPlace
        (\<lambda>v s. s\<lparr>ocr_BirthPlace := v\<rparr>),
      tag ''ocrBloodType'' True string_codec ocr_OCRBloodType
        (\<lambda>v s. s\<lparr>ocr_OCRBloodType := v\<rparr>),
      tag ''ocrReligion'' False string_codec ocr_OCRReligion
        (\<lambda>v s. s\<lparr>ocr_OCRReligion := v\<rparr>),
      tag ''ocrGender'' False string_codec ocr_OCRGender
        (\<lambda>v s. s\<lparr>ocr_OCRGender := v\<rparr>),
      tag ''manuallyBirthDate'' False string_codec ocr_ManuallyBirthDate
        (\<lambda>v s. s\<lparr>ocr_ManuallyBirthDate := v\<rparr>),
      tag ''ocrProvince'' False string_codec ocr_OCRProvince
        (\<lambda>v s. s\<lparr>ocr_OCRProvince := v\<rparr>),
      tag ''ocrCity'' False string_codec ocr_OCRCity
        (\<lambda>v s. s\<lparr>ocr_OCRCity := v\<rparr>),
      tag ''ocrDistrict'' False string_codec ocr_OCRDistrict
        (\<lambda>v s. s\<lparr>ocr_OCRDistrict := v\<rparr>),
      tag ''jobType'' False string_codec ocr_JobType
        (\<lambda>v s. s\<lparr>ocr_JobType := v\<rparr>),
      tag ''ocrMaritalStatus'' True string_codec ocr_OCRMaritalStatus
        (\<lambda>v s. s\<lparr>ocr_OCRMaritalStatus := v\<rparr>),
      tag ''manuallyExpiredDate'' False string_codec ocr_ManuallyExpiredDate
        (\<lambda>v s. s\<lparr>ocr_ManuallyExpiredDate := v\<rparr>),
      tag ''manuallyCitizenship'' False string_codec ocr_ManuallyCitizenship
        (\<lambda>v s. s\<lparr>ocr_ManuallyCitizenship := v\<rparr>),
      tag ''manuallyRt'' False string_codec ocr_ManuallyRt
        (\<lambda>v s. s\<lparr>ocr_ManuallyRt := v\<rparr>),
      tag ''manuallyRw'' False string_codec ocr_ManuallyRw
        (\<lambda>v s. s\<lparr>ocr_ManuallyRw := v\<rparr>)]
     \<lparr>ocr_IDNumber = [], ocr_FullName = [], ocr_BirthPlace = [], ocr_OCRBloodType = [], ocr_OCRReligion = [], ocr_OCRGender = [], ocr_ManuallyBirthDate = [], ocr_OCRProvince = [], ocr_OCRCity = [], ocr_OCRDistrict = [], ocr_JobType = [], ocr_OCRMaritalStatus = [], ocr_ManuallyExpiredDate = [], ocr_ManuallyCitizenship = [], ocr_ManuallyRt = [], ocr_ManuallyRw = []\<rparr>"

lemma ocr_result_codec_ok [codec_laws]: "codec_ok ocr_result_codec"
  unfolding ocr_result_codec_def
  by (rule struct_codec_ok) (simp_all add: rebuild_tag codec_laws)

definition individual_profile_codec :: "individual_profile codec" where
  "individual_profile_codec = struct_codec
     [tag ''idType'' False string_codec inp_IDType
        (\<lambda>v s. s\<lparr>inp_IDType := v\<rparr>),
      tag ''ocrResult'' False (pointer_codec ocr_result_codec) inp_OCRResult
        (\<lambda>v s. s\<lparr>inp_OCRResult := v\<rparr>),
      tag ''idFrontPhoto'' False string_codec inp_IDFrontPhoto
        (\<lambda>v s. s\<lparr>inp_IDFrontPhoto := v\<rparr>),
      tag ''manuallyEducation'' True string_codec inp_ManuallyEducation
        (\<lambda>v s. s\<lparr>inp_ManuallyEducation := v\<rparr>),
      tag ''motherMaidenName'' True string_codec inp_MotherMaidenName
        (\<lambda>v s. s\<lparr>inp_MotherMaidenName := v\<rparr>),
      tag ''maritalStatus'' True string_codec inp_MaritalStatus
        (\<lambda>v s. s\<lparr>inp_MaritalStatus := v\<rparr>)]
     \<lparr>inp_IDType = [], inp_OCRResult = None, inp_IDFrontPhoto = [], inp_ManuallyEducation = [], inp_MotherMaidenName = [], inp_MaritalStatus = []\<rparr>"

lemma individual_profile_codec_ok [codec_laws]: "codec_ok individual_profile_codec"
  unfolding individual_profile_codec_def
  by (rule struct_codec_ok) (simp_all add: rebuild_tag codec_laws)

definition emergency_contact_codec :: "emergency_contact codec" where
  "emergency_contact_codec = struct_codec
     [tag ''name'' True string_codec ec_Name
        (\<lambda>v s. s\<lparr>ec_Name := v\<rparr>),
      tag ''phone'' True string_codec ec_Phone
        (\<lambda>v s. s\<lparr>ec_Phone := v\<rparr>),
      tag ''relation'' True string_codec ec_Relation
        (\<lambda>v s. s\<lparr>ec_Relation := v\<rparr>)]
     \<lparr>ec_Name = [], ec_Phone = [], ec_Relation = []\<rparr>"

lemma emergency_contact_codec_ok [codec_laws]: "codec_ok emergency_contact_codec"
  unfolding emergency_contact_codec_def
  by (rule struct_codec_ok) (simp_all add: rebuild_tag codec_laws)

definition work_information_codec :: "work_information codec" where
  "work_information_codec = struct_codec
     [tag ''employerName'' True string_codec wi_EmployerName
        (\<lambda>v s. s\<lparr>wi_EmployerName := v\<rparr>),
      tag ''workSince'' True string_codec wi_WorkSince
        (\<lambda>v s. s\<lparr>wi_WorkSince := v\<rparr>),
      tag ''monthlyIncome'' True string_codec wi_MonthlyIncome
        (\<lambda>v s. s\<lparr>wi_MonthlyIncome := v\<rparr>),
      tag ''jobIndustry'' True string_codec wi_JobIndustry
        (\<lambda>v s. s\<lparr>wi_JobIndustry := v\<rparr>),
      tag ''jobPosition'' True string_codec wi_JobPosition
        (\<lambda>v s. s\<lparr>wi_JobPosition := v\<rparr>),
      tag ''payrollPeriod'' True string_codec wi_PayrollPeriod
        (\<lambda>v s. s\<lparr>wi_PayrollPeriod := v\<rparr>)]
     \<lparr>wi_EmployerName = [], wi_WorkSince = [], wi_MonthlyIncome = [], wi_JobIndustry = [], wi_JobPosition = [], wi_PayrollPeriod = []\<rparr>"

lemma work_information_codec_ok [codec_laws]: "codec_ok work_information_codec"
  unfolding work_information_codec_def
  by (rule struct_codec_ok) (simp_all add: rebuild_tag codec_laws)

definition residential_information_codec :: "residential_information codec" where
  "residential_information_codec = struct_codec
     [tag ''region'' True string_codec ri_Region
        (\<lambda>v s. s\<lparr>ri_Region := v\<rparr>),
      tag ''province'' True string_codec ri_Province
        (\<lambda>v s. s\<lparr>ri_Province := v\<rparr>),
      tag ''city'' True string_codec ri_City
        (\<lambda>v s. s\<lparr>ri_City := v\<rparr>),
      tag ''district'' True string_codec ri_District
        (\<lambda>v s. s\<lparr>ri_District := v\<rparr>),
      tag ''address'' True string_codec ri_Address
        (\<lambda>v s. s\<lparr>ri_Address := v\<rparr>)]
     \<lparr>ri_Region = [], ri_Province = [], ri_City = [], ri_District = [], ri_Address = []\<rparr>"

lemma residential_information_codec_ok [codec_laws]: "codec_ok residential_information_codec"
  unfolding residential_information_codec_def
  by (rule struct_codec_ok) (simp_all add: rebuild_tag codec_laws)

definition payment_information_codec :: "payment_information codec" where
  "payment_information_codec = struct_codec
     [tag ''payDay'' True int_codec pi_PayDay
        (\<lambda>v s. s\<lparr>pi_PayDay := v\<rparr>)]
     \<lparr>pi_PayDay = 0\<rparr>"

lemma payment_information_codec_ok [codec_laws]: "codec_ok payment_information_codec"
  unfolding payment_information_codec_def
  by (rule struct_codec_ok) (simp_all add: rebuild_tag codec_laws)

definition financial_information_codec :: "financial_information codec" where
  "financial_information_codec = struct_codec
     [tag ''emergencyContact'' True (pointer_codec emergency_contact_codec) fi_EmergencyContact
        (\<lambda>v s. s\<lparr>fi_EmergencyContact := v\<rparr>),
      tag ''emergencyContact_2'' True (pointer_codec emergency_contact_codec) fi_EmergencyContact2
        (\<lambda>v s. s\<lparr>fi_EmergencyContact2 := v\<rparr>),
      tag ''workInformation'' True (pointer_codec work_information_codec) fi_WorkInformation
        (\<lambda>v s. s\<lparr>fi_WorkInformation := v\<rparr>),
      tag ''residential'' True (pointer_codec residential_information_codec) fi_Residential
        (\<lambda>v s. s\<lparr>fi_Residential := v\<rparr>),
      tag ''paymentInformation'' True (pointer_codec payment_information_codec) fi_PaymentInformation
        (\<lambda>v s. s\<lparr>fi_PaymentInformation := v\<rparr>)]
     \<lparr>fi_EmergencyContact = None, fi_EmergencyContact2 = None, fi_WorkInformation = None, fi_Residential = None, fi_PaymentInformation = None\<rparr>"

lemma financial_information_codec_ok [codec_laws]: "codec_ok financial_information_codec"
  unfolding financial_information_codec_def
  by (rule struct_codec_ok) (simp_all add: rebuild_tag codec_laws)

definition gps_sample_codec :: "gps_sample codec" where
  "gps_sample_codec = struct_codec
     [tag ''longitude'' True string_codec gps_Longitude
        (\<lambda>v s. s\<lparr>gps_Longitude := v\<rparr>),
      tag ''latitude'' True string_codec gps_Latitude
        (\<lambda>v s. s\<lparr>gps_Latitude := v\<rparr>),
      tag ''time'' True string_codec gps_Time
        (\<lambda>v s. s\<lparr>gps_Time := v\<rparr>)]
     \<lparr>gps_Longitude = [], gps_Latitude = [], gps_Time = []\<rparr>"

lemma gps_sample_codec_ok [codec_laws]: "codec_ok gps_sample_codec"
  unfolding gps_sample_codec_def
  by (rule struct_codec_ok) (simp_all add: rebuild_tag codec_laws)

definition device_build_codec :: "device_build codec" where
  "device_build_codec = struct_codec
     [tag ''board'' True string_codec db_Board
        (\<lambda>v s. s\<lparr>db_Board := v\<rparr>),
      tag ''brand'' True string_codec db_Brand
        (\<lambda>v s. s\<lparr>db_Brand := v\<rparr>),
      tag ''cpuAbi'' True string_codec db_CPUAbi
        (\<lambda>v s. s\<lparr>db_CPUAbi := v\<rparr>),
      tag ''device'' True string_codec db_Device
        (\<lambda>v s. s\<lparr>db_Device := v\<rparr>),
      tag ''manufacturer'' True string_codec db_Manufacturer
        (\<lambda>v s. s\<lparr>db_Manufacturer := v\<rparr>),
      tag ''model'' True string_codec db_Model
        (\<lambda>v s. s\<lparr>db_Model := v\<rparr>),
      tag ''product'' True string_codec db_Product
        (\<lambda>v s. s\<lparr>db_Product := v\<rparr>)]
     \<lparr>db_Board = [], db_Brand = [], db_CPUAbi = [], db_Device = [], db_Manufacturer = [], db_Model = [], db_Product = []\<rparr>"

lemma device_build_codec_ok [codec_laws]: "codec_ok device_build_codec"
  unfolding device_build_codec_def
  by (rule struct_codec_ok) (simp_all add: rebuild_tag codec_laws)

definition credit_device_codec :: "credit_device codec" where
  "credit_device_codec = struct_codec
     [tag ''deviceId'' True string_codec dev_DeviceID
        (\<lambda>v s. s\<lparr>dev_DeviceID := v\<rparr>),
      tag ''googleAdvertisingId'' True string_codec dev_GoogleAdvertisingID
        (\<lambda>v s. s\<lparr>dev_GoogleAdvertisingID := v\<rparr>),
      tag ''idfa'' True string_codec dev_IDFA
        (\<lambda>v s. s\<lparr>dev_IDFA := v\<rparr>),
      tag ''idfv'' True string_codec dev_IDFV
        (\<lambda>v s. s\<lparr>dev_IDFV := v\<rparr>),
      tag ''utdid'' True string_codec dev_UTDID
        (\<lambda>v s. s\<lparr>dev_UTDID := v\<rparr>),
      tag ''isRoot'' False bool_codec dev_IsRoot
        (\<lambda>v s. s\<lparr>dev_IsRoot := v\<rparr>),
      tag ''androidId'' True string_codec dev_AndroidID
        (\<lambda>v s. s\<lparr>dev_AndroidID := v\<rparr>),
      tag ''build'' True (pointer_codec device_build_codec) dev_Build
        (\<lambda>v s. s\<lparr>dev_Build := v\<rparr>)]
     \<lparr>dev_DeviceID = [], dev_GoogleAdvertisingID = [], dev_IDFA = [], dev_IDFV = [], dev_UTDID = [], dev_IsRoot = False, dev_AndroidID = [], dev_Build = None\<rparr>"

lemma credit_device_codec_ok [codec_laws]: "codec_ok credit_device_codec"
  unfolding credit_device_codec_def
  by (rule struct_codec_ok) (simp_all add: rebuild_tag codec_laws)

definition credit_wifi_ap_codec :: "credit_wifi_ap codec" where
  "credit_wifi_ap_codec = struct_codec
     [tag ''ssid'' False string_codec cwa_SSID
        (\<lambda>v s. s\<lparr>cwa_SSID := v\<rparr>)]
     \<lparr>cwa_SSID = []\<rparr>"

lemma credit_wifi_ap_codec_ok [codec_laws]: "codec_ok credit_wifi_ap_codec"
  unfolding credit_wifi_ap_codec_def
  by (rule struct_codec_ok) (simp_all add: rebuild_tag codec_laws)

definition credit_ip_address_codec :: "credit_ip_address codec" where
  "credit_ip_address_codec = struct_codec
     [tag ''ethIp'' True string_codec cipa_EthIP
        (\<lambda>v s. s\<lparr>cipa_EthIP := v\<rparr>),
      tag ''trueIp'' True string_codec cipa_TrueIP
        (\<lambda>v s. s\<lparr>cipa_TrueIP := v\<rparr>)]
     \<lparr>cipa_EthIP = [], cipa_TrueIP = []\<rparr>"

lemma credit_ip_address_codec_ok [codec_laws]: "codec_ok credit_ip_address_codec"
  unfolding credit_ip_address_codec_def
  by (rule struct_codec_ok) (simp_all add: rebuild_tag codec_laws)

definition credit_device_info_codec :: "credit_device_info codec" where
  "credit_device_info_codec = struct_codec
     [tag ''platform'' False string_codec cdi_Platform
        (\<lambda>v s. s\<lparr>cdi_Platform := v\<rparr>),
      tag ''gps'' True (pointer_codec gps_sample_codec) cdi_GPS
        (\<lambda>v s. s\<lparr>cdi_GPS := v\<rparr>),
      tag ''device'' False (pointer_codec credit_device_codec) cdi_Device
        (\<lambda>v s. s\<lparr>cdi_Device := v\<rparr>),
      tag ''wifiList'' True (slice_codec credit_wifi_ap_codec) cdi_WifiList
        (\<lambda>v s. s\<lparr>cdi_WifiList := v\<rparr>),
      tag ''ipAddress'' True (pointer_codec credit_ip_address_codec) cdi_IPAddress
        (\<lambda>v s. s\<lparr>cdi_IPAddress := v\<rparr>)]
     \<lparr>cdi_Platform = [], cdi_GPS = None, cdi_Device = None, cdi_WifiList = [], cdi_IPAddress = None\<rparr>"

lemma credit_device_info_codec_ok [codec_laws]: "codec_ok credit_device_info_codec"
  unfolding credit_device_info_codec_def
  by (rule struct_codec_ok) (simp_all add: rebuild_tag codec_laws)

definition platform_information_codec :: "platform_information codec" where
  "platform_information_codec = struct_codec
     [tag ''creditProfile'' False string_codec pfi_CreditProfile
        (\<lambda>v s. s\<lparr>pfi_CreditProfile := v\<rparr>),
      tag ''latestGkycTimeStamp'' True string_codec pfi_LatestGkycTimeStamp
        (\<lambda>v s. s\<lparr>pfi_LatestGkycTimeStamp := v\<rparr>),
      tag ''userFlag'' False string_codec pfi_UserFlag
        (\<lambda>v s. s\<lparr>pfi_UserFlag := v\<rparr>),
      tag ''scdUserLevel'' False string_codec pfi_SCDUserLevel
        (\<lambda>v s. s\<lparr>pfi_SCDUserLevel := v\<rparr>),
      tag ''sceneType'' False string_codec pfi_SceneType
        (\<lambda>v s. s\<lparr>pfi_SceneType := v\<rparr>),
      tag ''deviceInfo'' False (pointer_codec credit_device_info_codec) pfi_DeviceInfo
        (\<lambda>v s. s\<lparr>pfi_DeviceInfo := v\<rparr>)]
     \<lparr>pfi_CreditProfile = [], pfi_LatestGkycTimeStamp = [], pfi_UserFlag = [], pfi_SCDUserLevel = [], pfi_SceneType = [], pfi_DeviceInfo = None\<rparr>"

lemma platform_information_codec_ok [codec_laws]: "codec_ok platform_information_codec"
  unfolding platform_information_codec_def
  by (rule struct_codec_ok) (simp_all add: rebuild_tag codec_laws)

definition credit_information_essential_info_codec :: "credit_information_essential_info codec" where
  "credit_information_essential_info_codec = struct_codec
     [tag ''livenessCheck'' True (pointer_codec liveness_check_codec) ciei_LivenessCheck
        (\<lambda>v s. s\<lparr>ciei_LivenessCheck := v\<rparr>),
      tag ''individualProfile'' True (pointer_codec individual_profile_codec) ciei_IndividualProfile
        (\<lambda>v s. s\<lparr>ciei_IndividualProfile := v\<rparr>),
      tag ''emergencyContact'' True (pointer_codec emergency_contact_codec) (\<lambda>s. fi_EmergencyContact (ciei_FinancialInformation s))
        (\<lambda>v s. s\<lparr>ciei_FinancialInformation := (ciei_FinancialInformation s)\<lparr>fi_EmergencyContact := v\<rparr>\<rparr>),
      tag ''emergencyContact_2'' True (pointer_codec emergency_contact_codec) (\<lambda>s. fi_EmergencyContact2 (ciei_FinancialInformation s))
        (\<lambda>v s. s\<lparr>ciei_FinancialInformation := (ciei_FinancialInformation s)\<lparr>fi_EmergencyContact2 := v\<rparr>\<rparr>),
      tag ''workInformation'' True (pointer_codec work_information_codec) (\<lambda>s. fi_WorkInformation (ciei_FinancialInformation s))
        (\<lambda>v s. s\<lparr>ciei_FinancialInformation := (ciei_FinancialInformation s)\<lparr>fi_WorkInformation := v\<rparr>\<rparr>),
      tag ''residential'' True (pointer_codec residential_information_codec) (\<lambda>s. fi_Residential (ciei_FinancialInformation s))
        (\<lambda>v s. s\<lparr>ciei_FinancialInformation := (ciei_FinancialInformation s)\<lparr>fi_Residential := v\<rparr>\<rparr>),
      tag ''paymentInformation'' True (pointer_codec payment_information_codec) (\<lambda>s. fi_PaymentInformation (ciei_FinancialInformation s))
        (\<lambda>v s. s\<lparr>ciei_FinancialInformation := (ciei_FinancialInformation s)\<lparr>fi_PaymentInformation := v\<rparr>\<rparr>),
      tag ''platformInformation'' False (pointer_codec platform_information_codec) ciei_PlatformInformation
        (\<lambda>v s. s\<lparr>ciei_PlatformInformation := v\<rparr>)]
     \<lparr>ciei_LivenessCheck = None, ciei_IndividualProfile = None, ciei_FinancialInformation = \<lparr>fi_EmergencyContact = None, fi_EmergencyContact2 = None, fi_WorkInformation = None, fi_Residential = None, fi_PaymentInformation = None\<rparr>, ciei_PlatformInformation = None\<rparr>"

lemma credit_information_essential_info_codec_ok [codec_laws]: "codec_ok credit_information_essential_info_codec"
  unfolding credit_information_essential_info_codec_def
  by (rule struct_codec_ok) (simp_all add: rebuild_tag codec_laws)

definition credit_information_extend_info_codec :: "credit_information_extend_info codec" where
  "credit_information_extend_info_codec = struct_codec
     [tag ''language'' True string_codec ciex_Language
        (\<lambda>v s. s\<lparr>ciex_Language := v\<rparr>)]
     \<lparr>ciex_Language = []\<rparr>"

lemma credit_information_extend_info_codec_ok [codec_laws]: "codec_ok credit_information_extend_info_codec"
  unfolding credit_information_extend_info_codec_def
  by (rule struct_codec_ok) (simp_all add: rebuild_tag codec_laws)

definition credit_information_param_codec :: "credit_information_param codec" where
  "credit_information_param_codec = struct_codec
     [tag ''requestId'' False string_codec cinp_RequestID
        (\<lambda>v s. s\<lparr>cinp_RequestID := v\<rparr>),
      tag ''externalReferenceUid'' False string_codec cinp_ExternalReferenceUID
        (\<lambda>v s. s\<lparr>cinp_ExternalReferenceUID := v\<rparr>),
      tag ''mobileNumber'' False string_codec cinp_MobileNumber
        (\<lambda>v s. s\<lparr>cinp_MobileNumber := v\<rparr>),
      tag ''email'' False string_codec cinp_Email
        (\<lambda>v s. s\<lparr>cinp_Email := v\<rparr>),
      tag ''country'' False string_codec cinp_Country
        (\<lambda>v s. s\<lparr>cinp_Country := v\<rparr>),
      tag ''applicationEssentialInfo'' False (pointer_codec credit_information_essential_info_codec) cinp_ApplicationEssentialInfo
        (\<lambda>v s. s\<lparr>cinp_ApplicationEssentialInfo := v\<rparr>),
      tag ''extendInfo'' True (pointer_codec credit_information_extend_info_codec) cinp_ExtendInfo
        (\<lambda>v s. s\<lparr>cinp_ExtendInfo := v\<rparr>)]
     \<lparr>cinp_RequestID = [], cinp_ExternalReferenceUID = [], cinp_MobileNumber = [], cinp_Email = [], cinp_Country = [], cinp_ApplicationEssentialInfo = None, cinp_ExtendInfo = None\<rparr>"

lemma credit_information_param_codec_ok [codec_laws]: "codec_ok credit_information_param_codec"
  unfolding credit_information_param_codec_def
  by (rule struct_codec_ok) (simp_all add: rebuild_tag codec_laws)

definition application_essential_info_codec :: "application_essential_info codec" where
  "application_essential_info_codec = struct_codec
     [tag ''livenessCheck'' True (pointer_codec liveness_check_codec) aei_LivenessCheck
        (\<lambda>v s. s\<lparr>aei_LivenessCheck := v\<rparr>),
      tag ''individualProfile'' True (pointer_codec individual_profile_codec) aei_IndividualProfile
        (\<lambda>v s. s\<lparr>aei_IndividualProfile := v\<rparr>),
      tag ''emergencyContact'' True (pointer_codec emergency_contact_codec) (\<lambda>s. fi_EmergencyContact (aei_FinancialInformation s))
        (\<lambda>v s. s\<lparr>aei_FinancialInformation := (aei_FinancialInformation s)\<lparr>fi_EmergencyContact := v\<rparr>\<rparr>),
      tag ''emergencyContact_2'' True (pointer_codec emergency_contact_codec) (\<lambda>s. fi_EmergencyContact2 (aei_FinancialInformation s))
        (\<lambda>v s. s\<lparr>aei_FinancialInformation := (aei_FinancialInformation s)\<lparr>fi_EmergencyContact2 := v\<rparr>\<rparr>),
      tag ''workInformation'' True (pointer_codec work_information_codec) (\<lambda>s. fi_WorkInformation (aei_FinancialInformation s))
        (\<lambda>v s. s\<lparr>aei_FinancialInformation := (aei_FinancialInformation s)\<lparr>fi_WorkInformation := v\<rparr>\<rparr>),
      tag ''residential'' True (pointer_codec residential_information_codec) (\<lambda>s. fi_Residential (aei_FinancialInformation s))
        (\<lambda>v s. s\<lparr>aei_FinancialInformation := (aei_FinancialInformation s)\<lparr>fi_Residential := v\<rparr>\<rparr>),
      tag ''paymentInformation'' True (pointer_codec payment_information_codec) (\<lambda>s. fi_PaymentInformation (aei_FinancialInformation s))
        (\<lambda>v s. s\<lparr>aei_FinancialInformation := (aei_FinancialInformation s)\<lparr>fi_PaymentInformation := v\<rparr>\<rparr>),
      tag ''platformInformation'' False (pointer_codec platform_information_codec) aei_PlatformInformation
        (\<lambda>v s. s\<lparr>aei_PlatformInformation := v\<rparr>)]
     \<lparr>aei_LivenessCheck = None, aei_IndividualProfile = None, aei_FinancialInformation = \<lparr>fi_EmergencyContact = None, fi_EmergencyContact2 = None, fi_WorkInformation = None, fi_Residential = None, fi_PaymentInformation = None\<rparr>, aei_PlatformInformation = None\<rparr>"

lemma application_essential_info_codec_ok [codec_laws]: "codec_ok application_essential_info_codec"
  unfolding application_essential_info_codec_def
  by (rule struct_codec_ok) (simp_all add: rebuild_tag codec_laws)

definition credit_application_extend_info_codec :: "credit_application_extend_info codec" where
  "credit_application_extend_info_codec = struct_codec
     [tag ''creditInformationRequestId'' False string_codec caei_CreditInformationRequestID
        (\<lambda>v s. s\<lparr>caei_CreditInformationRequestID := v\<rparr>)]
     \<lparr>caei_CreditInformationRequestID = []\<rparr>"

lemma credit_application_extend_info_codec_ok [codec_laws]: "codec_ok credit_application_extend_info_codec"
  unfolding credit_application_extend_info_codec_def
  by (rule struct_codec_ok) (simp_all add: rebuild_tag codec_laws)

definition credit_application_param_codec :: "credit_application_param codec" where
  "credit_application_param_codec = struct_codec
     [tag ''requestId'' False string_codec cap_RequestID
        (\<lambda>v s. s\<lparr>cap_RequestID := v\<rparr>),
      tag ''externalReferenceUid'' False string_codec cap_ExternalReferenceUID
        (\<lambda>v s. s\<lparr>cap_ExternalReferenceUID := v\<rparr>),
      tag ''mobileNumber'' False string_codec cap_MobileNumber
        (\<lambda>v s. s\<lparr>cap_MobileNumber := v\<rparr>),
      tag ''email'' False string_codec cap_Email
        (\<lambda>v s. s\<lparr>cap_Email := v\<rparr>),
      tag ''country'' False string_codec cap_Country
        (\<lambda>v s. s\<lparr>cap_Country := v\<rparr>),
      tag ''applicationEssentialInfo'' True (pointer_codec application_essential_info_codec) cap_ApplicationEssentialInfo
        (\<lambda>v s. s\<lparr>cap_ApplicationEssentialInfo := v\<rparr>),
      tag ''extendInfo'' False (pointer_codec credit_application_extend_info_codec) cap_ExtendInfo
        (\<lambda>v s. s\<lparr>cap_ExtendInfo := v\<rparr>)]
     \<lparr>cap_RequestID = [], cap_ExternalReferenceUID = [], cap_MobileNumber = [], cap_Email = [], cap_Country = [], cap_ApplicationEssentialInfo = None, cap_ExtendInfo = None\<rparr>"

lemma credit_application_param_codec_ok [codec_laws]: "codec_ok credit_application_param_codec"
  unfolding credit_application_param_codec_def
  by (rule struct_codec_ok) (simp_all add: rebuild_tag codec_laws)

definition credit_application_change_extend_info_codec :: "credit_application_change_extend_info codec" where
  "credit_application_change_extend_info_codec = struct_codec
     [tag ''language'' True string_codec cacei_Language
        (\<lambda>v s. s\<lparr>cacei_Language := v\<rparr>)]
     \<lparr>cacei_Language = []\<rparr>"

lemma credit_application_change_extend_info_codec_ok [codec_laws]: "codec_ok credit_application_change_extend_info_codec"
  unfolding credit_application_change_extend_info_codec_def
  by (rule struct_codec_ok) (simp_all add: rebuild_tag codec_laws)

definition credit_application_change_param_codec :: "credit_application_change_param codec" where
  "credit_application_change_param_codec = struct_codec
     [tag ''requestId'' False string_codec cacp_RequestID
        (\<lambda>v s. s\<lparr>cacp_RequestID := v\<rparr>),
      tag ''externalReferenceUid'' False string_codec cacp_ExternalReferenceUID
        (\<lambda>v s. s\<lparr>cacp_ExternalReferenceUID := v\<rparr>),
      tag ''mobileNumber'' False string_codec cacp_MobileNumber
        (\<lambda>v s. s\<lparr>cacp_MobileNumber := v\<rparr>),
      tag ''email'' True string_codec cacp_Email
        (\<lambda>v s. s\<lparr>cacp_Email := v\<rparr>),
      tag ''extendInfo'' True (pointer_codec credit_application_change_extend_info_codec) cacp_ExtendInfo
        (\<lambda>v s. s\<lparr>cacp_ExtendInfo := v\<rparr>)]
     \<lparr>cacp_RequestID = [], cacp_ExternalReferenceUID = [], cacp_MobileNumber = [], cacp_Email = [], cacp_ExtendInfo = None\<rparr>"

lemma credit_application_change_param_codec_ok [codec_laws]: "codec_ok credit_application_change_param_codec"
  unfolding credit_application_change_param_codec_def
  by (rule struct_codec_ok) (simp_all add: rebuild_tag codec_laws)

definition close_account_param_codec :: "close_account_param codec" where
  "close_account_param_codec = struct_codec
     [tag ''requestId'' False string_codec clap_RequestID
        (\<lambda>v s. s\<lparr>clap_RequestID := v\<rparr>),
      tag ''externalReferenceUid'' False string_codec clap_ExternalReferenceUID
        (\<lambda>v s. s\<lparr>clap_ExternalReferenceUID := v\<rparr>)]
     \<lparr>clap_RequestID = [], clap_ExternalReferenceUID = []\<rparr>"

lemma close_account_param_codec_ok [codec_laws]: "codec_ok close_account_param_codec"
  unfolding close_account_param_codec_def
  by (rule struct_codec_ok) (simp_all add: rebuild_tag codec_laws)

definition query_user_tag_result_codec :: "query_user_tag_result codec" where
  "query_user_tag_result_codec = struct_codec
     [tag ''userTag'' False string_codec qutr_UserTag
        (\<lambda>v s. s\<lparr>qutr_UserTag := v\<rparr>),
      tag ''userStatus'' False string_codec qutr_UserStatus
        (\<lambda>v s. s\<lparr>qutr_UserStatus := v\<rparr>),
      tag ''extendInfo'' True map_codec qutr_ExtendInfo
        (\<lambda>v s. s\<lparr>qutr_ExtendInfo := v\<rparr>)]
     \<lparr>qutr_UserTag = [], qutr_UserStatus = [], qutr_ExtendInfo = []\<rparr>"

lemma query_user_tag_result_codec_ok [codec_laws]: "codec_ok query_user_tag_result_codec"
  unfolding query_user_tag_result_codec_def
  by (rule struct_codec_ok) (simp_all add: rebuild_tag codec_laws)

definition query_user_tag_response_codec :: "query_user_tag_response codec" where
  "query_user_tag_response_codec = struct_codec
     [tag ''code'' False string_codec qutrsp_Code
        (\<lambda>v s. s\<lparr>qutrsp_Code := v\<rparr>),
      tag ''message'' False string_codec qutrsp_Message
        (\<lambda>v s. s\<lparr>qutrsp_Message := v\<rparr>),
      tag ''data'' True (pointer_codec query_user_tag_result_codec) qutrsp_Data
        (\<lambda>v s. s\<lparr>qutrsp_Data := v\<rparr>)]
     \<lparr>qutrsp_Code = [], qutrsp_Message = [], qutrsp_Data = None\<rparr>"

lemma query_user_tag_response_codec_ok [codec_laws]: "codec_ok query_user_tag_response_codec"
  unfolding query_user_tag_response_codec_def
  by (rule struct_codec_ok) (simp_all add: rebuild_tag codec_laws)

definition credit_information_result_codec :: "credit_information_result codec" where
  "credit_information_result_codec = struct_codec
     [tag ''requestId'' False string_codec cirs_RequestID
        (\<lambda>v s. s\<lparr>cirs_RequestID := v\<rparr>),
      tag ''externalReferenceUid'' False string_codec cirs_ExternalReferenceUID
        (\<lambda>v s. s\<lparr>cirs_ExternalReferenceUID := v\<rparr>),
      tag ''status'' False string_codec cirs_Status
        (\<lambda>v s. s\<lparr>cirs_Status := v\<rparr>),
      tag ''jumpUrl'' False string_codec cirs_JumpURL
        (\<lambda>v s. s\<lparr>cirs_JumpURL := v\<rparr>),
      tag ''failReason'' True string_codec cirs_FailReason
        (\<lambda>v s. s\<lparr>cirs_FailReason := v\<rparr>),
      tag ''extendInfo'' True map_codec cirs_ExtendInfo
        (\<lambda>v s. s\<lparr>cirs_ExtendInfo := v\<rparr>)]
     \<lparr>cirs_RequestID = [], cirs_ExternalReferenceUID = [], cirs_Status = [], cirs_JumpURL = [], cirs_FailReason = [], cirs_ExtendInfo = []\<rparr>"

lemma credit_information_result_codec_ok [codec_laws]: "codec_ok credit_information_result_codec"
  unfolding credit_information_result_codec_def
  by (rule struct_codec_ok) (simp_all add: rebuild_tag codec_laws)

definition credit_information_response_codec :: "credit_information_response codec" where
  "credit_information_response_codec = struct_codec
     [tag ''code'' False string_codec cirsp_Code
        (\<lambda>v s. s\<lparr>cirsp_Code := v\<rparr>),
      tag ''message'' False string_codec cirsp_Message
        (\<lambda>v s. s\<lparr>cirsp_Message := v\<rparr>),
      tag ''data'' True (pointer_codec credit_information_result_codec) cirsp_Data
        (\<lambda>v s. s\<lparr>cirsp_Data := v\<rparr>)]
     \<lparr>cirsp_Code = [], cirsp_Message = [], cirsp_Data = None\<rparr>"

lemma credit_information_response_codec_ok [codec_laws]: "codec_ok credit_information_response_codec"
  unfolding credit_information_response_codec_def
  by (rule struct_codec_ok) (simp_all add: rebuild_tag codec_laws)

definition credit_info_codec :: "credit_info codec" where
  "credit_info_codec = struct_codec
     [tag ''totalCredit'' False int64_codec cri_TotalCredit
        (\<lambda>v s. s\<lparr>cri_TotalCredit := v\<rparr>),
      tag ''availableCredit'' False int64_codec cri_AvailableCredit
        (\<lambda>v s. s\<lparr>cri_AvailableCredit := v\<rparr>),
      tag ''usedCredit'' False int64_codec cri_UsedCredit
        (\<lambda>v s. s\<lparr>cri_UsedCredit := v\<rparr>),
      tag ''lateFeeAmount'' True int64_codec cri_LateFeeAmount
        (\<lambda>v s. s\<lparr>cri_LateFeeAmount := v\<rparr>),
      tag ''overpaidAmount'' True int64_codec cri_OverpaidAmount
        (\<lambda>v s. s\<lparr>cri_OverpaidAmount := v\<rparr>),
      tag ''overpaidWithdrawAmount'' True int64_codec cri_OverpaidWithdrawAmount
        (\<lambda>v s. s\<lparr>cri_OverpaidWithdrawAmount := v\<rparr>),
      tag ''overpaidWithdrawLink'' True string_codec cri_OverpaidWithdrawLink
        (\<lambda>v s. s\<lparr>cri_OverpaidWithdrawLink := v\<rparr>),
      tag ''userStatus'' False string_codec cri_UserStatus
        (\<lambda>v s. s\<lparr>cri_UserStatus := v\<rparr>),
      tag ''version'' False int64_codec cri_Version
        (\<lambda>v s. s\<lparr>cri_Version := v\<rparr>)]
     \<lparr>cri_TotalCredit = 0, cri_AvailableCredit = 0, cri_UsedCredit = 0, cri_LateFeeAmount = 0, cri_OverpaidAmount = 0, cri_OverpaidWithdrawAmount = 0, cri_OverpaidWithdrawLink = [], cri_UserStatus = [], cri_Version = 0\<rparr>"

lemma credit_info_codec_ok [codec_laws]: "codec_ok credit_info_codec"
  unfolding credit_info_codec_def
  by (rule struct_codec_ok) (simp_all add: rebuild_tag codec_laws)

definition loan_credit_info_codec :: "loan_credit_info codec" where
  "loan_credit_info_codec = struct_codec
     [tag ''loanStatus'' True string_codec lci_LoanStatus
        (\<lambda>v s. s\<lparr>lci_LoanStatus := v\<rparr>),
      tag ''reapplyTime'' True int64_codec lci_ReapplyTime
        (\<lambda>v s. s\<lparr>lci_ReapplyTime := v\<rparr>)]
     \<lparr>lci_LoanStatus = [], lci_ReapplyTime = 0\<rparr>"

lemma loan_credit_info_codec_ok [codec_laws]: "codec_ok loan_credit_info_codec"
  unfolding loan_credit_info_codec_def
  by (rule struct_codec_ok) (simp_all add: rebuild_tag codec_laws)

definition credit_application_result_codec :: "credit_application_result codec" where
  "credit_application_result_codec = struct_codec
     [tag ''externalReferenceUid'' False string_codec cars_ExternalReferenceUID
        (\<lambda>v s. s\<lparr>cars_ExternalReferenceUID := v\<rparr>),
      tag ''status'' False string_codec cars_Status
        (\<lambda>v s. s\<lparr>cars_Status := v\<rparr>),
      tag ''reapplyTime'' True int64_codec cars_ReapplyTime
        (\<lambda>v s. s\<lparr>cars_ReapplyTime := v\<rparr>),
      tag ''failReason'' True (slice_codec string_codec) cars_FailReason
        (\<lambda>v s. s\<lparr>cars_FailReason := v\<rparr>),
      tag ''currency'' False string_codec cars_Currency
        (\<lambda>v s. s\<lparr>cars_Currency := v\<rparr>),
      tag ''creditInfo'' True (pointer_codec credit_info_codec) cars_CreditInfo
        (\<lambda>v s. s\<lparr>cars_CreditInfo := v\<rparr>),
      tag ''loanCreditInfo'' True (pointer_codec loan_credit_info_codec) cars_LoanCreditInfo
        (\<lambda>v s. s\<lparr>cars_LoanCreditInfo := v\<rparr>),
      tag ''billDay'' True int_codec cars_BillDay
        (\<lambda>v s. s\<lparr>cars_BillDay := v\<rparr>),
      tag ''payDay'' True int_codec cars_PayDay
        (\<lambda>v s. s\<lparr>cars_PayDay := v\<rparr>),
      tag ''extendInfo'' True map_codec cars_ExtendInfo
        (\<lambda>v s. s\<lparr>cars_ExtendInfo := v\<rparr>)]
     \<lparr>cars_ExternalReferenceUID = [], cars_Status = [], cars_ReapplyTime = 0, cars_FailReason = [], cars_Currency = [], cars_CreditInfo = None, cars_LoanCreditInfo = None, cars_BillDay = 0, cars_PayDay = 0, cars_ExtendInfo = []\<rparr>"

lemma credit_application_result_codec_ok [codec_laws]: "codec_ok credit_application_result_codec"
  unfolding credit_application_result_codec_def
  by (rule struct_codec_ok) (simp_all add: rebuild_tag codec_laws)

definition credit_application_response_codec :: "credit_application_response codec" where
  "credit_application_response_codec = struct_codec
     [tag ''code'' False string_codec carsp_Code
        (\<lambda>v s. s\<lparr>carsp_Code := v\<rparr>),
      tag ''message'' False string_codec carsp_Message
        (\<lambda>v s. s\<lparr>carsp_Message := v\<rparr>),
      tag ''data'' True (pointer_codec credit_application_result_codec) carsp_Data
        (\<lambda>v s. s\<lparr>carsp_Data := v\<rparr>)]
     \<lparr>carsp_Code = [], carsp_Message = [], carsp_Data = None\<rparr>"

lemma credit_application_response_codec_ok [codec_laws]: "codec_ok credit_application_response_codec"
  unfolding credit_application_response_codec_def
  by (rule struct_codec_ok) (simp_all add: rebuild_tag codec_laws)

definition credit_application_collect_query_result_codec :: "credit_application_collect_query_result codec" where
  "credit_application_collect_query_result_codec = struct_codec
     [tag ''requestId'' False string_codec cacqr_RequestID
        (\<lambda>v s. s\<lparr>cacqr_RequestID := v\<rparr>),
      tag ''externalReferenceUid'' False string_codec cacqr_ExternalReferenceUID
        (\<lambda>v s. s\<lparr>cacqr_ExternalReferenceUID := v\<rparr>),
      tag ''status'' False string_codec cacqr_Status
        (\<lambda>v s. s\<lparr>cacqr_Status := v\<rparr>),
      tag ''failReason'' True string_codec cacqr_FailReason
        (\<lambda>v s. s\<lparr>cacqr_FailReason := v\<rparr>),
      tag ''extendInfo'' True map_codec cacqr_ExtendInfo
        (\<lambda>v s. s\<lparr>cacqr_ExtendInfo := v\<rparr>)]
     \<lparr>cacqr_RequestID = [], cacqr_ExternalReferenceUID = [], cacqr_Status = [], cacqr_FailReason = [], cacqr_ExtendInfo = []\<rparr>"

lemma credit_application_collect_query_result_codec_ok [codec_laws]: "codec_ok credit_application_collect_query_result_codec"
  unfolding credit_application_collect_query_result_codec_def
  by (rule struct_codec_ok) (simp_all add: rebuild_tag codec_laws)

definition credit_information_collect_response_codec :: "credit_information_collect_response codec" where
  "credit_information_collect_response_codec = struct_codec
     [tag ''code'' False string_codec cicr_Code
        (\<lambda>v s. s\<lparr>cicr_Code := v\<rparr>),
      tag ''message'' False string_codec cicr_Message
        (\<lambda>v s. s\<lparr>cicr_Message := v\<rparr>),
      tag ''data'' True (pointer_codec credit_application_collect_query_result_codec) cicr_Data
        (\<lambda>v s. s\<lparr>cicr_Data := v\<rparr>)]
     \<lparr>cicr_Code = [], cicr_Message = [], cicr_Data = None\<rparr>"

lemma credit_information_collect_response_codec_ok [codec_laws]: "codec_ok credit_information_collect_response_codec"
  unfolding credit_information_collect_response_codec_def
  by (rule struct_codec_ok) (simp_all add: rebuild_tag codec_laws)

definition record_info_codec :: "record_info codec" where
  "record_info_codec = struct_codec
     [tag ''requestId'' True string_codec rec_RequestID
        (\<lambda>v s. s\<lparr>rec_RequestID := v\<rparr>),
      tag ''changeAmount'' True string_codec rec_ChangeAmount
        (\<lambda>v s. s\<lparr>rec_ChangeAmount := v\<rparr>),
      tag ''event'' True string_codec rec_Event
        (\<lambda>v s. s\<lparr>rec_Event := v\<rparr>),
      tag ''validTil'' True int64_codec rec_ValidTil
        (\<lambda>v s. s\<lparr>rec_ValidTil := v\<rparr>),
      tag ''time'' True int64_codec rec_Time
        (\<lambda>v s. s\<lparr>rec_Time := v\<rparr>)]
     \<lparr>rec_RequestID = [], rec_ChangeAmount = [], rec_Event = [], rec_ValidTil = 0, rec_Time = 0\<rparr>"

lemma record_info_codec_ok [codec_laws]: "codec_ok record_info_codec"
  unfolding record_info_codec_def
  by (rule struct_codec_ok) (simp_all add: rebuild_tag codec_laws)

definition credit_paginator_codec :: "credit_paginator codec" where
  "credit_paginator_codec = struct_codec
     [tag ''start'' True int_codec cpg_Start
        (\<lambda>v s. s\<lparr>cpg_Start := v\<rparr>),
      tag ''count'' True int_codec cpg_Count
        (\<lambda>v s. s\<lparr>cpg_Count := v\<rparr>),
      tag ''totalCount'' True int_codec cpg_TotalCount
        (\<lambda>v s. s\<lparr>cpg_TotalCount := v\<rparr>)]
     \<lparr>cpg_Start = 0, cpg_Count = 0, cpg_TotalCount = 0\<rparr>"

lemma credit_paginator_codec_ok [codec_laws]: "codec_ok credit_paginator_codec"
  unfolding credit_paginator_codec_def
  by (rule struct_codec_ok) (simp_all add: rebuild_tag codec_laws)

definition credit_change_history_response_codec :: "credit_change_history_response codec" where
  "credit_change_history_response_codec = struct_codec
     [tag ''externalReferenceUid'' False string_codec cchr_ExternalReferenceUID
        (\<lambda>v s. s\<lparr>cchr_ExternalReferenceUID := v\<rparr>),
      tag ''type'' False string_codec cchr_Type
        (\<lambda>v s. s\<lparr>cchr_Type := v\<rparr>),
      tag ''currency'' False string_codec cchr_Currency
        (\<lambda>v s. s\<lparr>cchr_Currency := v\<rparr>),
      tag ''recordInfo'' False (slice_codec record_info_codec) cchr_RecordInfo
        (\<lambda>v s. s\<lparr>cchr_RecordInfo := v\<rparr>),
      tag ''paginator'' True (pointer_codec credit_paginator_codec) cchr_Paginator
        (\<lambda>v s. s\<lparr>cchr_Paginator := v\<rparr>)]
     \<lparr>cchr_ExternalReferenceUID = [], cchr_Type = [], cchr_Currency = [], cchr_RecordInfo = [], cchr_Paginator = None\<rparr>"

lemma credit_change_history_response_codec_ok [codec_laws]: "codec_ok credit_change_history_response_codec"
  unfolding credit_change_history_response_codec_def
  by (rule struct_codec_ok) (simp_all add: rebuild_tag codec_laws)

definition balance_history_response_codec :: "balance_history_response codec" where
  "balance_history_response_codec = struct_codec
     [tag ''code'' False string_codec bhrsp_Code
        (\<lambda>v s. s\<lparr>bhrsp_Code := v\<rparr>),
      tag ''message'' False string_codec bhrsp_Message
        (\<lambda>v s. s\<lparr>bhrsp_Message := v\<rparr>),
      tag ''data'' True (pointer_codec credit_change_history_response_codec) bhrsp_Data
        (\<lambda>v s. s\<lparr>bhrsp_Data := v\<rparr>)]
     \<lparr>bhrsp_Code = [], bhrsp_Message = [], bhrsp_Data = None\<rparr>"

lemma balance_history_response_codec_ok [codec_laws]: "codec_ok balance_history_response_codec"
  unfolding balance_history_response_codec_def
  by (rule struct_codec_ok) (simp_all add: rebuild_tag codec_laws)

definition modify_application_info_response_codec :: "modify_application_info_response codec" where
  "modify_application_info_response_codec = struct_codec
     [tag ''code'' False string_codec mair_Code
        (\<lambda>v s. s\<lparr>mair_Code := v\<rparr>),
      tag ''message'' False string_codec mair_Message
        (\<lambda>v s. s\<lparr>mair_Message := v\<rparr>)]
     \<lparr>mair_Code = [], mair_Message = []\<rparr>"

lemma modify_application_info_response_codec_ok [codec_laws]: "codec_ok modify_application_info_response_codec"
  unfolding modify_application_info_response_codec_def
  by (rule struct_codec_ok) (simp_all add: rebuild_tag codec_laws)

definition close_account_response_codec :: "close_account_response codec" where
  "close_account_response_codec = struct_codec
     [tag ''code'' False string_codec clar_Code
        (\<lambda>v s. s\<lparr>clar_Code := v\<rparr>),
      tag ''message'' False string_codec clar_Message
        (\<lambda>v s. s\<lparr>clar_Message := v\<rparr>)]
     \<lparr>clar_Code = [], clar_Message = []\<rparr>"

lemma close_account_response_codec_ok [codec_laws]: "codec_ok close_account_response_codec"
  unfolding close_account_response_codec_def
  by (rule struct_codec_ok) (simp_all add: rebuild_tag codec_laws)

section \<open>atomefin/callback\<close>

definition account_change_credit_info_codec :: "account_change_credit_info codec" where
  "account_change_credit_info_codec = struct_codec
     [tag ''totalCredit'' False int64_codec acci_TotalCredit
        (\<lambda>v s. s\<lparr>acci_TotalCredit := v\<rparr>),
      tag ''availableCredit'' False int64_codec acci_AvailableCredit
        (\<lambda>v s. s\<lparr>acci_AvailableCredit := v\<rparr>),
      tag ''usedCredit'' False int64_codec acci_UsedCredit
        (\<lambda>v s. s\<lparr>acci_UsedCredit := v\<rparr>),
      tag ''lateFeeAmount'' True int64_codec acci_LateFeeAmount
        (\<lambda>v s. s\<lparr>acci_LateFeeAmount := v\<rparr>),
      tag ''overpaidAmount'' True int64_codec acci_OverpaidAmount
        (\<lambda>v s. s\<lparr>acci_OverpaidAmount := v\<rparr>),
      tag ''userStatus'' False string_codec acci_UserStatus
        (\<lambda>v s. s\<lparr>acci_UserStatus := v\<rparr>)]
     \<lparr>acci_TotalCredit = 0, acci_AvailableCredit = 0, acci_UsedCredit = 0, acci_LateFeeAmount = 0, acci_OverpaidAmount = 0, acci_UserStatus = []\<rparr>"

lemma account_change_credit_info_codec_ok [codec_laws]: "codec_ok account_change_credit_info_codec"
  unfolding account_change_credit_info_codec_def
  by (rule struct_codec_ok) (simp_all add: rebuild_tag codec_laws)

definition account_change_extend_info_codec :: "account_change_extend_info codec" where
  "account_change_extend_info_codec = struct_codec
     [tag ''tempCreditLimitAdjustmentValidTil'' True int64_codec acei_TempCreditLimitAdjustmentValidTil
        (\<lambda>v s. s\<lparr>acei_TempCreditLimitAdjustmentValidTil := v\<rparr>),
      tag ''creditLimitAdjustmentReason'' True string_codec acei_CreditLimitAdjustmentReason
        (\<lambda>v s. s\<lparr>acei_CreditLimitAdjustmentReason := v\<rparr>)]
     \<lparr>acei_TempCreditLimitAdjustmentValidTil = 0, acei_CreditLimitAdjustmentReason = []\<rparr>"

lemma account_change_extend_info_codec_ok [codec_laws]: "codec_ok account_change_extend_info_codec"
  unfolding account_change_extend_info_codec_def
  by (rule struct_codec_ok) (simp_all add: rebuild_tag codec_laws)

definition account_change_event_codec :: "account_change_event codec" where
  "account_change_event_codec = struct_codec
     [tag ''callbackRequestId'' False string_codec ace_CallbackRequestID
        (\<lambda>v s. s\<lparr>ace_CallbackRequestID := v\<rparr>),
      tag ''externalReferenceUid'' False string_codec ace_ExternalReferenceUID
        (\<lambda>v s. s\<lparr>ace_ExternalReferenceUID := v\<rparr>),
      tag ''externalRequestId'' True string_codec ace_ExternalRequestID
        (\<lambda>v s. s\<lparr>ace_ExternalRequestID := v\<rparr>),
      tag ''event'' False string_codec ace_Event
        (\<lambda>v s. s\<lparr>ace_Event := v\<rparr>),
      tag ''scene'' False string_codec ace_Scene
        (\<lambda>v s. s\<lparr>ace_Scene := v\<rparr>),
      tag ''previousStatus'' True string_codec ace_PreviousStatus
        (\<lambda>v s. s\<lparr>ace_PreviousStatus := v\<rparr>),
      tag ''currentStatus'' True string_codec ace_CurrentStatus
        (\<lambda>v s. s\<lparr>ace_CurrentStatus := v\<rparr>),
      tag ''currency'' False string_codec ace_Currency
        (\<lambda>v s. s\<lparr>ace_Currency := v\<rparr>),
      tag ''amountChange'' True (pointer_codec int64_codec) ace_AmountChange
        (\<lambda>v s. s\<lparr>ace_AmountChange := v\<rparr>),
      tag ''version'' True int64_codec ace_Version
        (\<lambda>v s. s\<lparr>ace_Version := v\<rparr>),
      tag ''creditInfo'' False (pointer_codec account_change_credit_info_codec) ace_CreditInfo
        (\<lambda>v s. s\<lparr>ace_CreditInfo := v\<rparr>),
      tag ''extendInfo'' True (pointer_codec account_change_extend_info_codec) ace_ExtendInfo
        (\<lambda>v s. s\<lparr>ace_ExtendInfo := v\<rparr>)]
     \<lparr>ace_CallbackRequestID = [], ace_ExternalReferenceUID = [], ace_ExternalRequestID = [], ace_Event = [], ace_Scene = [], ace_PreviousStatus = [], ace_CurrentStatus = [], ace_Currency = [], ace_AmountChange = None, ace_Version = 0, ace_CreditInfo = None, ace_ExtendInfo = None\<rparr>"

lemma account_change_event_codec_ok [codec_laws]: "codec_ok account_change_event_codec"
  unfolding account_change_event_codec_def
  by (rule struct_codec_ok) (simp_all add: rebuild_tag codec_laws)

end
