(* ===== verification/Mock_Client.thy ===== *)
theory Mock_Client
  imports Mock_Server
begin

text \<open>
  atomefin/mock: the Fire*Callback helpers of callback.go and the construction of the mock Client
  in client.go.  An http.Handler is a function from the request to its reply.  A call of
  testing.TB's Fatalf ends the test and is the error result; the texts given to Errorf are the
  list of failures.
\<close>

section \<open>callback.go\<close>

record fireConfig =
  signerKeyPEM :: bytes
  allowMockKey :: bool
  verifyCount :: int
  skipResponseAssertion :: bool

type_synonym fire_option = "fireConfig \<Rightarrow> fireConfig"

definition WithFireSignerKeyPEM :: "bytes \<Rightarrow> fire_option" where
  "WithFireSignerKeyPEM k c = c\<lparr>signerKeyPEM := k\<rparr>"

definition WithFireMockKey :: fire_option where
  "WithFireMockKey c = c\<lparr>allowMockKey := True\<rparr>"

definition WithFireVerifyCount :: "int \<Rightarrow> fire_option" where
  "WithFireVerifyCount n c = c\<lparr>verifyCount := n\<rparr>"

definition WithFireSkipResponseCheck :: fire_option where
  "WithFireSkipResponseCheck c = c\<lparr>skipResponseAssertion := True\<rparr>"

fun apply_fire_options :: "fire_option option list \<Rightarrow> fireConfig \<Rightarrow> fireConfig" where
  "apply_fire_options [] c = c"
| "apply_fire_options (None # os) c = apply_fire_options os c"
| "apply_fire_options (Some f # os) c = apply_fire_options os (f c)"

definition resolveFireKeyPEM :: "bytes \<Rightarrow> fireConfig \<Rightarrow> go_error + bytes" where
  "resolveFireKeyPEM mockPriv cfg =
     (if signerKeyPEM cfg \<noteq> [] then Inr (signerKeyPEM cfg)
      else if allowMockKey cfg then Inr mockPriv
      else Inl (ErrorString (''mock.Fire*Callback: no signing key supplied '' @ [CHR 0xE2, CHR 0x80, CHR 0x94] @
        '' pass WithFireSignerKeyPEM(priv) or opt-in via WithFireMockKey'')))"

definition bytes_contains :: "bytes \<Rightarrow> bytes \<Rightarrow> bool" where
  "bytes_contains b sub \<longleftrightarrow> list_ex (\<lambda>i. take (length sub) (drop i b) = sub) [0..<Suc (length b)]"

definition assertSuccessAck :: "string \<Rightarrow> http_reply \<Rightarrow> string list" where
  "assertSuccessAck path resp =
     (if rp_status resp \<noteq> 200 then
        [''mock.Fire*Callback '' @ path @ '': status = '' @ itoa (rp_status resp) @ '', want 200; body: '' @ rp_body resp]
      else if rp_body resp \<noteq> [] \<and> \<not> bytes_contains (rp_body resp) ''SUCCESS'' then
        [''mock.Fire*Callback '' @ path @ '': ack body does not contain SUCCESS: '' @ rp_body resp]
      else [])"

definition fire ::
  "go_lib \<Rightarrow> bytes \<Rightarrow> (server_request \<Rightarrow> http_reply) option \<Rightarrow> string \<Rightarrow> go_error + bytes \<Rightarrow> fire_option option list \<Rightarrow>
   go_error + (http_reply \<times> string list)" where
  "fire L mockPriv h path event_json opts =
     (let cfg = apply_fire_options opts \<lparr>signerKeyPEM = [], allowMockKey = False, verifyCount = 0, skipResponseAssertion = False\<rparr> in
      case h of
        None \<Rightarrow> Inl (ErrorString ''mock.Fire*Callback: nil http.Handler'')
      | Some handler \<Rightarrow>
          (case event_json of
             Inl err \<Rightarrow> Inl (WrapError ''mock.Fire*Callback: marshal event: '' err [])
           | Inr body \<Rightarrow>
               rbind (resolveFireKeyPEM mockPriv cfg) (\<lambda>pem.
                 case signBodyWithPEM L None body pem of
                   Inl err \<Rightarrow> Inl (WrapError ''mock.Fire*Callback: sign body: '' err [])
                 | Inr authz \<Rightarrow>
                     let resp = handler (callback_request path body authz None) in
                     Inr (resp,
                       (if verifyCount cfg > 0 \<and> verifyCount cfg \<noteq> 1 then
                          [''mock.Fire*Callback: handler invocation count = 1, want '' @ itoa (verifyCount cfg)] else []) @
                       (if skipResponseAssertion cfg then [] else assertSuccessAck path resp)))))"

text \<open>The seven helpers: a nil event ends the test, otherwise the event's encoding is fired at its path.\<close>

definition fire_event ::
  "string \<Rightarrow> string \<Rightarrow> go_lib \<Rightarrow> bytes \<Rightarrow> ('e \<Rightarrow> go_error + bytes) \<Rightarrow> (server_request \<Rightarrow> http_reply) option \<Rightarrow> 'e option \<Rightarrow>
   fire_option option list \<Rightarrow> go_error + (http_reply \<times> string list)" where
  "fire_event name path L mockPriv marshal h event opts =
     (case event of
        None \<Rightarrow> Inl (ErrorString (''mock.'' @ name @ '': nil event''))
      | Some e \<Rightarrow> fire L mockPriv h path (marshal e) opts)"

definition FireAuthCallback ::
  "go_lib \<Rightarrow> bytes \<Rightarrow> (auth_response \<Rightarrow> go_error + bytes) \<Rightarrow> (server_request \<Rightarrow> http_reply) option \<Rightarrow> auth_response option \<Rightarrow>
   fire_option option list \<Rightarrow> go_error + (http_reply \<times> string list)" where
  "FireAuthCallback = fire_event ''FireAuthCallback'' ''/<authNotifyUrl>''"

definition FireCaptureCallback ::
  "go_lib \<Rightarrow> bytes \<Rightarrow> (capture_response \<Rightarrow> go_error + bytes) \<Rightarrow> (server_request \<Rightarrow> http_reply) option \<Rightarrow> capture_response option \<Rightarrow>
   fire_option option list \<Rightarrow> go_error + (http_reply \<times> string list)" where
  "FireCaptureCallback = fire_event ''FireCaptureCallback'' ''/<captureNotifyUrl>''"

definition FireRefundCallback ::
  "go_lib \<Rightarrow> bytes \<Rightarrow> (refund_response \<Rightarrow> go_error + bytes) \<Rightarrow> (server_request \<Rightarrow> http_reply) option \<Rightarrow> refund_response option \<Rightarrow>
   fire_option option list \<Rightarrow> go_error + (http_reply \<times> string list)" where
  "FireRefundCallback = fire_event ''FireRefundCallback'' ''/<refundNotifyUrl>''"

definition FireRepaymentCallback ::
  "go_lib \<Rightarrow> bytes \<Rightarrow> (repayment_response \<Rightarrow> go_error + bytes) \<Rightarrow> (server_request \<Rightarrow> http_reply) option \<Rightarrow> repayment_response option \<Rightarrow>
   fire_option option list \<Rightarrow> go_error + (http_reply \<times> string list)" where
  "FireRepaymentCallback = fire_event ''FireRepaymentCallback'' ''/repayment-callback''"

definition FireAccountChangeCallback ::
  "go_lib \<Rightarrow> bytes \<Rightarrow> (account_change_event \<Rightarrow> go_error + bytes) \<Rightarrow> (server_request \<Rightarrow> http_reply) option \<Rightarrow> account_change_event option \<Rightarrow>
   fire_option option list \<Rightarrow> go_error + (http_reply \<times> string list)" where
  "FireAccountChangeCallback = fire_event ''FireAccountChangeCallback'' ''/account_change_callback''"

definition FireCreditApplicationCallback ::
  "go_lib \<Rightarrow> bytes \<Rightarrow> (credit_application_response \<Rightarrow> go_error + bytes) \<Rightarrow> (server_request \<Rightarrow> http_reply) option \<Rightarrow>
   credit_application_response option \<Rightarrow> fire_option option list \<Rightarrow> go_error + (http_reply \<times> string list)" where
  "FireCreditApplicationCallback = fire_event ''FireCreditApplicationCallback'' ''/<creditApplicationNotifyUrl>''"

definition FireCreditInformationCallback ::
  "go_lib \<Rightarrow> bytes \<Rightarrow> (credit_information_collect_response \<Rightarrow> go_error + bytes) \<Rightarrow> (server_request \<Rightarrow> http_reply) option \<Rightarrow>
   credit_information_collect_response option \<Rightarrow> fire_option option list \<Rightarrow> go_error + (http_reply \<times> string list)" where
  "FireCreditInformationCallback = fire_event ''FireCreditInformationCallback'' ''/<creditInformationNotifyUrl>''"

section \<open>client.go\<close>

text \<open>A nil []byte is None.\<close>

record mockConfig =
  mc_scenario :: scenario
  mc_environment :: environment
  mc_baseURL :: string
  mc_signingPriv :: "bytes option"
  mc_encryptPub :: "bytes option"
  mc_encryptPriv :: "bytes option"
  mc_allowMockKeys :: bool
  mc_verifierPubPEM :: "bytes option"

type_synonym mock_option = "mockConfig \<Rightarrow> go_error + mockConfig"

definition mock_WithScenario :: "scenario option \<Rightarrow> mock_option" where
  "mock_WithScenario sc c =
     (case sc of None \<Rightarrow> Inl (ErrorString ''mock: WithScenario: nil Scenario'') | Some s \<Rightarrow> Inr (c\<lparr>mc_scenario := s\<rparr>))"

definition mock_WithEnvironment :: "environment \<Rightarrow> mock_option" where
  "mock_WithEnvironment env c = Inr (c\<lparr>mc_environment := env, mc_baseURL := []\<rparr>)"

definition mock_WithBaseURL :: "string \<Rightarrow> mock_option" where
  "mock_WithBaseURL url c = Inr (c\<lparr>mc_baseURL := url\<rparr>)"

definition WithSigningKeyPEM :: "bytes option \<Rightarrow> mock_option" where
  "WithSigningKeyPEM pem c =
     (if pem = None \<or> pem = Some [] then Inl (ErrorString ''mock: WithSigningKeyPEM: empty PEM'')
      else Inr (c\<lparr>mc_signingPriv := pem\<rparr>))"

definition WithEncryptKeyPair :: "bytes option \<Rightarrow> bytes option \<Rightarrow> mock_option" where
  "WithEncryptKeyPair atomePub partnerPriv c = Inr (c\<lparr>mc_encryptPub := atomePub, mc_encryptPriv := partnerPriv\<rparr>)"

definition WithVerifierPubCertPEM :: "bytes option \<Rightarrow> mock_option" where
  "WithVerifierPubCertPEM pem c = Inr (c\<lparr>mc_verifierPubPEM := pem\<rparr>)"

definition WithMockKeysAllowed :: mock_option where
  "WithMockKeysAllowed c = Inr (c\<lparr>mc_allowMockKeys := True\<rparr>)"

definition default_mockConfig :: mockConfig where
  "default_mockConfig = \<lparr>mc_scenario = AlwaysSuccess, mc_environment = EnvPre, mc_baseURL = ''https://mock.atome-fin.test'',
     mc_signingPriv = None, mc_encryptPub = None, mc_encryptPriv = None, mc_allowMockKeys = False, mc_verifierPubPEM = None\<rparr>"

fun apply_mock_options :: "mock_option option list \<Rightarrow> mockConfig \<Rightarrow> go_error + mockConfig" where
  "apply_mock_options [] c = Inr c"
| "apply_mock_options (None # os) c = apply_mock_options os c"
| "apply_mock_options (Some f # os) c =
     (case f c of Inl err \<Rightarrow> Inl (WrapError ''mock.NewClient: '' err []) | Inr c' \<Rightarrow> apply_mock_options os c')"

text \<open>The bundled keys, as the embedded files have them.\<close>

record mock_keys =
  mk_signing_priv :: bytes
  mk_signing_pub :: bytes
  mk_encrypt_priv :: bytes
  mk_encrypt_pub :: bytes

text \<open>\<open>generated\<close> is the key that mustGenerateRSAPrivPEM mints; \<open>now\<close> and \<open>ids\<close> are New's clock and id source.\<close>

definition resolve_mock_keys :: "mock_keys \<Rightarrow> bytes \<Rightarrow> mockConfig \<Rightarrow> mockConfig" where
  "resolve_mock_keys K generated c =
     (let or_bundled = (\<lambda>p b. if p = None \<and> mc_allowMockKeys c then Some b else p) in
      c\<lparr>mc_signingPriv := (case mc_signingPriv c of
             Some p \<Rightarrow> Some p
           | None \<Rightarrow> Some (if mc_allowMockKeys c then mk_signing_priv K else generated)),
        mc_verifierPubPEM := or_bundled (mc_verifierPubPEM c) (mk_signing_pub K),
        mc_encryptPub := or_bundled (mc_encryptPub c) (mk_encrypt_pub K),
        mc_encryptPriv := or_bundled (mc_encryptPriv c) (mk_encrypt_priv K)\<rparr>)"

definition atomefin_options :: "go_lib \<Rightarrow> mockConfig \<Rightarrow> client_option option list" where
  "atomefin_options L c =
     [Some (WithEnvironment (mc_environment c)),
      Some (WithPrivateKeyPEM L (case mc_signingPriv c of Some p \<Rightarrow> p | None \<Rightarrow> []) []),
      Some (WithHTTPClient (Some ''mock.Transport''))] @
     (if mc_baseURL c \<noteq> [] then [Some (WithBaseURL L (mc_baseURL c))] else []) @
     (case mc_verifierPubPEM c of Some p \<Rightarrow> [Some (WithAtomePublicCertPEM L p)] | None \<Rightarrow> []) @
     (case mc_encryptPub c of Some p \<Rightarrow> [Some (WithEncryptAtomePublicCertPEM L p)] | None \<Rightarrow> []) @
     (case mc_encryptPriv c of Some p \<Rightarrow> [Some (WithEncryptPrivateKeyPEM L p [])] | None \<Rightarrow> [])"

definition NewClient ::
  "go_lib \<Rightarrow> mock_keys \<Rightarrow> bytes \<Rightarrow> (nat \<Rightarrow> int) \<Rightarrow> (nat \<Rightarrow> string) \<Rightarrow> mock_option option list \<Rightarrow>
   go_error + (client \<times> transport)" where
  "NewClient L K generated now ids opts =
     rbind (apply_mock_options opts default_mockConfig) (\<lambda>cfg0.
       if mc_environment cfg0 = EnvProd then
         Inl (ErrorString (''mock.NewClient: EnvProd is REFUSED '' @ [CHR 0xE2, CHR 0x80, CHR 0x94] @
           '' mock clients must not co-exist with a production environment configuration. Pass WithEnvironment(atomefin.EnvPre) instead.''))
       else let cfg = resolve_mock_keys K generated cfg0 in
         rbind (NewTransport (Some (mc_scenario cfg))) (\<lambda>tr.
           case New L now ids (atomefin_options L cfg) of
             Inl err \<Rightarrow> Inl (WrapError ''mock.NewClient: atomefin.New: '' err [])
           | Inr c \<Rightarrow> Inr (c, tr)))"

section \<open>Properties\<close>

definition inbound_of :: "int64 \<Rightarrow> server_request \<Rightarrow> inbound" where
  "inbound_of t r = \<lparr>in_method = sr_method r, in_header = sr_header r, in_body = Some (sr_body r, None), in_uri = sr_path r,
     in_ctx = sr_ctx r, in_now = t\<rparr>"

lemma FromCertPEMs_verifier:
  assumes "FromCertPEMs L now pems opts = Inr v" "\<forall>f. Some f \<in> set opts \<longrightarrow> callback_option f"
    and "pem \<in> set pems" "LoadPublicCertPEM (lib_x509 L) pem = Inr p"
  shows "\<lparr>Verify = rsa2_Verify (lib_sha256 L) (lib_rsa_verify L) p\<rparr> \<in> set (verifiers v) \<and> hmacClientID v = [] \<and> 0 < sint (bodyLimit v)"
proof -
  let ?f = "\<lambda>i p. rbind (wrap_index ''FromCertPEMs'' i (LoadPublicCertPEM (lib_x509 L) p)) (\<lambda>key.
    wrap_index ''FromCertPEMs'' i (NewRSA2Verifier (lib_sha256 L) (lib_rsa_verify L) (Some key) []))"
  obtain vs where vs: "build_all ?f 0 pems = Inr vs" "NewVerifier now (map Some vs) opts = Inr v"
    using assms(1) by (auto simp: FromCertPEMs_def result_simps split: if_splits)
  obtain j sv where "sv \<in> set vs" "?f j pem = Inr sv" using build_all_mem [OF vs(1) assms(3)] by blast
  then have "\<lparr>Verify = rsa2_Verify (lib_sha256 L) (lib_rsa_verify L) p\<rparr> \<in> set vs"
    using assms(4) by (auto simp: wrap_index_Inr NewRSA2Verifier_Inr)
  then show ?thesis using NewVerifier_Inr [OF vs(2) assms(2)] by simp
qed

text \<open>A request with a valid RSA signature of its body passes the handler.\<close>

lemma rsa_request_passes:
  assumes "\<exists>sv \<in> set (verifiers v). Verify sv None body authz = None" "authz \<noteq> []" "hmacClientID v = []"
    and "0 < sint (bodyLimit v)" "sint (bodyLimit v) < 2 ^ 63 - 1" "int (length body) \<le> sint (bodyLimit v)" "decode body = Inr e"
  shows "handle q marshal decode (Some v) (Some fn) (inbound_of t (callback_request path body authz None)) =
    (case fn e of Some err \<Rightarrow> (writeAck marshal 500 (AckServerError (error_text q err)), [e])
     | None \<Rightarrow> (writeAck marshal 200 AckSuccess, [e]))"
proof -
  let ?r = "inbound_of t (callback_request path body authz None)"
  have rd: "readLimited (in_body ?r) (bodyLimit v) = Inr body"
    using assms(4-6) sint_max_plus_1 [OF assms(5)] by (simp add: readLimited_def read_all_limited_def inbound_of_def callback_request_def)
  have a: "header_get ''Authorization'' (in_header ?r) = authz"
    by (simp add: inbound_of_def callback_request_def header_get_set)
  have ex: "extract_signature v ?r body = Some (authz, body)"
    using assms(2,3) a by (simp add: extract_signature_def Let_def)
  have "Verifier_Verify (Some v) (in_ctx ?r) body authz = None"
    using assms(1,2) by (simp add: Verifier_Verify_None inbound_of_def callback_request_def)
  then show ?thesis using rd ex assms(4,7)
    by (simp add: handle_def handle_request_def split: option.split) (simp add: inbound_of_def callback_request_def)
qed

lemma signBodyWithPEM_signs:
  assumes "LoadPrivateKeyPEM (lib_x509 L) sk_pem [] = Inr k" "lib_rsa_sign L k (lib_sha256 L body) = Inr sig"
  shows "signBodyWithPEM L None body sk_pem = Inr (b64_encode True sig)"
proof -
  have "\<not> key_too_small k"
    using assms(1) by (auto simp: LoadPrivateKeyPEM_def result_simps check_bits_Inr split: option.splits if_splits)
  then show ?thesis using assms by (simp add: signBodyWithPEM_def NewRSA2Signer_def rsa2_Sign_def)
qed

text \<open>A callback fired at a partner's handler arrives: signed with a private key whose public half the handler's
  verifier was built from, the event of FireAuthCallback passes the signature check of AuthHandler
  and reaches the partner's function exactly once, decoded; the helper reports no failure exactly when
  that function returns nil.  The hypotheses are that signing succeeds and verifies under the
  public key, and that the event decodes from its own encoding.\<close>
theorem fired_callback_delivered:
  assumes "FromCertPEMs L now pems opts = Inr v" "\<forall>f. Some f \<in> set opts \<longrightarrow> callback_option f"
    and "pk_pem \<in> set pems" "LoadPublicCertPEM (lib_x509 L) pk_pem = Inr p"
    and "LoadPrivateKeyPEM (lib_x509 L) sk_pem [] = Inr k" "sk_pem \<noteq> []"
    and "\<And>d. \<exists>sig. lib_rsa_sign L k d = Inr sig \<and> sig \<noteq> [] \<and> lib_rsa_verify L p d sig"
    and "encode ev = Inr body" "decode body = Inr ev" "int (length body) \<le> sint (bodyLimit v)" "sint (bodyLimit v) < 2 ^ 63 - 1"
    and "\<And>a. marshal a = Inr (enc a)" "bytes_contains (enc AckSuccess) ''SUCCESS''"
    and "H = AuthHandler q marshal decode (Some v) (Some fn)"
  shows "\<exists>req failures. FireAuthCallback L mockPriv encode (Some (\<lambda>r. fst (H (inbound_of t r)))) (Some ev)
        [Some (WithFireSignerKeyPEM sk_pem)] = Inr (fst (H (inbound_of t req)), failures) \<and>
      snd (H (inbound_of t req)) = [ev] \<and> (failures = [] \<longleftrightarrow> fn ev = None)"
proof -
  obtain sig where sig: "lib_rsa_sign L k (lib_sha256 L body) = Inr sig" "sig \<noteq> []" "lib_rsa_verify L p (lib_sha256 L body) sig"
    using assms(7) by blast
  define authz where "authz = b64_encode True sig"
  have s: "signBodyWithPEM L None body sk_pem = Inr authz" unfolding authz_def by (rule signBodyWithPEM_signs [OF assms(5) sig(1)])
  have ne: "authz \<noteq> []" using sig(2) by (simp add: authz_def b64_encode_Nil_iff)
  note v = FromCertPEMs_verifier [OF assms(1-4)]
  have "rsa2_Verify (lib_sha256 L) (lib_rsa_verify L) p None body authz = None"
    using ne sig(3) by (simp add: rsa2_Verify_def authz_def b64_decode_encode)
  then have ok: "\<exists>sv \<in> set (verifiers v). Verify sv None body authz = None"
    using v by (intro bexI [of _ "\<lparr>Verify = rsa2_Verify (lib_sha256 L) (lib_rsa_verify L) p\<rparr>"]) simp_all
  let ?req = "callback_request ''/<authNotifyUrl>'' body authz None"
  have H: "H (inbound_of t ?req) =
      (case fn ev of Some err \<Rightarrow> (writeAck marshal 500 (AckServerError (error_text q err)), [ev])
       | None \<Rightarrow> (writeAck marshal 200 AckSuccess, [ev]))"
    unfolding assms(14) using rsa_request_passes [where decode = decode and e = ev, OF ok ne _ _ assms(11,10,9)] v by (simp add: AuthHandler_def)
  show ?thesis
    by (intro exI [of _ ?req] exI [of _ "assertSuccessAck ''/<authNotifyUrl>'' (fst (H (inbound_of t ?req)))"])
      (use s assms(6,8,12,13) in \<open>auto simp: FireAuthCallback_def fire_event_def fire_def resolveFireKeyPEM_def WithFireSignerKeyPEM_def Let_def
        H assertSuccessAck_def writeAck_def split: option.split\<close>)
qed

text \<open>A toy PEM in which the key's name is the block, and a toy RSA whose signature repeats the digest.\<close>

definition sample_fire_lib :: go_lib where
  "sample_fire_lib = sample_lib\<lparr>
     lib_x509 := \<lparr>pem_Decode = (\<lambda>d. Some \<lparr>Type = (if d = ''priv'' then ''PRIVATE KEY'' else ''CERTIFICATE''), Headers = [], Bytes = d\<rparr>),
       ParsePKCS1PrivateKey = (\<lambda>d. None), ParsePKCS8PrivateKey = (\<lambda>d. Some (RSAKey \<lparr>N_BitLen = Some 2048, key_material = 5\<rparr>)),
       ParseCertificate = (\<lambda>d. Some (RSAKey \<lparr>N_BitLen = Some 2048, key_material = 6\<rparr>)), ParsePKIXPublicKey = (\<lambda>d. None),
       ParsePKCS1PublicKey = (\<lambda>d. None)\<rparr>,
     lib_rsa_sign := (\<lambda>k d. Inr (CHR ''#'' # d)), lib_rsa_verify := (\<lambda>k d s. s = CHR ''#'' # d)\<rparr>"

definition sample_fire_verifier :: cb_verifier where
  "sample_fire_verifier = \<lparr>verifiers = [\<lparr>Verify = rsa2_Verify (\<lambda>b. b) (\<lambda>k d s. s = CHR ''#'' # d) \<lparr>N_BitLen = Some 2048, key_material = 6\<rparr>\<rparr>],
     bodyLimit = DefaultBodyLimit, cb_clock = Some 0, hmacClientID = [], hmacClockSkew = 0\<rparr>"

definition sample_event :: auth_response where
  "sample_event = \<lparr>arsp_Code = ''SUCCESS'', arsp_Message = ''ok'', arsp_Data = None\<rparr>"

end
