(* ===== verification/Wire_Format.thy ===== *)
theory Wire_Format
  imports Payment_Service Payment_Json Commerce_Service Commerce_Json Credit_Service Credit_Json Mock_Client
begin

text \<open>
  The calls of the SDK with their real encoding: MarshalSigning in place of the encoding
  argument, json.Unmarshal or json.Decoder in place of the decoding one.  What is left as an
  argument are the error values of the library for text it refuses.
\<close>

section \<open>The small structs of the core package\<close>

text \<open>errorEnvelope, whose data is a struct of one field.\<close>

definition error_envelope_codec :: "error_envelope codec" where
  "error_envelope_codec = struct_codec
     [tag ''code'' False string_codec env_Code (\<lambda>v s. s\<lparr>env_Code := v\<rparr>),
      tag ''message'' False string_codec env_Message (\<lambda>v s. s\<lparr>env_Message := v\<rparr>),
      tag ''data'' False (struct_codec [tag ''requestId'' False string_codec (\<lambda>s. s) (\<lambda>v s. v)] [])
        env_RequestID (\<lambda>v s. s\<lparr>env_RequestID := v\<rparr>)]
     \<lparr>env_Code = [], env_Message = [], env_RequestID = []\<rparr>"

lemma error_envelope_codec_ok [codec_laws]: "codec_ok error_envelope_codec"
proof -
  have "codec_ok (struct_codec [tag ''requestId'' False string_codec (\<lambda>s. s) (\<lambda>v s. v)] [])"
    by (rule struct_codec_ok) (simp_all add: rebuild_tag codec_laws)
  then show ?thesis unfolding error_envelope_codec_def
    by (intro struct_codec_ok) (simp_all add: rebuild_tag codec_laws)
qed

definition ack_response_codec :: "ack_response codec" where
  "ack_response_codec = struct_codec
     [tag ''code'' False string_codec ack_Code (\<lambda>v s. s\<lparr>ack_Code := v\<rparr>),
      tag ''message'' False string_codec ack_Message (\<lambda>v s. s\<lparr>ack_Message := v\<rparr>)]
     \<lparr>ack_Code = [], ack_Message = []\<rparr>"

lemma ack_response_codec_ok [codec_laws]: "codec_ok ack_response_codec"
  unfolding ack_response_codec_def
  by (rule struct_codec_ok) (simp_all add: rebuild_tag codec_laws)

record heart_beat_response =
  hb_Code :: string
  hb_Message :: string
  hb_Data :: "(string \<times> json) list"

definition heart_beat_response_codec :: "heart_beat_response codec" where
  "heart_beat_response_codec = struct_codec
     [tag ''code'' False string_codec hb_Code (\<lambda>v s. s\<lparr>hb_Code := v\<rparr>),
      tag ''message'' True string_codec hb_Message (\<lambda>v s. s\<lparr>hb_Message := v\<rparr>),
      tag ''data'' True map_codec hb_Data (\<lambda>v s. s\<lparr>hb_Data := v\<rparr>)]
     \<lparr>hb_Code = [], hb_Message = [], hb_Data = []\<rparr>"

lemma heart_beat_response_codec_ok [codec_laws]: "codec_ok heart_beat_response_codec"
  unfolding heart_beat_response_codec_def
  by (rule struct_codec_ok) (simp_all add: rebuild_tag codec_laws)

definition HeartBeatResponse_IsSuccess :: "heart_beat_response option \<Rightarrow> bool" where
  "HeartBeatResponse_IsSuccess r = (case r of None \<Rightarrow> False | Some x \<Rightarrow> hb_Code x = CodeSuccess)"

section \<open>Decoders\<close>

text \<open>strictDecode of the callback handler, which leaves unknown fields and trailing text alone.\<close>

definition strictDecode :: "(bytes \<Rightarrow> go_error) \<Rightarrow> (bytes \<Rightarrow> go_error) \<Rightarrow> 'v codec \<Rightarrow> bytes \<Rightarrow> go_error + 'v" where
  "strictDecode syntax typing c b = map_sum id fst (decoder_Decode False syntax typing c b)"

text \<open>The decoding of HeartBeatStatus: the second Decode meets the end exactly when only white space is left.\<close>

definition heartbeat_decode ::
  "(bytes \<Rightarrow> go_error) \<Rightarrow> (bytes \<Rightarrow> go_error) \<Rightarrow> bytes \<Rightarrow> go_error + (heart_beat_response \<times> bool)" where
  "heartbeat_decode syntax typing b =
     map_sum id (apsnd (list_all is_ws)) (decoder_Decode False syntax typing heart_beat_response_codec b)"

text \<open>The Unmarshal of decodeAPIError, whose error only counts as one.\<close>

definition envelope_decode :: "bytes \<Rightarrow> error_envelope option" where
  "envelope_decode b =
     (case json_Unmarshal ErrorString ErrorString error_envelope_codec b of
        Inl err \<Rightarrow> None
      | Inr env \<Rightarrow> Some env)"

lemma strictDecode_MarshalSigning:
  assumes "codec_ok c" "wire_ok c v" "MarshalSigning c v = Inr b"
  shows "strictDecode syntax typing c b = Inr v"
  using assms json_round_trip [of "to_json c v" "[]"]
  by (simp add: strictDecode_def decoder_Decode_def MarshalSigning_Inr wire_ok_def codec_ok_def)

section \<open>Requests\<close>

lemma signed_post_body: "signed_post c w path body rq evs \<Longrightarrow> rq' \<in> set (sent_requests evs) \<Longrightarrow> rq_body rq' = body"
  by (auto simp: signed_post_def)

text \<open>\<open>plain\<close> clears the fields a request keeps out of its JSON.\<close>

context submit_call
begin

lemma sent_reads_back:
  assumes "call s w i (MarshalSigning cdc) u p = (Some q', evs, r)" "rq \<in> set (sent_requests evs)"
    and "codec_ok cdc" "to_json cdc (plain q') = to_json cdc q'" "wire_ok cdc (plain q')"
  shows "(\<exists>q. p = Some q \<and> prepare i q = (None, q')) \<and> json_Unmarshal syntax typing cdc (rq_body rq) = Inr (plain q')"
proof -
  have ne: "sent_requests evs \<noteq> []" using assms(2) by auto
  show ?thesis
  proof (rule sent_prepared [OF assms(1) ne])
    fix c q q2 body
    assume h: "p = Some q" "Some q' = Some q2" "prepare i q = (None, q2)" "MarshalSigning cdc q2 = Inr body"
      "(evs, r) = decode_response u path (DoSigned (Some c) w ''POST'' path body (opts q2))"
    obtain a where "signed_post c w path body (finish_request c a (extra_headers (opts q2) [])
       \<lparr>rq_method = ''POST'', rq_url = baseURL c @ path, rq_query = [], rq_header = [], rq_body = body\<rparr>) evs"
      by (rule sent_signed_post [OF h(5) ne])
    then have "rq_body rq = body" using assms(2) by (rule signed_post_body)
    moreover have "MarshalSigning cdc (plain q') = Inr body"
      using h(2,4) assms(4) by (simp add: MarshalSigning_Inr)
    ultimately show ?thesis
      using h(1-3) Unmarshal_MarshalSigning [OF assms(3,5)] by auto
  qed
qed

end

lemma hidden_plain:
  "to_json (auth_request_codec fl) (qa\<lparr>ar_Sessionid := t\<rparr>) = to_json (auth_request_codec fl) qa"
  "to_json payment_plan_request_codec (qp\<lparr>ppr_RequestID := t, ppr_PeriodType := n, ppr_Sessionid := u\<rparr>) =
     to_json payment_plan_request_codec qp"
  "to_json payment_pre_check_request_codec (qk\<lparr>ppcr_RequestID := t, ppcr_PeriodType := n\<rparr>) =
     to_json payment_pre_check_request_codec qk"
  by (simp_all add: auth_request_codec_def payment_plan_request_codec_def payment_pre_check_request_codec_def
      hide_fields_def struct_codec_def tag_def)

lemma plain_wire_ok: "plain q = q \<Longrightarrow> wire_ok c q \<Longrightarrow> wire_ok c (plain q)"
  by simp

text \<open>C7. What goes over the wire can be read: every request an authorisation, capture, re-authorisation, void, payment plan,
  precheck, refund or repayment sends carries the JSON of the request the call validated, and
  json.Unmarshal gets that request back, field by field, from the bytes, less the fields that are
  kept out of the JSON (the session id, and the request id and period of plan and precheck).  The
  encoder is the code's MarshalSigning over the struct tags; the side condition is that the
  strings of the request are UTF-8 and its ints are in range.\<close>

theorem sent_requests_read_back:
  assumes "codec_ok fl"
  shows "(Auth s w i (MarshalSigning (auth_request_codec fl)) ua pa = (Some qa, evs, ra) \<and>
      rq \<in> set (sent_requests evs) \<and> wire_ok (auth_request_codec fl) (qa\<lparr>ar_Sessionid := []\<rparr>) \<longrightarrow>
      validateAuthRequest qa = None \<and>
      json_Unmarshal sx ty (auth_request_codec fl) (rq_body rq) = Inr (qa\<lparr>ar_Sessionid := []\<rparr>)) \<and>
    (Capture s w i (MarshalSigning (capture_request_codec fl)) uc pc = (Some qc, evs, rc) \<and>
      rq \<in> set (sent_requests evs) \<and> wire_ok (capture_request_codec fl) qc \<longrightarrow>
      validateCaptureRequest qc = None \<and> json_Unmarshal sx ty (capture_request_codec fl) (rq_body rq) = Inr qc) \<and>
    (ReAuth s w i (MarshalSigning (re_auth_request_codec fl)) ur pr = (Some qr, evs, rr) \<and>
      rq \<in> set (sent_requests evs) \<and> wire_ok (re_auth_request_codec fl) qr \<longrightarrow>
      validateReAuthRequest qr = None \<and> json_Unmarshal sx ty (re_auth_request_codec fl) (rq_body rq) = Inr qr) \<and>
    (VoidAuth s w i (MarshalSigning void_auth_request_codec) uv pv = (Some qv, evs, rv) \<and>
      rq \<in> set (sent_requests evs) \<and> wire_ok void_auth_request_codec qv \<longrightarrow>
      validateVoidAuthRequest qv = None \<and> json_Unmarshal sx ty void_auth_request_codec (rq_body rq) = Inr qv) \<and>
    (PaymentPlan s w i (MarshalSigning payment_plan_request_codec) up pp = (Some qp, evs, rp) \<and>
      rq \<in> set (sent_requests evs) \<and>
      wire_ok payment_plan_request_codec (qp\<lparr>ppr_RequestID := [], ppr_PeriodType := 0, ppr_Sessionid := []\<rparr>) \<longrightarrow>
      validatePaymentPlanRequest qp = None \<and> json_Unmarshal sx ty payment_plan_request_codec (rq_body rq) =
        Inr (qp\<lparr>ppr_RequestID := [], ppr_PeriodType := 0, ppr_Sessionid := []\<rparr>)) \<and>
    (PaymentPreCheck s w i (MarshalSigning payment_pre_check_request_codec) uk pk = (Some qk, evs, rk) \<and>
      rq \<in> set (sent_requests evs) \<and>
      wire_ok payment_pre_check_request_codec (qk\<lparr>ppcr_RequestID := [], ppcr_PeriodType := 0\<rparr>) \<longrightarrow>
      validatePaymentPreCheckRequest qk = (None, qk) \<and> json_Unmarshal sx ty payment_pre_check_request_codec (rq_body rq) =
        Inr (qk\<lparr>ppcr_RequestID := [], ppcr_PeriodType := 0\<rparr>)) \<and>
    (Refund s w i (MarshalSigning refund_param_codec) uf pf = (Some qf, evs, rf) \<and>
      rq \<in> set (sent_requests evs) \<and> wire_ok refund_param_codec qf \<longrightarrow>
      json_Unmarshal sx ty refund_param_codec (rq_body rq) = Inr qf) \<and>
    (Repayment s w i (MarshalSigning repayment_param_codec) uy py = (Some qy, evs, ry) \<and>
      rq \<in> set (sent_requests evs) \<and> wire_ok repayment_param_codec qy \<longrightarrow>
      json_Unmarshal sx ty repayment_param_codec (rq_body rq) = Inr qy)"
  apply (intro conjI)
  subgoal using auth.sent_reads_back [where plain = "\<lambda>q. q\<lparr>ar_Sessionid := []\<rparr>",
      OF _ _ auth_request_codec_ok [OF assms] hidden_plain(1)] prepare_valid(1) by blast
  subgoal using capture.sent_reads_back [where plain = "\<lambda>q. q", OF _ _ capture_request_codec_ok [OF assms] refl]
      prepare_valid(2) by blast
  subgoal using reauth.sent_reads_back [where plain = "\<lambda>q. q", OF _ _ re_auth_request_codec_ok [OF assms] refl]
      prepare_valid(3) by blast
  subgoal using void.sent_reads_back [where plain = "\<lambda>q. q", OF _ _ void_auth_request_codec_ok refl]
      prepare_valid(4) by blast
  subgoal using plan.sent_reads_back [where plain = "\<lambda>q. q\<lparr>ppr_RequestID := [], ppr_PeriodType := 0, ppr_Sessionid := []\<rparr>",
      OF _ _ payment_plan_request_codec_ok hidden_plain(2)] prepare_valid(5) by blast
  subgoal using precheck.sent_reads_back [where plain = "\<lambda>q. q\<lparr>ppcr_RequestID := [], ppcr_PeriodType := 0\<rparr>",
      OF _ _ payment_pre_check_request_codec_ok hidden_plain(3)] prepare_valid(6) by blast
  subgoal using refund.sent_reads_back [where plain = "\<lambda>q. q", OF _ _ refund_param_codec_ok refl] by blast
  subgoal using repayment.sent_reads_back [where plain = "\<lambda>q. q", OF _ _ repayment_param_codec_ok refl] by blast
  done

text \<open>A codec of the float64 values that are whole numbers.\<close>

definition sample_float_codec :: "float64 codec" where
  "sample_float_codec = \<lparr>to_json = (\<lambda>f. JNumber (itoa (case f of Finite q \<Rightarrow> \<lfloor>q\<rfloor> | _ \<Rightarrow> 0))),
     of_json = (\<lambda>strict j f. case j of
         JNumber n \<Rightarrow> map_option (\<lambda>i. Finite (of_int i)) (parse_int64 n)
       | JNull \<Rightarrow> Some f
       | _ \<Rightarrow> None),
     zero_value = Finite 0, is_empty = (\<lambda>f. f = Finite 0),
     fits = (\<lambda>f. case f of
         Finite q \<Rightarrow> q = of_int \<lfloor>q\<rfloor> \<and> - (2 ^ 63) \<le> \<lfloor>q\<rfloor> \<and> \<lfloor>q\<rfloor> < 2 ^ 63
       | _ \<Rightarrow> False)\<rparr>"

lemma sample_float_codec_ok: "codec_ok sample_float_codec"
  by (simp add: codec_ok_def sample_float_codec_def parse_int64_itoa split: float64.split)

theorem sent_requests_read_back_witness:
  "\<exists>q evs r rq. VoidAuth (Some (Some sample_client)) sample_world ''v1'' (MarshalSigning void_auth_request_codec)
       (\<lambda>b. Inl (ErrorString b)) (Some sample_void) = (Some q, evs, r) \<and> rq \<in> set (sent_requests evs) \<and>
     json_Unmarshal ErrorString ErrorString void_auth_request_codec (rq_body rq) = Inr q"
proof -
  let ?q = "sample_void\<lparr>var_RequestID := ''v1''\<rparr>" and ?m = "MarshalSigning void_auth_request_codec"
  have np: "\<not> bad_path ''/voidAuth''" by (simp add: bad_path_def)
  obtain evs rq where d: "DoSigned (Some sample_client) sample_world ''POST'' ''/voidAuth''
      (json_text (to_json void_auth_request_codec ?q)) [] =
      (evs, Inr \<lparr>StatusCode = 200, Header = [], Body = ''ok''\<rparr>)" "sent_requests evs = [rq, rq]"
    by (rule sample_post [OF np])
  have "validateVoidAuthRequest ?q = None"
    by (simp add: validateVoidAuthRequest_def sample_void_def fail_if_def)
  then obtain r where v: "VoidAuth (Some (Some sample_client)) sample_world ''v1'' ?m (\<lambda>b. Inl (ErrorString b))
      (Some sample_void) = (Some ?q, evs, r)"
    using d(1) by (auto simp: VoidAuth_def checkConfigured_def invoke_def service_Client_def decode_response_def
        sample_void_def MarshalSigning_Inr)
  have "wire_ok void_auth_request_codec ?q"
    by (simp add: wire_ok_def void_auth_request_codec_def codec_eval sample_void_def scrub_ascii)
  then have "json_Unmarshal ErrorString ErrorString void_auth_request_codec (rq_body rq) = Inr ?q"
    using v d(2) sent_requests_read_back [OF sample_float_codec_ok, where qv = ?q and rq = rq and evs = evs]
    by (metis list.set_intros(1))
  then show ?thesis using v d(2) by (intro exI [of _ ?q] exI [of _ evs] exI [of _ r] exI [of _ rq]) simp
qed

section \<open>Errors\<close>

text \<open>Members whose name is none of the struct's, in any case, do not matter to a lenient decoder.\<close>

lemma decode_members_known:
  "decode_members False fs (filter (\<lambda>(k, j). fold_name k \<in> (\<lambda>f. fold_name (fname f)) ` set fs) kvs) s =
     decode_members False fs kvs s"
proof (induction kvs arbitrary: s)
  case (Cons kv kvs)
  obtain k j where kv: "kv = (k, j)" by fastforce
  have "find_field fs k = None" if "fold_name k \<notin> (\<lambda>f. fold_name (fname f)) ` set fs"
  proof -
    have "fold_name (fname f) \<noteq> fold_name k" if "f \<in> set fs" for f
      using that \<open>fold_name k \<notin> _\<close> by (metis image_iff)
    then show ?thesis by (auto simp: find_field_def find_None_iff split: option.split)
  qed
  with Cons show ?case by (auto simp: kv split: option.split)
qed simp

lemma mset_three:
  "mset xs = {#a, b, c#} \<Longrightarrow>
     xs = [a, b, c] \<or> xs = [a, c, b] \<or> xs = [b, a, c] \<or> xs = [b, c, a] \<or> xs = [c, a, b] \<or> xs = [c, b, a]"
proof -
  assume m: "mset xs = {#a, b, c#}"
  then have "length xs = 3" by (metis size_mset size_add_mset size_empty numeral_3_eq_3)
  then obtain x y z where "xs = [x, y, z]" by (auto simp: numeral_3_eq_3 length_Suc_conv)
  then show ?thesis using m by (auto simp: add_eq_conv_ex)
qed

text \<open>C14. What an APIError says.  When the body of an error reply is a JSON object whose code, message and data are those
  of an error envelope, in any order and among whatever other members, the APIError carries
  the envelope's code, message and request id; when the body is empty or no JSON, these stay
  empty.  In every case the status, the endpoint and the raw body are kept.\<close>

theorem api_error_decoded:
  assumes "json_ok max_depth (JObject kvs)"
    and "mset (filter (\<lambda>(k, j). fold_name k \<in> {''CODE'', ''MESSAGE'', ''DATA''}) kvs) =
      {#(''code'', JString cd), (''message'', JString msg), (''data'', JObject [(''requestId'', JString rid)])#}"
  shows "decodeAPIError envelope_decode st ep (json_text (JObject kvs)) =
      \<lparr>HTTPStatus = st, Code = cd, Message = msg, RequestID = rid, Endpoint = ep, Raw = json_text (JObject kvs)\<rparr> \<and>
    (body = [] \<or> json_parse body = None \<longrightarrow> decodeAPIError envelope_decode st ep body =
      \<lparr>HTTPStatus = st, Code = [], Message = [], RequestID = [], Endpoint = ep, Raw = body\<rparr>)"
proof -
  define env where "env = \<lparr>env_Code = cd, env_Message = msg, env_RequestID = rid\<rparr>"
  let ?fs = "[tag ''code'' False string_codec env_Code (\<lambda>v s. s\<lparr>env_Code := v\<rparr>),
      tag ''message'' False string_codec env_Message (\<lambda>v s. s\<lparr>env_Message := v\<rparr>),
      tag ''data'' False (struct_codec [tag ''requestId'' False string_codec (\<lambda>s. s) (\<lambda>v s. v)] [])
        env_RequestID (\<lambda>v s. s\<lparr>env_RequestID := v\<rparr>)]"
  have names: "(\<lambda>f. fold_name (fname f)) ` set ?fs = {''CODE'', ''MESSAGE'', ''DATA''}"
    by (simp add: to_upper_def is_lower_def char_of_def bit_0)
  have "decode_members False ?fs members \<lparr>env_Code = [], env_Message = [], env_RequestID = []\<rparr> = Some env"
    if "mset members = {#(''code'', JString cd), (''message'', JString msg), (''data'', JObject [(''requestId'', JString rid)])#}"
    for members
    using mset_three [OF that] by (elim disjE) (simp_all add: find_field_def tag_def string_codec_def struct_codec_def env_def)
  note any_order = this [OF assms(2)]
  have "decode_members False ?fs kvs \<lparr>env_Code = [], env_Message = [], env_RequestID = []\<rparr> = Some env"
    by (rule trans [OF decode_members_known [of ?fs kvs, unfolded names, symmetric] any_order])
  then have "of_json error_envelope_codec False (JObject kvs) (zero_value error_envelope_codec) = Some env"
    by (simp add: error_envelope_codec_def struct_codec_def)
  then have "envelope_decode (json_text (JObject kvs)) = Some env"
    using json_parse_text [OF assms(1)] by (simp add: envelope_decode_def json_Unmarshal_def)
  moreover have "json_text (JObject kvs) \<noteq> []"
    by (cases kvs) auto
  moreover have "envelope_decode body = None" if "json_parse body = None"
    using that by (simp add: envelope_decode_def json_Unmarshal_def)
  ultimately show ?thesis
    by (auto simp: decodeAPIError_def Let_def env_def)
qed

theorem api_error_decoded_witness:
  "Message (decodeAPIError envelope_decode 422 ''/auth''
     (json_text (JObject [(''data'', JObject [(''requestId'', JString ''r7'')]), (''trace'', JNull),
        (''message'', JString ''no''), (''code'', JString ''BAD'')]))) = ''no''"
proof -
  let ?kvs = "[(''data'', JObject [(''requestId'', JString ''r7'')]), (''trace'', JNull),
        (''message'', JString ''no''), (''code'', JString ''BAD'')]"
  have "json_ok max_depth (JObject ?kvs)" by (simp add: scrub_ascii)
  moreover have "mset (filter (\<lambda>(k, j). fold_name k \<in> {''CODE'', ''MESSAGE'', ''DATA''}) ?kvs) =
      {#(''code'', JString ''BAD''), (''message'', JString ''no''), (''data'', JObject [(''requestId'', JString ''r7'')])#}"
    by (simp add: to_upper_def is_lower_def char_eq_code_iff)
  ultimately show ?thesis
    using api_error_decoded [of ?kvs "''BAD''" "''no''" "''r7''" 422 "''/auth''"] by simp
qed

section \<open>Callbacks\<close>

text \<open>The acknowledgement as it is written.\<close>

lemma ack_text_contains: "bytes_contains (json_text (to_json ack_response_codec AckSuccess)) ''SUCCESS''"
  by (simp add: ack_response_codec_def codec_eval AckSuccess_def CodeSuccess_def json_quote_def quote_plain bytes_contains_def)

text \<open>C34. An event fired at a partner's handler arrives as it is: FireAuthCallback encodes it with MarshalSigning and signs it with a
  private key whose public half the handler's verifier was built from; AuthHandler, decoding with
  strictDecode and answering with its JSON acknowledgement, passes the signature check and hands
  the partner's function that very event, once; the helper reports no failure exactly when the
  function returns nil.  The hypotheses are that RSA signing succeeds and verifies under the public
  key, that the event's strings are UTF-8 and that its text is within the body limit.\<close>

theorem fired_callback_arrives:
  assumes "FromCertPEMs L now pems opts = Inr v" "\<forall>f. Some f \<in> set opts \<longrightarrow> callback_option f"
    and "pk_pem \<in> set pems" "LoadPublicCertPEM (lib_x509 L) pk_pem = Inr p"
    and "LoadPrivateKeyPEM (lib_x509 L) sk_pem [] = Inr k" "sk_pem \<noteq> []"
    and "\<And>d. \<exists>sig. lib_rsa_sign L k d = Inr sig \<and> sig \<noteq> [] \<and> lib_rsa_verify L p d sig"
    and "wire_ok auth_response_codec ev" "int (length (json_text (to_json auth_response_codec ev))) \<le> sint (bodyLimit v)"
    and "sint (bodyLimit v) < 2 ^ 63 - 1"
    and "H = AuthHandler q (MarshalSigning ack_response_codec) (strictDecode sx ty auth_response_codec) (Some v) (Some fn)"
  shows "\<exists>req failures. FireAuthCallback L mockPriv (MarshalSigning auth_response_codec)
        (Some (\<lambda>r. fst (H (inbound_of t r)))) (Some ev) [Some (WithFireSignerKeyPEM sk_pem)] =
          Inr (fst (H (inbound_of t req)), failures) \<and>
      snd (H (inbound_of t req)) = [ev] \<and> (failures = [] \<longleftrightarrow> fn ev = None)"
proof -
  have body: "MarshalSigning auth_response_codec ev = Inr (json_text (to_json auth_response_codec ev))"
    by (rule MarshalSigning_Inr)
  show ?thesis
    using fired_callback_delivered [where encode = "MarshalSigning auth_response_codec" and
        decode = "strictDecode sx ty auth_response_codec" and marshal = "MarshalSigning ack_response_codec" and
        enc = "\<lambda>a. json_text (to_json ack_response_codec a)" and fn = fn,
      OF assms(1-7) body strictDecode_MarshalSigning [OF auth_response_codec_ok assms(8) body] assms(9,10)
        MarshalSigning_Inr ack_text_contains assms(11)] .
qed

theorem fired_callback_arrives_witness:
  "\<exists>reply. FireAuthCallback sample_fire_lib [] (MarshalSigning auth_response_codec)
     (Some (\<lambda>r. fst (AuthHandler id (MarshalSigning ack_response_codec)
       (strictDecode ErrorString ErrorString auth_response_codec) (Some sample_fire_verifier) (Some (\<lambda>e. None)) (inbound_of 0 r))))
     (Some sample_event) [Some (WithFireSignerKeyPEM ''priv'')] = Inr (reply, [])"
proof -
  let ?H = "AuthHandler id (MarshalSigning ack_response_codec) (strictDecode ErrorString ErrorString auth_response_codec)
      (Some sample_fire_verifier) (Some (\<lambda>e. None))"
  have F: "FromCertPEMs sample_fire_lib 0 [''pub''] [] = Inr sample_fire_verifier"
    by (simp add: FromCertPEMs_def sample_fire_lib_def sample_lib_def LoadPublicCertPEM_def expect_rsa_def check_bits_def key_too_small_def
        MinKeyBits_def NewRSA2Verifier_def NewVerifier_def sample_fire_verifier_def map_filter_simps)
  have k: "LoadPublicCertPEM (lib_x509 sample_fire_lib) ''pub'' = Inr \<lparr>N_BitLen = Some 2048, key_material = 6\<rparr>"
    "LoadPrivateKeyPEM (lib_x509 sample_fire_lib) ''priv'' [] = Inr \<lparr>N_BitLen = Some 2048, key_material = 5\<rparr>"
    by (simp_all add: sample_fire_lib_def LoadPublicCertPEM_def LoadPrivateKeyPEM_def expect_rsa_def check_bits_def key_too_small_def MinKeyBits_def)
  have j: "to_json auth_response_codec sample_event = JObject [(''code'', JString ''SUCCESS''), (''message'', JString ''ok'')]"
    "fits auth_response_codec sample_event"
    by (simp_all add: auth_response_codec_def struct_codec_def tag_def string_codec_def pointer_codec_def sample_event_def)
  have "json_ok max_depth (JObject [(''code'', JString ''SUCCESS''), (''message'', JString ''ok'')])" by (simp add: scrub_ascii)
  then have ok: "wire_ok auth_response_codec sample_event" using j by (simp add: wire_ok_def)
  have "length (json_text (to_json auth_response_codec sample_event)) \<le> 100" unfolding j(1) by (simp add: json_quote_def quote_plain)
  moreover have l: "sint (bodyLimit sample_fire_verifier) = 1048576"
    by (simp add: sample_fire_verifier_def)
  ultimately have lim: "int (length (json_text (to_json auth_response_codec sample_event))) \<le> sint (bodyLimit sample_fire_verifier)"
    by simp
  have "\<exists>req failures. FireAuthCallback sample_fire_lib [] (MarshalSigning auth_response_codec)
        (Some (\<lambda>r. fst (?H (inbound_of 0 r)))) (Some sample_event) [Some (WithFireSignerKeyPEM ''priv'')] =
        Inr (fst (?H (inbound_of 0 req)), failures) \<and>
      snd (?H (inbound_of 0 req)) = [sample_event] \<and>
      (failures = [] \<longleftrightarrow> (\<lambda>e :: auth_response. None :: go_error option) sample_event = None)"
    by (rule fired_callback_arrives [OF F _ _ k(1) k(2) _ _ ok lim _ refl]) (simp_all add: l, simp_all add: sample_fire_lib_def)
  then show ?thesis by auto
qed

end
