(* ===== verification/Qa_Marshal.thy ===== *)
theory Qa_Marshal
  imports Wire_Format
begin

text \<open>
  qa/marshal/roundtrip.go, the harness that checks structs against their JSON: the encoder and the
  strict decoder, the round-trip assertions, the walk over the tokens of json.Decoder that looks
  for amounts written as floats, and the scan for the keys of the top-level object.  A type is its
  codec; an assertion is the list of the failures it reports.  The texts of failures keep the
  constant part of the format string.
\<close>

section \<open>Encoding and decoding\<close>

datatype qa_failure = Fatalf string | Errorf string

definition qa_Marshal :: "'v codec \<Rightarrow> 'v \<Rightarrow> go_error + bytes" where
  "qa_Marshal c v = rbind (encoder_Encode c v) (\<lambda>b. Inr (trim_right newline b))"

text \<open>More of json.Decoder, on the text that is left.\<close>

definition decoder_More :: "string \<Rightarrow> bool" where
  "decoder_More rest =
     (case dropWhile is_ws rest of
        [] \<Rightarrow> False
      | c # t \<Rightarrow> c \<noteq> CHR '']'' \<and> c \<noteq> CHR ''}'')"

definition qa_Decode :: "(bytes \<Rightarrow> go_error) \<Rightarrow> (bytes \<Rightarrow> go_error) \<Rightarrow> 'v codec \<Rightarrow> bytes \<Rightarrow> go_error + 'v" where
  "qa_Decode syntax typing c b =
     rbind (decoder_Decode True syntax typing c b) (\<lambda>(v, rest).
       if decoder_More rest then Inl (ErrorString ''trailing data after JSON value'') else Inr v)"

text \<open>t.Fatalf on an error, and the failures of a test that ran to its end or was stopped.\<close>

definition fatal_on :: "string \<Rightarrow> go_error + 'a \<Rightarrow> qa_failure list + 'a" where
  "fatal_on msg r = map_sum (\<lambda>err. [Fatalf msg]) id r"

definition test_log :: "qa_failure list + qa_failure list \<Rightarrow> qa_failure list" where
  "test_log r = case_sum id id r"

definition readFixture :: "(string \<Rightarrow> go_error + bytes) \<Rightarrow> string \<Rightarrow> qa_failure list + bytes" where
  "readFixture files path = map_sum id trim_space (fatal_on ''read fixture'' (files path))"

definition GoldenRoundTrip ::
  "(bytes \<Rightarrow> go_error) \<Rightarrow> (bytes \<Rightarrow> go_error) \<Rightarrow> (string \<Rightarrow> go_error + bytes) \<Rightarrow> 'v codec \<Rightarrow> string \<Rightarrow> qa_failure list" where
  "GoldenRoundTrip syntax typing files c path = test_log
     (rbind (readFixture files path) (\<lambda>fixture.
      rbind (fatal_on ''strict decode failed'' (qa_Decode syntax typing c fixture)) (\<lambda>v1.
      rbind (fatal_on ''first marshal failed'' (qa_Marshal c v1)) (\<lambda>encoded1.
      rbind (fatal_on ''second decode failed on SDK output'' (qa_Decode syntax typing c encoded1)) (\<lambda>v2.
      rbind (fatal_on ''second marshal failed'' (qa_Marshal c v2)) (\<lambda>encoded2.
      if encoded1 \<noteq> encoded2 then Inl [Fatalf ''encoder is not idempotent'']
      else if v1 \<noteq> v2 then Inl [Fatalf ''decoded values differ across round-trip'']
      else Inr []))))))"

definition StrictDecode ::
  "(bytes \<Rightarrow> go_error) \<Rightarrow> (bytes \<Rightarrow> go_error) \<Rightarrow> (string \<Rightarrow> go_error + bytes) \<Rightarrow> 'v codec \<Rightarrow> string \<Rightarrow> qa_failure list" where
  "StrictDecode syntax typing files c path = test_log
     (rbind (readFixture files path) (\<lambda>fixture.
      rbind (fatal_on ''strict decode failed'' (qa_Decode syntax typing c fixture)) (\<lambda>v. Inr [])))"

definition DeepEqualRoundTrip ::
  "(bytes \<Rightarrow> go_error) \<Rightarrow> (bytes \<Rightarrow> go_error) \<Rightarrow> 'v codec \<Rightarrow> 'v \<Rightarrow> qa_failure list" where
  "DeepEqualRoundTrip syntax typing c v = test_log
     (rbind (fatal_on ''marshal'' (qa_Marshal c v)) (\<lambda>b.
      rbind (fatal_on ''decode'' (qa_Decode syntax typing c b)) (\<lambda>out.
      if v \<noteq> out then Inl [Fatalf ''round-trip drift''] else Inr [])))"

section \<open>Amounts\<close>

definition AmountCorpus :: "int64 list" where
  "AmountCorpus = map word_of_int
     [- (2 ^ 63), - (2 ^ 63) + 1, -9999999999999, -1, 0, 1, 9999999999999, 2 ^ 63 - 1 - 1, 2 ^ 63 - 1]"

definition amount_roundtrip ::
  "(bytes \<Rightarrow> go_error) \<Rightarrow> (bytes \<Rightarrow> go_error) \<Rightarrow> 'v codec \<Rightarrow> 'v \<Rightarrow> qa_failure list" where
  "amount_roundtrip syntax typing c v =
     (case qa_Marshal c v of
        Inl err \<Rightarrow> [Errorf ''R10 marshal'']
      | Inr b \<Rightarrow>
          (case qa_Decode syntax typing c b of
             Inl err \<Rightarrow> [Errorf ''R10 strict decode of own output failed'']
           | Inr out \<Rightarrow>
               (if v \<noteq> out then [Errorf ''R10 round-trip drift''] else []) @
               (case qa_Marshal c out of
                  Inl err \<Rightarrow> [Errorf ''R10 re-marshal'']
                | Inr b2 \<Rightarrow> if b \<noteq> b2 then [Errorf ''R10 encoder not idempotent''] else [])))"

definition AssertAmountRoundtrip ::
  "(bytes \<Rightarrow> go_error) \<Rightarrow> (bytes \<Rightarrow> go_error) \<Rightarrow> 'v codec \<Rightarrow> (int64 \<Rightarrow> 'v) \<Rightarrow> qa_failure list" where
  "AssertAmountRoundtrip syntax typing c build =
     concat (map (\<lambda>v. amount_roundtrip syntax typing c (build v)) AmountCorpus)"

definition AssertRejectsFractionalAmount ::
  "(bytes \<Rightarrow> go_error) \<Rightarrow> (bytes \<Rightarrow> go_error) \<Rightarrow> 'v codec \<Rightarrow> bytes \<Rightarrow> qa_failure list" where
  "AssertRejectsFractionalAmount syntax typing c body =
     (case qa_Decode syntax typing c body of
        Inl err \<Rightarrow> []
      | Inr v \<Rightarrow> [Errorf ''R11: expected fractional/exp amount to be rejected''])"

section \<open>The token walk\<close>

text \<open>The state of json.Decoder between tokens, as in encoding/json.\<close>

datatype token_state =
    TokenTopValue | TokenArrayStart | TokenArrayValue | TokenArrayComma
  | TokenObjectStart | TokenObjectKey | TokenObjectColon | TokenObjectValue | TokenObjectComma

record token_decoder =
  td_text :: string
  td_state :: token_state
  td_stack :: "token_state list"

datatype token_error = EndOfInput | BadToken

datatype json_token = Delim char | TokenValue json

definition tokenValueAllowed :: "token_state \<Rightarrow> bool" where
  "tokenValueAllowed s \<longleftrightarrow> s \<in> {TokenTopValue, TokenArrayStart, TokenArrayValue, TokenObjectValue}"

fun tokenValueEnd :: "token_state \<Rightarrow> token_state" where
  "tokenValueEnd TokenArrayStart = TokenArrayComma"
| "tokenValueEnd TokenArrayValue = TokenArrayComma"
| "tokenValueEnd TokenObjectValue = TokenObjectComma"
| "tokenValueEnd s = s"

definition token_open :: "char \<Rightarrow> token_state \<Rightarrow> string \<Rightarrow> token_decoder \<Rightarrow> (token_error + json_token) \<times> token_decoder" where
  "token_open c start rest d =
     (if tokenValueAllowed (td_state d) then
        (Inr (Delim c), \<lparr>td_text = rest, td_state = start, td_stack = td_state d # td_stack d\<rparr>)
      else (Inl BadToken, d))"

definition token_close :: "char \<Rightarrow> token_state set \<Rightarrow> string \<Rightarrow> token_decoder \<Rightarrow> (token_error + json_token) \<times> token_decoder" where
  "token_close c from rest d =
     (case td_stack d of
        s # st \<Rightarrow>
          if td_state d \<in> from then (Inr (Delim c), \<lparr>td_text = rest, td_state = tokenValueEnd s, td_stack = st\<rparr>)
          else (Inl BadToken, d)
      | [] \<Rightarrow> (Inl BadToken, d))"

text \<open>A string, number or word read by the Decode that Token calls.\<close>

definition token_scalar :: "token_state \<Rightarrow> string \<Rightarrow> token_decoder \<Rightarrow> (token_error + json_token) \<times> token_decoder" where
  "token_scalar next_state s d =
     (case json_decode s of
        None \<Rightarrow> (Inl BadToken, d)
      | Some (v, rest) \<Rightarrow> (Inr (TokenValue v), d\<lparr>td_text := rest, td_state := next_state\<rparr>))"

lemma dropWhile_shorter: "dropWhile P s = c # t \<Longrightarrow> length t < length s"
  using length_dropWhile_le [of P s] by simp

function decoder_Token :: "token_decoder \<Rightarrow> (token_error + json_token) \<times> token_decoder" where
  "decoder_Token d =
     (case dropWhile is_ws (td_text d) of
        [] \<Rightarrow> (Inl EndOfInput, d\<lparr>td_text := []\<rparr>)
      | c # t \<Rightarrow>
          if c = CHR ''['' then token_open c TokenArrayStart t d
          else if c = CHR '']'' then token_close c {TokenArrayStart, TokenArrayComma} t d
          else if c = CHR ''{'' then token_open c TokenObjectStart t d
          else if c = CHR ''}'' then token_close c {TokenObjectStart, TokenObjectComma} t d
          else if c = CHR '':'' then
            (if td_state d = TokenObjectColon then decoder_Token (d\<lparr>td_text := t, td_state := TokenObjectValue\<rparr>)
             else (Inl BadToken, d))
          else if c = CHR '','' then
            (if td_state d = TokenArrayComma then decoder_Token (d\<lparr>td_text := t, td_state := TokenArrayValue\<rparr>)
             else if td_state d = TokenObjectComma then decoder_Token (d\<lparr>td_text := t, td_state := TokenObjectKey\<rparr>)
             else (Inl BadToken, d))
          else if c = dquote \<and> td_state d \<in> {TokenObjectStart, TokenObjectKey} then
            token_scalar TokenObjectColon (c # t) d
          else if \<not> tokenValueAllowed (td_state d) then (Inl BadToken, d)
          else token_scalar (tokenValueEnd (td_state d)) (c # t) d)"
  by pat_completeness auto
termination
  by (relation "measure (\<lambda>d. length (td_text d))") (auto dest: dropWhile_shorter)

declare decoder_Token.simps [simp del]

datatype walk_error =
    TokenAt string token_error
  | ObjectKeyAfter string token_error
  | NonStringKeyAfter string
  | CloseObject string token_error
  | CloseArray string token_error
  | AmountAsFloat string string

text \<open>
  walkAmountKeys with its two loops; the first argument bounds the calls and the iterations, None
  means that it was too small.
\<close>

fun walkAmountKeys :: "nat \<Rightarrow> string list \<Rightarrow> string \<Rightarrow> token_decoder \<Rightarrow> (walk_error + token_decoder) option"
  and walk_members :: "nat \<Rightarrow> string list \<Rightarrow> string \<Rightarrow> token_decoder \<Rightarrow> (walk_error + token_decoder) option"
  and walk_elements :: "nat \<Rightarrow> string list \<Rightarrow> string \<Rightarrow> token_decoder \<Rightarrow> (walk_error + token_decoder) option" where
  "walkAmountKeys 0 amountKeys parentKey d = None"
| "walkAmountKeys (Suc n) amountKeys parentKey d =
     (case decoder_Token d of
        (Inl EndOfInput, d') \<Rightarrow> Some (Inr d')
      | (Inl err, d') \<Rightarrow> Some (Inl (TokenAt parentKey err))
      | (Inr (Delim c), d') \<Rightarrow>
          if c = CHR ''{'' then walk_members n amountKeys parentKey d'
          else if c = CHR ''['' then walk_elements n amountKeys parentKey d'
          else Some (Inr d')
      | (Inr (TokenValue (JNumber s)), d') \<Rightarrow>
          if parentKey \<in> set amountKeys \<and> set s \<inter> set ''.eE'' \<noteq> {} then Some (Inl (AmountAsFloat parentKey s))
          else Some (Inr d')
      | (Inr (TokenValue v), d') \<Rightarrow> Some (Inr d'))"
| "walk_members 0 amountKeys parentKey d = None"
| "walk_members (Suc n) amountKeys parentKey d =
     (if decoder_More (td_text d) then
        (case decoder_Token d of
           (Inl err, d') \<Rightarrow> Some (Inl (ObjectKeyAfter parentKey err))
         | (Inr (TokenValue (JString key)), d') \<Rightarrow>
             (case walkAmountKeys n amountKeys key d' of
                Some (Inr d'') \<Rightarrow> walk_members n amountKeys parentKey d''
              | r \<Rightarrow> r)
         | (Inr tok, d') \<Rightarrow> Some (Inl (NonStringKeyAfter parentKey)))
      else
        (case decoder_Token d of
           (Inl err, d') \<Rightarrow> Some (Inl (CloseObject parentKey err))
         | (Inr tok, d') \<Rightarrow> Some (Inr d')))"
| "walk_elements 0 amountKeys parentKey d = None"
| "walk_elements (Suc n) amountKeys parentKey d =
     (if decoder_More (td_text d) then
        (case walkAmountKeys n amountKeys parentKey d of
           Some (Inr d') \<Rightarrow> walk_elements n amountKeys parentKey d'
         | r \<Rightarrow> r)
      else
        (case decoder_Token d of
           (Inl err, d') \<Rightarrow> Some (Inl (CloseArray parentKey err))
         | (Inr tok, d') \<Rightarrow> Some (Inr d')))"

definition AssertAmountKeysAreInteger :: "'v codec \<Rightarrow> 'v \<Rightarrow> string list \<Rightarrow> qa_failure list" where
  "AssertAmountKeysAreInteger c v amountKeys =
     (case qa_Marshal c v of
        Inl err \<Rightarrow> [Fatalf ''R12: marshal failed'']
      | Inr b \<Rightarrow>
          (case walkAmountKeys (2 * length b + 1) amountKeys []
              \<lparr>td_text = b, td_state = TokenTopValue, td_stack = []\<rparr> of
             Some (Inr d) \<Rightarrow> []
           | _ \<Rightarrow> [Errorf ''R12'']))"

section \<open>The scan for top-level keys\<close>

record key_scan =
  ks_depth :: int
  ks_inStr :: bool
  ks_esc :: bool
  ks_name :: string
  ks_collecting :: bool
  ks_expectColon :: bool
  ks_keys :: "string list"

definition collect_byte :: "char \<Rightarrow> key_scan \<Rightarrow> key_scan" where
  "collect_byte c k = (if ks_collecting k then k\<lparr>ks_name := ks_name k @ [c]\<rparr> else k)"

definition scan_byte :: "char \<Rightarrow> key_scan \<Rightarrow> key_scan" where
  "scan_byte c k =
     (if ks_esc k then (collect_byte c k)\<lparr>ks_esc := False\<rparr>
      else if c = backslash \<and> ks_inStr k then (collect_byte c k)\<lparr>ks_esc := True\<rparr>
      else if c = dquote then
        (if ks_depth k = 0 then
           (if \<not> ks_inStr k then k\<lparr>ks_inStr := True, ks_collecting := \<not> ks_expectColon k, ks_name := []\<rparr>
            else if ks_collecting k then
              k\<lparr>ks_inStr := False, ks_keys := ks_name k # ks_keys k, ks_collecting := False, ks_expectColon := True\<rparr>
            else k\<lparr>ks_inStr := False\<rparr>)
         else k\<lparr>ks_inStr := \<not> ks_inStr k\<rparr>)
      else if ks_inStr k then collect_byte c k
      else if c = CHR ''{'' \<or> c = CHR ''['' then k\<lparr>ks_depth := ks_depth k + 1\<rparr>
      else if c = CHR ''}'' \<or> c = CHR '']'' then k\<lparr>ks_depth := ks_depth k - 1\<rparr>
      else if (c = CHR '':'' \<or> c = CHR '','') \<and> ks_depth k = 0 then k\<lparr>ks_expectColon := False\<rparr>
      else k)"

definition hasTopLevelKey :: "bytes \<Rightarrow> string \<Rightarrow> bool" where
  "hasTopLevelKey b key =
     (let s = trim_space b in
      if s = [] \<or> hd s \<noteq> CHR ''{'' \<or> last s \<noteq> CHR ''}'' then False
      else key \<in> set (ks_keys (fold scan_byte (butlast (tl s))
        \<lparr>ks_depth = 0, ks_inStr = False, ks_esc = False, ks_name = [], ks_collecting = False,
         ks_expectColon = False, ks_keys = []\<rparr>)))"

definition AssertOmitemptyZero :: "'v codec \<Rightarrow> string list \<Rightarrow> qa_failure list" where
  "AssertOmitemptyZero c forbiddenKeys = test_log
     (rbind (fatal_on ''marshal zero'' (qa_Marshal c (zero_value c))) (\<lambda>b.
      Inr (map (\<lambda>k. Errorf (''zero-value emitted forbidden key '' @ k)) (filter (hasTopLevelKey b) forbiddenKeys))))"

definition AssertRequiredEmits :: "'v codec \<Rightarrow> string list \<Rightarrow> qa_failure list" where
  "AssertRequiredEmits c requiredKeys = test_log
     (rbind (fatal_on ''marshal zero'' (qa_Marshal c (zero_value c))) (\<lambda>b.
      Inr (map (\<lambda>k. Errorf (''zero-value omitted required key '' @ k))
        (filter (\<lambda>k. \<not> hasTopLevelKey b k) requiredKeys))))"

section \<open>The encoder\<close>

lemma tails_end: "elems_tail vs \<noteq> [] \<and> last (elems_tail vs) = CHR '']''" "members_tail kvs \<noteq> [] \<and> last (members_tail kvs) = CHR ''}''"
  by (induction vs; induction kvs; auto)+

lemma newline_code: "code newline = 10"
  by (simp add: newline_def)

lemma newline_other [simp]: "CHR '']'' \<noteq> newline" "CHR ''}'' \<noteq> newline" "dquote \<noteq> newline" "CHR ''e'' \<noteq> newline" "CHR ''l'' \<noteq> newline"
  by (auto dest: arg_cong [of _ _ code] simp: newline_code)

lemma json_text_end:
  assumes "json_ok d v"
  shows "json_text v \<noteq> [] \<and> last (json_text v) \<noteq> newline"
proof (cases v)
  case (JNumber n)
  then have "list_all number_char n \<and> n \<noteq> []" using assms json_number_chars by auto
  then have "number_char (last n)" "n \<noteq> []" by (auto simp: list_all_iff)
  moreover have "\<not> number_char newline" by (simp add: number_char_def is_digit_def char_eq_code_iff newline_code)
  ultimately show ?thesis using JNumber by auto
next
  case (JArray vs)
  then show ?thesis by (cases vs) (use tails_end in auto)
next
  case (JObject kvs)
  then show ?thesis by (cases kvs) (use tails_end in auto)
qed (auto simp: json_quote_def)

lemma qa_Marshal_text:
  assumes "json_ok d (to_json c v)"
  shows "qa_Marshal c v = Inr (json_text (to_json c v))"
proof -
  let ?s = "json_text (to_json c v)"
  obtain t x where s: "?s = t @ [x]" "x \<noteq> newline"
    using json_text_end [OF assms] by (metis append_butlast_last_id)
  then have "trim_right newline (?s @ [newline]) = ?s"
    by (simp add: trim_right_def)
  then show ?thesis by (simp add: qa_Marshal_def encoder_Encode_def)
qed

lemma wire_Marshal: "wire_ok c v \<Longrightarrow> qa_Marshal c v = Inr (json_text (to_json c v))"
  by (rule qa_Marshal_text [of max_depth]) (simp add: wire_ok_def)

lemma wire_Decode:
  assumes "codec_ok c" "wire_ok c v"
  shows "qa_Decode syntax typing c (json_text (to_json c v)) = Inr v"
  using assms json_round_trip [of "to_json c v" "[]"]
  by (simp add: qa_Decode_def decoder_Decode_def decoder_More_def wire_ok_def codec_ok_def)

text \<open>What follows the value must be white space, or begin with a closing bracket, which More takes
  for the end of an enclosing value.\<close>

lemma qa_Decode_Inr:
  "qa_Decode syntax typing c b = Inr v \<longleftrightarrow>
     (\<exists>j rest. json_decode b = Some (j, rest) \<and> of_json c True j (zero_value c) = Some v \<and>
       (dropWhile is_ws rest = [] \<or> hd (dropWhile is_ws rest) \<in> {CHR '']'', CHR ''}''}))"
  by (auto simp: qa_Decode_def decoder_Decode_def decoder_More_def simp del: dropWhile_eq_Nil_conv split: option.split list.split)

text \<open>What the assertions are to find out, without the text in between: the bytes hold one JSON value
  that the strict decoder (no unknown members) takes for v; and the decoder takes the JSON of v
  for v again.\<close>

definition reads_strictly :: "'v codec \<Rightarrow> bytes \<Rightarrow> 'v \<Rightarrow> bool" where
  "reads_strictly c b v \<longleftrightarrow> (\<exists>j rest. json_decode b = Some (j, rest) \<and> of_json c True j (zero_value c) = Some v \<and>
     (dropWhile is_ws rest = [] \<or> hd (dropWhile is_ws rest) \<in> {CHR '']'', CHR ''}''}))"

definition survives :: "'v codec \<Rightarrow> 'v \<Rightarrow> bool" where
  "survives c v \<longleftrightarrow> of_json c True (to_json c v) (zero_value c) = Some v"

lemma text_Decode:
  assumes "json_ok max_depth (to_json c v)"
  shows "(\<exists>err. qa_Decode syntax typing c (json_text (to_json c v)) = Inl err \<and> of_json c True (to_json c v) (zero_value c) = None) \<or>
    (\<exists>u. qa_Decode syntax typing c (json_text (to_json c v)) = Inr u \<and> of_json c True (to_json c v) (zero_value c) = Some u)"
  using json_round_trip [OF assms, of "[]"]
  by (cases "of_json c True (to_json c v) (zero_value c)") (simp_all add: qa_Decode_def decoder_Decode_def decoder_More_def)

lemma DeepEqual_survives:
  assumes "json_ok max_depth (to_json c v)"
  shows "DeepEqualRoundTrip sx ty c v = [] \<longleftrightarrow> survives c v"
  using text_Decode [OF assms, of sx ty]
  by (auto simp: DeepEqualRoundTrip_def survives_def fatal_on_def test_log_def qa_Marshal_text [OF assms] split: if_splits)

lemma amount_survives:
  assumes "json_ok max_depth (to_json c v)"
  shows "amount_roundtrip sx ty c v = [] \<longleftrightarrow> survives c v"
  using text_Decode [OF assms, of sx ty]
  by (auto simp: amount_roundtrip_def survives_def qa_Marshal_text [OF assms] split: if_splits)

lemma set_AmountCorpus:
  "set AmountCorpus = word_of_int `
     {- (2 ^ 63), - (2 ^ 63) + 1, -9999999999999, -1, 0, 1, 9999999999999, 2 ^ 63 - 2, 2 ^ 63 - 1}"
proof -
  have "2 ^ 63 - 1 - 1 = (2 ^ 63 - 2 :: int)" by simp
  then show ?thesis by (simp only: AmountCorpus_def set_map list.set)
qed

lemma fixture_Decode: "qa_Decode sx ty c b = Inr v \<longleftrightarrow> reads_strictly c b v"
  by (simp only: qa_Decode_Inr reads_strictly_def)

lemma golden_survives:
  assumes "files path = Inr fixture" "reads_strictly c (trim_space fixture) v" "json_ok max_depth (to_json c v)"
  shows "GoldenRoundTrip sx ty files c path = [] \<longleftrightarrow> survives c v"
proof -
  have "qa_Decode sx ty c (trim_space fixture) = Inr v" using assms(2) by (simp only: fixture_Decode)
  then have g: "GoldenRoundTrip sx ty files c path = test_log
      (rbind (fatal_on ''second decode failed on SDK output'' (qa_Decode sx ty c (json_text (to_json c v)))) (\<lambda>v2.
       rbind (fatal_on ''second marshal failed'' (qa_Marshal c v2)) (\<lambda>encoded2.
       if json_text (to_json c v) \<noteq> encoded2 then Inl [Fatalf ''encoder is not idempotent'']
       else if v \<noteq> v2 then Inl [Fatalf ''decoded values differ across round-trip'']
       else Inr [])))"
    using assms(1) by (simp add: GoldenRoundTrip_def readFixture_def fatal_on_def qa_Marshal_text [OF assms(3)])
  from text_Decode [OF assms(3), of sx ty] show ?thesis
  proof
    assume "\<exists>u. qa_Decode sx ty c (json_text (to_json c v)) = Inr u \<and> of_json c True (to_json c v) (zero_value c) = Some u"
    then obtain u where u: "qa_Decode sx ty c (json_text (to_json c v)) = Inr u" "of_json c True (to_json c v) (zero_value c) = Some u" by blast
    show ?thesis
    proof (cases "u = v")
      case True
      then show ?thesis using u by (simp add: g fatal_on_def test_log_def survives_def qa_Marshal_text [OF assms(3)])
    next
      case False
      then show ?thesis using u by (cases "qa_Marshal c u") (simp_all add: g fatal_on_def test_log_def survives_def)
    qed
  qed (auto simp: g fatal_on_def test_log_def survives_def)
qed

lemma reads_strictly_unique: "reads_strictly c b u \<Longrightarrow> reads_strictly c b v \<Longrightarrow> v = u"
  unfolding reads_strictly_def by (metis option.inject prod.inject)

lemma unread_Decode: "(\<nexists>u. reads_strictly c b u) \<longleftrightarrow> (\<exists>err. qa_Decode sx ty c b = Inl err)"
  unfolding fixture_Decode [of sx ty, symmetric] by (cases "qa_Decode sx ty c b") simp_all

lemma unread_fixture:
  assumes "files path = Inr fixture" "\<nexists>u. reads_strictly c (trim_space fixture) u"
  shows "GoldenRoundTrip sx ty files c path \<noteq> []" "StrictDecode sx ty files c path \<noteq> []"
proof -
  obtain err where "qa_Decode sx ty c (trim_space fixture) = Inl err" using assms(2) unread_Decode by blast
  then show "GoldenRoundTrip sx ty files c path \<noteq> []" "StrictDecode sx ty files c path \<noteq> []"
    using assms(1) by (simp_all add: GoldenRoundTrip_def StrictDecode_def readFixture_def fatal_on_def test_log_def)
qed

lemma golden_exact:
  assumes "\<And>fixture u. files path = Inr fixture \<Longrightarrow> reads_strictly c (trim_space fixture) u \<Longrightarrow> json_ok max_depth (to_json c u)"
  shows "GoldenRoundTrip sx ty files c path = [] \<longleftrightarrow>
    (\<exists>fixture u. files path = Inr fixture \<and> reads_strictly c (trim_space fixture) u \<and> survives c u)"
proof (cases "files path")
  case (Inl err)
  then show ?thesis by (simp add: GoldenRoundTrip_def readFixture_def fatal_on_def test_log_def)
next
  case (Inr fixture)
  show ?thesis
  proof (cases "\<exists>u. reads_strictly c (trim_space fixture) u")
    case True
    then obtain u where u: "reads_strictly c (trim_space fixture) u" by blast
    have "GoldenRoundTrip sx ty files c path = [] \<longleftrightarrow> survives c u"
      using Inr u assms [OF Inr u] by (rule golden_survives)
    then show ?thesis using Inr u reads_strictly_unique [OF u] by (metis sum.inject(2))
  next
    case False
    then show ?thesis using unread_fixture(1) [of files path fixture, OF Inr] Inr by (metis sum.inject(2))
  qed
qed

lemma strict_exact:
  "StrictDecode sx ty files c path = [] \<longleftrightarrow>
    (\<exists>fixture u. files path = Inr fixture \<and> reads_strictly c (trim_space fixture) u)"
proof (cases "files path")
  case (Inl err)
  then show ?thesis by (simp add: StrictDecode_def readFixture_def fatal_on_def test_log_def)
next
  case (Inr fixture)
  have "StrictDecode sx ty files c path = []" if "reads_strictly c (trim_space fixture) u" for u
    using that Inr unfolding fixture_Decode [of sx ty, symmetric]
    by (simp add: StrictDecode_def readFixture_def fatal_on_def test_log_def)
  then show ?thesis using unread_fixture(2) [of files path fixture, OF Inr] Inr by (metis sum.inject(2))
qed

lemma fractional_exact: "AssertRejectsFractionalAmount sx ty c body = [] \<longleftrightarrow> (\<nexists>u. reads_strictly c body u)"
  unfolding unread_Decode [of c body sx ty]
  by (cases "qa_Decode sx ty c body") (simp_all add: AssertRejectsFractionalAmount_def)

text \<open>C27. The harness passes a struct exactly when its tags keep every value.  When the JSON of the
  values is within the limits of the decoder, DeepEqualRoundTrip reports nothing exactly when the
  strict decoder takes the JSON of v for v, AssertAmountRoundtrip exactly when that holds of the
  struct built from each of the nine amounts of the corpus, the ends of int64 included, and
  GoldenRoundTrip exactly when the fixture decodes strictly, as one value, to a value that is kept;
  StrictDecode asks only that the fixture decodes and AssertRejectsFractionalAmount that the body
  does not.  A codec with its law keeps every value that can go over the wire, so a failure of
  these assertions is one of the struct's tags.  The bytes the harness encodes are those the SDK
  signs.\<close>

theorem harness_exact:
  assumes "json_ok max_depth (to_json c v)" "\<And>a. json_ok max_depth (to_json c (build a))"
    and "\<forall>fixture u. files path = Inr fixture \<and> reads_strictly c (trim_space fixture) u \<longrightarrow> json_ok max_depth (to_json c u)"
  shows "qa_Marshal c v = MarshalSigning c v \<and>
    (DeepEqualRoundTrip sx ty c v = [] \<longleftrightarrow> survives c v) \<and>
    (AssertAmountRoundtrip sx ty c build = [] \<longleftrightarrow>
       (\<forall>n \<in> {- (2 ^ 63), - (2 ^ 63) + 1, -9999999999999, -1, 0, 1, 9999999999999, 2 ^ 63 - 2, 2 ^ 63 - 1}.
          survives c (build (word_of_int n)))) \<and>
    (GoldenRoundTrip sx ty files c path = [] \<longleftrightarrow>
       (\<exists>fixture u. files path = Inr fixture \<and> reads_strictly c (trim_space fixture) u \<and> survives c u)) \<and>
    (StrictDecode sx ty files c path = [] \<longleftrightarrow>
       (\<exists>fixture u. files path = Inr fixture \<and> reads_strictly c (trim_space fixture) u)) \<and>
    (AssertRejectsFractionalAmount sx ty c body = [] \<longleftrightarrow> (\<nexists>u. reads_strictly c body u)) \<and>
    (codec_ok c \<and> wire_ok c v \<longrightarrow> survives c v)"
proof (intro conjI)
  show "qa_Marshal c v = MarshalSigning c v"
    using qa_Marshal_text [OF assms(1)] by (simp add: MarshalSigning_Inr)
  show "DeepEqualRoundTrip sx ty c v = [] \<longleftrightarrow> survives c v" by (rule DeepEqual_survives [OF assms(1)])
  show "AssertAmountRoundtrip sx ty c build = [] \<longleftrightarrow>
      (\<forall>n \<in> {- (2 ^ 63), - (2 ^ 63) + 1, -9999999999999, -1, 0, 1, 9999999999999, 2 ^ 63 - 2, 2 ^ 63 - 1}.
         survives c (build (word_of_int n)))"
    by (simp only: AssertAmountRoundtrip_def concat_eq_Nil_conv set_map ball_simps amount_survives [OF assms(2)] set_AmountCorpus)
  show "GoldenRoundTrip sx ty files c path = [] \<longleftrightarrow>
      (\<exists>fixture u. files path = Inr fixture \<and> reads_strictly c (trim_space fixture) u \<and> survives c u)"
    using assms(3) by (intro golden_exact) blast
  show "StrictDecode sx ty files c path = [] \<longleftrightarrow>
      (\<exists>fixture u. files path = Inr fixture \<and> reads_strictly c (trim_space fixture) u)"
    by (rule strict_exact)
  show "AssertRejectsFractionalAmount sx ty c body = [] \<longleftrightarrow> (\<nexists>u. reads_strictly c body u)"
    by (rule fractional_exact)
  show "codec_ok c \<and> wire_ok c v \<longrightarrow> survives c v"
    by (simp add: survives_def codec_ok_def wire_ok_def)
qed

text \<open>R11: a number with a fraction or an exponent is no int64.\<close>

lemma read_digits_all: "read_digits acc s = Some n \<Longrightarrow> list_all is_digit s"
  by (induction acc s rule: read_digits.induct) (auto split: if_splits)

lemma fraction_no_int64:
  assumes "set n \<inter> set ''.eE'' \<noteq> {}"
  shows "parse_int64 n = None"
proof -
  have "parse_unsigned u = None" if "set u \<inter> set ''.eE'' \<noteq> {}" for u
    using that read_digits_all [of 0 u] by (cases "read_digits 0 u") (auto simp: parse_unsigned_def list_all_iff is_digit_def)
  then show ?thesis using assms by (cases n) (auto simp: parse_int64_def)
qed

section \<open>The walk\<close>

text \<open>The numbers under the given keys that are not written as integers, in the order of the text.\<close>

fun float_amounts :: "string list \<Rightarrow> string \<Rightarrow> json \<Rightarrow> (string \<times> string) list" where
  "float_amounts keys parent (JNumber n) =
     (if parent \<in> set keys \<and> set n \<inter> set ''.eE'' \<noteq> {} then [(parent, n)] else [])"
| "float_amounts keys parent (JArray vs) = concat (map (float_amounts keys parent) vs)"
| "float_amounts keys parent (JObject kvs) = concat (map (\<lambda>kv. float_amounts keys (fst kv) (snd kv)) kvs)"
| "float_amounts keys parent v = []"

definition verdict :: "(string \<times> string) list \<Rightarrow> token_decoder \<Rightarrow> (walk_error + token_decoder) option" where
  "verdict fs d = Some (case fs of [] \<Rightarrow> Inr d | (k, n) # _ \<Rightarrow> Inl (AmountAsFloat k n))"

lemma verdict_simps:
  "verdict [] d = Some (Inr d)"
  "fs \<noteq> [] \<Longrightarrow> \<exists>e. verdict fs d = Some (Inl e) \<and> verdict (fs @ gs) d' = Some (Inl e)"
  by (cases fs; auto simp: verdict_def split: prod.split)+

text \<open>The first character of a value, and how the decoder stands before it.\<close>

definition starts_value :: "string \<Rightarrow> bool" where
  "starts_value s \<longleftrightarrow> s \<noteq> [] \<and> \<not> is_ws (hd s) \<and> hd s \<notin> set '']}:,''"

lemma json_text_starts: "json_ok d v \<Longrightarrow> starts_value (json_text v @ t)"
proof (cases v)
  case (JNumber n)
  assume "json_ok d v"
  then have "n \<noteq> []" "is_digit (hd n) \<or> hd n = CHR ''-''" using JNumber json_number_chars by auto
  then show ?thesis using JNumber by (auto simp: starts_value_def is_ws_def is_digit_def)
next
  case (JArray vs)
  then show ?thesis by (cases vs) (auto simp: starts_value_def is_ws_def)
next
  case (JObject kvs)
  then show ?thesis by (cases kvs) (auto simp: starts_value_def is_ws_def)
qed (auto simp: starts_value_def is_ws_def json_quote_def)

lemma starts_value_ws: "starts_value s \<Longrightarrow> dropWhile is_ws s = s"
  by (cases s) (auto simp: starts_value_def)

lemma More_simps [simp]:
  "starts_value s \<Longrightarrow> decoder_More s" "decoder_More (CHR '','' # s)"
  "\<not> decoder_More (CHR '']'' # s)" "\<not> decoder_More (CHR ''}'' # s)"
  by (auto simp: decoder_More_def starts_value_ws is_ws_def) (auto simp: starts_value_def split: list.split)

lemma Token_punct [simp]:
  "tokenValueAllowed st \<Longrightarrow> decoder_Token \<lparr>td_text = CHR ''['' # s, td_state = st, td_stack = stk\<rparr> =
     (Inr (Delim (CHR ''['')), \<lparr>td_text = s, td_state = TokenArrayStart, td_stack = st # stk\<rparr>)"
  "tokenValueAllowed st \<Longrightarrow> decoder_Token \<lparr>td_text = CHR ''{'' # s, td_state = st, td_stack = stk\<rparr> =
     (Inr (Delim (CHR ''{'')), \<lparr>td_text = s, td_state = TokenObjectStart, td_stack = st # stk\<rparr>)"
  "st \<in> {TokenArrayStart, TokenArrayComma} \<Longrightarrow> decoder_Token \<lparr>td_text = CHR '']'' # s, td_state = st, td_stack = u # stk\<rparr> =
     (Inr (Delim (CHR '']'')), \<lparr>td_text = s, td_state = tokenValueEnd u, td_stack = stk\<rparr>)"
  "st \<in> {TokenObjectStart, TokenObjectComma} \<Longrightarrow> decoder_Token \<lparr>td_text = CHR ''}'' # s, td_state = st, td_stack = u # stk\<rparr> =
     (Inr (Delim (CHR ''}'')), \<lparr>td_text = s, td_state = tokenValueEnd u, td_stack = stk\<rparr>)"
  "decoder_Token \<lparr>td_text = CHR '','' # s, td_state = TokenArrayComma, td_stack = stk\<rparr> =
     decoder_Token \<lparr>td_text = s, td_state = TokenArrayValue, td_stack = stk\<rparr>"
  "decoder_Token \<lparr>td_text = CHR '','' # s, td_state = TokenObjectComma, td_stack = stk\<rparr> =
     decoder_Token \<lparr>td_text = s, td_state = TokenObjectKey, td_stack = stk\<rparr>"
  "decoder_Token \<lparr>td_text = CHR '':'' # s, td_state = TokenObjectColon, td_stack = stk\<rparr> =
     decoder_Token \<lparr>td_text = s, td_state = TokenObjectValue, td_stack = stk\<rparr>"
  by (subst decoder_Token.simps, auto simp: is_ws_def token_open_def token_close_def)+

lemma Token_key [simp]:
  assumes "scrub k = k" "st \<in> {TokenObjectStart, TokenObjectKey}"
  shows "decoder_Token \<lparr>td_text = json_quote k @ CHR '':'' # s, td_state = st, td_stack = stk\<rparr> =
    (Inr (TokenValue (JString k)), \<lparr>td_text = CHR '':'' # s, td_state = TokenObjectColon, td_stack = stk\<rparr>)"
proof -
  have "json_decode (json_quote k @ CHR '':'' # s) = Some (JString k, CHR '':'' # s)"
    using json_round_trip [of "JString k" "CHR '':'' # s"] assms(1)
    by (simp add: stops_number_def number_char_def is_digit_def)
  then show ?thesis using assms(2)
    by (subst decoder_Token.simps) (auto simp: json_quote_def is_ws_def token_scalar_def)
qed

lemma Token_scalar:
  assumes "json_ok d v" "\<forall>vs. v \<noteq> JArray vs" "\<forall>kvs. v \<noteq> JObject kvs" "tokenValueAllowed st" "stops_number t"
  shows "decoder_Token \<lparr>td_text = json_text v @ t, td_state = st, td_stack = stk\<rparr> =
    (Inr (TokenValue v), \<lparr>td_text = t, td_state = tokenValueEnd st, td_stack = stk\<rparr>)"
proof -
  have "json_ok max_depth v" using assms(1-3) by (cases v) auto
  then have r: "json_decode (json_text v @ t) = Some (v, t)" by (rule json_round_trip) (rule assms(5))
  obtain c u where s: "json_text v @ t = c # u" "\<not> is_ws c" "c \<notin> set '']}:,''"
    using json_text_starts [OF assms(1), of t] by (cases "json_text v @ t") (auto simp: starts_value_def)
  have "c \<noteq> CHR ''['' \<and> c \<noteq> CHR ''{''"
  proof (cases v)
    case (JNumber n)
    then have "n \<noteq> []" "is_digit (hd n) \<or> hd n = CHR ''-''" using assms(1) json_number_chars by auto
    then show ?thesis using JNumber s(1) by (cases n) (auto simp: is_digit_def)
  qed (use s(1) assms(2,3) in \<open>auto simp: json_quote_def split: if_splits\<close>)
  then show ?thesis using s r assms(4)
    by (subst decoder_Token.simps) (auto simp: token_scalar_def tokenValueAllowed_def)
qed

lemma walk_separator [simp]:
  "walkAmountKeys n keys parent \<lparr>td_text = CHR '','' # s, td_state = TokenArrayComma, td_stack = stk\<rparr> =
     walkAmountKeys n keys parent \<lparr>td_text = s, td_state = TokenArrayValue, td_stack = stk\<rparr>"
  "walkAmountKeys n keys parent \<lparr>td_text = CHR '':'' # s, td_state = TokenObjectColon, td_stack = stk\<rparr> =
     walkAmountKeys n keys parent \<lparr>td_text = s, td_state = TokenObjectValue, td_stack = stk\<rparr>"
  by (cases n; simp)+

lemma verdict_then:
  assumes "f d = verdict gs d2"
  shows "(case verdict fs d of Some (Inr d') \<Rightarrow> f d' | r \<Rightarrow> r) = verdict (fs @ gs) d2"
  by (cases fs) (auto simp: verdict_def assms)

lemma walk_scalar:
  assumes "json_ok d v" "\<forall>vs. v \<noteq> JArray vs" "\<forall>kvs. v \<noteq> JObject kvs" "tokenValueAllowed st" "stops_number t" "0 < n"
  shows "walkAmountKeys n keys parent \<lparr>td_text = json_text v @ t, td_state = st, td_stack = stk\<rparr> =
    verdict (float_amounts keys parent v) \<lparr>td_text = t, td_state = tokenValueEnd st, td_stack = stk\<rparr>"
  using assms Token_scalar [OF assms(1-5)] by (cases n; cases v) (auto simp: verdict_def)

lemma allowed_simps [simp]:
  "tokenValueAllowed TokenArrayStart" "tokenValueAllowed TokenArrayValue" "tokenValueAllowed TokenObjectValue"
  "tokenValueAllowed TokenTopValue"
  by (simp_all add: tokenValueAllowed_def)

text \<open>The walk over the text of a value, and its loops over the rest of an array or an object.\<close>

lemma walk_text:
  "json_ok d v \<Longrightarrow> tokenValueAllowed st \<Longrightarrow> stops_number t \<Longrightarrow> 2 * length (json_text v) < n \<Longrightarrow>
     walkAmountKeys n keys parent \<lparr>td_text = json_text v @ t, td_state = st, td_stack = stk\<rparr> =
       verdict (float_amounts keys parent v) \<lparr>td_text = t, td_state = tokenValueEnd st, td_stack = stk\<rparr>"
  "(\<forall>w \<in> set vs. json_ok d w) \<Longrightarrow> 2 * length (elems_tail vs) + 1 < n \<Longrightarrow>
     walk_elements n keys parent \<lparr>td_text = elems_tail vs @ t, td_state = TokenArrayComma, td_stack = st # stk\<rparr> =
       verdict (concat (map (float_amounts keys parent) vs)) \<lparr>td_text = t, td_state = tokenValueEnd st, td_stack = stk\<rparr>"
  "(\<forall>kv \<in> set kvs. scrub (fst kv) = fst kv \<and> json_ok d (snd kv)) \<Longrightarrow> 2 * length (members_tail kvs) + 1 < n \<Longrightarrow>
     walk_members n keys parent \<lparr>td_text = members_tail kvs @ t, td_state = TokenObjectComma, td_stack = st # stk\<rparr> =
       verdict (concat (map (\<lambda>kv. float_amounts keys (fst kv) (snd kv)) kvs))
         \<lparr>td_text = t, td_state = tokenValueEnd st, td_stack = stk\<rparr>"
proof (induction v and vs and kvs arbitrary: d st t n parent stk and d st t n parent stk and d st t n parent stk
    rule: json_text_elems_tail_members_tail.induct)
  case 5
  then obtain m where "n = Suc (Suc m)" by (cases n; cases "n - 1") auto
  then show ?case using 5 by (simp add: verdict_def)
next
  case (6 v vs)
  then obtain m where n: "n = Suc (Suc m)" by (cases n; cases "n - 1") auto
  have v: "json_ok (d - 1) v" "\<forall>w \<in> set vs. json_ok (d - 1) w" using 6(3) by auto
  have ne: "json_text v \<noteq> []" using json_text_end [OF v(1)] by blast
  then have len: "2 * length (json_text v) < m" "2 * length (elems_tail vs) + 1 < m"
    using 6(6) n by (auto simp: neq_Nil_conv)
  let ?d = "\<lparr>td_text = elems_tail vs @ t, td_state = TokenArrayComma, td_stack = st # stk\<rparr>"
  have "decoder_More (json_text v @ elems_tail vs @ t)" using json_text_starts [OF v(1)] by simp
  then show ?case
    using 6(4) n "6.IH"(1) [OF v(1) _ _ len(1), of TokenArrayStart "elems_tail vs @ t" parent "st # stk"]
      verdict_then [where f = "walk_elements m keys parent", OF "6.IH"(2) [OF v(2) len(2)]]
    by simp
next
  case 7
  then obtain m where "n = Suc (Suc m)" by (cases n; cases "n - 1") auto
  then show ?case using 7 by (simp add: verdict_def)
next
  case (8 k v kvs)
  then obtain m where n: "n = Suc (Suc m)" by (cases n; cases "n - 1") auto
  have v: "json_ok (d - 1) v" "\<forall>kv \<in> set kvs. scrub (fst kv) = fst kv \<and> json_ok (d - 1) (snd kv)" "scrub k = k"
    using 8(3) by auto
  have len: "2 * length (json_text v) < m" "2 * length (members_tail kvs) + 1 < m"
    using 8(6) n by (auto simp: json_quote_def)
  have "starts_value (json_quote k @ s)" for s by (simp add: starts_value_def json_quote_def is_ws_def)
  then show ?case
    using 8(4) n v(3) "8.IH"(1) [OF v(1) _ _ len(1), of TokenObjectValue "members_tail kvs @ t" k "st # stk"]
      verdict_then [where f = "walk_members m keys parent", OF "8.IH"(2) [OF v(2) len(2)]]
    by simp
next
  case 9
  then obtain m where "n = Suc m" by (cases n) auto
  then show ?case by (simp add: verdict_def)
next
  case (10 v vs)
  then obtain m where n: "n = Suc m" by (cases n) auto
  have len: "2 * length (json_text v) < m" "2 * length (elems_tail vs) + 1 < m" using 10(4) n by auto
  have v: "json_ok d v" "\<forall>w \<in> set vs. json_ok d w" using 10(3) by auto
  show ?case
    using n "10.IH"(1) [OF v(1) _ _ len(1), of TokenArrayValue "elems_tail vs @ t" parent "st # stk"]
      verdict_then [where f = "walk_elements m keys parent", OF "10.IH"(2) [OF v(2) len(2)]]
    by simp
next
  case 11
  then obtain m where "n = Suc m" by (cases n) auto
  then show ?case by (simp add: verdict_def)
next
  case (12 k v kvs)
  then obtain m where n: "n = Suc m" by (cases n) auto
  have len: "2 * length (json_text v) < m" "2 * length (members_tail kvs) + 1 < m" using 12(4) n by (auto simp: json_quote_def)
  have v: "json_ok d v" "\<forall>kv \<in> set kvs. scrub (fst kv) = fst kv \<and> json_ok d (snd kv)" "scrub k = k" using 12(3) by auto
  show ?case
    using n v(3) "12.IH"(1) [OF v(1) _ _ len(1), of TokenObjectValue "members_tail kvs @ t" k "st # stk"]
      verdict_then [where f = "walk_members m keys parent", OF "12.IH"(2) [OF v(2) len(2)]]
    by simp
qed (rule walk_scalar; simp)+

text \<open>C26. AssertAmountKeysAreInteger finds what it looks for: on a value that can go over the wire it reports a
  failure exactly when some number of the JSON, at any depth, stands under one of the given keys
  (the elements of an array under the key of the array) and is written with a fraction or an
  exponent, and the token walk over the decoder always comes to its end.\<close>

theorem amount_audit_exact:
  assumes "wire_ok c v"
  shows "(AssertAmountKeysAreInteger c v amountKeys = [] \<longleftrightarrow> float_amounts amountKeys [] (to_json c v) = []) \<and>
    walkAmountKeys (2 * length (json_text (to_json c v)) + 1) amountKeys []
      \<lparr>td_text = json_text (to_json c v), td_state = TokenTopValue, td_stack = []\<rparr> \<noteq> None"
proof -
  have "walkAmountKeys (2 * length (json_text (to_json c v)) + 1) amountKeys []
      \<lparr>td_text = json_text (to_json c v), td_state = TokenTopValue, td_stack = []\<rparr> =
      verdict (float_amounts amountKeys [] (to_json c v)) \<lparr>td_text = [], td_state = TokenTopValue, td_stack = []\<rparr>"
    using walk_text(1) [of max_depth "to_json c v" TokenTopValue "[]" _ amountKeys "[]" "[]"] assms
    by (simp del: walkAmountKeys.simps add: wire_ok_def)
  then show ?thesis
    using wire_Marshal [OF assms]
    by (auto simp: AssertAmountKeysAreInteger_def verdict_def split: list.split)
qed

section \<open>The scan\<close>

text \<open>Bytes the scan reads through inside a string.\<close>

definition passes :: "string \<Rightarrow> bool" where
  "passes u \<longleftrightarrow> (\<forall>k. ks_inStr k \<and> \<not> ks_esc k \<longrightarrow>
     fold scan_byte u k = (if ks_collecting k then k\<lparr>ks_name := ks_name k @ u\<rparr> else k))"

lemma passes_append: "passes u \<Longrightarrow> passes v \<Longrightarrow> passes (u @ v)"
  by (auto simp: passes_def)

lemma passes_Nil: "passes []"
  by (simp add: passes_def)

lemma passes_plain: "c \<noteq> backslash \<Longrightarrow> c \<noteq> dquote \<Longrightarrow> passes [c]"
  by (simp add: passes_def scan_byte_def collect_byte_def)

lemma passes_escape: "passes [backslash, c]"
  by (auto simp: passes_def scan_byte_def collect_byte_def)

lemma passes_list: "backslash \<notin> set u \<Longrightarrow> dquote \<notin> set u \<Longrightarrow> passes u"
proof (induction u)
  case (Cons c u)
  then show ?case using passes_append [of "[c]" u] passes_plain [of c] by auto
qed (rule passes_Nil)

lemma passes_escaped: "backslash \<notin> set u \<Longrightarrow> dquote \<notin> set u \<Longrightarrow> passes (backslash # c # u)"
  using passes_append [OF passes_escape passes_list, of u c] by simp

lemma passes_escape_ascii: "passes (escape_ascii c)"
proof -
  have "lowerhex ! i \<in> set lowerhex" if "i < 16" for i
    using that by (intro nth_mem) (simp add: lowerhex_def)
  then have "lowerhex ! i \<noteq> backslash \<and> lowerhex ! i \<noteq> dquote" if "i < 16" for i
    using that by (fastforce simp: lowerhex_def)
  then have h: "lowerhex ! (code c div 16) \<notin> {backslash, dquote}" "lowerhex ! (code c mod 16) \<notin> {backslash, dquote}"
    if "code c < 32" using that by auto
  show ?thesis
    using h by (auto simp: escape_ascii_def intro!: passes_escape passes_escaped passes_plain)
qed

lemma passes_rune:
  assumes "\<not> code c < 0x80" "0 < rune_size (c # s)"
  shows "passes (escape_rune (take (rune_size (c # s)) (c # s)))"
proof -
  let ?n = "rune_size (c # s)"
  have "?n = lead_size c \<and> list_all cont (take (?n - 1) s)"
    using assms(2) by (auto simp: rune_size.simps split: if_splits)
  then have "list_all (\<lambda>x. 0x80 \<le> code x) (take (?n - 1) s)"
    by (auto simp: list_all_iff between_def)
  moreover have "take ?n (c # s) = c # take (?n - 1) s" using assms(2) by (cases ?n) auto
  ultimately have "list_all (\<lambda>x. 0x80 \<le> code x) (take ?n (c # s))" using assms(1) by simp
  then have "backslash \<notin> set (take ?n (c # s))" "dquote \<notin> set (take ?n (c # s))"
    by (auto simp: list_all_iff)
  then show ?thesis by (auto simp: escape_rune_def intro: passes_list passes_escaped)
qed

lemma passes_quote: "passes (quote_chars s)"
proof (induction s rule: quote_chars.induct)
  case (2 c s)
  then show ?case
    using passes_append [OF passes_escaped [of "''fffd''" "CHR ''u''"], of "quote_chars s"]
    by (auto simp: quote_chars.simps(2) Let_def intro!: passes_append passes_escape_ascii passes_rune)
qed (simp add: passes_Nil)

text \<open>Between the parts of a text the scan is outside strings and collects nothing.\<close>

definition idle :: "key_scan \<Rightarrow> bool" where
  "idle k \<longleftrightarrow> \<not> ks_inStr k \<and> \<not> ks_esc k \<and> \<not> ks_collecting k"

lemma scan_quote:
  assumes "idle k"
  shows "fold scan_byte (json_quote s) k =
    (if ks_depth k \<noteq> 0 then k
     else if ks_expectColon k then k\<lparr>ks_name := []\<rparr>
     else k\<lparr>ks_name := quote_chars s, ks_keys := quote_chars s # ks_keys k, ks_expectColon := True\<rparr>)"
  using assms passes_quote [of s]
  by (cases k) (simp add: passes_def json_quote_def idle_def scan_byte_def)

lemma scan_plain:
  assumes "idle k" "list_all (\<lambda>c. c \<notin> set ''{}[]:,'' \<and> c \<noteq> dquote) u"
  shows "fold scan_byte u k = k"
  using assms(2) by (induction u) (use assms(1) in \<open>auto simp: scan_byte_def idle_def\<close>)

lemma scan_letter:
  "idle k \<Longrightarrow> c \<notin> set ''{}[]:,'' \<Longrightarrow> c \<noteq> dquote \<Longrightarrow> scan_byte c k = k"
  by (auto simp: scan_byte_def idle_def)

lemma scan_bracket:
  "idle k \<Longrightarrow> c \<in> set ''{['' \<Longrightarrow> scan_byte c k = k\<lparr>ks_depth := ks_depth k + 1\<rparr>"
  "idle k \<Longrightarrow> c \<in> set ''}]'' \<Longrightarrow> scan_byte c k = k\<lparr>ks_depth := ks_depth k - 1\<rparr>"
  "idle k \<Longrightarrow> c \<in> set '':,'' \<Longrightarrow> scan_byte c k = (if ks_depth k = 0 then k\<lparr>ks_expectColon := False\<rparr> else k)"
  by (auto simp: scan_byte_def idle_def)

lemma idle_simps [simp]: "idle (k\<lparr>ks_depth := n\<rparr>) = idle k" "idle (k\<lparr>ks_name := u\<rparr>) = idle k"
  "idle (k\<lparr>ks_keys := us\<rparr>) = idle k" "idle (k\<lparr>ks_expectColon := b\<rparr>) = idle k"
  by (simp_all add: idle_def)

lemma number_plain: "json_number n \<Longrightarrow> list_all (\<lambda>c. c \<notin> set ''{}[]:,'' \<and> c \<noteq> dquote) n"
  using json_number_chars [of n] by (auto simp: list_all_iff number_char_def is_digit_def)

lemma scan_nested:
  "json_ok d v \<Longrightarrow> idle k \<Longrightarrow> 0 < ks_depth k \<Longrightarrow> fold scan_byte (json_text v) k = k"
  "\<forall>w \<in> set vs. json_ok d w \<Longrightarrow> idle k \<Longrightarrow> 0 < ks_depth k \<Longrightarrow>
     fold scan_byte (elems_tail vs) k = k\<lparr>ks_depth := ks_depth k - 1\<rparr>"
  "\<forall>kv \<in> set kvs. json_ok d (snd kv) \<Longrightarrow> idle k \<Longrightarrow> 0 < ks_depth k \<Longrightarrow>
     fold scan_byte (members_tail kvs) k = k\<lparr>ks_depth := ks_depth k - 1\<rparr>"
proof (induction v and vs and kvs arbitrary: d k and d k and d k rule: json_text_elems_tail_members_tail.induct)
  case (3 n)
  then show ?case by (simp add: scan_plain [OF _ number_plain])
next
  case (6 v vs)
  then show ?case using "6.IH"(1) [of "d - 1" "k\<lparr>ks_depth := ks_depth k + 1\<rparr>"] "6.IH"(2) [of "d - 1" "k\<lparr>ks_depth := ks_depth k + 1\<rparr>"]
    by (simp add: scan_bracket)
next
  case (8 k' v kvs)
  then show ?case using "8.IH"(1) [of "d - 1" "k\<lparr>ks_depth := ks_depth k + 1\<rparr>"] "8.IH"(2) [of "d - 1" "k\<lparr>ks_depth := ks_depth k + 1\<rparr>"]
    by (simp add: scan_bracket scan_quote)
next
  case (10 v vs)
  then show ?case using "10.IH"(1) [of d k] "10.IH"(2) [of d k] by (simp add: scan_bracket)
next
  case (12 k' v kvs)
  then show ?case using "12.IH"(1) [of d k] "12.IH"(2) [of d k] by (simp add: scan_bracket scan_quote)
qed (simp_all add: scan_bracket scan_quote scan_letter)

text \<open>A value of the top level leaves nothing behind, unless it is a string.\<close>

lemma scan_value:
  assumes "json_ok d v" "idle k" "ks_depth k = 0" "\<not> ks_expectColon k"
  shows "\<exists>k'. fold scan_byte (json_text v) k = k' \<and> idle k' \<and> ks_depth k' = 0 \<and>
    set (ks_keys k') = (case v of JString s \<Rightarrow> {quote_chars s} | _ \<Rightarrow> {}) \<union> set (ks_keys k)"
proof (cases v)
  case (JNumber n)
  then show ?thesis using assms by (simp add: scan_plain [OF _ number_plain])
next
  case (JArray vs)
  then show ?thesis using assms scan_nested(1) [of "d - 1" _ "k\<lparr>ks_depth := 1\<rparr>"] scan_nested(2) [of _ "d - 1" "k\<lparr>ks_depth := 1\<rparr>"]
    by (cases vs) (simp_all add: scan_bracket)
next
  case (JObject kvs)
  then show ?thesis using assms scan_nested(1) [of "d - 1" _ "k\<lparr>ks_depth := 1\<rparr>"] scan_nested(3) [of _ "d - 1" "k\<lparr>ks_depth := 1\<rparr>"]
    by (cases kvs; cases "hd kvs") (simp_all add: scan_bracket scan_quote)
qed (use assms in \<open>simp_all add: scan_letter scan_quote\<close>)

text \<open>The strings the scan takes for keys.\<close>

definition scanned_keys :: "(string \<times> json) list \<Rightarrow> string set" where
  "scanned_keys kvs =
     (\<lambda>kv. quote_chars (fst kv)) ` set kvs \<union> {quote_chars s | s. \<exists>n. (n, JString s) \<in> set kvs}"

lemma scanned_keys_Cons:
  "scanned_keys ((n, v) # kvs) =
     {quote_chars n} \<union> (case v of JString s \<Rightarrow> {quote_chars s} | _ \<Rightarrow> {}) \<union> scanned_keys kvs"
  by (cases v) (auto simp: scanned_keys_def)

lemma scanned_keys_iff:
  "key \<in> scanned_keys kvs \<longleftrightarrow>
     (\<exists>kv \<in> set kvs. quote_chars (fst kv) = key \<or> (\<exists>s. snd kv = JString s \<and> quote_chars s = key))"
proof (induction kvs)
  case (Cons kv kvs)
  then show ?case by (cases kv; cases "snd kv") (auto simp: scanned_keys_Cons)
qed (simp add: scanned_keys_def)

lemma scan_member:
  assumes "json_ok d v" "idle k" "ks_depth k = 0" "\<not> ks_expectColon k"
  shows "\<exists>k'. fold scan_byte (json_quote n @ CHR '':'' # json_text v) k = k' \<and> idle k' \<and> ks_depth k' = 0 \<and>
    set (ks_keys k') = {quote_chars n} \<union> (case v of JString s \<Rightarrow> {quote_chars s} | _ \<Rightarrow> {}) \<union> set (ks_keys k)"
  using assms scan_value [OF assms(1), of "k\<lparr>ks_name := quote_chars n, ks_keys := quote_chars n # ks_keys k, ks_expectColon := False\<rparr>"]
  by (simp add: scan_quote scan_bracket insert_commute)

lemma scan_members:
  assumes "\<forall>kv \<in> set kvs. json_ok d (snd kv)" "idle k" "ks_depth k = 0"
  shows "set (ks_keys (fold scan_byte (butlast (members_tail kvs)) k)) = scanned_keys kvs \<union> set (ks_keys k)"
  using assms
proof (induction kvs arbitrary: k)
  case Nil
  then show ?case by (simp add: scanned_keys_def)
next
  case (Cons kv kvs)
  obtain n v where kv: "kv = (n, v)" by fastforce
  obtain k' where k': "fold scan_byte (json_quote n @ CHR '':'' # json_text v) (k\<lparr>ks_expectColon := False\<rparr>) = k'" "idle k'"
      "ks_depth k' = 0"
      "set (ks_keys k') = {quote_chars n} \<union> (case v of JString s \<Rightarrow> {quote_chars s} | _ \<Rightarrow> {}) \<union> set (ks_keys k)"
    using scan_member [of d v "k\<lparr>ks_expectColon := False\<rparr>" n] Cons.prems kv by auto
  have "butlast (members_tail (kv # kvs)) = CHR '','' # (json_quote n @ CHR '':'' # json_text v) @ butlast (members_tail kvs)"
    using tails_end(2) [of kvs] by (simp add: kv butlast_append)
  then have "fold scan_byte (butlast (members_tail (kv # kvs))) k = fold scan_byte (butlast (members_tail kvs)) k'"
    using k'(1) Cons.prems by (simp add: scan_bracket)
  then show ?case using Cons.IH [of k'] k' Cons.prems by (auto simp: kv scanned_keys_Cons)
qed

text \<open>What the scan makes of the text of an object.\<close>

lemma scanned_object:
  assumes "json_ok d (JObject kvs)"
  shows "hasTopLevelKey (json_text (JObject kvs)) key \<longleftrightarrow>
    (\<exists>kv \<in> set kvs. quote_chars (fst kv) = key \<or> (\<exists>s. snd kv = JString s \<and> quote_chars s = key))"
proof -
  let ?k = "\<lparr>ks_depth = 0, ks_inStr = False, ks_esc = False, ks_name = [], ks_collecting = False,
         ks_expectColon = False, ks_keys = []\<rparr>"
  let ?s = "json_text (JObject kvs)"
  have ends: "?s \<noteq> []" "hd ?s = CHR ''{''" "last ?s = CHR ''}''"
    using tails_end by (cases kvs; auto)+
  have "trim_space ?s = ?s"
    using ends by (intro trim_space_visible) (simp_all add: visible_def)
  then have h: "hasTopLevelKey ?s key \<longleftrightarrow> key \<in> set (ks_keys (fold scan_byte (butlast (tl ?s)) ?k))"
    using ends by (simp add: hasTopLevelKey_def)
  have "set (ks_keys (fold scan_byte (butlast (tl ?s)) ?k)) = scanned_keys kvs"
  proof (cases kvs)
    case Nil
    then show ?thesis by (simp add: scanned_keys_def)
  next
    case (Cons kv kws)
    obtain n v where kv: "kv = (n, v)" by fastforce
    have ok: "json_ok (d - 1) v" "\<forall>kv \<in> set kws. json_ok (d - 1) (snd kv)" using assms Cons kv by auto
    have "idle ?k" by (simp add: idle_def)
    then obtain k' where k': "fold scan_byte (json_quote n @ CHR '':'' # json_text v) ?k = k'" "idle k'" "ks_depth k' = 0"
        "set (ks_keys k') = {quote_chars n} \<union> (case v of JString s \<Rightarrow> {quote_chars s} | _ \<Rightarrow> {})"
      using scan_member [OF ok(1), of ?k n] by auto
    have "butlast (tl ?s) = (json_quote n @ CHR '':'' # json_text v) @ butlast (members_tail kws)"
      using tails_end(2) [of kws] by (simp add: Cons kv butlast_append)
    then have "fold scan_byte (butlast (tl ?s)) ?k = fold scan_byte (butlast (members_tail kws)) k'"
      using k'(1) by (metis fold_append comp_apply)
    then show ?thesis using scan_members [OF ok(2) k'(2,3)] k'(4) by (simp add: Cons kv scanned_keys_Cons Un_commute)
  qed
  then show ?thesis unfolding h by (simp add: scanned_keys_iff)
qed

text \<open>C35. What hasTopLevelKey answers on the text of any object: exactly the names of its members, in their
  escaped form, and the strings that are the value of a member.  The scan skips what is nested and
  reads through escapes, but takes a string value for a key, because the colon resets the flag that
  was to tell values from keys.\<close>
theorem hasTopLevelKey_text:
  assumes "json_ok d (JObject kvs)"
  shows "hasTopLevelKey (json_text (JObject kvs)) key \<longleftrightarrow>
    (\<exists>kv \<in> set kvs. quote_chars (fst kv) = key \<or> (\<exists>s. snd kv = JString s \<and> quote_chars s = key))"
  by (rule scanned_object [OF assms])

section \<open>Zero values\<close>

text \<open>What the two audits of zero values report.  When the strings in the JSON of the zero value are empty and
  its names need no escape, AssertRequiredEmits passes exactly when every required key is a member
  of that JSON, and AssertOmitemptyZero exactly when no forbidden key is: the confusion of names and values
  cannot show, since no key is the empty string.\<close>

theorem zero_audits_exact:
  assumes "json_ok d (to_json c (zero_value c))" "to_json c (zero_value c) = JObject kvs" "[] \<notin> set ks"
    and "\<forall>kv \<in> set kvs. quote_chars (fst kv) = fst kv \<and> (\<forall>s. snd kv = JString s \<longrightarrow> s = [])"
  shows "(AssertRequiredEmits c ks = [] \<longleftrightarrow> set ks \<subseteq> fst ` set kvs) \<and>
    (AssertOmitemptyZero c ks = [] \<longleftrightarrow> set ks \<inter> fst ` set kvs = {})"
proof -
  have has: "hasTopLevelKey (json_text (JObject kvs)) k \<longleftrightarrow> k \<in> fst ` set kvs" if "k \<in> set ks" for k
  proof -
    have "k \<noteq> []" using assms(3) that by auto
    have "hasTopLevelKey (json_text (JObject kvs)) k \<longleftrightarrow>
        (\<exists>kv \<in> set kvs. quote_chars (fst kv) = k \<or> (\<exists>s. snd kv = JString s \<and> quote_chars s = k))"
      using scanned_object [of d kvs k] assms(1,2) by simp
    also have "\<dots> \<longleftrightarrow> (\<exists>kv \<in> set kvs. fst kv = k)"
      using assms(4) \<open>k \<noteq> []\<close> by (intro bex_cong) auto
    finally show ?thesis by auto
  qed
  have "qa_Marshal c (zero_value c) = Inr (json_text (JObject kvs))"
    using qa_Marshal_text [OF assms(1)] assms(2) by simp
  then show ?thesis using has
    by (auto simp: AssertRequiredEmits_def AssertOmitemptyZero_def fatal_on_def test_log_def filter_empty_conv)
qed

section \<open>Examples\<close>

definition sample_sub_order_of :: "int64 \<Rightarrow> sub_order" where
  "sample_sub_order_of a = (zero_value sub_order_codec)\<lparr>so_SubOrderID := ''so-1'', so_Amount := a\<rparr>"

lemma sample_sub_order_wire: "wire_ok sub_order_codec (sample_sub_order_of a)"
proof -
  have j: "to_json sub_order_codec (sample_sub_order_of a) =
      JObject [(''subOrderId'', JString ''so-1''), (''amount'', JNumber (itoa (sint a)))]" "fits sub_order_codec (sample_sub_order_of a)"
    by (simp_all add: sample_sub_order_of_def sub_order_codec_def struct_codec_def tag_def string_codec_def int64_codec_def slice_codec_def pointer_codec_def)
  have "json_ok max_depth (JString ''so-1'')" "scrub ''subOrderId'' = ''subOrderId''" "scrub ''amount'' = ''amount''"
    by (simp_all add: scrub_ascii)
  then show ?thesis using j by (simp add: wire_ok_def json_number_itoa)
qed

text \<open>A struct whose decoder loses the amount, as one with a misspelt tag would, is caught.\<close>

definition forgetful_codec :: "sub_order codec" where
  "forgetful_codec = sub_order_codec\<lparr>of_json := (\<lambda>strict j v. Some v)\<rparr>"

theorem harness_exact_witness:
  "DeepEqualRoundTrip ErrorString ErrorString sub_order_codec (sample_sub_order_of (- 1)) = [] \<and>
   AssertAmountRoundtrip ErrorString ErrorString sub_order_codec sample_sub_order_of = [] \<and>
   GoldenRoundTrip ErrorString ErrorString (\<lambda>p. Inr (json_text (to_json sub_order_codec (sample_sub_order_of (- 1)))))
     sub_order_codec ''sub_order.json'' = [] \<and>
   DeepEqualRoundTrip ErrorString ErrorString forgetful_codec (sample_sub_order_of (- 1)) \<noteq> [] \<and>
   AssertAmountRoundtrip ErrorString ErrorString forgetful_codec sample_sub_order_of \<noteq> []"
proof -
  let ?v = "sample_sub_order_of (- 1)"
  let ?b = "json_text (to_json sub_order_codec ?v)"
  have ok: "json_ok max_depth (to_json sub_order_codec (sample_sub_order_of a))" "survives sub_order_codec (sample_sub_order_of a)" for a
    using sample_sub_order_wire [of a] sub_order_codec_ok by (simp_all add: wire_ok_def codec_ok_def survives_def)
  have "?b \<noteq> [] \<and> visible (hd ?b) \<and> visible (last ?b)"
    by (simp add: sub_order_codec_def codec_eval sample_sub_order_of_def visible_def)
  then have "qa_Decode ErrorString ErrorString sub_order_codec (trim_space ?b) = Inr ?v"
    using wire_Decode [OF sub_order_codec_ok sample_sub_order_wire] trim_space_visible [of ?b] by simp
  then have r: "reads_strictly sub_order_codec (trim_space ?b) ?v" by (simp only: fixture_Decode)
  have one: "\<forall>fixture u. Inr ?b = (Inr fixture :: go_error + bytes) \<and> reads_strictly sub_order_codec (trim_space fixture) u \<longrightarrow>
      json_ok max_depth (to_json sub_order_codec u)"
    using reads_strictly_unique [OF r] ok(1) [of "- 1"] by auto
  have f: "to_json forgetful_codec = to_json sub_order_codec" "zero_value forgetful_codec = zero_value sub_order_codec"
    "survives forgetful_codec u \<longleftrightarrow> u = zero_value sub_order_codec" for u
    by (auto simp: forgetful_codec_def survives_def)
  have drift: "\<not> survives forgetful_codec (sample_sub_order_of a)" for a
    unfolding f by (simp add: sample_sub_order_of_def sub_order_codec_def codec_eval)
  have "DeepEqualRoundTrip ErrorString ErrorString forgetful_codec ?v \<noteq> [] \<and>
      AssertAmountRoundtrip ErrorString ErrorString forgetful_codec sample_sub_order_of \<noteq> []"
    using harness_exact [where c = forgetful_codec and v = ?v and build = sample_sub_order_of and files = "\<lambda>p. Inl ErrSignature",
        unfolded f(1), OF ok(1) ok(1)] drift by auto
  then show ?thesis
    using harness_exact [where c = sub_order_codec and v = ?v and build = sample_sub_order_of and files = "\<lambda>p. Inr ?b" and path = "''sub_order.json''",
        OF ok(1) ok(1) one] ok(2) r by blast
qed

theorem amount_audit_exact_witness:
  "AssertAmountKeysAreInteger sub_order_codec (sample_sub_order_of 7) [''amount''] = []"
proof -
  have "float_amounts [''amount''] [] (to_json sub_order_codec (sample_sub_order_of 7)) = []"
    by (simp add: sub_order_codec_def codec_eval sample_sub_order_of_def itoa_def utoa.simps digit_char_def char_eq_code_iff)
  then show ?thesis
    using amount_audit_exact [OF sample_sub_order_wire, of 7 "[''amount'']"] by blast
qed

theorem hasTopLevelKey_text_witness:
  "hasTopLevelKey (json_text (JObject [(''status'', JString ''currency''), (''data'', JObject [(''id'', JNull)])])) ''currency''"
proof -
  have "json_ok max_depth (JObject [(''status'', JString ''currency''), (''data'', JObject [(''id'', JNull)])])" by (simp add: scrub_ascii)
  moreover have "quote_chars ''currency'' = ''currency''" by (simp add: quote_plain)
  ultimately show ?thesis
    using hasTopLevelKey_text [of max_depth "[(''status'', JString ''currency''), (''data'', JObject [(''id'', JNull)])]" "''currency''"]
    by simp
qed

theorem zero_audits_exact_witness:
  "AssertRequiredEmits ack_response_codec [''code'', ''message''] = [] \<and>
   AssertOmitemptyZero heart_beat_response_codec [''message'', ''data''] = []"
proof -
  have "to_json ack_response_codec (zero_value ack_response_codec) = JObject [(''code'', JString []), (''message'', JString [])]"
    "to_json heart_beat_response_codec (zero_value heart_beat_response_codec) = JObject [(''code'', JString [])]"
    by (simp_all add: codec_eval ack_response_codec_def heart_beat_response_codec_def)
  moreover have "json_ok max_depth (JObject [(''code'', JString []), (''message'', JString [])])"
    "json_ok max_depth (JObject [(''code'', JString [])])" "quote_chars ''code'' = ''code''" "quote_chars ''message'' = ''message''"
    by (simp_all add: scrub_ascii quote_plain)
  ultimately show ?thesis
    using zero_audits_exact [of max_depth ack_response_codec _ "[''code'', ''message'']"]
      zero_audits_exact [of max_depth heart_beat_response_codec _ "[''message'', ''data'']"] by simp
qed

end
