(* ===== verification/Examples.thy ===== *)
theory Examples
  imports Wire_Format
begin

text \<open>
  The programs under examples/: credit_information_pre (builds, checks, prints and sends one
  encrypted request without the Client), auth_capture (an authorisation and, when it succeeded,
  its capture) and webhook_server (the two callback handlers).  The environment is a function,
  files are read by a function, log.Fatalf ends a program with an error value, and what is printed
  is a list of lines where it is more than a report.
\<close>

section \<open>Environment and files\<close>

type_synonym environ = "string \<Rightarrow> string"

definition envOr :: "environ \<Rightarrow> string \<Rightarrow> string \<Rightarrow> string" where
  "envOr ge key fallback = (if ge key \<noteq> [] then ge key else fallback)"

definition mustEnv :: "environ \<Rightarrow> string \<Rightarrow> go_error + string" where
  "mustEnv ge key =
     (if ge key = [] then Inl (ErrorString (''required environment variable '' @ key @ '' is empty'')) else Inr (ge key))"

definition envInt64 :: "environ \<Rightarrow> string \<Rightarrow> int64 \<Rightarrow> go_error + int64" where
  "envInt64 ge key fallback =
     (if ge key = [] then Inr fallback
      else case parse_int64 (ge key) of
        None \<Rightarrow> Inl (ErrorString (''env '' @ key))
      | Some n \<Rightarrow> Inr (word_of_int n))"

definition readPEMFromPath :: "(string \<Rightarrow> go_error + bytes) \<Rightarrow> string \<Rightarrow> go_error + bytes" where
  "readPEMFromPath files path =
     rbind (files path) (\<lambda>d. if trim_space d = [] then Inl (ErrorString ''file is empty'') else Inr d)"

definition context_error :: "string \<Rightarrow> go_error + 'a \<Rightarrow> go_error + 'a" where
  "context_error pre r = map_sum (\<lambda>err. WrapError pre err []) id r"

lemma context_error_Inr [result_simps]: "context_error pre r = Inr x \<longleftrightarrow> r = Inr x"
  by (cases r) (auto simp: context_error_def)

section \<open>credit\_information\_pre\<close>

definition resolveBaseURL :: "environ \<Rightarrow> go_error + string" where
  "resolveBaseURL ge =
     (if ge ''ATOME_FIN_BASE_URL'' \<noteq> [] then Inr (trim_right (CHR ''/'') (ge ''ATOME_FIN_BASE_URL''))
      else if ge ''ATOME_FIN_ENV'' = ''prod'' then BaseURL EnvProd
      else if ge ''ATOME_FIN_ENV'' = ''pre'' \<or> ge ''ATOME_FIN_ENV'' = [] then BaseURL EnvPre
      else Inl (ErrorString ''ATOME_FIN_ENV: want pre or prod''))"

text \<open>\<open>unix\<close> is time.Now().Unix(), \<open>newID\<close> the id of DefaultRequestID.\<close>

definition buildRequest :: "environ \<Rightarrow> int \<Rightarrow> string \<Rightarrow> credit_information_param" where
  "buildRequest ge unix newID = (zero_value credit_information_param_codec)
     \<lparr>cinp_RequestID := envOr ge ''ATOME_FIN_REQUEST_ID'' newID,
      cinp_ExternalReferenceUID := envOr ge ''ATOME_FIN_EXTERNAL_UID'' (''grab-pre-'' @ itoa unix),
      cinp_MobileNumber := envOr ge ''ATOME_FIN_MOBILE_NUMBER'' ''+628129801929'',
      cinp_Email := envOr ge ''ATOME_FIN_EMAIL'' ''grab-pre-test@example.com'',
      cinp_Country := ''ID'',
      cinp_ApplicationEssentialInfo := Some ((zero_value credit_information_essential_info_codec)
        \<lparr>ciei_LivenessCheck := Some ((zero_value liveness_check_codec)
           \<lparr>lc_Result := ''PASS'', lc_SnapshotPhoto := envOr ge ''ATOME_FIN_SNAPSHOT_PHOTO'' ''base64-liveness-photo''\<rparr>),
         ciei_IndividualProfile := Some ((zero_value individual_profile_codec)
           \<lparr>inp_IDType := ''KTP'',
            inp_IDFrontPhoto := envOr ge ''ATOME_FIN_ID_FRONT_PHOTO'' ''base64-id-front-photo'',
            inp_OCRResult := Some ((zero_value ocr_result_codec)
              \<lparr>ocr_FullName := envOr ge ''ATOME_FIN_FULL_NAME'' ''Grab Pre Test''\<rparr>)\<rparr>),
         ciei_PlatformInformation := Some ((zero_value platform_information_codec)
           \<lparr>pfi_SceneType := ''CHECKOUT_PAGE'',
            pfi_LatestGkycTimeStamp := ''1620285931000'',
            pfi_UserFlag := ''GRAB'',
            pfi_SCDUserLevel := ''2'',
            pfi_CreditProfile := ''{'' @ json_quote ''modelScores'' @ '':[]}'',
            pfi_DeviceInfo := Some ((zero_value credit_device_info_codec)
              \<lparr>cdi_Platform := ''ANDROID'',
               cdi_Device := Some ((zero_value credit_device_codec)
                 \<lparr>dev_DeviceID := ''grab-pre-device'',
                  dev_GoogleAdvertisingID := ''grab-pre-advertising-id'',
                  dev_IsRoot := False,
                  dev_Build := Some ((zero_value device_build_codec)
                    \<lparr>db_Board := ''board'', db_Brand := ''brand'', db_Device := ''device'',
                     db_Manufacturer := ''manufacturer'', db_Model := ''model'', db_Product := ''product''\<rparr>)\<rparr>),
               cdi_WifiList := [\<lparr>cwa_SSID = ''Grab-Pre-WiFi''\<rparr>],
               cdi_IPAddress := Some \<lparr>cipa_EthIP = ''192.0.2.1'', cipa_TrueIP = ''198.51.100.1''\<rparr>\<rparr>)\<rparr>)\<rparr>),
      cinp_ExtendInfo := Some \<lparr>ciex_Language = ''id''\<rparr>\<rparr>"

record wire_request =
  wr_URL :: string
  wr_PlainJSON :: string
  wr_EncryptedBody :: string
  wr_EncryptHeader :: string
  wr_Authorization :: string
  wr_UserAgent :: string

text \<open>The checks after the encryption; \<open>public_of\<close> is the PublicKey of a private key.\<close>

definition seal_wire ::
  "go_lib \<Rightarrow> (rsa_key \<Rightarrow> rsa_key) \<Rightarrow> rsa_key \<Rightarrow> bytes \<Rightarrow> string \<Rightarrow> string \<times> string \<Rightarrow> go_error + wire_request" where
  "seal_wire L public_of k plain base sealed =
     (case sealed of (encHeader, bodyB64) \<Rightarrow>
        if \<not> has_prefix encHeader ''symmetricKey='' then Inl (ErrorString ''encrypt header malformed'')
        else if bytes_contains bodyB64 (json_quote ''mobileNumber'') then
          Inl (ErrorString ''encrypted body still contains plaintext field mobileNumber'')
        else
          rbind (context_error ''build signer: '' (NewRSA2Signer (lib_sha256 L) (lib_rsa_sign L) (Some k) [])) (\<lambda>sg.
          rbind (context_error ''sign encrypted body: '' (Sign sg None bodyB64)) (\<lambda>sig.
          if sig = [] then Inl (ErrorString ''sign encrypted body: empty signature'')
          else
            rbind (context_error ''build verifier: ''
              (NewRSA2Verifier (lib_sha256 L) (lib_rsa_verify L) (Some (public_of k)) [])) (\<lambda>vf.
            rbind (context_error ''verify signature round-trip: '' (of_check (Verify vf None bodyB64 sig) ())) (\<lambda>_.
            Inr \<lparr>wr_URL = trim_right (CHR ''/'') base @ ''/credit-information'', wr_PlainJSON = plain,
                 wr_EncryptedBody = bodyB64, wr_EncryptHeader = encHeader,
                 wr_Authorization = SchemeRawBase64 sig [], wr_UserAgent = BuildUserAgent L SDKVersion []\<rparr>)))))"

text \<open>None while the draws for the AES key do not complete it, as for Marshal.\<close>

definition buildWireRequest ::
  "go_lib \<Rightarrow> (rsa_key \<Rightarrow> rsa_key) \<Rightarrow> crypto_env \<Rightarrow> credit_information_param \<Rightarrow> bytes \<Rightarrow> bytes \<Rightarrow> string \<Rightarrow>
   (go_error + wire_request) option" where
  "buildWireRequest L public_of ce req privPEM encryptPubPEM base =
     (case context_error ''marshal request: '' (MarshalSigning credit_information_param_codec req) of
        Inl err \<Rightarrow> Some (Inl err)
      | Inr plain \<Rightarrow>
          if \<not> json_valid plain then Some (Inl (ErrorString ''marshal request: output is not valid JSON''))
          else case context_error ''load partner signing private key: '' (LoadPrivateKeyPEM (lib_x509 L) privPEM []) of
            Inl err \<Rightarrow> Some (Inl err)
          | Inr k \<Rightarrow>
              (case context_error ''load atome encrypt public key: '' (LoadPublicCertPEM (lib_x509 L) encryptPubPEM) of
                 Inl err \<Rightarrow> Some (Inl err)
               | Inr pub \<Rightarrow> map_option
                   (\<lambda>m. rbind (context_error ''hybrid encrypt: '' m) (seal_wire L public_of k plain base))
                   (Marshal (ce_cipher ce) (ce_rsa_encrypt ce) (ce_draws ce) plain (Some pub))))"

definition quote_char :: char where "quote_char = CHR 0x27"

definition shellQuote :: "string \<Rightarrow> string" where
  "shellQuote s =
     quote_char # concat (map (\<lambda>c. if c = quote_char then [quote_char, backslash, quote_char, quote_char] else [c]) s) @
     [quote_char]"

definition printCurl :: "wire_request \<Rightarrow> string list" where
  "printCurl w =
     [''---- curl (copy/paste) ----'',
      ''# plaintext JSON (signed input is the AES-encrypted body below, not this):'',
      ''# '' @ wr_PlainJSON w,
      ''curl --request POST '' @ [backslash],
      ''  --url '' @ shellQuote (wr_URL w) @ '' '' @ [backslash],
      ''  --header '' @ shellQuote ''Content-Type: application/json'' @ '' '' @ [backslash],
      ''  --header '' @ shellQuote (''User-Agent: '' @ wr_UserAgent w) @ '' '' @ [backslash],
      ''  --header '' @ shellQuote (''Encrypt: '' @ wr_EncryptHeader w) @ '' '' @ [backslash],
      ''  --header '' @ shellQuote (''Authorization: '' @ wr_Authorization w) @ '' '' @ [backslash],
      ''  --data-raw '' @ shellQuote (wr_EncryptedBody w),
      []]"

definition wire_http :: "wire_request \<Rightarrow> http_request" where
  "wire_http w = \<lparr>rq_method = ''POST'', rq_url = wr_URL w, rq_query = [],
     rq_header = header_set ''Authorization'' (wr_Authorization w)
       (header_set ''Encrypt'' (wr_EncryptHeader w)
         (header_set ''User-Agent'' (wr_UserAgent w)
           (header_set ''Content-Type'' ''application/json'' []))),
     rq_body = wr_EncryptedBody w\<rparr>"

text \<open>The two fields the program reads of an error reply.\<close>

definition code_message_codec :: "(string \<times> string) codec" where
  "code_message_codec = struct_codec
     [tag ''code'' False string_codec fst (\<lambda>v s. (v, snd s)),
      tag ''message'' False string_codec snd (\<lambda>v s. (fst s, v))] ([], [])"

text \<open>\<open>new_request\<close> is the error of http.NewRequest for a URL, \<open>send\<close> the http.Client.\<close>

definition dispatchWireRequest ::
  "(string \<Rightarrow> go_error option) \<Rightarrow> (http_request \<Rightarrow> go_error + http_response) \<Rightarrow> (bytes \<Rightarrow> go_error) \<Rightarrow> (bytes \<Rightarrow> go_error) \<Rightarrow>
   wire_request \<Rightarrow> go_error + credit_information_response" where
  "dispatchWireRequest new_request send syntax typing w =
     (case new_request (wr_URL w) of
        Some err \<Rightarrow> Inl err
      | None \<Rightarrow>
          (case send (wire_http w) of
             Inl err \<Rightarrow> Inl (TransportError ''http'' (wr_URL w) (Some err) False)
           | Inr resp \<Rightarrow>
               (case rsp_Body resp of
                  (body, Some err) \<Rightarrow> Inl (TransportError ''read'' (wr_URL w) (Some err) False)
                | (body, None) \<Rightarrow>
                    if rsp_StatusCode resp < 200 \<or> 300 \<le> rsp_StatusCode resp then
                      Inl (APIError (case json_Unmarshal syntax typing code_message_codec body of
                          Inl err \<Rightarrow> \<lparr>HTTPStatus = rsp_StatusCode resp, Code = [], Message = [], RequestID = [],
                            Endpoint = ''/credit-information'', Raw = body\<rparr>
                        | Inr (cd, msg) \<Rightarrow> \<lparr>HTTPStatus = rsp_StatusCode resp, Code = cd, Message = msg, RequestID = [],
                            Endpoint = ''/credit-information'', Raw = body\<rparr>))
                    else case json_Unmarshal syntax typing credit_information_response_codec body of
                      Inl err \<Rightarrow> Inl (TransportError ''unmarshal'' (wr_URL w) (Some (WrapError ''decode response: '' err [])) False)
                    | Inr out \<Rightarrow> Inr out)))"

text \<open>errors.As: the first error of the chain of a given kind.\<close>

fun errors_as :: "(go_error \<Rightarrow> bool) \<Rightarrow> go_error \<Rightarrow> go_error option" where
  "errors_as p (WrapError pre e post) = (if p (WrapError pre e post) then Some (WrapError pre e post) else errors_as p e)"
| "errors_as p (WrapErrors e mid e' post) =
     (if p (WrapErrors e mid e' post) then Some (WrapErrors e mid e' post)
      else case errors_as p e of Some x \<Rightarrow> Some x | None \<Rightarrow> errors_as p e')"
| "errors_as p (NetError t e) = (if p (NetError t e) then Some (NetError t e) else errors_as p e)"
| "errors_as p (TransportError op url (Some e) r) =
     (if p (TransportError op url (Some e) r) then Some (TransportError op url (Some e) r) else errors_as p e)"
| "errors_as p (SignatureError reason (Some e)) =
     (if p (SignatureError reason (Some e)) then Some (SignatureError reason (Some e)) else errors_as p e)"
| "errors_as p e = (if p e then Some e else None)"

fun is_validation :: "go_error \<Rightarrow> bool" where
  "is_validation (ValidationError f m) = True" | "is_validation e = False"
fun is_signature :: "go_error \<Rightarrow> bool" where
  "is_signature (SignatureError r e) = True" | "is_signature e = False"
fun is_transport :: "go_error \<Rightarrow> bool" where
  "is_transport (TransportError op url e r) = True" | "is_transport e = False"
fun is_api :: "go_error \<Rightarrow> bool" where
  "is_api (APIError e) = True" | "is_api e = False"

definition detail_of :: "(string \<Rightarrow> string) \<Rightarrow> go_error option \<Rightarrow> string" where
  "detail_of q e = ''detail   : '' @ (case e of None \<Rightarrow> ''<nil>'' | Some x \<Rightarrow> error_text q x)"

fun report_validation :: "go_error \<Rightarrow> string list" where
  "report_validation (ValidationError field msg) =
     [''category : local validation'', ''field    : '' @ field, ''detail   : '' @ msg] @
     (if field = ''encryptAtomePublicCert''
      then [''hint     : set ATOME_FIN_ATOME_ENCRYPT_CERT_PEM to Atome encrypt public key (E4), not signing public key'']
      else [])"
| "report_validation e = []"

fun report_signing :: "(string \<Rightarrow> string) \<Rightarrow> go_error \<Rightarrow> string list" where
  "report_signing q (SignatureError reason e) =
     [''category : signing'', ''reason   : '' @ reason, detail_of q e,
      ''hint     : confirm ATOME_FIN_PRIV_KEY_PEM is the partner signing private key registered with Atome'']"
| "report_signing q e = []"

fun report_transport :: "(string \<Rightarrow> string) \<Rightarrow> go_error \<Rightarrow> string list" where
  "report_transport q (TransportError op url e r) =
     [''category : transport/encrypt'', ''op       : '' @ op, detail_of q e,
      if op = ''encrypt''
      then ''hint     : check ATOME_FIN_ATOME_ENCRYPT_CERT_PEM format (CERTIFICATE / PUBLIC KEY) and RSA >= 2048 bits''
      else ''hint     : check network, DNS, TLS, and pre env base URL'']"
| "report_transport q e = []"

fun report_api :: "go_error \<Rightarrow> string list" where
  "report_api (APIError e) =
     [''category : api error'', ''http     : '' @ itoa (HTTPStatus e), ''code     : '' @ Code e, ''message  : '' @ Message e] @
     (if APIError_IsSignature e
      then [''hint     : server rejected Authorization '' @ [CHR 0xE2, CHR 0x80, CHR 0x94] @
        '' partner signing public key may not be registered on pre''] else []) @
     (if Code e = CodeInvalidSignature
      then [''hint     : verify partner signing key pair and that Authorization signs the encrypted body'']
      else if Code e = ''INVALID_ENCRYPTION''
      then [''hint     : verify Atome encrypt public key (E4) matches the pre environment'']
      else if Code e = ''ACTIVE_ACCOUNT''
      then [''hint     : user already has an active account; try a fresh ATOME_FIN_EXTERNAL_UID'']
      else if Code e = ''CREDIT_APPLICATION_INPROGESS''
      then [''hint     : application already in progress for this user'']
      else [])"
| "report_api e = []"

definition reportLiveFailure :: "(string \<Rightarrow> string) \<Rightarrow> go_error \<Rightarrow> string list" where
  "reportLiveFailure q err =
     [''connectivity         : FAIL'', []] @
     (case (errors_as is_validation err, errors_as is_signature err, errors_as is_transport err, errors_as is_api err) of
        (Some ve, _) \<Rightarrow> report_validation ve
      | (None, Some se, _) \<Rightarrow> report_signing q se
      | (None, None, Some te, _) \<Rightarrow> report_transport q te
      | (None, None, None, Some ae) \<Rightarrow> report_api ae
      | _ \<Rightarrow> [detail_of q (Some err)])"

text \<open>
  The program: the lines it prints and its exit status, and the reply to the request when it was sent; a
  fatal error has been turned into Inl.
\<close>

definition response_lines :: "credit_information_response \<Rightarrow> string list" where
  "response_lines resp =
     [''connectivity         : PASS'', [], ''---- /credit-information response ----'',
      ''code    : '' @ cirsp_Code resp, ''message : '' @ cirsp_Message resp] @
     (case cirsp_Data resp of None \<Rightarrow> []
      | Some d \<Rightarrow> [''requestId : '' @ cirs_RequestID d, ''status    : '' @ cirs_Status d] @
          (if cirs_JumpURL d \<noteq> [] then [''jumpUrl   : '' @ cirs_JumpURL d] else [])) @
     [[], ''all checks passed'']"

definition finish_run ::
  "environ \<Rightarrow> (string \<Rightarrow> string) \<Rightarrow> (wire_request \<Rightarrow> go_error + credit_information_response) \<Rightarrow> wire_request \<Rightarrow>
   string list \<times> int" where
  "finish_run ge q dispatch wire =
     (let curl = [''local crypto check   : PASS (marshal + hybrid-encrypt + RSA2 sign)''] @
            (if ge ''ATOME_FIN_SKIP_CURL'' \<noteq> ''1'' then printCurl wire else []) in
      if ge ''ATOME_FIN_DRY_RUN'' = ''1'' then
        (curl @ [''connectivity         : SKIPPED (ATOME_FIN_DRY_RUN=1)'', [], ''all checks passed (dry-run)''], 0)
      else case dispatch wire of
        Inl err \<Rightarrow> (curl @ reportLiveFailure q err, 1)
      | Inr resp \<Rightarrow> (curl @ response_lines resp, 0))"

definition request_lines :: "credit_information_param \<Rightarrow> string \<Rightarrow> string list" where
  "request_lines req base =
     [''==== credit-information pre check ===='',
      ''externalReferenceUid : '' @ cinp_ExternalReferenceUID req,
      ''requestId            : '' @ cinp_RequestID req,
      ''mobileNumber         : '' @ cinp_MobileNumber req,
      ''email                : '' @ cinp_Email req,
      ''fullName             : '' @
        (case cinp_ApplicationEssentialInfo req of None \<Rightarrow> [] | Some e \<Rightarrow>
          (case ciei_IndividualProfile e of None \<Rightarrow> [] | Some ip \<Rightarrow>
            (case inp_OCRResult ip of None \<Rightarrow> [] | Some ocr \<Rightarrow> ocr_FullName ocr))),
      [], ''target baseURL       : '' @ base, []]"

definition credit_information_pre_main ::
  "go_lib \<Rightarrow> (rsa_key \<Rightarrow> rsa_key) \<Rightarrow> crypto_env \<Rightarrow> environ \<Rightarrow> (string \<Rightarrow> go_error + bytes) \<Rightarrow> int \<Rightarrow> string \<Rightarrow>
   (string \<Rightarrow> string) \<Rightarrow> (wire_request \<Rightarrow> go_error + credit_information_response) \<Rightarrow>
   (go_error + (string list \<times> int)) option" where
  "credit_information_pre_main L public_of ce ge files unix newID q dispatch =
     (case rbind (mustEnv ge ''ATOME_FIN_PRIV_KEY_PEM'') (\<lambda>path.
             context_error ''partner signing private key: '' (readPEMFromPath files path)) of
        Inl err \<Rightarrow> Some (Inl err)
      | Inr privPEM \<Rightarrow>
          (case rbind (mustEnv ge ''ATOME_FIN_ATOME_ENCRYPT_CERT_PEM'') (\<lambda>path.
                  context_error ''atome encrypt public key: '' (readPEMFromPath files path)) of
             Inl err \<Rightarrow> Some (Inl err)
           | Inr encryptPubPEM \<Rightarrow>
               let req = buildRequest ge unix newID in
               (case context_error ''base url: '' (resolveBaseURL ge) of
                  Inl err \<Rightarrow> Some (Inl err)
                | Inr base \<Rightarrow> map_option
                    (\<lambda>w. rbind (context_error ''local crypto check FAILED: '' w) (\<lambda>wire.
                      Inr (apfst ((@) (request_lines req base)) (finish_run ge q dispatch wire))))
                    (buildWireRequest L public_of ce req privPEM encryptPubPEM base))))"

section \<open>auth\_capture\<close>

definition buildExtendInfo :: "environ \<Rightarrow> int64 \<Rightarrow> request_extend_info" where
  "buildExtendInfo ge amount =
     \<lparr>rei_OrderType = OrderTypeGrabFood,
      rei_CreditProfile = envOr ge ''ATOME_FIN_CREDIT_PROFILE'' (''{'' @ json_quote ''score'' @ '':720}''),
      rei_DeviceInfo = Some
        \<lparr>di_Platform = ''ANDROID'', di_GPS = None,
         di_Device = Some ((zero_value device_profile_codec)
           \<lparr>dp_DeviceID := ''dev-demo'', dp_GoogleAdvertisingID := ''gaid-demo'', dp_UTDID := ''utdid-demo'',
            dp_Build := Some ((zero_value build_info_codec)
              \<lparr>bi_Board := ''sdm845'', bi_Brand := ''xiaomi'', bi_Device := ''dipper'',
               bi_Manufacturer := ''Xiaomi'', bi_Model := ''MI 8'', bi_Product := ''dipper''\<rparr>)\<rparr>),
         di_WifiList = [\<lparr>wa_SSID = ''ssid-demo''\<rparr>],
         di_IPAddress = Some \<lparr>ipa_EthIP = ''10.0.0.2'', ipa_TrueIP = ''203.0.113.7''\<rparr>\<rparr>,
      rei_Address = Some
        \<lparr>adr_ShippingAddress = Some ((zero_value shipping_address_codec)
           \<lparr>sa_City := ''Jakarta'', sa_Address1 := ''Jl. Sudirman No. 1''\<rparr>),
         adr_ShippingName = ''Budi Santoso'', adr_ShippingPhoneNo = ''+6281234567890''\<rparr>,
      rei_RiskInfo = None,
      rei_MainOrderExtendInfos =
        [\<lparr>moei_MerchantID = ''merchant-1'', moei_MerchantName = [],
          moei_SkuInfos = [(zero_value sku_info_codec)\<lparr>sku_SkuID := ''sku-1'', sku_Amount := amount\<rparr>]\<rparr>]\<rparr>"

text \<open>The request of main, with its reads of the environment in the order of the struct literal.\<close>

definition demo_auth_request :: "environ \<Rightarrow> go_error + auth_request" where
  "demo_auth_request ge =
     rbind (envInt64 ge ''ATOME_FIN_TOTAL_AMOUNT'' 1500000) (\<lambda>amount.
     rbind (envInt64 ge ''ATOME_FIN_PERIOD_TYPE'' 3) (\<lambda>period.
     rbind (mustEnv ge ''ATOME_FIN_SESSION_ID'') (\<lambda>session.
       Inr \<lparr>ar_RequestID = [], ar_ExternalReferenceUID = envOr ge ''ATOME_FIN_EXTERNAL_UID'' ''user-42'',
         ar_TotalAmount = amount, ar_PeriodType = sint period,
         ar_SubOrders = [(zero_value sub_order_codec)
           \<lparr>so_SubOrderID := ''so-1'', so_Amount := amount, so_MerchantID := ''merchant-1'',
            so_MerchantName := ''Demo merchant'', so_MerchantCategory := ''RETAIL''\<rparr>],
         ar_ExtendInfo = Some (buildExtendInfo ge amount), ar_Sessionid = session\<rparr>)))"

definition demo_capture_request :: "auth_request \<Rightarrow> authorization_data \<Rightarrow> capture_request" where
  "demo_capture_request authReq d =
     \<lparr>cr_RequestID = [], cr_ExternalReferenceUID = ar_ExternalReferenceUID authReq, cr_AuthOrderID = ad_AuthOrderID d,
      cr_TotalAmount = ar_TotalAmount authReq, cr_PeriodType = ar_PeriodType authReq,
      cr_SubOrders = ar_SubOrders authReq, cr_ExtendInfo = ar_ExtendInfo authReq\<rparr>"

definition demo_options :: "go_lib \<Rightarrow> environ \<Rightarrow> bytes \<Rightarrow> go_error + client_option option list" where
  "demo_options L ge privPEM =
     (let key = [Some (WithPrivateKeyPEM L privPEM [])];
          partner = (if ge ''ATOME_FIN_PARTNER_ID'' \<noteq> [] then [Some (WithPartnerID (ge ''ATOME_FIN_PARTNER_ID''))] else []) in
      if ge ''ATOME_FIN_BASE_URL'' \<noteq> [] then Inr (key @ partner @ [Some (WithBaseURL L (ge ''ATOME_FIN_BASE_URL''))])
      else if ge ''ATOME_FIN_ENV'' = ''prod'' then Inr (key @ partner @ [Some (WithEnvironment EnvProd)])
      else if ge ''ATOME_FIN_ENV'' = ''pre'' \<or> ge ''ATOME_FIN_ENV'' = [] then Inr (key @ partner @ [Some (WithEnvironment EnvPre)])
      else Inl (ErrorString ''ATOME_FIN_ENV: want pre or prod''))"

datatype demo_outcome =
    AuthError go_error
  | StillProcessing
  | NothingToCapture
  | CaptureNotWanted
  | CaptureError go_error
  | Captured capture_response

text \<open>The two calls, each with the world it runs in and the id it may mint.\<close>

definition auth_capture_calls ::
  "float64 codec \<Rightarrow> (bytes \<Rightarrow> go_error) \<Rightarrow> (bytes \<Rightarrow> go_error) \<Rightarrow> environ \<Rightarrow> client \<Rightarrow> world \<Rightarrow> world \<Rightarrow> string \<Rightarrow> string \<Rightarrow>
   auth_request \<Rightarrow> event list \<times> event list \<times> demo_outcome" where
  "auth_capture_calls fl syntax typing ge c w1 w2 i1 i2 authReq0 =
     (let svc = payment_New (Some c) in
      case Auth svc w1 i1 (MarshalSigning (auth_request_codec fl)) (json_Unmarshal syntax typing auth_response_codec)
          (Some authReq0) of
        (Some authReq, evs, Inr authResp) \<Rightarrow>
          if \<not> AuthResponse_IsTerminal (Some authResp) then (evs, [], StillProcessing)
          else (case arsp_Data authResp of
             None \<Rightarrow> (evs, [], NothingToCapture)
           | Some d \<Rightarrow>
               if ad_Status d \<noteq> StatusSuccess then (evs, [], NothingToCapture)
               else if ge ''ATOME_FIN_RUN_CAPTURE'' \<noteq> ''1'' then (evs, [], CaptureNotWanted)
               else (case Capture svc w2 i2 (MarshalSigning (capture_request_codec fl))
                       (json_Unmarshal syntax typing capture_response_codec) (Some (demo_capture_request authReq d)) of
                   (captureReq, evs2, Inl err) \<Rightarrow> (evs, evs2, CaptureError err)
                 | (captureReq, evs2, Inr captureResp) \<Rightarrow> (evs, evs2, Captured captureResp)))
      | (None, evs, Inr authResp) \<Rightarrow> (evs, [], NothingToCapture)
      | (q, evs, Inl err) \<Rightarrow> (evs, [], AuthError err))"

definition auth_capture_main ::
  "go_lib \<Rightarrow> (nat \<Rightarrow> int) \<Rightarrow> (nat \<Rightarrow> string) \<Rightarrow> float64 codec \<Rightarrow> (bytes \<Rightarrow> go_error) \<Rightarrow> (bytes \<Rightarrow> go_error) \<Rightarrow> environ \<Rightarrow>
   (string \<Rightarrow> go_error + bytes) \<Rightarrow> world \<Rightarrow> world \<Rightarrow> string \<Rightarrow> string \<Rightarrow>
   go_error + (event list \<times> event list \<times> demo_outcome)" where
  "auth_capture_main L now ids fl syntax typing ge files w1 w2 i1 i2 =
     rbind (mustEnv ge ''ATOME_FIN_PRIV_KEY_PEM'') (\<lambda>path.
     rbind (context_error ''read private key: '' (files path)) (\<lambda>privPEM.
     rbind (demo_options L ge privPEM) (\<lambda>opts.
     rbind (context_error ''atomefin.New: '' (New L now ids opts)) (\<lambda>c.
     rbind (demo_auth_request ge) (\<lambda>authReq.
       Inr (auth_capture_calls fl syntax typing ge c w1 w2 i1 i2 authReq))))))"

section \<open>webhook\_server\<close>

fun read_all_files :: "(string \<Rightarrow> go_error + bytes) \<Rightarrow> string list \<Rightarrow> go_error + bytes list" where
  "read_all_files files [] = Inr []"
| "read_all_files files (p # ps) =
     rbind (context_error ''read cert: '' (files p)) (\<lambda>b. rbind (read_all_files files ps) (\<lambda>bs. Inr (b # bs)))"

definition buildVerifier :: "go_lib \<Rightarrow> int64 \<Rightarrow> environ \<Rightarrow> (string \<Rightarrow> go_error + bytes) \<Rightarrow> go_error + cb_verifier" where
  "buildVerifier L now ge files =
     (if ge ''ATOME_FIN_ATOME_CERT_PEMS'' \<noteq> [] then
        rbind (read_all_files files (split_on (CHR '':'') (ge ''ATOME_FIN_ATOME_CERT_PEMS''))) (\<lambda>pems.
          context_error ''FromCertPEMs: '' (FromCertPEMs L now pems []))
      else if ge ''ATOME_FIN_ATOME_CERT_PEM'' = [] then
        Inl (ErrorString ''set ATOME_FIN_ATOME_CERT_PEM (single cert) or ATOME_FIN_ATOME_CERT_PEMS (colon-separated, multi-cert)'')
      else rbind (context_error ''read cert: '' (files (ge ''ATOME_FIN_ATOME_CERT_PEM''))) (\<lambda>pem.
        context_error ''FromCertPEMs: '' (FromCertPEMs L now [pem] [])))"

definition onAuth :: "auth_response option \<Rightarrow> go_error option" where
  "onAuth e =
     (case e of None \<Rightarrow> Some (ErrorString ''auth callback missing data envelope'')
      | Some x \<Rightarrow> (case arsp_Data x of
          None \<Rightarrow> Some (ErrorString ''auth callback missing data envelope'')
        | Some d \<Rightarrow> None))"

definition onCapture :: "capture_response option \<Rightarrow> go_error option" where
  "onCapture e =
     (case e of None \<Rightarrow> Some (ErrorString ''capture callback missing data envelope'')
      | Some x \<Rightarrow> (case crsp_Data x of
          None \<Rightarrow> Some (ErrorString ''capture callback missing data envelope'')
        | Some d \<Rightarrow> None))"

text \<open>The routes of the mux; None is the reply of net/http to an unknown path.\<close>

definition webhook_serve ::
  "(string \<Rightarrow> string) \<Rightarrow> (bytes \<Rightarrow> go_error) \<Rightarrow> (bytes \<Rightarrow> go_error) \<Rightarrow> cb_verifier \<Rightarrow> string \<Rightarrow> inbound \<Rightarrow> http_reply option" where
  "webhook_serve q syntax typing v path r =
     (if path = ''/atome/auth'' then
        Some (fst (AuthHandler q (MarshalSigning ack_response_codec) (strictDecode syntax typing auth_response_codec)
          (Some v) (Some (\<lambda>e. onAuth (Some e))) r))
      else if path = ''/atome/capture'' then
        Some (fst (CaptureHandler q (MarshalSigning ack_response_codec) (strictDecode syntax typing capture_response_codec)
          (Some v) (Some (\<lambda>e. onCapture (Some e))) r))
      else if path = ''/healthz'' then Some \<lparr>rp_status = 200, rp_header = [], rp_body = ''ok''\<rparr>
      else None)"

section \<open>Quoting for the shell\<close>

text \<open>
  How a POSIX shell reads one word: single quotes keep everything up to the next one, a backslash
  outside them keeps one character, a blank ends the word.  The flag says that a single quote is open.
\<close>

definition blank :: "char \<Rightarrow> bool" where
  "blank c \<longleftrightarrow> code c \<in> {9, 10, 32}"

fun shell_word :: "bool \<Rightarrow> string \<Rightarrow> (string \<times> string) option" where
  "shell_word True [] = None"
| "shell_word True (c # s) =
     (if c = quote_char then shell_word False s else map_option (apfst ((#) c)) (shell_word True s))"
| "shell_word False [] = Some ([], [])"
| "shell_word False (c # s) =
     (if c = quote_char then shell_word True s
      else if c = backslash then
        (case s of [] \<Rightarrow> None | d # t \<Rightarrow> map_option (apfst ((#) d)) (shell_word False t))
      else if blank c then Some ([], c # s)
      else map_option (apfst ((#) c)) (shell_word False s))"

text \<open>The curl command that is printed can be pasted: a shell that reads the word shellQuote makes of a string,
  up to the blank or the end after it, gets exactly that string, whatever quotes, backslashes,
  dollars or newlines are in it.\<close>

theorem shellQuote_reads_back:
  assumes "rest = [] \<or> blank (hd rest)"
  shows "shell_word False (shellQuote s @ rest) = Some (s, rest)"
proof -
  let ?esc = "\<lambda>c. if c = quote_char then [quote_char, backslash, quote_char, quote_char] else [c]"
  have q: "quote_char \<noteq> backslash" "\<not> blank quote_char" "\<not> blank backslash" by (simp_all add: quote_char_def blank_def)
  have end_of: "shell_word False rest = Some ([], rest)"
    using assms by (cases rest) (auto simp: blank_def quote_char_def)
  have "shell_word True (concat (map ?esc s) @ quote_char # rest) = Some (s, rest)"
    by (induction s) (use q end_of in auto)
  then show ?thesis by (simp add: shellQuote_def)
qed

theorem shellQuote_reads_back_witness:
  "shell_word False (shellQuote [CHR ''a'', quote_char, CHR ''$''] @ '' --data'') = Some ([CHR ''a'', quote_char, CHR ''$''], '' --data'')"
  by (rule shellQuote_reads_back) (simp add: blank_def)

section \<open>The demonstration requests\<close>

text \<open>The demonstration authorisation is one the SDK lets out: with the id the call mints (at most 64 bytes)
  validateAuthRequest accepts it exactly when the configured amount is positive and, for a tenor
  of three months, at least 20000, and the session id has at most 64 bytes; and the capture built from
  an accepted authorisation and a reply with an order id is accepted by validateCaptureRequest
  exactly when the amount is not below the tenor, which an authorisation need not satisfy.\<close>

theorem demo_requests_accepted:
  assumes "demo_auth_request ge = Inr q" "i \<noteq> []" "length i \<le> 64"
  shows "(validateAuthRequest (q\<lparr>ar_RequestID := i\<rparr>) = None \<longleftrightarrow>
      (if ar_PeriodType q = 3 then 20000 \<le> sint (ar_TotalAmount q) else 1 \<le> sint (ar_TotalAmount q)) \<and>
      length (ar_Sessionid q) \<le> 64) \<and>
    (validateAuthRequest (q\<lparr>ar_RequestID := i\<rparr>) = None \<and> ad_AuthOrderID d \<noteq> [] \<longrightarrow>
      (validateCaptureRequest ((demo_capture_request q d)\<lparr>cr_RequestID := i\<rparr>) = None \<longleftrightarrow>
       ar_PeriodType q \<le> sint (ar_TotalAmount q)))"
proof -
  obtain amount session and period :: int64 where q: "q = \<lparr>ar_RequestID = [], ar_ExternalReferenceUID = envOr ge ''ATOME_FIN_EXTERNAL_UID'' ''user-42'',
         ar_TotalAmount = amount, ar_PeriodType = sint period,
         ar_SubOrders = [(zero_value sub_order_codec)
           \<lparr>so_SubOrderID := ''so-1'', so_Amount := amount, so_MerchantID := ''merchant-1'',
            so_MerchantName := ''Demo merchant'', so_MerchantCategory := ''RETAIL''\<rparr>],
         ar_ExtendInfo = Some (buildExtendInfo ge amount), ar_Sessionid = session\<rparr>" "session \<noteq> []"
    using assms(1) by (auto simp: demo_auth_request_def mustEnv_def result_simps split: if_splits)
  let ?so = "(zero_value sub_order_codec)\<lparr>so_SubOrderID := ''so-1'', so_Amount := amount, so_MerchantID := ''merchant-1'',
            so_MerchantName := ''Demo merchant'', so_MerchantCategory := ''RETAIL''\<rparr>"
  have so: "sub_orders_ok OrderTypeGrabFood [?so] \<longleftrightarrow> 0 < sint amount"
    by (auto simp: sub_orders_ok_def)
  have sku: "skus_ok OrderTypeGrabFood (rei_MainOrderExtendInfos (buildExtendInfo ge amount)) \<longleftrightarrow> 0 < sint amount"
    by (auto simp: skus_ok_def buildExtendInfo_def)
  have ty: "rei_OrderType (buildExtendInfo ge amount) = OrderTypeGrabFood" "PaymentOrderType_IsValid OrderTypeGrabFood"
    by (simp_all add: buildExtendInfo_def PaymentOrderType_IsValid_def)
  have uid: "envOr ge ''ATOME_FIN_EXTERNAL_UID'' ''user-42'' \<noteq> []" by (simp add: envOr_def)
  have a: "validateAuthRequest (q\<lparr>ar_RequestID := i\<rparr>) = None \<longleftrightarrow>
      (if sint period = 3 then 20000 \<le> sint amount else 1 \<le> sint amount) \<and> length session \<le> 64"
    using assms(2,3) q(2) so sku ty uid
    by (auto simp: q(1) validateAuthRequest_def accept_simps validateCheckoutAmounts_None subOrderAmounts_def
        validateAuthCaptureSubOrders_None validateAuthCaptureMain_None sumSubOrderAmount_def sum_loop_sum)
  moreover have "validateCaptureRequest ((demo_capture_request q d)\<lparr>cr_RequestID := i\<rparr>) = None \<longleftrightarrow> sint period \<le> sint amount"
    if "0 < sint amount" "ad_AuthOrderID d \<noteq> []"
  proof -
    have "validateAuthCaptureSubOrders OrderTypeGrabFood [?so] = None"
      using that(1) so validateAuthCaptureSubOrders_None [OF ty(2), of "[?so]"] by simp
    then have "validateCaptureSubOrders OrderTypeGrabFood [?so] = None"
      by (simp add: validateCaptureSubOrders_def accept_simps)
    then show ?thesis using that assms(2,3) so sku ty uid
      by (auto simp: q(1) demo_capture_request_def validateCaptureRequest_def accept_simps validateCaptureReAuthAmounts_def Let_def
          subOrderAmounts_def validateAuthCaptureMain_None sumSubOrderAmount_def sum_loop_sum not_less)
  qed
  ultimately show ?thesis by (auto simp: q(1) split: if_splits)
qed

theorem demo_requests_accepted_witness:
  "\<exists>q. demo_auth_request (\<lambda>k. if k = ''ATOME_FIN_SESSION_ID'' then ''s1'' else []) = Inr q \<and>
     validateAuthRequest (q\<lparr>ar_RequestID := ''r1''\<rparr>) = None"
proof -
  let ?ge = "\<lambda>k. if k = ''ATOME_FIN_SESSION_ID'' then ''s1'' else []"
  obtain q where q: "demo_auth_request ?ge = Inr q" "ar_PeriodType q = 3" "ar_TotalAmount q = 1500000" "ar_Sessionid q = ''s1''"
    by (simp add: demo_auth_request_def envInt64_def mustEnv_def)
  then show ?thesis
    using demo_requests_accepted [OF q(1), of "''r1''"] by simp
qed

section \<open>The order of the two calls\<close>

context submit_call
begin

lemma sent_to_path:
  assumes "call s w i m u p = (p', evs, r)" "rq \<in> set (sent_requests evs)"
  shows "\<exists>c. s = Some (Some c) \<and> rq_url rq = baseURL c @ path"
proof -
  have ne: "sent_requests evs \<noteq> []" using assms(2) by auto
  show ?thesis
  proof (rule sent_prepared [OF assms(1) ne])
    fix c q q2 body
    assume h: "s = Some (Some c)" "(evs, r) = decode_response u path (DoSigned (Some c) w ''POST'' path body (opts q2))"
    show ?thesis
    proof (rule sent_signed_post [OF h(2) ne])
      fix a
      let ?rq = "finish_request c a (extra_headers (opts q2) [])
        \<lparr>rq_method = ''POST'', rq_url = baseURL c @ path, rq_query = [], rq_header = [], rq_body = body\<rparr>"
      assume "signed_post c w path body ?rq evs"
      then have "rq = ?rq" using assms(2) by (auto simp: signed_post_def)
      then show ?thesis using h(1) by (simp add: finish_request_def)
    qed
  qed
qed

end


section \<open>The acknowledgements of the webhook\<close>

lemma writeAck_status: "rp_status (writeAck (MarshalSigning ack_response_codec) st ack) = st"
  by (simp add: writeAck_def MarshalSigning_Inr)

lemma handle_status:
  "rp_status (fst (handle q (MarshalSigning ack_response_codec) decode (Some v) (Some fn) r)) = 200 \<longleftrightarrow>
     (\<exists>e. snd (handle q (MarshalSigning ack_response_codec) decode (Some v) (Some fn) r) = [e] \<and> fn e = None)"
  by (simp add: handle_def handle_request_def writeAck_status split: sum.split option.split prod.split)

text \<open>The webhook server acknowledges exactly the callbacks it can use: a request to one of its two callback
  routes is answered with 200 when, and only when, the SDK verified it and handed it to the program, and its data is
  there; a verified callback without data gets 500, which makes the gateway deliver it again.\<close>

theorem webhook_acknowledges:
  "(webhook_serve q sx ty v ''/atome/auth'' r = Some reply \<longrightarrow>
     (rp_status reply = 200 \<longleftrightarrow> (\<exists>e. snd (AuthHandler q (MarshalSigning ack_response_codec)
        (strictDecode sx ty auth_response_codec) (Some v) (Some (\<lambda>e. onAuth (Some e))) r) = [e] \<and> arsp_Data e \<noteq> None))) \<and>
   (webhook_serve q sx ty v ''/atome/capture'' r = Some reply \<longrightarrow>
     (rp_status reply = 200 \<longleftrightarrow> (\<exists>e. snd (CaptureHandler q (MarshalSigning ack_response_codec)
        (strictDecode sx ty capture_response_codec) (Some v) (Some (\<lambda>e. onCapture (Some e))) r) = [e] \<and> crsp_Data e \<noteq> None)))"
proof -
  have "onAuth (Some e) = None \<longleftrightarrow> arsp_Data e \<noteq> None" for e by (auto simp: onAuth_def split: option.split)
  moreover have "onCapture (Some e) = None \<longleftrightarrow> crsp_Data e \<noteq> None" for e by (auto simp: onCapture_def split: option.split)
  ultimately show ?thesis
    by (auto simp: webhook_serve_def AuthHandler_def CaptureHandler_def handle_status)
qed

section \<open>The hand-made request and the Client\<close>

lemma finalizeConfig_scheme: "finalizeConfig L c = Inr c' \<Longrightarrow> cfg_authScheme c' = cfg_authScheme c"
  by (auto simp: finalizeConfig_def Let_def result_simps split: option.splits if_splits)

lemma finalizeConfig_base: "finalizeConfig L c = Inr c' \<Longrightarrow> cfg_baseURL c \<noteq> [] \<Longrightarrow> cfg_baseURL c' = cfg_baseURL c"
  by (auto simp: finalizeConfig_def Let_def result_simps split: option.splits if_splits)

text \<open>The fields of a Client made with a key, a base URL and an encryption key.\<close>

lemma New_pre_client:
  assumes "New L now ids [Some (WithPrivateKeyPEM L privPEM []), Some (WithBaseURL L base),
      Some (WithEncryptAtomePublicCertPEM L pubPEM)] = Inr c"
    and "LoadPrivateKeyPEM (lib_x509 L) privPEM [] = Inr k" "LoadPublicCertPEM (lib_x509 L) pubPEM = Inr pub"
  shows "NewRSA2Signer (lib_sha256 L) (lib_rsa_sign L) (Some k) [] = Inr (signer c)" "authScheme c = SchemeRawBase64"
    "baseURL c = trim_right (CHR ''/'') (trim_space base) \<or> trim_right (CHR ''/'') (trim_space base) = []"
    "encryptAtomePub c = Some pub"
proof -
  let ?d = "defaultConfig now ids"
  obtain c1 c2 c3 c4 sg where run: "WithPrivateKeyPEM L privPEM [] ?d = Inr c1" "WithBaseURL L base c1 = Inr c2"
      "WithEncryptAtomePublicCertPEM L pubPEM c2 = Inr c3" "finalizeConfig L c3 = Inr c4" "cfg_signer c4 = Some sg" "c = client_of sg c4"
    using assms(1) unfolding New_def rbind_Inr_iff run_options.simps by (auto split: option.splits)
  obtain s where 1: "NewRSA2Signer (lib_sha256 L) (lib_rsa_sign L) (Some k) [] = Inr s" "c1 = ?d\<lparr>cfg_signer := Some s\<rparr>"
    using run(1) assms(2) by (cases "NewRSA2Signer (lib_sha256 L) (lib_rsa_sign L) (Some k) []")
      (auto simp: WithPrivateKeyPEM_def split: if_splits)
  have 2: "c2 = c1\<lparr>cfg_baseURL := trim_right (CHR ''/'') (trim_space base)\<rparr>"
    using run(2) by (auto simp: WithBaseURL_def Let_def split: if_splits sum.splits)
  have 3: "c3 = c2\<lparr>cfg_encryptAtomePub := Some pub\<rparr>"
    using run(3) assms(3) by (auto simp: WithEncryptAtomePublicCertPEM_def check_modulus_def split: if_splits option.splits)
  have d: "cfg_authScheme ?d = SchemeRawBase64" "\<not> cfg_keyIDSet ?d" by (simp_all add: defaultConfig_def)
  have c3: "cfg_signer c3 = Some s" "\<not> cfg_keyIDSet c3" "cfg_authScheme c3 = SchemeRawBase64" "cfg_encryptAtomePub c3 = Some pub"
      "cfg_baseURL c3 = trim_right (CHR ''/'') (trim_space base)"
    using d by (simp_all add: 1(2) 2 3)
  have 4: "cfg_signer c4 = Some s \<and> cfg_encryptAtomePub c4 = Some pub \<and>
      (cfg_baseURL c4 = trim_right (CHR ''/'') (trim_space base) \<or> trim_right (CHR ''/'') (trim_space base) = [])"
    by (rule finalizeConfig_Inr [OF run(4)]) (use c3 in \<open>auto simp: finalizeConfig_base [OF run(4)]\<close>)
  have 5: "cfg_authScheme c4 = SchemeRawBase64" using finalizeConfig_scheme [OF run(4)] c3(3) by simp
  from 4 5 show "NewRSA2Signer (lib_sha256 L) (lib_rsa_sign L) (Some k) [] = Inr (signer c)" "authScheme c = SchemeRawBase64"
    "baseURL c = trim_right (CHR ''/'') (trim_space base) \<or> trim_right (CHR ''/'') (trim_space base) = []"
    "encryptAtomePub c = Some pub"
    using 1(1) run(5,6) by (auto simp: client_of_def)
qed

text \<open>The hand-made request of credit\_information\_pre is the one the SDK sends.  A Client made with the same private key, base URL and
  encryption certificate, given the same draws for the AES key, submits the same credit
  information with requests that have the method, URL, body, Encrypt and Authorization header of the
  wire request.\<close>

theorem wire_request_is_client_request:
  assumes "buildWireRequest L public_of ce req privPEM pubPEM base = Some (Inr wire)" "cinp_RequestID req \<noteq> []"
    and "New L now ids [Some (WithPrivateKeyPEM L privPEM []), Some (WithBaseURL L base),
      Some (WithEncryptAtomePublicCertPEM L pubPEM)] = Inr c"
    and "trim_space base = base" "trim_right (CHR ''/'') base \<noteq> []" "w_ctx_sign w = None"
    and "SubmitInformation ce (Some (Some c)) w i (MarshalSigning credit_information_param_codec) u (Some req) = (p, Some (evs, r))"
    and "rq \<in> set (sent_requests evs)"
  shows "rq_method rq = rq_method (wire_http wire) \<and> rq_url rq = rq_url (wire_http wire) \<and> rq_body rq = rq_body (wire_http wire) \<and>
    header_get ''Encrypt'' (rq_header rq) = header_get ''Encrypt'' (rq_header (wire_http wire)) \<and>
    header_get ''Authorization'' (rq_header rq) = header_get ''Authorization'' (rq_header (wire_http wire))"
proof -
  let ?plain = "json_text (to_json credit_information_param_codec req)"
  obtain k pub hdr body where w: "LoadPrivateKeyPEM (lib_x509 L) privPEM [] = Inr k" "LoadPublicCertPEM (lib_x509 L) pubPEM = Inr pub"
      "Marshal (ce_cipher ce) (ce_rsa_encrypt ce) (ce_draws ce) ?plain (Some pub) = Some (Inr (hdr, body))"
      "seal_wire L public_of k ?plain base (hdr, body) = Inr wire"
    using assms(1) by (auto simp: buildWireRequest_def MarshalSigning_Inr result_simps
        split: sum.splits if_splits)
  note c = New_pre_client [OF assms(3) w(1,2)]
  have url: "baseURL c = trim_right (CHR ''/'') base" using c(3) assms(4,5) by auto
  obtain sg sig where s: "NewRSA2Signer (lib_sha256 L) (lib_rsa_sign L) (Some k) [] = Inr sg" "Sign sg None body = Inr sig"
      "wr_URL wire = trim_right (CHR ''/'') base @ ''/credit-information''" "wr_EncryptedBody wire = body"
      "wr_EncryptHeader wire = hdr" "wr_Authorization wire = SchemeRawBase64 sig []"
    using w(4) by (auto simp: seal_wire_def result_simps split: if_splits)
  have keys: "CanonicalHeaderKey ''Authorization'' = ''Authorization''" "CanonicalHeaderKey ''Encrypt'' = ''Encrypt''"
    by simp_all
  have wire: "rq_method (wire_http wire) = ''POST''" "rq_url (wire_http wire) = wr_URL wire" "rq_body (wire_http wire) = body"
      "header_get ''Encrypt'' (rq_header (wire_http wire)) = hdr"
      "header_get ''Authorization'' (rq_header (wire_http wire)) = sig"
    using s by (simp_all add: wire_http_def header_get_set keys SchemeRawBase64_def)
  have ne: "sent_requests evs \<noteq> []" using assms(8) by auto
  show ?thesis
  proof (rule information.sent_encrypted [OF assms(7) ne])
    fix c' q q' b r0
    assume h: "Some (Some c) = Some (Some c')" "Some req = Some q" "prepare_information i q = (None, q')"
      "MarshalSigning credit_information_param_codec q' = Inr b"
      "DoEncryptedSigned (ce_cipher ce) (ce_rsa_encrypt ce) (ce_draws ce) (Some c') w ''POST'' ''/credit-information'' b [] = Some (evs, r0)"
    have q: "q' = req" using h(2,3) assms(2) by (auto simp: prepare_information_def Let_def)
    show ?thesis
    proof (rule DoEncryptedSigned_sends [OF h(5) ne])
      fix pub' hdr' rq'
      assume d: "encryptAtomePub c' = Some pub'" "Marshal (ce_cipher ce) (ce_rsa_encrypt ce) (ce_draws ce) b (Some pub') = Some (Inr (hdr', rq_body rq'))"
        "header_get ''Encrypt'' (rq_header rq') = hdr'" "signed_post c' w ''/credit-information'' (rq_body rq') rq' evs"
      have "rq = rq'" using d(4) assms(8) by (auto simp: signed_post_def)
      moreover have "hdr' = hdr" "rq_body rq' = body"
        using d(1,2) h(1,4) q c(4) w(3) by (auto simp: MarshalSigning_Inr)
      moreover have "header_get ''Authorization'' (rq_header rq') = sig"
        using d(4) h(1) c(1,2) s(1,2) assms(6) \<open>rq_body rq' = body\<close> by (auto simp: signed_post_def SchemeRawBase64_def)
      ultimately show ?thesis using d(3,4) h(1) url s(3) wire by (simp add: signed_post_def)
    qed
  qed
qed

section \<open>A run of the demonstration\<close>






end
