(* ===== verification/Accessors.thy ===== *)
theory Accessors
  imports Wire_Format
begin

text \<open>
  The plain methods of the Client, of the callback Verifier and of the SDK's errors, the default
  http.Client, and small helpers of the mock package.  A method of a pointer takes an option where the
  code looks at nil; where it does not, calling it on nil panics and the value is the struct.
\<close>

section \<open>client.go\<close>

definition Client_BaseURL :: "client \<Rightarrow> string" where "Client_BaseURL c = baseURL c"
definition Client_Environment :: "client \<Rightarrow> environment" where "Client_Environment c = c_environment c"
definition Client_PartnerID :: "client \<Rightarrow> string" where "Client_PartnerID c = partnerID c"
definition Client_MerchantID :: "client \<Rightarrow> string" where "Client_MerchantID c = merchantID c"
definition Client_Logger :: "client \<Rightarrow> string" where "Client_Logger c = logger c"
definition Client_Observer :: "client \<Rightarrow> observer" where "Client_Observer c = c_observer c"
definition Client_Verifier :: "client \<Rightarrow> verifier option" where "Client_Verifier c = Client_Config.verifier c"
definition Client_HTTPClient :: "client \<Rightarrow> string" where "Client_HTTPClient c = httpClient c"

text \<open>The n-th call of the generator and of the clock.\<close>

definition Client_NewRequestID :: "client \<Rightarrow> nat \<Rightarrow> string" where "Client_NewRequestID c n = requestIDGen c n"
definition Client_Now :: "client \<Rightarrow> nat \<Rightarrow> int" where "Client_Now c n = clock c n"

definition EncryptAtomePublicKey :: "client option \<Rightarrow> rsa_key option" where
  "EncryptAtomePublicKey co = (case co of None \<Rightarrow> None | Some c \<Rightarrow> encryptAtomePub c)"

definition EncryptPrivateKey :: "client option \<Rightarrow> rsa_key option" where
  "EncryptPrivateKey co = (case co of None \<Rightarrow> None | Some c \<Rightarrow> encryptPriv c)"

definition Client_Close :: "client option \<Rightarrow> go_error option" where "Client_Close co = None"

definition signerWithKeyID_KeyID :: "signer \<Rightarrow> string \<Rightarrow> string" where "signerWithKeyID_KeyID s i = i"

definition Version :: string where "Version = SDKVersion"

section \<open>The default http.Client: options.go\<close>

text \<open>The fields the SDK sets on its clone of the default transport; the rest of it stays as it was.\<close>

record http_transport =
  MaxIdleConnsPerHost :: int
  IdleConnTimeout :: duration
  TLSHandshakeTimeout :: duration
  transport_rest :: string

record http_client =
  hc_Transport :: http_transport
  hc_Timeout :: duration

text \<open>None when http.DefaultTransport has been replaced by another kind of RoundTripper.\<close>

definition newDefaultHTTPClient :: "http_transport option \<Rightarrow> http_client" where
  "newDefaultHTTPClient base =
     (let t = (case base of
          Some b \<Rightarrow> b
        | None \<Rightarrow> \<lparr>MaxIdleConnsPerHost = 0, IdleConnTimeout = 0, TLSHandshakeTimeout = 0, transport_rest = []\<rparr>)
      in \<lparr>hc_Transport = t\<lparr>MaxIdleConnsPerHost := 32, IdleConnTimeout := 90 * second, TLSHandshakeTimeout := 10 * second\<rparr>,
          hc_Timeout = 30 * second\<rparr>)"

section \<open>callback/verifier.go\<close>

definition BodyLimit :: "cb_verifier option \<Rightarrow> int64" where
  "BodyLimit vo = (case vo of None \<Rightarrow> 0 | Some v \<Rightarrow> bodyLimit v)"

definition KeyCount :: "cb_verifier option \<Rightarrow> nat" where
  "KeyCount vo = (case vo of None \<Rightarrow> 0 | Some v \<Rightarrow> length (verifiers v))"

text \<open>Every configured key counts, and a verifier from certificates has one for each of them.\<close>

lemma build_all_length: "build_all f i xs = Inr vs \<Longrightarrow> length vs = length xs"
  by (induction f i xs arbitrary: vs rule: build_all.induct) (auto simp: result_simps)

lemma FromCertPEMs_KeyCount:
  assumes "FromCertPEMs L now pems opts = Inr v" "\<forall>f. Some f \<in> set opts \<longrightarrow> callback_option f"
  shows "KeyCount (Some v) = length pems \<and> 0 < sint (BodyLimit (Some v))"
proof -
  obtain f vs where "build_all f 0 pems = Inr vs" "NewVerifier now (map Some vs) opts = Inr v"
    using assms(1) by (auto simp: FromCertPEMs_def result_simps split: if_splits)
  then show ?thesis
    using NewVerifier_Inr [OF _ assms(2)] build_all_length by (auto simp: KeyCount_def BodyLimit_def)
qed

section \<open>errors.go\<close>

definition SignatureError_Error :: "(string \<Rightarrow> string) \<Rightarrow> (string \<times> go_error option) option \<Rightarrow> string" where
  "SignatureError_Error q e =
     (case e of
        None \<Rightarrow> ''atomefin: signature error''
      | Some (reason, None) \<Rightarrow> ''atomefin: signature '' @ reason
      | Some (reason, Some err) \<Rightarrow> ''atomefin: signature '' @ reason @ '': '' @ error_text q err)"

definition SignatureError_Unwrap :: "string \<times> go_error option \<Rightarrow> go_error option" where
  "SignatureError_Unwrap e = snd e"

definition SignatureError_Temporary :: "string \<times> go_error option \<Rightarrow> bool" where
  "SignatureError_Temporary e = False"

definition ValidationError_Temporary :: "string \<times> string \<Rightarrow> bool" where
  "ValidationError_Temporary e = False"

definition BusinessRejectionError_Temporary :: "string \<times> string \<Rightarrow> bool" where
  "BusinessRejectionError_Temporary e = False"

lemma SignatureError_texts:
  "SignatureError_Error q (Some (reason, e)) = error_text q (SignatureError reason e)"
  "SignatureError_Unwrap (reason, e) = errors_unwrap (SignatureError reason e)"
  by (cases e; simp add: SignatureError_Error_def SignatureError_Unwrap_def)+

section \<open>callback/account\_change\_types.go\<close>

definition AccountChangeEvent_IsSuccess :: "account_change_event option \<Rightarrow> bool" where
  "AccountChangeEvent_IsSuccess e = HasIdentity e"

section \<open>The mock package\<close>

definition synthetic500 :: http_response where
  "synthetic500 = \<lparr>rsp_StatusCode = 500, rsp_Header = [], rsp_Body = ([], None)\<rparr>"

text \<open>
  The bytes read, up to the end or to an error, which is dropped, and the body that replaces the one
  that was drained.
\<close>

definition readAndReset :: "(bytes \<times> go_error option) option \<Rightarrow> bytes \<times> (bytes \<times> go_error option) option" where
  "readAndReset r =
     (case r of
        None \<Rightarrow> ([], None)
      | Some (body, err) \<Rightarrow> (body, Some (body, None)))"

text \<open>Reading again gives the same bytes.\<close>

lemma readAndReset_again: "readAndReset (snd (readAndReset r)) = readAndReset r"
  by (auto simp: readAndReset_def split: option.split)

definition signResponseBody :: "go_lib \<Rightarrow> go_error option \<Rightarrow> bytes \<Rightarrow> bytes \<Rightarrow> go_error + string" where
  "signResponseBody L ctx privPEM body = signBodyWithPEM L ctx body privPEM"

text \<open>Copies of the bundled keys.\<close>

definition MockSigningPrivKeyPEM :: "mock_keys \<Rightarrow> bytes" where "MockSigningPrivKeyPEM K = mk_signing_priv K"
definition MockSigningPubCertPEM :: "mock_keys \<Rightarrow> bytes" where "MockSigningPubCertPEM K = mk_signing_pub K"
definition MockEncryptPrivKeyPEM :: "mock_keys \<Rightarrow> bytes" where "MockEncryptPrivKeyPEM K = mk_encrypt_priv K"
definition MockEncryptPubCertPEM :: "mock_keys \<Rightarrow> bytes" where "MockEncryptPubCertPEM K = mk_encrypt_pub K"

section \<open>String methods\<close>

text \<open>The string-based enumerations all return their own text.\<close>

definition enum_String :: "string \<Rightarrow> string" where "enum_String s = s"

end
