(* ===== verification/Mock_Interleave.thy ===== *)
theory Mock_Interleave
  imports Mock_Server
begin

text \<open>
  Requests served at the same time.  net/http runs serveHTTP once per request on a goroutine of its own, and the
  server's state is behind two mutexes, which the code holds for one operation at a time: the lookup of the cache,
  the recording of the request together with the snapshot of the scenario, the store into the cache, and the snapshot
  of the scenario before the callback.  A goroutine is the request with the point it has reached, one step runs up to
  the end of the next locked section, and the goroutines of a configuration move in any order, between any calls
  of SetScenario and of the two halves of Reset.
\<close>

section \<open>Goroutines\<close>

text \<open>Which return of serveHTTP was taken.\<close>

datatype verdict_of_serve = Refused | Failed | Answered | Replayed

datatype progress =
    Arrived
  | Missed string
  | Responded string http_response
  | Written http_reply
  | Done verdict_of_serve http_reply

record goroutine =
  go_request :: server_request
  go_progress :: progress
  go_effects :: "mock_effect list"

definition arrived :: "server_request \<Rightarrow> goroutine" where
  "arrived r = \<lparr>go_request = r, go_progress = Arrived, go_effects = []\<rparr>"

definition advance :: "progress \<Rightarrow> mock_effect list \<Rightarrow> goroutine \<Rightarrow> goroutine" where
  "advance p evs g = g\<lparr>go_progress := p, go_effects := go_effects g @ evs\<rparr>"

text \<open>Steps 2 and 3, with Get.\<close>

definition step_lookup :: "mock_env \<Rightarrow> server \<Rightarrow> goroutine \<Rightarrow> server \<times> goroutine" where
  "step_lookup M s g =
     (let r = go_request g;
          (evs1, refused) = (if specValidation (sv_cfg s) then specValidate M r else ([], None)) in
      case refused of
        Some (status, err_code, msg) \<Rightarrow> (s, advance (Done Refused (writeJSONErrorMock M status err_code msg)) evs1 g)
      | None \<Rightarrow>
          (case sv_idem s of
             None \<Rightarrow> (s, advance (Missed []) evs1 g)
           | Some cache \<Rightarrow>
               let (evs2, key) = idemKey M (sv_cfg s) r in
               if key = [] then (s, advance (Missed []) (evs1 @ evs2) g)
               else (case cache_Get key cache of
                   (Some hit, cache') \<Rightarrow>
                     (s\<lparr>sv_idem := Some cache'\<rparr>, advance (Done Replayed (replay hit)) (evs1 @ evs2) g)
                 | (None, cache') \<Rightarrow> (s\<lparr>sv_idem := Some cache'\<rparr>, advance (Missed key) (evs1 @ evs2) g))))"

text \<open>Step 4: RoundTrip.\<close>

definition step_roundtrip :: "string \<Rightarrow> mock_env \<Rightarrow> server \<Rightarrow> goroutine \<Rightarrow> server \<times> goroutine" where
  "step_roundtrip key M s g =
     (case RoundTrip (sv_transport s) (go_request g) of
        (Inl err, tr) \<Rightarrow>
          (s\<lparr>sv_transport := tr\<rparr>, advance (Done Failed (http_Error (error_text (me_quote M) err) 500)) [] g)
      | (Inr resp, tr) \<Rightarrow> (s\<lparr>sv_transport := tr\<rparr>, advance (Responded key resp) [] g))"

text \<open>Step 5, Put and the reply.\<close>

definition made_entry :: "mock_env \<Rightarrow> serverConfig \<Rightarrow> server_request \<Rightarrow> string \<Rightarrow> http_response \<Rightarrow> cacheEntry" where
  "made_entry M cfg r key resp =
     \<lparr>ce_key = key, ce_status = rsp_StatusCode resp, ce_body = fst (rsp_Body resp),
      ce_headers = snd (sign_response M cfg r resp)\<rparr>"

definition written_reply :: "cacheEntry \<Rightarrow> http_reply" where
  "written_reply e = \<lparr>rp_status = ce_status e, rp_header = copy_headers (ce_headers e), rp_body = ce_body e\<rparr>"

definition step_store :: "string \<Rightarrow> http_response \<Rightarrow> mock_env \<Rightarrow> server \<Rightarrow> goroutine \<Rightarrow> server \<times> goroutine" where
  "step_store key resp M s g =
     (let e = made_entry M (sv_cfg s) (go_request g) key resp in
      (s\<lparr>sv_idem := (if key \<noteq> [] then map_option (cache_Put key e) (sv_idem s) else sv_idem s)\<rparr>,
       advance (Written (written_reply e)) (fst (sign_response M (sv_cfg s) (go_request g) resp)) g))"

text \<open>Step 6, with the scenario of that moment.\<close>

definition step_callback :: "http_reply \<Rightarrow> mock_env \<Rightarrow> server \<Rightarrow> goroutine \<Rightarrow> server \<times> goroutine" where
  "step_callback rep M s g =
     (let r = go_request g in
      (s, advance (Done Answered rep)
        (if autoCallbackHandlers (sv_cfg s) \<noteq> [] \<or> autoCallbackURL (sv_cfg s) \<noteq> []
         then fireAutoCallback M s (sr_ctx r) (OpKey (sr_method r) (sr_path r)) else []) g))"

definition serve_step :: "mock_env \<Rightarrow> server \<Rightarrow> goroutine \<Rightarrow> (server \<times> goroutine) option" where
  "serve_step M s g =
     (case go_progress g of
        Arrived \<Rightarrow> Some (step_lookup M s g)
      | Missed key \<Rightarrow> Some (step_roundtrip key M s g)
      | Responded key resp \<Rightarrow> Some (step_store key resp M s g)
      | Written rep \<Rightarrow> Some (step_callback rep M s g)
      | Done v rep \<Rightarrow> None)"

section \<open>One goroutine alone\<close>

text \<open>The steps of one goroutine to its end; there are at most four.\<close>

fun run_alone :: "nat \<Rightarrow> mock_env \<Rightarrow> server \<Rightarrow> goroutine \<Rightarrow> server \<times> goroutine" where
  "run_alone 0 M s g = (s, g)"
| "run_alone (Suc n) M s g =
     (case serve_step M s g of None \<Rightarrow> (s, g) | Some (s', g') \<Rightarrow> run_alone n M s' g')"

fun finished :: "goroutine \<Rightarrow> http_reply option" where
  "finished g = (case go_progress g of Done v rep \<Rightarrow> Some rep | _ \<Rightarrow> None)"

lemma advance_simps [simp]:
  "go_progress (advance p evs g) = p" "go_request (advance p evs g) = go_request g"
  "go_effects (advance p evs g) = go_effects g @ evs"
  by (simp_all add: advance_def)

lemma run_alone_done: "go_progress g = Done v rep \<Longrightarrow> run_alone n M s g = (s, g)"
  by (cases n) (simp_all add: serve_step_def)

text \<open>From a miss on, the steps are the second half of the pipeline.\<close>

lemma run_alone_missed:
  assumes "go_progress g = Missed key"
  shows "(case run_alone (Suc (Suc (Suc n))) M s g of (s', g') \<Rightarrow> (finished g', s', go_effects g')) =
    (case serve_dispatch M (go_request g) key s of (rep, s', evs) \<Rightarrow> (Some rep, s', go_effects g @ evs))"
proof -
  obtain res tr where rt: "RoundTrip (sv_transport s) (go_request g) = (res, tr)" by fastforce
  show ?thesis
  proof (cases res)
    case (Inl err)
    then show ?thesis using assms rt
      by (simp add: serve_step_def step_roundtrip_def serve_dispatch_def run_alone_done del: run_alone.simps(2))
        (simp add: serve_step_def step_roundtrip_def run_alone_done)
  next
    case (Inr resp)
    obtain evs hdr where h: "sign_response M (sv_cfg s) (go_request g) resp = (evs, hdr)" by fastforce
    show ?thesis using assms rt Inr h
      by (simp add: serve_step_def step_roundtrip_def step_store_def step_callback_def serve_dispatch_def run_alone_done
          made_entry_def written_reply_def Let_def)
  qed
qed

text \<open>A goroutine that is not disturbed does what serveHTTP does as one function.\<close>

theorem run_alone_serves:
  "(case run_alone 4 M s (arrived r) of (s', g') \<Rightarrow> (finished g', s', go_effects g')) =
   (case serveHTTP M r s of (rep, s', evs) \<Rightarrow> (Some rep, s', evs))"
proof -
  obtain evs1 refused where v: "(if specValidation (sv_cfg s) then specValidate M r else ([], None)) = (evs1, refused)"
    by fastforce
  let ?g = "arrived r"
  have rest: "(case run_alone 3 M s' (advance (Missed key) evs ?g) of (s', g') \<Rightarrow> (finished g', s', go_effects g')) =
      (case serve_dispatch M r key s' of (rep, s', evs') \<Rightarrow> (Some rep, s', evs @ evs'))" for s' key evs
    using run_alone_missed [of "advance (Missed key) evs ?g" key 0 M s'] by (simp add: arrived_def numeral_3_eq_3)
  have first: "run_alone 4 M s ?g = (case step_lookup M s ?g of (s', g') \<Rightarrow> run_alone 3 M s' g')"
  proof -
    have "run_alone 4 M s ?g = run_alone (Suc 3) M s ?g" by simp
    then show ?thesis unfolding run_alone.simps(2) serve_step_def by (simp add: arrived_def)
  qed
  show ?thesis
  proof (cases refused)
    case (Some x)
    then show ?thesis using v unfolding first
      by (cases x) (simp add: step_lookup_def serveHTTP_def run_alone_done arrived_def Let_def)
  next
    case None
    show ?thesis
    proof (cases "sv_idem s")
      case off: None
      show ?thesis using v None off rest [of s "[]" evs1] unfolding first
        by (simp add: step_lookup_def serveHTTP_def arrived_def Let_def split: prod.split)
    next
      case (Some cache)
      obtain evs2 key where k: "idemKey M (sv_cfg s) r = (evs2, key)" by fastforce
      obtain hit cache' where c: "cache_Get key cache = (hit, cache')" by fastforce
      have go: "go_request ?g = r" by (simp add: arrived_def)
      show ?thesis
      proof (cases "key = []")
        case True
        then show ?thesis using v None Some k rest [of s "[]" "evs1 @ evs2"] unfolding first
          by (simp add: step_lookup_def serveHTTP_def go Let_def split: prod.split)
      next
        case False
        then show ?thesis
          using v None Some k c rest [of "s\<lparr>sv_idem := Some cache'\<rparr>" key "evs1 @ evs2"] unfolding first
          by (cases hit) (simp_all add: step_lookup_def serveHTTP_def go run_alone_done Let_def arrived_def split: prod.split)
      qed
    qed
  qed
qed

section \<open>Interleavings\<close>

type_synonym mock_config = "server \<times> goroutine list"

inductive mock_step :: "mock_env \<Rightarrow> mock_config \<Rightarrow> mock_config \<Rightarrow> bool" for M where
  arrive: "mock_step M (s, gs) (s, gs @ [arrived r])"
| move: "i < length gs \<Longrightarrow> serve_step M s (gs ! i) = Some (s', g') \<Longrightarrow> mock_step M (s, gs) (s', gs[i := g'])"
| set_scenario: "Server_SetScenario sc s = Inr s' \<Longrightarrow> mock_step M (s, gs) (s', gs)"
| reset_log: "mock_step M (s, gs) (s\<lparr>sv_transport := Transport_Reset (sv_transport s)\<rparr>, gs)"
| reset_cache: "mock_step M (s, gs) (s\<lparr>sv_idem := map_option cache_Reset (sv_idem s)\<rparr>, gs)"

inductive mock_reaches :: "mock_env \<Rightarrow> mock_config \<Rightarrow> mock_config \<Rightarrow> bool" for M x where
  start: "mock_reaches M x x"
| further: "mock_reaches M x y \<Longrightarrow> mock_step M y z \<Longrightarrow> mock_reaches M x z"

lemma mock_reaches_trans: "mock_reaches M y z \<Longrightarrow> mock_reaches M x y \<Longrightarrow> mock_reaches M x z"
  by (induction rule: mock_reaches.induct) (auto intro: mock_reaches.intros)

lemma mock_reaches_step: "mock_step M x y \<Longrightarrow> mock_reaches M x y"
  by (rule mock_reaches.further [OF mock_reaches.start])

lemma run_alone_reaches:
  "run_alone n M s (gs ! i) = (s', g') \<Longrightarrow> i < length gs \<Longrightarrow> mock_reaches M (s, gs) (s', gs[i := g'])"
proof (induction n arbitrary: s gs)
  case (Suc n)
  show ?case
  proof (cases "serve_step M s (gs ! i)")
    case None
    then show ?thesis using Suc.prems by (auto intro: mock_reaches.start)
  next
    case (Some sg)
    obtain s1 g1 where sg: "sg = (s1, g1)" by fastforce
    then have "mock_reaches M (s1, gs[i := g1]) (s', gs[i := g'])"
      using Suc.IH [of s1 "gs[i := g1]"] Suc.prems Some by simp
    moreover have "mock_reaches M (s, gs) (s1, gs[i := g1])"
      using mock_step.move [of i gs M s] Suc.prems(2) Some sg by (intro mock_reaches_step) auto
    ultimately show ?thesis by (rule mock_reaches_trans)
  qed
qed (auto intro: mock_reaches.start)

section \<open>Where replays come from\<close>

text \<open>Some goroutine with this key has written, or returned with, the reply the entry was made of.\<close>

definition has_written :: "goroutine \<Rightarrow> http_reply \<Rightarrow> bool" where
  "has_written g q \<longleftrightarrow> go_progress g = Written q \<or> go_progress g = Done Answered q"

definition written_for :: "mock_env \<Rightarrow> serverConfig \<Rightarrow> goroutine list \<Rightarrow> string \<Rightarrow> http_reply \<Rightarrow> bool" where
  "written_for M cfg gs k q \<longleftrightarrow> (\<exists>g \<in> set gs. request_key M cfg (go_request g) = k \<and> has_written g q)"

definition goroutine_ok :: "mock_env \<Rightarrow> serverConfig \<Rightarrow> goroutine list \<Rightarrow> goroutine \<Rightarrow> bool" where
  "goroutine_ok M cfg gs g \<longleftrightarrow>
     (case go_progress g of
        Missed key \<Rightarrow> key \<noteq> [] \<longrightarrow> key = request_key M cfg (go_request g)
      | Responded key resp \<Rightarrow> key \<noteq> [] \<longrightarrow> key = request_key M cfg (go_request g)
      | Done Replayed rep \<Rightarrow> \<exists>e. rep = replay e \<and> written_for M cfg gs (request_key M cfg (go_request g)) (written_reply e)
      | _ \<Rightarrow> True)"

definition interleaving_ok :: "mock_env \<Rightarrow> serverConfig \<Rightarrow> mock_config \<Rightarrow> bool" where
  "interleaving_ok M cfg x \<longleftrightarrow>
     sv_cfg (fst x) = cfg \<and>
     (\<forall>c. sv_idem (fst x) = Some c \<longrightarrow> cache_ok c \<and>
        (\<forall>ke \<in> set (cache_view c). written_for M cfg (snd x) (fst ke) (written_reply (snd ke)))) \<and>
     (\<forall>g \<in> set (snd x). goroutine_ok M cfg (snd x) g)"

text \<open>What a goroutine has written stays written.\<close>

lemma serve_step_written:
  assumes "serve_step M s g = Some (s', g')"
  shows "go_request g' = go_request g" "has_written g q \<Longrightarrow> has_written g' q" "sv_cfg s' = sv_cfg s"
  using assms
  by (auto simp: serve_step_def step_lookup_def step_roundtrip_def step_store_def step_callback_def has_written_def Let_def
      split: progress.splits prod.splits sum.splits option.splits if_splits)

lemma written_for_step:
  assumes "i < length gs" "serve_step M s (gs ! i) = Some (s', g')" "written_for M cfg gs k q"
  shows "written_for M cfg (gs[i := g']) k q"
proof -
  obtain j where j: "j < length gs" "request_key M cfg (go_request (gs ! j)) = k" "has_written (gs ! j) q"
    using assms(3) by (auto simp: written_for_def in_set_conv_nth)
  let ?h = "gs[i := g'] ! j"
  have "request_key M cfg (go_request ?h) = k \<and> has_written ?h q"
    using j serve_step_written(1,2) [OF assms(2)] by (cases "j = i") auto
  moreover have "?h \<in> set (gs[i := g'])" using j(1) by (intro nth_mem) simp
  ultimately show ?thesis by (auto simp: written_for_def)
qed

lemma written_for_more: "written_for M cfg gs k q \<Longrightarrow> written_for M cfg (gs @ hs) k q"
  by (auto simp: written_for_def)

lemma goroutine_ok_mono:
  "goroutine_ok M cfg gs g \<Longrightarrow> (\<And>k q. written_for M cfg gs k q \<Longrightarrow> written_for M cfg hs k q) \<Longrightarrow> goroutine_ok M cfg hs g"
  unfolding goroutine_ok_def by (fastforce split: progress.split verdict_of_serve.split)

text \<open>The cache of the new state, entry by entry.\<close>

lemma lru_touch_subset: "set (lru_touch k xs) \<subseteq> set xs"
  by (auto simp: lru_touch_def lru_delete_def dest: map_of_SomeD split: option.splits)

lemma lru_insert_subset: "set (lru_insert n k v xs) \<subseteq> insert (k, v) (set xs)"
  by (auto simp: lru_insert_def lru_delete_def dest: in_set_butlastD)

text \<open>What one step does to the cache: it keeps the representation, and a new entry is the reply just written.\<close>

lemma serve_step_cache:
  assumes "serve_step M s g = Some (s', g')" "goroutine_ok M (sv_cfg s) gs g" "sv_idem s' = Some c'"
    and "\<And>c. sv_idem s = Some c \<Longrightarrow> cache_ok c"
  shows "\<exists>c. sv_idem s = Some c \<and> cache_ok c' \<and>
    (\<forall>ke \<in> set (cache_view c'). ke \<in> set (cache_view c) \<or>
       fst ke = request_key M (sv_cfg s) (go_request g') \<and> has_written g' (written_reply (snd ke)))"
proof -
  obtain c where c: "sv_idem s = Some c" "cache_ok c"
    using assms(1,3,4) by (cases "sv_idem s")
      (auto simp: serve_step_def step_lookup_def step_roundtrip_def step_store_def step_callback_def Let_def
        split: progress.splits prod.splits sum.splits option.splits if_splits)
  have get: "cache_ok (snd (cache_Get k c))" "set (cache_view (snd (cache_Get k c))) \<subseteq> set (cache_view c)" for k
    by (simp_all add: cache_Get_ok [OF c(2)] cache_Get_view [OF c(2)] lru_touch_subset)
  show ?thesis
  proof (cases "go_progress g")
    case Arrived
    then have "c' = c \<or> (\<exists>k. c' = snd (cache_Get k c))"
      using Arrived assms(1,3) c(1)
      by (auto simp: serve_step_def step_lookup_def Let_def split: prod.splits option.splits if_splits) (metis snd_conv)+
    then show ?thesis using c get by auto
  next
    case (Responded key resp)
    define e where "e = made_entry M (sv_cfg s) (go_request g) key resp"
    have s': "sv_idem s' = Some (if key \<noteq> [] then cache_Put key e c else c)" "has_written g' (written_reply e)" "go_request g' = go_request g"
      using assms(1) Responded c(1) by (auto simp: serve_step_def step_store_def Let_def e_def has_written_def)
    have ke: "ce_key e = key" by (simp add: e_def made_entry_def)
    show ?thesis
    proof (cases "key = []")
      case True
      then show ?thesis using s' c assms(3) by auto
    next
      case False
      then have "key = request_key M (sv_cfg s) (go_request g)" using assms(2) Responded by (simp add: goroutine_ok_def)
      then show ?thesis
        using cache_Put_refines [OF c(2) ke] lru_insert_subset [of "nat (ic_cap c)" key e "cache_view c"] s' c assms(3) False
        by fastforce
    qed
  next
    case (Missed key)
    then show ?thesis using assms(1,3) c
      by (auto simp: serve_step_def step_roundtrip_def split: prod.splits sum.splits)
  next
    case (Written rep)
    then show ?thesis using assms(1,3) c by (auto simp: serve_step_def step_callback_def Let_def)
  next
    case (Done v rep)
    then show ?thesis using assms(1) by (simp add: serve_step_def)
  qed
qed

text \<open>The goroutine after its step: a replay is of an entry the cache had.\<close>

lemma serve_step_goroutine:
  assumes "serve_step M s g = Some (s', g')" "goroutine_ok M (sv_cfg s) gs g"
    and "\<And>c. sv_idem s = Some c \<Longrightarrow> cache_ok c \<and>
      (\<forall>ke \<in> set (cache_view c). written_for M (sv_cfg s) hs (fst ke) (written_reply (snd ke)))"
  shows "goroutine_ok M (sv_cfg s) hs g'"
proof (cases "go_progress g")
  case Arrived
  let ?r = "go_request g"
  obtain evs1 refused where v: "(if specValidation (sv_cfg s) then specValidate M ?r else ([], None)) = (evs1, refused)"
    by fastforce
  show ?thesis
  proof (cases "refused = None \<and> sv_idem s \<noteq> None \<and> request_key M (sv_cfg s) ?r \<noteq> []")
    case False
    then show ?thesis using assms(1) Arrived v
      by (auto simp: serve_step_def step_lookup_def goroutine_ok_def request_key_def Let_def split: prod.splits option.splits if_splits)
  next
    case True
    then obtain c evs2 where c: "sv_idem s = Some c" and k: "idemKey M (sv_cfg s) ?r = (evs2, request_key M (sv_cfg s) ?r)"
      by (metis not_None_eq prod.collapse request_key_def)
    obtain hit c' where g: "cache_Get (request_key M (sv_cfg s) ?r) c = (hit, c')" by fastforce
    have "(request_key M (sv_cfg s) ?r, h) \<in> set (cache_view c)" if "hit = Some h" for h
      using idem.get_result [of c "request_key M (sv_cfg s) ?r"] assms(3) [OF c] g that by (metis fst_conv map_of_SomeD)
    then have w: "written_for M (sv_cfg s) hs (request_key M (sv_cfg s) ?r) (written_reply h)" if "hit = Some h" for h
      using assms(3) [OF c] that by fastforce
    show ?thesis using assms(1) Arrived v True c k g w
      by (cases hit) (auto simp: serve_step_def step_lookup_def goroutine_ok_def Let_def)
  qed
next
  case (Missed key)
  then show ?thesis using assms(1,2)
    by (auto simp: serve_step_def step_roundtrip_def goroutine_ok_def split: prod.splits sum.splits)
next
  case (Responded key resp)
  then show ?thesis using assms(1) by (auto simp: serve_step_def step_store_def goroutine_ok_def Let_def)
next
  case (Written rep)
  then show ?thesis using assms(1) by (auto simp: serve_step_def step_callback_def goroutine_ok_def Let_def)
next
  case (Done v rep)
  then show ?thesis using assms(1) by (simp add: serve_step_def)
qed

lemma interleaving_okI:
  assumes "sv_cfg s = cfg"
    and "\<And>c. sv_idem s = Some c \<Longrightarrow> cache_ok c \<and>
      (\<forall>ke \<in> set (cache_view c). written_for M cfg gs (fst ke) (written_reply (snd ke)))"
    and "\<And>g. g \<in> set gs \<Longrightarrow> goroutine_ok M cfg gs g"
  shows "interleaving_ok M cfg (s, gs)"
  using assms by (auto simp: interleaving_ok_def)

lemma move_ok:
  assumes "interleaving_ok M cfg (s, gs)" "i < length gs" "serve_step M s (gs ! i) = Some (s', g')"
  shows "interleaving_ok M cfg (s', gs[i := g'])"
proof (rule interleaving_okI)
  note w = written_for_step [OF assms(2,3)]
  have cfg: "sv_cfg s = cfg" using assms(1) by (simp add: interleaving_ok_def)
  have cache: "cache_ok c \<and> (\<forall>ke \<in> set (cache_view c). written_for M cfg gs (fst ke) (written_reply (snd ke)))"
    if "sv_idem s = Some c" for c
    using assms(1) that by (simp add: interleaving_ok_def)
  have g: "goroutine_ok M cfg gs (gs ! i)" using assms(1,2) by (simp add: interleaving_ok_def)
  have new: "g' \<in> set (gs[i := g'])" using assms(2) by (metis length_list_update nth_list_update_eq nth_mem)
  show "sv_cfg s' = cfg" using serve_step_written(3) [OF assms(3)] cfg by simp
  show "cache_ok c' \<and> (\<forall>ke \<in> set (cache_view c'). written_for M cfg (gs[i := g']) (fst ke) (written_reply (snd ke)))"
    if c': "sv_idem s' = Some c'" for c'
  proof -
    obtain c where c: "sv_idem s = Some c" "cache_ok c'" "\<forall>ke \<in> set (cache_view c'). ke \<in> set (cache_view c) \<or>
        fst ke = request_key M cfg (go_request g') \<and> has_written g' (written_reply (snd ke))"
      using serve_step_cache [OF assms(3) _ c'] g cfg cache by blast
    have "written_for M cfg (gs[i := g']) (fst ke) (written_reply (snd ke))" if "ke \<in> set (cache_view c')" for ke
    proof (cases "ke \<in> set (cache_view c)")
      case True
      then show ?thesis using cache [OF c(1)] w by blast
    next
      case False
      then have "request_key M cfg (go_request g') = fst ke \<and> has_written g' (written_reply (snd ke))" using c(3) that by metis
      then show ?thesis using new by (auto simp: written_for_def)
    qed
    then show ?thesis using c(2) by blast
  qed
  show "goroutine_ok M cfg (gs[i := g']) h" if "h \<in> set (gs[i := g'])" for h
  proof (cases "h = g'")
    case True
    have "goroutine_ok M cfg (gs[i := g']) g'"
      using serve_step_goroutine [OF assms(3), of gs "gs[i := g']"] g cfg cache w by simp
    then show ?thesis by (simp only: True)
  next
    case False
    then have "h \<in> set gs" using that set_update_subset_insert by fastforce
    then have "goroutine_ok M cfg gs h" using assms(1) by (simp add: interleaving_ok_def)
    then show ?thesis by (rule goroutine_ok_mono) (rule w)
  qed
qed

lemma mock_step_ok:
  assumes "mock_step M x y" "interleaving_ok M cfg x"
  shows "interleaving_ok M cfg y"
  using assms
proof (induction rule: mock_step.induct)
  case (arrive s gs r)
  then show ?case
    by (auto simp: interleaving_ok_def arrived_def goroutine_ok_def [of _ _ _ "\<lparr>go_request = r, go_progress = Arrived, go_effects = []\<rparr>"]
        intro: written_for_more goroutine_ok_mono)
next
  case (move i gs s s' g')
  then show ?case by (intro move_ok)
next
  case (set_scenario sc s s' gs)
  then show ?case by (auto simp: interleaving_ok_def Server_SetScenario_def SetScenario_def result_simps split: option.splits sum.splits)
next
  case (reset_log s gs)
  then show ?case by (simp add: interleaving_ok_def)
next
  case (reset_cache s gs)
  then show ?case using cache_Reset_ok by (auto simp: interleaving_ok_def cache_view_def cache_Reset_def)
qed

lemma mock_reaches_ok: "mock_reaches M x y \<Longrightarrow> interleaving_ok M cfg x \<Longrightarrow> interleaving_ok M cfg y"
  by (induction rule: mock_reaches.induct) (auto intro: mock_step_ok)

lemma newIdempotencyCache_view: "cache_view (newIdempotencyCache n) = []"
  by (simp add: cache_view_def newIdempotencyCache_def)

lemma NewServer_idem: "NewServer sc opts = Inr s \<Longrightarrow> sv_idem s = Some c \<Longrightarrow> \<exists>n. c = newIdempotencyCache n"
  by (auto simp: NewServer_def NewTransport_def result_simps Let_def split: if_splits option.splits)

lemma NewServer_interleaving_ok: "NewServer sc opts = Inr s \<Longrightarrow> interleaving_ok M (sv_cfg s) (s, [])"
  using newIdempotencyCache_ok newIdempotencyCache_view by (intro interleaving_okI) (auto dest!: NewServer_idem)

section \<open>Properties\<close>

text \<open>A request that misses the cache, and a request that hits it.\<close>

lemma lookup_hit_or_miss:
  assumes "spec_passes M (sv_cfg s) r" "sv_idem s = Some c" "request_key M (sv_cfg s) r = k" "k \<noteq> []"
  shows "\<exists>g. serve_step M s (arrived r) = Some (s\<lparr>sv_idem := Some (snd (cache_Get k c))\<rparr>, g) \<and> go_request g = r \<and>
    go_progress g = (case fst (cache_Get k c) of None \<Rightarrow> Missed k | Some h \<Rightarrow> Done Replayed (replay h))"
proof -
  obtain ev where k: "idemKey M (sv_cfg s) r = (ev, k)" using assms(3) by (metis prod.collapse request_key_def)
  obtain ev' where "(if specValidation (sv_cfg s) then specValidate M r else ([], None)) = (ev', None)"
    using assms(1) by (cases "specValidation (sv_cfg s)"; cases "specValidate M r") (auto simp: spec_passes_def)
  then show ?thesis using assms(2,4) k
    by (cases "cache_Get k c") (auto simp: serve_step_def step_lookup_def arrived_def Let_def split: option.split)
qed

lemma run_missed:
  assumes "go_progress g = Missed k" "k \<noteq> []" "sv_idem s = Some c"
    and "Respond (tr_scenario (sv_transport s)) (go_request g) = Inr resp"
    and "e = made_entry M (sv_cfg s) (go_request g) k resp"
  shows "\<exists>g'. run_alone 3 M s g =
      (s\<lparr>sv_transport := snd (RoundTrip (sv_transport s) (go_request g)), sv_idem := Some (cache_Put k e c)\<rparr>, g') \<and>
    go_request g' = go_request g \<and> go_progress g' = Done Answered (written_reply e)"
proof -
  obtain tr where rt: "RoundTrip (sv_transport s) (go_request g) = (Inr resp, tr)"
    using assms(4) by (simp add: RoundTrip_def Let_def)
  show ?thesis using assms rt
    by (simp add: numeral_3_eq_3 serve_step_def step_roundtrip_def step_store_def step_callback_def Let_def)
qed

text \<open>C18. Whatever the order in which concurrent requests, changes of the scenario and resets interleave, the mock
  server never invents a replay: a request that was answered from the cache got the status, the body and the headers,
  marked as a replay, of a reply that the server has written for another request with the same method, path and
  request id.\<close>

theorem replays_are_answers:
  assumes "NewServer sc opts = Inr s0" "mock_reaches M (s0, []) (s, gs)"
    and "g \<in> set gs" "go_progress g = Done Replayed rep"
  shows "\<exists>h \<in> set gs. \<exists>q. h \<noteq> g \<and>
    request_key M (sv_cfg s0) (go_request h) = request_key M (sv_cfg s0) (go_request g) \<and>
    (go_progress h = Written q \<or> go_progress h = Done Answered q) \<and>
    rep = q\<lparr>rp_header := header_set ''X-Mock-Replay'' ''1'' (rp_header q)\<rparr>"
proof -
  have "interleaving_ok M (sv_cfg s0) (s, gs)"
    by (rule mock_reaches_ok [OF assms(2) NewServer_interleaving_ok [OF assms(1)]])
  then have "goroutine_ok M (sv_cfg s0) gs g" using assms(3) by (simp add: interleaving_ok_def)
  then obtain e h where h: "rep = replay e" "h \<in> set gs" "has_written h (written_reply e)"
      "request_key M (sv_cfg s0) (go_request h) = request_key M (sv_cfg s0) (go_request g)"
    using assms(4) by (auto simp: goroutine_ok_def written_for_def)
  moreover have "h \<noteq> g" using h(3) assms(4) by (auto simp: has_written_def)
  moreover have "replay e = (written_reply e)\<lparr>rp_header := header_set ''X-Mock-Replay'' ''1'' (rp_header (written_reply e))\<rparr>"
    by (simp add: replay_def written_reply_def)
  ultimately show ?thesis by (auto simp: has_written_def intro!: bexI [of _ h])
qed

definition sample_served :: server where
  "sample_served = \<lparr>sv_transport = \<lparr>tr_scenario = ScenarioFunc (\<lambda>r. Inr (jsonResponse 200 (sr_body r))), tr_requests = [], tr_hits = []\<rparr>,
    sv_cfg = WithIdempotency zero_serverConfig, sv_idem = Some (newIdempotencyCache 1024)\<rparr>"

lemma sample_served_new:
  "NewServer (Some (ScenarioFunc (\<lambda>r. Inr (jsonResponse 200 (sr_body r))))) [Some WithIdempotency] = Inr sample_served"
  by (simp add: NewServer_def NewTransport_def sample_served_def WithIdempotency_def zero_serverConfig_def)

lemma sample_served_facts:
  "sv_idem sample_served = Some (newIdempotencyCache 1024)" "fst (cache_Get k (newIdempotencyCache 1024)) = None"
  "snd (cache_Get k (newIdempotencyCache 1024)) = newIdempotencyCache 1024"
  "spec_passes sample_mock_env (sv_cfg sample_served) x"
  "Respond (tr_scenario (sv_transport sample_served)) x = Inr (jsonResponse 200 (sr_body x))"
  by (simp_all add: sample_served_def cache_Get_def newIdempotencyCache_def spec_passes_def WithIdempotency_def
      zero_serverConfig_def Let_def)

lemma sample_key: "rid \<noteq> [] \<Longrightarrow> request_key sample_mock_env cfg (sample_server_request rid) = ''POST /auth::'' @ rid"
  by (simp add: request_key_def idemKey_def sample_server_request_def header_get_def sample_mock_env_def OpKey_def Let_def
      to_upper_def is_lower_def)

text \<open>The sample request sent twice, one after the other.\<close>

theorem replays_are_answers_witness:
  "\<exists>s gs g rep h q. mock_reaches sample_mock_env (sample_served, []) (s, gs) \<and> gs = [h, g] \<and>
     go_progress g = Done Replayed rep \<and> rp_body rep = ''r1'' \<and> has_written h q \<and> rp_body q = ''r1'' \<and>
     rp_header rep = header_set ''X-Mock-Replay'' ''1'' (rp_header q)"
proof -
  let ?M = sample_mock_env and ?r = "sample_server_request ''r1''" and ?c = "newIdempotencyCache 1024" and ?s = sample_served
  let ?k = "''POST /auth::r1''"
  define e where "e = made_entry ?M (sv_cfg ?s) ?r ?k (jsonResponse 200 ''r1'')"
  have key: "request_key ?M cfg ?r = ?k" for cfg using sample_key [of "''r1''"] by simp
  note facts = sample_served_facts
  obtain g1 where g1: "serve_step ?M ?s (arrived ?r) = Some (?s, g1)" "go_request g1 = ?r" "go_progress g1 = Missed ?k"
    using lookup_hit_or_miss [OF facts(4,1) key] facts(1-3) by auto
  have body: "sr_body ?r = ''r1''" by (simp add: sample_server_request_def)
  obtain s1 h where h: "run_alone 3 ?M ?s g1 = (s1, h)" "go_progress h = Done Answered (written_reply e)"
      "sv_idem s1 = Some (cache_Put ?k e ?c)" "sv_cfg s1 = sv_cfg ?s"
    using run_missed [OF g1(3) _ facts(1,5) refl, of ?M] g1(2) body by (auto simp: e_def)
  have hit: "fst (cache_Get ?k (cache_Put ?k e ?c)) = Some e"
    by (rule idem.get_put [OF newIdempotencyCache_ok]) (simp add: e_def made_entry_def)
  obtain s2 g where g: "serve_step ?M s1 (arrived ?r) = Some (s2, g)" "go_progress g = Done Replayed (replay e)"
    using lookup_hit_or_miss [OF _ h(3) key] facts(4) [of ?r] h(4) hit by auto
  have "mock_reaches ?M (?s, []) (?s, [arrived ?r])"
    using mock_step.arrive [of ?M ?s "[]" ?r] by (intro mock_reaches_step) simp
  then have "mock_reaches ?M (?s, []) (?s, [g1])"
    using mock_step.move [of 0 "[arrived ?r]" ?M ?s] g1(1) by (auto intro: mock_reaches.further)
  moreover have "mock_reaches ?M (?s, [g1]) (s1, [h])"
    using run_alone_reaches [of 3 ?M ?s "[g1]" 0] h(1) by simp
  ultimately have "mock_reaches ?M (?s, []) (s1, [h])" by (rule mock_reaches_trans [rotated])
  then have "mock_reaches ?M (?s, []) (s1, [h, arrived ?r])"
    using mock_step.arrive [of ?M s1 "[h]" ?r] by (auto intro: mock_reaches.further)
  then have reach: "mock_reaches ?M (?s, []) (s2, [h, g])"
    using mock_step.move [of 1 "[h, arrived ?r]" ?M s1] g(1) by (auto intro: mock_reaches.further)
  obtain q where "has_written h q" "replay e = q\<lparr>rp_header := header_set ''X-Mock-Replay'' ''1'' (rp_header q)\<rparr>"
    using replays_are_answers [OF sample_served_new reach _ g(2)] by (auto simp: has_written_def g(2))
  moreover have "rp_body (replay e) = ''r1''" by (simp add: replay_def e_def made_entry_def jsonResponse_def)
  ultimately have "has_written h q \<and> rp_body (replay e) = ''r1'' \<and> rp_body q = ''r1'' \<and>
      rp_header (replay e) = header_set ''X-Mock-Replay'' ''1'' (rp_header q)"
    by (simp) 
  then show ?thesis using reach g(2) by blast
qed

text \<open>C25. The cache does not make concurrent duplicates one: from every state in which two accepted requests with the same method, path
  and request id are not in the cache yet, there is an interleaving in which both reach the scenario and both are
  answered by it, each with a reply of its own, and the cache ends with the reply of the one that stored last, so that
  a later request with this id is replayed an answer that the first of the two never saw.\<close>

theorem duplicates_can_both_run:
  assumes "sv_idem s = Some c" "cache_ok c" "fst (cache_Get k c) = None" "k \<noteq> []"
    and "spec_passes M (sv_cfg s) r" "request_key M (sv_cfg s) r = k" "Respond (tr_scenario (sv_transport s)) r = Inr resp"
    and "spec_passes M (sv_cfg s) r'" "request_key M (sv_cfg s) r' = k" "Respond (tr_scenario (sv_transport s)) r' = Inr resp'"
  shows "\<exists>s' g g' e e'. mock_reaches M (s, []) (s', [g, g']) \<and> go_request g = r \<and> go_request g' = r' \<and>
    go_progress g = Done Answered (written_reply e) \<and> go_progress g' = Done Answered (written_reply e') \<and>
    ce_body e = fst (rsp_Body resp) \<and> ce_body e' = fst (rsp_Body resp') \<and>
    Server_Requests s' = Server_Requests s @ [record_request r, record_request r'] \<and>
    (\<exists>c'. sv_idem s' = Some c' \<and> fst (cache_Get k c') = Some e')"
proof -
  have same: "snd (cache_Get k c) = c" 
    using assms(3) cache_okD(7) [OF assms(2)] by (fastforce simp: cache_Get_def split: option.splits)
  have s: "s\<lparr>sv_idem := Some c\<rparr> = s" using assms(1) by simp
  obtain g1 where g1: "serve_step M s (arrived r) = Some (s, g1)" "go_request g1 = r" "go_progress g1 = Missed k"
    using lookup_hit_or_miss [OF assms(5,1,6,4)] assms(3) same s by auto
  obtain g2 where g2: "serve_step M s (arrived r') = Some (s, g2)" "go_request g2 = r'" "go_progress g2 = Missed k"
    using lookup_hit_or_miss [OF assms(8,1,9,4)] assms(3) same s by auto
  define e where "e = made_entry M (sv_cfg s) r k resp"
  define e' where "e' = made_entry M (sv_cfg s) r' k resp'"
  define s1 where "s1 = s\<lparr>sv_transport := snd (RoundTrip (sv_transport s) r), sv_idem := Some (cache_Put k e c)\<rparr>"
  have s1: "sv_idem s1 = Some (cache_Put k e c)" "sv_cfg s1 = sv_cfg s" "tr_scenario (sv_transport s1) = tr_scenario (sv_transport s)"
    by (simp_all add: s1_def RoundTrip_def Let_def)
  define s2 where "s2 = s1\<lparr>sv_transport := snd (RoundTrip (sv_transport s1) r'), sv_idem := Some (cache_Put k e' (cache_Put k e c))\<rparr>"
  obtain g where g: "run_alone 3 M s g1 = (s1, g)" "go_request g = r" "go_progress g = Done Answered (written_reply e)"
    using run_missed [OF g1(3) assms(4,1), of resp _ M] g1(2) assms(7) by (auto simp: e_def s1_def)
  obtain g' where g': "run_alone 3 M s1 g2 = (s2, g')" "go_request g' = r'" "go_progress g' = Done Answered (written_reply e')"
    using run_missed [OF g2(3) assms(4) s1(1), of resp' _ M] g2(2) assms(10) s1(2,3) by (auto simp: e'_def s2_def)
  have "mock_reaches M (s, []) (s, [arrived r])"
    using mock_step.arrive [of M s "[]" r] by (intro mock_reaches_step) simp
  then have "mock_reaches M (s, []) (s, [arrived r, arrived r'])"
    using mock_step.arrive [of M s "[arrived r]" r'] by (auto intro: mock_reaches.further)
  then have "mock_reaches M (s, []) (s, [g1, arrived r'])"
    using mock_step.move [of 0 "[arrived r, arrived r']" M s] g1(1) by (auto intro: mock_reaches.further)
  then have "mock_reaches M (s, []) (s, [g1, g2])"
    using mock_step.move [of 1 "[g1, arrived r']" M s] g2(1) by (auto intro: mock_reaches.further)
  then have "mock_reaches M (s, []) (s1, [g, g2])"
    using run_alone_reaches [of 3 M s "[g1, g2]" 0] g(1) by (auto intro: mock_reaches_trans [rotated])
  then have reach: "mock_reaches M (s, []) (s2, [g, g'])"
    using run_alone_reaches [of 3 M s1 "[g, g2]" 1] g'(1) by (auto intro: mock_reaches_trans [rotated])
  have ke: "ce_key e = k" "ce_key e' = k" by (simp_all add: e_def e'_def made_entry_def)
  have "fst (cache_Get k (cache_Put k e' (cache_Put k e c))) = Some e'"
    using cache_Put_refines [OF assms(2) ke(1)] ke(2) by (intro idem.get_put) auto
  moreover have "Server_Requests s2 = Server_Requests s @ [record_request r, record_request r']"
    by (simp add: s2_def s1_def Server_Requests_def Requests_def RoundTrip_def Let_def)
  moreover have "ce_body e = fst (rsp_Body resp)" "ce_body e' = fst (rsp_Body resp')"
    by (simp_all add: e_def e'_def made_entry_def)
  moreover have "sv_idem s2 = Some (cache_Put k e' (cache_Put k e c))" by (simp add: s2_def)
  ultimately show ?thesis using reach g(2,3) g'(2,3) by blast
qed

text \<open>Two requests with one id and different queries, and a scenario that echoes the query.\<close>

theorem duplicates_can_both_run_witness:
  "\<exists>s s' g g' e e'. NewServer (Some (ScenarioFunc (\<lambda>r. Inr (jsonResponse 200 (sr_query r))))) [Some WithIdempotency] = Inr s \<and>
     mock_reaches sample_mock_env (s, []) (s', [g, g']) \<and>
     go_progress g = Done Answered (written_reply e) \<and> go_progress g' = Done Answered (written_reply e') \<and>
     ce_body e = ''a'' \<and> ce_body e' = ''b''"
proof -
  let ?f = "ScenarioFunc (\<lambda>r. Inr (jsonResponse 200 (sr_query r)))"
  let ?q = "\<lambda>x. (sample_server_request ''r1'')\<lparr>sr_query := x\<rparr>"
  define s where "s = \<lparr>sv_transport = \<lparr>tr_scenario = ?f, tr_requests = [], tr_hits = []\<rparr>,
    sv_cfg = WithIdempotency zero_serverConfig, sv_idem = Some (newIdempotencyCache 1024)\<rparr>"
  have new: "NewServer (Some ?f) [Some WithIdempotency] = Inr s"
    by (simp add: NewServer_def NewTransport_def s_def WithIdempotency_def zero_serverConfig_def)
  have key: "request_key sample_mock_env (sv_cfg s) (?q x) = ''POST /auth::r1''" for x
    by (simp add: request_key_def idemKey_def sample_server_request_def header_get_def sample_mock_env_def OpKey_def Let_def
        to_upper_def is_lower_def)
  have c: "sv_idem s = Some (newIdempotencyCache 1024)" "sv_cfg s = sv_cfg sample_served" by (simp_all add: s_def sample_served_def)
  have resp: "Respond (tr_scenario (sv_transport s)) (?q x) = Inr (jsonResponse 200 x)" for x by (simp add: s_def)
  have body: "fst (rsp_Body (jsonResponse 200 x)) = x" for x by (simp add: jsonResponse_def)
  have pass: "spec_passes sample_mock_env (sv_cfg s) x" for x using sample_served_facts(4) c(2) by simp
  show ?thesis
    using duplicates_can_both_run [OF c(1) newIdempotencyCache_ok sample_served_facts(2) _ pass key resp pass key resp,
      of "''a''" "''b''", unfolded body] new
    by blast
qed

end
