(* ===== verification/Mock_Retry.thy ===== *)
theory Mock_Retry
  imports Mock_Server
begin

text \<open>
  The Client of doer.go against the mock server of atomefin/mock: what a retried call does to a server with
  WithIdempotency.  The HTTP between the two is a function here: a request arrives as it was sent, a reply may get lost on its
  way back, and other clients may be served between two attempts.
\<close>

section \<open>The wire\<close>

definition to_server :: "string \<Rightarrow> http_request \<Rightarrow> server_request" where
  "to_server base rq = \<lparr>sr_method = rq_method rq, sr_path = drop (length base) (rq_url rq), sr_query = rq_query rq,
     sr_header = rq_header rq, sr_body = rq_body rq, sr_ctx = None\<rparr>"

definition over_wire :: "http_reply \<Rightarrow> http_response" where
  "over_wire rep = \<lparr>rsp_StatusCode = rp_status rep, rsp_Header = rp_header rep, rsp_Body = (rp_body rep, None)\<rparr>"

text \<open>What the server has served before attempt \<open>n + 1\<close>: the attempts so far, each with the traffic after it.\<close>

fun served_before :: "server_request \<Rightarrow> (nat \<Rightarrow> server_request list) \<Rightarrow> nat \<Rightarrow> server_request list" where
  "served_before r traffic 0 = []"
| "served_before r traffic (Suc n) = served_before r traffic n @ r # traffic n"

definition server_at :: "mock_env \<Rightarrow> server \<Rightarrow> (nat \<Rightarrow> server_request list) \<Rightarrow> server_request \<Rightarrow> int \<Rightarrow> server" where
  "server_at M s traffic r i = serve_all M (served_before r traffic (nat (i - 1))) s"

text \<open>http.Client.Do: \<open>lost i\<close> is the error of an attempt whose reply does not arrive.\<close>

definition mock_network ::
  "mock_env \<Rightarrow> server \<Rightarrow> string \<Rightarrow> (nat \<Rightarrow> server_request list) \<Rightarrow> (int \<Rightarrow> go_error option) \<Rightarrow>
   int \<Rightarrow> http_request \<Rightarrow> go_error + http_response" where
  "mock_network M s base traffic lost i rq =
     (let r = to_server base rq in
      case lost i of
        Some err \<Rightarrow> Inl err
      | None \<Rightarrow> Inr (over_wire (fst (serveHTTP M r (server_at M s traffic r i)))))"

section \<open>The server during the attempts\<close>

lemma served_before_Suc:
  "\<exists>rs. served_before r traffic (Suc n) = r # rs \<and> set rs \<subseteq> insert r (\<Union>j\<le>n. set (traffic j))"
proof (induction n)
  case (Suc n)
  then obtain rs where "served_before r traffic (Suc n) = r # rs" "set rs \<subseteq> insert r (\<Union>j\<le>n. set (traffic j))" by blast
  then show ?case by (intro exI [of _ "rs @ r # traffic (Suc n)"]) (auto simp: atMost_Suc)
qed auto

text \<open>After the first attempt, every further one is answered from the cache.\<close>

lemma later_attempts_replayed:
  assumes "sv_idem s = Some c" "cache_ok c" "spec_passes M (sv_cfg s) r" "request_key M (sv_cfg s) r = k" "k \<noteq> []"
    and "fst (cache_Get k c) = None" "Respond (tr_scenario (sv_transport s)) r = Inr resp"
    and "int (card (request_key M (sv_cfg s) ` (\<Union>j<nat n. set (traffic j)) - {k, []})) < ic_cap c"
    and "1 \<le> i" "i \<le> n"
  shows "rp_status (fst (serveHTTP M r (server_at M s traffic r i))) = rsp_StatusCode resp"
    and "rp_body (fst (serveHTTP M r (server_at M s traffic r i))) = fst (rsp_Body resp)"
    and "1 < i \<Longrightarrow> sv_transport (serve_state M r (server_at M s traffic r i)) = sv_transport (server_at M s traffic r i)"
proof -
  let ?K = "request_key M (sv_cfg s)" and ?T = "\<Union>j<nat n. set (traffic j)"
  have "rp_status (fst (serveHTTP M r (server_at M s traffic r i))) = rsp_StatusCode resp \<and>
      rp_body (fst (serveHTTP M r (server_at M s traffic r i))) = fst (rsp_Body resp) \<and>
      (1 < i \<longrightarrow> sv_transport (serve_state M r (server_at M s traffic r i)) = sv_transport (server_at M s traffic r i))"
  proof (cases "i = 1")
    case True
    have "int (card (?K ` set [] - {k, []})) < ic_cap c" using cache_okD(1) [OF assms(2)]
      by (simp only: list.set image_empty empty_Diff card.empty of_nat_0)
    then obtain e :: cacheEntry where
      "fst (serveHTTP M r s) = \<lparr>rp_status = ce_status e, rp_header = copy_headers (ce_headers e), rp_body = ce_body e\<rparr>"
      "ce_status e = rsp_StatusCode resp" "ce_body e = fst (rsp_Body resp)"
      using replayed_later [OF assms(1-7) refl, where rs = "[]"] by blast
    then show ?thesis using True by (simp add: server_at_def serve_all_def)
  next
    case False
    define m where "m = nat (i - 2)"
    have m: "nat (i - 1) = Suc m" "Suc m < nat n" using assms(9,10) False by (simp_all add: m_def)
    obtain rs where rs: "served_before r traffic (Suc m) = r # rs" "set rs \<subseteq> insert r (\<Union>j\<le>m. set (traffic j))"
      using served_before_Suc by blast
    have at: "server_at M s traffic r i = serve_all M rs (serve_state M r s)"
      unfolding server_at_def m(1) rs(1) by (simp add: serve_all_def)
    have "(\<Union>j\<le>m. set (traffic j)) \<subseteq> ?T" using m(2) by (intro UN_mono) auto
    then have "set rs \<subseteq> insert r ?T" using rs(2) by (meson insert_mono order_trans)
    then have "?K ` set rs - {k, []} \<subseteq> ?K ` ?T - {k, []}" using assms(4) by blast
    then have "card (?K ` set rs - {k, []}) \<le> card (?K ` ?T - {k, []})" by (intro card_mono) auto
    then have "int (card (?K ` set rs - {k, []})) < ic_cap c" using assms(8) by linarith
    then obtain e :: cacheEntry where "ce_status e = rsp_StatusCode resp" "ce_body e = fst (rsp_Body resp)"
      "fst (serveHTTP M r (server_at M s traffic r i)) = replay e"
      "sv_transport (serve_state M r (server_at M s traffic r i)) = sv_transport (server_at M s traffic r i)"
      using replayed_later [OF assms(1-7) at] assms(3,4) by blast
    then show ?thesis by (simp add: replay_def)
  qed
  then show "rp_status (fst (serveHTTP M r (server_at M s traffic r i))) = rsp_StatusCode resp"
    "rp_body (fst (serveHTTP M r (server_at M s traffic r i))) = fst (rsp_Body resp)"
    "1 < i \<Longrightarrow> sv_transport (serve_state M r (server_at M s traffic r i)) = sv_transport (server_at M s traffic r i)"
    by simp_all
qed

section \<open>Properties\<close>

text \<open>The request a signed POST puts on the wire, as the server sees it.\<close>

definition posted_request :: "client \<Rightarrow> string \<Rightarrow> string \<Rightarrow> bytes \<Rightarrow> do_signed_option option list \<Rightarrow> server_request" where
  "posted_request c sig path body opts =
     to_server (baseURL c) (finish_request c (authScheme c sig (KeyID (signer c))) (extra_headers opts [])
       \<lparr>rq_method = ''POST'', rq_url = baseURL c @ path, rq_query = [], rq_header = [], rq_body = body\<rparr>)"

text \<open>C12. Retry and idempotency fit together: when the replies to the first k-1 attempts of a signed POST get lost on the
  way back, with an error the policy retries, and attempt k's arrives, the call returns the status and the body of
  the answer the mock server gave to the first attempt, and no later attempt has reached the scenario or the recorded
  traffic, whatever fewer other request ids than the cache holds were served in between.\<close>

theorem retried_call_runs_once:
  assumes "client_ok cl" "sint (maxRespBytes cl) < 2 ^ 63 - 1" "\<not> bad_path path"
    and "Sign (signer cl) (w_ctx_sign w) body = Inr sig" "\<And>i. w_new_request w i = None" "\<And>i. w_ctx w i = None"
    and "1 \<le> n" "n \<le> MaxAttempts (retry cl)"
    and "\<And>i. 1 \<le> i \<Longrightarrow> i < n \<Longrightarrow> \<exists>err. lost i = Some err \<and> callback (RetryOnTransportError (retry cl)) (Some err) \<and>
      IsRetryableTransport (Some err) \<and> Sleep (retry cl) (w_draw w i) (w_sleep_ctx w i) (w_sleep_wait w i) i = None"
    and "lost n = None" "w_do w = mock_network M s (baseURL cl) traffic lost" "r = posted_request cl sig path body opts"
    and "sv_idem s = Some c" "cache_ok c" "spec_passes M (sv_cfg s) r" "request_key M (sv_cfg s) r = k" "k \<noteq> []"
    and "fst (cache_Get k c) = None" "Respond (tr_scenario (sv_transport s)) r = Inr resp"
    and "int (card (request_key M (sv_cfg s) ` (\<Union>j<nat n. set (traffic j)) - {k, []})) < ic_cap c"
    and "rsp_StatusCode resp < 400" "\<not> callback (RetryOnStatus (retry cl)) (rsp_StatusCode resp)"
    and "int (length (fst (rsp_Body resp))) \<le> sint (maxRespBytes cl)"
  shows "(\<exists>h. snd (DoSigned (Some cl) w ''POST'' path body opts) =
      Inr \<lparr>StatusCode = rsp_StatusCode resp, Header = h, Body = fst (rsp_Body resp)\<rparr>) \<and>
    map (to_server (baseURL cl)) (sent_requests (fst (DoSigned (Some cl) w ''POST'' path body opts))) = replicate (nat n) r \<and>
    (\<forall>i. 1 < i \<and> i \<le> n \<longrightarrow>
      sv_transport (serve_state M r (server_at M s traffic r i)) = sv_transport (server_at M s traffic r i))"
proof -
  let ?u = "baseURL cl @ path" let ?b = "post_request w ''POST'' (baseURL cl @ path) body"
  let ?a = "authScheme cl sig (KeyID (signer cl))" let ?x = "extra_headers opts []"
  let ?rq = "finish_request cl ?a ?x \<lparr>rq_method = ''POST'', rq_url = ?u, rq_query = [], rq_header = [], rq_body = body\<rparr>"
  have mx: "0 < sint (maxRespBytes cl)" using assms(1) by (simp add: client_ok_def)
  have r: "to_server (baseURL cl) ?rq = r" using assms(12) by (simp add: posted_request_def)
  note later = later_attempts_replayed [OF assms(13-20)]
  have retry: "retryable_outcome cl w path ?u ?a ?x ?b i \<and>
      Sleep (retry cl) (w_draw w i) (w_sleep_ctx w i) (w_sleep_wait w i) i = None" if i: "1 \<le> i" "i < n" for i
    using assms(9) [OF i] assms(5,6,8,11) i
    by (auto simp: retryable_outcome_def dispatchAttempt_def post_request_def mock_network_def Let_def)
  let ?rep = "fst (serveHTTP M r (server_at M s traffic r n))"
  have rep: "rp_status ?rep = rsp_StatusCode resp" "rp_body ?rep = fst (rsp_Body resp)" using later(1,2) assms(7) by simp_all
  have "readAndClose (fst (rsp_Body resp), None) (maxRespBytes cl) = (fst (rsp_Body resp), None)"
    by (rule readable_within [OF mx assms(2,23)])
  then have last: "snd (dispatchAttempt cl w path ?u ?a n ?x ?b) =
      Inr \<lparr>StatusCode = rsp_StatusCode resp, Header = rp_header ?rep, Body = fst (rsp_Body resp)\<rparr>"
    using assms(5,10,11,21,22) r rep
    by (simp add: dispatchAttempt_def handle_response_def post_request_def mock_network_def over_wire_def Let_def cloneHeader_def)
  have "DoSigned (Some cl) w ''POST'' path body opts = dispatch_loop cl w path ?u ?a ?x ?b 1 None"
    using assms(3,4) by (simp add: DoSigned_def Let_def signAndDispatch_def)
  moreover have "map (to_server (baseURL cl)) (concat (map (attempt_sends cl ?a ?x ?b) ns)) = replicate (length ns) r" for ns
    using assms(5) r by (induction ns) (simp_all add: attempt_sends_def post_request_def)
  ultimately show ?thesis
    using dispatch_loop_reaches [OF assms(7,8) _ last, of None] retry later(3) assms(7) by auto
qed

text \<open>The first reply is lost, another request is served, and the second attempt gets the first answer.\<close>

definition echo_id :: scenario where
  "echo_id = ScenarioFunc (\<lambda>r. Inr (jsonResponse 200 (sr_body r)))"

definition lossy_world :: "(int \<Rightarrow> http_request \<Rightarrow> go_error + http_response) \<Rightarrow> world" where
  "lossy_world net = sample_world\<lparr>w_do := net\<rparr>"

theorem retried_call_runs_once_witness:
  "\<exists>s r h. NewServer (Some echo_id) [Some WithIdempotency] = Inr s \<and>
     (let w = lossy_world (mock_network sample_mock_env s ''https://h'' (\<lambda>n. [sample_server_request ''r2''])
                (\<lambda>i. if i = 1 then Some (ErrorString ''EOF'') else None));
          D = DoSigned (Some sample_client) w ''POST'' ''/auth'' ''r1'' [] in
      snd D = Inr \<lparr>StatusCode = 200, Header = h, Body = ''r1''\<rparr> \<and>
      map (to_server ''https://h'') (sent_requests (fst D)) = [r, r])"
proof -
  let ?M = sample_mock_env and ?t = "\<lambda>n :: nat. [sample_server_request ''r2'']"
  let ?lost = "\<lambda>i :: int. if i = 1 then Some (ErrorString ''EOF'') else None"
  define s where "s = \<lparr>sv_transport = \<lparr>tr_scenario = echo_id, tr_requests = [], tr_hits = []\<rparr>,
    sv_cfg = WithIdempotency zero_serverConfig, sv_idem = Some (newIdempotencyCache 1024)\<rparr>"
  define w where "w = lossy_world (mock_network ?M s ''https://h'' ?t ?lost)"
  define r where "r = posted_request sample_client ''sig:r1'' ''/auth'' ''r1'' []"
  have new: "NewServer (Some echo_id) [Some WithIdempotency] = Inr s"
    by (simp add: NewServer_def NewTransport_def s_def WithIdempotency_def zero_serverConfig_def)
  have w: "w_ctx_sign w = None" "w_new_request w i = None" "w_ctx w i = None" "w_draw w i = None" "w_sleep_ctx w i = None"
      "w_sleep_wait w i d = None" "w_do w = mock_network ?M s (baseURL sample_client) ?t ?lost" for i d
    by (simp_all add: w_def lossy_world_def sample_world_def sample_client_fields)
  have sg: "Sign (signer sample_client) (w_ctx_sign w) ''r1'' = Inr ''sig:r1''"
    by (simp add: w(1) sample_client_fields sample_signer_def)
  have r: "sr_method r = ''POST''" "sr_path r = ''/auth''" "sr_body r = ''r1''" "header_get ''Encrypt'' (sr_header r) = []"
    by (simp_all add: r_def posted_request_def to_server_def sample_client_fields finish_request_def populateHeaders_def
        header_get_def header_set_def)
  have key: "request_key ?M (sv_cfg s) r = ''POST /auth::r1''"
    by (simp add: request_key_def idemKey_def r sample_mock_env_def OpKey_def Let_def to_upper_def is_lower_def)
  have c: "sv_idem s = Some (newIdempotencyCache 1024)" "fst (cache_Get k (newIdempotencyCache 1024)) = None" for k
    by (simp_all add: s_def cache_Get_def newIdempotencyCache_def)
  have pass: "spec_passes ?M (sv_cfg s) x" for x
    by (simp add: spec_passes_def s_def WithIdempotency_def zero_serverConfig_def Let_def)
  have resp: "Respond (tr_scenario (sv_transport s)) r = Inr (jsonResponse 200 ''r1'')" by (simp add: s_def echo_id_def r)
  have lost: "\<exists>err. ?lost i = Some err \<and> callback (RetryOnTransportError (retry sample_client)) (Some err) \<and>
      IsRetryableTransport (Some err) \<and>
      Sleep (retry sample_client) (w_draw w i) (w_sleep_ctx w i) (w_sleep_wait w i) i = None" if "1 \<le> i" "i < 2" for i
    using that by (simp add: sample_client_fields plain_policy_fields callback_def DefaultRetryOnTransportError_def
        IsRetryableTransport_iff Sleep_def w Let_def)
  have "card (request_key ?M (sv_cfg s) ` (\<Union>j<nat 2. set (?t j)) - {''POST /auth::r1'', []}) \<le>
      card {request_key ?M (sv_cfg s) (sample_server_request ''r2'')}"
    by (rule card_mono) auto
  then have cap: "int (card (request_key ?M (sv_cfg s) ` (\<Union>j<nat 2. set (?t j)) - {''POST /auth::r1'', []})) <
      ic_cap (newIdempotencyCache 1024)"
    by (simp add: newIdempotencyCache_def)
  have D: "\<exists>h. snd (DoSigned (Some sample_client) w ''POST'' ''/auth'' ''r1'' []) = Inr \<lparr>StatusCode = 200, Header = h, Body = ''r1''\<rparr>"
    "map (to_server ''https://h'') (sent_requests (fst (DoSigned (Some sample_client) w ''POST'' ''/auth'' ''r1'' []))) = [r, r]"
    using retried_call_runs_once [OF sample_client_ok _ _ sg w(2,3) _ _ lost _ w(7) _ c(1) newIdempotencyCache_ok pass key _ c(2) resp cap,
        where opts = "[]"]
    by (simp_all add: sample_client_fields plain_policy_fields bad_path_def jsonResponse_def callback_def DefaultRetryOnStatus_def
        r_def eval_nat_numeral)
  obtain h where "snd (DoSigned (Some sample_client) w ''POST'' ''/auth'' ''r1'' []) = Inr \<lparr>StatusCode = 200, Header = h, Body = ''r1''\<rparr>"
    by (rule exE [OF D(1)])
  with D(2) new show ?thesis unfolding w_def Let_def
    by (intro exI [of _ s] exI [of _ r] exI [of _ h] conjI) assumption+
qed

end
