(* ===== verification/Constants.thy ===== *)
theory Constants
  imports Payment_Types Commerce_Types Credit_Types
begin

text \<open>
  The named string constants of the SDK, block by block: for each of the string types the Go names with the texts that
  travel.  RepaymentStatus and RepaymentEvent of the bill package have Bill in front of their names, the codes the credit
  package adds to Code are the list of CreditCode.
\<close>

section \<open>The const blocks\<close>

definition Status_constants :: "(string \<times> string) list" where
  "Status_constants = [(''StatusProcessing'', ''PROCESSING''), (''StatusSuccess'', ''SUCCESS''),
     (''StatusFailed'', ''FAILED'')]"

definition Code_constants :: "(string \<times> string) list" where
  "Code_constants = [(''CodeSuccess'', ''SUCCESS''), (''CodeInvalidOrderAmount'', ''INVALID_ORDER_AMOUNT''),
     (''CodeCreditApplicationNotApproved'', ''CREDIT_APPLICATION_NOT_APPROVED''),
     (''CodeAccountBlockedOverdue'', ''ACCOUNT_BLOCKED_OVERDUE''), (''CodeAccountBlocked'', ''ACCOUNT_BLOCKED''),
     (''CodeAccountTempBlocked'', ''ACCOUNT_TEMP_BLOCKED''), (''CodeFeeChange'', ''FEE_CHANGE''),
     (''CodeUserCreditLimitInsufficient'', ''USER_CREDIT_LIMIT_INSUFFICIENT''),
     (''CodeRiskReject'', ''RISK_REJECT''),
     (''CodeRefundableAmountInsufficient'', ''REFUNDABLE_AMOUNT_INSUFFICIENT''),
     (''CodeNonRefundableStatus'', ''NON_REFUNDABLE_STATUS''), (''CodeAccountClosed'', ''ACCOUNT_CLOSED''),
     (''CodeInvalidPartner'', ''INVALID_PARTNER''), (''CodeParamsMissing'', ''PARAMS_MISSING''),
     (''CodeWrongParamsFormat'', ''WRONG_PARAMS_FORMAT''), (''CodeParamsWrong'', ''PARAMS_WRONG''),
     (''CodeNotFound'', ''NOT_FOUND''), (''CodeSessionNotFound'', ''SESSION_NOT_FOUND''),
     (''CodeCaptureAmountExceed'', ''CAPTURE_AMOUNT_EXCEED''), (''CodeAuthExpired'', ''AUTH_EXPIRED''),
     (''CodeInvalidSignature'', ''INVALID_SIGNATURE''), (''CodeServerError'', ''SERVER_ERROR'')]"

definition FailureCode_constants :: "(string \<times> string) list" where
  "FailureCode_constants = [(''FailureUserCreditLimitInsufficient'', ''USER_CREDIT_LIMIT_INSUFFICIENT''),
     (''FailureRiskReject'', ''RISK_REJECT''),
     (''FailureRefundableAmountInsufficient'', ''REFUNDABLE_AMOUNT_INSUFFICIENT'')]"

definition AccountStatus_constants :: "(string \<times> string) list" where
  "AccountStatus_constants = [(''AccountStatusNormal'', ''NORMAL''),
     (''AccountStatusBlockedOverdue'', ''ACCOUNT_BLOCKED_OVERDUE''), (''AccountStatusBlocked'', ''ACCOUNT_BLOCKED''),
     (''AccountStatusClosed'', ''ACCOUNT_CLOSED'')]"

definition Environment_constants :: "(string \<times> string) list" where
  "Environment_constants = [(''EnvPre'', ''pre''), (''EnvProd'', ''prod'')]"

definition Currency_constants :: "(string \<times> string) list" where
  "Currency_constants = [(''CurrencyIDR'', ''IDR'')]"

definition PaymentOrderType_constants :: "(string \<times> string) list" where
  "PaymentOrderType_constants = [(''OrderTypeTransport'', ''TRANSPORT''), (''OrderTypeGrabFood'', ''GRAB_FOOD''),
     (''OrderTypeGrabMart'', ''GRAB_MART'')]"

definition Platform_constants :: "(string \<times> string) list" where
  "Platform_constants = [(''PlatformAndroid'', ''ANDROID''), (''PlatformIOS'', ''IOS'')]"

definition PaymentPlanMode_constants :: "(string \<times> string) list" where
  "PaymentPlanMode_constants = [(''PaymentPlanModeAsk'', ''ask''), (''PaymentPlanModeGet'', ''get'')]"

definition RepaymentEvent_constants :: "(string \<times> string) list" where
  "RepaymentEvent_constants = [(''RepaymentEventNormal'', ''NORMAL''),
     (''RepaymentEventAtomeRepayment'', ''ATOME_REPAYMENT''),
     (''RepaymentEventOverpaidRepayment'', ''OVERPAID_REPAYMENT'')]"

definition RepaymentStatus_constants :: "(string \<times> string) list" where
  "RepaymentStatus_constants = [(''StatusRepaid'', ''REPAID''), (''StatusUnpaid'', ''UNPAID''),
     (''StatusPartialRepaid'', ''PARTIAL_REPAID'')]"

definition OverdueStatus_constants :: "(string \<times> string) list" where
  "OverdueStatus_constants = [(''OverdueStatusNotOverdue'', ''NOT_OVERDUE''),
     (''OverdueStatusOverdue'', ''OVERDUE'')]"

definition BillStatus_constants :: "(string \<times> string) list" where
  "BillStatus_constants = [(''BillStatusBilled'', ''BILLED''), (''BillStatusUnbilled'', ''UNBILLED'')]"

definition RefundStatus_constants :: "(string \<times> string) list" where
  "RefundStatus_constants = [(''RefundStatusFullRefunded'', ''FULL_REFUNDED''),
     (''RefundStatusPartialRefunded'', ''PARTIAL_REFUNDED''), (''RefundStatusNotRefunded'', ''NOT_REFUNDED'')]"

definition BillRepaymentStatus_constants :: "(string \<times> string) list" where
  "BillRepaymentStatus_constants = [(''RepaymentStatusRepaid'', ''REPAID''), (''RepaymentStatusUnpaid'', ''UNPAID''),
     (''RepaymentStatusPartialRepaid'', ''PARTIAL_REPAID'')]"

definition BillRepaymentEvent_constants :: "(string \<times> string) list" where
  "BillRepaymentEvent_constants = [(''RepaymentEventNormal'', ''NORMAL''),
     (''RepaymentEventAtomeRepayment'', ''ATOME_REPAYMENT''),
     (''RepaymentEventOverpaidRepaymt'', ''OVERPAID_REPAYMENT'')]"

definition TransactionType_constants :: "(string \<times> string) list" where
  "TransactionType_constants = [(''TransactionTypePayment'', ''PAYMENT''), (''TransactionTypeRefund'', ''REFUND''),
     (''TransactionTypeRepayment'', ''REPAYMENT'')]"

definition RefundType_constants :: "(string \<times> string) list" where
  "RefundType_constants = [(''RefundTypeNormal'', ''NORMAL''), (''RefundTypeChargeback'', ''CHARGEBACK''),
     (''RefundTypeOverpaid'', ''OVERPAID''), (''RefundTypeAtomeRepayment'', ''ATOME_REPAYMENT'')]"

definition SubOrderRefundStatus_constants :: "(string \<times> string) list" where
  "SubOrderRefundStatus_constants = [(''SubOrderRefundStatusFull'', ''FULL_REFUND''),
     (''SubOrderRefundStatusPartial'', ''PARTIAL_REFUND'')]"

definition BankCode_constants :: "(string \<times> string) list" where
  "BankCode_constants = [(''BankBCA'', ''BCA''), (''BankMandiri'', ''MANDIRI''), (''BankBRI'', ''BRI''),
     (''BankBNI'', ''BNI''), (''BankPermata'', ''PERMATA''), (''BankSahabatSampoerna'', ''SAHABAT_SAMPOERNA'')]"

definition CreditCode_constants :: "(string \<times> string) list" where
  "CreditCode_constants = [(''CodeActiveAccount'', ''ACTIVE_ACCOUNT''),
     (''CodeCreditApplicationInProgress'', ''CREDIT_APPLICATION_INPROGESS''),
     (''CodeAccountClosed'', ''ACCOUNT_CLOSED''), (''CodeUnpaidDebt'', ''UNPAID_DEBT''),
     (''CodeOverpaidUnreturned'', ''OVERPAID_UNRETURNED''), (''CodeOngoingWithdrawal'', ''ONGOING_WITHDRAWAL''),
     (''CodeUserAccountNotExist'', ''USER_ACCOUNT_NOT_EXIST''), (''CodeFailed'', ''FAILED'')]"

definition CreditStatus_constants :: "(string \<times> string) list" where
  "CreditStatus_constants = [(''CreditStatusSuccess'', ''SUCCESS''), (''CreditStatusFailed'', ''FAILED''),
     (''CreditStatusProcessing'', ''PROCESSING''), (''CreditStatusDraft'', ''DRAFT'')]"

definition Country_constants :: "(string \<times> string) list" where
  "Country_constants = [(''CountryIndonesia'', ''ID'')]"

definition Language_constants :: "(string \<times> string) list" where
  "Language_constants = [(''LanguageEnglish'', ''en''), (''LanguageIndonesian'', ''id'')]"

definition BalanceHistoryType_constants :: "(string \<times> string) list" where
  "BalanceHistoryType_constants = [(''BalanceHistoryTypeOverpaidChange'', ''OVERPAID_CHANGE''),
     (''BalanceHistoryTypeCreditLimitAdjustment'', ''CREDIT_LIMIT_ADJUSTMENT''),
     (''BalanceHistoryTypeTradeAvailableCreditChange'', ''TRADE_AVAILABLE_CREDIT_CHANGE'')]"

definition LoanStatus_constants :: "(string \<times> string) list" where
  "LoanStatus_constants = [(''LoanStatusNormal'', ''NORMAL''), (''LoanStatusRiskRejected'', ''RISK_REJECTED'')]"

definition UserStatus_constants :: "(string \<times> string) list" where
  "UserStatus_constants = [(''UserStatusNormal'', ''NORMAL''),
     (''UserStatusAccountBlockedOverdue'', ''ACCOUNT_BLOCKED_OVERDUE''),
     (''UserStatusAccountBlocked'', ''ACCOUNT_BLOCKED''), (''UserStatusAccountClosed'', ''ACCOUNT_CLOSED'')]"

definition UserTag_constants :: "(string \<times> string) list" where
  "UserTag_constants = [(''UserTagNewUser'', ''NEW_USER''), (''UserTagPriorUser'', ''PRIOR_USER'')]"

definition UserTagStatus_constants :: "(string \<times> string) list" where
  "UserTagStatus_constants = [(''UserTagStatusApprove'', ''APPROVE''), (''UserTagStatusReject'', ''REJECT'')]"

definition FailReason_constants :: "(string \<times> string) list" where
  "FailReason_constants = [(''FailReasonFraud'', ''FRAUD''), (''FailReasonTooManyRetry'', ''TOO_MANY_RETRY''),
     (''FailReasonBlurredIDPhoto'', ''BLURRED_ID_PHOTO''), (''FailReasonIDInvalid'', ''ID_INVALID''),
     (''FailReasonNameIDNumberIsWrong'', ''NAME_ID_NUMBER_IS_WRONG''),
     (''FailReasonWrongPhotoFormat'', ''WRONG_PHOTO_FORMAT''), (''FailReasonOthers'', ''OTHERS'')]"

definition CreditSceneType_constants :: "(string \<times> string) list" where
  "CreditSceneType_constants = [(''SceneProductLandingPage'', ''PRODUCT_LANDING_PAGE''),
     (''ScenePromoBannerPage'', ''PROMO_BANNER_PAGE''), (''SceneMarketingPushEntry'', ''MARKETING_PUSH_ENTRY''),
     (''SceneCheckoutPage'', ''CHECKOUT_PAGE''), (''SceneWalletDashboardEntry'', ''WALLET_DASHBOARD_ENTRY'')]"

definition UserFlag_constants :: "(string \<times> string) list" where
  "UserFlag_constants = [(''UserFlagOVO'', ''OVO''), (''UserFlagCommon'', ''COMMON''), (''UserFlagGrab'', ''GRAB'')]"

definition SCDUserLevel_constants :: "(string \<times> string) list" where
  "SCDUserLevel_constants = [(''SCDUserLevel1'', ''1''), (''SCDUserLevel2'', ''2''), (''SCDUserLevel3'', ''3'')]"

definition AccountChangeEventType_constants :: "(string \<times> string) list" where
  "AccountChangeEventType_constants = [(''AccountEventOverdue'', ''ACCOUNT_OVERDUE''),
     (''AccountEventLateFeeIncrease'', ''LATE_FEE_INCREASE''),
     (''AccountEventLateFeeDecrease'', ''LATE_FEE_DECREASE''),
     (''AccountEventFixedCreditLimitBoost'', ''FIXED_CREDIT_LIMIT_BOOST''),
     (''AccountEventFixedCreditLimitLower'', ''FIXED_CREDIT_LIMIT_DECREASE''),
     (''AccountEventTempCreditLimitBoost'', ''TEMP_CREDIT_LIMIT_BOOST''),
     (''AccountEventTempCreditLimitLower'', ''TEMP_CREDIT_LIMIT_DECREASE''),
     (''AccountEventAtomeControl'', ''ATOME_CONTROL'')]"

definition AccountChangeScene_constants :: "(string \<times> string) list" where
  "AccountChangeScene_constants = [(''AccountSceneStatusChange'', ''ACCOUNT_STATUS_CHANGE''),
     (''AccountSceneLateFeeChange'', ''LATE_FEE_CHANGE''), (''AccountSceneOverpaidChange'', ''OVERPAID_CHANGE''),
     (''AccountSceneCreditLimitAdjustment'', ''CREDIT_LIMIT_ADJUSTMENT'')]"

definition HMACHeader_constants :: "(string \<times> string) list" where
  "HMACHeader_constants = [(''HMACClientIDHeader'', ''client-id''), (''HMACTimeHeader'', ''time''),
     (''HMACSignatureHeader'', ''signature'')]"

section \<open>What the names promise\<close>

text \<open>A block declares no name and no text twice.\<close>

definition block_ok :: "(string \<times> string) list \<Rightarrow> bool" where
  "block_ok cs \<longleftrightarrow> distinct (map fst cs) \<and> distinct (map snd cs)"

text \<open>The types with a method IsValid, each with its block.\<close>

definition checked_types :: "((string \<Rightarrow> bool) \<times> (string \<times> string) list) list" where
  "checked_types =
     [(RepaymentEvent_IsValid, RepaymentEvent_constants),
      (RepaymentStatus_IsValid, RepaymentStatus_constants),
      (OverdueStatus_IsValid, OverdueStatus_constants),
      (BillRepaymentStatus_IsValid, BillRepaymentStatus_constants),
      (TransactionType_IsValid, TransactionType_constants),
      (RefundType_IsValid, RefundType_constants),
      (BankCode_IsValid, BankCode_constants),
      (CreditStatus_IsValid, CreditStatus_constants),
      (Country_IsValid, Country_constants),
      (Language_IsValid, Language_constants),
      (BalanceHistoryType_IsValid, BalanceHistoryType_constants),
      (LoanStatus_IsValid, LoanStatus_constants),
      (UserStatus_IsValid, UserStatus_constants),
      (UserTag_IsValid, UserTag_constants),
      (UserTagStatus_IsValid, UserTagStatus_constants),
      (CreditSceneType_IsValid, CreditSceneType_constants),
      (UserFlag_IsValid, UserFlag_constants),
      (SCDUserLevel_IsValid, SCDUserLevel_constants),
      (AccountChangeEventType_IsValid, AccountChangeEventType_constants),
      (AccountChangeScene_IsValid, AccountChangeScene_constants),
      (PaymentOrderType_IsValid, PaymentOrderType_constants),
      (Platform_IsValid, Platform_constants),
      (PaymentPlanMode_IsValid, PaymentPlanMode_constants),
      (Currency_IsValid, Currency_constants)]"

definition all_blocks :: "(string \<times> string) list list" where
  "all_blocks =
     [Status_constants, Code_constants, FailureCode_constants, AccountStatus_constants,
      Environment_constants, Currency_constants, PaymentOrderType_constants, Platform_constants,
      PaymentPlanMode_constants, RepaymentEvent_constants, RepaymentStatus_constants, OverdueStatus_constants,
      BillStatus_constants, RefundStatus_constants, BillRepaymentStatus_constants, BillRepaymentEvent_constants,
      TransactionType_constants, RefundType_constants, SubOrderRefundStatus_constants, BankCode_constants,
      CreditCode_constants, CreditStatus_constants, Country_constants, Language_constants,
      BalanceHistoryType_constants, LoanStatus_constants, UserStatus_constants, UserTag_constants,
      UserTagStatus_constants, FailReason_constants, CreditSceneType_constants, UserFlag_constants,
      SCDUserLevel_constants, AccountChangeEventType_constants, AccountChangeScene_constants, HMACHeader_constants]"

lemmas valid_defs = RepaymentEvent_IsValid_def RepaymentStatus_IsValid_def OverdueStatus_IsValid_def BillRepaymentStatus_IsValid_def
  TransactionType_IsValid_def RefundType_IsValid_def BankCode_IsValid_def CreditStatus_IsValid_def
  Country_IsValid_def Language_IsValid_def BalanceHistoryType_IsValid_def LoanStatus_IsValid_def
  UserStatus_IsValid_def UserTag_IsValid_def UserTagStatus_IsValid_def CreditSceneType_IsValid_def
  UserFlag_IsValid_def SCDUserLevel_IsValid_def AccountChangeEventType_IsValid_def AccountChangeScene_IsValid_def
  PaymentOrderType_IsValid_def Platform_IsValid_def PaymentPlanMode_IsValid_def Currency_IsValid_def

lemmas block_defs = Status_constants_def Code_constants_def FailureCode_constants_def AccountStatus_constants_def
  Environment_constants_def Currency_constants_def PaymentOrderType_constants_def Platform_constants_def
  PaymentPlanMode_constants_def RepaymentEvent_constants_def RepaymentStatus_constants_def OverdueStatus_constants_def
  BillStatus_constants_def RefundStatus_constants_def BillRepaymentStatus_constants_def BillRepaymentEvent_constants_def
  TransactionType_constants_def RefundType_constants_def SubOrderRefundStatus_constants_def BankCode_constants_def
  CreditCode_constants_def CreditStatus_constants_def Country_constants_def Language_constants_def
  BalanceHistoryType_constants_def LoanStatus_constants_def UserStatus_constants_def UserTag_constants_def
  UserTagStatus_constants_def FailReason_constants_def CreditSceneType_constants_def UserFlag_constants_def
  SCDUserLevel_constants_def AccountChangeEventType_constants_def AccountChangeScene_constants_def HMACHeader_constants_def

text \<open>The enumerations are closed and unambiguous: every IsValid accepts exactly the texts its type declares a
  constant for, and within one block no two constants have the same text.\<close>

theorem IsValid_declared:
  "list_all (\<lambda>(valid, cs). \<forall>v. valid v \<longleftrightarrow> v \<in> snd ` set cs) checked_types \<and> list_all block_ok all_blocks"
proof
  show "list_all (\<lambda>(valid, cs). \<forall>v. valid v \<longleftrightarrow> v \<in> snd ` set cs) checked_types"
    by (simp add: checked_types_def) (simp add: valid_defs block_defs OrderTypeTransport_def OrderTypeGrabFood_def OrderTypeGrabMart_def)
  show "list_all block_ok all_blocks"
    by (simp add: all_blocks_def block_ok_def) (simp add: block_defs)
qed

text \<open>The codes the credit package adds: one of them repeats a code of codes.go, under the same Go name.\<close>

lemma credit_codes_overlap:
  "snd ` set CreditCode_constants \<inter> snd ` set Code_constants = {''ACCOUNT_CLOSED''}"
  by (auto simp: CreditCode_constants_def Code_constants_def)

end
