(* ===== verification/Spec2Isabelle.thy ===== *)
theory Spec2Isabelle
  imports Poll Callback Spec_Server Request_Id Log_Redaction Qa_Marshal Examples Accessors Mock_Interleave Mock_Retry Constants
begin

text \<open>
  A verification library for the Atome Go SDK (src/).  The SDK signs requests of a
  partner to the payment gateway, retries them, encrypts those of three credit endpoints,
  validates them before they leave, polls until a payment is final, and receives
  signed callbacks; a mock server and a spec checker stand in for the gateway in
  tests.

  \<^bold>\<open>Parts and how they meet.\<close>  A service method (atomefin/payment, refund, repayment,
  bill, transaction, virtualaccount, credit) mints a request id, validates the
  request, encodes it and hands the bytes to the Client (atomefin/doer.go).  The
  Client signs exactly these bytes (atomefin/sign), or encrypts them first and signs
  the envelope (atomefin/encrypt), builds one request and sends it until the retry
  policy (atomefin/transport) stops it.  A query signs a canonical string and sends
  a wire string built from the same values.  In the other direction
  atomefin/callback reads a request, verifies its signature with the keys of a
  rotation and only then calls the partner's function.  atomefin/mock answers
  requests from scenarios, replays repeated ones from a bounded cache, checks bodies
  with internal/spec and fires callbacks at handlers.  The bytes in between are JSON:
  every struct that travels has a codec made of its tags, and qa/marshal audits them.

  \<^bold>\<open>Theories and sources.\<close>
  \<^item> Go_Prelude, Go_Strings: Go's types (strings and []byte as strings of bytes,
    int64 as 64-bit words read by sint, maps as association lists, (value, error) as
    a sum, json values) and what the code uses of strings, strconv, encoding/hex,
    encoding/base64, net/url and net/http's header keys, each codec with its round
    trip.
  \<^item> Errors: errors.go, codes.go.  The error values are the datatype \<open>go_error\<close>;
    wrapping, texts, Temporary and the transport classifier are functions on it.
  \<^item> Sign_Canonical, Sign_Schemes: sign/canonical.go (the query builders, loop by
    loop), signer.go, verifier.go, hmac.go, pem.go.  The locales \<open>verifier_contract\<close>
    and \<open>signature_scheme\<close> state what a handler relies on; both schemes interpret
    them.
  \<^item> Encrypt: encrypt/*.go, with padding, blocks, header grammar and key drawing.
  \<^item> Retry_Policy: transport/retry.go.  Log_Redaction: transport/logging.go, slog.go.
  \<^item> Client_Config: client.go, options.go, environment.go, version.go,
    transport/useragent.go.  An option is a function on the record \<open>config\<close>; the
    inductive predicate \<open>sdk_option\<close> is the set of options the package exports.
  \<^item> Client_Dispatch: doer.go, heartbeat.go.  A call takes a record \<open>world\<close> with the
    outcome of every attempt and returns its result with the trace of requests,
    observer calls and log lines.  Request_Id: request_id.go.
  \<^item> Payment_Types, Payment_Validate, Payment_Service, Poll: atomefin/payment.  The
    structs are records, the validators lists of guards in the order of the code.
    The locales \<open>submit_call\<close> and \<open>idempotent_call\<close> state what the submissions share
    (validate, then one signed POST; a filled-in id is kept) and are interpreted on
    the six payment calls and on those of the next group.
  \<^item> Commerce_Types, Commerce_Service: refund, repayment, bill, transaction,
    virtualaccount, with the pollers and the page walk of TransactionsAll.
  \<^item> Credit_Types, Credit_Service: credit and callback/account_change_types.go.  The
    locale \<open>encrypted_call\<close> is the contract of the calls that send envelopes.
  \<^item> Callback: callback/verifier.go, handler.go and the exported handlers.
  \<^item> Mock_Cache, Mock_Scenarios, Mock_Server, Mock_Client: atomefin/mock.  The cache
    keeps its linked list, its items map and a heap of elements; the locale
    \<open>lru_table\<close> is the abstract table it refines.
  \<^item> Mock_Interleave: serveHTTP cut at its locked sections, as steps of goroutines that
    move in any order (the inductive predicates \<open>mock_step\<close> and \<open>mock_reaches\<close>);
    a goroutine that is not disturbed does what Mock_Server's serveHTTP does.
    Mock_Retry: the Client of Client_Dispatch against that server over a network that
    may lose replies.
  \<^item> Constants: the const blocks of all packages as tables, with the theorem that each
    IsValid accepts exactly the table of its type.
  \<^item> Spec_Check: internal/spec, with the walker, the sort and the presence check.
  \<^item> Spec_Server: qa/specserver, the strict test server and the table runner.
  \<^item> Json_Text: the compact text of the json type as encoding/json writes it (escapes,
    the HTML characters left alone, invalid UTF-8 replaced) and a reader with its
    depth limit.  Json_Codec: marshal.go and the codecs of Go's types; the tags of a
    struct are a list of fields, with omitempty, pointers, slices and maps, and the
    decoder finds members by folded names as json.Unmarshal does.  The predicate
    \<open>codec_ok\<close> is the contract that what is encoded is decoded again; the laws of all
    codecs are collected in \<open>codec_laws\<close>.
  \<^item> Payment_Json, Commerce_Json, Credit_Json: the codec of every struct of these
    packages, one per type in types.go, with its law.  Wire_Format: the error
    envelope, the acknowledgement, the heartbeat reply, strictDecode, and what the
    calls, the errors and the callbacks become with these codecs in place of
    arguments.
  \<^item> Qa_Marshal: qa/marshal/roundtrip.go, its assertions over a codec, the token walk
    on a model of json.Decoder and the byte scanner of top-level keys.
  \<^item> Examples: the three programs of examples/ (auth_capture, webhook_server,
    credit_information_pre) as functions of the environment, the files and the
    network.  Accessors: the accessors of Client and Verifier, the default
    http.Client, the methods of the typed errors, mock/keys.go and small helpers.

  \<^bold>\<open>What the properties show.\<close>
  \<^item> Sending: every request of a call is the same, carries the signature of its own
    bytes and headers no option can overwrite; a retry only follows a retryable
    outcome and at most MaxAttempts requests leave; what the result says about the
    reply; recovery after retryable failures.
  \<^item> Queries: what is signed (the first value of each key) and what is sent (every
    value), and that the wire query loses nothing.
  \<^item> Encryption and signatures: the envelope opens to the body it was made of;
    beside the listed properties, that each scheme accepts what it signs and that
    loaded keys are strong.
  \<^item> Validation and calls: validateAuthRequest accepts exactly the listed requests;
    totals match sums as integers (of a precheck only when its amounts are given),
    Auth and the commerce calls send nothing unvalidated, a repeated call is the same call, and the calls of the
    encrypted endpoints (user tag, credit information, credit application) send
    envelopes only.  Other calls, /modify-application-info and /auth among them, carry
    their personal fields as plain JSON.
  \<^item> JSON: a value is read back from its text, so that the gateway can read every
    request that is sent; what an APIError says of an error reply; an event fired at
    a handler arrives as it is.  Every codec has this law, as a lemma of its theory.
  \<^item> Loops: how a poll ends and that it ends, that the page walk ends with all rows.
  \<^item> Callbacks: the partner's function runs only for verified events and runs for
    every one signed with any secret it was configured with; the replay window.
  \<^item> Mock and spec: the cache refines the abstract table and a repeated request gets the
    first answer, so that a call whose replies get lost runs once; in every
    interleaving a replay repeats a reply that was written, but concurrent duplicates
    can both run; the presence check and the walker compute what the document defines,
    body, query and header lists;
    what a clean subtest of the test server means.
  \<^item> Audits and examples: the round-trip assertions report nothing exactly when the
    struct's JSON is decoded to the same value, the audit of amount keys is exact and
    its walk ends, what the scan for top-level keys takes for a key; the demo captures only what was
    authorised.
  \<^item> Boundaries: for which policies and attempts the backoff wraps to a negative wait,
    and for which requests a sum of amounts may wrap and be accepted; minted ids
    are ordered as time is; redaction hides exactly the sensitive values.

  \<^bold>\<open>Bounds, fuel and arguments.\<close>  The retry loop ends by the measure MaxAttempts less
  the attempt.  The poll loop and the page walk may run for ever in the code, so they
  are partial functions and their termination is a theorem with the hypotheses it
  needs (a positive floor of the delays; a gateway that serves a finite list of
  rows).  The walker recurses to the depth limit of the code, thirteen levels.  The
  token walk of qa/marshal has fuel for calls and iterations; twice the length of the
  text and one more is proved to be enough.  A request at the mock server takes at
  most four steps, which is the fuel of \<open>run_alone\<close>.  The JSON reader counts its nesting down
  from ten thousand, the limit of encoding/json.  The AES key is drawn from a list of
  random numbers given in advance; None means the list was too short.  Arguments stand
  for what is not in src/: cryptographic primitives, the spelling of floating-point
  numbers, the texts of the errors of encoding/json, YAML, url.Parse, clocks, random
  sources, the network, the file system, floating-point products, partner functions.
  The theories of the calls take the encoding as an argument and Wire_Format gives it
  its codecs.  Theorems that need a law of these state it as a hypothesis, and their
  witness instantiates it.

  \<^bold>\<open>Not modelled.\<close>  Mutexes: every method that takes one is a single step, and only the
  mock server's requests are interleaved at that grain; the Client and the Verifier
  have no state that changes, and the test server of qa/specserver and the mock
  Transport of a mock Client serve one request after the other here.  Nil and
  empty slices are one value, written as the JSON null of a nil slice.  What
  auth_capture and webhook_server log is left out, and so is the listening socket of
  the latter.  A number directly followed by the next value is not split as
  json.Decoder would.  The row counters of a page walk are unbounded integers.  An
  observer can only return or panic, and its panic is logged at the hook.  doc.go files have no code.
\<close>

end
